(* ===== verification/Prelude.thy ===== *)
theory Prelude
  imports Main "HOL-Library.Word" "HOL-Library.Monad_Syntax"
begin

text \<open>
  What every component of the gateway model shares: the names of the machine integers, the
  conventions for Rust's partiality, and the iterator adaptors of the standard library the
  source calls (\<open>any\<close>, \<open>min_by\<close>, \<open>max_by\<close>, \<open>sort_by\<close>) with their laws.

  Conventions. A Rust computation that may panic has type \<open>'a panics\<close>, where \<open>None\<close> is
  the panic; a \<open>Result\<close> is a sum with the error on the left; a Rust \<open>Option\<close> is an
  \<open>option\<close>. Every integer keeps its width.
\<close>

type_synonym u8 = "8 word"
type_synonym u16 = "16 word"
type_synonym u32 = "32 word"
type_synonym u64 = "64 word"
type_synonym usize = "64 word"

type_synonym rstring = string

type_synonym 'a panics = "'a option"

named_theorems result_simps \<open>unfolding of checked computations and results\<close>
named_theorems oracle_simps \<open>what an eligibility oracle answers\<close>
named_theorems order_simps \<open>comparison of ordered enumerations\<close>

subsection \<open>Machine integers\<close>

definition saturating_sub :: "'l::len word \<Rightarrow> 'l word \<Rightarrow> 'l word" where
  "saturating_sub a b = (if b \<le> a then a - b else 0)"

definition saturating_add :: "'l::len word \<Rightarrow> 'l word \<Rightarrow> 'l word" where
  "saturating_add a b =
     (if unat a + unat b < 2 ^ LENGTH('l) then a + b else - 1)"

lemma unat_saturating_sub: "unat (saturating_sub a b) = unat a - unat b"
  by (simp add: saturating_sub_def unat_sub word_le_nat_alt)

lemma unat_saturating_add:
  fixes a b :: "'l::len word"
  shows "unat (saturating_add a b) = min (unat a + unat b) (2 ^ LENGTH('l) - 1)"
proof (cases "unat a + unat b < 2 ^ LENGTH('l)")
  case True
  then show ?thesis by (simp add: saturating_add_def unat_word_ariths)
next
  case False
  moreover have "unat (- 1 :: 'l word) = 2 ^ LENGTH('l) - 1"
    by (simp add: unsigned_minus_1_eq_mask mask_eq_exp_minus_1)
  ultimately show ?thesis by (simp add: saturating_add_def)
qed

lemma unat_add_no_wrap:
  fixes a b :: "'l::len word"
  shows "unat a + unat b < 2 ^ LENGTH('l) \<Longrightarrow> unat (a + b) = unat a + unat b"
  by (simp add: unat_word_ariths)

subsection \<open>Searching a list with a test that may panic\<close>

text \<open>\<open>Iterator::any\<close>: stops at the first element that answers true, or panics.\<close>

fun try_any :: "('a \<Rightarrow> bool panics) \<Rightarrow> 'a list \<Rightarrow> bool panics" where
  "try_any f [] = Some False"
| "try_any f (x # xs) =
     (case f x of None \<Rightarrow> None | Some True \<Rightarrow> Some True | Some False \<Rightarrow> try_any f xs)"

lemma try_any_total:
  "(\<And>x. x \<in> set xs \<Longrightarrow> f x = Some (p x)) \<Longrightarrow> try_any f xs = Some (\<exists>x \<in> set xs. p x)"
  by (induction xs) (auto split: bool.splits)

lemma try_any_SomeD:
  "try_any f xs = Some b \<Longrightarrow> b \<longleftrightarrow> (\<exists>x \<in> set xs. f x = Some True)"
  by (induction xs) (auto split: option.splits bool.splits)

lemma try_any_panics:
  "try_any f xs = None \<Longrightarrow> \<exists>x \<in> set xs. f x = None"
  by (induction xs) (auto split: option.splits bool.splits)

lemma try_any_cong [fundef_cong]:
  "xs = ys \<Longrightarrow> (\<And>x. x \<in> set ys \<Longrightarrow> f x = g x) \<Longrightarrow> try_any f xs = try_any g ys"
  by (induction xs arbitrary: ys) (auto split: option.splits bool.splits)

subsection \<open>Comparators\<close>

text \<open>\<open>std::cmp::Ordering\<close>, and the iterator methods that take a comparator.\<close>

datatype ordering = Less | Equal | Greater

definition cmp_key :: "('a \<Rightarrow> 'k::linorder) \<Rightarrow> 'a \<Rightarrow> 'a \<Rightarrow> ordering" where
  "cmp_key k a b = (if k a < k b then Less else if k b < k a then Greater else Equal)"

fun cmp_then :: "ordering \<Rightarrow> ordering \<Rightarrow> ordering" where
  "cmp_then Equal o2 = o2"
| "cmp_then o1 _ = o1"

fun cmp_rev :: "ordering \<Rightarrow> ordering" where
  "cmp_rev Less = Greater"
| "cmp_rev Equal = Equal"
| "cmp_rev Greater = Less"

text \<open>\<open>Iterator::min_by\<close> keeps the first of equal minima, \<open>max_by\<close> the last of equal maxima.\<close>

fun min_by :: "('a \<Rightarrow> 'a \<Rightarrow> ordering) \<Rightarrow> 'a list \<Rightarrow> 'a option" where
  "min_by cmp [] = None"
| "min_by cmp (x # xs) = Some (foldl (\<lambda>a b. if cmp a b = Greater then b else a) x xs)"

fun max_by :: "('a \<Rightarrow> 'a \<Rightarrow> ordering) \<Rightarrow> 'a list \<Rightarrow> 'a option" where
  "max_by cmp [] = None"
| "max_by cmp (x # xs) = Some (foldl (\<lambda>a b. if cmp a b = Greater then a else b) x xs)"

text \<open>\<open>slice::sort_by\<close> is a stable sort; insertion keeps the order of equal elements.\<close>

fun insert_by :: "('a \<Rightarrow> 'a \<Rightarrow> ordering) \<Rightarrow> 'a \<Rightarrow> 'a list \<Rightarrow> 'a list" where
  "insert_by cmp x [] = [x]"
| "insert_by cmp x (y # ys) = (if cmp x y = Greater then y # insert_by cmp x ys else x # y # ys)"

fun sort_by :: "('a \<Rightarrow> 'a \<Rightarrow> ordering) \<Rightarrow> 'a list \<Rightarrow> 'a list" where
  "sort_by cmp [] = []"
| "sort_by cmp (x # xs) = insert_by cmp x (sort_by cmp xs)"

lemma set_insert_by [simp]: "set (insert_by cmp x ys) = insert x (set ys)"
  by (induction ys) auto

lemma set_sort_by [simp]: "set (sort_by cmp xs) = set xs"
  by (induction xs) auto

lemma insert_by_not_Nil [simp]: "insert_by cmp x ys \<noteq> []"
  by (cases ys) auto

lemma sort_by_eq_Nil [simp]: "sort_by cmp xs = [] \<longleftrightarrow> xs = []"
  by (cases xs) auto

lemma foldl_choose_in: "(\<And>a b. f a b = a \<or> f a b = b) \<Longrightarrow> foldl f x xs \<in> set (x # xs)"
proof (induction xs arbitrary: x)
  case Nil
  show ?case by simp
next
  case (Cons y ys)
  then have "foldl f (f x y) ys \<in> set (f x y # ys)" by blast
  with Cons.prems [of x y] show ?case by auto
qed

lemma min_by_in: "min_by cmp xs = Some x \<Longrightarrow> x \<in> set xs"
  using foldl_choose_in [where f = "\<lambda>a b. if cmp a b = Greater then b else a"]
  by (cases xs) fastforce+

lemma max_by_in: "max_by cmp xs = Some x \<Longrightarrow> x \<in> set xs"
  using foldl_choose_in [where f = "\<lambda>a b. if cmp a b = Greater then a else b"]
  by (cases xs) fastforce+

lemma min_by_None [simp]: "min_by cmp xs = None \<longleftrightarrow> xs = []"
  by (cases xs) auto

lemma max_by_None [simp]: "max_by cmp xs = None \<longleftrightarrow> xs = []"
  by (cases xs) auto

text \<open>
  What a comparator promises the iterator methods: on the values that occur it is a total
  preorder. \<open>f64::partial_cmp\<close> keeps the promise away from NaN, an integer key always.
\<close>

locale total_comparator =
  fixes cmp :: "'a \<Rightarrow> 'a \<Rightarrow> ordering" and ok :: "'a \<Rightarrow> bool"
  assumes flip: "ok a \<Longrightarrow> ok b \<Longrightarrow> cmp a b = Greater \<longleftrightarrow> cmp b a = Less"
    and le_trans: "ok a \<Longrightarrow> ok b \<Longrightarrow> ok c \<Longrightarrow> cmp a b \<noteq> Greater \<Longrightarrow> cmp b c \<noteq> Greater
      \<Longrightarrow> cmp a c \<noteq> Greater"
begin

lemma le_refl: "ok a \<Longrightarrow> cmp a a \<noteq> Greater"
  using flip [of a a] by auto

lemma greater_le: "ok a \<Longrightarrow> ok b \<Longrightarrow> cmp a b = Greater \<Longrightarrow> cmp b a \<noteq> Greater"
  using flip by auto

lemma foldl_min:
  assumes "ok x" and "\<forall>y \<in> set xs. ok y"
  shows "ok (foldl (\<lambda>a b. if cmp a b = Greater then b else a) x xs)
    \<and> (\<forall>y \<in> set (x # xs). cmp (foldl (\<lambda>a b. if cmp a b = Greater then b else a) x xs) y \<noteq> Greater)"
  using assms
proof (induction xs arbitrary: x)
  case Nil
  then show ?case by (simp add: le_refl)
next
  case (Cons y ys)
  let ?m = "if cmp x y = Greater then y else x"
  from Cons.prems have m: "ok ?m" "cmp ?m x \<noteq> Greater" "cmp ?m y \<noteq> Greater"
    by (auto simp: le_refl dest: greater_le)
  from Cons.prems m(1) have IH: "ok (foldl (\<lambda>a b. if cmp a b = Greater then b else a) ?m ys)"
    "\<forall>z \<in> set (?m # ys). cmp (foldl (\<lambda>a b. if cmp a b = Greater then b else a) ?m ys) z \<noteq> Greater"
    using Cons.IH [of ?m] by auto
  from IH(2) have "cmp (foldl (\<lambda>a b. if cmp a b = Greater then b else a) ?m ys) ?m \<noteq> Greater"
    by simp
  with m IH(1) Cons.prems
  have "cmp (foldl (\<lambda>a b. if cmp a b = Greater then b else a) ?m ys) x \<noteq> Greater"
    "cmp (foldl (\<lambda>a b. if cmp a b = Greater then b else a) ?m ys) y \<noteq> Greater"
    by (meson le_trans list.set_intros)+
  with IH show ?case by simp
qed

lemma min_by_least:
  "min_by cmp xs = Some m \<Longrightarrow> \<forall>y \<in> set xs. ok y \<Longrightarrow> y \<in> set xs \<Longrightarrow> cmp m y \<noteq> Greater"
  by (cases xs) (use foldl_min in \<open>auto\<close>)

lemma hd_insert_by: "ok x \<Longrightarrow> \<forall>y \<in> set ys. ok y \<Longrightarrow>
    (ys \<noteq> [] \<Longrightarrow> \<forall>y \<in> set ys. cmp (hd ys) y \<noteq> Greater) \<Longrightarrow>
    \<forall>y \<in> set (insert_by cmp x ys). cmp (hd (insert_by cmp x ys)) y \<noteq> Greater"
  by (cases ys) (auto simp: le_refl dest: greater_le, meson le_trans)

lemma hd_sort_by:
  "\<forall>y \<in> set xs. ok y \<Longrightarrow> y \<in> set xs \<Longrightarrow> cmp (hd (sort_by cmp xs)) y \<noteq> Greater"
proof (induction xs arbitrary: y)
  case Nil
  then show ?case by simp
next
  case (Cons x xs)
  have "\<forall>y \<in> set (insert_by cmp x (sort_by cmp xs)).
      cmp (hd (insert_by cmp x (sort_by cmp xs))) y \<noteq> Greater"
    using Cons.IH Cons.prems(1) by (intro hd_insert_by) auto
  with Cons.prems(2) show ?case by auto
qed

end

interpretation key_cmp: total_comparator "cmp_key k" "\<lambda>_. True" for k
  by unfold_locales (auto simp: cmp_key_def split: if_splits)

text \<open>Wherever a relation holds of the whole list, it holds of what the search returns.\<close>

lemma hd_sort_by_in: "xs \<noteq> [] \<Longrightarrow> hd (sort_by cmp xs) \<in> set xs"
  by (metis hd_in_set set_sort_by sort_by_eq_Nil)

end
