(* ===== verification/Rust_Str.thy ===== *)
theory Rust_Str
  imports Prelude
begin

text \<open>
  The string operations of Rust's standard library that the gateway calls. A \<open>String\<close> is
  its UTF-8 bytes, one \<open>char\<close> per byte, so \<open>length\<close> is \<open>str::len\<close> and every search
  and slice is by byte offset, as in Rust.
\<close>

text \<open>The characters that a literal cannot hold.\<close>

abbreviation apos :: rstring where "apos \<equiv> [CHR 0x27]"
abbreviation dquote :: rstring where "dquote \<equiv> [CHR 0x22]"
abbreviation nl :: rstring where "nl \<equiv> [CHR 0x0A]"

subsection \<open>ASCII classes and case\<close>

definition byte_of :: "char \<Rightarrow> nat" where
  "byte_of c = of_char c"

definition is_ascii_upper :: "char \<Rightarrow> bool" where
  "is_ascii_upper c \<longleftrightarrow> 65 \<le> byte_of c \<and> byte_of c \<le> 90"

definition is_ascii_lower :: "char \<Rightarrow> bool" where
  "is_ascii_lower c \<longleftrightarrow> 97 \<le> byte_of c \<and> byte_of c \<le> 122"

definition is_ascii_digit :: "char \<Rightarrow> bool" where
  "is_ascii_digit c \<longleftrightarrow> 48 \<le> byte_of c \<and> byte_of c \<le> 57"

definition is_ascii_alphanumeric :: "char \<Rightarrow> bool" where
  "is_ascii_alphanumeric c \<longleftrightarrow> is_ascii_upper c \<or> is_ascii_lower c \<or> is_ascii_digit c"

definition ascii_lower_char :: "char \<Rightarrow> char" where
  "ascii_lower_char c = (if is_ascii_upper c then char_of (byte_of c + 32) else c)"

definition to_ascii_lowercase :: "rstring \<Rightarrow> rstring" where
  "to_ascii_lowercase s = map ascii_lower_char s"

definition eq_ignore_ascii_case :: "rstring \<Rightarrow> rstring \<Rightarrow> bool" where
  "eq_ignore_ascii_case a b \<longleftrightarrow> to_ascii_lowercase a = to_ascii_lowercase b"

lemma ascii_lower_char_idem [simp]: "ascii_lower_char (ascii_lower_char c) = ascii_lower_char c"
proof (cases "is_ascii_upper c")
  case True
  then have "byte_of (char_of (byte_of c + 32)) = byte_of c + 32"
    by (simp add: byte_of_def is_ascii_upper_def)
  with True show ?thesis by (simp add: ascii_lower_char_def is_ascii_upper_def)
next
  case False
  then show ?thesis by (simp add: ascii_lower_char_def)
qed

lemma to_ascii_lowercase_idem [simp]:
  "to_ascii_lowercase (to_ascii_lowercase s) = to_ascii_lowercase s"
  by (simp add: to_ascii_lowercase_def)

lemma length_to_ascii_lowercase [simp]: "length (to_ascii_lowercase s) = length s"
  by (simp add: to_ascii_lowercase_def)

lemma to_ascii_lowercase_append [simp]:
  "to_ascii_lowercase (s @ t) = to_ascii_lowercase s @ to_ascii_lowercase t"
  by (simp add: to_ascii_lowercase_def)

lemma to_ascii_lowercase_Nil [simp]: "to_ascii_lowercase [] = []"
  by (simp add: to_ascii_lowercase_def)

subsection \<open>Prefixes, suffixes, search and slices\<close>

fun starts_with :: "rstring \<Rightarrow> rstring \<Rightarrow> bool" where
  "starts_with s [] = True"
| "starts_with [] (p # ps) = False"
| "starts_with (c # s) (p # ps) = (c = p \<and> starts_with s ps)"

definition ends_with :: "rstring \<Rightarrow> rstring \<Rightarrow> bool" where
  "ends_with s p = starts_with (rev s) (rev p)"

fun str_find :: "rstring \<Rightarrow> rstring \<Rightarrow> nat option" where
  "str_find [] p = (if p = [] then Some 0 else None)"
| "str_find (c # s) p =
     (if starts_with (c # s) p then Some 0 else map_option Suc (str_find s p))"

definition str_contains :: "rstring \<Rightarrow> rstring \<Rightarrow> bool" where
  "str_contains s p \<longleftrightarrow> str_find s p \<noteq> None"

definition strip_prefix :: "rstring \<Rightarrow> rstring \<Rightarrow> rstring option" where
  "strip_prefix s p = (if starts_with s p then Some (drop (length p) s) else None)"

text \<open>
  \<open>&s[a..b]\<close> panics when the range runs backwards or past the end. (It also panics inside a
  character; every range of the source has its ends at matched ASCII delimiters.)
\<close>

definition slice :: "rstring \<Rightarrow> nat \<Rightarrow> nat \<Rightarrow> rstring panics" where
  "slice s a b = (if a \<le> b \<and> b \<le> length s then Some (take (b - a) (drop a s)) else None)"

fun split_on :: "char \<Rightarrow> rstring \<Rightarrow> rstring list" where
  "split_on c [] = [[]]"
| "split_on c (x # xs) =
     (if x = c then [] # split_on c xs
      else (x # hd (split_on c xs)) # tl (split_on c xs))"

definition split_once :: "char \<Rightarrow> rstring \<Rightarrow> (rstring \<times> rstring) option" where
  "split_once c s =
     (if c \<in> set s then Some (takeWhile (\<lambda>x. x \<noteq> c) s, tl (dropWhile (\<lambda>x. x \<noteq> c) s)) else None)"

fun str_join :: "rstring \<Rightarrow> rstring list \<Rightarrow> rstring" where
  "str_join sep [] = []"
| "str_join sep [x] = x"
| "str_join sep (x # y # ys) = x @ sep @ str_join sep (y # ys)"

lemma starts_with_iff: "starts_with s p \<longleftrightarrow> (\<exists>r. s = p @ r)"
  by (induction s p rule: starts_with.induct) auto

lemma starts_with_append [simp]: "starts_with (p @ r) p"
  by (auto simp: starts_with_iff)

lemma ends_with_iff: "ends_with s p \<longleftrightarrow> (\<exists>r. s = r @ p)"
  unfolding ends_with_def starts_with_iff by (metis rev_append rev_rev_ident)

lemma str_find_Some:
  "str_find s p = Some i \<Longrightarrow> \<exists>a b. s = a @ p @ b \<and> length a = i"
proof (induction s arbitrary: i)
  case Nil
  then show ?case by (auto split: if_splits)
next
  case (Cons c s)
  show ?case
  proof (cases "starts_with (c # s) p")
    case True
    with Cons.prems show ?thesis by (auto simp: starts_with_iff)
  next
    case False
    with Cons.prems obtain j where j: "str_find s p = Some j" "i = Suc j" by auto
    from Cons.IH [OF j(1)] obtain a b where "s = a @ p @ b" "length a = j" by blast
    with j(2) show ?thesis by (metis append_Cons length_Cons)
  qed
qed

lemma str_find_least:
  "str_find s p = Some i \<Longrightarrow> s = a @ p @ b \<Longrightarrow> i \<le> length a"
proof (induction s arbitrary: i a)
  case Nil
  then show ?case by (auto split: if_splits)
next
  case (Cons c s)
  show ?case
  proof (cases a)
    case Nil
    with Cons.prems(2) have "starts_with (c # s) p" by (auto simp: starts_with_iff)
    with Cons.prems(1) show ?thesis by simp
  next
    case (Cons d a')
    with Cons.prems Cons.IH [of _ a'] show ?thesis by (auto split: if_splits)
  qed
qed

lemma str_find_None: "str_find s p = None \<longleftrightarrow> (\<nexists>a b. s = a @ p @ b)"
proof (induction s)
  case Nil
  show ?case by auto
next
  case (Cons c s)
  have "(\<exists>a b. c # s = a @ p @ b) \<longleftrightarrow> (\<exists>b. c # s = p @ b) \<or> (\<exists>a b. s = a @ p @ b)"
    by (metis append_Cons append_Nil list.sel(3) neq_Nil_conv)
  with Cons show ?case by (auto simp: starts_with_iff)
qed

lemma str_contains_iff: "str_contains s p \<longleftrightarrow> (\<exists>a b. s = a @ p @ b)"
  by (simp add: str_contains_def str_find_None)

lemma slice_Some: "slice s a b = Some w \<longleftrightarrow> a \<le> b \<and> b \<le> length s \<and> w = take (b - a) (drop a s)"
  by (auto simp: slice_def)

lemma slice_middle: "slice (f @ w @ l) (length f) (length f + length w) = Some w"
  by (simp add: slice_def)

lemma split_on_not_Nil [simp]: "split_on c s \<noteq> []"
  by (cases s) auto

lemma split_on_no_sep: "c \<notin> set s \<Longrightarrow> split_on c s = [s]"
  by (induction s) auto

lemma length_split_on: "length (split_on c s) = Suc (count_list s c)"
  by (induction s) auto

lemma str_join_split_on: "str_join [c] (split_on c s) = s"
proof (induction s)
  case Nil
  show ?case by simp
next
  case (Cons x xs)
  then show ?case
    by (cases "split_on c xs"; cases "tl (split_on c xs)") auto
qed

subsection \<open>White space\<close>

text \<open>
  \<open>char::is_whitespace\<close> is the Unicode property \<open>White_Space\<close>; these are the UTF-8 encodings
  of its members (U+0009 to U+000D, U+0020, U+0085, U+00A0, U+1680, U+2000 to U+200A, U+2028,
  U+2029, U+202F, U+205F, U+3000).
\<close>

definition ws_encodings :: "rstring list" where
  "ws_encodings =
     [[CHR 0x09], [CHR 0x0A], [CHR 0x0B], [CHR 0x0C], [CHR 0x0D], [CHR 0x20],
      [CHR 0xC2, CHR 0x85], [CHR 0xC2, CHR 0xA0], [CHR 0xE1, CHR 0x9A, CHR 0x80],
      [CHR 0xE2, CHR 0x80, CHR 0x80], [CHR 0xE2, CHR 0x80, CHR 0x81],
      [CHR 0xE2, CHR 0x80, CHR 0x82], [CHR 0xE2, CHR 0x80, CHR 0x83],
      [CHR 0xE2, CHR 0x80, CHR 0x84], [CHR 0xE2, CHR 0x80, CHR 0x85],
      [CHR 0xE2, CHR 0x80, CHR 0x86], [CHR 0xE2, CHR 0x80, CHR 0x87],
      [CHR 0xE2, CHR 0x80, CHR 0x88], [CHR 0xE2, CHR 0x80, CHR 0x89],
      [CHR 0xE2, CHR 0x80, CHR 0x8A], [CHR 0xE2, CHR 0x80, CHR 0xA8],
      [CHR 0xE2, CHR 0x80, CHR 0xA9], [CHR 0xE2, CHR 0x80, CHR 0xAF],
      [CHR 0xE2, CHR 0x81, CHR 0x9F], [CHR 0xE3, CHR 0x80, CHR 0x80]]"

fun trim_start_n :: "nat \<Rightarrow> rstring \<Rightarrow> rstring" where
  "trim_start_n 0 s = s"
| "trim_start_n (Suc n) s =
     (case filter (starts_with s) ws_encodings of
        [] \<Rightarrow> s
      | w # _ \<Rightarrow> trim_start_n n (drop (length w) s))"

text \<open>Each round removes at least one byte, so as many rounds as bytes are enough.\<close>

definition trim_start :: "rstring \<Rightarrow> rstring" where
  "trim_start s = trim_start_n (length s) s"

fun trim_end_n :: "nat \<Rightarrow> rstring \<Rightarrow> rstring" where
  "trim_end_n 0 s = s"
| "trim_end_n (Suc n) s =
     (case filter (ends_with s) ws_encodings of
        [] \<Rightarrow> s
      | w # _ \<Rightarrow> trim_end_n n (take (length s - length w) s))"

definition trim_end :: "rstring \<Rightarrow> rstring" where
  "trim_end s = trim_end_n (length s) s"

definition str_trim :: "rstring \<Rightarrow> rstring" where
  "str_trim s = trim_end (trim_start s)"

lemma ws_encodings_nonempty: "w \<in> set ws_encodings \<Longrightarrow> w \<noteq> []"
  by (auto simp: ws_encodings_def)

text \<open>Text that begins and ends with a visible ASCII character is its own trimming.\<close>

definition visible :: "char \<Rightarrow> bool" where
  "visible c \<longleftrightarrow> 32 < byte_of c \<and> byte_of c < 128"

lemma ws_encodings_ends:
  "\<forall>w \<in> set ws_encodings. w \<noteq> [] \<and> \<not> visible (hd w) \<and> \<not> visible (last w)"
  by (simp add: ws_encodings_def visible_def byte_of_def)

lemma trim_start_visible: "s = [] \<or> visible (hd s) \<Longrightarrow> trim_start s = s"
proof -
  assume s: "s = [] \<or> visible (hd s)"
  have "filter (starts_with s) ws_encodings = []" if "s \<noteq> []"
    using s that ws_encodings_ends by (auto simp: filter_empty_conv starts_with_iff)
  then show ?thesis by (cases s) (simp_all add: trim_start_def)
qed

lemma trim_end_visible: "s = [] \<or> visible (last s) \<Longrightarrow> trim_end s = s"
proof -
  assume s: "s = [] \<or> visible (last s)"
  have "filter (ends_with s) ws_encodings = []" if "s \<noteq> []"
    using s that ws_encodings_ends by (auto simp: filter_empty_conv ends_with_iff)
  then show ?thesis by (cases s) (simp_all add: trim_end_def)
qed

lemma str_trim_visible:
  "s = [] \<or> visible (hd s) \<and> visible (last s) \<Longrightarrow> str_trim s = s"
  by (auto simp: str_trim_def trim_start_visible trim_end_visible)

subsection \<open>Characters\<close>

text \<open>
  \<open>str::chars\<close>: the text cut after each encoded character. The lead byte fixes the length of
  an encoding; text is valid UTF-8, so the continuation bytes are there.
\<close>

definition utf8_width :: "char \<Rightarrow> nat" where
  "utf8_width c =
     (if byte_of c < 192 then 1 else if byte_of c < 224 then 2 else if byte_of c < 240 then 3 else 4)"

function str_chars :: "rstring \<Rightarrow> rstring list" where
  "str_chars [] = []"
| "str_chars (c # s) = (c # take (utf8_width c - 1) s) # str_chars (drop (utf8_width c - 1) s)"
  by pat_completeness auto
termination by (relation "measure length") auto

lemma concat_str_chars [simp]: "concat (str_chars s) = s"
  by (induction s rule: str_chars.induct) auto

lemma length_str_chars_le: "length (str_chars s) \<le> length s"
  by (induction s rule: str_chars.induct) (auto intro: order_trans)

text \<open>\<open>str::split\<close> with a test on characters.\<close>

fun split_chars :: "(rstring \<Rightarrow> bool) \<Rightarrow> rstring list \<Rightarrow> rstring list" where
  "split_chars sep [] = [[]]"
| "split_chars sep (c # cs) =
     (if sep c then [] # split_chars sep cs
      else (c @ hd (split_chars sep cs)) # tl (split_chars sep cs))"

text \<open>
  The Unicode tables behind \<open>is_alphanumeric\<close>, \<open>is_alphabetic\<close> and \<open>to_lowercase\<close> are data of
  the standard library; the operations that consult them take them as an argument.
\<close>

record unicode =
  u_alphanumeric :: "rstring \<Rightarrow> bool"
  u_alphabetic :: "rstring \<Rightarrow> bool"
  u_to_lowercase :: "rstring \<Rightarrow> rstring"

text \<open>The tables restricted to ASCII, for evaluation.\<close>

definition ascii_unicode :: unicode where
  "ascii_unicode =
     \<lparr> u_alphanumeric = (\<lambda>c. \<exists>x \<in> set c. is_ascii_alphanumeric x),
       u_alphabetic = (\<lambda>c. \<exists>x \<in> set c. is_ascii_upper x \<or> is_ascii_lower x),
       u_to_lowercase = to_ascii_lowercase \<rparr>"

subsection \<open>Decimal text\<close>

fun dec_digits :: "nat \<Rightarrow> rstring" where
  "dec_digits n =
     (if n < 10 then [char_of (48 + n)] else dec_digits (n div 10) @ [char_of (48 + n mod 10)])"

declare dec_digits.simps [simp del]

lemma dec_digits_not_Nil [simp]: "dec_digits n \<noteq> []"
  by (subst dec_digits.simps) simp

end
