(* ===== verification/Glob.thy ===== *)
theory Glob
  imports Rust_Str
begin

text \<open>
  The wildcard matcher of the routing allow and deny lists (\<open>glob_matches\<close> in
  \<open>aura-types/src/routing.rs\<close>) and a reference semantics of its pattern language: \<open>*\<close>
  matches any run of characters, every other character itself.

  The code splits the pattern at the stars, anchors the first and last segment and then searches
  the middle segments greedily from the left. The theory shows that this greedy search decides
  the reference semantics whenever the two anchors do not overlap in the text, and says exactly
  what the code does when they do: it panics on a backward slice, or accepts a text the pattern
  does not match.
\<close>

subsection \<open>The code\<close>

abbreviation star :: char where
  "star \<equiv> CHR ''*''"

text \<open>The loop over the middle segments: \<open>pos\<close> is the current offset, \<open>e\<close> the fixed end.\<close>

fun glob_middle :: "rstring list \<Rightarrow> rstring \<Rightarrow> nat \<Rightarrow> nat \<Rightarrow> bool panics" where
  "glob_middle [] text pos e = Some True"
| "glob_middle (seg # segs) text pos e =
     (if seg = [] then glob_middle segs text pos e
      else (case slice text pos e of
              None \<Rightarrow> None
            | Some window \<Rightarrow>
                (case str_find window seg of
                   None \<Rightarrow> Some False
                 | Some i \<Rightarrow> glob_middle segs text (pos + (i + length seg)) e)))"

text \<open>
  \<open>parts[1..parts.len() - 1]\<close> of a pattern without a star is the backward slice \<open>[1..0]\<close>, so a
  single part panics once the anchors match.
\<close>

definition glob_matches :: "rstring \<Rightarrow> rstring \<Rightarrow> bool panics" where
  "glob_matches pattern text =
     (let parts = split_on star pattern;
          first = hd parts;
          final = last parts
      in if \<not> starts_with text first \<or> \<not> ends_with text final then Some False
         else if length parts = 2 then Some (length first + length final \<le> length text)
         else if length parts < 2 then None
         else glob_middle (butlast (tl parts)) text (length first) (length text - length final))"

subsection \<open>The reference semantics\<close>

fun glob_spec :: "rstring \<Rightarrow> rstring \<Rightarrow> bool" where
  "glob_spec [] t = (t = [])"
| "glob_spec (c # p) t =
     (if c = star then (\<exists>k \<in> set [0..<Suc (length t)]. glob_spec p (drop k t))
      else (case t of [] \<Rightarrow> False | x # xs \<Rightarrow> x = c \<and> glob_spec p xs))"

text \<open>The same over the segments between the stars.\<close>

fun parts_match :: "rstring list \<Rightarrow> rstring \<Rightarrow> bool" where
  "parts_match [] t = False"
| "parts_match [p] t = (t = p)"
| "parts_match (p # q # ps) t = (\<exists>u v. t = p @ u @ v \<and> parts_match (q # ps) v)"

text \<open>The middle segments occur in order, disjointly, somewhere in the window.\<close>

fun in_order :: "rstring list \<Rightarrow> rstring \<Rightarrow> bool" where
  "in_order [] w = True"
| "in_order (s # ss) w = (\<exists>a b. w = a @ s @ b \<and> in_order ss b)"

subsection \<open>The segments characterise the pattern\<close>

lemma parts_match_Cons:
  "ps \<noteq> [] \<Longrightarrow> parts_match ((c # hd ps) # tl ps) t \<longleftrightarrow> (\<exists>xs. t = c # xs \<and> parts_match ps xs)"
  by (cases ps; cases "tl ps") auto

lemma star_choice: "(\<exists>k \<in> set [0..<Suc (length t)]. P (drop k t)) \<longleftrightarrow> (\<exists>u v. t = u @ v \<and> P v)"
proof
  assume "\<exists>k \<in> set [0..<Suc (length t)]. P (drop k t)"
  then show "\<exists>u v. t = u @ v \<and> P v" by (metis append_take_drop_id)
next
  assume "\<exists>u v. t = u @ v \<and> P v"
  then obtain u v where "t = u @ v" "P v" by blast
  then have "length u \<in> set [0..<Suc (length t)] \<and> P (drop (length u) t)"
    by (auto simp: less_Suc_eq_le simp del: upt_Suc)
  then show "\<exists>k \<in> set [0..<Suc (length t)]. P (drop k t)" by blast
qed

lemma glob_spec_parts: "glob_spec p t \<longleftrightarrow> parts_match (split_on star p) t"
proof (induction p arbitrary: t)
  case Nil
  show ?case by simp
next
  case (Cons c p)
  show ?case
  proof (cases "c = star")
    case True
    have "parts_match ([] # split_on star p) t \<longleftrightarrow> (\<exists>u v. t = u @ v \<and> parts_match (split_on star p) v)"
      by (cases "split_on star p") auto
    moreover have "glob_spec (c # p) t \<longleftrightarrow> (\<exists>u v. t = u @ v \<and> glob_spec p v)"
      unfolding True glob_spec.simps star_choice by simp
    ultimately show ?thesis using True Cons.IH by simp
  next
    case False
    with Cons show ?thesis by (auto simp: parts_match_Cons split: list.splits)
  qed
qed

lemma in_order_extend: "in_order ss w \<Longrightarrow> in_order ss (a @ w)"
  by (cases ss) (auto, metis append.assoc)

lemma parts_match_in_order:
  "parts_match (f # mids @ [l]) t \<longleftrightarrow> (\<exists>w. t = f @ w @ l \<and> in_order mids w)"
proof (induction mids arbitrary: f t)
  case Nil
  show ?case by auto
next
  case (Cons s ss)
  have "parts_match (f # (s # ss) @ [l]) t \<longleftrightarrow>
      (\<exists>u v. t = f @ u @ v \<and> (\<exists>w. v = s @ w @ l \<and> in_order ss w))"
    using Cons by simp
  also have "\<dots> \<longleftrightarrow> (\<exists>w. t = f @ w @ l \<and> in_order (s # ss) w)"
    by (auto, metis append.assoc, metis append.assoc)
  finally show ?case .
qed

subsection \<open>Greedy search is complete\<close>

lemma greedy_step:
  assumes "str_find w s = Some i"
  shows "in_order (s # ss) w \<longleftrightarrow> in_order ss (drop (i + length s) w)"
proof
  assume "in_order (s # ss) w"
  then obtain a b where ab: "w = a @ s @ b" "in_order ss b" by auto
  from assms ab(1) have "i \<le> length a" by (rule str_find_least)
  then have "drop (i + length s) w = drop (i + length s) (a @ s) @ b"
    using ab(1) by (simp add: drop_append [of _ "a @ s" b, simplified])
  with ab(2) show "in_order ss (drop (i + length s) w)" by (simp add: in_order_extend)
next
  assume *: "in_order ss (drop (i + length s) w)"
  from str_find_Some [OF assms] obtain a b where "w = a @ s @ b" "length a = i" by blast
  with * show "in_order (s # ss) w" by auto
qed

lemma glob_middle_in_order:
  "pos \<le> e \<Longrightarrow> e \<le> length text \<Longrightarrow>
     glob_middle segs text pos e = Some (in_order segs (take (e - pos) (drop pos text)))"
proof (induction segs arbitrary: pos)
  case Nil
  show ?case by simp
next
  case (Cons s ss)
  let ?w = "take (e - pos) (drop pos text)"
  show ?case
  proof (cases "s = []")
    case True
    have "in_order ([] # ss) ?w \<longleftrightarrow> in_order ss ?w"
      using in_order_extend by auto
    with True Cons show ?thesis by simp
  next
    case False
    from Cons.prems have sl: "slice text pos e = Some ?w" by (simp add: slice_def)
    show ?thesis
    proof (cases "str_find ?w s")
      case None
      then have "\<not> in_order (s # ss) ?w" by (auto simp: str_find_None)
      with None False sl show ?thesis by simp
    next
      case (Some i)
      from str_find_Some [OF Some] obtain a b where "?w = a @ s @ b" "length a = i" by blast
      then have "i + length s \<le> length ?w" by (metis length_append le_add1 add.assoc)
      with Cons.prems have le: "pos + (i + length s) \<le> e" by simp
      have "take (e - (pos + (i + length s))) (drop (pos + (i + length s)) text)
          = drop (i + length s) ?w"
        by (simp add: drop_take add.commute add.left_commute)
      with Cons.IH [OF le Cons.prems(2)] Some False sl greedy_step [OF Some, of ss]
      show ?thesis by simp
    qed
  qed
qed

lemma split_star_shape:
  assumes "star \<in> set p"
  obtains f mids l where "split_on star p = f # mids @ [l]"
    "hd (split_on star p) = f" "last (split_on star p) = l" "butlast (tl (split_on star p)) = mids"
proof -
  from assms have "2 \<le> length (split_on star p)"
    by (simp add: length_split_on) (metis count_list_0_iff not_less_eq_eq le_zero_eq One_nat_def)
  then obtain f r where fr: "split_on star p = f # r" "r \<noteq> []"
    by (cases "split_on star p") (auto simp: Suc_le_eq)
  then have "split_on star p = f # butlast r @ [last r]" by simp
  with fr that show thesis by (metis butlast_snoc last_snoc last_ConsR list.sel(1,3))
qed

lemma glob_matches_unfold:
  assumes "star \<in> set p" "split_on star p = f # mids @ [l]"
  shows "glob_matches p t =
    (if \<not> starts_with t f \<or> \<not> ends_with t l then Some False
     else if mids = [] then Some (length f + length l \<le> length t)
     else glob_middle mids t (length f) (length t - length l))"
  using assms(2) by (auto simp: glob_matches_def Let_def butlast_append)

lemma anchored_split:
  assumes "starts_with t f" "ends_with t l" "length f + length l \<le> length t"
  shows "t = f @ take (length t - length l - length f) (drop (length f) t) @ l"
proof -
  from assms(1) obtain r where r: "t = f @ r" by (auto simp: starts_with_iff)
  from assms(2) obtain q where q: "t = q @ l" by (auto simp: ends_with_iff)
  from r q assms(3) have "\<exists>w. r = w @ l"
    by (metis add_le_cancel_right append_eq_append_conv2 length_append append.assoc le_add1
        add_leD1 append_eq_append_conv_if append_take_drop_id)
  then obtain w where "t = f @ w @ l" using r by blast
  then show ?thesis by simp
qed

lemma glob_matches_correct:
  assumes "star \<in> set p"
    and "length (hd (split_on star p)) + length (last (split_on star p)) \<le> length t"
  shows "glob_matches p t = Some (glob_spec p t)"
proof -
  from assms(1) obtain f mids l where sp: "split_on star p = f # mids @ [l]"
    "hd (split_on star p) = f" "last (split_on star p) = l" "butlast (tl (split_on star p)) = mids"
    by (rule split_star_shape)
  from assms(2) sp have len: "length f + length l \<le> length t" by simp
  have spec: "glob_spec p t \<longleftrightarrow> (\<exists>w. t = f @ w @ l \<and> in_order mids w)"
    by (simp add: glob_spec_parts sp(1) parts_match_in_order)
  show ?thesis
  proof (cases "starts_with t f \<and> ends_with t l")
    case False
    then have "\<not> glob_spec p t"
      unfolding spec by (auto simp: starts_with_iff ends_with_iff)
    with False show ?thesis using glob_matches_unfold [OF assms(1) sp(1)] by auto
  next
    case True
    let ?w = "take (length t - length l - length f) (drop (length f) t)"
    from True len have t: "t = f @ ?w @ l" by (intro anchored_split) auto
    have "glob_spec p t \<longleftrightarrow> in_order mids ?w"
      unfolding spec by (metis t append_same_eq append_eq_append_conv same_append_eq)
    moreover have "glob_middle mids t (length f) (length t - length l) = Some (in_order mids ?w)"
      using len by (intro glob_middle_in_order) auto
    ultimately show ?thesis
      using True len glob_matches_unfold [OF assms(1) sp(1)] by auto
  qed
qed

subsection \<open>When the anchors overlap\<close>

lemma glob_middle_backward:
  "e < pos \<Longrightarrow> glob_middle segs text pos e = (if \<forall>s \<in> set segs. s = [] then Some True else None)"
  by (induction segs) (auto simp: slice_def)

lemma glob_matches_overlap:
  assumes "star \<in> set p"
    and "length t < length (hd (split_on star p)) + length (last (split_on star p))"
    and "starts_with t (hd (split_on star p))" "ends_with t (last (split_on star p))"
  shows "\<not> glob_spec p t \<and> glob_matches p t =
    (if length (split_on star p) = 2 then Some False
     else if \<forall>s \<in> set (butlast (tl (split_on star p))). s = [] then Some True else None)"
proof -
  from assms(1) obtain f mids l where sp: "split_on star p = f # mids @ [l]"
    "hd (split_on star p) = f" "last (split_on star p) = l" "butlast (tl (split_on star p)) = mids"
    by (rule split_star_shape)
  have "\<not> glob_spec p t"
    using assms(2) sp by (auto simp: glob_spec_parts parts_match_in_order)
  moreover have "length t - length l < length f"
    using assms(2-4) sp by (auto simp: ends_with_iff)
  ultimately show ?thesis
    using assms sp glob_matches_unfold [OF assms(1) sp(1)] by (auto simp: glob_middle_backward)
qed

lemma glob_matches_total:
  assumes "count_list p star = 1"
  shows "glob_matches p t = Some (glob_spec p t)"
proof -
  from assms have s: "star \<in> set p" by (metis count_notin zero_neq_one)
  from assms have two: "length (split_on star p) = 2" by (simp add: length_split_on)
  show ?thesis
  proof (cases "length (hd (split_on star p)) + length (last (split_on star p)) \<le> length t")
    case True
    with s show ?thesis by (rule glob_matches_correct)
  next
    case False
    show ?thesis
    proof (cases "starts_with t (hd (split_on star p)) \<and> ends_with t (last (split_on star p))")
      case True
      with False s two glob_matches_overlap [of p t] show ?thesis by simp
    next
      case nomatch: False
      then have "glob_matches p t = Some False" by (auto simp: glob_matches_def Let_def)
      moreover have "\<not> glob_spec p t"
        using s nomatch False
        by (elim split_star_shape) (auto simp: glob_spec_parts parts_match_in_order)
      ultimately show ?thesis by simp
    qed
  qed
qed

end
