(* ===== verification/F64.thy ===== *)
theory F64
  imports Complex_Main Rust_Str
begin

text \<open>
  IEEE 754 binary floating point as Rust computes it: the value of an \<open>f64\<close> is a rational
  number, an infinity or NaN, and an operation is the exact rational operation followed by
  rounding to nearest, ties to even, at 53 bits with the exponent range of the format (\<open>f32\<close>:
  24 bits). Gradual underflow and overflow to infinity are modelled; the sign of a zero is not,
  and no operation of the source observes it.

  The laws: rounding is monotone and leaves representable numbers alone, hence so do the sums,
  products and quotients of non-negative numbers the gateway bills with.
\<close>

subsection \<open>Rounding to nearest, ties to even\<close>

fun nbits :: "nat \<Rightarrow> nat" where
  "nbits n = (if n = 0 then 0 else Suc (nbits (n div 2)))"

declare nbits.simps [simp del]

definition ilog2 :: "rat \<Rightarrow> int" where
  "ilog2 x =
     (let (n, d) = quotient_of x;
          e = int (nbits (nat n)) - int (nbits (nat d))
      in if 2 powi e \<le> x then e else e - 1)"

definition round_half_even :: "rat \<Rightarrow> int" where
  "round_half_even q =
     (let f = \<lfloor>q\<rfloor>; r = q - of_int f
      in if r < 1/2 then f else if 1/2 < r then f + 1 else if even f then f else f + 1)"

definition ulp_exp :: "nat \<Rightarrow> int \<Rightarrow> rat \<Rightarrow> int" where
  "ulp_exp p emin x = max (ilog2 x - (int p - 1)) emin"

definition rnd_pos :: "nat \<Rightarrow> int \<Rightarrow> rat \<Rightarrow> rat" where
  "rnd_pos p emin x =
     (let e = ulp_exp p emin x in of_int (round_half_even (x / 2 powi e)) * 2 powi e)"

definition rnd :: "nat \<Rightarrow> int \<Rightarrow> rat \<Rightarrow> rat" where
  "rnd p emin x =
     (if x = 0 then 0 else if 0 < x then rnd_pos p emin x else - rnd_pos p emin (- x))"

lemma round_half_even_of_int [simp]: "round_half_even (of_int n) = n"
  by (simp add: round_half_even_def)

lemma round_half_even_bounds:
  "\<lfloor>q\<rfloor> \<le> round_half_even q \<and> round_half_even q \<le> \<lfloor>q\<rfloor> + 1"
  by (simp add: round_half_even_def Let_def)

lemma round_half_even_mono: "q \<le> q' \<Longrightarrow> round_half_even q \<le> round_half_even q'"
proof (cases "\<lfloor>q\<rfloor> = \<lfloor>q'\<rfloor>")
  case True
  assume "q \<le> q'"
  with True show ?thesis by (auto simp: round_half_even_def Let_def)
next
  case False
  assume "q \<le> q'"
  with False have "\<lfloor>q\<rfloor> + 1 \<le> \<lfloor>q'\<rfloor>" using floor_mono [of q q'] by linarith
  then show ?thesis using round_half_even_bounds [of q] round_half_even_bounds [of q'] by linarith
qed

lemma nbits_bounds: "0 < n \<Longrightarrow> 2 ^ (nbits n - 1) \<le> n \<and> n < 2 ^ nbits n \<and> 0 < nbits n"
proof (induction n rule: nbits.induct)
  case (1 n)
  show ?case
  proof (cases "n div 2 = 0")
    case True
    with 1 have "n = 1" by simp
    then show ?thesis by (simp add: nbits.simps)
  next
    case False
    with 1 have IH: "2 ^ (nbits (n div 2) - 1) \<le> n div 2" "n div 2 < 2 ^ nbits (n div 2)"
      "0 < nbits (n div 2)" by auto
    have n: "nbits n = Suc (nbits (n div 2))" using 1 by (subst nbits.simps) simp
    from IH(1,3) have "2 ^ nbits (n div 2) \<le> n"
      by (cases "nbits (n div 2)") auto
    moreover from IH(2) have "n < 2 ^ Suc (nbits (n div 2))" by simp
    ultimately show ?thesis by (simp add: n)
  qed
qed

lemma powi_nat: "(2 :: rat) powi int k = 2 ^ k"
  by simp

lemma powi2_pos [simp]: "0 < (2 :: rat) powi e"
  by simp

lemma powi2_le_iff: "(2 :: rat) powi a \<le> 2 powi b \<longleftrightarrow> a \<le> b"
  by (metis linorder_not_le one_less_numeral_iff power_int_strict_increasing
      power_int_increasing one_le_numeral semiring_norm(76))

lemma of_int_pow2:
  assumes "0 < n"
  shows "(2::rat) ^ k \<le> of_int n \<longleftrightarrow> 2 ^ k \<le> nat n" "(of_int n :: rat) < 2 ^ k \<longleftrightarrow> nat n < 2 ^ k"
proof -
  have r: "(of_int n :: rat) = of_nat (nat n)" "(2::rat) ^ k = of_nat (2 ^ k)" using assms by simp_all
  show "(2::rat) ^ k \<le> of_int n \<longleftrightarrow> 2 ^ k \<le> nat n" "(of_int n :: rat) < 2 ^ k \<longleftrightarrow> nat n < 2 ^ k"
    unfolding r by (simp_all only: of_nat_le_iff of_nat_less_iff)
qed

lemma powi_quotient: "(2::rat) ^ a / 2 ^ b = 2 powi (int a - int b)"
  by (simp add: power_int_diff)

lemma ilog2_bounds:
  assumes "0 < x"
  shows "2 powi (ilog2 x) \<le> x \<and> x < 2 powi (ilog2 x + 1)"
proof -
  obtain n d where q: "quotient_of x = (n, d)" by fastforce
  then have x: "x = of_int n / of_int d" and d: "0 < d"
    by (simp_all add: quotient_of_div quotient_of_denom_pos)
  with assms have n: "0 < n" by (simp add: zero_less_divide_iff)
  let ?a = "nbits (nat n)" and ?b = "nbits (nat d)"
  have an: "2 ^ (?a - 1) \<le> nat n" "nat n < 2 ^ ?a" "0 < ?a"
    using nbits_bounds [of "nat n"] n by auto
  have bd: "2 ^ (?b - 1) \<le> nat d" "nat d < 2 ^ ?b" "0 < ?b"
    using nbits_bounds [of "nat d"] d by auto
  have an': "(2::rat) ^ (?a - 1) \<le> of_int n" "(of_int n :: rat) < 2 ^ ?a"
    using an n by (simp_all add: of_int_pow2)
  have bd': "(2::rat) ^ (?b - 1) \<le> of_int d" "(of_int d :: rat) < 2 ^ ?b"
    using bd d by (simp_all add: of_int_pow2)
  let ?e = "int ?a - int ?b"
  have up: "x < 2 powi (?e + 1)"
  proof -
    have "x < 2 ^ ?a / 2 ^ (?b - 1)"
      unfolding x using an' bd' d n by (intro frac_less) auto
    also have "\<dots> = 2 powi (?e + 1)"
      using bd(3) by (simp add: powi_quotient of_nat_diff algebra_simps)
    finally show ?thesis .
  qed
  have lo: "2 powi (?e - 1) \<le> x"
  proof -
    have "2 powi (?e - 1) = (2::rat) ^ (?a - 1) / 2 ^ ?b"
      using an(3) by (simp add: powi_quotient of_nat_diff algebra_simps)
    also have "\<dots> \<le> x" unfolding x using an' bd' d n by (intro frac_le) auto
    finally show ?thesis .
  qed
  show ?thesis
    using up lo unfolding ilog2_def q by (auto simp: Let_def)
qed

lemma ilog2_unique:
  assumes "0 < x" "2 powi e \<le> x" "x < 2 powi (e + 1)"
  shows "ilog2 x = e"
proof -
  have b: "2 powi (ilog2 x) \<le> x" "x < 2 powi (ilog2 x + 1)" using ilog2_bounds [OF assms(1)] by auto
  have "(2::rat) powi e < 2 powi (ilog2 x + 1)" "(2::rat) powi (ilog2 x) < 2 powi (e + 1)"
    using assms b by linarith+
  then have "\<not> ilog2 x + 1 \<le> e" "\<not> e + 1 \<le> ilog2 x"
    by (auto simp: powi2_le_iff [symmetric])
  then show ?thesis by linarith
qed

lemma ilog2_mono: "0 < x \<Longrightarrow> x \<le> y \<Longrightarrow> ilog2 x \<le> ilog2 y"
proof -
  assume *: "0 < x" "x \<le> y"
  then have "(2::rat) powi (ilog2 x) < 2 powi (ilog2 y + 1)"
    using ilog2_bounds [of x] ilog2_bounds [of y] by linarith
  then have "\<not> ilog2 y + 1 \<le> ilog2 x" by (auto simp: powi2_le_iff [symmetric])
  then show ?thesis by linarith
qed

lemma rnd_pos_le_pow2:
  assumes "0 < x" "x \<le> 2 powi k" "ulp_exp p emin x \<le> k"
  shows "rnd_pos p emin x \<le> 2 powi k"
proof -
  let ?e = "ulp_exp p emin x"
  have i: "(2::rat) powi (k - ?e) = of_int (2 ^ nat (k - ?e))"
    using assms(3) by (simp add: power_int_def)
  have "x / 2 powi ?e \<le> 2 powi (k - ?e)"
    using assms(2) by (simp add: power_int_diff divide_right_mono)
  then have "round_half_even (x / 2 powi ?e) \<le> round_half_even (2 powi (k - ?e))"
    by (rule round_half_even_mono)
  then have "round_half_even (x / 2 powi ?e) \<le> 2 ^ nat (k - ?e)" unfolding i by (simp only: round_half_even_of_int)
  then have "(of_int (round_half_even (x / 2 powi ?e)) :: rat) \<le> 2 powi (k - ?e)"
    unfolding i by (simp only: of_int_le_iff)
  then have "of_int (round_half_even (x / 2 powi ?e)) * 2 powi ?e \<le> (2::rat) powi (k - ?e) * 2 powi ?e"
    by (intro mult_right_mono) auto
  then show ?thesis by (simp add: rnd_pos_def Let_def flip: power_int_add)
qed

lemma rnd_pos_ge_pow2:
  assumes "0 < x" "2 powi k \<le> x" "ulp_exp p emin x \<le> k"
  shows "2 powi k \<le> rnd_pos p emin x"
proof -
  let ?e = "ulp_exp p emin x"
  have i: "(2::rat) powi (k - ?e) = of_int (2 ^ nat (k - ?e))"
    using assms(3) by (simp add: power_int_def)
  have "2 powi (k - ?e) \<le> x / 2 powi ?e"
    using assms(2) by (simp add: power_int_diff divide_right_mono)
  then have "round_half_even (2 powi (k - ?e)) \<le> round_half_even (x / 2 powi ?e)"
    by (rule round_half_even_mono)
  then have "2 ^ nat (k - ?e) \<le> round_half_even (x / 2 powi ?e)" unfolding i by (simp only: round_half_even_of_int)
  then have "(2::rat) powi (k - ?e) \<le> of_int (round_half_even (x / 2 powi ?e))"
    unfolding i by (simp only: of_int_le_iff)
  then have "(2::rat) powi (k - ?e) * 2 powi ?e \<le> of_int (round_half_even (x / 2 powi ?e)) * 2 powi ?e"
    by (intro mult_right_mono) auto
  then show ?thesis by (simp add: rnd_pos_def Let_def flip: power_int_add)
qed

lemma rnd_pos_mono:
  assumes "0 < x" "x \<le> y" "0 < p"
  shows "rnd_pos p emin x \<le> rnd_pos p emin y"
proof (cases "ulp_exp p emin x = ulp_exp p emin y")
  case True
  have "round_half_even (x / 2 powi ulp_exp p emin y) \<le> round_half_even (y / 2 powi ulp_exp p emin y)"
    using assms by (intro round_half_even_mono divide_right_mono) auto
  then show ?thesis using True by (simp add: rnd_pos_def Let_def)
next
  case False
  let ?k = "ilog2 y"
  from assms(1,2) have le: "ilog2 x \<le> ?k" by (rule ilog2_mono)
  with False have lt: "ilog2 x + 1 \<le> ?k" "ulp_exp p emin y \<le> ?k" "ulp_exp p emin x \<le> ?k"
    using assms(3) by (auto simp: ulp_exp_def max_def split: if_splits)
  have "x < 2 powi (ilog2 x + 1)" using ilog2_bounds [OF assms(1)] by simp
  also have "\<dots> \<le> 2 powi ?k" using lt(1) by (simp only: powi2_le_iff)
  finally have "rnd_pos p emin x \<le> 2 powi ?k"
    using assms(1) lt(3) by (intro rnd_pos_le_pow2) auto
  also have "\<dots> \<le> rnd_pos p emin y"
    using assms ilog2_bounds [of y] lt(2) by (intro rnd_pos_ge_pow2) auto
  finally show ?thesis .
qed

lemma rnd_pos_nonneg: "0 < x \<Longrightarrow> 0 \<le> rnd_pos p emin x"
proof -
  assume "0 < x"
  then have "0 \<le> x / 2 powi ulp_exp p emin x" by simp
  then have "round_half_even 0 \<le> round_half_even (x / 2 powi ulp_exp p emin x)"
    by (rule round_half_even_mono)
  then have "0 \<le> round_half_even (x / 2 powi ulp_exp p emin x)"
    using round_half_even_of_int [of 0] by simp
  then show ?thesis by (simp add: rnd_pos_def Let_def)
qed

lemma rnd_mono: "0 < p \<Longrightarrow> x \<le> y \<Longrightarrow> rnd p emin x \<le> rnd p emin y"
  using rnd_pos_mono [of x y p emin] rnd_pos_mono [of "- y" "- x" p emin]
    rnd_pos_nonneg [of y p emin] rnd_pos_nonneg [of "- x" p emin]
  by (auto simp: rnd_def)

lemma rnd_0 [simp]: "rnd p emin 0 = 0"
  by (simp add: rnd_def)

lemma rnd_uminus: "rnd p emin (- x) = - rnd p emin x"
  by (auto simp: rnd_def)

text \<open>An integer that fits the significand is representable.\<close>

lemma rnd_of_nat:
  assumes "n < 2 ^ p" "emin \<le> 0" "0 < p"
  shows "rnd p emin (of_nat n) = of_nat n"
proof (cases "n = 0")
  case False
  then have pos: "(0::rat) < of_nat n" by simp
  let ?e = "ulp_exp p emin (of_nat n)"
  have "2 powi ilog2 (of_nat n) \<le> (of_nat n :: rat)" using ilog2_bounds [OF pos] by simp
  also have "\<dots> < 2 powi int p" using assms(1) by (simp add: of_nat_less_numeral_power_cancel_iff)
  finally have "\<not> int p \<le> ilog2 (of_nat n)" by (auto simp: powi2_le_iff [symmetric])
  then have "?e \<le> 0" using assms(2) by (simp add: ulp_exp_def)
  then have "(of_nat n :: rat) / 2 powi ?e = of_int (int n * 2 ^ nat (- ?e))"
    by (simp add: power_int_def field_simps)
  then have "round_half_even (of_nat n / 2 powi ?e) = int n * 2 ^ nat (- ?e)"
    by (simp only: round_half_even_of_int)
  then have "rnd_pos p emin (of_nat n) = of_int (int n * 2 ^ nat (- ?e)) * 2 powi ?e"
    by (simp add: rnd_pos_def Let_def)
  also have "\<dots> = of_nat n" using \<open>?e \<le> 0\<close> by (auto simp: power_int_def simp flip: power_mult_distrib)
  finally show ?thesis using pos by (simp add: rnd_def)
qed simp

subsection \<open>Evaluation in integer arithmetic\<close>

text \<open>
  The rounding as a computation on the numerator and the denominator; the kernel evaluates
  concrete sums and products with these equations.
\<close>

function int_pow2 :: "int \<Rightarrow> int" where
  "int_pow2 e = (if e \<le> 0 then 1 else 2 * int_pow2 (e - 1))"
  by pat_completeness auto
termination by (relation "measure nat") auto

function int_bits :: "int \<Rightarrow> int" where
  "int_bits n = (if n \<le> 0 then 0 else 1 + int_bits (n div 2))"
  by pat_completeness auto
termination by (relation "measure nat") auto

declare int_pow2.simps [simp del] int_bits.simps [simp del]

lemma int_pow2_eq: "int_pow2 e = 2 ^ nat e"
proof (induction e rule: int_pow2.induct)
  case (1 e)
  show ?case
  proof (cases "e \<le> 0")
    case False
    then have "nat e = Suc (nat (e - 1))" by simp
    with 1 False show ?thesis by (subst int_pow2.simps) simp
  qed (subst int_pow2.simps, simp)
qed

lemma int_bits_eq: "int_bits n = int (nbits (nat n))"
proof (induction n rule: int_bits.induct)
  case (1 n)
  show ?case
  proof (cases "n \<le> 0")
    case True
    then show ?thesis by (subst int_bits.simps) (simp add: nbits.simps)
  next
    case False
    then have "nat n div 2 = nat (n div 2)" by (simp add: nat_div_distrib)
    with 1 False show ?thesis by (subst int_bits.simps, subst nbits.simps) simp
  qed
qed

lemma powi_as_pow2: "(2 :: rat) powi e = (if 0 \<le> e then of_int (int_pow2 e) else 1 / of_int (int_pow2 (- e)))"
  by (simp add: int_pow2_eq power_int_def inverse_eq_divide power_one_over)

lemma ilog2_code [code]:
  "ilog2 x =
     (let (n, d) = quotient_of x;
          e = int_bits n - int_bits d
      in if (if 0 \<le> e then d * int_pow2 e \<le> n else d \<le> n * int_pow2 (- e)) then e else e - 1)"
proof -
  obtain n d where q: "quotient_of x = (n, d)" by fastforce
  then have d: "0 < d" "x = of_int n / of_int d"
    by (auto simp: quotient_of_denom_pos quotient_of_div)
  have "2 powi e \<le> x \<longleftrightarrow> (if 0 \<le> e then d * int_pow2 e \<le> n else d \<le> n * int_pow2 (- e))" for e
  proof -
    have p: "0 < int_pow2 f" for f by (simp add: int_pow2_eq)
    have "of_int (int_pow2 e) \<le> (of_int n / of_int d :: rat) \<longleftrightarrow> int_pow2 e * d \<le> n"
      using d(1) by (metis of_int_0_less_iff of_int_le_iff of_int_mult pos_le_divide_eq)
    moreover have "1 / of_int (int_pow2 (- e)) \<le> (of_int n / of_int d :: rat) \<longleftrightarrow>
        d \<le> n * int_pow2 (- e)"
    proof -
      have "1 / of_int (int_pow2 (- e)) \<le> (of_int n / of_int d :: rat) \<longleftrightarrow>
          1 * of_int d \<le> (of_int n * of_int (int_pow2 (- e)) :: rat)"
        using d(1) p [of "- e"] by (simp add: pos_divide_le_eq pos_le_divide_eq mult.commute)
      then show ?thesis by (metis mult_1 of_int_le_iff of_int_mult)
    qed
    ultimately show ?thesis
      unfolding d(2) powi_as_pow2 by (simp add: mult.commute)
  qed
  then show ?thesis by (simp add: ilog2_def q Let_def int_bits_eq)
qed

definition half_even_quot :: "int \<Rightarrow> int \<Rightarrow> int" where
  "half_even_quot a b =
     (let f = a div b; r = 2 * (a mod b)
      in if r < b then f else if b < r then f + 1 else if even f then f else f + 1)"

lemma half_even_quot:
  assumes "0 < b"
  shows "round_half_even (of_int a / of_int b) = half_even_quot a b"
proof -
  let ?r = "of_int a / of_int b - of_int (a div b) :: rat"
  have "(of_int a :: rat) = of_int (a div b * b + a mod b)" by simp
  then have "of_int a = of_int (a div b) * of_int b + (of_int (a mod b) :: rat)"
    by (simp only: of_int_add of_int_mult)
  with assms have r: "?r = of_int (a mod b) / of_int b" by (simp add: field_simps)
  have "of_int (a mod b) / of_int b < (1 / 2 :: rat) \<longleftrightarrow> of_int (2 * (a mod b)) < (of_int b :: rat)"
    "(1 / 2 :: rat) < of_int (a mod b) / of_int b \<longleftrightarrow> (of_int b :: rat) < of_int (2 * (a mod b))"
    using assms by (simp_all add: field_simps)
  then show ?thesis
    unfolding round_half_even_def half_even_quot_def Let_def floor_divide_of_int_eq r of_int_less_iff
    by simp
qed

lemma rnd_pos_code [code]:
  "rnd_pos p emin x =
     (let (n, d) = quotient_of x;
          e = max (ilog2 x - (int p - 1)) emin
      in if 0 \<le> e then of_int (half_even_quot n (d * int_pow2 e) * int_pow2 e)
         else of_int (half_even_quot (n * int_pow2 (- e)) d) / of_int (int_pow2 (- e)))"
proof -
  obtain n d where q: "quotient_of x = (n, d)" by fastforce
  then have d: "0 < d" "x = of_int n / of_int d"
    by (auto simp: quotient_of_denom_pos quotient_of_div)
  have "x / 2 powi e = (if 0 \<le> e then of_int n / of_int (d * int_pow2 e)
      else of_int (n * int_pow2 (- e)) / of_int d)" for e
    unfolding d(2) powi_as_pow2 by simp
  moreover have "0 < int_pow2 e" for e by (simp add: int_pow2_eq)
  ultimately show ?thesis
    using d(1)
    unfolding rnd_pos_def ulp_exp_def q Let_def prod.case
    by (simp add: half_even_quot powi_as_pow2 del: of_int_mult)
      (simp add: half_even_quot powi_as_pow2)
qed

subsection \<open>Values and operations\<close>

datatype f64 = Fin rat | PInf | NInf | NaN

type_synonym f32 = f64

definition to_fp :: "nat \<Rightarrow> int \<Rightarrow> int \<Rightarrow> rat \<Rightarrow> f64" where
  "to_fp p emin emax x =
     (let r = rnd p emin x
      in if 2 powi emax \<le> r then PInf else if r \<le> - (2 powi emax) then NInf else Fin r)"

definition to_f64 :: "rat \<Rightarrow> f64" where
  "to_f64 x = to_fp 53 (- 1074) 1024 x"

lemma to_f64_code [code]:
  "to_f64 x =
     (let r = rnd 53 (- 1074) x
      in if \<bar>r\<bar> < 18446744073709551616 then Fin r else to_fp 53 (- 1074) 1024 x)"
proof -
  have "(2 :: rat) powi 1024 = 2 ^ 1024" by (simp add: power_int_def)
  moreover have "(18446744073709551616 :: rat) = 2 ^ 64" by simp
  moreover have "(2 :: rat) ^ 64 \<le> 2 ^ 1024" by (rule power_increasing) simp_all
  ultimately show ?thesis by (auto simp: to_f64_def to_fp_def Let_def)
qed

definition to_f32 :: "rat \<Rightarrow> f32" where
  "to_f32 x = to_fp 24 (- 149) 128 x"

lemma to_f32_code [code]:
  "to_f32 x =
     (let r = rnd 24 (- 149) x
      in if \<bar>r\<bar> < 18446744073709551616 then Fin r else to_fp 24 (- 149) 128 x)"
proof -
  have "(2 :: rat) powi 128 = 2 ^ 128" by (simp add: power_int_def)
  then show ?thesis by (auto simp: to_f32_def to_fp_def Let_def)
qed

fun f64_neg :: "f64 \<Rightarrow> f64" where
  "f64_neg (Fin a) = Fin (- a)"
| "f64_neg PInf = NInf"
| "f64_neg NInf = PInf"
| "f64_neg NaN = NaN"

fun fp_add :: "(rat \<Rightarrow> f64) \<Rightarrow> f64 \<Rightarrow> f64 \<Rightarrow> f64" where
  "fp_add r (Fin a) (Fin b) = r (a + b)"
| "fp_add r NaN _ = NaN"
| "fp_add r _ NaN = NaN"
| "fp_add r PInf NInf = NaN"
| "fp_add r NInf PInf = NaN"
| "fp_add r PInf _ = PInf"
| "fp_add r _ PInf = PInf"
| "fp_add r NInf _ = NInf"
| "fp_add r _ NInf = NInf"

definition f64_sgn :: "f64 \<Rightarrow> rat" where
  "f64_sgn x = (case x of Fin a \<Rightarrow> sgn a | PInf \<Rightarrow> 1 | NInf \<Rightarrow> - 1 | NaN \<Rightarrow> 0)"

definition signed_inf :: "rat \<Rightarrow> f64" where
  "signed_inf s = (if 0 < s then PInf else if s < 0 then NInf else NaN)"

fun fp_mul :: "(rat \<Rightarrow> f64) \<Rightarrow> f64 \<Rightarrow> f64 \<Rightarrow> f64" where
  "fp_mul r (Fin a) (Fin b) = r (a * b)"
| "fp_mul r NaN _ = NaN"
| "fp_mul r _ NaN = NaN"
| "fp_mul r x y = signed_inf (f64_sgn x * f64_sgn y)"

text \<open>Division by a zero gives an infinity of the dividend's sign (the zero taken as positive).\<close>

fun fp_div :: "(rat \<Rightarrow> f64) \<Rightarrow> f64 \<Rightarrow> f64 \<Rightarrow> f64" where
  "fp_div r (Fin a) (Fin b) = (if b = 0 then signed_inf (sgn a) else r (a / b))"
| "fp_div r NaN _ = NaN"
| "fp_div r _ NaN = NaN"
| "fp_div r (Fin a) _ = Fin 0"
| "fp_div r x (Fin b) = signed_inf (f64_sgn x * (if b < 0 then - 1 else 1))"
| "fp_div r _ _ = NaN"

definition f64_add :: "f64 \<Rightarrow> f64 \<Rightarrow> f64" where "f64_add = fp_add to_f64"
definition f64_mul :: "f64 \<Rightarrow> f64 \<Rightarrow> f64" where "f64_mul = fp_mul to_f64"
definition f64_div :: "f64 \<Rightarrow> f64 \<Rightarrow> f64" where "f64_div = fp_div to_f64"

definition f32_add :: "f32 \<Rightarrow> f32 \<Rightarrow> f32" where "f32_add = fp_add to_f32"
definition f32_mul :: "f32 \<Rightarrow> f32 \<Rightarrow> f32" where "f32_mul = fp_mul to_f32"
definition f32_div :: "f32 \<Rightarrow> f32 \<Rightarrow> f32" where "f32_div = fp_div to_f32"

definition f32_sub :: "f32 \<Rightarrow> f32 \<Rightarrow> f32" where
  "f32_sub a b = f32_add a (f64_neg b)"

definition f32_of_nat :: "nat \<Rightarrow> f32" where
  "f32_of_nat n = to_f32 (of_nat n)"

definition f32_lit :: "int \<Rightarrow> int \<Rightarrow> f32" where
  "f32_lit n d = to_f32 (of_int n / of_int d)"

definition f64_sub :: "f64 \<Rightarrow> f64 \<Rightarrow> f64" where
  "f64_sub a b = f64_add a (f64_neg b)"

definition f64_of_nat :: "nat \<Rightarrow> f64" where
  "f64_of_nat n = to_f64 (of_nat n)"

text \<open>A decimal literal of the source: the nearest representable value.\<close>

definition f64_lit :: "int \<Rightarrow> int \<Rightarrow> f64" where
  "f64_lit n d = to_f64 (of_int n / of_int d)"

lemma f64_small_lits [simp]:
  "f64_lit 1 1 = Fin 1" "f64_lit 0 1 = Fin 0" "f64_lit (- 1) 1 = Fin (- 1)"
  "f64_lit 2 1 = Fin 2" "f64_lit 10 1 = Fin 10" "f64_lit 1000 1 = Fin 1000"
  "f64_lit 1000000 1 = Fin 1000000"
  "f64_lit (- 5) 10 = Fin (- 1 / 2)" "f64_lit 5 10 = Fin (1 / 2)"
  by code_simp+

fun f64_le :: "f64 \<Rightarrow> f64 \<Rightarrow> bool" where
  "f64_le NaN _ = False"
| "f64_le _ NaN = False"
| "f64_le NInf _ = True"
| "f64_le _ PInf = True"
| "f64_le (Fin a) (Fin b) = (a \<le> b)"
| "f64_le _ _ = False"

definition f64_lt :: "f64 \<Rightarrow> f64 \<Rightarrow> bool" where
  "f64_lt a b \<longleftrightarrow> f64_le a b \<and> \<not> f64_le b a"

definition partial_cmp :: "f64 \<Rightarrow> f64 \<Rightarrow> ordering option" where
  "partial_cmp a b =
     (if a = NaN \<or> b = NaN then None
      else Some (if f64_lt a b then Less else if f64_lt b a then Greater else Equal))"

text \<open>\<open>partial_cmp(..).unwrap_or(Ordering::Equal)\<close>\<close>

definition f64_cmp :: "f64 \<Rightarrow> f64 \<Rightarrow> ordering" where
  "f64_cmp a b = (case partial_cmp a b of Some c \<Rightarrow> c | None \<Rightarrow> Equal)"

text \<open>\<open>f64::min\<close> and \<open>max\<close> return the other operand when one is NaN.\<close>

definition f64_min :: "f64 \<Rightarrow> f64 \<Rightarrow> f64" where
  "f64_min a b = (if a = NaN then b else if b = NaN then a else if f64_le a b then a else b)"

definition f64_max :: "f64 \<Rightarrow> f64 \<Rightarrow> f64" where
  "f64_max a b = (if a = NaN then b else if b = NaN then a else if f64_le a b then b else a)"

text \<open>\<open>f64::abs\<close>, and \<open>f64::round\<close>: to the nearest integer, halves away from zero.\<close>

fun f64_abs :: "f64 \<Rightarrow> f64" where
  "f64_abs (Fin a) = Fin \<bar>a\<bar>"
| "f64_abs PInf = PInf"
| "f64_abs NInf = PInf"
| "f64_abs NaN = NaN"

fun f64_round :: "f64 \<Rightarrow> f64" where
  "f64_round (Fin a) = Fin (sgn a * of_int \<lfloor>\<bar>a\<bar> + 1 / 2\<rfloor>)"
| "f64_round x = x"

definition f64_clamp :: "f64 \<Rightarrow> f64 \<Rightarrow> f64 \<Rightarrow> f64" where
  "f64_clamp x lo hi = (if f64_lt x lo then lo else if f64_lt hi x then hi else x)"

subsection \<open>Laws\<close>

lemma f64_le_refl: "x \<noteq> NaN \<Longrightarrow> f64_le x x"
  by (cases x) auto

lemma f64_le_trans: "f64_le a b \<Longrightarrow> f64_le b c \<Longrightarrow> f64_le a c"
  by (cases a; cases b; cases c) auto

lemma f64_le_total: "a \<noteq> NaN \<Longrightarrow> b \<noteq> NaN \<Longrightarrow> f64_le a b \<or> f64_le b a"
  by (cases a; cases b) auto

lemma f64_le_antisym: "f64_le a b \<Longrightarrow> f64_le b a \<Longrightarrow> a = b"
  by (cases a; cases b) auto

lemma f64_le_not_NaN: "f64_le a b \<Longrightarrow> a \<noteq> NaN \<and> b \<noteq> NaN"
  by (cases a; cases b) auto

lemma f64_cmp_le: "a \<noteq> NaN \<Longrightarrow> b \<noteq> NaN \<Longrightarrow> f64_cmp a b \<noteq> Greater \<longleftrightarrow> f64_le a b"
  using f64_le_total [of a b] by (auto simp: f64_cmp_def partial_cmp_def f64_lt_def)

text \<open>\<open>partial_cmp\<close> is a comparator wherever the keys are numbers.\<close>

interpretation f64_cmp: total_comparator "\<lambda>a b. f64_cmp (k a) (k b)" "\<lambda>a. k a \<noteq> NaN" for k
proof unfold_locales
  fix a b assume "k a \<noteq> NaN" "k b \<noteq> NaN"
  then show "(f64_cmp (k a) (k b) = Greater) = (f64_cmp (k b) (k a) = Less)"
    by (auto simp: f64_cmp_def partial_cmp_def f64_lt_def)
next
  fix a b c assume "k a \<noteq> NaN" "k b \<noteq> NaN" "k c \<noteq> NaN"
    "f64_cmp (k a) (k b) \<noteq> Greater" "f64_cmp (k b) (k c) \<noteq> Greater"
  then show "f64_cmp (k a) (k c) \<noteq> Greater"
    by (simp add: f64_cmp_le) (blast intro: f64_le_trans)
qed

lemma to_fp_mono: "0 < p \<Longrightarrow> x \<le> y \<Longrightarrow> f64_le (to_fp p emin emax x) (to_fp p emin emax y)"
  using rnd_mono [of p x y emin] by (auto simp: to_fp_def Let_def)

lemma to_f64_mono: "x \<le> y \<Longrightarrow> f64_le (to_f64 x) (to_f64 y)"
  by (simp add: to_f64_def to_fp_mono)

lemma to_f64_not_NaN [simp]: "to_f64 x \<noteq> NaN"
  by (simp add: to_f64_def to_fp_def Let_def)

lemma to_f32_mono: "x \<le> y \<Longrightarrow> f64_le (to_f32 x) (to_f32 y)"
  by (simp add: to_f32_def to_fp_mono)

lemma to_f32_not_NaN [simp]: "to_f32 x \<noteq> NaN"
  by (simp add: to_f32_def to_fp_def Let_def)

lemma to_f64_0 [simp]: "to_f64 0 = Fin 0"
  by (simp add: to_f64_def to_fp_def power_int_minus)

definition f64_nonneg :: "f64 \<Rightarrow> bool" where
  "f64_nonneg x \<longleftrightarrow> f64_le (Fin 0) x"

lemma f64_nonneg_cases: "f64_nonneg x \<longleftrightarrow> (\<exists>a \<ge> 0. x = Fin a) \<or> x = PInf"
  by (cases x) (auto simp: f64_nonneg_def)

lemma to_f64_nonneg: "0 \<le> x \<Longrightarrow> f64_nonneg (to_f64 x)"
  using to_f64_mono [of 0 x] by (simp add: f64_nonneg_def)

lemma f64_le_PInf [simp]: "f64_le x PInf \<longleftrightarrow> x \<noteq> NaN"
  by (cases x) auto

lemma f64_le_NInf [simp]: "f64_le NInf x \<longleftrightarrow> x \<noteq> NaN"
  by (cases x) auto

lemma f64_add_nonneg: "f64_nonneg x \<Longrightarrow> f64_nonneg y \<Longrightarrow> f64_nonneg (f64_add x y)"
  by (cases x; cases y)
    (auto simp: f64_nonneg_def f64_add_def intro: to_f64_nonneg [unfolded f64_nonneg_def])

lemma f64_add_mono:
  "f64_nonneg x \<Longrightarrow> f64_nonneg y \<Longrightarrow> f64_le x x' \<Longrightarrow> f64_le y y' \<Longrightarrow>
     f64_le (f64_add x y) (f64_add x' y')"
  by (cases x; cases y; cases x'; cases y')
    (auto simp: f64_nonneg_def f64_add_def to_f64_mono add_mono)

text \<open>A product of a finite non-negative factor and a finite non-negative rate.\<close>

lemma f64_mul_nonneg: "0 \<le> a \<Longrightarrow> 0 \<le> b \<Longrightarrow> f64_nonneg (f64_mul (Fin a) (Fin b))"
  by (simp add: f64_mul_def to_f64_nonneg)

lemma f64_mul_mono: "a \<le> a' \<Longrightarrow> 0 \<le> b \<Longrightarrow> f64_le (f64_mul (Fin a) (Fin b)) (f64_mul (Fin a') (Fin b))"
  by (simp add: f64_mul_def to_f64_mono mult_right_mono)

lemma f64_div_mono: "a \<le> a' \<Longrightarrow> 0 < b \<Longrightarrow> f64_le (f64_div (Fin a) (Fin b)) (f64_div (Fin a') (Fin b))"
  by (simp add: f64_div_def to_f64_mono divide_right_mono)

text \<open>Below the overflow threshold a rounded value stays finite.\<close>

lemma rnd_le_pow2:
  assumes "0 \<le> x" "x \<le> 2 powi k" "0 < p" "emin \<le> k"
  shows "rnd p emin x \<le> 2 powi k"
proof (cases "x = 0")
  case False
  with assms have x: "0 < x" by simp
  have "2 powi ilog2 x \<le> x" using ilog2_bounds [OF x] by simp
  with assms(2) have "(2::rat) powi ilog2 x \<le> 2 powi k" by linarith
  then have "ilog2 x \<le> k" by (simp only: powi2_le_iff)
  then have "ulp_exp p emin x \<le> k" using assms by (simp add: ulp_exp_def)
  then show ?thesis using x assms rnd_pos_le_pow2 [of x k p emin] by (simp add: rnd_def)
qed simp

lemma to_f64_finite:
  assumes "0 \<le> x" "x \<le> 2 powi k" "- 1074 \<le> k" "k < 1024"
  shows "\<exists>r \<ge> 0. to_f64 x = Fin r \<and> r \<le> 2 powi k"
proof -
  have le: "rnd 53 (- 1074) x \<le> 2 powi k" using assms by (intro rnd_le_pow2) auto
  also have "\<dots> < 2 powi 1024"
    using assms(4) by (metis powi2_le_iff linorder_not_le)
  finally have lt: "rnd 53 (- 1074) x < 2 powi 1024" .
  have ge: "0 \<le> rnd 53 (- 1074) x" using rnd_mono [of 53 0 x "- 1074"] assms(1) by simp
  then have "- (2 powi 1024) < rnd 53 (- 1074) x"
    by (metis neg_less_0_iff_less order_less_le_trans powi2_pos)
  with lt ge le show ?thesis by (auto simp: to_f64_def to_fp_def Let_def)
qed

subsection \<open>Decimal formatting\<close>

text \<open>
  Magnitudes: a non-negative finite number of at most \<open>2 powi k\<close>. Sums, products and quotients
  of such numbers stay finite, so money never turns into NaN or infinity.
\<close>

definition upto_pow :: "int \<Rightarrow> f64 \<Rightarrow> bool" where
  "upto_pow k x \<longleftrightarrow> (\<exists>r \<ge> 0. x = Fin r \<and> r \<le> 2 powi k)"

lemma upto_pow_Fin: "upto_pow k x \<Longrightarrow> f64_nonneg x \<and> x \<noteq> PInf"
  by (auto simp: upto_pow_def f64_nonneg_def)

lemma upto_pow_mono: "upto_pow k x \<Longrightarrow> k \<le> l \<Longrightarrow> upto_pow l x"
proof -
  assume x: "upto_pow k x" and "k \<le> l"
  then have "(2 :: rat) powi k \<le> 2 powi l" by (simp only: powi2_le_iff)
  moreover obtain r where "0 \<le> r" "x = Fin r" "r \<le> 2 powi k" using x by (auto simp: upto_pow_def)
  ultimately show ?thesis unfolding upto_pow_def by (intro exI [of _ r]) auto
qed

lemma upto_pow_lit:
  assumes "0 \<le> n" "0 < d" "of_int n / of_int d \<le> (2 :: rat) powi k" "- 1074 \<le> k" "k < 1024"
  shows "upto_pow k (f64_lit n d)"
  using to_f64_finite [of "of_int n / of_int d" k] assms
  by (auto simp: upto_pow_def f64_lit_def)

lemma upto_pow_of_nat:
  "of_nat n \<le> (2 :: rat) powi k \<Longrightarrow> - 1074 \<le> k \<Longrightarrow> k < 1024 \<Longrightarrow> upto_pow k (f64_of_nat n)"
  using to_f64_finite [of "of_nat n" k] by (auto simp: upto_pow_def f64_of_nat_def)

lemma upto_pow_add:
  assumes "upto_pow k x" "upto_pow k y" "- 1074 \<le> k" "k < 1023"
  shows "upto_pow (k + 1) (f64_add x y)"
proof -
  from assms obtain a b where ab: "x = Fin a" "y = Fin b" "0 \<le> a" "0 \<le> b" "a \<le> 2 powi k" "b \<le> 2 powi k"
    by (auto simp: upto_pow_def)
  have "(2 :: rat) powi (k + 1) = 2 * 2 powi k" by (simp add: power_int_add)
  with ab have "a + b \<le> 2 powi (k + 1)" by linarith
  with ab assms(3,4) show ?thesis
    using to_f64_finite [of "a + b" "k + 1"] by (auto simp: upto_pow_def f64_add_def)
qed

lemma upto_pow_mul:
  assumes "upto_pow k x" "upto_pow l y" "- 1074 \<le> k + l" "k + l < 1024"
  shows "upto_pow (k + l) (f64_mul x y)"
proof -
  from assms obtain a b where ab: "x = Fin a" "y = Fin b" "0 \<le> a" "0 \<le> b" "a \<le> 2 powi k" "b \<le> 2 powi l"
    by (auto simp: upto_pow_def)
  then have "a * b \<le> 2 powi k * 2 powi l" by (intro mult_mono) auto
  then have "a * b \<le> 2 powi (k + l)" by (simp add: power_int_add)
  with ab assms(3,4) show ?thesis
    using to_f64_finite [of "a * b" "k + l"] by (auto simp: upto_pow_def f64_mul_def)
qed

lemma upto_pow_div:
  assumes "upto_pow k x" "1 \<le> b" "- 1074 \<le> k" "k < 1024"
  shows "upto_pow k (f64_div x (Fin b))"
proof -
  from assms(1) obtain a where a: "x = Fin a" "0 \<le> a" "a \<le> 2 powi k" by (auto simp: upto_pow_def)
  then have "a / b \<le> a" using assms(2) by (simp add: divide_le_eq mult_le_cancel_left1)
  then have "a / b \<le> 2 powi k" using a(3) by linarith
  with a assms(2-4) show ?thesis
    using to_f64_finite [of "a / b" k] by (auto simp: upto_pow_def f64_div_def)
qed

lemma to_f64_one_Fin: "to_f64 1 = Fin 1"
  by code_simp

text \<open>A ratio of counts is a number between zero and one.\<close>

lemma f64_ratio_unit:
  assumes "m \<le> n" "0 < n" "(of_nat n :: rat) \<le> 2 powi 64"
  shows "f64_le (Fin 0) (f64_div (f64_of_nat m) (f64_of_nat n))
    \<and> f64_le (f64_div (f64_of_nat m) (f64_of_nat n)) (Fin 1)"
proof -
  obtain q where q: "f64_of_nat n = Fin q"
    using upto_pow_of_nat [OF assms(3)] by (auto simp: upto_pow_def)
  have "(of_nat m :: rat) \<le> of_nat n" using assms(1) by simp
  also note assms(3)
  finally obtain r where r: "f64_of_nat m = Fin r" "0 \<le> r"
    using upto_pow_of_nat [of m 64] by (auto simp: upto_pow_def)
  have "f64_le (to_f64 1) (f64_of_nat n)" "f64_le (f64_of_nat m) (f64_of_nat n)"
    unfolding f64_of_nat_def using assms(1,2) by (intro to_f64_mono; simp)+
  then have le: "1 \<le> q" "r \<le> q" using q r by (simp_all add: to_f64_one_Fin)
  then have "0 \<le> r / q" "r / q \<le> 1" using r by simp_all
  then have "f64_le (to_f64 0) (to_f64 (r / q))" "f64_le (to_f64 (r / q)) (to_f64 1)"
    by (blast intro: to_f64_mono)+
  with q r le show ?thesis by (simp add: f64_div_def to_f64_one_Fin)
qed

text \<open>
  \<open>format!("{:.n}")\<close>: the exact value rounded half to even at \<open>n\<close> decimals, with the sign of a
  negative value kept even when it rounds to zero.
\<close>

definition pad_left :: "nat \<Rightarrow> rstring \<Rightarrow> rstring" where
  "pad_left n s = replicate (n - length s) (CHR ''0'') @ s"

definition fmt_fixed :: "nat \<Rightarrow> f64 \<Rightarrow> rstring" where
  "fmt_fixed n x =
     (case x of
        Fin r \<Rightarrow>
          let m = nat (round_half_even (\<bar>r\<bar> * 10 ^ n));
              whole = dec_digits (m div 10 ^ n)
          in (if r < 0 then ''-'' else []) @ whole
             @ (if n = 0 then [] else ''.'' @ pad_left n (dec_digits (m mod 10 ^ n)))
      | PInf \<Rightarrow> ''inf'' | NInf \<Rightarrow> ''-inf'' | NaN \<Rightarrow> ''NaN'')"

end
