(* ===== verification/Routing_Types.thy ===== *)
theory Routing_Types
  imports Glob F64
begin

text \<open>
  The request-side vocabulary of the auto router (\<open>aura-types/src/routing.rs\<close>): the tiers
  and their order, the modes, the classifiers, the \<open>auto\<close> model alias and the per-request
  routing options with their allow and deny lists.
\<close>

subsection \<open>Tiers\<close>

datatype Tier = Simple | Medium | Complex | Reasoning

fun tier_rank :: "Tier \<Rightarrow> nat" where
  "tier_rank Simple = 0"
| "tier_rank Medium = 1"
| "tier_rank Complex = 2"
| "tier_rank Reasoning = 3"

lemma tier_rank_eq: "tier_rank a = tier_rank b \<longleftrightarrow> a = b"
  by (cases a; cases b) auto

text \<open>The derived \<open>Ord\<close> compares by declaration order.\<close>

instantiation Tier :: linorder
begin

definition less_eq_Tier :: "Tier \<Rightarrow> Tier \<Rightarrow> bool" where
  "less_eq_Tier a b \<longleftrightarrow> tier_rank a \<le> tier_rank b"

definition less_Tier :: "Tier \<Rightarrow> Tier \<Rightarrow> bool" where
  "less_Tier a b \<longleftrightarrow> tier_rank a < tier_rank b"

instance
  by standard (auto simp: less_eq_Tier_def less_Tier_def tier_rank_eq)

end

lemmas tier_order = less_eq_Tier_def less_Tier_def

declare tier_order [order_simps]

definition Tier_ALL :: "Tier list" where
  "Tier_ALL = [Simple, Medium, Complex, Reasoning]"

fun Tier_up :: "Tier \<Rightarrow> Tier option" where
  "Tier_up Simple = Some Medium"
| "Tier_up Medium = Some Complex"
| "Tier_up Complex = Some Reasoning"
| "Tier_up Reasoning = None"

fun Tier_down :: "Tier \<Rightarrow> Tier option" where
  "Tier_down Simple = None"
| "Tier_down Medium = Some Simple"
| "Tier_down Complex = Some Medium"
| "Tier_down Reasoning = Some Complex"

fun Tier_as_str :: "Tier \<Rightarrow> rstring" where
  "Tier_as_str Simple = ''simple''"
| "Tier_as_str Medium = ''medium''"
| "Tier_as_str Complex = ''complex''"
| "Tier_as_str Reasoning = ''reasoning''"

definition Tier_parse :: "rstring \<Rightarrow> Tier option" where
  "Tier_parse s =
     (let k = to_ascii_lowercase (str_trim s)
      in if k = ''simple'' then Some Simple
         else if k = ''medium'' then Some Medium
         else if k = ''complex'' then Some Complex
         else if k = ''reasoning'' then Some Reasoning
         else None)"

lemma set_Tier_ALL [simp]: "set Tier_ALL = UNIV"
  using Tier.exhaust by (auto simp: Tier_ALL_def)

lemma tier_all: "(\<forall>t. P t) \<longleftrightarrow> P Simple \<and> P Medium \<and> P Complex \<and> P Reasoning"
  by (metis Tier.exhaust)

lemma tier_ex: "(\<exists>t. P t) \<longleftrightarrow> P Simple \<or> P Medium \<or> P Complex \<or> P Reasoning"
  by (metis Tier.exhaust)

lemma Tier_up_greater: "Tier_up t = Some u \<Longrightarrow> t < u \<and> (\<forall>v. t < v \<longrightarrow> u \<le> v)"
  by (cases t) (auto simp: tier_order elim!: tier_rank.elims)

lemma Tier_up_down: "Tier_up t = Some u \<longleftrightarrow> Tier_down u = Some t"
  by (cases t; cases u) auto

lemma Tier_up_None: "Tier_up t = None \<longleftrightarrow> t = Reasoning"
  by (cases t) auto

lemma tier_le_Reasoning [simp]: "t \<le> Reasoning"
  by (cases t) (auto simp: tier_order)

lemma Simple_le_tier [simp]: "Simple \<le> t"
  by (auto simp: tier_order)

subsection \<open>Modes and classifiers\<close>

datatype RoutingMode = Cost | Balanced | Quality

fun RoutingMode_as_str :: "RoutingMode \<Rightarrow> rstring" where
  "RoutingMode_as_str Cost = ''cost''"
| "RoutingMode_as_str Balanced = ''balanced''"
| "RoutingMode_as_str Quality = ''quality''"

definition RoutingMode_parse :: "rstring \<Rightarrow> RoutingMode option" where
  "RoutingMode_parse s =
     (let k = to_ascii_lowercase (str_trim s)
      in if k = ''cost'' \<or> k = ''cheap'' then Some Cost
         else if k = ''balanced'' \<or> k = ''balance'' then Some Balanced
         else if k = ''quality'' \<or> k = ''intelligence'' then Some Quality
         else None)"

datatype ClassifierKind = Heuristic | Llm | Learned

fun ClassifierKind_as_str :: "ClassifierKind \<Rightarrow> rstring" where
  "ClassifierKind_as_str Heuristic = ''heuristic''"
| "ClassifierKind_as_str Llm = ''llm''"
| "ClassifierKind_as_str Learned = ''learned''"

lemma RoutingMode_as_str_inj: "RoutingMode_as_str a = RoutingMode_as_str b \<Longrightarrow> a = b"
  by (cases a; cases b) auto

subsection \<open>The \<open>auto\<close> alias\<close>

definition AUTO_MODEL_ALIAS :: rstring where
  "AUTO_MODEL_ALIAS = ''auto''"

record AutoModelAlias =
  alias_mode :: "RoutingMode option"

definition parse_auto_model :: "rstring \<Rightarrow> AutoModelAlias option" where
  "parse_auto_model raw =
     (let model = str_trim raw
      in if eq_ignore_ascii_case model AUTO_MODEL_ALIAS then Some \<lparr> alias_mode = None \<rparr>
         else (case split_once (CHR '':'') model of
                 None \<Rightarrow> None
               | Some (head, tail) \<Rightarrow>
                   if \<not> eq_ignore_ascii_case head AUTO_MODEL_ALIAS then None
                   else map_option (\<lambda>m. \<lparr> alias_mode = Some m \<rparr>) (RoutingMode_parse tail)))"

subsection \<open>Routing options\<close>

record RoutingOptions =
  mode :: "RoutingMode option"
  min_tier :: "Tier option"
  max_tier :: "Tier option"
  allow :: "rstring list"
  deny :: "rstring list"
  sticky :: "bool option"
  policy_allow :: "rstring list"
  classifier :: "ClassifierKind option"
  max_cost_usd :: "f64 option"

definition RoutingOptions_default :: RoutingOptions where
  "RoutingOptions_default =
     \<lparr> mode = None, min_tier = None, max_tier = None, allow = [], deny = [], sticky = None,
       policy_allow = [], classifier = None, max_cost_usd = None \<rparr>"

definition pattern_matches :: "rstring \<Rightarrow> rstring \<Rightarrow> rstring \<Rightarrow> bool panics" where
  "pattern_matches raw provider model =
     (let pattern = to_ascii_lowercase (str_trim raw)
      in if pattern = [] then Some False
         else (let model_l = to_ascii_lowercase model;
                   qualified = to_ascii_lowercase provider @ ''/'' @ model_l
               in if pattern = ''*'' then Some True
                  else if star \<notin> set pattern then Some (model_l = pattern \<or> qualified = pattern)
                  else (case glob_matches pattern model_l of
                          None \<Rightarrow> None
                        | Some True \<Rightarrow> Some True
                        | Some False \<Rightarrow> glob_matches pattern qualified)))"

definition allowed_by :: "rstring list \<Rightarrow> rstring \<Rightarrow> rstring \<Rightarrow> bool panics" where
  "allowed_by ps provider model =
     (if ps = [] then Some True else try_any (\<lambda>p. pattern_matches p provider model) ps)"

definition permits :: "RoutingOptions \<Rightarrow> rstring \<Rightarrow> rstring \<Rightarrow> bool panics" where
  "permits opts provider model =
     (case try_any (\<lambda>p. pattern_matches p provider model) (deny opts) of
        None \<Rightarrow> None
      | Some True \<Rightarrow> Some False
      | Some False \<Rightarrow>
          (case allowed_by (allow opts) provider model of
             None \<Rightarrow> None
           | Some False \<Rightarrow> Some False
           | Some True \<Rightarrow> allowed_by (policy_allow opts) provider model))"

subsection \<open>What the lists mean\<close>

text \<open>
  The declarative reading: a pattern matches a model when the wildcard semantics matches its id
  or its qualified id, without regard to ASCII case.
\<close>

definition pattern_spec :: "rstring \<Rightarrow> rstring \<Rightarrow> rstring \<Rightarrow> bool" where
  "pattern_spec raw provider model \<longleftrightarrow>
     (let p = to_ascii_lowercase (str_trim raw); m = to_ascii_lowercase model
      in p \<noteq> [] \<and> (glob_spec p m \<or> glob_spec p (to_ascii_lowercase provider @ ''/'' @ m)))"

text \<open>A pattern the code decides without a panic on any text: at most one star.\<close>

definition simple_pattern :: "rstring \<Rightarrow> bool" where
  "simple_pattern raw \<longleftrightarrow> count_list (to_ascii_lowercase (str_trim raw)) star \<le> 1"

lemma glob_spec_literal: "star \<notin> set p \<Longrightarrow> glob_spec p t \<longleftrightarrow> t = p"
  by (induction p t rule: glob_spec.induct) (auto split: list.splits)

lemma glob_spec_star: "glob_spec [star] t"
  by (simp del: upt_Suc) (rule bexI [of _ "length t"]; simp)

lemma pattern_matches_spec:
  "simple_pattern raw \<Longrightarrow> pattern_matches raw provider model = Some (pattern_spec raw provider model)"
proof -
  assume s: "simple_pattern raw"
  let ?p = "to_ascii_lowercase (str_trim raw)"
  show ?thesis
  proof (cases "star \<in> set ?p \<and> ?p \<noteq> ''*''")
    case True
    with s have "count_list ?p star = 1"
      unfolding simple_pattern_def by (metis One_nat_def count_list_0_iff le_SucE le_zero_eq)
    then show ?thesis
      using True by (auto simp: pattern_matches_def pattern_spec_def Let_def glob_matches_total
          split: bool.splits)
  next
    case False
    then show ?thesis
      by (cases "?p = ''*''")
        (auto simp: pattern_matches_def pattern_spec_def Let_def glob_spec_literal glob_spec_star
          simp del: glob_spec.simps)
  qed
qed

text \<open>The code panics on a pattern only through the overlap of its anchors.\<close>

lemma pattern_matches_literal:
  "star \<notin> set (to_ascii_lowercase (str_trim raw)) \<Longrightarrow>
     pattern_matches raw provider model = Some (pattern_spec raw provider model)"
  by (intro pattern_matches_spec) (simp add: simple_pattern_def)

definition simple_options :: "RoutingOptions \<Rightarrow> bool" where
  "simple_options opts \<longleftrightarrow>
     (\<forall>p \<in> set (deny opts @ allow opts @ policy_allow opts). simple_pattern p)"

definition permits_spec :: "RoutingOptions \<Rightarrow> rstring \<Rightarrow> rstring \<Rightarrow> bool" where
  "permits_spec opts provider model \<longleftrightarrow>
     (\<forall>p \<in> set (deny opts). \<not> pattern_spec p provider model)
     \<and> (allow opts = [] \<or> (\<exists>p \<in> set (allow opts). pattern_spec p provider model))
     \<and> (policy_allow opts = [] \<or> (\<exists>p \<in> set (policy_allow opts). pattern_spec p provider model))"

lemma allowed_by_spec:
  assumes "\<forall>p \<in> set ps. simple_pattern p"
  shows "allowed_by ps provider model =
    Some (ps = [] \<or> (\<exists>p \<in> set ps. pattern_spec p provider model))"
proof -
  have "try_any (\<lambda>p. pattern_matches p provider model) ps =
      Some (\<exists>p \<in> set ps. pattern_spec p provider model)"
    using assms by (intro try_any_total pattern_matches_spec) auto
  then show ?thesis by (auto simp: allowed_by_def)
qed

lemma permits_eq_spec:
  assumes "simple_options opts"
  shows "permits opts provider model = Some (permits_spec opts provider model)"
proof -
  have "try_any (\<lambda>p. pattern_matches p provider model) (deny opts) =
      Some (\<exists>p \<in> set (deny opts). pattern_spec p provider model)"
    using assms by (intro try_any_total pattern_matches_spec) (auto simp: simple_options_def)
  moreover have "allowed_by (allow opts) provider model =
      Some (allow opts = [] \<or> (\<exists>p \<in> set (allow opts). pattern_spec p provider model))"
    "allowed_by (policy_allow opts) provider model =
      Some (policy_allow opts = [] \<or> (\<exists>p \<in> set (policy_allow opts). pattern_spec p provider model))"
    using assms by (auto intro!: allowed_by_spec simp: simple_options_def)
  ultimately show ?thesis
    by (auto simp: permits_def permits_spec_def split: bool.splits)
qed

text \<open>
  Whatever the patterns, an answer the code does give respects the deny list first and both
  allow lists after it.
\<close>

lemma permits_deny:
  assumes "permits opts provider model = Some True" "p \<in> set (deny opts)"
  shows "pattern_matches p provider model \<noteq> Some True"
proof -
  from assms(1) have "try_any (\<lambda>p. pattern_matches p provider model) (deny opts) = Some False"
    by (auto simp: permits_def split: option.splits bool.splits)
  from try_any_SomeD [OF this] assms(2) show ?thesis by auto
qed

lemma permits_lists:
  assumes "permits opts provider model = Some True" "ps = allow opts \<or> ps = policy_allow opts"
  shows "ps = [] \<or> (\<exists>p \<in> set ps. pattern_matches p provider model = Some True)"
proof -
  from assms have "allowed_by ps provider model = Some True"
    by (auto simp: permits_def split: option.splits bool.splits)
  then show ?thesis by (auto simp: allowed_by_def split: if_splits dest: try_any_SomeD)
qed

subsection \<open>Names round trip\<close>

text \<open>\<open>as_str\<close> followed by \<open>parse\<close>, in any mixture of ASCII case.\<close>

lemma as_str_visible:
  "visible (hd (Tier_as_str t)) \<and> visible (last (Tier_as_str t))"
  "visible (hd (RoutingMode_as_str m)) \<and> visible (last (RoutingMode_as_str m))"
  by (cases t; simp add: visible_def byte_of_def) (cases m; simp add: visible_def byte_of_def)

lemma as_str_lower [simp]:
  "to_ascii_lowercase (Tier_as_str t) = Tier_as_str t"
  "to_ascii_lowercase (RoutingMode_as_str m) = RoutingMode_as_str m"
  by (cases t; simp add: to_ascii_lowercase_def ascii_lower_char_def is_ascii_upper_def byte_of_def)
    (cases m; simp add: to_ascii_lowercase_def ascii_lower_char_def is_ascii_upper_def byte_of_def)

lemma Tier_parse_as_str: "Tier_parse (Tier_as_str t) = Some t"
  by (cases t) (simp_all add: Tier_parse_def str_trim_visible as_str_visible del: Tier_as_str.simps,
      simp_all)

lemma RoutingMode_parse_as_str: "RoutingMode_parse (RoutingMode_as_str m) = Some m"
  by (cases m) (simp_all add: RoutingMode_parse_def str_trim_visible as_str_visible
      del: RoutingMode_as_str.simps, simp_all)

end
