(* ===== verification/Auto_Config.thy ===== *)
theory Auto_Config
  imports Routing_Types
begin

text \<open>
  The configuration of the auto router (\<open>aura-core/src/router/auto/config.rs\<close>): the tier
  lists, the score boundaries and mode offsets, the scorer's weights and keyword lists with
  their defaults, the escalation policy, and the per-organization override that is merged under
  the request's own options.
\<close>

subsection \<open>Tier lists\<close>

record TierModels =
  simple :: "rstring list"
  medium :: "rstring list"
  complex :: "rstring list"
  reasoning :: "rstring list"

definition TierModels_default :: TierModels where
  "TierModels_default =
     \<lparr> simple = [''gemini-3.1-flash-lite'', ''gemini-3.5-flash'', ''gpt-5.6-luna''],
       medium = [''gemini-3.8-flash'', ''gpt-5.4-mini'', ''claude-haiku-4-5''],
       complex = [''claude-sonnet-5'', ''gemini-3-pro-preview'', ''gpt-5.6-terra''],
       reasoning = [''claude-opus-5'', ''gpt-5.6-sol'', ''claude-fable-5-1''] \<rparr>"

fun TierModels_get :: "TierModels \<Rightarrow> Tier \<Rightarrow> rstring list" where
  "TierModels_get tm Simple = simple tm"
| "TierModels_get tm Medium = medium tm"
| "TierModels_get tm Complex = complex tm"
| "TierModels_get tm Reasoning = reasoning tm"

text \<open>\<open>get_mut\<close>, as the update of the list it hands out.\<close>

fun TierModels_set :: "TierModels \<Rightarrow> Tier \<Rightarrow> rstring list \<Rightarrow> TierModels" where
  "TierModels_set tm Simple l = tm\<lparr> simple := l \<rparr>"
| "TierModels_set tm Medium l = tm\<lparr> medium := l \<rparr>"
| "TierModels_set tm Complex l = tm\<lparr> complex := l \<rparr>"
| "TierModels_set tm Reasoning l = tm\<lparr> reasoning := l \<rparr>"

definition TierModels_tier_of :: "TierModels \<Rightarrow> rstring \<Rightarrow> Tier option" where
  "TierModels_tier_of tm model = find (\<lambda>t. model \<in> set (TierModels_get tm t)) (rev Tier_ALL)"

lemma TierModels_get_set [simp]:
  "TierModels_get (TierModels_set tm t l) u = (if u = t then l else TierModels_get tm u)"
  by (cases t; cases u) auto

lemma tier_of_listed: "TierModels_tier_of tm m = Some t \<Longrightarrow> m \<in> set (TierModels_get tm t)"
  by (auto simp: TierModels_tier_of_def find_Some_iff)

lemma tier_of_highest:
  "TierModels_tier_of tm m = Some t \<longleftrightarrow>
     m \<in> set (TierModels_get tm t) \<and> (\<forall>u. t < u \<longrightarrow> m \<notin> set (TierModels_get tm u))"
  by (cases t) (auto simp: TierModels_tier_of_def Tier_ALL_def tier_order tier_all)

lemma tier_of_None: "TierModels_tier_of tm m = None \<longleftrightarrow> (\<forall>t. m \<notin> set (TierModels_get tm t))"
  by (simp add: TierModels_tier_of_def find_None_iff)

subsection \<open>Boundaries, offsets, weights and thresholds\<close>

record TierBoundaries =
  simple_medium :: f64
  medium_complex :: f64
  complex_reasoning :: f64

definition TierBoundaries_default :: TierBoundaries where
  "TierBoundaries_default =
     \<lparr> simple_medium = f64_lit 15 100, medium_complex = f64_lit 35 100,
       complex_reasoning = f64_lit 60 100 \<rparr>"

definition tier_for :: "TierBoundaries \<Rightarrow> f64 \<Rightarrow> Tier" where
  "tier_for b score =
     (if f64_le (complex_reasoning b) score then Reasoning
      else if f64_le (medium_complex b) score then Complex
      else if f64_le (simple_medium b) score then Medium
      else Simple)"

lemma tier_for_mono: "f64_le s s' \<Longrightarrow> tier_for b s \<le> tier_for b s'"
  by (auto simp: tier_for_def tier_order dest: f64_le_trans)

record ModeOffsets =
  off_cost :: f64
  off_balanced :: f64
  off_quality :: f64

definition ModeOffsets_default :: ModeOffsets where
  "ModeOffsets_default =
     \<lparr> off_cost = f64_lit (- 10) 100, off_balanced = f64_lit 0 1, off_quality = f64_lit 15 100 \<rparr>"

fun for_mode :: "ModeOffsets \<Rightarrow> RoutingMode \<Rightarrow> f64" where
  "for_mode offs Cost = off_cost offs"
| "for_mode offs Balanced = off_balanced offs"
| "for_mode offs Quality = off_quality offs"

record FeatureWeights =
  w_tokens :: f64
  w_code :: f64
  w_reasoning :: f64
  w_technical :: f64
  w_simple :: f64
  w_multi_step :: f64
  w_questions :: f64
  w_tools :: f64
  w_explicit_intent :: f64
  w_continuation :: f64
  w_output_length :: f64

definition FeatureWeights_default :: FeatureWeights where
  "FeatureWeights_default =
     \<lparr> w_tokens = f64_lit 10 100, w_code = f64_lit 30 100, w_reasoning = f64_lit 25 100,
       w_technical = f64_lit 25 100, w_simple = f64_lit 5 100, w_multi_step = f64_lit 3 100,
       w_questions = f64_lit 2 100, w_tools = f64_lit 15 100, w_explicit_intent = f64_lit 30 100,
       w_continuation = f64_lit 5 100, w_output_length = f64_lit 5 100 \<rparr>"

record TokenThresholds =
  th_short :: u32
  th_long :: u32
  th_long_output :: u32

definition TokenThresholds_default :: TokenThresholds where
  "TokenThresholds_default = \<lparr> th_short = 15, th_long = 400, th_long_output = 2000 \<rparr>"

subsection \<open>Keyword lists\<close>

record KeywordLists =
  kw_code :: "rstring list"
  kw_reasoning :: "rstring list"
  kw_technical :: "rstring list"
  kw_simple :: "rstring list"
  kw_intent_quick :: "rstring list"
  kw_intent_deep :: "rstring list"

definition keywords_code :: "rstring list" where
  "keywords_code =
    [''function'', ''class'', ''def'', ''import'', ''return'', ''const'', ''let'', ''var'',
     ''async'', ''await'', ''struct'', ''impl'', ''enum'', ''trait'', ''#include'',
     ''select'', ''from'', ''where'', ''join'', ''npm'', ''cargo'', ''pip'', ''git'',
     ''docker'', ''kubernetes'', ''stack trace'', ''traceback'', ''exception'', ''error:'',
     ''regex'', ''compile'', ''compiler'', ''refactor'', ''unit test'', ''debug'', ''bug'',
     ''endpoint'', ''json'', ''yaml'', ''sql'', ''typescript'', ''python'', ''rust'',
     ''javascript'', ''java'', ''golang'', ''c++'', ''html'', ''css'', ''react'', ''api'',
     ''cli'', ''script'', ''linter'', ''lint'', ''null pointer'', ''segfault'', ''panic'',
     ''undefined'', ''nan'', ''deploy'', ''ci/cd'', ''pipeline'', ''terraform'', ''helm'']"

definition keywords_reasoning :: "rstring list" where
  "keywords_reasoning =
    [''step by step'', ''step-by-step'', ''think carefully'', ''explain your reasoning'',
     ''analyze'', ''analyse'', ''compare and contrast'', ''prove'', ''proof'', ''derive'',
     ''derivation'', ''calculate'', ''why does'', ''why is'', ''trade-off'', ''tradeoff'',
     ''reason about'', ''evaluate'', ''justify'', ''optimize'', ''optimise'', ''design a'',
     ''architecture'', ''algorithm'', ''complexity'', ''theorem'', ''hypothesis'',
     ''root cause'', ''pros and cons'', ''implications'', ''critique'', ''strategy'']"

definition keywords_technical :: "rstring list" where
  "keywords_technical =
    [''distributed'', ''concurrency'', ''concurrent'', ''latency'', ''throughput'',
     ''encryption'', ''cryptography'', ''neural'', ''gradient'', ''tensor'', ''kernel'',
     ''protocol'', ''tcp'', ''http'', ''database'', ''index'', ''transaction'', ''schema'',
     ''migration'', ''microservice'', ''cache'', ''consensus'', ''raft'', ''paxos'',
     ''quantum'', ''differential'', ''integral'', ''matrix'', ''eigenvalue'', ''statistic'',
     ''statistical'', ''regression'', ''bayesian'', ''probability'', ''thermodynamic'',
     ''molecular'', ''genome'', ''pharmacokinetic'', ''jurisdiction'', ''liability'',
     ''amortization'', ''derivative'', ''arbitrage'', ''asynchronous'', ''idempotent'',
     ''invariant'', ''topology'', ''manifold'', ''entropy'', ''stochastic'', ''heuristic'',
     ''recursion'', ''recursive'', ''memoization'', ''amortized'', ''sharding'',
     ''replication'', ''quorum'', ''byzantine'']"

definition keywords_simple :: "rstring list" where
  "keywords_simple =
    [''what is'', (''what'' @ [CHR 0x27] @ ''s''), ''what are'', ''define'',
     ''definition of'', ''who is'', ''who was'', ''when did'', ''when was'', ''where is'',
     ''translate'', ''how do you say'', ''capital of'', ''synonym'', ''antonym'', ''spell'',
     ''rewrite this sentence'', ''fix the grammar'', ''correct the grammar'', ''hello'',
     ''hi there'', ''thanks'', ''thank you'', ''yes or no'', ''meaning of'', ''how many'',
     ''how old'', ''convert'']"

definition keywords_intent_quick :: "rstring list" where
  "keywords_intent_quick =
    [''quick answer'', ''quickly'', ''briefly'', ''brief'', ''one word'', ''one sentence'',
     ''in a sentence'', ''short answer'', ''tl;dr'', ''tldr'', ''just tell me'',
     ''no explanation'', ''keep it short'', ''in short'']"

definition keywords_intent_deep :: "rstring list" where
  "keywords_intent_deep =
    [''think hard'', ''think deeply'', ''think carefully'', ''thorough'', ''thoroughly'',
     ''in depth'', ''in-depth'', ''detailed analysis'', ''comprehensive'', ''rigorous'',
     ''rigorously'', ''exhaustive'', ''take your time'', ''double-check'', ''double check'',
     ''be careful'', ''carefully'']"

definition KeywordLists_default :: KeywordLists where
  "KeywordLists_default =
     \<lparr> kw_code = keywords_code, kw_reasoning = keywords_reasoning,
       kw_technical = keywords_technical, kw_simple = keywords_simple,
       kw_intent_quick = keywords_intent_quick, kw_intent_deep = keywords_intent_deep \<rparr>"

subsection \<open>Escalation policy\<close>

record EscalationConfig =
  esc_enabled :: bool
  esc_max_attempts :: u32
  esc_on_errors :: "rstring list"
  esc_breaker_failures :: u32
  esc_breaker_window_secs :: u64
  esc_breaker_cooldown_secs :: u64

definition EscalationConfig_default :: EscalationConfig where
  "EscalationConfig_default =
     \<lparr> esc_enabled = True, esc_max_attempts = 1,
       esc_on_errors = [''rate_limit_exceeded'', ''service_unavailable'', ''timeout'',
         ''network_error'', ''model_not_found'', ''internal_error''],
       esc_breaker_failures = 3, esc_breaker_window_secs = 60, esc_breaker_cooldown_secs = 30 \<rparr>"

definition triggers_on :: "EscalationConfig \<Rightarrow> rstring \<Rightarrow> bool" where
  "triggers_on e error_code \<longleftrightarrow> esc_enabled e \<and> error_code \<in> set (esc_on_errors e)"

subsection \<open>The router's configuration\<close>

record LlmClassifierConfig =
  llm_model :: rstring
  llm_timeout_ms :: u64

definition LlmClassifierConfig_default :: LlmClassifierConfig where
  "LlmClassifierConfig_default = \<lparr> llm_model = ''claude-haiku-4-5'', llm_timeout_ms = 800 \<rparr>"

datatype WithinTierStrategy = Cheapest | ConfigOrder | RoundRobin | Thompson | PredictedCost

record AutoRoutingConfig =
  enabled :: bool
  default_mode :: RoutingMode
  default_classifier :: ClassifierKind
  llm_classifier :: LlmClassifierConfig
  shadow_for_pinned_models :: bool
  tiers :: TierModels
  boundaries :: TierBoundaries
  mode_offsets :: ModeOffsets
  weights :: FeatureWeights
  token_thresholds :: TokenThresholds
  keyword_lists :: KeywordLists
  within_tier :: WithinTierStrategy
  sticky_tool_loops :: bool
  tools_min_tier :: "Tier option"
  reasoning_override_matches :: u32
  outcome_rollup_interval_secs :: u64
  outcome_grace_secs :: u64
  arm_stats_window_days :: u32
  gold_sample_rate :: f64
  gold_sample_shadow :: bool
  gold_judge_model :: rstring
  gold_max_text_chars :: usize
  escalation :: EscalationConfig
  learned_weights_file :: "rstring option"
  cost_weights_file :: "rstring option"

definition AutoRoutingConfig_default :: AutoRoutingConfig where
  "AutoRoutingConfig_default =
     \<lparr> enabled = False, default_mode = Balanced, default_classifier = Heuristic,
       llm_classifier = LlmClassifierConfig_default, shadow_for_pinned_models = True,
       tiers = TierModels_default, boundaries = TierBoundaries_default,
       mode_offsets = ModeOffsets_default, weights = FeatureWeights_default,
       token_thresholds = TokenThresholds_default, keyword_lists = KeywordLists_default,
       within_tier = Cheapest, sticky_tool_loops = True, tools_min_tier = Some Medium,
       reasoning_override_matches = 3, outcome_rollup_interval_secs = 900,
       outcome_grace_secs = 1800, arm_stats_window_days = 30, gold_sample_rate = f64_lit 0 1,
       gold_sample_shadow = False, gold_judge_model = ''claude-sonnet-5'',
       gold_max_text_chars = 4000, escalation = EscalationConfig_default,
       learned_weights_file = None, cost_weights_file = None \<rparr>"

text \<open>\<open>retain\<close> over one tier's list, with the dropped ids in the form \<open>tier:model\<close>.\<close>

definition prune_tier ::
    "(rstring \<Rightarrow> bool) \<Rightarrow> Tier \<Rightarrow> TierModels \<Rightarrow> TierModels \<times> rstring list" where
  "prune_tier is_known t tm =
     (TierModels_set tm t (filter is_known (TierModels_get tm t)),
      map (\<lambda>m. Tier_as_str t @ '':'' @ m) (filter (\<lambda>m. \<not> is_known m) (TierModels_get tm t)))"

definition prune_unknown_models ::
    "AutoRoutingConfig \<Rightarrow> (rstring \<Rightarrow> bool) \<Rightarrow> AutoRoutingConfig \<times> rstring list" where
  "prune_unknown_models cfg is_known =
     (let (tm, dropped) =
        fold (\<lambda>t (tm, dropped). case prune_tier is_known t tm of (tm', d) \<Rightarrow> (tm', dropped @ d))
          Tier_ALL (tiers cfg, [])
      in (cfg\<lparr> tiers := tm \<rparr>, dropped))"

definition has_candidates :: "AutoRoutingConfig \<Rightarrow> bool" where
  "has_candidates cfg \<longleftrightarrow> (\<exists>t \<in> set Tier_ALL. TierModels_get (tiers cfg) t \<noteq> [])"

lemma prune_tiers:
  "TierModels_get (tiers (fst (prune_unknown_models cfg known))) t =
     filter known (TierModels_get (tiers cfg) t)"
  by (cases t) (auto simp: prune_unknown_models_def prune_tier_def Tier_ALL_def)

lemma prune_dropped:
  "snd (prune_unknown_models cfg known) =
     concat (map (\<lambda>t. map (\<lambda>m. Tier_as_str t @ '':'' @ m)
       (filter (\<lambda>m. \<not> known m) (TierModels_get (tiers cfg) t))) Tier_ALL)"
  by (auto simp: prune_unknown_models_def prune_tier_def Tier_ALL_def)

lemma prune_has_candidates:
  "has_candidates (fst (prune_unknown_models cfg known)) \<longleftrightarrow>
     (\<exists>t. \<exists>m \<in> set (TierModels_get (tiers cfg) t). known m)"
  by (auto simp: has_candidates_def prune_tiers filter_empty_conv)

subsection \<open>The organization override\<close>

record OrgAutoRoutingOverride =
  org_enabled :: "bool option"
  org_shadow_for_pinned_models :: "bool option"
  org_default_mode :: "RoutingMode option"
  org_default_classifier :: "ClassifierKind option"
  org_min_tier :: "Tier option"
  org_max_tier :: "Tier option"
  org_allow :: "rstring list"
  org_deny :: "rstring list"
  org_max_cost_usd :: "f64 option"
  org_allow_synthetic :: "bool option"

definition OrgAutoRoutingOverride_default :: OrgAutoRoutingOverride where
  "OrgAutoRoutingOverride_default =
     \<lparr> org_enabled = None, org_shadow_for_pinned_models = None, org_default_mode = None,
       org_default_classifier = None, org_min_tier = None, org_max_tier = None, org_allow = [],
       org_deny = [], org_max_cost_usd = None, org_allow_synthetic = None \<rparr>"

definition OrgAutoRoutingOverride_is_empty :: "OrgAutoRoutingOverride \<Rightarrow> bool" where
  "OrgAutoRoutingOverride_is_empty org \<longleftrightarrow> org = OrgAutoRoutingOverride_default"

definition opt_or :: "'a option \<Rightarrow> 'a option \<Rightarrow> 'a option" where
  "opt_or a b = (case a of Some x \<Rightarrow> Some x | None \<Rightarrow> b)"

definition merged_with ::
    "OrgAutoRoutingOverride \<Rightarrow> RoutingOptions option \<Rightarrow> RoutingMode option \<Rightarrow> RoutingOptions" where
  "merged_with org request alias =
     (let req = (case request of Some r \<Rightarrow> r | None \<Rightarrow> RoutingOptions_default)
      in \<lparr> mode = opt_or (opt_or (mode req) alias) (org_default_mode org),
           min_tier = (case (min_tier req, org_min_tier org) of
                         (Some r, Some q) \<Rightarrow> Some (max r q) | (r, q) \<Rightarrow> opt_or r q),
           max_tier = (case (max_tier req, org_max_tier org) of
                         (Some r, Some q) \<Rightarrow> Some (min r q) | (r, q) \<Rightarrow> opt_or r q),
           allow = allow req,
           deny = org_deny org @ deny req,
           sticky = sticky req,
           policy_allow = org_allow org,
           classifier = opt_or (classifier req) (org_default_classifier org),
           max_cost_usd = (case (max_cost_usd req, org_max_cost_usd org) of
                             (Some a, Some b) \<Rightarrow> Some (f64_min a b) | (a, b) \<Rightarrow> opt_or a b) \<rparr>)"

lemma opt_or_simps [simp]: "opt_or None b = b" "opt_or (Some x) b = Some x" "opt_or a None = a"
  by (auto simp: opt_or_def split: option.splits)

text \<open>
  The organization's bounds hold of the merged options whatever the request says: the tiers are
  within the organization's, its budget is not exceeded, and a permitted model passes its lists.
\<close>

lemma merged_max_tier:
  "org_max_tier org = Some u \<Longrightarrow> \<exists>t. max_tier (merged_with org req alias) = Some t \<and> t \<le> u"
  by (cases "max_tier (case req of Some r \<Rightarrow> r | None \<Rightarrow> RoutingOptions_default)")
    (auto simp: merged_with_def Let_def)

lemma merged_min_tier:
  "org_min_tier org = Some u \<Longrightarrow> \<exists>t. min_tier (merged_with org req alias) = Some t \<and> u \<le> t"
  by (cases "min_tier (case req of Some r \<Rightarrow> r | None \<Rightarrow> RoutingOptions_default)")
    (auto simp: merged_with_def Let_def)

lemma merged_max_cost:
  "org_max_cost_usd org = Some b \<Longrightarrow> b \<noteq> NaN \<Longrightarrow>
     \<exists>c. max_cost_usd (merged_with org req alias) = Some c \<and> f64_le c b"
  by (cases "max_cost_usd (case req of Some r \<Rightarrow> r | None \<Rightarrow> RoutingOptions_default)")
    (auto simp: merged_with_def Let_def f64_min_def f64_le_refl dest: f64_le_total)

lemma merged_lists:
  "deny (merged_with org req alias) =
     org_deny org @ (case req of Some r \<Rightarrow> deny r | None \<Rightarrow> [])"
  "allow (merged_with org req alias) = (case req of Some r \<Rightarrow> allow r | None \<Rightarrow> [])"
  "policy_allow (merged_with org req alias) = org_allow org"
  by (auto simp: merged_with_def Let_def RoutingOptions_default_def split: option.splits)

lemma merged_permits_org:
  assumes "permits (merged_with org req alias) provider model = Some True"
  shows "\<forall>p \<in> set (org_deny org). pattern_matches p provider model \<noteq> Some True"
    and "org_allow org = [] \<or> (\<exists>p \<in> set (org_allow org). pattern_matches p provider model = Some True)"
  using permits_deny [OF assms] permits_lists [OF assms, of "org_allow org"]
  by (simp_all add: merged_lists)

end
