(* ===== verification/Outcomes.thy ===== *)
theory Outcomes
  imports Routing_Types
begin

text \<open>
  Outcome signals of past routing decisions (\<open>aura-core/src/router/auto/outcomes.rs\<close>): what
  the user did next, the reward a decision earns, and the Beta arm statistics the Thompson
  strategy samples from. The random generator is an argument of the samplers.
\<close>

subsection \<open>What happened next\<close>

datatype NextTurn = NT_None | MoveOn | Retry | Correction | NT_Escalation

fun NextTurn_as_str :: "NextTurn \<Rightarrow> rstring" where
  "NextTurn_as_str NT_None = ''none''"
| "NextTurn_as_str MoveOn = ''move_on''"
| "NextTurn_as_str Retry = ''retry''"
| "NextTurn_as_str Correction = ''correction''"
| "NextTurn_as_str NT_Escalation = ''escalation''"

record NextTurnInputs =
  nx_user_text :: "rstring option"
  nx_model :: rstring
  nx_model_tier :: "Tier option"
  nx_is_tool_continuation :: bool

record OutcomeInputs =
  oi_status :: "rstring option"
  oi_feedback :: "rstring option"
  oi_tool_calls :: "32 word"
  oi_user_text :: "rstring option"
  oi_tier :: Tier
  oi_selected_model :: rstring
  oi_next :: "NextTurnInputs option"

record Outcome =
  oc_next_turn :: NextTurn
  oc_reward :: f64

definition CORRECTION_OPENERS :: "rstring list" where
  "CORRECTION_OPENERS =
     [''no,'', ''no.'', ''no '', ''nope'', ''wrong'', ''that'' @ apos @ ''s wrong'', ''thats wrong'',
      ''that is wrong'', ''incorrect'', ''not what i asked'', ''not what i meant'',
      ''that'' @ apos @ ''s not'', ''thats not'', ''that is not'', ''try again'', ''still wrong'',
      ''still doesn'' @ apos @ ''t'', ''still does not'', ''didn'' @ apos @ ''t work'',
      ''did not work'', ''doesn'' @ apos @ ''t work'', ''does not work'', ''you missed'',
      ''you forgot'', ''you ignored'', ''you didn'' @ apos @ ''t'', ''you did not'',
      ''this is wrong'', ''this doesn'' @ apos @ ''t'', ''this does not'',
      ''that doesn'' @ apos @ ''t'', ''that does not'', ''actually,'', ''actually '', ''fix this'',
      ''redo'']"

definition jaccard_words :: "unicode \<Rightarrow> rstring \<Rightarrow> rstring list" where
  "jaccard_words U s =
     remdups (map (u_to_lowercase U)
       (filter (\<lambda>w. 1 < length w) (split_chars (\<lambda>c. \<not> u_alphanumeric U c) (str_chars s))))"

definition word_jaccard :: "unicode \<Rightarrow> rstring \<Rightarrow> rstring \<Rightarrow> f64" where
  "word_jaccard U a b =
     (let wa = jaccard_words U a; wb = jaccard_words U b
      in if wa = [] \<or> wb = [] then f64_lit 0 1
         else f64_div (f64_of_nat (length (filter (\<lambda>w. w \<in> set wb) wa)))
                (f64_of_nat (length (remdups (wa @ wb)))))"

definition is_correction :: "unicode \<Rightarrow> rstring \<Rightarrow> bool" where
  "is_correction U text \<longleftrightarrow>
     (let t = u_to_lowercase U (concat (dropWhile (\<lambda>c. \<not> u_alphanumeric U c) (str_chars text)));
          head = concat (take 80 (str_chars t))
      in \<exists>p \<in> set CORRECTION_OPENERS. starts_with head p)"

definition classify_next_turn :: "unicode \<Rightarrow> OutcomeInputs \<Rightarrow> NextTurn" where
  "classify_next_turn U inp =
     (case oi_next inp of
        None \<Rightarrow> NT_None
      | Some nxt \<Rightarrow>
          if nx_is_tool_continuation nxt then NT_None
          else if (\<exists>t \<in> set_option (nx_model_tier nxt).
                     nx_model nxt \<noteq> oi_selected_model inp \<and> oi_tier inp < t)
          then NT_Escalation
          else (case nx_user_text nxt of
                  Some text \<Rightarrow>
                    if is_correction U text then Correction
                    else (let prev = (case oi_user_text inp of Some p \<Rightarrow> p | None \<Rightarrow> [])
                          in if f64_le (f64_lit 8 10) (word_jaccard U prev text) then Retry
                             else MoveOn)
                | None \<Rightarrow> MoveOn))"

definition reward_for :: "OutcomeInputs \<Rightarrow> NextTurn \<Rightarrow> f64" where
  "reward_for inp nt =
     (if oi_feedback inp = Some ''approved'' then f64_lit 1 1
      else if oi_feedback inp = Some ''rejected'' then f64_lit (- 1) 1
      else if oi_status inp = Some ''failed'' then f64_lit (- 1) 1
      else if oi_status inp = Some ''incomplete'' \<or> oi_status inp = Some ''cancelled''
      then f64_lit (- 5) 10
      else (case nt of
              NT_Escalation \<Rightarrow> f64_lit (- 1) 1
            | Correction \<Rightarrow> f64_lit (- 1) 1
            | Retry \<Rightarrow> f64_lit (- 5) 10
            | MoveOn \<Rightarrow> f64_lit 1 1
            | NT_None \<Rightarrow> if oi_status inp = Some ''completed'' then f64_lit 5 10 else f64_lit 0 1))"

definition Outcome_evaluate :: "unicode \<Rightarrow> OutcomeInputs \<Rightarrow> Outcome" where
  "Outcome_evaluate U inp =
     (let nt = classify_next_turn U inp in \<lparr> oc_next_turn = nt, oc_reward = reward_for inp nt \<rparr>)"

subsection \<open>Arm statistics\<close>

record ArmStats =
  arm_alpha :: f64
  arm_beta :: f64

definition ArmStats_default :: ArmStats where
  "ArmStats_default = \<lparr> arm_alpha = f64_lit 1 1, arm_beta = f64_lit 1 1 \<rparr>"

definition ArmStats_observe :: "ArmStats \<Rightarrow> f64 \<Rightarrow> ArmStats" where
  "ArmStats_observe s reward =
     (if f64_lt (f64_lit 0 1) reward then s\<lparr> arm_alpha := f64_add (arm_alpha s) reward \<rparr>
      else if f64_lt reward (f64_lit 0 1) then s\<lparr> arm_beta := f64_add (arm_beta s) (f64_neg reward) \<rparr>
      else s)"

definition ArmStats_mean :: "ArmStats \<Rightarrow> f64" where
  "ArmStats_mean s = f64_div (arm_alpha s) (f64_add (arm_alpha s) (arm_beta s))"

text \<open>
  \<open>sample_beta\<close> over the Gamma sampler \<open>gam\<close>: \<open>gam k shape\<close> is its \<open>k\<close>-th draw. (The sampler
  itself is rejection sampling with logarithms over the random generator.)
\<close>

definition shape_clamp :: "f64 \<Rightarrow> f64" where
  "shape_clamp v = (case v of Fin _ \<Rightarrow> f64_clamp v (f64_lit 1 1000) (f64_lit 1000000 1) | _ \<Rightarrow> f64_lit 1 1)"

definition sample_beta :: "(nat \<Rightarrow> f64 \<Rightarrow> f64) \<Rightarrow> f64 \<Rightarrow> f64 \<Rightarrow> f64" where
  "sample_beta gam alpha beta =
     (let x = gam 0 (shape_clamp alpha); y = gam 1 (shape_clamp beta)
      in if f64_add x y = Fin 0 then f64_lit 5 10 else f64_div x (f64_add x y))"

subsection \<open>Rewards are bounded and arms stay proper\<close>

lemma reward_for_cases: "reward_for inp nt \<in> {Fin (- 1), Fin (- 1 / 2), Fin 0, Fin (1 / 2), Fin 1}"
  by (auto simp: reward_for_def split: NextTurn.splits)

lemma reward_for_bounds: "f64_le (Fin (- 1)) (reward_for inp nt) \<and> f64_le (reward_for inp nt) (Fin 1)"
  using reward_for_cases [of inp nt] by auto

text \<open>Both parameters of an arm stay positive, so its mean is a proper ratio.\<close>

definition arm_ok :: "ArmStats \<Rightarrow> bool" where
  "arm_ok s \<longleftrightarrow> f64_le (Fin 1) (arm_alpha s) \<and> f64_le (Fin 1) (arm_beta s)"

lemma f64_one_nonneg: "f64_le (Fin 1) x \<Longrightarrow> f64_nonneg x"
  by (cases x) (auto simp: f64_nonneg_def)

lemma to_f64_one: "to_f64 1 = Fin 1"
  using f64_small_lits(1) by (simp add: f64_lit_def)

lemma f64_add_ge_one: "f64_le (Fin 1) x \<Longrightarrow> f64_nonneg y \<Longrightarrow> f64_le (Fin 1) (f64_add x y)"
proof -
  assume a: "f64_le (Fin 1) x" "f64_nonneg y"
  have "f64_le (f64_add (Fin 1) (Fin 0)) (f64_add x y)"
    using a by (intro f64_add_mono) (auto simp: f64_nonneg_def)
  then show ?thesis by (simp add: f64_add_def to_f64_one)
qed

lemma arm_ok_default: "arm_ok ArmStats_default"
  by (simp add: arm_ok_def ArmStats_default_def)

lemma arm_ok_observe: "arm_ok s \<Longrightarrow> arm_ok (ArmStats_observe s r)"
  by (cases r) (auto simp: arm_ok_def ArmStats_observe_def f64_lt_def f64_nonneg_def
      intro!: f64_add_ge_one)

end
