(* ===== verification/Tier_Catalog.thy ===== *)
theory Tier_Catalog
  imports Auto_Config Outcomes
begin

text \<open>
  The tier catalog (\<open>aura-core/src/router/auto/tiers.rs\<close>): which models belong to which tier,
  the five strategies that pick among the eligible candidates of a tier, and the search over
  neighbouring tiers when the requested one has none.

  The \<open>Eligibility\<close> trait object is the record \<open>eligibility\<close>; its test may panic, because the
  caller's allow and deny lists go through the wildcard matcher. The atomic round-robin counter
  is part of the catalog, passed and returned. \<open>samp k a b\<close> is the Beta sample drawn for the
  \<open>k\<close>-th eligible candidate.
\<close>

subsection \<open>The oracle and the records\<close>

record eligibility =
  is_eligible :: "rstring \<Rightarrow> bool panics"
  blended_cost :: "rstring \<Rightarrow> f64 option"
  provider_of :: "rstring \<Rightarrow> rstring option"
  arm_stats_of :: "Tier \<Rightarrow> rstring \<Rightarrow> ArmStats option"
  predicted_cost :: "rstring \<Rightarrow> f64 option"

record CandidateInfo =
  ci_model :: rstring
  ci_provider :: "rstring option"
  ci_tier :: Tier
  ci_cost_per_million :: "f64 option"
  ci_predicted_cost_usd :: "f64 option"
  ci_eligible :: bool

record TierSelection =
  sel_tier :: Tier
  sel_model :: rstring
  sel_provider :: "rstring option"
  sel_candidates :: "CandidateInfo list"
  sel_reason :: rstring

record TierCatalog =
  cat_tiers :: TierModels
  cat_strategy :: WithinTierStrategy
  rr_counter :: usize

definition TierCatalog_new :: "TierModels \<Rightarrow> WithinTierStrategy \<Rightarrow> TierCatalog" where
  "TierCatalog_new tm s = \<lparr> cat_tiers = tm, cat_strategy = s, rr_counter = 0 \<rparr>"

definition TierCatalog_tier_of :: "TierCatalog \<Rightarrow> rstring \<Rightarrow> Tier option" where
  "TierCatalog_tier_of cat m = TierModels_tier_of (cat_tiers cat) m"

definition all_models :: "TierCatalog \<Rightarrow> rstring list" where
  "all_models cat =
     fold (\<lambda>t out. fold (\<lambda>m out. if m \<in> set out then out else out @ [m])
       (TierModels_get (cat_tiers cat) t) out) Tier_ALL []"

subsection \<open>Selecting within a tier\<close>

text \<open>An eligible candidate: its position in the tier's list, its id and its blended price.\<close>

type_synonym eligible = "nat \<times> rstring \<times> f64 option"

text \<open>The loop over the tier's list: the records pushed, and the eligible ones with predictions.\<close>

fun scan_tier ::
    "eligibility \<Rightarrow> Tier \<Rightarrow> (nat \<times> rstring) list \<Rightarrow>
     (CandidateInfo list \<times> (eligible \<times> f64 option) list) panics" where
  "scan_tier orc tier [] = Some ([], [])"
| "scan_tier orc tier ((idx, model) # rest) =
     (case is_eligible orc model of
        None \<Rightarrow> None
      | Some ok \<Rightarrow>
          (let cost = blended_cost orc model;
               pred = predicted_cost orc model;
               info = \<lparr> ci_model = model, ci_provider = provider_of orc model, ci_tier = tier,
                        ci_cost_per_million = cost, ci_predicted_cost_usd = pred,
                        ci_eligible = ok \<rparr>
           in (case scan_tier orc tier rest of
                 None \<Rightarrow> None
               | Some (infos, els) \<Rightarrow>
                   Some (info # infos, if ok then ((idx, model, cost), pred) # els else els))))"

text \<open>The derived comparison of \<open>Option<f64>\<close>, then the position.\<close>

fun opt_partial_cmp :: "f64 option \<Rightarrow> f64 option \<Rightarrow> ordering option" where
  "opt_partial_cmp None None = Some Equal"
| "opt_partial_cmp None (Some _) = Some Less"
| "opt_partial_cmp (Some _) None = Some Greater"
| "opt_partial_cmp (Some a) (Some b) = partial_cmp a b"

definition price_cmp :: "eligible \<Rightarrow> eligible \<Rightarrow> ordering" where
  "price_cmp a b =
     cmp_then (case opt_partial_cmp (snd (snd a)) (snd (snd b)) of Some c \<Rightarrow> c | None \<Rightarrow> Equal)
       (cmp_key fst a b)"

definition pred_cmp :: "nat \<times> rstring \<times> f64 \<Rightarrow> nat \<times> rstring \<times> f64 \<Rightarrow> ordering" where
  "pred_cmp a b = cmp_then (f64_cmp (snd (snd a)) (snd (snd b))) (cmp_key fst a b)"

text \<open>Known prices first, ascending, then the first eligible candidate.\<close>

definition cheapest_of :: "eligible list \<Rightarrow> eligible option" where
  "cheapest_of els =
     (case min_by price_cmp (filter (\<lambda>(_, _, c). c \<noteq> None) els) of
        Some e \<Rightarrow> Some e
      | None \<Rightarrow> (case els of [] \<Rightarrow> None | e # _ \<Rightarrow> Some e))"

definition best_predicted :: "(eligible \<times> f64 option) list \<Rightarrow> (nat \<times> rstring \<times> f64) option" where
  "best_predicted els =
     min_by pred_cmp
       (List.map_filter (\<lambda>((idx, m, _), p). map_option (\<lambda>p. (idx, m, p)) p) els)"

definition arm_of :: "eligibility \<Rightarrow> Tier \<Rightarrow> rstring \<Rightarrow> ArmStats" where
  "arm_of orc tier m = (case arm_stats_of orc tier m of Some s \<Rightarrow> s | None \<Rightarrow> ArmStats_default)"

text \<open>The Thompson loop: the best sample so far, replaced by a strictly larger one.\<close>

fun thompson_loop ::
    "(nat \<Rightarrow> f64 \<Rightarrow> f64 \<Rightarrow> f64) \<Rightarrow> eligibility \<Rightarrow> Tier \<Rightarrow> nat \<Rightarrow> eligible list \<Rightarrow>
     (rstring \<times> f64 \<times> ArmStats) option \<Rightarrow> (rstring \<times> f64 \<times> ArmStats) option" where
  "thompson_loop samp orc tier k [] best = best"
| "thompson_loop samp orc tier k ((_, m, _) # els) best =
     (let stats = arm_of orc tier m;
          sample = samp k (arm_alpha stats) (arm_beta stats)
      in thompson_loop samp orc tier (Suc k) els
           (case best of
              Some (_, s, _) \<Rightarrow> if f64_lt s sample then Some (m, sample, stats) else best
            | None \<Rightarrow> Some (m, sample, stats)))"

text \<open>The match on the strategy: the winner and the reason, over a list that is not empty.\<close>

definition pick ::
    "TierCatalog \<Rightarrow> Tier \<Rightarrow> eligibility \<Rightarrow> (nat \<Rightarrow> f64 \<Rightarrow> f64 \<Rightarrow> f64) \<Rightarrow>
     (eligible \<times> f64 option) list \<Rightarrow> (rstring \<times> rstring) option" where
  "pick cat tier orc samp pairs =
     (let els = map fst pairs; tn = Tier_as_str tier
      in case cat_strategy cat of
        PredictedCost \<Rightarrow>
          (case best_predicted pairs of
             Some (_, m, p) \<Rightarrow>
               Some (m, ''lowest predicted cost in '' @ tn @ '' ($'' @ fmt_fixed 5 p @ '')'')
           | None \<Rightarrow>
               map_option (\<lambda>(_, m, _). (m, ''no cost prediction; cheapest by list price in '' @ tn))
                 (cheapest_of els))
      | ConfigOrder \<Rightarrow> Some (fst (snd (hd els)), ''first eligible candidate in '' @ tn)
      | RoundRobin \<Rightarrow>
          Some (fst (snd (els ! (unat (rr_counter cat) mod length els))),
            ''round-robin over '' @ dec_digits (length els) @ '' eligible in '' @ tn)
      | Thompson \<Rightarrow>
          map_option (\<lambda>(m, sample, stats).
              (m, ''thompson sample '' @ fmt_fixed 2 sample
                  @ '' (mean '' @ fmt_fixed 2 (ArmStats_mean stats) @ '', n=''
                  @ fmt_fixed 0 (f64_sub (f64_add (arm_alpha stats) (arm_beta stats)) (f64_lit 2 1))
                  @ '') over '' @ dec_digits (length els) @ '' eligible in '' @ tn))
            (thompson_loop samp orc tier 0 els None)
      | Cheapest \<Rightarrow>
          map_option (\<lambda>(_, m, c).
              (m, case c of
                    Some c \<Rightarrow> ''cheapest eligible in '' @ tn @ '' ($'' @ fmt_fixed 2 c @ ''/1M blended)''
                  | None \<Rightarrow> ''first eligible in '' @ tn @ '' (no price known)''))
            (cheapest_of els))"

definition select_within ::
    "TierCatalog \<Rightarrow> Tier \<Rightarrow> eligibility \<Rightarrow> (nat \<Rightarrow> f64 \<Rightarrow> f64 \<Rightarrow> f64) \<Rightarrow> CandidateInfo list \<Rightarrow>
     (TierCatalog \<times> CandidateInfo list \<times> (rstring \<times> rstring) option) panics" where
  "select_within cat tier orc samp candidates =
     (case scan_tier orc tier (enumerate 0 (TierModels_get (cat_tiers cat) tier)) of
        None \<Rightarrow> None
      | Some (infos, pairs) \<Rightarrow>
          if pairs = [] then Some (cat, candidates @ infos, None)
          else Some (if cat_strategy cat = RoundRobin then cat\<lparr> rr_counter := rr_counter cat + 1 \<rparr> else cat,
                     candidates @ infos, pick cat tier orc samp pairs))"

subsection \<open>The search over the tiers\<close>

function tiers_up :: "Tier \<Rightarrow> Tier \<Rightarrow> Tier list" where
  "tiers_up max_t t =
     (case Tier_up t of
        None \<Rightarrow> []
      | Some u \<Rightarrow> (if u \<le> max_t then [u] else []) @ tiers_up max_t u)"
  by pat_completeness auto
termination
  by (relation "measure (\<lambda>(_, t). 3 - tier_rank t)") (auto elim!: Tier_up.elims)

function tiers_down :: "Tier \<Rightarrow> Tier \<Rightarrow> Tier list" where
  "tiers_down min_t t =
     (case Tier_down t of
        None \<Rightarrow> []
      | Some d \<Rightarrow> (if min_t \<le> d then [d] else []) @ tiers_down min_t d)"
  by pat_completeness auto
termination
  by (relation "measure (\<lambda>(_, t). tier_rank t)") (auto elim!: Tier_down.elims)

declare tiers_up.simps [simp del] tiers_down.simps [simp del]

definition search_order :: "Tier \<Rightarrow> Tier \<Rightarrow> Tier \<Rightarrow> Tier list" where
  "search_order tier min_t max_t = tier # tiers_up max_t tier @ tiers_down min_t tier"

definition select_reason :: "Tier \<Rightarrow> Tier \<Rightarrow> rstring \<Rightarrow> rstring" where
  "select_reason tier t why =
     (if t = tier then why
      else if tier < t
      then ''escalated from '' @ Tier_as_str tier @ '' (no eligible candidate); '' @ why
      else ''fell back to '' @ Tier_as_str t @ '' (no eligible candidate at or above ''
           @ Tier_as_str tier @ ''); '' @ why)"

fun select_loop ::
    "TierCatalog \<Rightarrow> Tier \<Rightarrow> Tier list \<Rightarrow> eligibility \<Rightarrow> (nat \<Rightarrow> f64 \<Rightarrow> f64 \<Rightarrow> f64) \<Rightarrow>
     CandidateInfo list \<Rightarrow> (TierCatalog \<times> TierSelection option) panics" where
  "select_loop cat tier [] orc samp cands = Some (cat, None)"
| "select_loop cat tier (t # ts) orc samp cands =
     (case select_within cat t orc samp cands of
        None \<Rightarrow> None
      | Some (cat', cands', None) \<Rightarrow> select_loop cat' tier ts orc samp cands'
      | Some (cat', cands', Some (m, why)) \<Rightarrow>
          Some (cat', Some \<lparr> sel_tier = t, sel_model = m, sel_provider = provider_of orc m,
            sel_candidates = cands', sel_reason = select_reason tier t why \<rparr>))"

definition select ::
    "TierCatalog \<Rightarrow> Tier \<Rightarrow> Tier \<Rightarrow> Tier \<Rightarrow> eligibility \<Rightarrow> (nat \<Rightarrow> f64 \<Rightarrow> f64 \<Rightarrow> f64) \<Rightarrow>
     (TierCatalog \<times> TierSelection option) panics" where
  "select cat tier min_t max_t orc samp =
     select_loop cat tier (search_order tier min_t max_t) orc samp []"

subsection \<open>The tiers that are searched\<close>

lemma set_tiers_up: "set (tiers_up max_t t) = {u. t < u \<and> u \<le> max_t}"
proof -
  have "u \<in> set (tiers_up max_t t) \<longleftrightarrow> t < u \<and> u \<le> max_t" for u
    by (cases t; cases u; cases max_t)
      (simp_all add: tier_order tiers_up.simps [of _ Simple] tiers_up.simps [of _ Medium]
        tiers_up.simps [of _ Complex] tiers_up.simps [of _ Reasoning])
  then show ?thesis by blast
qed

lemma set_tiers_down: "set (tiers_down min_t t) = {u. u < t \<and> min_t \<le> u}"
proof -
  have "u \<in> set (tiers_down min_t t) \<longleftrightarrow> u < t \<and> min_t \<le> u" for u
    by (cases t; cases u; cases min_t)
      (simp_all add: tier_order tiers_down.simps [of _ Simple] tiers_down.simps [of _ Medium]
        tiers_down.simps [of _ Complex] tiers_down.simps [of _ Reasoning])
  then show ?thesis by blast
qed

lemma set_search_order:
  "set (search_order t min_t max_t) = {u. u = t \<or> t < u \<and> u \<le> max_t \<or> u < t \<and> min_t \<le> u}"
  by (auto simp: search_order_def set_tiers_up set_tiers_down)

subsection \<open>What a scan and a pick return\<close>

definition info_of :: "eligibility \<Rightarrow> Tier \<Rightarrow> rstring \<Rightarrow> bool \<Rightarrow> CandidateInfo" where
  "info_of orc tier m ok =
     \<lparr> ci_model = m, ci_provider = provider_of orc m, ci_tier = tier,
       ci_cost_per_million = blended_cost orc m, ci_predicted_cost_usd = predicted_cost orc m,
       ci_eligible = ok \<rparr>"

definition entry_of :: "eligibility \<Rightarrow> nat \<times> rstring \<Rightarrow> eligible \<times> f64 option" where
  "entry_of orc e = ((fst e, snd e, blended_cost orc (snd e)), predicted_cost orc (snd e))"

lemma scan_tier_Some:
  "scan_tier orc tier xs = Some (infos, pairs) \<Longrightarrow>
     pairs = map (entry_of orc) (filter (\<lambda>e. is_eligible orc (snd e) = Some True) xs)
     \<and> infos = map (\<lambda>e. info_of orc tier (snd e) (is_eligible orc (snd e) = Some True)) xs"
  by (induction xs arbitrary: infos pairs)
    (auto simp: info_of_def entry_of_def Let_def split: option.splits prod.splits if_splits)

lemma scan_tier_answers:
  "scan_tier orc tier xs = Some r \<Longrightarrow> list_all (\<lambda>m. is_eligible orc m \<noteq> None) (map snd xs)"
  by (induction xs arbitrary: r) (auto simp: Let_def split: option.splits prod.splits)

lemma scan_tier_total:
  "(\<forall>m \<in> set (map snd xs). is_eligible orc m \<noteq> None) \<Longrightarrow> \<exists>r. scan_tier orc tier xs = Some r"
  by (induction xs) (auto simp: Let_def split: option.splits)

text \<open>The eligible entries of a tier, in configured order.\<close>

definition eligibles :: "eligibility \<Rightarrow> rstring list \<Rightarrow> eligible list" where
  "eligibles orc ms =
     map (fst \<circ> entry_of orc)
       (filter (\<lambda>e. is_eligible orc (snd e) = Some True) (enumerate 0 ms))"

lemma eligibles_model:
  "e \<in> set (eligibles orc ms) \<Longrightarrow>
     fst (snd e) \<in> set ms \<and> is_eligible orc (fst (snd e)) = Some True
     \<and> snd (snd e) = blended_cost orc (fst (snd e))"
  by (auto simp: eligibles_def entry_of_def in_set_enumerate_eq)

lemma eligibles_complete:
  assumes "m \<in> set ms" "is_eligible orc m = Some True"
  shows "\<exists>i. (i, m, blended_cost orc m) \<in> set (eligibles orc ms)"
proof -
  from assms(1) obtain i where "i < length ms" "m = ms ! i" by (metis in_set_conv_nth)
  with assms(2) have "(i, m) \<in> set (filter (\<lambda>e. is_eligible orc (snd e) = Some True) (enumerate 0 ms))"
    by (auto simp: in_set_enumerate_eq)
  from imageI [OF this, of "fst \<circ> entry_of orc"] show ?thesis
    by (auto simp: eligibles_def entry_of_def simp del: set_filter)
qed

lemma eligibles_Nil: "eligibles orc ms = [] \<longleftrightarrow> (\<forall>m \<in> set ms. is_eligible orc m \<noteq> Some True)"
  using eligibles_complete [of _ ms orc] eligibles_model [of _ orc ms]
  by (cases "eligibles orc ms") fastforce+

lemma cheapest_of_in: "cheapest_of els = Some e \<Longrightarrow> e \<in> set els"
  by (auto simp: cheapest_of_def split: option.splits list.splits dest!: min_by_in)

lemma cheapest_of_None: "cheapest_of els = None \<longleftrightarrow> els = []"
  by (auto simp: cheapest_of_def split: option.splits list.splits)

lemma best_predicted_in:
  "best_predicted pairs = Some (i, m, p) \<Longrightarrow> \<exists>c. ((i, m, c), Some p) \<in> set pairs"
  unfolding best_predicted_def by (drule min_by_in) (auto simp: List.map_filter_def)

lemma thompson_loop_in:
  "thompson_loop samp orc tier k els best = Some (m, s, st) \<Longrightarrow>
     (\<exists>e \<in> set els. fst (snd e) = m) \<or> best = Some (m, s, st)"
proof (induction els arbitrary: k best)
  case (Cons e els)
  obtain i m' c where e: "e = (i, m', c)" by (cases e)
  let ?sample = "samp k (arm_alpha (arm_of orc tier m')) (arm_beta (arm_of orc tier m'))"
  let ?new = "(m', ?sample, arm_of orc tier m')"
  let ?b = "case best of Some (_, s, _) \<Rightarrow> if f64_lt s ?sample then Some ?new else best | None \<Rightarrow> Some ?new"
  from Cons.prems e have "thompson_loop samp orc tier (Suc k) els ?b = Some (m, s, st)"
    by (simp add: Let_def)
  from Cons.IH [OF this] consider "\<exists>e \<in> set els. fst (snd e) = m" | "?b = Some (m, s, st)" by blast
  then show ?case
    by cases (use e in \<open>auto split: option.splits if_splits\<close>)
qed simp

lemma thompson_loop_None: "thompson_loop samp orc tier k els best = None \<longleftrightarrow> els = [] \<and> best = None"
  by (induction samp orc tier k els best rule: thompson_loop.induct)
    (auto simp: Let_def split: option.splits if_splits)

text \<open>Every strategy picks an eligible model of the tier, and picks one whenever there is one.\<close>

lemma best_predicted_model: "best_predicted pairs = Some (i, m, p) \<Longrightarrow> \<exists>e \<in> set pairs. fst (snd (fst e)) = m"
  by (drule best_predicted_in) force

lemma nth_mod_in: "xs \<noteq> [] \<Longrightarrow> xs ! (k mod length xs) \<in> set xs"
  by (metis nth_mem length_greater_0_conv mod_less_divisor)

lemma pick_None: "pick cat tier orc samp pairs = None \<Longrightarrow> pairs = []"
  by (auto simp: pick_def Let_def cheapest_of_None thompson_loop_None
      split: WithinTierStrategy.splits option.splits)

lemma pick_in:
  assumes "pick cat tier orc samp pairs = Some (m, why)" "pairs \<noteq> []"
  shows "\<exists>e \<in> set pairs. fst (snd (fst e)) = m"
proof (cases "cat_strategy cat")
  case Cheapest
  with assms(1) obtain e where "cheapest_of (map fst pairs) = Some e" "fst (snd e) = m"
    by (auto simp: pick_def Let_def)
  with cheapest_of_in show ?thesis by fastforce
next
  case ConfigOrder
  with assms show ?thesis by (cases pairs) (auto simp: pick_def)
next
  case RoundRobin
  with assms nth_mod_in [of "map fst pairs" "unat (rr_counter cat)"] show ?thesis
    by (auto simp: pick_def Let_def)
next
  case Thompson
  with assms(1) obtain s st where "thompson_loop samp orc tier 0 (map fst pairs) None = Some (m, s, st)"
    by (auto simp: pick_def Let_def)
  from thompson_loop_in [OF this] show ?thesis by auto
next
  case PredictedCost
  show ?thesis
  proof (cases "best_predicted pairs")
    case None
    with PredictedCost assms(1) obtain e where "cheapest_of (map fst pairs) = Some e" "fst (snd e) = m"
      by (auto simp: pick_def Let_def)
    with cheapest_of_in show ?thesis by fastforce
  next
    case (Some x)
    with PredictedCost assms(1) have "\<exists>i p. best_predicted pairs = Some (i, m, p)"
      by (auto simp: pick_def Let_def split: prod.splits)
    then show ?thesis using best_predicted_model by blast
  qed
qed

lemma select_within_scan:
  assumes "select_within cat tier orc samp cands = Some (cat', cands', r)"
  obtains pairs where "map fst pairs = eligibles orc (TierModels_get (cat_tiers cat) tier)"
    and "cands' = cands @ map (\<lambda>m. info_of orc tier m (is_eligible orc m = Some True))
      (TierModels_get (cat_tiers cat) tier)"
    and "r = (if pairs = [] then None else pick cat tier orc samp pairs)"
    and "\<forall>m \<in> set (TierModels_get (cat_tiers cat) tier). is_eligible orc m \<noteq> None"
    and "cat_tiers cat' = cat_tiers cat \<and> cat_strategy cat' = cat_strategy cat"
proof -
  let ?ms = "TierModels_get (cat_tiers cat) tier"
  from assms obtain infos pairs where scan: "scan_tier orc tier (enumerate 0 ?ms) = Some (infos, pairs)"
    by (auto simp: select_within_def split: option.splits)
  have "map (\<lambda>e. f (snd e)) (enumerate 0 ?ms) = map f (map snd (enumerate 0 ?ms))"
    for f :: "rstring \<Rightarrow> CandidateInfo"
    unfolding map_map by (simp add: comp_def)
  then have "map (\<lambda>e. f (snd e)) (enumerate 0 ?ms) = map f ?ms" for f :: "rstring \<Rightarrow> CandidateInfo"
    unfolding map_snd_enumerate .
  with scan_tier_Some [OF scan] have "map fst pairs = eligibles orc ?ms"
    "infos = map (\<lambda>m. info_of orc tier m (is_eligible orc m = Some True)) ?ms"
    by (auto simp: eligibles_def)
  moreover have "\<forall>m \<in> set ?ms. is_eligible orc m \<noteq> None"
    using scan_tier_answers [OF scan] by (simp only: map_snd_enumerate list_all_iff)
  moreover have "cands' = cands @ infos" "r = (if pairs = [] then None else pick cat tier orc samp pairs)"
    "cat_tiers cat' = cat_tiers cat \<and> cat_strategy cat' = cat_strategy cat"
    using assms scan by (auto simp: select_within_def split: if_splits)
  ultimately show ?thesis using that by blast
qed

lemma select_within_None_iff:
  assumes "select_within cat tier orc samp cands = Some (cat', cands', r)"
  shows "r = None \<longleftrightarrow> (\<forall>m \<in> set (TierModels_get (cat_tiers cat) tier). is_eligible orc m \<noteq> Some True)"
proof -
  from assms obtain pairs where p: "map fst pairs = eligibles orc (TierModels_get (cat_tiers cat) tier)"
    "r = (if pairs = [] then None else pick cat tier orc samp pairs)"
    by (rule select_within_scan)
  from p(2) have "r = None \<longleftrightarrow> pairs = []" using pick_None by metis
  then show ?thesis unfolding eligibles_Nil [symmetric] p(1) [symmetric] by simp
qed

lemma select_within_model:
  assumes "select_within cat tier orc samp cands = Some (cat', cands', Some (m, why))"
  shows "m \<in> set (TierModels_get (cat_tiers cat) tier) \<and> is_eligible orc m = Some True"
proof -
  from assms obtain pairs where p: "map fst pairs = eligibles orc (TierModels_get (cat_tiers cat) tier)"
    "Some (m, why) = (if pairs = [] then None else pick cat tier orc samp pairs)"
    by (rule select_within_scan)
  from p(2) obtain e where "e \<in> set pairs" "fst (snd (fst e)) = m"
    using pick_in by (metis option.distinct(1))
  then have "fst e \<in> set (eligibles orc (TierModels_get (cat_tiers cat) tier))"
    unfolding p(1) [symmetric] by simp
  from eligibles_model [OF this] \<open>fst (snd (fst e)) = m\<close> show ?thesis by simp
qed

lemma select_within_frame:
  assumes "select_within cat tier orc samp cands = Some (cat', cands', r)"
  shows "cat_tiers cat' = cat_tiers cat"
    and "cands' = cands @ map (\<lambda>m. info_of orc tier m (is_eligible orc m = Some True))
      (TierModels_get (cat_tiers cat) tier)"
  using assms by (auto elim!: select_within_scan)

text \<open>With an oracle that answers, the pick does not panic.\<close>

lemma select_within_total:
  assumes "\<forall>m \<in> set (TierModels_get (cat_tiers cat) tier). is_eligible orc m \<noteq> None"
  shows "\<exists>r. select_within cat tier orc samp cands = Some r"
proof -
  have "\<forall>m \<in> set (map snd (enumerate 0 (TierModels_get (cat_tiers cat) tier))). is_eligible orc m \<noteq> None"
    using assms by (simp only: map_snd_enumerate)
  from scan_tier_total [OF this] obtain infos pairs where
    "scan_tier orc tier (enumerate 0 (TierModels_get (cat_tiers cat) tier)) = Some (infos, pairs)"
    by fastforce
  then show ?thesis by (cases "pairs = []") (simp_all add: select_within_def)
qed

subsection \<open>The selection\<close>

definition tier_has :: "TierCatalog \<Rightarrow> eligibility \<Rightarrow> Tier \<Rightarrow> bool" where
  "tier_has cat orc t \<longleftrightarrow> (\<exists>m \<in> set (TierModels_get (cat_tiers cat) t). is_eligible orc m = Some True)"

lemma tier_has_cong: "cat_tiers cat' = cat_tiers cat \<Longrightarrow> tier_has cat' = tier_has cat"
  by (simp add: tier_has_def fun_eq_iff)

lemma select_loop_sound:
  assumes "select_loop cat tier ts orc samp cands = Some (cat', r)"
  shows "cat_tiers cat' = cat_tiers cat
    \<and> (r = None \<longleftrightarrow> (\<forall>t \<in> set ts. \<not> tier_has cat orc t))
    \<and> (\<forall>sel. r = Some sel \<longrightarrow>
         sel_model sel \<in> set (TierModels_get (cat_tiers cat) (sel_tier sel))
         \<and> is_eligible orc (sel_model sel) = Some True
         \<and> sel_provider sel = provider_of orc (sel_model sel)
         \<and> (\<exists>before after. ts = before @ sel_tier sel # after \<and> (\<forall>t \<in> set before. \<not> tier_has cat orc t)))"
  using assms
proof (induction ts arbitrary: cat cands)
  case Nil
  then show ?case by simp
next
  case (Cons t ts)
  from Cons.prems obtain c1 cs1 r1 where w: "select_within cat t orc samp cands = Some (c1, cs1, r1)"
    by (auto split: option.splits)
  have has: "r1 = None \<longleftrightarrow> \<not> tier_has cat orc t"
    using select_within_None_iff [OF w] by (auto simp: tier_has_def)
  have tiers: "cat_tiers c1 = cat_tiers cat" by (rule select_within_frame [OF w])
  show ?case
  proof (cases r1)
    case None
    with Cons.prems w have "select_loop c1 tier ts orc samp cs1 = Some (cat', r)" by simp
    note IH = Cons.IH [OF this, unfolded tiers tier_has_cong [OF tiers]]
    have nt: "\<not> tier_has cat orc t" using has None by simp
    have "\<exists>before after. t # ts = before @ u # after \<and> (\<forall>t \<in> set before. \<not> tier_has cat orc t)"
      if "\<exists>before after. ts = before @ u # after \<and> (\<forall>t \<in> set before. \<not> tier_has cat orc t)" for u
      using that nt by (metis append_Cons set_ConsD)
    with IH nt show ?thesis by simp
  next
    case (Some mw)
    obtain m why where mw: "mw = (m, why)" by (cases mw)
    from Cons.prems w Some mw have "cat' = c1" "\<exists>sel. r = Some sel \<and> sel_tier sel = t
        \<and> sel_model sel = m \<and> sel_provider sel = provider_of orc m"
      by auto
    moreover have "m \<in> set (TierModels_get (cat_tiers cat) t) \<and> is_eligible orc m = Some True"
      using w unfolding Some mw by (rule select_within_model)
    moreover have "\<exists>before after. t # ts = before @ t # after \<and> (\<forall>t \<in> set before. \<not> tier_has cat orc t)"
      by (rule exI [of _ "[]"]) simp
    ultimately show ?thesis using tiers has Some by auto
  qed
qed

lemma select_loop_total:
  assumes "\<forall>t \<in> set ts. \<forall>m \<in> set (TierModels_get (cat_tiers cat) t). is_eligible orc m \<noteq> None"
  shows "\<exists>r. select_loop cat tier ts orc samp cands = Some r"
  using assms
proof (induction ts arbitrary: cat cands)
  case (Cons t ts)
  then have "\<forall>m \<in> set (TierModels_get (cat_tiers cat) t). is_eligible orc m \<noteq> None" by simp
  from select_within_total [OF this] obtain c1 cs1 r1
    where w: "select_within cat t orc samp cands = Some (c1, cs1, r1)" by fastforce
  with Cons.IH [of c1 cs1] Cons.prems select_within_frame(1) [OF w] show ?case
    by (cases r1) (auto split: prod.splits)
qed simp

subsection \<open>The strategies are optimal for what they rank by\<close>

text \<open>Both price orders compare a price and break ties by position.\<close>

definition value_then_index :: "('a \<Rightarrow> f64) \<Rightarrow> ('a \<Rightarrow> nat) \<Rightarrow> 'a \<Rightarrow> 'a \<Rightarrow> ordering" where
  "value_then_index v i a b = cmp_then (f64_cmp (v a) (v b)) (cmp_key i a b)"

lemma value_then_index_le:
  assumes "v a \<noteq> NaN" "v b \<noteq> NaN"
  shows "value_then_index v i a b \<noteq> Greater \<longleftrightarrow> f64_le (v a) (v b) \<and> (v a = v b \<longrightarrow> i a \<le> i b)"
  using assms f64_le_total [of "v a" "v b"] f64_le_antisym [of "v a" "v b"] f64_le_refl
  by (auto simp: value_then_index_def f64_cmp_def partial_cmp_def f64_lt_def cmp_key_def
      split: if_splits)

interpretation value_order: total_comparator "value_then_index v i" "\<lambda>a. v a \<noteq> NaN" for v i
proof unfold_locales
  fix a b assume n: "v a \<noteq> NaN" "v b \<noteq> NaN"
  show "value_then_index v i a b = Greater \<longleftrightarrow> value_then_index v i b a = Less"
    using n f64_le_total [of "v a" "v b"] f64_le_antisym [of "v a" "v b"]
    by (auto simp: value_then_index_def f64_cmp_def partial_cmp_def f64_lt_def cmp_key_def)
next
  fix a b c assume n: "v a \<noteq> NaN" "v b \<noteq> NaN" "v c \<noteq> NaN"
    and "value_then_index v i a b \<noteq> Greater" "value_then_index v i b c \<noteq> Greater"
  then have "f64_le (v a) (v b) \<and> (v a = v b \<longrightarrow> i a \<le> i b)" "f64_le (v b) (v c) \<and> (v b = v c \<longrightarrow> i b \<le> i c)"
    by (simp_all add: value_then_index_le)
  then show "value_then_index v i a c \<noteq> Greater"
    using n by (simp add: value_then_index_le) (metis f64_le_trans f64_le_antisym order_trans)
qed

lemma min_by_cong_on:
  assumes "\<And>a b. a \<in> set xs \<Longrightarrow> b \<in> set xs \<Longrightarrow> f a b = g a b"
  shows "min_by f xs = min_by g xs"
proof (cases xs)
  case (Cons x ys)
  have "foldl (\<lambda>a b. if f a b = Greater then b else a) x zs =
      foldl (\<lambda>a b. if g a b = Greater then b else a) x zs"
    if "x \<in> set xs" "set zs \<subseteq> set xs" for x zs
    using that by (induction zs arbitrary: x) (auto simp: assms)
  with Cons show ?thesis by (simp add: subset_eq)
qed simp

text \<open>\<open>Cheapest\<close>: the least known price, the earliest of equal ones, before any unknown price.\<close>

lemma cheapest_of_min:
  assumes "cheapest_of els = Some (i, m, c)" "(j, m', Some c') \<in> set els"
    and nan: "\<forall>e \<in> set els. snd (snd e) \<noteq> Some NaN"
  shows "\<exists>p. c = Some p \<and> f64_le p c' \<and> (p = c' \<longrightarrow> i \<le> j)"
proof -
  let ?priced = "filter (\<lambda>(_, _, c). c \<noteq> None) els"
  let ?v = "\<lambda>e :: eligible. the (snd (snd e))"
  have ok: "?v e \<noteq> NaN" if "e \<in> set ?priced" for e using nan that by auto
  have "(j, m', Some c') \<in> set ?priced" using assms(2) by simp
  moreover from this have "min_by price_cmp ?priced \<noteq> None" by (auto simp: filter_empty_conv)
  with assms(1) have best: "min_by price_cmp ?priced = Some (i, m, c)"
    by (auto simp: cheapest_of_def split: option.splits)
  moreover have "min_by price_cmp ?priced = min_by (value_then_index ?v fst) ?priced"
    by (rule min_by_cong_on) (auto simp: price_cmp_def value_then_index_def f64_cmp_def)
  ultimately have "value_then_index ?v fst (i, m, c) (j, m', Some c') \<noteq> Greater"
    using value_order.min_by_least [of ?v fst ?priced] ok by auto
  moreover have "c \<noteq> None" "c \<noteq> Some NaN" using min_by_in [OF best] nan by auto
  moreover have "c' \<noteq> NaN" using nan assms(2) by force
  ultimately show ?thesis
    using nan assms(2) value_then_index_le [of ?v "(i, m, c)" "(j, m', Some c')" fst] by auto
qed

lemma best_predicted_min:
  assumes "best_predicted pairs = Some (i, m, p)" "((j, m', c), Some q) \<in> set pairs"
    and nan: "\<forall>e \<in> set pairs. snd e \<noteq> Some NaN"
  shows "f64_le p q \<and> (p = q \<longrightarrow> i \<le> j)"
proof -
  let ?l = "List.map_filter (\<lambda>((idx, m, _), p). map_option (\<lambda>p. (idx, m, p)) p) pairs"
  have ok: "snd (snd e) \<noteq> NaN" if "e \<in> set ?l" for e
    using nan that by (auto simp: List.map_filter_def)
  have "(j, m', q) \<in> set ?l" using assms(2) by (force simp: List.map_filter_def)
  moreover have "min_by (value_then_index (\<lambda>e. snd (snd e)) fst) ?l = Some (i, m, p)"
    using assms(1) unfolding best_predicted_def pred_cmp_def [abs_def] value_then_index_def [abs_def] .
  moreover from this have "snd (snd (i, m, p)) \<noteq> NaN" by (intro ok min_by_in)
  ultimately show ?thesis
    using value_order.min_by_least [of "\<lambda>e. snd (snd e)" fst ?l "(i, m, p)" "(j, m', q)"] ok
      value_then_index_le [of "\<lambda>e. snd (snd e)" "(i, m, p)" "(j, m', q)" fst]
    by auto
qed

text \<open>\<open>Thompson\<close>: no other eligible candidate drew a larger sample.\<close>

definition sample_of ::
    "(nat \<Rightarrow> f64 \<Rightarrow> f64 \<Rightarrow> f64) \<Rightarrow> eligibility \<Rightarrow> Tier \<Rightarrow> nat \<Rightarrow> rstring \<Rightarrow> f64" where
  "sample_of samp orc tier k m =
     samp k (arm_alpha (arm_of orc tier m)) (arm_beta (arm_of orc tier m))"

lemma thompson_loop_max:
  assumes "thompson_loop samp orc tier k els best = Some (m, s, st)"
    and "\<forall>k a b. samp k a b \<noteq> NaN" "\<forall>x. best = Some x \<longrightarrow> fst (snd x) \<noteq> NaN"
  shows "(\<forall>x. best = Some x \<longrightarrow> f64_le (fst (snd x)) s)
    \<and> (\<forall>j < length els. f64_le (sample_of samp orc tier (k + j) (fst (snd (els ! j)))) s)"
  using assms
proof (induction els arbitrary: k best)
  case Nil
  then show ?case by (auto simp: f64_le_refl)
next
  case (Cons e els)
  obtain i m' c where e: "e = (i, m', c)" by (cases e)
  let ?sample = "sample_of samp orc tier k m'"
  let ?new = "(m', ?sample, arm_of orc tier m')"
  let ?b = "case best of Some (_, s, _) \<Rightarrow> if f64_lt s ?sample then Some ?new else best | None \<Rightarrow> Some ?new"
  have nn: "?sample \<noteq> NaN" using Cons.prems(2) by (simp add: sample_of_def)
  have run: "thompson_loop samp orc tier (Suc k) els ?b = Some (m, s, st)"
    using Cons.prems(1) unfolding e sample_of_def by (simp add: Let_def)
  have "\<forall>x. ?b = Some x \<longrightarrow> fst (snd x) \<noteq> NaN"
    using Cons.prems(3) nn by (auto split: option.splits)
  note IH = Cons.IH [OF run Cons.prems(2) this]
  have b: "\<exists>x. ?b = Some x \<and> f64_le ?sample (fst (snd x))
      \<and> (\<forall>y. best = Some y \<longrightarrow> f64_le (fst (snd y)) (fst (snd x)))"
    using Cons.prems(3) nn
    by (cases best) (auto simp: f64_lt_def f64_le_refl dest: f64_le_total [of ?sample])
  then have "\<forall>x. best = Some x \<longrightarrow> f64_le (fst (snd x)) s" and first: "f64_le ?sample s"
    using IH by (auto dest: f64_le_trans)
  moreover have "f64_le (sample_of samp orc tier (k + j) (fst (snd ((e # els) ! j)))) s"
    if "j < length (e # els)" for j
    using IH first that e by (cases j) auto
  ultimately show ?case by blast
qed

text \<open>\<open>RoundRobin\<close>: consecutive picks walk the eligible list cyclically.\<close>

fun rr_picks ::
    "nat \<Rightarrow> TierCatalog \<Rightarrow> Tier \<Rightarrow> eligibility \<Rightarrow> (nat \<Rightarrow> f64 \<Rightarrow> f64 \<Rightarrow> f64) \<Rightarrow> rstring list panics" where
  "rr_picks 0 cat tier orc samp = Some []"
| "rr_picks (Suc n) cat tier orc samp =
     (case select_within cat tier orc samp [] of
        Some (cat', _, Some (m, _)) \<Rightarrow> map_option ((#) m) (rr_picks n cat' tier orc samp)
      | _ \<Rightarrow> None)"

lemma select_within_round_robin:
  assumes "cat_strategy cat = RoundRobin"
    and "\<forall>m \<in> set (TierModels_get (cat_tiers cat) tier). is_eligible orc m \<noteq> None"
    and "eligibles orc (TierModels_get (cat_tiers cat) tier) = els" "els \<noteq> []"
  shows "\<exists>cs why. select_within cat tier orc samp cands =
    Some (cat\<lparr> rr_counter := rr_counter cat + 1 \<rparr>, cs,
      Some (fst (snd (els ! (unat (rr_counter cat) mod length els))), why))"
proof -
  have "\<forall>m \<in> set (map snd (enumerate 0 (TierModels_get (cat_tiers cat) tier))). is_eligible orc m \<noteq> None"
    using assms(2) by (simp only: map_snd_enumerate)
  from scan_tier_total [OF this] obtain infos pairs where
    scan: "scan_tier orc tier (enumerate 0 (TierModels_get (cat_tiers cat) tier)) = Some (infos, pairs)"
    by fastforce
  with assms(3) have "map fst pairs = els"
    using scan_tier_Some [OF scan] by (auto simp: eligibles_def)
  with scan assms(1,4) show ?thesis by (auto simp: select_within_def pick_def Let_def)
qed

lemma rr_picks_walk:
  assumes "cat_strategy cat = RoundRobin"
    and "\<forall>m \<in> set (TierModels_get (cat_tiers cat) tier). is_eligible orc m \<noteq> None"
    and "eligibles orc (TierModels_get (cat_tiers cat) tier) = els" "els \<noteq> []"
    and "unat (rr_counter cat) + n \<le> 2 ^ 64"
  shows "rr_picks n cat tier orc samp =
    Some (map (\<lambda>j. fst (snd (els ! ((unat (rr_counter cat) + j) mod length els)))) [0..<n])"
  using assms
proof (induction n arbitrary: cat)
  case (Suc n)
  let ?cat = "cat\<lparr> rr_counter := rr_counter cat + 1 \<rparr>"
  show ?case
  proof (cases "n = 0")
    case True
    with Suc.prems select_within_round_robin [of cat tier orc els samp "[]"] show ?thesis by auto
  next
    case False
    with Suc.prems(5) have "unat (rr_counter cat + 1) = Suc (unat (rr_counter cat))"
      using unat_add_no_wrap [of "rr_counter cat" 1] by simp
    with Suc.IH [of ?cat] Suc.prems have
      "rr_picks n ?cat tier orc samp =
        Some (map (\<lambda>j. fst (snd (els ! ((Suc (unat (rr_counter cat)) + j) mod length els)))) [0..<n])"
      by simp
    with Suc.prems select_within_round_robin [of cat tier orc els samp "[]"]
    show ?thesis by (auto simp: upt_conv_Cons map_Suc_upt [symmetric] comp_def simp del: upt_Suc)
  qed
qed simp

lemma rr_picks_rotate:
  assumes "cat_strategy cat = RoundRobin"
    and "\<forall>m \<in> set (TierModels_get (cat_tiers cat) tier). is_eligible orc m \<noteq> None"
    and "eligibles orc (TierModels_get (cat_tiers cat) tier) = els" "els \<noteq> []"
    and "unat (rr_counter cat) + length els \<le> 2 ^ 64"
  shows "rr_picks (length els) cat tier orc samp =
    Some (rotate (unat (rr_counter cat)) (map (fst \<circ> snd) els))"
proof -
  have "rotate (unat (rr_counter cat)) (map (fst \<circ> snd) els) =
      map (\<lambda>j. fst (snd (els ! ((unat (rr_counter cat) + j) mod length els)))) [0..<length els]"
    using assms(4) by (intro nth_equalityI) (simp_all add: nth_rotate)
  with rr_picks_walk [OF assms] show ?thesis by simp
qed

subsection \<open>The interface of an oracle that answers\<close>

text \<open>
  What selection needs from its caller: an answer for every model. Inside the locale the search
  is total, and it fails exactly when no searched tier lists an acceptable model.
\<close>

locale answering =
  fixes orc :: eligibility and ok :: "rstring \<Rightarrow> bool"
  assumes answers: "is_eligible orc m = Some (ok m)"
begin

lemma select_total: "\<exists>cat' r. select cat tier lo hi orc samp = Some (cat', r)"
proof -
  have "\<forall>t \<in> set (search_order tier lo hi). \<forall>m \<in> set (TierModels_get (cat_tiers cat) t). is_eligible orc m \<noteq> None"
    by (simp add: answers)
  from select_loop_total [OF this] show ?thesis by (simp add: select_def)
qed

lemma tier_has_ok: "tier_has cat orc t \<longleftrightarrow> (\<exists>m \<in> set (TierModels_get (cat_tiers cat) t). ok m)"
  by (simp add: tier_has_def answers)

lemma select_found:
  assumes "\<exists>t \<in> set (search_order tier lo hi). \<exists>m \<in> set (TierModels_get (cat_tiers cat) t). ok m"
  shows "\<exists>cat' sel. select cat tier lo hi orc samp = Some (cat', Some sel)"
proof -
  obtain cat' r where r: "select cat tier lo hi orc samp = Some (cat', r)" using select_total by blast
  then have "r \<noteq> None"
    using select_loop_sound [of cat tier "search_order tier lo hi" orc samp "[]" cat' r] assms
    by (auto simp: select_def tier_has_ok)
  with r show ?thesis by blast
qed

end

lemma prefix_before: "xs @ ys = b @ x # a \<Longrightarrow> x \<notin> set xs \<Longrightarrow> \<exists>zs. b = xs @ zs"
  by (induction xs arbitrary: b) (auto simp: Cons_eq_append_conv)

lemma select_sound:
  assumes "select cat tier lo hi orc samp = Some (cat', r)"
  shows "cat_tiers cat' = cat_tiers cat"
    and "r = None \<longleftrightarrow> (\<forall>t \<in> set (search_order tier lo hi). \<not> tier_has cat orc t)"
    and "r = Some sel \<Longrightarrow> sel_model sel \<in> set (TierModels_get (cat_tiers cat) (sel_tier sel))
      \<and> is_eligible orc (sel_model sel) = Some True \<and> sel_provider sel = provider_of orc (sel_model sel)
      \<and> sel_tier sel \<in> set (search_order tier lo hi)
      \<and> (sel_tier sel \<noteq> tier \<longrightarrow> \<not> tier_has cat orc tier)
      \<and> (sel_tier sel < tier \<longrightarrow> (\<forall>t. tier < t \<and> t \<le> hi \<longrightarrow> \<not> tier_has cat orc t))"
proof -
  note S = select_loop_sound [OF assms [unfolded select_def]]
  show "cat_tiers cat' = cat_tiers cat" using S by blast
  show "r = None \<longleftrightarrow> (\<forall>t \<in> set (search_order tier lo hi). \<not> tier_has cat orc t)" using S by blast
  assume "r = Some sel"
  with S obtain before after where
    o: "search_order tier lo hi = before @ sel_tier sel # after" "\<forall>t \<in> set before. \<not> tier_has cat orc t"
    and m: "sel_model sel \<in> set (TierModels_get (cat_tiers cat) (sel_tier sel))
      \<and> is_eligible orc (sel_model sel) = Some True \<and> sel_provider sel = provider_of orc (sel_model sel)"
    by blast
  have mem: "sel_tier sel \<in> set (search_order tier lo hi)" using o(1) by simp
  have first: "sel_tier sel \<noteq> tier \<longrightarrow> \<not> tier_has cat orc tier"
    using o by (cases before) (auto simp: search_order_def)
  have below: "\<not> tier_has cat orc t" if "sel_tier sel < tier" "tier < t" "t \<le> hi" for t
  proof -
    have "sel_tier sel \<notin> set (tier # tiers_up hi tier)" using that(1) by (auto simp: set_tiers_up)
    moreover have "(tier # tiers_up hi tier) @ tiers_down lo tier = before @ sel_tier sel # after"
      using o(1) by (simp add: search_order_def)
    ultimately obtain zs where "before = (tier # tiers_up hi tier) @ zs"
      using prefix_before by metis
    then have "t \<in> set before" using that(2,3) by (auto simp: set_tiers_up)
    with o(2) show ?thesis by blast
  qed
  from m mem first below show "sel_model sel \<in> set (TierModels_get (cat_tiers cat) (sel_tier sel))
      \<and> is_eligible orc (sel_model sel) = Some True \<and> sel_provider sel = provider_of orc (sel_model sel)
      \<and> sel_tier sel \<in> set (search_order tier lo hi)
      \<and> (sel_tier sel \<noteq> tier \<longrightarrow> \<not> tier_has cat orc tier)
      \<and> (sel_tier sel < tier \<longrightarrow> (\<forall>t. tier < t \<and> t \<le> hi \<longrightarrow> \<not> tier_has cat orc t))"
    by blast
qed

end
