(* ===== verification/Items.thy ===== *)
theory Items
  imports F64
begin

text \<open>
  The items of a conversation (\<open>aura-types/src/item.rs\<close>): roles, statuses, content parts, the
  four kinds of output item with their accessors, and the input items of a request. The JSON
  values that travel beside them are the datatype \<open>json\<close>, in the shape of \<open>serde_json::Value\<close>
  without the \<open>preserve_order\<close> feature: an object is a list of entries in the order of its keys.
\<close>

subsection \<open>JSON values\<close>

datatype json_number = PosInt u64 | NegInt "64 word" | JFloat f64

datatype json =
    JNull
  | JBool bool
  | JNum json_number
  | JStr rstring
  | JArr "json list"
  | JObj "(rstring \<times> json) list"

subsection \<open>Items\<close>

datatype Role = User | Assistant | System | RTool

datatype ItemStatus = It_InProgress | It_Completed | It_Failed | It_Incomplete

datatype ContentPart =
    CText rstring
  | CImage "rstring option" "rstring option" "rstring option"
  | CAudio rstring "rstring option"

definition ContentPart_text :: "rstring \<Rightarrow> ContentPart" where
  "ContentPart_text t = CText t"

definition ContentPart_image_url :: "rstring \<Rightarrow> ContentPart" where
  "ContentPart_image_url url = CImage (Some url) None None"

definition ContentPart_image_data :: "rstring \<Rightarrow> rstring \<Rightarrow> ContentPart" where
  "ContentPart_image_data d media_type = CImage None (Some d) (Some media_type)"

record MessageItem =
  msg_id :: rstring
  msg_role :: Role
  msg_content :: "ContentPart list"
  msg_status :: ItemStatus

definition MessageItem_new :: "rstring \<Rightarrow> Role \<Rightarrow> rstring \<Rightarrow> MessageItem" where
  "MessageItem_new i r t =
     \<lparr> msg_id = i, msg_role = r, msg_content = [ContentPart_text t], msg_status = It_Completed \<rparr>"

definition MessageItem_user :: "rstring \<Rightarrow> rstring \<Rightarrow> MessageItem" where
  "MessageItem_user i t = MessageItem_new i User t"

definition MessageItem_assistant :: "rstring \<Rightarrow> rstring \<Rightarrow> MessageItem" where
  "MessageItem_assistant i t = MessageItem_new i Assistant t"

definition MessageItem_system :: "rstring \<Rightarrow> rstring \<Rightarrow> MessageItem" where
  "MessageItem_system i t = MessageItem_new i System t"

fun part_text :: "ContentPart \<Rightarrow> rstring option" where
  "part_text (CText t) = Some t"
| "part_text _ = None"

definition MessageItem_text :: "MessageItem \<Rightarrow> rstring" where
  "MessageItem_text m = str_join [] (List.map_filter part_text (msg_content m))"

record FunctionCallItem =
  fc_id :: rstring
  fc_call_id :: rstring
  fc_name :: rstring
  fc_arguments :: rstring
  fc_status :: ItemStatus

definition FunctionCallItem_new ::
    "rstring \<Rightarrow> rstring \<Rightarrow> rstring \<Rightarrow> rstring \<Rightarrow> FunctionCallItem" where
  "FunctionCallItem_new i c n a =
     \<lparr> fc_id = i, fc_call_id = c, fc_name = n, fc_arguments = a, fc_status = It_Completed \<rparr>"

record FunctionCallOutputItem =
  fco_id :: rstring
  fco_call_id :: rstring
  fco_output :: rstring
  fco_status :: ItemStatus

definition FunctionCallOutputItem_new ::
    "rstring \<Rightarrow> rstring \<Rightarrow> rstring \<Rightarrow> FunctionCallOutputItem" where
  "FunctionCallOutputItem_new i c out =
     \<lparr> fco_id = i, fco_call_id = c, fco_output = out, fco_status = It_Completed \<rparr>"

datatype ReasoningContent = RText rstring | Redacted rstring

record ReasoningItem =
  rs_id :: rstring
  rs_content :: "ReasoningContent list"
  rs_summary :: "rstring option"
  rs_status :: ItemStatus

definition ReasoningItem_new :: "rstring \<Rightarrow> rstring \<Rightarrow> ReasoningItem" where
  "ReasoningItem_new i t =
     \<lparr> rs_id = i, rs_content = [RText t], rs_summary = None, rs_status = It_Completed \<rparr>"

definition ReasoningItem_with_summary :: "rstring \<Rightarrow> rstring \<Rightarrow> ReasoningItem" where
  "ReasoningItem_with_summary i s =
     \<lparr> rs_id = i, rs_content = [], rs_summary = Some s, rs_status = It_Completed \<rparr>"

datatype Item =
    Message MessageItem
  | FunctionCall FunctionCallItem
  | FunctionCallOutput FunctionCallOutputItem
  | IReasoning ReasoningItem

fun Item_id :: "Item \<Rightarrow> rstring" where
  "Item_id (Message m) = msg_id m"
| "Item_id (FunctionCall f) = fc_id f"
| "Item_id (FunctionCallOutput f) = fco_id f"
| "Item_id (IReasoning r) = rs_id r"

fun Item_status :: "Item \<Rightarrow> ItemStatus" where
  "Item_status (Message m) = msg_status m"
| "Item_status (FunctionCall f) = fc_status f"
| "Item_status (FunctionCallOutput f) = fco_status f"
| "Item_status (IReasoning r) = rs_status r"

fun Item_is_message :: "Item \<Rightarrow> bool" where
  "Item_is_message (Message _) = True"
| "Item_is_message _ = False"

fun Item_is_function_call :: "Item \<Rightarrow> bool" where
  "Item_is_function_call (FunctionCall _) = True"
| "Item_is_function_call _ = False"

fun Item_is_function_call_output :: "Item \<Rightarrow> bool" where
  "Item_is_function_call_output (FunctionCallOutput _) = True"
| "Item_is_function_call_output _ = False"

fun Item_is_reasoning :: "Item \<Rightarrow> bool" where
  "Item_is_reasoning (IReasoning _) = True"
| "Item_is_reasoning _ = False"

fun Item_as_message :: "Item \<Rightarrow> MessageItem option" where
  "Item_as_message (Message m) = Some m"
| "Item_as_message _ = None"

fun Item_as_function_call :: "Item \<Rightarrow> FunctionCallItem option" where
  "Item_as_function_call (FunctionCall f) = Some f"
| "Item_as_function_call _ = None"

fun Item_as_function_call_output :: "Item \<Rightarrow> FunctionCallOutputItem option" where
  "Item_as_function_call_output (FunctionCallOutput f) = Some f"
| "Item_as_function_call_output _ = None"

fun Item_as_reasoning :: "Item \<Rightarrow> ReasoningItem option" where
  "Item_as_reasoning (IReasoning r) = Some r"
| "Item_as_reasoning _ = None"

text \<open>The accessors agree with the tests, and exactly one of them answers.\<close>

lemma Item_accessors:
  "Item_is_message i \<longleftrightarrow> Item_as_message i \<noteq> None"
  "Item_is_function_call i \<longleftrightarrow> Item_as_function_call i \<noteq> None"
  "Item_is_function_call_output i \<longleftrightarrow> Item_as_function_call_output i \<noteq> None"
  "Item_is_reasoning i \<longleftrightarrow> Item_as_reasoning i \<noteq> None"
  by (cases i; simp)+

lemma str_join_Nil_concat: "str_join [] xs = concat xs"
  by (induction "[] :: rstring" xs rule: str_join.induct) auto

lemma MessageItem_new_text [simp]: "MessageItem_text (MessageItem_new i r t) = t"
  by (simp add: MessageItem_text_def MessageItem_new_def ContentPart_text_def List.map_filter_def)

subsection \<open>Input items\<close>

datatype InputContent = IText rstring | IParts "ContentPart list"

datatype InputItem =
    InMessage Role InputContent
  | InFunctionCall rstring rstring rstring
  | InFunctionCallOutput rstring rstring

definition InputContent_text :: "rstring \<Rightarrow> InputContent" where
  "InputContent_text t = IText t"

definition InputContent_parts :: "ContentPart list \<Rightarrow> InputContent" where
  "InputContent_parts ps = IParts ps"

definition InputItem_user :: "InputContent \<Rightarrow> InputItem" where
  "InputItem_user c = InMessage User c"

definition InputItem_assistant :: "InputContent \<Rightarrow> InputItem" where
  "InputItem_assistant c = InMessage Assistant c"

definition InputItem_system :: "InputContent \<Rightarrow> InputItem" where
  "InputItem_system c = InMessage System c"

definition InputItem_function_output :: "rstring \<Rightarrow> rstring \<Rightarrow> InputItem" where
  "InputItem_function_output c out = InFunctionCallOutput c out"

end
