(* ===== verification/Validation_Types.thy ===== *)
theory Validation_Types
  imports Items
begin

text \<open>
  Response validation as it travels on the wire (\<open>aura-types/src/validation.rs\<close>): the request's
  configuration and its constructors, the metadata a response carries, token log probabilities,
  and the heuristic confidence analyzer for providers that return none. The exponential and the
  logarithm of the platform's mathematical library are arguments.
\<close>

subsection \<open>Configuration\<close>

datatype ValidationStrategy =
  VS_None | Logprobs | BestOfN | SelfConsistency | ConfidenceThreshold | Ensemble

datatype SelectionCriteria =
  HighestConfidence | Longest | MostRelevant | Shortest | LowestPerplexity

record ValidationConfig =
  vc_strategy :: ValidationStrategy
  vc_min_confidence :: "f32 option"
  vc_n :: "u8 option"
  vc_selection :: "SelectionCriteria option"
  vc_include_logprobs :: "bool option"
  vc_top_logprobs :: "u8 option"

definition ValidationConfig_default :: ValidationConfig where
  "ValidationConfig_default =
     \<lparr> vc_strategy = VS_None, vc_min_confidence = None, vc_n = None, vc_selection = None,
       vc_include_logprobs = None, vc_top_logprobs = None \<rparr>"

definition u8_clamp :: "u8 \<Rightarrow> u8 \<Rightarrow> u8 \<Rightarrow> u8" where
  "u8_clamp x lo hi = (if x < lo then lo else if hi < x then hi else x)"

definition ValidationConfig_logprobs :: "f32 \<Rightarrow> u8 \<Rightarrow> ValidationConfig" where
  "ValidationConfig_logprobs c k =
     ValidationConfig_default\<lparr> vc_strategy := Logprobs, vc_min_confidence := Some c,
       vc_include_logprobs := Some True, vc_top_logprobs := Some (min k 20) \<rparr>"

definition ValidationConfig_best_of_n :: "u8 \<Rightarrow> SelectionCriteria \<Rightarrow> ValidationConfig" where
  "ValidationConfig_best_of_n n sel =
     ValidationConfig_default\<lparr> vc_strategy := BestOfN, vc_n := Some (u8_clamp n 2 5),
       vc_selection := Some sel \<rparr>"

definition ValidationConfig_self_consistency :: "u8 \<Rightarrow> f32 \<Rightarrow> ValidationConfig" where
  "ValidationConfig_self_consistency n c =
     ValidationConfig_default\<lparr> vc_strategy := SelfConsistency, vc_n := Some (u8_clamp n 2 5),
       vc_min_confidence := Some c \<rparr>"

definition ValidationConfig_confidence_threshold :: "f32 \<Rightarrow> ValidationConfig" where
  "ValidationConfig_confidence_threshold c =
     ValidationConfig_default\<lparr> vc_strategy := ConfidenceThreshold, vc_min_confidence := Some c \<rparr>"

subsection \<open>Log probabilities\<close>

record TopLogprob =
  tl_token :: rstring
  tl_logprob :: f32
  tl_bytes :: "u8 list option"

definition TopLogprob_new :: "rstring \<Rightarrow> f32 \<Rightarrow> TopLogprob" where
  "TopLogprob_new t p = \<lparr> tl_token = t, tl_logprob = p, tl_bytes = None \<rparr>"

record TokenLogprob =
  tk_token :: rstring
  tk_logprob :: f32
  tk_bytes :: "u8 list option"
  tk_top_logprobs :: "TopLogprob list option"

definition TokenLogprob_new :: "rstring \<Rightarrow> f32 \<Rightarrow> TokenLogprob" where
  "TokenLogprob_new t p =
     \<lparr> tk_token = t, tk_logprob = p, tk_bytes = None, tk_top_logprobs = None \<rparr>"

definition TokenLogprob_with_top :: "TokenLogprob \<Rightarrow> TopLogprob list \<Rightarrow> TokenLogprob" where
  "TokenLogprob_with_top t tops = t\<lparr> tk_top_logprobs := Some tops \<rparr>"

record LogprobsData =
  lp_tokens :: "TokenLogprob list"

definition LogprobsData_new :: "TokenLogprob list \<Rightarrow> LogprobsData" where
  "LogprobsData_new ts = \<lparr> lp_tokens = ts \<rparr>"

text \<open>\<open>sum::<f32>\<close> folds from the left.\<close>

definition average_logprob :: "LogprobsData \<Rightarrow> f32" where
  "average_logprob d =
     (if lp_tokens d = [] then f32_lit 0 1
      else f32_div (foldl f32_add (f32_lit 0 1) (map tk_logprob (lp_tokens d)))
             (f32_of_nat (length (lp_tokens d))))"

definition LogprobsData_perplexity :: "(f32 \<Rightarrow> f32) \<Rightarrow> LogprobsData \<Rightarrow> f32" where
  "LogprobsData_perplexity exp_f d = exp_f (f64_neg (average_logprob d))"

definition LogprobsData_confidence_score :: "(f32 \<Rightarrow> f32) \<Rightarrow> (f32 \<Rightarrow> f32) \<Rightarrow> LogprobsData \<Rightarrow> f32" where
  "LogprobsData_confidence_score exp_f ln_f d =
     (let perplexity = LogprobsData_perplexity exp_f d
      in f32_div (f32_lit 1 1)
           (f32_add (f32_lit 1 1)
             (f64_max (ln_f (f32_div perplexity (f32_lit 10 1))) (f32_lit 0 1))))"

subsection \<open>Response metadata\<close>

record ValidationMetadata =
  vm_strategy :: ValidationStrategy
  vm_confidence :: "f32 option"
  vm_perplexity :: "f32 option"
  vm_candidates_generated :: "u8 option"
  vm_selected_index :: "u8 option"
  vm_selection_reason :: "rstring option"
  vm_passed :: bool
  vm_warning :: "rstring option"
  vm_logprobs :: "LogprobsData option"

definition ValidationMetadata_none :: ValidationMetadata where
  "ValidationMetadata_none =
     \<lparr> vm_strategy = VS_None, vm_confidence = None, vm_perplexity = None,
       vm_candidates_generated = None, vm_selected_index = None, vm_selection_reason = None,
       vm_passed = True, vm_warning = None, vm_logprobs = None \<rparr>"

definition ValidationMetadata_with_confidence :: "ValidationStrategy \<Rightarrow> f32 \<Rightarrow> ValidationMetadata" where
  "ValidationMetadata_with_confidence s c =
     \<lparr> vm_strategy = s, vm_confidence = Some c, vm_perplexity = None,
       vm_candidates_generated = None, vm_selected_index = None, vm_selection_reason = None,
       vm_passed = True, vm_warning = None, vm_logprobs = None \<rparr>"

definition ValidationMetadata_best_of_n :: "u8 \<Rightarrow> u8 \<Rightarrow> f32 \<Rightarrow> rstring \<Rightarrow> ValidationMetadata" where
  "ValidationMetadata_best_of_n n i c why =
     \<lparr> vm_strategy = BestOfN, vm_confidence = Some c, vm_perplexity = None,
       vm_candidates_generated = Some n, vm_selected_index = Some i,
       vm_selection_reason = Some why, vm_passed = True, vm_warning = None, vm_logprobs = None \<rparr>"

definition ValidationMetadata_with_passed :: "ValidationMetadata \<Rightarrow> bool \<Rightarrow> ValidationMetadata" where
  "ValidationMetadata_with_passed m b = m\<lparr> vm_passed := b \<rparr>"

definition ValidationMetadata_with_warning :: "ValidationMetadata \<Rightarrow> rstring \<Rightarrow> ValidationMetadata" where
  "ValidationMetadata_with_warning m w = m\<lparr> vm_warning := Some w \<rparr>"

definition ValidationMetadata_with_logprobs :: "ValidationMetadata \<Rightarrow> LogprobsData \<Rightarrow> ValidationMetadata" where
  "ValidationMetadata_with_logprobs m l = m\<lparr> vm_logprobs := Some l \<rparr>"

definition ValidationMetadata_with_perplexity :: "ValidationMetadata \<Rightarrow> f32 \<Rightarrow> ValidationMetadata" where
  "ValidationMetadata_with_perplexity m p = m\<lparr> vm_perplexity := Some p \<rparr>"

subsection \<open>The heuristic analyzer\<close>

definition hedges :: "rstring list" where
  "hedges = [''i think'', ''maybe'', ''possibly'', ''might'', ''not sure'', ''i believe'', ''probably'', ''perhaps'', ''it seems'', (''i'' @ apos @ ''m not certain'')]"

definition confident_phrases :: "rstring list" where
  "confident_phrases = [''certainly'', ''definitely'', ''the answer is'', ''clearly'', ''without a doubt'', ''it is'', ''this is'']"

text \<open>\<open>split_whitespace\<close>: the non-empty pieces between white space characters.\<close>

definition split_whitespace :: "rstring \<Rightarrow> rstring list" where
  "split_whitespace s = filter (\<lambda>w. w \<noteq> []) (split_chars (\<lambda>c. c \<in> set ws_encodings) (str_chars s))"

fun windows3 :: "'a list \<Rightarrow> 'a list list" where
  "windows3 (a # b # c # xs) = [a, b, c] # windows3 (b # c # xs)"
| "windows3 _ = []"

text \<open>The map counts each trigram; an entry with count \<open>v > 1\<close> contributes \<open>v - 1\<close>.\<close>

definition repetition_score :: "unicode \<Rightarrow> rstring \<Rightarrow> f32" where
  "repetition_score U text =
     (let words = split_whitespace text
      in if length words < 10 then f32_lit 0 1
         else (let trigrams = map (\<lambda>w. u_to_lowercase U (str_join '' '' w)) (windows3 words);
                   repeated = sum_list (map (\<lambda>t. count_list trigrams t - 1) (remdups trigrams));
                   total = length words - 2
               in if total = 0 then f32_lit 0 1
                  else f64_min (f32_div (f32_of_nat repeated) (f32_of_nat total)) (f32_lit 1 1)))"

definition estimate_confidence :: "unicode \<Rightarrow> rstring \<Rightarrow> rstring \<Rightarrow> f32" where
  "estimate_confidence U response prompt =
     (let lower = u_to_lowercase U response;
          score = f32_lit 5 10;
          score = foldl (\<lambda>s h. if str_contains lower h then f32_sub s (f32_lit 5 100) else s) score hedges;
          score = foldl (\<lambda>s c. if str_contains lower c then f32_add s (f32_lit 3 100) else s) score
                    confident_phrases;
          score = (if length response < 20 then f32_sub score (f32_lit 15 100)
                   else if length response < 50 then f32_sub score (f32_lit 1 10) else score);
          score = (if 2000 < length response \<and> \<not> str_contains response nl
                   then f32_sub score (f32_lit 1 10) else score);
          score = f32_sub score (f32_mul (repetition_score U response) (f32_lit 3 10));
          score = (if str_contains response [CHR 0x60, CHR 0x60, CHR 0x60]
                   then f32_add score (f32_lit 1 10) else score);
          score = (if str_contains response ''1.'' \<or> str_contains response ''- ''
                       \<or> str_contains response ''* ''
                   then f32_add score (f32_lit 5 100) else score)
      in f64_clamp score (f32_lit 0 1) (f32_lit 1 1))"

text \<open>The pairs \<open>i < j\<close> in the order of the two loops.\<close>

fun ordered_pairs :: "'a list \<Rightarrow> ('a \<times> 'a) list" where
  "ordered_pairs [] = []"
| "ordered_pairs (x # xs) = map (Pair x) xs @ ordered_pairs xs"

definition set_similarity :: "rstring list \<Rightarrow> rstring list \<Rightarrow> f32 option" where
  "set_similarity a b =
     (let inter = length (filter (\<lambda>w. w \<in> set b) a); un = length (remdups (a @ b))
      in if 0 < un then Some (f32_div (f32_of_nat inter) (f32_of_nat un)) else None)"

definition consistency_score :: "rstring list \<Rightarrow> f32" where
  "consistency_score responses =
     (if length responses < 2 then f32_lit 1 1
      else (let sets = map (remdups \<circ> split_whitespace) responses;
                sims = List.map_filter (\<lambda>(a, b). set_similarity a b) (ordered_pairs sets)
            in if sims = [] then f32_lit 5 10
               else f32_div (foldl f32_add (f32_lit 0 1) sims) (f32_of_nat (length sims))))"

subsection \<open>Properties\<close>

lemma best_of_n_bounds:
  "\<exists>k. vc_n (ValidationConfig_best_of_n n sel) = Some k \<and> 2 \<le> k \<and> k \<le> 5"
  "\<exists>k. vc_n (ValidationConfig_self_consistency n c) = Some k \<and> 2 \<le> k \<and> k \<le> 5"
  by (auto simp: ValidationConfig_best_of_n_def ValidationConfig_self_consistency_def u8_clamp_def)

lemma f32_small_lits: "f32_lit 0 1 = Fin 0" "f32_lit 1 1 = Fin 1"
  by code_simp+

text \<open>The clamp keeps every score in the unit interval; nothing before it produces NaN.\<close>

lemma f64_clamp_bounds:
  "x \<noteq> NaN \<Longrightarrow> f64_le lo hi \<Longrightarrow> f64_le lo (f64_clamp x lo hi) \<and> f64_le (f64_clamp x lo hi) hi"
  using f64_le_total [of x lo] f64_le_total [of x hi] f64_le_not_NaN [of lo hi]
  by (auto simp: f64_clamp_def f64_lt_def f64_le_refl)

definition in_unit :: "f32 \<Rightarrow> bool" where
  "in_unit x \<longleftrightarrow> f64_le (Fin 0) x \<and> f64_le x (Fin 1)"

lemma to_f32_unit: "0 \<le> x \<Longrightarrow> x \<le> 1 \<Longrightarrow> \<exists>r. to_f32 x = Fin r \<and> 0 \<le> r \<and> r \<le> 1"
proof -
  assume "0 \<le> x" "x \<le> 1"
  then have "f64_le (to_f32 0) (to_f32 x)" "f64_le (to_f32 x) (to_f32 1)"
    by (simp_all add: to_f32_mono)
  moreover have "to_f32 0 = Fin 0" "to_f32 1 = Fin 1"
    using f32_small_lits by (simp_all add: f32_lit_def)
  ultimately show ?thesis by (cases "to_f32 x") auto
qed

lemma f32_lit_unit: "0 \<le> n \<Longrightarrow> n \<le> d \<Longrightarrow> 0 < d \<Longrightarrow> \<exists>r. f32_lit n d = Fin r \<and> 0 \<le> r \<and> r \<le> 1"
  unfolding f32_lit_def by (rule to_f32_unit) (simp_all add: divide_le_eq)

lemma f32_add_Fin: "x \<noteq> NaN \<Longrightarrow> f32_add x (Fin c) \<noteq> NaN"
  by (cases x) (simp_all add: f32_add_def)

lemma f32_add_lit:
  "x \<noteq> NaN \<Longrightarrow> 0 \<le> n \<Longrightarrow> n \<le> d \<Longrightarrow> 0 < d \<Longrightarrow> f32_add x (f32_lit n d) \<noteq> NaN"
  using f32_lit_unit [of n d] f32_add_Fin by auto

lemma f32_sub_lit:
  "x \<noteq> NaN \<Longrightarrow> 0 \<le> n \<Longrightarrow> n \<le> d \<Longrightarrow> 0 < d \<Longrightarrow> f32_sub x (f32_lit n d) \<noteq> NaN"
  using f32_lit_unit [of n d] f32_add_Fin by (auto simp: f32_sub_def)

lemma foldl_not_NaN:
  "(\<And>s h. s \<noteq> NaN \<Longrightarrow> f s h \<noteq> NaN) \<Longrightarrow> x \<noteq> NaN \<Longrightarrow> foldl f x hs \<noteq> NaN"
  by (induction hs arbitrary: x) auto

lemma repetition_score_unit: "\<exists>r. repetition_score U t = Fin r \<and> 0 \<le> r \<and> r \<le> 1"
proof -
  have lits: "\<exists>r. f32_lit 0 1 = Fin r \<and> 0 \<le> r \<and> r \<le> 1" by (simp add: f32_small_lits)
  have div: "\<exists>r. f64_min (f32_div (f32_of_nat a) (f32_of_nat b)) (f32_lit 1 1) = Fin r \<and> 0 \<le> r \<and> r \<le> 1"
    if "0 < b" for a b
  proof -
    have "f64_le (to_f32 0) (to_f32 (of_nat a))" "f64_le (to_f32 1) (to_f32 (of_nat b))"
      using that by (auto intro!: to_f32_mono)
    then have a: "f64_nonneg (f32_of_nat a)" and b: "f64_le (Fin 1) (f32_of_nat b)"
      using f32_small_lits by (simp_all add: f32_lit_def f32_of_nat_def f64_nonneg_def)
    have "f64_nonneg (f32_div (f32_of_nat a) (f32_of_nat b))
        \<or> f32_div (f32_of_nat a) (f32_of_nat b) = NaN"
    proof (cases "f32_of_nat a")
      case (Fin p)
      have "f64_nonneg (to_f32 x)" if "0 \<le> x" for x
        using to_f32_mono [OF that] f32_small_lits by (simp add: f64_nonneg_def f32_lit_def)
      with Fin a b show ?thesis
        by (cases "f32_of_nat b") (auto simp: f32_div_def f64_nonneg_def)
    next
      case PInf
      with b show ?thesis
        by (cases "f32_of_nat b") (auto simp: f32_div_def f64_nonneg_def f64_sgn_def signed_inf_def)
    qed (use a in \<open>auto simp: f64_nonneg_def\<close>)
    then show ?thesis
      by (cases "f32_div (f32_of_nat a) (f32_of_nat b)")
        (auto simp: f64_min_def f32_small_lits f64_nonneg_def)
  qed
  show ?thesis unfolding repetition_score_def Let_def using lits div by auto
qed

lemma estimate_confidence_bounds:
  "f64_le (Fin 0) (estimate_confidence U r p) \<and> f64_le (estimate_confidence U r p) (Fin 1)"
proof -
  obtain q where q: "repetition_score U r = Fin q" "0 \<le> q" "q \<le> 1"
    using repetition_score_unit by blast
  obtain l where l: "f32_lit 3 10 = Fin l" "0 \<le> l" "l \<le> 1" using f32_lit_unit [of 3 10] by auto
  have "\<exists>c. f32_mul (repetition_score U r) (f32_lit 3 10) = Fin c"
    using to_f32_unit [of "q * l"] q l by (auto simp: f32_mul_def mult_le_one)
  then obtain c where c: "f32_mul (repetition_score U r) (f32_lit 3 10) = Fin c" ..
  have half: "f32_lit 5 10 \<noteq> NaN" by (simp add: f32_lit_def)
  have sub: "f32_sub x (Fin c) \<noteq> NaN" if "x \<noteq> NaN" for x
    using f32_add_Fin [OF that] by (simp add: f32_sub_def)
  have let_not_NaN: "e \<noteq> NaN \<Longrightarrow> (\<And>x. x \<noteq> NaN \<Longrightarrow> in_unit (f x)) \<Longrightarrow> in_unit (Let e f)"
    for e :: f32 and f :: "f32 \<Rightarrow> f32" by simp
  have let_any: "in_unit (f e) \<Longrightarrow> in_unit (Let e f)" for e :: rstring and f :: "rstring \<Rightarrow> f32" by simp
  have clamp: "x \<noteq> NaN \<Longrightarrow> in_unit (f64_clamp x (f32_lit 0 1) (f32_lit 1 1))" for x
    using f64_clamp_bounds [of x "Fin 0" "Fin 1"] by (simp add: in_unit_def f32_small_lits)
  have "in_unit (estimate_confidence U r p)"
    unfolding estimate_confidence_def c
    apply (rule let_any)
    apply (rule let_not_NaN, rule half)
    apply (rule let_not_NaN, rule foldl_not_NaN, simp add: f32_sub_lit, assumption)
    apply (rule let_not_NaN, rule foldl_not_NaN, simp add: f32_add_lit, assumption)
    apply (rule let_not_NaN, simp add: f32_sub_lit)+
    apply (rule let_not_NaN, rule sub, assumption)
    apply (rule let_not_NaN, simp add: f32_add_lit)+
    apply (rule clamp, assumption)
    done
  then show ?thesis by (simp add: in_unit_def)
qed

end
