(* ===== verification/Compression_Types.thy ===== *)
theory Compression_Types
  imports Items
begin

text \<open>
  The configuration and the metadata of prompt compression
  (\<open>aura-types/src/compression.rs\<close>): formats, per-format settings with their defaults, and the
  record of the strategies that were applied.
\<close>

datatype DataFormat = DF_Json | JsonCompact | DF_Yaml | DF_Toon | DF_Markdown

datatype SemanticFormat = Natural | SF_Aisp | Pseudocode

datatype AispSymbolSet = Core | SymStandard | SymFull

record AispConfig =
  symbol_set :: AispSymbolSet
  convert_rules :: bool
  convert_definitions :: bool
  convert_quantifiers :: bool
  include_proofs :: bool

definition AispConfig_default :: AispConfig where
  "AispConfig_default =
     \<lparr> symbol_set = Core, convert_rules = True, convert_definitions = True,
       convert_quantifiers = True, include_proofs = False \<rparr>"

record ToonConfig =
  min_array_size :: usize
  min_fields :: usize
  toon_max_depth :: usize

definition ToonConfig_default :: ToonConfig where
  "ToonConfig_default = \<lparr> min_array_size = 2, min_fields = 2, toon_max_depth = 3 \<rparr>"

record YamlConfig =
  flow_short_arrays :: bool
  flow_threshold :: usize
  minimal_quotes :: bool

definition YamlConfig_default :: YamlConfig where
  "YamlConfig_default = \<lparr> flow_short_arrays = True, flow_threshold = 5, minimal_quotes = True \<rparr>"

record CompressionConfig =
  cmp_enabled :: bool
  data_format :: DataFormat
  semantic_format :: SemanticFormat
  auto_select :: bool
  target_ratio :: "f32 option"
  token_budget :: "u32 option"
  cfg_aisp :: AispConfig
  cfg_toon :: ToonConfig
  cfg_yaml :: YamlConfig
  token_cleanup :: bool
  minify_json :: bool

definition CompressionConfig_default :: CompressionConfig where
  "CompressionConfig_default =
     \<lparr> cmp_enabled = False, data_format = JsonCompact, semantic_format = Natural,
       auto_select = False, target_ratio = None, token_budget = None,
       cfg_aisp = AispConfig_default, cfg_toon = ToonConfig_default, cfg_yaml = YamlConfig_default,
       token_cleanup = True, minify_json = True \<rparr>"

datatype CompressionStrategy =
  CS_None | TokenCleanup | JsonMinify | CS_Yaml | CS_Toon | CS_Markdown | CS_Aisp | Hybrid

record CompressionMetadata =
  original_tokens :: "u32 option"
  compressed_tokens :: "u32 option"
  cm_ratio :: "f32 option"
  strategies :: "CompressionStrategy list"
  latency_ms :: "u32 option"
  aisp_symbols :: "u32 option"
  bytes_saved :: "u32 option"

definition CompressionMetadata_default :: CompressionMetadata where
  "CompressionMetadata_default =
     \<lparr> original_tokens = None, compressed_tokens = None, cm_ratio = None, strategies = [],
       latency_ms = None, aisp_symbols = None, bytes_saved = None \<rparr>"

definition CompressionMetadata_none :: CompressionMetadata where
  "CompressionMetadata_none = CompressionMetadata_default\<lparr> strategies := [CS_None] \<rparr>"

definition savings_percent :: "CompressionMetadata \<Rightarrow> f32 option" where
  "savings_percent m =
     map_option (\<lambda>r. f32_mul (f32_sub (f32_lit 1 1) r) (f32_lit 100 1)) (cm_ratio m)"

definition add_strategy :: "CompressionMetadata \<Rightarrow> CompressionStrategy \<Rightarrow> CompressionMetadata" where
  "add_strategy m s =
     (if s \<in> set (strategies m) then m else m\<lparr> strategies := strategies m @ [s] \<rparr>)"

datatype StructureType = UniformArray | NestedObject | Mixed | ST_Text | Tabular | ST_Unknown

record CompressionAnalysis =
  recommended_format :: DataFormat
  recommended_semantic :: SemanticFormat
  estimated_savings :: f32
  has_rules :: bool
  has_uniform_arrays :: bool
  has_nested_objects :: bool
  structure_type :: StructureType

lemma add_strategy_distinct:
  "distinct (strategies m) \<Longrightarrow>
     distinct (strategies (add_strategy m s)) \<and> set (strategies (add_strategy m s)) = insert s (set (strategies m))"
  by (auto simp: add_strategy_def)

end
