(* ===== verification/Consistency.thy ===== *)
theory Consistency
  imports Items
begin

text \<open>
  Cross-model consistency (\<open>aura-types/src/consistency.rs\<close>): the configuration and its
  constructors, style profiles, the default calibration of each model family, the constitutions,
  and the functions that build the augmented system prompt.
\<close>

subsection \<open>Configuration\<close>

datatype ConsistencyStrategy =
    CStrat_None | Constitutional | ReferenceAnchoring | CStrat_ModelCalibration | FormatSchema
  | FewShotPriming | CStrat_StyleProfile | SemanticNormalization | EnsembleVoting | AdaptiveFewShot

record ConsistencyExample =
  ex_input :: rstring
  ex_output :: rstring
  ex_explanation :: "rstring option"

definition ConsistencyExample_new :: "rstring \<Rightarrow> rstring \<Rightarrow> ConsistencyExample" where
  "ConsistencyExample_new i out = \<lparr> ex_input = i, ex_output = out, ex_explanation = None \<rparr>"

definition ConsistencyExample_with_explanation ::
    "ConsistencyExample \<Rightarrow> rstring \<Rightarrow> ConsistencyExample" where
  "ConsistencyExample_with_explanation e x = e\<lparr> ex_explanation := Some x \<rparr>"

datatype Tone = Professional | Friendly | Neutral | Authoritative | Empathetic
datatype Formality = Formal | Standard | Casual
datatype Verbosity = Concise | VBalanced | Detailed

record StyleProfile =
  tone :: Tone
  formality :: Formality
  verbosity :: Verbosity
  use_markdown :: bool
  use_bullet_points :: bool
  format_code :: bool
  style_max_length :: "u32 option"
  custom_directives :: "rstring list option"

definition StyleProfile_default :: StyleProfile where
  "StyleProfile_default =
     \<lparr> tone = Neutral, formality = Standard, verbosity = VBalanced, use_markdown = True,
       use_bullet_points = True, format_code = True, style_max_length = None,
       custom_directives = None \<rparr>"

definition StyleProfile_technical :: StyleProfile where
  "StyleProfile_technical =
     \<lparr> tone = Professional, formality = Formal, verbosity = Concise, use_markdown = True,
       use_bullet_points = True, format_code = True, style_max_length = None,
       custom_directives = Some
        [''Use precise technical terminology'', ''Avoid hedging language'',
         ''Include code examples where relevant''] \<rparr>"

definition StyleProfile_conversational :: StyleProfile where
  "StyleProfile_conversational =
     \<lparr> tone = Friendly, formality = Casual, verbosity = VBalanced, use_markdown = False,
       use_bullet_points = False, format_code = True, style_max_length = None,
       custom_directives = Some
        [''Use a warm, approachable tone'', ''Explain concepts simply''] \<rparr>"

definition StyleProfile_academic :: StyleProfile where
  "StyleProfile_academic =
     \<lparr> tone = Neutral, formality = Formal, verbosity = Detailed, use_markdown = True,
       use_bullet_points = False, format_code = True, style_max_length = None,
       custom_directives = Some
        [''Use formal academic language'', ''Cite relevant concepts'',
         ''Structure arguments logically''] \<rparr>"

definition to_instructions :: "StyleProfile \<Rightarrow> rstring" where
  "to_instructions p = str_join '' ''
     ([case tone p of
         Professional \<Rightarrow> ''Maintain a professional tone.''
       | Friendly \<Rightarrow> ''Use a friendly, approachable tone.''
       | Neutral \<Rightarrow> ''Use a neutral, objective tone.''
       | Authoritative \<Rightarrow> ''Use an authoritative, confident tone.''
       | Empathetic \<Rightarrow> ''Use an empathetic, understanding tone.'',
       case formality p of
         Formal \<Rightarrow> ''Use formal language and complete sentences.''
       | Standard \<Rightarrow> ''Use standard professional language.''
       | Casual \<Rightarrow> ''Use casual, conversational language.'',
       case verbosity p of
         Concise \<Rightarrow> ''Be concise and direct. Avoid unnecessary elaboration.''
       | VBalanced \<Rightarrow> ''Provide sufficient detail without being verbose.''
       | Detailed \<Rightarrow> ''Provide comprehensive, detailed explanations.'']
      @ (if use_markdown p then [''Use markdown formatting for structure.''] else [])
      @ (if use_bullet_points p then [''Use bullet points for lists.''] else [])
      @ (if format_code p
         then [''Format code in fenced code blocks with language hints.''] else [])
      @ (case style_max_length p of
           Some n \<Rightarrow> [''Keep response under '' @ dec_digits (unat n) @ '' words.''] | None \<Rightarrow> [])
      @ (case custom_directives p of Some ds \<Rightarrow> ds | None \<Rightarrow> []))"

subsection \<open>Calibration\<close>

datatype ModelQuirk =
    ExcessiveApologies | UnnecessaryPreamble | UnnecessaryConclusion | ExcessiveHedging
  | UnnecessaryDisclaimers | RepeatsQuestion | ClosingPhrases

record ModelCalibration =
  temperature_offset :: f32
  verbose_bias :: bool
  hedge_bias :: bool
  needs_format_instructions :: bool
  prompt_prefix :: "rstring option"
  prompt_suffix :: "rstring option"
  quirks :: "ModelQuirk list option"

definition ModelCalibration_default :: ModelCalibration where
  "ModelCalibration_default =
     \<lparr> temperature_offset = f32_lit 0 1, verbose_bias = False, hedge_bias = False,
       needs_format_instructions = False, prompt_prefix = None, prompt_suffix = None,
       quirks = None \<rparr>"

definition DefaultCalibrations_gpt :: ModelCalibration where
  "DefaultCalibrations_gpt =
     \<lparr> temperature_offset = f32_lit 0 1, verbose_bias = False, hedge_bias = False,
       needs_format_instructions = False, prompt_prefix = None, prompt_suffix = None,
       quirks = Some [ClosingPhrases] \<rparr>"

definition DefaultCalibrations_claude :: ModelCalibration where
  "DefaultCalibrations_claude =
     \<lparr> temperature_offset = f32_lit 0 1, verbose_bias = True, hedge_bias = False,
       needs_format_instructions = False, prompt_prefix = None, prompt_suffix = None,
       quirks = Some [ExcessiveApologies, UnnecessaryPreamble] \<rparr>"

definition DefaultCalibrations_gemini :: ModelCalibration where
  "DefaultCalibrations_gemini =
     \<lparr> temperature_offset = f32_lit 0 1, verbose_bias = False, hedge_bias = True,
       needs_format_instructions = True, prompt_prefix = None, prompt_suffix = None,
       quirks = Some [UnnecessaryDisclaimers] \<rparr>"

definition DefaultCalibrations_for_model :: "unicode \<Rightarrow> rstring \<Rightarrow> ModelCalibration" where
  "DefaultCalibrations_for_model U model =
     (let m = u_to_lowercase U model
      in if str_contains m ''gpt'' \<or> str_contains m ''o1'' then DefaultCalibrations_gpt
         else if str_contains m ''claude'' then DefaultCalibrations_claude
         else if str_contains m ''gemini'' then DefaultCalibrations_gemini
         else ModelCalibration_default)"

subsection \<open>The request's configuration\<close>

record AdaptiveFewShotConfig =
  max_examples :: u8
  af_category :: "rstring option"
  af_tags :: "rstring list option"
  approved_only :: bool
  use_selector_model :: bool
  selector_model :: "rstring option"
  min_similarity :: "f32 option"

definition AdaptiveFewShotConfig_default :: AdaptiveFewShotConfig where
  "AdaptiveFewShotConfig_default =
     \<lparr> max_examples = 3, af_category = None, af_tags = None, approved_only = True,
       use_selector_model = False, selector_model = None, min_similarity = None \<rparr>"

definition AdaptiveFewShotConfig_with_category ::
    "AdaptiveFewShotConfig \<Rightarrow> rstring \<Rightarrow> AdaptiveFewShotConfig" where
  "AdaptiveFewShotConfig_with_category c x = c\<lparr> af_category := Some x \<rparr>"

definition AdaptiveFewShotConfig_with_tags ::
    "AdaptiveFewShotConfig \<Rightarrow> rstring list \<Rightarrow> AdaptiveFewShotConfig" where
  "AdaptiveFewShotConfig_with_tags c xs = c\<lparr> af_tags := Some xs \<rparr>"

definition AdaptiveFewShotConfig_with_max_examples ::
    "AdaptiveFewShotConfig \<Rightarrow> u8 \<Rightarrow> AdaptiveFewShotConfig" where
  "AdaptiveFewShotConfig_with_max_examples c n = c\<lparr> max_examples := n \<rparr>"

definition AdaptiveFewShotConfig_with_selector_model ::
    "AdaptiveFewShotConfig \<Rightarrow> rstring \<Rightarrow> AdaptiveFewShotConfig" where
  "AdaptiveFewShotConfig_with_selector_model c m =
     c\<lparr> use_selector_model := True, selector_model := Some m \<rparr>"

text \<open>The overrides are a hash map: an association list with distinct keys.\<close>

record ConsistencyConfig =
  cc_strategy :: ConsistencyStrategy
  cc_principles :: "rstring list option"
  cc_reference_response :: "rstring option"
  cc_examples :: "ConsistencyExample list option"
  cc_output_schema :: "json option"
  cc_style_profile :: "StyleProfile option"
  cc_apply_calibration :: bool
  cc_calibration_overrides :: "(rstring \<times> ModelCalibration) list option"
  cc_adaptive_config :: "AdaptiveFewShotConfig option"

definition ConsistencyConfig_default :: ConsistencyConfig where
  "ConsistencyConfig_default =
     \<lparr> cc_strategy = CStrat_None, cc_principles = None, cc_reference_response = None,
       cc_examples = None, cc_output_schema = None, cc_style_profile = None,
       cc_apply_calibration = False, cc_calibration_overrides = None,
       cc_adaptive_config = None \<rparr>"

definition ConsistencyConfig_constitutional :: "rstring list \<Rightarrow> ConsistencyConfig" where
  "ConsistencyConfig_constitutional ps =
     ConsistencyConfig_default\<lparr> cc_strategy := Constitutional, cc_principles := Some ps \<rparr>"

definition ConsistencyConfig_reference_anchoring :: "rstring \<Rightarrow> ConsistencyConfig" where
  "ConsistencyConfig_reference_anchoring r =
     ConsistencyConfig_default\<lparr> cc_strategy := ReferenceAnchoring,
       cc_reference_response := Some r \<rparr>"

definition ConsistencyConfig_few_shot_priming :: "ConsistencyExample list \<Rightarrow> ConsistencyConfig" where
  "ConsistencyConfig_few_shot_priming es =
     ConsistencyConfig_default\<lparr> cc_strategy := FewShotPriming, cc_examples := Some es \<rparr>"

definition ConsistencyConfig_format_schema :: "json \<Rightarrow> ConsistencyConfig" where
  "ConsistencyConfig_format_schema s =
     ConsistencyConfig_default\<lparr> cc_strategy := FormatSchema, cc_output_schema := Some s \<rparr>"

definition ConsistencyConfig_with_style :: "StyleProfile \<Rightarrow> ConsistencyConfig" where
  "ConsistencyConfig_with_style s =
     ConsistencyConfig_default\<lparr> cc_strategy := CStrat_StyleProfile, cc_style_profile := Some s \<rparr>"

definition ConsistencyConfig_with_calibration :: "ConsistencyConfig \<Rightarrow> ConsistencyConfig" where
  "ConsistencyConfig_with_calibration c = c\<lparr> cc_apply_calibration := True \<rparr>"

definition ConsistencyConfig_adaptive_few_shot :: "AdaptiveFewShotConfig \<Rightarrow> ConsistencyConfig" where
  "ConsistencyConfig_adaptive_few_shot a =
     ConsistencyConfig_default\<lparr> cc_strategy := AdaptiveFewShot, cc_adaptive_config := Some a \<rparr>"

subsection \<open>Metadata\<close>

record EnsembleVotes =
  ev_models :: "rstring list"
  ev_selected_model :: rstring
  ev_agreement_score :: f32
  ev_selection_reason :: rstring

record ConsistencyMetadata =
  cmd_strategy :: ConsistencyStrategy
  cmd_calibration_applied :: bool
  cmd_adjustments :: "rstring list option"
  cmd_style_applied :: "rstring option"
  cmd_principles_injected :: "u8 option"
  cmd_examples_injected :: "u8 option"
  cmd_ensemble_votes :: "EnsembleVotes option"

definition ConsistencyMetadata_new :: "ConsistencyStrategy \<Rightarrow> ConsistencyMetadata" where
  "ConsistencyMetadata_new s =
     \<lparr> cmd_strategy = s, cmd_calibration_applied = False, cmd_adjustments = None,
       cmd_style_applied = None, cmd_principles_injected = None, cmd_examples_injected = None,
       cmd_ensemble_votes = None \<rparr>"

definition ConsistencyMetadata_none :: ConsistencyMetadata where
  "ConsistencyMetadata_none = ConsistencyMetadata_new CStrat_None"

definition ConsistencyMetadata_with_calibration ::
    "ConsistencyMetadata \<Rightarrow> rstring list \<Rightarrow> ConsistencyMetadata" where
  "ConsistencyMetadata_with_calibration m a =
     m\<lparr> cmd_calibration_applied := True, cmd_adjustments := Some a \<rparr>"

definition ConsistencyMetadata_with_style :: "ConsistencyMetadata \<Rightarrow> rstring \<Rightarrow> ConsistencyMetadata" where
  "ConsistencyMetadata_with_style m s = m\<lparr> cmd_style_applied := Some s \<rparr>"

definition ConsistencyMetadata_with_principles :: "ConsistencyMetadata \<Rightarrow> u8 \<Rightarrow> ConsistencyMetadata" where
  "ConsistencyMetadata_with_principles m n = m\<lparr> cmd_principles_injected := Some n \<rparr>"

definition ConsistencyMetadata_with_examples :: "ConsistencyMetadata \<Rightarrow> u8 \<Rightarrow> ConsistencyMetadata" where
  "ConsistencyMetadata_with_examples m n = m\<lparr> cmd_examples_injected := Some n \<rparr>"

subsection \<open>Constitutions\<close>

definition DefaultConstitution_factual :: "rstring list" where
  "DefaultConstitution_factual =
    [''Only state facts that you are confident about.'',
     ''Clearly distinguish between facts and opinions.'',
     ''If uncertain, explicitly state your uncertainty level.'',
     ''Do not fabricate information, citations, or sources.'',
     ''Prefer specific, verifiable claims over vague statements.'']"

definition DefaultConstitution_formatting :: "rstring list" where
  "DefaultConstitution_formatting =
    [''Use consistent heading levels and structure.'',
     ''Format code blocks with appropriate language hints.'',
     ''Use bullet points for lists of 3 or more items.'',
     ''Keep paragraphs focused on single topics.'',
     ''Use tables for comparing multiple items.'']"

definition DefaultConstitution_concise :: "rstring list" where
  "DefaultConstitution_concise =
    [''Get to the point immediately.'',
     (''Avoid unnecessary preambles like '' @ apos @ ''Great question!'' @ apos @ ''.''),
     ''Do not repeat the question back.'',
     ''Skip obvious disclaimers unless specifically relevant.'',
     (''End with the answer, not with '' @ apos @ ''Hope this helps!'' @ apos @ ''.'')]"

definition DefaultConstitution_technical :: "rstring list" where
  "DefaultConstitution_technical =
    [''Use precise technical terminology.'', ''Include relevant code examples.'',
     ''Mention version numbers when discussing APIs or libraries.'',
     ''Explain trade-offs when recommending solutions.'',
     ''Cite documentation or specifications when relevant.'']"

definition DefaultConstitution_helpful :: "rstring list" where
  "DefaultConstitution_helpful =
    [(''Focus on solving the user'' @ apos @ ''s actual problem.''),
     ''Provide actionable, specific advice.'',
     ''Anticipate follow-up questions and address them.'',
     ''Offer alternatives when the primary solution may not work.'',
     ''Be direct about limitations or things you cannot help with.'']"

definition DefaultConstitution_general :: "rstring list" where
  "DefaultConstitution_general =
     DefaultConstitution_factual @ DefaultConstitution_concise @ DefaultConstitution_helpful"

subsection \<open>Prompt augmentation\<close>

definition base_prompt :: "rstring option \<Rightarrow> rstring" where
  "base_prompt p = (case p of Some s \<Rightarrow> s | None \<Rightarrow> ''You are a helpful assistant.'')"

definition PromptAugmenter_with_constitution :: "rstring option \<Rightarrow> rstring list \<Rightarrow> rstring" where
  "PromptAugmenter_with_constitution sys principles =
     (let constitution = str_join nl (map (\<lambda>(i, p). dec_digits (i + 1) @ ''. '' @ p) (enumerate 0 principles))
      in base_prompt sys @ nl @ nl @ ''## Response Principles'' @ nl @ nl
         @ ''Follow these principles in all responses:'' @ nl @ nl @ constitution)"

definition PromptAugmenter_with_reference :: "rstring option \<Rightarrow> rstring \<Rightarrow> rstring" where
  "PromptAugmenter_with_reference sys reference =
     base_prompt sys @ nl @ nl @ ''## Response Style Guide'' @ nl @ nl
     @ ''Match the style, tone, and format of this example response:'' @ nl @ nl @ ''---'' @ nl
     @ reference @ nl @ ''---'' @ nl @ nl @ ''Your responses should follow the same patterns.''"

definition example_text :: "nat \<times> ConsistencyExample \<Rightarrow> rstring" where
  "example_text e =
     (case e of (i, ex) \<Rightarrow>
        ''### Example '' @ dec_digits (i + 1) @ nl @ nl @ ''**Input:** '' @ ex_input ex @ nl @ nl
        @ ''**Output:** '' @ ex_output ex
        @ (case ex_explanation ex of Some x \<Rightarrow> nl @ ''(Note: '' @ x @ '')'' | None \<Rightarrow> []))"

definition PromptAugmenter_with_examples :: "rstring option \<Rightarrow> ConsistencyExample list \<Rightarrow> rstring" where
  "PromptAugmenter_with_examples sys examples =
     base_prompt sys @ nl @ nl @ ''## Response Examples'' @ nl @ nl
     @ ''Follow the format and style shown in these examples:'' @ nl @ nl
     @ str_join (nl @ nl) (map example_text (enumerate 0 examples)) @ nl @ nl @ ''---'' @ nl @ nl
     @ ''Now respond to the user'' @ apos @ ''s query following the same patterns.''"

definition PromptAugmenter_with_style :: "rstring option \<Rightarrow> StyleProfile \<Rightarrow> rstring" where
  "PromptAugmenter_with_style sys style =
     base_prompt sys @ nl @ nl @ ''## Style Guidelines'' @ nl @ nl @ to_instructions style"

fun quirk_instruction :: "ModelQuirk \<Rightarrow> rstring" where
  "quirk_instruction ExcessiveApologies =
     ''Do not apologize unless you made an actual error.''"
| "quirk_instruction UnnecessaryPreamble =
     ''Start directly with the answer, no preamble.''"
| "quirk_instruction UnnecessaryConclusion =
     ''End with the information, no summary needed.''"
| "quirk_instruction ExcessiveHedging =
     ''Be confident in your responses when you know the answer.''"
| "quirk_instruction UnnecessaryDisclaimers =
     ''Skip safety disclaimers unless the topic requires them.''"
| "quirk_instruction RepeatsQuestion =
     ''Do not repeat the question back.''"
| "quirk_instruction ClosingPhrases =
     ''End with the content, not '' @ apos @ ''Hope this helps'' @ apos @ '' or similar.''"

definition PromptAugmenter_with_calibration :: "rstring option \<Rightarrow> ModelCalibration \<Rightarrow> rstring" where
  "PromptAugmenter_with_calibration sys cal =
     (let augmented = base_prompt sys;
          augmented = (case prompt_prefix cal of Some p \<Rightarrow> p @ nl @ nl @ augmented | None \<Rightarrow> augmented);
          augmented = (case quirks cal of
                         Some qs \<Rightarrow>
                           (let ins = map quirk_instruction qs
                            in if ins = [] then augmented
                               else augmented @ nl @ nl @ ''## Communication Style'' @ nl @ nl
                                    @ str_join '' '' ins)
                       | None \<Rightarrow> augmented)
      in case prompt_suffix cal of Some s \<Rightarrow> augmented @ nl @ nl @ s | None \<Rightarrow> augmented)"

subsection \<open>Feedback\<close>

datatype FeedbackSignal = ThumbsUp | ThumbsDown

fun FeedbackSignal_as_str :: "FeedbackSignal \<Rightarrow> rstring" where
  "FeedbackSignal_as_str ThumbsUp = ''approved''"
| "FeedbackSignal_as_str ThumbsDown = ''rejected''"

subsection \<open>The caller's prompt survives augmentation\<close>

lemma with_constitution_prefix: "\<exists>r. PromptAugmenter_with_constitution (Some s) ps = s @ r"
  by (simp add: PromptAugmenter_with_constitution_def base_prompt_def Let_def)

lemma with_calibration_contains:
  "\<exists>a b. PromptAugmenter_with_calibration (Some s) cal = a @ s @ b"
proof -
  let ?p = "case prompt_prefix cal of Some p \<Rightarrow> p @ nl @ nl | None \<Rightarrow> []"
  have "\<exists>b. PromptAugmenter_with_calibration (Some s) cal = ?p @ s @ b"
    by (auto simp: PromptAugmenter_with_calibration_def base_prompt_def Let_def split: option.splits)
  then show ?thesis by blast
qed

text \<open>With no prefix, suffix or quirks the prompt is unchanged.\<close>

lemma with_calibration_default: "PromptAugmenter_with_calibration (Some s) ModelCalibration_default = s"
  by (simp add: PromptAugmenter_with_calibration_def ModelCalibration_default_def base_prompt_def)

end
