(* ===== verification/Response_Types.thy ===== *)
theory Response_Types
  imports Routing_Types Validation_Types Compression_Types Consistency
begin

text \<open>
  Requests and responses (\<open>aura-types/src/response.rs\<close>): the status of a response and its
  terminal states, token usage in 32-bit words, the response and its builder, the request with
  its builder methods, tools and tool choice. The clock is an argument where the code reads it.
\<close>

subsection \<open>Status, errors, usage\<close>

datatype ResponseStatus =
  RS_InProgress | RS_Completed | RS_Failed | RS_Incomplete | RS_Cancelled

fun ResponseStatus_is_terminal :: "ResponseStatus \<Rightarrow> bool" where
  "ResponseStatus_is_terminal RS_Completed = True"
| "ResponseStatus_is_terminal RS_Failed = True"
| "ResponseStatus_is_terminal RS_Incomplete = True"
| "ResponseStatus_is_terminal RS_Cancelled = True"
| "ResponseStatus_is_terminal RS_InProgress = False"

definition ResponseStatus_is_success :: "ResponseStatus \<Rightarrow> bool" where
  "ResponseStatus_is_success s \<longleftrightarrow> s = RS_Completed"

definition ResponseStatus_is_failure :: "ResponseStatus \<Rightarrow> bool" where
  "ResponseStatus_is_failure s \<longleftrightarrow> s = RS_Failed"

datatype IncompleteReason = MaxTokens | ContentFilter | IR_Cancelled | LowConfidence | IR_Unknown

record ResponseError =
  re_code :: rstring
  re_message :: rstring
  re_param :: "rstring option"

definition ResponseError_new :: "rstring \<Rightarrow> rstring \<Rightarrow> ResponseError" where
  "ResponseError_new c m = \<lparr> re_code = c, re_message = m, re_param = None \<rparr>"

definition ResponseError_with_param :: "rstring \<Rightarrow> rstring \<Rightarrow> rstring \<Rightarrow> ResponseError" where
  "ResponseError_with_param c m p = \<lparr> re_code = c, re_message = m, re_param = Some p \<rparr>"

record Usage =
  input_tokens :: u32
  output_tokens :: u32
  total_tokens :: u32
  reasoning_tokens :: "u32 option"
  cached_tokens :: "u32 option"
  cost_usd :: "f64 option"

text \<open>\<open>input_tokens + output_tokens\<close> panics on overflow in a debug build and wraps in release.\<close>

definition Usage_new :: "u32 \<Rightarrow> u32 \<Rightarrow> Usage" where
  "Usage_new i out =
     \<lparr> input_tokens = i, output_tokens = out, total_tokens = i + out, reasoning_tokens = None,
       cached_tokens = None, cost_usd = None \<rparr>"

definition Usage_with_reasoning :: "Usage \<Rightarrow> u32 \<Rightarrow> Usage" where
  "Usage_with_reasoning u n = u\<lparr> reasoning_tokens := Some n \<rparr>"

definition Usage_with_cached :: "Usage \<Rightarrow> u32 \<Rightarrow> Usage" where
  "Usage_with_cached u n = u\<lparr> cached_tokens := Some n \<rparr>"

definition Usage_with_cache_hits :: "Usage \<Rightarrow> u32 \<Rightarrow> Usage" where
  "Usage_with_cache_hits u n = (if 0 < n then u\<lparr> cached_tokens := Some n \<rparr> else u)"

definition Usage_with_cost :: "Usage \<Rightarrow> f64 \<Rightarrow> Usage" where
  "Usage_with_cost u c = u\<lparr> cost_usd := Some c \<rparr>"

definition Usage_set_cost :: "Usage \<Rightarrow> f64 \<Rightarrow> Usage" where
  "Usage_set_cost u c = u\<lparr> cost_usd := Some c \<rparr>"

lemma Usage_new_total:
  "unat i + unat out < 2 ^ 32 \<Longrightarrow> unat (total_tokens (Usage_new i out)) = unat i + unat out"
  by (simp add: Usage_new_def unat_add_no_wrap)

lemma Usage_new_wraps:
  "unat (total_tokens (Usage_new i out)) = (unat i + unat out) mod 2 ^ 32"
  by (simp add: Usage_new_def unat_word_ariths)

subsection \<open>Responses\<close>

record Response =
  resp_id :: rstring
  resp_object :: rstring
  resp_created_at :: "64 word"
  resp_model :: rstring
  resp_status :: ResponseStatus
  resp_output :: "Item list"
  resp_usage :: "Usage option"
  resp_error :: "ResponseError option"
  resp_incomplete_reason :: "IncompleteReason option"
  resp_previous_response_id :: "rstring option"
  resp_metadata :: "json option"
  resp_validation :: "ValidationMetadata option"
  resp_consistency :: "ConsistencyMetadata option"

definition Response_in_progress :: "64 word \<Rightarrow> rstring \<Rightarrow> rstring \<Rightarrow> Response" where
  "Response_in_progress now i m =
     \<lparr> resp_id = i, resp_object = ''response'', resp_created_at = now, resp_model = m,
       resp_status = RS_InProgress, resp_output = [], resp_usage = None, resp_error = None,
       resp_incomplete_reason = None, resp_previous_response_id = None, resp_metadata = None,
       resp_validation = None, resp_consistency = None \<rparr>"

definition Response_text :: "Response \<Rightarrow> rstring" where
  "Response_text r =
     str_join [] (map MessageItem_text (List.map_filter Item_as_message (resp_output r)))"

definition Response_is_complete :: "Response \<Rightarrow> bool" where
  "Response_is_complete r \<longleftrightarrow> ResponseStatus_is_terminal (resp_status r)"

definition Response_is_success :: "Response \<Rightarrow> bool" where
  "Response_is_success r \<longleftrightarrow> ResponseStatus_is_success (resp_status r)"

definition Response_function_calls :: "Response \<Rightarrow> FunctionCallItem list" where
  "Response_function_calls r = List.map_filter Item_as_function_call (resp_output r)"

definition Response_has_function_calls :: "Response \<Rightarrow> bool" where
  "Response_has_function_calls r \<longleftrightarrow> (\<exists>i \<in> set (resp_output r). Item_is_function_call i)"

lemma has_function_calls_iff:
  "Response_has_function_calls r \<longleftrightarrow> Response_function_calls r \<noteq> []"
  by (induction "resp_output r")
    (auto simp: Response_has_function_calls_def Response_function_calls_def List.map_filter_def
      Item_accessors filter_empty_conv)

subsection \<open>The response builder\<close>

record ResponseBuilder =
  b_id :: rstring
  b_model :: rstring
  b_status :: ResponseStatus
  b_output :: "Item list"
  b_usage :: "Usage option"
  b_error :: "ResponseError option"
  b_incomplete_reason :: "IncompleteReason option"
  b_previous_response_id :: "rstring option"
  b_metadata :: "json option"
  b_created_at :: "64 word option"
  b_validation :: "ValidationMetadata option"
  b_consistency :: "ConsistencyMetadata option"

definition ResponseBuilder_new :: "rstring \<Rightarrow> rstring \<Rightarrow> ResponseBuilder" where
  "ResponseBuilder_new i m =
     \<lparr> b_id = i, b_model = m, b_status = RS_InProgress, b_output = [], b_usage = None,
       b_error = None, b_incomplete_reason = None, b_previous_response_id = None,
       b_metadata = None, b_created_at = None, b_validation = None, b_consistency = None \<rparr>"

definition RB_status :: "ResponseBuilder \<Rightarrow> ResponseStatus \<Rightarrow> ResponseBuilder" where
  "RB_status b s = b\<lparr> b_status := s \<rparr>"

definition RB_completed :: "ResponseBuilder \<Rightarrow> ResponseBuilder" where
  "RB_completed b = b\<lparr> b_status := RS_Completed \<rparr>"

definition RB_failed :: "ResponseBuilder \<Rightarrow> ResponseError \<Rightarrow> ResponseBuilder" where
  "RB_failed b e = b\<lparr> b_status := RS_Failed, b_error := Some e \<rparr>"

definition RB_incomplete :: "ResponseBuilder \<Rightarrow> IncompleteReason \<Rightarrow> ResponseBuilder" where
  "RB_incomplete b r = b\<lparr> b_status := RS_Incomplete, b_incomplete_reason := Some r \<rparr>"

definition RB_output :: "ResponseBuilder \<Rightarrow> Item \<Rightarrow> ResponseBuilder" where
  "RB_output b i = b\<lparr> b_output := b_output b @ [i] \<rparr>"

definition RB_outputs :: "ResponseBuilder \<Rightarrow> Item list \<Rightarrow> ResponseBuilder" where
  "RB_outputs b items = b\<lparr> b_output := items \<rparr>"

definition RB_usage :: "ResponseBuilder \<Rightarrow> Usage \<Rightarrow> ResponseBuilder" where
  "RB_usage b u = b\<lparr> b_usage := Some u \<rparr>"

definition RB_previous_response_id :: "ResponseBuilder \<Rightarrow> rstring \<Rightarrow> ResponseBuilder" where
  "RB_previous_response_id b i = b\<lparr> b_previous_response_id := Some i \<rparr>"

definition RB_metadata :: "ResponseBuilder \<Rightarrow> json \<Rightarrow> ResponseBuilder" where
  "RB_metadata b m = b\<lparr> b_metadata := Some m \<rparr>"

definition RB_created_at :: "ResponseBuilder \<Rightarrow> 64 word \<Rightarrow> ResponseBuilder" where
  "RB_created_at b t = b\<lparr> b_created_at := Some t \<rparr>"

definition RB_validation :: "ResponseBuilder \<Rightarrow> ValidationMetadata \<Rightarrow> ResponseBuilder" where
  "RB_validation b v = b\<lparr> b_validation := Some v \<rparr>"

definition RB_consistency :: "ResponseBuilder \<Rightarrow> ConsistencyMetadata \<Rightarrow> ResponseBuilder" where
  "RB_consistency b c = b\<lparr> b_consistency := Some c \<rparr>"

definition RB_build :: "64 word \<Rightarrow> ResponseBuilder \<Rightarrow> Response" where
  "RB_build now b =
     \<lparr> resp_id = b_id b, resp_object = ''response'',
       resp_created_at = (case b_created_at b of Some t \<Rightarrow> t | None \<Rightarrow> now),
       resp_model = b_model b, resp_status = b_status b, resp_output = b_output b,
       resp_usage = b_usage b, resp_error = b_error b,
       resp_incomplete_reason = b_incomplete_reason b,
       resp_previous_response_id = b_previous_response_id b, resp_metadata = b_metadata b,
       resp_validation = b_validation b, resp_consistency = b_consistency b \<rparr>"

text \<open>A builder that sets nothing builds the in-progress response.\<close>

lemma RB_build_new: "RB_build now (ResponseBuilder_new i m) = Response_in_progress now i m"
  by (simp add: RB_build_def ResponseBuilder_new_def Response_in_progress_def)

subsection \<open>Tools\<close>

record FunctionDefinition =
  fd_name :: rstring
  fd_description :: "rstring option"
  fd_parameters :: "json option"
  fd_strict :: "bool option"

definition FunctionDefinition_new :: "rstring \<Rightarrow> FunctionDefinition" where
  "FunctionDefinition_new n =
     \<lparr> fd_name = n, fd_description = None, fd_parameters = None, fd_strict = None \<rparr>"

definition FunctionDefinition_with_description :: "FunctionDefinition \<Rightarrow> rstring \<Rightarrow> FunctionDefinition" where
  "FunctionDefinition_with_description f d = f\<lparr> fd_description := Some d \<rparr>"

definition FunctionDefinition_with_parameters :: "FunctionDefinition \<Rightarrow> json \<Rightarrow> FunctionDefinition" where
  "FunctionDefinition_with_parameters f p = f\<lparr> fd_parameters := Some p \<rparr>"

definition FunctionDefinition_with_strict :: "FunctionDefinition \<Rightarrow> bool \<Rightarrow> FunctionDefinition" where
  "FunctionDefinition_with_strict f b = f\<lparr> fd_strict := Some b \<rparr>"

datatype Tool = TFunction FunctionDefinition

datatype ToolChoiceAuto = TC_Auto | TC_Required | TC_None

datatype ToolChoice = TChoiceAuto ToolChoiceAuto | TChoiceFunction rstring rstring

definition ToolChoice_function :: "rstring \<Rightarrow> ToolChoice" where
  "ToolChoice_function n = TChoiceFunction ''function'' n"

subsection \<open>Requests\<close>

record Request =
  req_model :: rstring
  req_input :: "InputItem list"
  req_instructions :: "rstring option"
  req_max_output_tokens :: "u32 option"
  req_temperature :: "f32 option"
  req_top_p :: "f32 option"
  req_stream :: bool
  req_previous_response_id :: "rstring option"
  req_tools :: "Tool list option"
  req_tool_choice :: "ToolChoice option"
  req_user :: "rstring option"
  req_metadata :: "json option"
  req_validation :: "ValidationConfig option"
  req_consistency :: "ConsistencyConfig option"
  req_compression :: "CompressionConfig option"
  req_routing :: "RoutingOptions option"

definition Request_new :: "rstring \<Rightarrow> InputItem list \<Rightarrow> Request" where
  "Request_new m inp =
     \<lparr> req_model = m, req_input = inp, req_instructions = None, req_max_output_tokens = None,
       req_temperature = None, req_top_p = None, req_stream = False,
       req_previous_response_id = None, req_tools = None, req_tool_choice = None,
       req_user = None, req_metadata = None, req_validation = None, req_consistency = None,
       req_compression = None, req_routing = None \<rparr>"

definition Request_text :: "rstring \<Rightarrow> rstring \<Rightarrow> Request" where
  "Request_text m t = Request_new m [InputItem_user (IText t)]"

definition Request_with_stream :: "Request \<Rightarrow> Request" where
  "Request_with_stream r = r\<lparr> req_stream := True \<rparr>"

definition Request_with_instructions :: "Request \<Rightarrow> rstring \<Rightarrow> Request" where
  "Request_with_instructions r s = r\<lparr> req_instructions := Some s \<rparr>"

definition Request_with_max_tokens :: "Request \<Rightarrow> u32 \<Rightarrow> Request" where
  "Request_with_max_tokens r n = r\<lparr> req_max_output_tokens := Some n \<rparr>"

definition Request_with_temperature :: "Request \<Rightarrow> f32 \<Rightarrow> Request" where
  "Request_with_temperature r t = r\<lparr> req_temperature := Some t \<rparr>"

definition Request_with_tools :: "Request \<Rightarrow> Tool list \<Rightarrow> Request" where
  "Request_with_tools r ts = r\<lparr> req_tools := Some ts \<rparr>"

definition Request_with_previous_response :: "Request \<Rightarrow> rstring \<Rightarrow> Request" where
  "Request_with_previous_response r i = r\<lparr> req_previous_response_id := Some i \<rparr>"

definition Request_with_validation :: "Request \<Rightarrow> ValidationConfig \<Rightarrow> Request" where
  "Request_with_validation r v = r\<lparr> req_validation := Some v \<rparr>"

definition Request_with_consistency :: "Request \<Rightarrow> ConsistencyConfig \<Rightarrow> Request" where
  "Request_with_consistency r c = r\<lparr> req_consistency := Some c \<rparr>"

definition Request_with_compression :: "Request \<Rightarrow> CompressionConfig \<Rightarrow> Request" where
  "Request_with_compression r c = r\<lparr> req_compression := Some c \<rparr>"

definition Request_with_routing :: "Request \<Rightarrow> RoutingOptions \<Rightarrow> Request" where
  "Request_with_routing r x = r\<lparr> req_routing := Some x \<rparr>"

end
