(* ===== verification/Features.thy ===== *)
theory Features
  imports Response_Types Auto_Config
begin

text \<open>
  Feature extraction for the auto router (\<open>aura-core/src/router/auto/features.rs\<close>): a request
  becomes a flat vector of numbers. The regular-expression engine is an argument: \<open>rx_new\<close>
  compiles a pattern (with the case-insensitive flag of the builder) or fails, \<open>rx_escape\<close> is
  \<open>regex::escape\<close>.
\<close>

abbreviation bslash :: rstring where "bslash \<equiv> [CHR 0x5C]"

record regex_lib =
  rx_new :: "rstring \<Rightarrow> bool \<Rightarrow> (rstring \<Rightarrow> bool) option"
  rx_escape :: "rstring \<Rightarrow> rstring"

datatype IntentHint = Quick | Deep

record RequestFeatures =
  ft_est_input_tokens :: u32
  ft_est_last_user_tokens :: u32
  ft_input_items :: u32
  ft_user_messages :: u32
  ft_function_call_outputs :: u32
  ft_is_continuation :: bool
  ft_is_tool_loop_turn :: bool
  ft_tool_count :: u32
  ft_tool_required :: bool
  ft_has_images :: bool
  ft_has_audio :: bool
  ft_max_output_tokens :: "u32 option"
  ft_code :: f64
  ft_code_matches :: u32
  ft_reasoning :: f64
  ft_reasoning_matches :: u32
  ft_technical :: f64
  ft_technical_matches :: u32
  ft_simple :: f64
  ft_simple_matches :: u32
  ft_multi_step :: f64
  ft_question_marks :: u32
  ft_explicit_intent :: "IntentHint option"
  ft_non_ascii_ratio :: f64
  ft_code_fences :: u32

definition RequestFeatures_default :: RequestFeatures where
  "RequestFeatures_default =
     \<lparr> ft_est_input_tokens = 0, ft_est_last_user_tokens = 0, ft_input_items = 0,
       ft_user_messages = 0, ft_function_call_outputs = 0, ft_is_continuation = False,
       ft_is_tool_loop_turn = False, ft_tool_count = 0, ft_tool_required = False,
       ft_has_images = False, ft_has_audio = False, ft_max_output_tokens = None,
       ft_code = Fin 0, ft_code_matches = 0, ft_reasoning = Fin 0, ft_reasoning_matches = 0,
       ft_technical = Fin 0, ft_technical_matches = 0, ft_simple = Fin 0, ft_simple_matches = 0,
       ft_multi_step = Fin 0, ft_question_marks = 0, ft_explicit_intent = None,
       ft_non_ascii_ratio = Fin 0, ft_code_fences = 0 \<rparr>"

text \<open>\<open>(chars as u32).div_ceil(4)\<close>.\<close>

definition div_ceil4 :: "u32 \<Rightarrow> u32" where
  "div_ceil4 n = (if n mod 4 = 0 then n div 4 else n div 4 + 1)"

definition estimate_tokens :: "rstring \<Rightarrow> u32" where
  "estimate_tokens text = div_ceil4 (of_nat (length (str_chars text)))"

subsection \<open>Collecting the text\<close>

record Collected =
  co_user_text :: rstring
  co_last_user :: rstring
  co_all_text :: rstring

text \<open>The text of a message, with the flags for images and audio that were seen.\<close>

fun parts_text :: "ContentPart list \<Rightarrow> rstring \<times> bool \<times> bool \<Rightarrow> rstring \<times> bool \<times> bool" where
  "parts_text [] acc = acc"
| "parts_text (CText t # ps) (out, img, aud) =
     parts_text ps ((if out = [] then out else out @ nl) @ t, img, aud)"
| "parts_text (CImage _ _ _ # ps) (out, img, aud) = parts_text ps (out, True, aud)"
| "parts_text (CAudio _ _ # ps) (out, img, aud) = parts_text ps (out, img, True)"

fun content_text :: "InputContent \<Rightarrow> bool \<times> bool \<Rightarrow> rstring \<times> bool \<times> bool" where
  "content_text (IText t) (img, aud) = (t, img, aud)"
| "content_text (IParts ps) (img, aud) = parts_text ps ([], img, aud)"

fun collect_item :: "InputItem \<Rightarrow> Collected \<times> RequestFeatures \<Rightarrow> Collected \<times> RequestFeatures" where
  "collect_item (InMessage role content) (c, f) =
     (let (text, img, aud) = content_text content (ft_has_images f, ft_has_audio f);
          f = f\<lparr> ft_input_items := ft_input_items f + 1, ft_has_images := img, ft_has_audio := aud \<rparr>;
          c = c\<lparr> co_all_text := co_all_text c @ text @ nl \<rparr>
      in case role of
           User \<Rightarrow> (c\<lparr> co_last_user := text, co_user_text := co_user_text c @ text @ nl \<rparr>,
                    f\<lparr> ft_user_messages := ft_user_messages f + 1 \<rparr>)
         | System \<Rightarrow> (c\<lparr> co_user_text := co_user_text c @ text @ nl \<rparr>, f)
         | Assistant \<Rightarrow> (c, f)
         | RTool \<Rightarrow> (c, f))"
| "collect_item (InFunctionCall _ _ arguments) (c, f) =
     (c\<lparr> co_all_text := co_all_text c @ arguments @ nl \<rparr>,
      f\<lparr> ft_input_items := ft_input_items f + 1 \<rparr>)"
| "collect_item (InFunctionCallOutput _ output) (c, f) =
     (c\<lparr> co_all_text := co_all_text c @ output @ nl \<rparr>,
      f\<lparr> ft_input_items := ft_input_items f + 1,
         ft_function_call_outputs := ft_function_call_outputs f + 1 \<rparr>)"

definition collect_request :: "Request \<Rightarrow> RequestFeatures \<Rightarrow> Collected \<times> RequestFeatures" where
  "collect_request r f =
     (let instr = (case req_instructions r of Some i \<Rightarrow> i @ nl | None \<Rightarrow> [])
      in fold collect_item (req_input r)
           (\<lparr> co_user_text = instr, co_last_user = [], co_all_text = instr \<rparr>, f))"

subsection \<open>Keyword matchers\<close>

datatype Matcher = Word "rstring \<Rightarrow> bool" | Phrase rstring

definition Matcher_compile :: "unicode \<Rightarrow> regex_lib \<Rightarrow> rstring \<Rightarrow> Matcher option" where
  "Matcher_compile U rx keyword =
     (let kw = str_trim keyword
      in if kw = [] then None
         else (let single_word =
                 (\<forall>c \<in> set (str_chars kw). c \<notin> set ws_encodings)
                 \<and> (\<forall>c \<in> set (str_chars kw). u_alphanumeric U c \<or> c = ''_'' \<or> c = ''-'')
               in if single_word
                  then map_option Word (rx_new rx (bslash @ ''b'' @ rx_escape rx kw @ bslash @ ''b'') True)
                  else Some (Phrase (to_ascii_lowercase kw))))"

fun Matcher_is_match :: "Matcher \<Rightarrow> rstring \<Rightarrow> rstring \<Rightarrow> bool" where
  "Matcher_is_match (Word re) text text_lower = re text"
| "Matcher_is_match (Phrase p) text text_lower = str_contains text_lower p"

definition compile_all :: "unicode \<Rightarrow> regex_lib \<Rightarrow> rstring list \<Rightarrow> Matcher list" where
  "compile_all U rx ks = List.map_filter (Matcher_compile U rx) ks"

definition count_matches :: "Matcher list \<Rightarrow> rstring \<Rightarrow> rstring \<Rightarrow> u32" where
  "count_matches ms text text_lower =
     of_nat (length (filter (\<lambda>m. Matcher_is_match m text text_lower) ms))"

record KeywordMatcher =
  km_code :: "Matcher list"
  km_reasoning :: "Matcher list"
  km_technical :: "Matcher list"
  km_simple :: "Matcher list"
  km_intent_quick :: "Matcher list"
  km_intent_deep :: "Matcher list"

definition KeywordMatcher_new :: "unicode \<Rightarrow> regex_lib \<Rightarrow> KeywordLists \<Rightarrow> KeywordMatcher" where
  "KeywordMatcher_new U rx l =
     \<lparr> km_code = compile_all U rx (kw_code l), km_reasoning = compile_all U rx (kw_reasoning l),
       km_technical = compile_all U rx (kw_technical l), km_simple = compile_all U rx (kw_simple l),
       km_intent_quick = compile_all U rx (kw_intent_quick l),
       km_intent_deep = compile_all U rx (kw_intent_deep l) \<rparr>"

definition multi_step_patterns :: "rstring list" where
  "multi_step_patterns =
     [(''(?is)'' @ bslash @ ''bfirst'' @ bslash @ ''b.*'' @ bslash @ ''bthen'' @ bslash @ ''b''),
      (''(?im)^'' @ bslash @ ''s*'' @ bslash @ ''d+[.)]'' @ bslash @ ''s+'' @ bslash @ ''S''),
      (''(?im)^'' @ bslash @ ''s*[a-z][.)]'' @ bslash @ ''s+'' @ bslash @ ''S''),
      (''(?i)'' @ bslash @ ''b(after that|finally|and then|next,|lastly|subsequently)'' @ bslash @ ''b'')]"

definition code_patterns :: "rstring list" where
  "code_patterns =
     [([CHR 0x60] @ [CHR 0x60] @ [CHR 0x60]),
      (''(?i)'' @ bslash @ ''b['' @ bslash @ ''w./-]+'' @ bslash @ ''.(rs|py|ts|tsx|js|jsx|go|java|rb|cpp|cc|c|h|hpp|cs|kt|swift|sql|yaml|yml|json|toml|sh|proto)'' @ bslash @ ''b''),
      (''[A-Za-z_][A-Za-z0-9_]*'' @ bslash @ ''s*'' @ bslash @ ''([^)]*'' @ bslash @ '')'' @ bslash @ ''s*('' @ bslash @ ''{|=>|->|:)''),
      (''(?m)^'' @ bslash @ ''s+at'' @ bslash @ ''s+['' @ bslash @ ''w$.<>]+'' @ bslash @ ''s*'' @ bslash @ ''(''),
      (''(?i)'' @ bslash @ ''bline '' @ bslash @ ''d+'' @ bslash @ ''b'')]"

definition compiled_patterns :: "regex_lib \<Rightarrow> rstring list \<Rightarrow> (rstring \<Rightarrow> bool) list" where
  "compiled_patterns rx ps = List.map_filter (\<lambda>p. rx_new rx p False) ps"

definition count_patterns :: "(rstring \<Rightarrow> bool) list \<Rightarrow> rstring \<Rightarrow> u32" where
  "count_patterns res text = of_nat (length (filter (\<lambda>re. re text) res))"

definition tiered_score :: "u32 \<Rightarrow> u32 \<Rightarrow> u32 \<Rightarrow> f64" where
  "tiered_score matches half full =
     (if full \<le> matches then f64_lit 1 1 else if half \<le> matches then f64_lit 5 10 else f64_lit 0 1)"

subsection \<open>The extractor\<close>

text \<open>\<open>str::matches(p).count()\<close>: disjoint occurrences from the left.\<close>

fun count_occurrences_n :: "nat \<Rightarrow> rstring \<Rightarrow> rstring \<Rightarrow> nat" where
  "count_occurrences_n 0 p s = 0"
| "count_occurrences_n (Suc n) p s =
     (case str_find s p of
        None \<Rightarrow> 0
      | Some i \<Rightarrow> Suc (count_occurrences_n n p (drop (i + length p) s)))"

definition count_occurrences :: "rstring \<Rightarrow> rstring \<Rightarrow> nat" where
  "count_occurrences p s = count_occurrences_n (Suc (length s)) p s"

definition is_required_choice :: "ToolChoice option \<Rightarrow> bool" where
  "is_required_choice c \<longleftrightarrow>
     (case c of Some (TChoiceAuto TC_Required) \<Rightarrow> True | Some (TChoiceFunction _ _) \<Rightarrow> True | _ \<Rightarrow> False)"

definition intent_of :: "u32 \<Rightarrow> u32 \<Rightarrow> IntentHint option" where
  "intent_of q d = (if q = 0 \<and> d = 0 then None else if d < q then Some Quick
                    else if q < d then Some Deep else None)"

definition count_alpha :: "unicode \<Rightarrow> rstring \<Rightarrow> u32 \<times> u32" where
  "count_alpha U text =
     foldl (\<lambda>(a, n) c. if u_alphabetic U c then (a + 1, n + (if length c = 1 then 0 else 1)) else (a, n))
       (0, 0) (str_chars text)"

definition extract_features :: "unicode \<Rightarrow> regex_lib \<Rightarrow> KeywordMatcher \<Rightarrow> Request \<Rightarrow> RequestFeatures" where
  "extract_features U rx km r =
     (let (c, f) = collect_request r RequestFeatures_default;
          text = co_user_text c;
          lower = to_ascii_lowercase text;
          cont = (req_previous_response_id r \<noteq> None);
          code_kw = count_matches (km_code km) text lower;
          code_pat = count_patterns (compiled_patterns rx code_patterns) text;
          fences = (of_nat (count_occurrences [CHR 0x60, CHR 0x60, CHR 0x60] text) :: u32) div 2;
          reas = count_matches (km_reasoning km) text lower;
          tech = count_matches (km_technical km) text lower;
          simp = count_matches (km_simple km) text lower;
          multi = count_patterns (compiled_patterns rx multi_step_patterns) text;
          (alpha, non_ascii) = count_alpha U text
      in f\<lparr> ft_est_input_tokens := estimate_tokens (co_all_text c),
            ft_est_last_user_tokens := estimate_tokens (co_last_user c),
            ft_is_continuation := cont,
            ft_is_tool_loop_turn := (cont \<and> 0 < ft_function_call_outputs f),
            ft_tool_count := (case req_tools r of Some ts \<Rightarrow> of_nat (length ts) | None \<Rightarrow> 0),
            ft_tool_required := is_required_choice (req_tool_choice r),
            ft_max_output_tokens := req_max_output_tokens r,
            ft_code_fences := fences,
            ft_code_matches := code_kw + code_pat,
            ft_code := (if 0 < fences then f64_lit 1 1 else tiered_score (code_kw + 2 * code_pat) 1 2),
            ft_reasoning_matches := reas,
            ft_reasoning := tiered_score reas 1 2,
            ft_technical_matches := tech,
            ft_technical := tiered_score tech 2 4,
            ft_simple_matches := simp,
            ft_simple := tiered_score simp 1 2,
            ft_multi_step := tiered_score multi 1 3,
            ft_question_marks := of_nat (count_list text (CHR ''?'')),
            ft_explicit_intent := intent_of (count_matches (km_intent_quick km) text lower)
                                    (count_matches (km_intent_deep km) text lower),
            ft_non_ascii_ratio := (if alpha = 0 then f64_lit 0 1
                                   else f64_div (f64_of_nat (unat non_ascii)) (f64_of_nat (unat alpha))) \<rparr>)"

subsection \<open>The features lie where their documentation says\<close>

lemma tiered_score_cases: "tiered_score m h f \<in> {Fin 0, Fin (1 / 2), Fin 1}"
  by (simp add: tiered_score_def)

lemma tiered_score_unit: "f64_le (Fin 0) (tiered_score m h f) \<and> f64_le (tiered_score m h f) (Fin 1)"
  using tiered_score_cases [of m h f] by auto

text \<open>Four characters to a token, rounded up.\<close>

lemma unat_div_ceil4: "unat (div_ceil4 n) = (unat n + 3) div 4"
proof -
  have "n mod 4 = 0 \<longleftrightarrow> unat n mod 4 = 0"
    by (simp add: word_unat_eq_iff unat_mod)
  moreover have "unat (n div 4 + 1) = unat n div 4 + 1"
  proof -
    have "unat n div 4 + 1 < 2 ^ 32" using unsigned_less [of n, where 'a = nat] by simp
    then show ?thesis by (simp add: unat_add_no_wrap unat_div)
  qed
  ultimately show ?thesis by (auto simp: div_ceil4_def unat_div) presburger+
qed

end
