(* ===== verification/Scorer.thy ===== *)
theory Scorer
  imports Features
begin

text \<open>
  The heuristic complexity scorer (\<open>aura-core/src/router/auto/scorer.rs\<close>): a weighted sum of
  the features in double precision, clamped and rounded to three decimals, shifted by the mode,
  mapped to a tier, with the override for prompts full of reasoning markers. The signals are a
  finite map from names to contributions.

  The lemmas show that the recorded scores stay in their intervals whatever the features, and
  that a mode with a larger offset never yields a lower tier.
\<close>

definition HEURISTIC_VERSION :: rstring where
  "HEURISTIC_VERSION = ''heuristic@v1''"

record ScoreResult =
  sr_raw_score :: f64
  sr_score :: f64
  sr_tier :: Tier
  sr_signals :: "rstring \<rightharpoonup> f64"
  sr_notes :: "rstring list"

record HeuristicScorer =
  hs_weights :: FeatureWeights
  hs_thresholds :: TokenThresholds
  hs_boundaries :: TierBoundaries
  hs_offsets :: ModeOffsets
  hs_reasoning_override_matches :: u32

definition clamp01 :: "f64 \<Rightarrow> f64" where
  "clamp01 x = f64_clamp x (f64_lit 0 1) (f64_lit 1 1)"

definition HeuristicScorer_new :: "AutoRoutingConfig \<Rightarrow> HeuristicScorer" where
  "HeuristicScorer_new cfg =
     \<lparr> hs_weights = weights cfg, hs_thresholds = token_thresholds cfg,
       hs_boundaries = boundaries cfg, hs_offsets = mode_offsets cfg,
       hs_reasoning_override_matches = reasoning_override_matches cfg \<rparr>"

definition f64_of_u32 :: "u32 \<Rightarrow> f64" where
  "f64_of_u32 n = f64_of_nat (unat n)"

definition token_feature :: "HeuristicScorer \<Rightarrow> u32 \<Rightarrow> f64" where
  "token_feature s tokens =
     (let short = f64_of_u32 (th_short (hs_thresholds s));
          long = f64_max (f64_of_u32 (th_long (hs_thresholds s))) (f64_add short (f64_lit 1 1));
          t = f64_of_u32 tokens
      in if f64_le t short then f64_lit (- 1) 1
         else f64_clamp (f64_div (f64_sub t short) (f64_sub long short)) (f64_lit 0 1) (f64_lit 1 1))"

text \<open>\<open>f64::EPSILON\<close> is \<open>2\<^sup>-\<^sup>5\<^sup>2\<close>.\<close>

definition F64_EPSILON :: f64 where
  "F64_EPSILON = f64_lit 1 4503599627370496"

definition round3 :: "f64 \<Rightarrow> f64" where
  "round3 x = f64_div (f64_round (f64_mul x (f64_lit 1000 1))) (f64_lit 1000 1)"

text \<open>The closure \<open>add\<close> with the sum it is added to.\<close>

definition add_signal ::
    "rstring \<Rightarrow> f64 \<Rightarrow> f64 \<Rightarrow> f64 \<times> (rstring \<rightharpoonup> f64) \<Rightarrow> f64 \<times> (rstring \<rightharpoonup> f64)" where
  "add_signal name weight value acc =
     (let c = f64_mul weight value
      in (f64_add (fst acc) c,
          if f64_lt F64_EPSILON (f64_abs c) then (snd acc)(name \<mapsto> round3 c) else snd acc))"

definition tools_value :: "RequestFeatures \<Rightarrow> f64" where
  "tools_value f = (if ft_tool_required f then f64_lit 1 1
                    else if 0 < ft_tool_count f then f64_lit 5 10 else f64_lit 0 1)"

definition intent_value :: "RequestFeatures \<Rightarrow> f64" where
  "intent_value f = (case ft_explicit_intent f of
      Some Quick \<Rightarrow> f64_lit (- 1) 1 | Some Deep \<Rightarrow> f64_lit 1 1 | None \<Rightarrow> f64_lit 0 1)"

definition long_output :: "HeuristicScorer \<Rightarrow> RequestFeatures \<Rightarrow> bool" where
  "long_output s f = (case ft_max_output_tokens f of
      Some m \<Rightarrow> th_long_output (hs_thresholds s) \<le> m | None \<Rightarrow> False)"

definition weighted_sum :: "HeuristicScorer \<Rightarrow> RequestFeatures \<Rightarrow> f64 \<times> (rstring \<rightharpoonup> f64)" where
  "weighted_sum s f =
     (let w = hs_weights s;
          acc = (f64_lit 0 1, Map.empty);
          acc = add_signal ''tokens'' (w_tokens w) (token_feature s (ft_est_input_tokens f)) acc;
          acc = add_signal ''code'' (w_code w) (ft_code f) acc;
          acc = add_signal ''reasoning'' (w_reasoning w) (ft_reasoning f) acc;
          acc = add_signal ''technical'' (w_technical w) (ft_technical f) acc;
          acc = add_signal ''simple'' (w_simple w) (f64_neg (ft_simple f)) acc;
          acc = add_signal ''multi_step'' (w_multi_step w) (ft_multi_step f) acc;
          acc = add_signal ''questions'' (w_questions w)
                  (if 3 < ft_question_marks f then f64_lit 5 10 else f64_lit 0 1) acc;
          acc = add_signal ''tools'' (w_tools w) (tools_value f) acc;
          acc = add_signal ''explicit_intent'' (w_explicit_intent w) (intent_value f) acc;
          acc = add_signal ''continuation'' (w_continuation w)
                  (if ft_is_continuation f then f64_lit 5 10 else f64_lit 0 1) acc;
          acc = add_signal ''output_length'' (w_output_length w)
                  (if long_output s f then f64_lit 5 10 else f64_lit 0 1) acc
      in acc)"

definition final_score :: "HeuristicScorer \<Rightarrow> f64 \<Rightarrow> RoutingMode \<Rightarrow> f64" where
  "final_score s raw_score md = round3 (clamp01 (f64_add raw_score (for_mode (hs_offsets s) md)))"

definition reasoning_override :: "HeuristicScorer \<Rightarrow> RequestFeatures \<Rightarrow> bool" where
  "reasoning_override s f \<longleftrightarrow>
     0 < hs_reasoning_override_matches s \<and> hs_reasoning_override_matches s \<le> ft_reasoning_matches f
     \<and> ft_explicit_intent f \<noteq> Some Quick"

definition HeuristicScorer_score :: "HeuristicScorer \<Rightarrow> RequestFeatures \<Rightarrow> RoutingMode \<Rightarrow> ScoreResult" where
  "HeuristicScorer_score s f md =
     (let (raw, signals) = weighted_sum s f;
          raw_score = round3 (f64_clamp raw (f64_lit (- 1) 1) (f64_lit 1 1));
          offset = for_mode (hs_offsets s) md;
          score = final_score s raw_score md;
          signals = (if f64_lt F64_EPSILON (f64_abs offset) then signals(''mode_offset'' \<mapsto> offset)
                     else signals);
          tier = tier_for (hs_boundaries s) score;
          over = reasoning_override s f
      in \<lparr> sr_raw_score = raw_score, sr_score = score,
           sr_tier = (if over then Reasoning else tier),
           sr_signals = signals,
           sr_notes = (if over \<and> tier < Reasoning
                       then [''reasoning override: '' @ dec_digits (unat (ft_reasoning_matches f))
                             @ '' reasoning markers'']
                       else []) \<rparr>)"

subsection \<open>Rounding and clamping are monotone\<close>

lemma sgn_abs_floor_mono:
  fixes a b :: rat
  assumes "a \<le> b"
  shows "sgn a * of_int \<lfloor>\<bar>a\<bar> + 1 / 2\<rfloor> \<le> sgn b * (of_int \<lfloor>\<bar>b\<bar> + 1 / 2\<rfloor> :: rat)"
proof -
  have fm: "(of_int \<lfloor>x + 1 / 2\<rfloor> :: rat) \<le> of_int \<lfloor>y + 1 / 2\<rfloor>" if "x \<le> y" for x y :: rat
    using that by (simp add: floor_mono)
  have nn: "(0 :: rat) \<le> of_int \<lfloor>\<bar>x\<bar> + 1 / 2\<rfloor>" for x :: rat
    by simp
  consider "0 \<le> a" | "a < 0" "0 \<le> b" | "b < 0" using assms by linarith
  then show ?thesis
  proof cases
    case 1
    then show ?thesis
      using assms fm [of a b] by (cases "a = 0"; cases "b = 0") auto
  next
    case 2
    have "sgn a * of_int \<lfloor>\<bar>a\<bar> + 1 / 2\<rfloor> \<le> (0 :: rat)"
      using 2 nn [of a] by (intro mult_nonpos_nonneg) (simp add: sgn_if)
    moreover have "(0 :: rat) \<le> sgn b * of_int \<lfloor>\<bar>b\<bar> + 1 / 2\<rfloor>"
      using 2 nn [of b] by (intro mult_nonneg_nonneg) (simp add: sgn_if)
    ultimately show ?thesis by linarith
  next
    case 3
    then show ?thesis using assms fm [of "- b" "- a"] by (simp add: sgn_if)
  qed
qed

lemma f64_round_mono: "f64_le a b \<Longrightarrow> f64_le (f64_round a) (f64_round b)"
  by (cases a; cases b) (simp_all add: sgn_abs_floor_mono)

lemma f64_mul_1000_mono: "f64_le a b \<Longrightarrow> f64_le (f64_mul a (Fin 1000)) (f64_mul b (Fin 1000))"
  by (cases a; cases b)
    (auto simp: f64_mul_def f64_sgn_def signed_inf_def intro!: to_f64_mono)

lemma f64_div_1000_mono: "f64_le a b \<Longrightarrow> f64_le (f64_div a (Fin 1000)) (f64_div b (Fin 1000))"
  by (cases a; cases b)
    (auto simp: f64_div_def f64_sgn_def signed_inf_def divide_right_mono intro!: to_f64_mono)

lemma round3_mono: "f64_le a b \<Longrightarrow> f64_le (round3 a) (round3 b)"
  by (simp add: round3_def f64_mul_1000_mono f64_round_mono f64_div_1000_mono)

lemma round3_ends: "round3 (Fin 0) = Fin 0" "round3 (Fin 1) = Fin 1" "round3 (Fin (- 1)) = Fin (- 1)"
  by code_simp+

lemma f64_clamp_mono:
  "f64_le a b \<Longrightarrow> f64_le lo hi \<Longrightarrow> f64_le (f64_clamp a lo hi) (f64_clamp b lo hi)"
  using f64_le_total [of a lo] f64_le_total [of a hi] f64_le_total [of b lo] f64_le_total [of b hi]
    f64_le_not_NaN [of a b] f64_le_not_NaN [of lo hi]
  by (auto simp: f64_clamp_def f64_lt_def f64_le_refl dest: f64_le_trans)

lemma f64_clamp_range:
  "x \<noteq> NaN \<Longrightarrow> f64_le lo hi \<Longrightarrow> f64_le lo (f64_clamp x lo hi) \<and> f64_le (f64_clamp x lo hi) hi"
  using f64_le_total [of x lo] f64_le_total [of x hi] f64_le_not_NaN [of lo hi]
  by (auto simp: f64_clamp_def f64_lt_def f64_le_refl)

lemma round3_clamp_range:
  assumes "x \<noteq> NaN" "f64_le lo hi" "round3 lo = lo" "round3 hi = hi"
  shows "f64_le lo (round3 (f64_clamp x lo hi)) \<and> f64_le (round3 (f64_clamp x lo hi)) hi"
  using f64_clamp_range [OF assms(1,2)] round3_mono [of lo "f64_clamp x lo hi"]
    round3_mono [of "f64_clamp x lo hi" hi] assms(3,4)
  by simp

subsection \<open>The recorded scores\<close>

lemma score_raw_range:
  assumes "fst (weighted_sum s f) \<noteq> NaN"
  shows "f64_le (Fin (- 1)) (sr_raw_score (HeuristicScorer_score s f md))
    \<and> f64_le (sr_raw_score (HeuristicScorer_score s f md)) (Fin 1)"
  using round3_clamp_range [OF assms, of "Fin (- 1)" "Fin 1"]
  by (simp add: HeuristicScorer_score_def Let_def case_prod_beta round3_ends)

lemma final_score_range:
  assumes "f64_add r (for_mode (hs_offsets s) md) \<noteq> NaN"
  shows "f64_le (Fin 0) (final_score s r md) \<and> f64_le (final_score s r md) (Fin 1)"
  using round3_clamp_range [OF assms, of "Fin 0" "Fin 1"]
  by (simp add: final_score_def clamp01_def round3_ends)

lemma unit_interval_Fin: "f64_le (Fin a) x \<Longrightarrow> f64_le x (Fin b) \<Longrightarrow> \<exists>r. x = Fin r"
  by (cases x) auto

lemma final_score_mono:
  assumes "f64_le (for_mode (hs_offsets s) m) (for_mode (hs_offsets s) m')" "r = Fin q"
  shows "f64_le (final_score s r m) (final_score s r m')"
proof -
  have "f64_le (f64_add (Fin q) x) (f64_add (Fin q) y)" if "f64_le x y" for x y
    using that by (cases x; cases y) (auto simp: f64_add_def intro!: to_f64_mono)
  then show ?thesis
    using assms by (simp add: final_score_def clamp01_def round3_mono f64_clamp_mono)
qed

lemma score_tier_eq:
  "sr_tier (HeuristicScorer_score s f md) =
     (if reasoning_override s f then Reasoning
      else tier_for (hs_boundaries s) (sr_score (HeuristicScorer_score s f md)))"
  by (simp add: HeuristicScorer_score_def Let_def case_prod_beta)

lemma score_mode_mono:
  assumes "fst (weighted_sum s f) \<noteq> NaN"
    and "f64_le (for_mode (hs_offsets s) m) (for_mode (hs_offsets s) m')"
  shows "f64_le (sr_score (HeuristicScorer_score s f m)) (sr_score (HeuristicScorer_score s f m'))
    \<and> sr_tier (HeuristicScorer_score s f m) \<le> sr_tier (HeuristicScorer_score s f m')"
proof -
  let ?r = "round3 (f64_clamp (fst (weighted_sum s f)) (Fin (- 1)) (Fin 1))"
  have "f64_le (Fin (- 1)) ?r \<and> f64_le ?r (Fin 1)"
    using round3_clamp_range [OF assms(1), of "Fin (- 1)" "Fin 1"] by (simp add: round3_ends)
  then obtain q where "?r = Fin q" using unit_interval_Fin by blast
  from final_score_mono [OF assms(2) this]
  have "f64_le (sr_score (HeuristicScorer_score s f m)) (sr_score (HeuristicScorer_score s f m'))"
    by (simp add: HeuristicScorer_score_def Let_def case_prod_beta)
  then show ?thesis by (simp add: score_tier_eq tier_for_mono)
qed

end
