(* ===== verification/Auto_Router.thy ===== *)
theory Auto_Router
  imports Tier_Catalog Scorer
begin

text \<open>
  The auto router (\<open>aura-core/src/router/auto/mod.rs\<close>): from a request to a decision in four
  steps (features, score, clamp, select), the three oracles it wraps around the caller's, and
  the escalation after a provider failure.

  The router owns the catalog and with it the round-robin counter, so the operations return the
  router. What the code takes from its surroundings is the record \<open>env\<close>: the Unicode tables, the
  regular expressions, the Beta sampler and the clock.
\<close>

subsection \<open>Records\<close>

record env =
  en_unicode :: unicode
  en_regex :: regex_lib
  en_samp :: "nat \<Rightarrow> f64 \<Rightarrow> f64 \<Rightarrow> f64"
  en_elapsed_us :: u64

record DecisionContext =
  dc_requested_model :: rstring
  dc_alias_mode :: "RoutingMode option"
  dc_options :: "RoutingOptions option"
  dc_previous_model :: "rstring option"
  dc_shadow :: bool

record ClassifierOverride =
  ov_tier :: Tier
  ov_classifier :: rstring
  ov_confidence :: f64

record Escalation =
  es_from_model :: rstring
  es_from_tier :: Tier
  es_to_model :: rstring
  es_to_tier :: Tier
  es_error_code :: rstring

record AutoDecision =
  ad_requested_model :: rstring
  ad_mode :: RoutingMode
  ad_classifier :: rstring
  ad_score :: f64
  ad_raw_score :: f64
  ad_classified_tier :: Tier
  ad_boundaries :: TierBoundaries
  ad_tier :: Tier
  ad_signals :: "rstring \<rightharpoonup> f64"
  ad_features :: RequestFeatures
  ad_hard_filters :: "rstring list"
  ad_candidates :: "CandidateInfo list"
  ad_selected :: rstring
  ad_selected_provider :: "rstring option"
  ad_reason :: rstring
  ad_shadow :: bool
  ad_latency_us :: u64
  ad_escalations :: "Escalation list"
  ad_predicted_cost_usd :: "f64 option"
  ad_options :: "RoutingOptions option"
  ad_synthetic :: bool

datatype AutoRouteError = Disabled | NoCandidate Tier nat

record AutoRouter =
  ar_config :: AutoRoutingConfig
  ar_matcher :: KeywordMatcher
  ar_scorer :: HeuristicScorer
  ar_catalog :: TierCatalog

definition AutoRouter_new :: "env \<Rightarrow> AutoRoutingConfig \<Rightarrow> AutoRouter" where
  "AutoRouter_new e cfg =
     \<lparr> ar_config = cfg, ar_matcher = KeywordMatcher_new (en_unicode e) (en_regex e) (keyword_lists cfg),
       ar_scorer = HeuristicScorer_new cfg,
       ar_catalog = TierCatalog_new (tiers cfg) (within_tier cfg) \<rparr>"

definition AutoRouter_is_enabled :: "AutoRouter \<Rightarrow> bool" where
  "AutoRouter_is_enabled r = enabled (ar_config r)"

definition AutoRouter_features :: "env \<Rightarrow> AutoRouter \<Rightarrow> Request \<Rightarrow> RequestFeatures" where
  "AutoRouter_features e r req = extract_features (en_unicode e) (en_regex e) (ar_matcher r) req"

definition AutoRouter_score :: "AutoRouter \<Rightarrow> RequestFeatures \<Rightarrow> RoutingMode \<Rightarrow> ScoreResult" where
  "AutoRouter_score r f md = HeuristicScorer_score (ar_scorer r) f md"

definition effective_mode :: "AutoRouter \<Rightarrow> DecisionContext \<Rightarrow> RoutingMode" where
  "effective_mode r ctx =
     (case opt_or (Option.bind (dc_options ctx) mode) (dc_alias_mode ctx) of
        Some m \<Rightarrow> m | None \<Rightarrow> default_mode (ar_config r))"

definition effective_classifier :: "AutoRouter \<Rightarrow> DecisionContext \<Rightarrow> ClassifierKind" where
  "effective_classifier r ctx =
     (case Option.bind (dc_options ctx) classifier of
        Some c \<Rightarrow> c | None \<Rightarrow> default_classifier (ar_config r))"

subsection \<open>The wrapped oracles\<close>

definition FilteredOracle :: "eligibility \<Rightarrow> RoutingOptions option \<Rightarrow> eligibility" where
  "FilteredOracle inner options =
     inner\<lparr> is_eligible := (\<lambda>model.
       case options of
         None \<Rightarrow> is_eligible inner model
       | Some opts \<Rightarrow>
           (case permits opts (case provider_of inner model of Some p \<Rightarrow> p | None \<Rightarrow> []) model of
              None \<Rightarrow> None
            | Some False \<Rightarrow> Some False
            | Some True \<Rightarrow> is_eligible inner model)) \<rparr>"

definition BudgetOracle :: "eligibility \<Rightarrow> f64 \<Rightarrow> eligibility" where
  "BudgetOracle inner limit =
     inner\<lparr> is_eligible := (\<lambda>model.
       case predicted_cost inner model of
         Some cost \<Rightarrow> if f64_lt limit cost then Some False else is_eligible inner model
       | None \<Rightarrow> is_eligible inner model) \<rparr>"

definition ExcludingOracle :: "eligibility \<Rightarrow> rstring list \<Rightarrow> eligibility" where
  "ExcludingOracle inner exclude =
     inner\<lparr> is_eligible := (\<lambda>model.
       if model \<in> set exclude then Some False else is_eligible inner model) \<rparr>"

subsection \<open>Making a decision\<close>

text \<open>The request's bounds: an inverted pair collapses to the maximum.\<close>

definition tier_bounds :: "RoutingOptions option \<Rightarrow> Tier \<times> Tier \<times> rstring list" where
  "tier_bounds options =
     (let lo = (case Option.bind options min_tier of Some t \<Rightarrow> t | None \<Rightarrow> Simple);
          hi = (case Option.bind options max_tier of Some t \<Rightarrow> t | None \<Rightarrow> Reasoning)
      in if hi < lo
         then (hi, hi, [''min_tier '' @ Tier_as_str lo @ '' > max_tier '' @ Tier_as_str hi
                        @ '': using max_tier for both''])
         else (lo, hi, []))"

text \<open>The clamp to the bounds, then the tools floor, which may exceed the maximum.\<close>

definition clamp_tier ::
    "Tier option \<Rightarrow> RequestFeatures \<Rightarrow> Tier \<Rightarrow> Tier \<Rightarrow> Tier \<Rightarrow> Tier \<times> rstring list" where
  "clamp_tier tools_floor f lo hi tier =
     (let (tier, hf) = (if tier < lo then (lo, [''min_tier '' @ Tier_as_str lo]) else (tier, []));
          (tier, hf) = (if hi < tier then (hi, hf @ [''max_tier '' @ Tier_as_str hi]) else (tier, hf))
      in case tools_floor of
           Some fl \<Rightarrow>
             if 0 < ft_tool_count f \<and> tier < fl
             then (fl,
                   hf @ [if hi < fl
                         then ''tools present: floor '' @ Tier_as_str fl @ '' overrides max_tier ''
                              @ Tier_as_str hi
                         else ''tools present: floor '' @ Tier_as_str fl])
             else (tier, hf)
         | None \<Rightarrow> (tier, hf))"

definition has_lists :: "RoutingOptions option \<Rightarrow> bool" where
  "has_lists options \<longleftrightarrow> (case options of Some q \<Rightarrow> allow q \<noteq> [] \<or> deny q \<noteq> [] | None \<Rightarrow> False)"

definition need_filters :: "RequestFeatures \<Rightarrow> RoutingOptions option \<Rightarrow> rstring list" where
  "need_filters f options =
     (if ft_has_images f then [''needs vision''] else [])
     @ (if 0 < ft_tool_count f then [''needs tools''] else [])
     @ (if has_lists options then [''allow/deny lists''] else [])"

text \<open>The previous turn's model, when the tool loop sticks to it.\<close>

definition sticky_choice ::
    "AutoRouter \<Rightarrow> DecisionContext \<Rightarrow> eligibility \<Rightarrow> RequestFeatures \<Rightarrow> Tier \<Rightarrow> Tier \<Rightarrow>
     (rstring \<times> Tier) option panics" where
  "sticky_choice r ctx filtered f tier hi =
     (let sticky_enabled = (case Option.bind (dc_options ctx) sticky of
                              Some b \<Rightarrow> b | None \<Rightarrow> sticky_tool_loops (ar_config r))
      in if sticky_enabled \<and> ft_is_tool_loop_turn f
         then (case dc_previous_model ctx of
                 None \<Rightarrow> Some None
               | Some prev \<Rightarrow>
                   (case is_eligible filtered prev of
                      None \<Rightarrow> None
                    | Some False \<Rightarrow> Some None
                    | Some True \<Rightarrow>
                        Some (case TierCatalog_tier_of (ar_catalog r) prev of
                                Some t \<Rightarrow> if tier \<le> t \<and> t \<le> hi then Some (prev, t) else None
                              | None \<Rightarrow> None)))
         else Some None)"

definition budget_of :: "RoutingOptions option \<Rightarrow> f64 option" where
  "budget_of options =
     (case Option.bind options max_cost_usd of
        Some b \<Rightarrow> if f64_lt (f64_lit 0 1) b then Some b else None
      | None \<Rightarrow> None)"

text \<open>
  Selection under the budget: the budgeted search first, and when it finds nothing the search
  without the budget, with a note. \<open>None\<close> in the middle is no candidate at all.
\<close>

definition budgeted_select ::
    "env \<Rightarrow> TierCatalog \<Rightarrow> f64 option \<Rightarrow> Tier \<Rightarrow> Tier \<Rightarrow> Tier \<Rightarrow> eligibility \<Rightarrow>
     (TierCatalog \<times> TierSelection option \<times> rstring option) panics" where
  "budgeted_select e cat budget tier lo hi filtered =
     (case budget of
        None \<Rightarrow> map_option (\<lambda>(cat, sel). (cat, sel, None)) (select cat tier lo hi filtered (en_samp e))
      | Some limit \<Rightarrow>
          (case select cat tier lo hi (BudgetOracle filtered limit) (en_samp e) of
             None \<Rightarrow> None
           | Some (cat, Some sel) \<Rightarrow> Some (cat, Some sel, None)
           | Some (cat, None) \<Rightarrow>
               map_option (\<lambda>(cat, sel). (cat, sel,
                   Some (''no candidate within max_cost_usd '' @ fmt_fixed 5 limit @ ''; budget ignored'')))
                 (select cat tier lo hi filtered (en_samp e))))"

text \<open>The score, with the tier of another classifier in place of the heuristic one if given.\<close>

definition apply_override ::
    "ScoreResult \<Rightarrow> ClassifierOverride option \<Rightarrow> ScoreResult \<times> rstring" where
  "apply_override scored ov =
     (case ov of
        None \<Rightarrow> (scored, HEURISTIC_VERSION)
      | Some v \<Rightarrow>
          (scored\<lparr> sr_notes := sr_notes scored @
               [ov_classifier v @ '' chose '' @ Tier_as_str (ov_tier v) @ '' (confidence ''
                @ fmt_fixed 2 (ov_confidence v) @ ''); heuristic said '' @ Tier_as_str (sr_tier scored)],
             sr_signals := (sr_signals scored)(''classifier_confidence'' \<mapsto> ov_confidence v),
             sr_tier := ov_tier v \<rparr>, ov_classifier v))"

text \<open>The decision record that both exits fill in.\<close>

definition base_decision ::
    "env \<Rightarrow> AutoRouter \<Rightarrow> DecisionContext \<Rightarrow> RoutingMode \<Rightarrow> RequestFeatures \<Rightarrow> ScoreResult \<Rightarrow>
     rstring \<Rightarrow> rstring list \<Rightarrow> AutoDecision" where
  "base_decision e r ctx md f scored cls hf =
     \<lparr> ad_requested_model = dc_requested_model ctx, ad_mode = md, ad_classifier = cls,
       ad_score = sr_score scored, ad_raw_score = sr_raw_score scored,
       ad_classified_tier = sr_tier scored, ad_boundaries = boundaries (ar_config r),
       ad_tier = sr_tier scored, ad_signals = sr_signals scored, ad_features = f,
       ad_hard_filters = hf, ad_candidates = [], ad_selected = [], ad_selected_provider = None,
       ad_reason = [], ad_shadow = dc_shadow ctx, ad_latency_us = en_elapsed_us e,
       ad_escalations = [], ad_predicted_cost_usd = None, ad_options = dc_options ctx,
       ad_synthetic = False \<rparr>"

definition sticky_decision :: "eligibility \<Rightarrow> rstring \<Rightarrow> Tier \<Rightarrow> AutoDecision \<Rightarrow> AutoDecision" where
  "sticky_decision orc prev t d =
     d\<lparr> ad_tier := t,
        ad_candidates := [\<lparr> ci_model = prev, ci_provider = provider_of orc prev, ci_tier = t,
          ci_cost_per_million = blended_cost orc prev, ci_predicted_cost_usd = predicted_cost orc prev,
          ci_eligible = True \<rparr>],
        ad_selected := prev, ad_selected_provider := provider_of orc prev,
        ad_reason := ''kept previous turn'' @ apos @ ''s model inside tool loop'',
        ad_predicted_cost_usd := predicted_cost orc prev \<rparr>"

definition selected_decision ::
    "eligibility \<Rightarrow> TierSelection \<Rightarrow> rstring list \<Rightarrow> AutoDecision \<Rightarrow> AutoDecision" where
  "selected_decision filtered sel notes d =
     d\<lparr> ad_tier := sel_tier sel, ad_candidates := sel_candidates sel, ad_selected := sel_model sel,
        ad_selected_provider := sel_provider sel,
        ad_reason := sel_reason sel @ concat (map (\<lambda>n. ''; '' @ n) notes),
        ad_predicted_cost_usd := predicted_cost filtered (sel_model sel) \<rparr>"

definition decide_with_override ::
    "env \<Rightarrow> AutoRouter \<Rightarrow> Request \<Rightarrow> DecisionContext \<Rightarrow> eligibility \<Rightarrow> ClassifierOverride option \<Rightarrow>
     (AutoRouter \<times> (AutoRouteError + AutoDecision)) panics" where
  "decide_with_override e r request ctx orc override_tier =
     (if \<not> enabled (ar_config r) \<and> \<not> dc_shadow ctx then Some (r, Inl Disabled)
      else
        (let md = effective_mode r ctx;
             f = AutoRouter_features e r request;
             (scored, cls) = apply_override (AutoRouter_score r f md) override_tier;
             (lo, hi, hf0) = tier_bounds (dc_options ctx);
             (tier, hf1) = clamp_tier (tools_min_tier (ar_config r)) f lo hi (sr_tier scored);
             hf = hf0 @ hf1 @ need_filters f (dc_options ctx);
             filtered = FilteredOracle orc (dc_options ctx);
             base = base_decision e r ctx md f scored cls
         in case sticky_choice r ctx filtered f tier hi of
              None \<Rightarrow> None
            | Some (Some (prev, t)) \<Rightarrow>
                Some (r, Inr (sticky_decision orc prev t (base (hf @ [''sticky tool loop'']))))
            | Some None \<Rightarrow>
                (let budget = budget_of (dc_options ctx);
                     hf = hf @ (case budget of
                                  Some b \<Rightarrow> [''max_cost_usd '' @ fmt_fixed 5 b] | None \<Rightarrow> [])
                 in case budgeted_select e (ar_catalog r) budget tier lo hi filtered of
                      None \<Rightarrow> None
                    | Some (cat, None, _) \<Rightarrow>
                        Some (r\<lparr> ar_catalog := cat \<rparr>,
                              Inl (NoCandidate tier (length (all_models (ar_catalog r)))))
                    | Some (cat, Some sel, note) \<Rightarrow>
                        Some (r\<lparr> ar_catalog := cat \<rparr>,
                              Inr (selected_decision filtered sel
                                     (sr_notes scored @ (case note of Some n \<Rightarrow> [n] | None \<Rightarrow> []))
                                     (base hf))))))"

definition decide ::
    "env \<Rightarrow> AutoRouter \<Rightarrow> Request \<Rightarrow> DecisionContext \<Rightarrow> eligibility \<Rightarrow>
     (AutoRouter \<times> (AutoRouteError + AutoDecision)) panics" where
  "decide e r request ctx orc = decide_with_override e r request ctx orc None"

subsection \<open>Escalation\<close>

definition next_candidate ::
    "env \<Rightarrow> AutoRouter \<Rightarrow> AutoDecision \<Rightarrow> RoutingOptions option \<Rightarrow> eligibility \<Rightarrow> rstring list \<Rightarrow>
     (AutoRouter \<times> TierSelection option) panics" where
  "next_candidate e r d options orc exclude =
     (let hi = max (case Option.bind options max_tier of Some t \<Rightarrow> t | None \<Rightarrow> Reasoning) (ad_tier d);
          excluding = ExcludingOracle (FilteredOracle orc options) exclude
      in map_option (\<lambda>(cat, sel, _). (r\<lparr> ar_catalog := cat \<rparr>, sel))
           (budgeted_select e (ar_catalog r) (budget_of options) (ad_tier d) (ad_tier d) hi excluding))"

definition apply_escalation :: "AutoDecision \<Rightarrow> TierSelection \<Rightarrow> rstring \<Rightarrow> AutoDecision" where
  "apply_escalation d sel error_code =
     d\<lparr> ad_escalations := ad_escalations d @
          [\<lparr> es_from_model = ad_selected d, es_from_tier = ad_tier d, es_to_model = sel_model sel,
             es_to_tier = sel_tier sel, es_error_code = error_code \<rparr>],
        ad_reason := ad_reason d @ ''; escalated from '' @ ad_selected d @ '' after '' @ error_code
          @ '': '' @ sel_reason sel,
        ad_tier := sel_tier sel, ad_selected := sel_model sel,
        ad_selected_provider := sel_provider sel,
        ad_candidates := ad_candidates d @ sel_candidates sel \<rparr>"

subsection \<open>What the wrapped oracles answer\<close>

lemma oracle_frame [oracle_simps]:
  "provider_of (FilteredOracle i q) = provider_of i" "provider_of (BudgetOracle i l) = provider_of i"
  "provider_of (ExcludingOracle i x) = provider_of i"
  "blended_cost (FilteredOracle i q) = blended_cost i" "blended_cost (BudgetOracle i l) = blended_cost i"
  "blended_cost (ExcludingOracle i x) = blended_cost i"
  "predicted_cost (FilteredOracle i q) = predicted_cost i"
  "predicted_cost (BudgetOracle i l) = predicted_cost i"
  "predicted_cost (ExcludingOracle i x) = predicted_cost i"
  by (simp_all add: FilteredOracle_def BudgetOracle_def ExcludingOracle_def)

definition within_budget :: "eligibility \<Rightarrow> f64 \<Rightarrow> rstring \<Rightarrow> bool" where
  "within_budget orc limit m \<longleftrightarrow> (\<forall>c \<in> set_option (predicted_cost orc m). \<not> f64_lt limit c)"

lemma eligible_budget [oracle_simps]:
  "is_eligible (BudgetOracle orc l) m =
     (if within_budget orc l m then is_eligible orc m else Some False)"
  by (auto simp: BudgetOracle_def within_budget_def split: option.splits)

lemma eligible_excluding [oracle_simps]:
  "is_eligible (ExcludingOracle orc ms) m = (if m \<in> set ms then Some False else is_eligible orc m)"
  by (simp add: ExcludingOracle_def)

lemma eligible_filtered [oracle_simps]:
  "is_eligible (FilteredOracle orc q) m = Some True \<longleftrightarrow>
     (\<forall>o' \<in> set_option q. permits o' (case provider_of orc m of Some p \<Rightarrow> p | None \<Rightarrow> []) m = Some True)
     \<and> is_eligible orc m = Some True"
  by (auto simp: FilteredOracle_def split: option.splits bool.splits)

text \<open>Wrapping an oracle that answers gives one that answers.\<close>

definition permitted_by :: "RoutingOptions option \<Rightarrow> eligibility \<Rightarrow> rstring \<Rightarrow> bool" where
  "permitted_by options orc m \<longleftrightarrow>
     (case options of None \<Rightarrow> True
      | Some q \<Rightarrow> permits_spec q (case provider_of orc m of Some p \<Rightarrow> p | None \<Rightarrow> []) m)"

lemma answering_filtered:
  assumes "answering orc ok" "\<forall>q \<in> set_option options. simple_options q"
  shows "answering (FilteredOracle orc options) (\<lambda>m. permitted_by options orc m \<and> ok m)"
  using assms
  by unfold_locales
    (auto simp: FilteredOracle_def permitted_by_def permits_eq_spec answering.answers
      split: option.splits bool.splits)

lemma answering_budget:
  "answering orc ok \<Longrightarrow> answering (BudgetOracle orc l) (\<lambda>m. within_budget orc l m \<and> ok m)"
  by unfold_locales (auto simp: eligible_budget answering.answers)

lemma answering_excluding:
  "answering orc ok \<Longrightarrow> answering (ExcludingOracle orc ms) (\<lambda>m. m \<notin> set ms \<and> ok m)"
  by unfold_locales (auto simp: eligible_excluding answering.answers)

subsection \<open>Clamping\<close>

lemma tier_bounds_ordered: "tier_bounds options = (lo, hi, hf) \<Longrightarrow> lo \<le> hi"
  by (auto simp: tier_bounds_def Let_def not_less split: if_splits)

lemma tier_bounds_max:
  "tier_bounds options = (lo, hi, hf) \<Longrightarrow> hi = (case Option.bind options max_tier of Some t \<Rightarrow> t | None \<Rightarrow> Reasoning)"
  by (auto simp: tier_bounds_def Let_def split: if_splits)

lemma clamp_tier_bounds:
  assumes "clamp_tier fl f lo hi tier = (t, hf)" "lo \<le> hi"
  shows "lo \<le> t \<and> (t \<le> hi \<or> 0 < ft_tool_count f \<and> fl = Some t)"
    and "0 < ft_tool_count f \<Longrightarrow> fl = Some x \<Longrightarrow> x \<le> t"
    and "lo \<le> tier \<Longrightarrow> tier \<le> hi \<Longrightarrow> ft_tool_count f = 0 \<Longrightarrow> t = tier"
  using assms by (auto simp: clamp_tier_def Let_def split: if_splits option.splits)

subsection \<open>The budgeted search\<close>

text \<open>A result comes from the budgeted search, or from the plain one after the former failed.\<close>

lemma budgeted_select_cases:
  assumes "budgeted_select e cat b tier lo hi orc = Some (cat', r, note)"
  obtains (plain) c where "cat_tiers c = cat_tiers cat"
      "select c tier lo hi orc (en_samp e) = Some (cat', r)"
      "\<And>l. b = Some l \<Longrightarrow> note \<noteq> None
        \<and> (\<forall>t \<in> set (search_order tier lo hi). \<not> tier_has cat (BudgetOracle orc l) t)"
  | (fits) l sel where "b = Some l" "note = None" "r = Some sel"
      "select cat tier lo hi (BudgetOracle orc l) (en_samp e) = Some (cat', Some sel)"
proof (cases b)
  case None
  with assms show ?thesis by (intro plain [of cat]) (auto simp: budgeted_select_def)
next
  case (Some l)
  from assms Some obtain c1 r1 where s1: "select cat tier lo hi (BudgetOracle orc l) (en_samp e) = Some (c1, r1)"
    by (auto simp: budgeted_select_def split: option.splits)
  show ?thesis
  proof (cases r1)
    case None
    have "\<forall>t \<in> set (search_order tier lo hi). \<not> tier_has cat (BudgetOracle orc l) t"
      using select_sound(2) [OF s1] None by simp
    moreover have "select c1 tier lo hi orc (en_samp e) = Some (cat', r)" "note \<noteq> None"
      using assms Some s1 None by (auto simp: budgeted_select_def)
    ultimately show ?thesis using select_sound(1) [OF s1] Some by (intro plain [of c1]) auto
  next
    case (Some sel)
    with assms \<open>b = Some l\<close> s1 show ?thesis
      by (intro fits [of l sel]) (auto simp: budgeted_select_def)
  qed
qed

lemma tier_has_budget: "tier_has cat (BudgetOracle orc l) t \<Longrightarrow> tier_has cat orc t"
  by (auto simp: tier_has_def eligible_budget split: if_splits)

lemma budgeted_select_tiers:
  assumes "budgeted_select e cat b tier lo hi orc = Some (cat', r, note)"
  shows "cat_tiers cat' = cat_tiers cat"
  using assms by (cases rule: budgeted_select_cases) (auto dest: select_sound(1))

lemma budgeted_select_None:
  assumes "budgeted_select e cat b tier lo hi orc = Some (cat', r, note)"
  shows "r = None \<longleftrightarrow> (\<forall>t \<in> set (search_order tier lo hi). \<not> tier_has cat orc t)"
  using assms
proof (cases rule: budgeted_select_cases)
  case (plain c)
  then show ?thesis using select_sound(2) tier_has_cong by metis
next
  case (fits l sel)
  with select_sound(2) [OF fits(4)] show ?thesis by (auto dest: tier_has_budget)
qed

lemma budgeted_select_sel:
  assumes "budgeted_select e cat b tier lo hi orc = Some (cat', Some sel, note)"
  shows "sel_model sel \<in> set (TierModels_get (cat_tiers cat) (sel_tier sel))"
    and "is_eligible orc (sel_model sel) = Some True"
    and "sel_provider sel = provider_of orc (sel_model sel)"
    and "sel_tier sel \<in> set (search_order tier lo hi)"
  using assms
  by (cases rule: budgeted_select_cases;
      auto dest!: select_sound(3) [OF _ refl] simp: eligible_budget oracle_frame split: if_splits)+

lemma budgeted_select_budget:
  assumes "budgeted_select e cat (Some l) tier lo hi orc = Some (cat', Some sel, note)"
  shows "if note = None then within_budget orc l (sel_model sel)
     else (\<forall>t \<in> set (search_order tier lo hi). \<not> tier_has cat (BudgetOracle orc l) t)"
  using assms
  by (cases rule: budgeted_select_cases)
    (auto dest!: select_sound(3) [OF _ refl] simp: eligible_budget split: if_splits)

text \<open>Oracles that answer never make the search panic.\<close>

lemma budgeted_select_total:
  assumes "answering orc ok"
  shows "\<exists>x. budgeted_select e cat b tier lo hi orc = Some x"
proof (cases b)
  case None
  from answering.select_total [OF assms] show ?thesis
    by (fastforce simp: budgeted_select_def None)
next
  case (Some l)
  from answering.select_total [OF answering_budget [OF assms]] obtain c1 r1 where
    "select cat tier lo hi (BudgetOracle orc l) (en_samp e) = Some (c1, r1)" by blast
  moreover obtain c2 r2 where "select c1 tier lo hi orc (en_samp e) = Some (c2, r2)"
    using answering.select_total [OF assms] by blast
  ultimately show ?thesis by (cases r1) (auto simp: budgeted_select_def Some)
qed

subsection \<open>Decisions\<close>

text \<open>The two exits of a successful decision, and the one of a failed search.\<close>

lemma decide_Inr:
  assumes "decide_with_override e r req ctx orc ov = Some (r', Inr d)"
  obtains lo hi hf0 tier hf1 where
    "tier_bounds (dc_options ctx) = (lo, hi, hf0)"
    "clamp_tier (tools_min_tier (ar_config r)) (ad_features d) lo hi (ad_classified_tier d) = (tier, hf1)"
    "ad_features d = AutoRouter_features e r req"
    "(\<exists>prev t. sticky_choice r ctx (FilteredOracle orc (dc_options ctx)) (ad_features d) tier hi = Some (Some (prev, t))
        \<and> r' = r \<and> ad_selected d = prev \<and> ad_tier d = t \<and> ad_selected_provider d = provider_of orc prev)
     \<or> (\<exists>cat sel nt. sticky_choice r ctx (FilteredOracle orc (dc_options ctx)) (ad_features d) tier hi = Some None
        \<and> budgeted_select e (ar_catalog r) (budget_of (dc_options ctx)) tier lo hi
            (FilteredOracle orc (dc_options ctx)) = Some (cat, Some sel, nt)
        \<and> r' = r\<lparr> ar_catalog := cat \<rparr> \<and> ad_selected d = sel_model sel \<and> ad_tier d = sel_tier sel
        \<and> ad_selected_provider d = sel_provider sel \<and> ad_candidates d = sel_candidates sel)"
proof -
  obtain scored cls where ov: "apply_override (AutoRouter_score r (AutoRouter_features e r req)
      (effective_mode r ctx)) ov = (scored, cls)" by fastforce
  obtain lo hi hf0 where tb: "tier_bounds (dc_options ctx) = (lo, hi, hf0)" by (metis prod_cases3)
  obtain tier hf1 where ct: "clamp_tier (tools_min_tier (ar_config r)) (AutoRouter_features e r req)
      lo hi (sr_tier scored) = (tier, hf1)" by fastforce
  have "ad_features d = AutoRouter_features e r req \<and> ad_classified_tier d = sr_tier scored"
    using assms
    by (auto simp: decide_with_override_def Let_def ov tb ct sticky_decision_def selected_decision_def
        base_decision_def split: if_splits option.splits)
  with tb ct show ?thesis
    using assms
    by (intro that [of lo hi hf0 tier hf1])
      (auto simp: decide_with_override_def Let_def ov sticky_decision_def selected_decision_def
        split: if_splits option.splits)
qed

lemma decide_NoCandidate:
  assumes "decide_with_override e r req ctx orc ov = Some (r', Inl (NoCandidate tier n))"
  obtains lo hi hf0 cat nt where
    "tier_bounds (dc_options ctx) = (lo, hi, hf0)"
    "budgeted_select e (ar_catalog r) (budget_of (dc_options ctx)) tier lo hi
       (FilteredOracle orc (dc_options ctx)) = Some (cat, None, nt)"
    "n = length (all_models (ar_catalog r))"
proof -
  obtain scored cls where ov: "apply_override (AutoRouter_score r (AutoRouter_features e r req)
      (effective_mode r ctx)) ov = (scored, cls)" by fastforce
  obtain lo hi hf0 where tb: "tier_bounds (dc_options ctx) = (lo, hi, hf0)" by (metis prod_cases3)
  obtain tr hf1 where ct: "clamp_tier (tools_min_tier (ar_config r)) (AutoRouter_features e r req)
      lo hi (sr_tier scored) = (tr, hf1)" by fastforce
  have "(\<exists>cat nt. budgeted_select e (ar_catalog r) (budget_of (dc_options ctx)) tier lo hi
       (FilteredOracle orc (dc_options ctx)) = Some (cat, None, nt)) \<and> n = length (all_models (ar_catalog r))"
    using assms tb
    by (auto simp: decide_with_override_def Let_def ov ct split: if_splits option.splits)
  with tb that show ?thesis by blast
qed

lemma decide_Disabled:
  "decide_with_override e r req ctx orc ov = Some (r', Inl Disabled) \<Longrightarrow>
     \<not> enabled (ar_config r) \<and> \<not> dc_shadow ctx"
  by (auto simp: decide_with_override_def Let_def split: if_splits option.splits prod.splits)

lemma sticky_choice_Some:
  assumes "sticky_choice r ctx orc f tier hi = Some (Some (prev, t))"
  shows "is_eligible orc prev = Some True" "TierCatalog_tier_of (ar_catalog r) prev = Some t"
    "tier \<le> t" "t \<le> hi" "ft_is_tool_loop_turn f" "dc_previous_model ctx = Some prev"
  using assms
  by (auto simp: sticky_choice_def Let_def split: if_splits option.splits bool.splits)

text \<open>A decision selects a model of its tier that the oracle and the request's lists accept.\<close>

lemma decide_eligible:
  assumes "decide_with_override e r req ctx orc ov = Some (r', Inr d)"
  shows "ad_selected d \<in> set (TierModels_get (cat_tiers (ar_catalog r)) (ad_tier d))"
    and "is_eligible (FilteredOracle orc (dc_options ctx)) (ad_selected d) = Some True"
    and "ad_selected_provider d = provider_of orc (ad_selected d)"
proof -
  let ?F = "FilteredOracle orc (dc_options ctx)"
  from assms obtain tier lo hi where
    "(\<exists>prev t. sticky_choice r ctx ?F (ad_features d) tier hi = Some (Some (prev, t))
          \<and> ad_selected d = prev \<and> ad_tier d = t \<and> ad_selected_provider d = provider_of orc prev)
       \<or> (\<exists>cat sel nt. budgeted_select e (ar_catalog r) (budget_of (dc_options ctx)) tier lo hi ?F = Some (cat, Some sel, nt)
          \<and> ad_selected d = sel_model sel \<and> ad_tier d = sel_tier sel \<and> ad_selected_provider d = sel_provider sel)"
    by (elim decide_Inr) blast
  then have "ad_selected d \<in> set (TierModels_get (cat_tiers (ar_catalog r)) (ad_tier d))
      \<and> is_eligible ?F (ad_selected d) = Some True \<and> ad_selected_provider d = provider_of orc (ad_selected d)"
  proof (elim disjE exE conjE)
    fix prev t assume "sticky_choice r ctx ?F (ad_features d) tier hi = Some (Some (prev, t))"
      "ad_selected d = prev" "ad_tier d = t" "ad_selected_provider d = provider_of orc prev"
    then show ?thesis
      using sticky_choice_Some(1,2) by (metis TierCatalog_tier_of_def tier_of_listed)
  next
    fix cat sel nt assume "budgeted_select e (ar_catalog r) (budget_of (dc_options ctx)) tier lo hi ?F = Some (cat, Some sel, nt)"
      "ad_selected d = sel_model sel" "ad_tier d = sel_tier sel" "ad_selected_provider d = sel_provider sel"
    then show ?thesis
      using budgeted_select_sel(1-3) by (metis oracle_frame(1))
  qed
  then show "ad_selected d \<in> set (TierModels_get (cat_tiers (ar_catalog r)) (ad_tier d))"
    "is_eligible ?F (ad_selected d) = Some True"
    "ad_selected_provider d = provider_of orc (ad_selected d)" by blast+
qed

text \<open>The tier of a decision respects the bounds; only the tools floor exceeds the maximum.\<close>

lemma decide_tier_bounds:
  assumes "decide_with_override e r req ctx orc ov = Some (r', Inr d)"
    and "tier_bounds (dc_options ctx) = (lo, hi, hf)"
  shows "lo \<le> ad_tier d"
    and "ad_tier d \<le> hi \<or> 0 < ft_tool_count (ad_features d)
      \<and> (\<exists>fl. tools_min_tier (ar_config r) = Some fl \<and> hi < fl \<and> ad_tier d \<le> fl)"
proof -
  from assms obtain tier hf1 where
    c: "clamp_tier (tools_min_tier (ar_config r)) (ad_features d) lo hi (ad_classified_tier d) = (tier, hf1)"
    and x: "(\<exists>prev t. sticky_choice r ctx (FilteredOracle orc (dc_options ctx)) (ad_features d) tier hi = Some (Some (prev, t))
          \<and> ad_tier d = t)
       \<or> (\<exists>cat sel nt. budgeted_select e (ar_catalog r) (budget_of (dc_options ctx)) tier lo hi
            (FilteredOracle orc (dc_options ctx)) = Some (cat, Some sel, nt) \<and> ad_tier d = sel_tier sel)"
    by (elim decide_Inr) fastforce
  note b = clamp_tier_bounds(1) [OF c tier_bounds_ordered [OF assms(2)]]
  from x have r: "ad_tier d = tier \<or> tier < ad_tier d \<and> ad_tier d \<le> hi \<or> ad_tier d < tier \<and> lo \<le> ad_tier d
      \<or> tier \<le> ad_tier d \<and> ad_tier d \<le> hi"
    by (auto dest: sticky_choice_Some(3,4) budgeted_select_sel(4) simp: set_search_order)
  from b r show "lo \<le> ad_tier d" by auto
  from b r show "ad_tier d \<le> hi \<or> 0 < ft_tool_count (ad_features d)
      \<and> (\<exists>fl. tools_min_tier (ar_config r) = Some fl \<and> hi < fl \<and> ad_tier d \<le> fl)"
    by (metis linorder_not_less order_less_imp_le order_refl order_trans)
qed

text \<open>The search fails exactly when no tier it may use has an acceptable model.\<close>

lemma decide_NoCandidate_none:
  assumes "decide_with_override e r req ctx orc ov = Some (r', Inl (NoCandidate tier n))"
    and "tier_bounds (dc_options ctx) = (lo, hi, hf)" "t = tier \<or> lo \<le> t \<and> t \<le> hi"
    and "m \<in> set (TierModels_get (cat_tiers (ar_catalog r)) t)"
  shows "is_eligible (FilteredOracle orc (dc_options ctx)) m \<noteq> Some True"
proof -
  from assms(1,2) obtain cat nt where
    "budgeted_select e (ar_catalog r) (budget_of (dc_options ctx)) tier lo hi
       (FilteredOracle orc (dc_options ctx)) = Some (cat, None, nt)"
    by (elim decide_NoCandidate) auto
  from budgeted_select_None [OF this]
  have "\<forall>t \<in> set (search_order tier lo hi). \<not> tier_has (ar_catalog r) (FilteredOracle orc (dc_options ctx)) t"
    by simp
  moreover have "t \<in> set (search_order tier lo hi)"
    using assms(3) by (auto simp: set_search_order)
  ultimately show ?thesis using assms(4) by (auto simp: tier_has_def)
qed

text \<open>With an oracle that answers and single-star patterns, a decision always comes out.\<close>

lemma decide_total:
  assumes "answering orc ok" "\<forall>q \<in> set_option (dc_options ctx). simple_options q"
  shows "\<exists>r' x. decide_with_override e r req ctx orc ov = Some (r', x)"
proof -
  note A = answering_filtered [OF assms]
  obtain scored cls where ov: "apply_override (AutoRouter_score r (AutoRouter_features e r req)
      (effective_mode r ctx)) ov = (scored, cls)" by fastforce
  obtain lo hi hf0 where tb: "tier_bounds (dc_options ctx) = (lo, hi, hf0)" by (metis prod_cases3)
  obtain tr hf1 where ct: "clamp_tier (tools_min_tier (ar_config r)) (AutoRouter_features e r req)
      lo hi (sr_tier scored) = (tr, hf1)" by fastforce
  have "\<exists>s. sticky_choice r ctx (FilteredOracle orc (dc_options ctx)) (AutoRouter_features e r req) tr hi = Some s"
    using answering.answers [OF A]
    by (auto simp: sticky_choice_def Let_def split: option.splits bool.splits)
  moreover obtain cat sel nt where
    "budgeted_select e (ar_catalog r) (budget_of (dc_options ctx)) tr lo hi
       (FilteredOracle orc (dc_options ctx)) = Some (cat, sel, nt)"
    using budgeted_select_total [OF A] by (metis prod_cases3)
  ultimately show ?thesis
    by (cases sel) (auto simp: decide_with_override_def Let_def ov tb ct split: option.splits)
qed

text \<open>A budget is kept unless no acceptable model of the searched tiers fits it.\<close>

lemma decide_budget:
  assumes "decide_with_override e r req ctx orc ov = Some (r', Inr d)"
    and "budget_of (dc_options ctx) = Some l" "\<not> ft_is_tool_loop_turn (ad_features d)"
    and "tier_bounds (dc_options ctx) = (lo, hi, hf)" "lo \<le> t" "t \<le> hi"
    and "m \<in> set (TierModels_get (cat_tiers (ar_catalog r)) t)"
    and "is_eligible (FilteredOracle orc (dc_options ctx)) m = Some True" "within_budget orc l m"
  shows "within_budget orc l (ad_selected d)"
proof -
  let ?F = "FilteredOracle orc (dc_options ctx)"
  have wb: "within_budget ?F l = within_budget orc l"
    by (simp add: within_budget_def fun_eq_iff oracle_frame)
  from assms(1,2,4) obtain tier hf1 where
    x: "(\<exists>prev t. sticky_choice r ctx ?F (ad_features d) tier hi = Some (Some (prev, t)))
       \<or> (\<exists>cat sel nt. budgeted_select e (ar_catalog r) (Some l) tier lo hi ?F = Some (cat, Some sel, nt)
            \<and> ad_selected d = sel_model sel)"
    by (elim decide_Inr) fastforce
  then obtain cat sel nt where
    s: "budgeted_select e (ar_catalog r) (Some l) tier lo hi ?F = Some (cat, Some sel, nt)"
    "ad_selected d = sel_model sel"
    using assms(3) by (auto dest: sticky_choice_Some(5))
  have "t \<in> set (search_order tier lo hi)" using assms(5,6) by (auto simp: set_search_order)
  moreover have "tier_has (ar_catalog r) (BudgetOracle ?F l) t"
    using assms(7-9) by (auto simp: tier_has_def eligible_budget wb)
  ultimately show ?thesis
    using budgeted_select_budget [OF s(1)] s(2) by (auto simp: wb split: if_splits)
qed

text \<open>An eligible model of the clamped tier keeps the search in that tier.\<close>

lemma decide_stays:
  assumes "decide_with_override e r req ctx orc ov = Some (r', Inr d)"
    and "tier_bounds (dc_options ctx) = (lo, hi, hf)"
    and "clamp_tier (tools_min_tier (ar_config r)) (ad_features d) lo hi (ad_classified_tier d) = (tier, hf1)"
    and "\<not> ft_is_tool_loop_turn (ad_features d)" "budget_of (dc_options ctx) = None"
    and "tier_has (ar_catalog r) (FilteredOracle orc (dc_options ctx)) tier"
  shows "ad_tier d = tier"
proof -
  from assms(1-3) obtain cat sel nt where
    x: "(\<exists>prev t. sticky_choice r ctx (FilteredOracle orc (dc_options ctx)) (ad_features d) tier hi = Some (Some (prev, t)))
       \<or> budgeted_select e (ar_catalog r) (budget_of (dc_options ctx)) tier lo hi
            (FilteredOracle orc (dc_options ctx)) = Some (cat, Some sel, nt) \<and> ad_tier d = sel_tier sel"
    by (elim decide_Inr) fastforce
  then have "select (ar_catalog r) tier lo hi (FilteredOracle orc (dc_options ctx)) (en_samp e) = Some (cat, Some sel)"
    "ad_tier d = sel_tier sel"
    using assms(4,5) by (auto dest: sticky_choice_Some(5) simp: budgeted_select_def)
  with select_sound(3) [of "ar_catalog r" tier lo hi _ _ cat "Some sel" sel] assms(6) show ?thesis by auto
qed

end
