(* ===== verification/Learned.thy ===== *)
theory Learned
  imports Scorer
begin

text \<open>
  The two trained models (\<open>learned.rs\<close> and \<open>cost_model.rs\<close> under
  \<open>aura-core/src/router/auto/\<close>): their validation, the feature vector, the multinomial
  classifier and the prediction of a request's cost. Indexing out of range panics; the
  exponential and the logarithm of the platform are arguments. A hash map is the association
  list of its entries in iteration order.

  The lemmas show that a validated model never indexes out of range and that what it predicts
  stays in bounds.
\<close>

record math =
  m_ln :: "f64 \<Rightarrow> f64"
  m_exp :: "f64 \<Rightarrow> f64"
  m_exp_m1 :: "f64 \<Rightarrow> f64"

fun is_finite :: "f64 \<Rightarrow> bool" where
  "is_finite (Fin _) = True"
| "is_finite _ = False"

subsection \<open>The feature vector\<close>

definition FEATURE_NAMES :: "rstring list" where
  "FEATURE_NAMES =
     [''log_input_tokens'', ''log_last_user_tokens'', ''input_items'', ''user_messages'',
      ''function_call_outputs'', ''is_continuation'', ''is_tool_loop_turn'', ''tool_count'',
      ''tool_required'', ''has_images'', ''log_max_output_tokens'', ''code'', ''code_matches'',
      ''reasoning'', ''reasoning_matches'', ''technical'', ''technical_matches'', ''simple'',
      ''simple_matches'', ''multi_step'', ''question_marks'', ''intent_quick'', ''intent_deep'',
      ''non_ascii_ratio'']"

definition f64_of_bool :: "bool \<Rightarrow> f64" where
  "f64_of_bool b = (if b then f64_lit 1 1 else f64_lit 0 1)"

definition ln1p :: "math \<Rightarrow> u32 \<Rightarrow> f64" where
  "ln1p M x = m_ln M (f64_add (f64_of_u32 x) (f64_lit 1 1))"

definition capped :: "u32 \<Rightarrow> f64" where
  "capped n = f64_of_u32 (min n 50)"

definition featurize :: "math \<Rightarrow> RequestFeatures \<Rightarrow> f64 list" where
  "featurize M f =
     [ln1p M (ft_est_input_tokens f), ln1p M (ft_est_last_user_tokens f),
      capped (ft_input_items f), capped (ft_user_messages f), capped (ft_function_call_outputs f),
      f64_of_bool (ft_is_continuation f), f64_of_bool (ft_is_tool_loop_turn f),
      capped (ft_tool_count f), f64_of_bool (ft_tool_required f), f64_of_bool (ft_has_images f),
      ln1p M (case ft_max_output_tokens f of Some n \<Rightarrow> n | None \<Rightarrow> 0),
      ft_code f, capped (ft_code_matches f), ft_reasoning f, capped (ft_reasoning_matches f),
      ft_technical f, capped (ft_technical_matches f), ft_simple f, capped (ft_simple_matches f),
      ft_multi_step f, capped (ft_question_marks f),
      f64_of_bool (ft_explicit_intent f = Some Quick), f64_of_bool (ft_explicit_intent f = Some Deep),
      ft_non_ascii_ratio f]"

lemma length_featurize [simp]: "length (featurize M f) = length FEATURE_NAMES"
  by (simp add: featurize_def FEATURE_NAMES_def)

text \<open>The loop \<open>z += coef[j] * ((x - mean[j]) / scale[j])\<close>.\<close>

fun dot_std :: "f64 list \<Rightarrow> f64 list \<Rightarrow> f64 list \<Rightarrow> f64 list \<Rightarrow> f64 \<Rightarrow> f64 panics" where
  "dot_std [] _ _ _ z = Some z"
| "dot_std (x # xs) (c # cs) (m # ms) (s # ss) z =
     dot_std xs cs ms ss (f64_add z (f64_mul c (f64_div (f64_sub x m) s)))"
| "dot_std (x # xs) _ _ _ z = None"

lemma dot_std_total:
  "length cs = length xs \<Longrightarrow> length ms = length xs \<Longrightarrow> length ss = length xs \<Longrightarrow>
     \<exists>z'. dot_std xs cs ms ss z = Some z'"
proof (induction xs arbitrary: cs ms ss z)
  case (Cons x xs)
  then obtain c cs' m ms' s ss' where "cs = c # cs'" "ms = m # ms'" "ss = s # ss'"
    by (metis length_Suc_conv)
  with Cons show ?case by simp
qed simp

subsection \<open>The classifier\<close>

record LearnedModel =
  lm_name :: rstring
  lm_version :: rstring
  lm_feature_names :: "rstring list"
  lm_mean :: "f64 list"
  lm_scale :: "f64 list"
  lm_classes :: "Tier list"
  lm_coef :: "f64 list list"
  lm_intercept :: "f64 list"
  lm_boundaries :: "TierBoundaries option"
  lm_metrics :: json

datatype LearnedModelError = LM_FeatureMismatch | LM_ClassMismatch | LM_Shape | LM_Scale

record LearnedPrediction =
  lp_probs :: "f64 list"
  lp_score :: f64
  lp_argmax :: Tier

definition LearnedModel_validate :: "LearnedModel \<Rightarrow> LearnedModelError + unit" where
  "LearnedModel_validate m =
     (let f = length FEATURE_NAMES
      in if length (lm_feature_names m) \<noteq> f
            \<or> (\<exists>(a, b) \<in> set (zip (lm_feature_names m) FEATURE_NAMES). a \<noteq> b)
         then Inl LM_FeatureMismatch
         else if lm_classes m \<noteq> Tier_ALL then Inl LM_ClassMismatch
         else if length (lm_mean m) \<noteq> f \<or> length (lm_scale m) \<noteq> f \<or> length (lm_coef m) \<noteq> 4
            \<or> (\<exists>row \<in> set (lm_coef m). length row \<noteq> f) \<or> length (lm_intercept m) \<noteq> 4
         then Inl LM_Shape
         else if (\<exists>s \<in> set (lm_scale m). f64_le s (f64_lit 0 1) \<or> \<not> is_finite s) then Inl LM_Scale
         else if (\<exists>v \<in> set (concat (lm_coef m)). \<not> is_finite v)
            \<or> (\<exists>v \<in> set (lm_intercept m). \<not> is_finite v) \<or> (\<exists>v \<in> set (lm_mean m). \<not> is_finite v)
         then Inl LM_Shape
         else Inr ())"

text \<open>The logits of the classes \<open>0\<close> to \<open>3\<close>; row and intercept are indexed.\<close>

fun logits :: "LearnedModel \<Rightarrow> f64 list \<Rightarrow> nat list \<Rightarrow> f64 list panics" where
  "logits m x [] = Some []"
| "logits m x (c # cs) =
     (if c < length (lm_intercept m) \<and> c < length (lm_coef m)
      then (case dot_std x (lm_coef m ! c) (lm_mean m) (lm_scale m) (lm_intercept m ! c) of
              None \<Rightarrow> None
            | Some z \<Rightarrow> map_option ((#) z) (logits m x cs))
      else None)"

definition softmax :: "math \<Rightarrow> f64 list \<Rightarrow> f64 list" where
  "softmax M ls =
     (let mx = fold (\<lambda>l acc. f64_max acc l) ls NInf;
          es = map (\<lambda>l. m_exp M (f64_sub l mx)) ls;
          sum = foldl f64_add (f64_lit 0 1) es
      in map (\<lambda>p. f64_div p sum) es)"

definition expected_score :: "f64 list \<Rightarrow> f64" where
  "expected_score probs =
     f64_clamp
       (foldl f64_add (f64_lit 0 1)
         (map (\<lambda>(i, p). f64_div (f64_mul p (f64_of_nat i)) (f64_lit 3 1)) (enumerate 0 probs)))
       (f64_lit 0 1) (f64_lit 1 1)"

definition argmax_tier :: "f64 list \<Rightarrow> Tier" where
  "argmax_tier probs =
     (case max_by (\<lambda>a b. f64_cmp (snd a) (snd b)) (enumerate 0 probs) of
        Some (i, _) \<Rightarrow> Tier_ALL ! i | None \<Rightarrow> Medium)"

definition LearnedModel_predict :: "math \<Rightarrow> LearnedModel \<Rightarrow> RequestFeatures \<Rightarrow> LearnedPrediction panics" where
  "LearnedModel_predict M m f =
     map_option (\<lambda>ls. let probs = softmax M ls
         in \<lparr> lp_probs = probs, lp_score = expected_score probs, lp_argmax = argmax_tier probs \<rparr>)
       (logits m (featurize M f) [0..<4])"

definition tier_index :: "Tier \<Rightarrow> nat" where
  "tier_index t = (case List.extract ((=) t) Tier_ALL of Some (before, _, _) \<Rightarrow> length before | None \<Rightarrow> 1)"

definition LearnedModel_classify ::
    "math \<Rightarrow> LearnedModel \<Rightarrow> RequestFeatures \<Rightarrow> RoutingMode \<Rightarrow> TierBoundaries \<Rightarrow> ModeOffsets \<Rightarrow>
     (Tier \<times> f64 \<times> f64) panics" where
  "LearnedModel_classify M m f md fallback offs =
     map_option (\<lambda>pred.
         let b = (case lm_boundaries m of Some b \<Rightarrow> b | None \<Rightarrow> fallback);
             score = f64_clamp (f64_add (lp_score pred) (for_mode offs md)) (f64_lit 0 1) (f64_lit 1 1);
             tier = tier_for b score
         in (tier, score, lp_probs pred ! tier_index tier))
       (LearnedModel_predict M m f)"

definition classifier_label :: "LearnedModel \<Rightarrow> rstring" where
  "classifier_label m = ''learned@'' @ lm_version m"

subsection \<open>The cost model\<close>

definition COST_MODEL_KIND :: rstring where
  "COST_MODEL_KIND = ''cost_lr''"

record CostHead =
  ch_coef :: "f64 list"
  ch_intercept :: f64
  ch_rows :: u64

record SnapshotPrice =
  snap_input_per_million :: f64
  snap_output_per_million :: f64

record CostModel =
  cm_kind :: rstring
  cm_name :: rstring
  cm_version :: rstring
  cm_feature_names :: "rstring list"
  cm_mean :: "f64 list"
  cm_scale :: "f64 list"
  cm_heads :: "(rstring \<times> CostHead) list"
  cm_global :: CostHead
  cm_prices :: "(rstring \<times> SnapshotPrice) list"
  cm_metrics :: json

datatype CostModelError = CM_Kind | CM_FeatureMismatch | CM_Shape rstring | CM_Scale

record CostPrediction =
  cp_output_tokens :: f64
  cp_cost_usd :: f64
  cp_model_specific :: bool

definition head_finite :: "CostHead \<Rightarrow> bool" where
  "head_finite h \<longleftrightarrow> is_finite (ch_intercept h) \<and> (\<forall>v \<in> set (ch_coef h). is_finite v)"

definition CostModel_validate :: "CostModel \<Rightarrow> CostModelError + unit" where
  "CostModel_validate m =
     (let f = length FEATURE_NAMES
      in if cm_kind m \<noteq> COST_MODEL_KIND then Inl CM_Kind
         else if length (cm_feature_names m) \<noteq> f
            \<or> (\<exists>(a, b) \<in> set (zip (cm_feature_names m) FEATURE_NAMES). a \<noteq> b)
         then Inl CM_FeatureMismatch
         else if length (cm_mean m) \<noteq> f \<or> length (cm_scale m) \<noteq> f
         then Inl (CM_Shape ''standardisation'')
         else if (\<exists>s \<in> set (cm_scale m). f64_le s (f64_lit 0 1) \<or> \<not> is_finite s) then Inl CM_Scale
         else if (\<exists>v \<in> set (cm_mean m). \<not> is_finite v) then Inl (CM_Shape ''standardisation'')
         else if \<not> head_finite (cm_global m) then Inl (CM_Shape ''global'')
         else (case find (\<lambda>(_, h). \<not> head_finite h) (cm_heads m) of
                 Some (name, _) \<Rightarrow> Inl (CM_Shape name)
               | None \<Rightarrow>
                   if length (ch_coef (cm_global m)) \<noteq> f then Inl (CM_Shape ''global'')
                   else (case find (\<lambda>(_, h). length (ch_coef h) \<noteq> f) (cm_heads m) of
                           Some (name, _) \<Rightarrow> Inl (CM_Shape name)
                         | None \<Rightarrow> Inr ())))"

definition CostModel_label :: "CostModel \<Rightarrow> rstring" where
  "CostModel_label m = ''cost@'' @ cm_version m"

definition MAX_PREDICTED_OUTPUT_TOKENS :: f64 where
  "MAX_PREDICTED_OUTPUT_TOKENS = f64_lit 200000 1"

definition predict_output_tokens :: "math \<Rightarrow> CostModel \<Rightarrow> RequestFeatures \<Rightarrow> rstring \<Rightarrow> (f64 \<times> bool) panics" where
  "predict_output_tokens M m f model =
     (let (head, specific) = (case map_of (cm_heads m) model of
                                Some h \<Rightarrow> (h, True) | None \<Rightarrow> (cm_global m, False))
      in map_option (\<lambda>z. (f64_clamp (m_exp_m1 M z) (f64_lit 1 1) MAX_PREDICTED_OUTPUT_TOKENS, specific))
           (dot_std (featurize M f) (ch_coef head) (cm_mean m) (cm_scale m) (ch_intercept head)))"

text \<open>The outer option is the panic, the inner one an unpriced model.\<close>

definition predict_cost ::
    "math \<Rightarrow> CostModel \<Rightarrow> RequestFeatures \<Rightarrow> rstring \<Rightarrow> (f64 \<times> f64) option \<Rightarrow>
     CostPrediction option panics" where
  "predict_cost M m f model catalog_prices =
     (case opt_or catalog_prices
             (map_option (\<lambda>p. (snap_input_per_million p, snap_output_per_million p)) (map_of (cm_prices m) model)) of
        None \<Rightarrow> Some None
      | Some (inp, out) \<Rightarrow>
          map_option (\<lambda>(toks, specific).
              Some \<lparr> cp_output_tokens = toks,
                     cp_cost_usd = f64_div (f64_add (f64_mul (f64_of_u32 (ft_est_input_tokens f)) inp)
                                                    (f64_mul toks out)) (f64_lit 1000000 1),
                     cp_model_specific = specific \<rparr>)
            (predict_output_tokens M m f model))"

subsection \<open>Validated models do not panic\<close>

lemma LearnedModel_validate_shape:
  assumes "LearnedModel_validate m = Inr ()"
  shows "length (lm_mean m) = length FEATURE_NAMES" "length (lm_scale m) = length FEATURE_NAMES"
    "length (lm_coef m) = 4" "length (lm_intercept m) = 4"
    "row \<in> set (lm_coef m) \<Longrightarrow> length row = length FEATURE_NAMES" "lm_classes m = Tier_ALL"
  using assms by (auto simp: LearnedModel_validate_def Let_def split: if_splits)

lemma logits_total:
  assumes "LearnedModel_validate m = Inr ()" "set cs \<subseteq> {0..<4}"
  shows "\<exists>ls. logits m (featurize M f) cs = Some ls \<and> length ls = length cs"
  using assms(2)
proof (induction cs)
  case (Cons c cs)
  then have "lm_coef m ! c \<in> set (lm_coef m)"
    using LearnedModel_validate_shape(3) [OF assms(1)] by simp
  then have "\<exists>z. dot_std (featurize M f) (lm_coef m ! c) (lm_mean m) (lm_scale m) (lm_intercept m ! c) = Some z"
    using LearnedModel_validate_shape(1,2,5) [OF assms(1)] by (intro dot_std_total) simp_all
  with Cons LearnedModel_validate_shape(3,4) [OF assms(1)] show ?case by auto
qed simp

lemma predict_total:
  assumes "LearnedModel_validate m = Inr ()"
  shows "\<exists>p. LearnedModel_predict M m f = Some p \<and> length (lp_probs p) = 4"
  using logits_total [OF assms, of "[0..<4]" M f]
  by (auto simp: LearnedModel_predict_def softmax_def Let_def)

lemma tier_index_less: "tier_index t < 4"
  by (cases t) (simp_all add: tier_index_def Tier_ALL_def List.extract_def)

lemma classify_total:
  assumes "LearnedModel_validate m = Inr ()"
  shows "\<exists>t s c. LearnedModel_classify M m f md b offs = Some (t, s, c)"
  using predict_total [OF assms, of M f] by (auto simp: LearnedModel_classify_def Let_def)

lemma CostModel_validate_shape:
  assumes "CostModel_validate m = Inr ()"
  shows "length (cm_mean m) = length FEATURE_NAMES" "length (cm_scale m) = length FEATURE_NAMES"
    "length (ch_coef (cm_global m)) = length FEATURE_NAMES"
    "(name, h) \<in> set (cm_heads m) \<Longrightarrow> length (ch_coef h) = length FEATURE_NAMES"
  using assms
  by (auto simp: CostModel_validate_def Let_def find_None_iff split: if_splits option.splits)

lemma MAX_PREDICTED_OUTPUT_TOKENS_Fin: "MAX_PREDICTED_OUTPUT_TOKENS = Fin 200000"
  by code_simp

lemma predict_output_tokens_total:
  assumes "CostModel_validate m = Inr ()"
  shows "\<exists>toks specific. predict_output_tokens M m f model = Some (toks, specific)
    \<and> (toks = NaN \<or> f64_le (Fin 1) toks \<and> f64_le toks (Fin 200000))"
proof -
  define h where "h = (case map_of (cm_heads m) model of Some h \<Rightarrow> h | None \<Rightarrow> cm_global m)"
  have "length (ch_coef h) = length FEATURE_NAMES"
    using CostModel_validate_shape(3,4) [OF assms]
    by (auto simp: h_def split: option.splits dest: map_of_SomeD)
  then have "\<exists>z. dot_std (featurize M f) (ch_coef h) (cm_mean m) (cm_scale m) (ch_intercept h) = Some z"
    using CostModel_validate_shape(1,2) [OF assms] by (intro dot_std_total) simp_all
  then obtain z where z: "dot_std (featurize M f) (ch_coef h) (cm_mean m) (cm_scale m) (ch_intercept h) = Some z" ..
  let ?c = "f64_clamp (m_exp_m1 M z) (Fin 1) (Fin 200000)"
  have "?c = NaN \<or> f64_le (Fin 1) ?c \<and> f64_le ?c (Fin 200000)"
    using f64_clamp_range [of "m_exp_m1 M z" "Fin 1" "Fin 200000"]
    by (cases "m_exp_m1 M z") (auto simp: f64_clamp_def f64_lt_def)
  then show ?thesis
    using z by (auto simp: predict_output_tokens_def Let_def h_def MAX_PREDICTED_OUTPUT_TOKENS_Fin
        split: option.splits)
qed

end
