(* ===== verification/Cost.thy ===== *)
theory Cost
  imports Response_Types
begin

text \<open>
  Cost accounting (\<open>aura-core/src/cost.rs\<close> and the enrichment of responses in
  \<open>aura-core/src/state.rs\<close>): the price of a request in double precision, the calculator's price
  table with its seeded defaults, the refresh from scraped rows, and the blended price the auto
  router ranks by.

  The table behind the lock is a finite map; the seed is the code's insertions in their order,
  so that a later one wins.
\<close>

subsection \<open>The price of a request\<close>

record ModelPricing =
  mp_input_per_million :: f64
  mp_output_per_million :: f64
  mp_cached_input_per_million :: "f64 option"
  mp_reasoning_per_million :: "f64 option"

definition ModelPricing_new :: "f64 \<Rightarrow> f64 \<Rightarrow> ModelPricing" where
  "ModelPricing_new i out =
     \<lparr> mp_input_per_million = i, mp_output_per_million = out, mp_cached_input_per_million = None,
       mp_reasoning_per_million = None \<rparr>"

definition ModelPricing_with_cached :: "ModelPricing \<Rightarrow> f64 \<Rightarrow> ModelPricing" where
  "ModelPricing_with_cached p c = p\<lparr> mp_cached_input_per_million := Some c \<rparr>"

definition ModelPricing_with_reasoning :: "ModelPricing \<Rightarrow> f64 \<Rightarrow> ModelPricing" where
  "ModelPricing_with_reasoning p c = p\<lparr> mp_reasoning_per_million := Some c \<rparr>"

definition per_million :: "u32 \<Rightarrow> f64 \<Rightarrow> f64" where
  "per_million tokens rate = f64_mul (f64_div (f64_of_nat (unat tokens)) (f64_lit 1000000 1)) rate"

definition ModelPricing_calculate_cost ::
    "ModelPricing \<Rightarrow> u32 \<Rightarrow> u32 \<Rightarrow> u32 option \<Rightarrow> u32 option \<Rightarrow> f64" where
  "ModelPricing_calculate_cost p inp out cached_toks reasoning_toks =
     (let cached = min (case cached_toks of Some c \<Rightarrow> c | None \<Rightarrow> 0) inp;
          uncached = inp - cached;
          input_cost = per_million uncached (mp_input_per_million p);
          output_cost = per_million out (mp_output_per_million p);
          cached_rate = (case mp_cached_input_per_million p of
                           Some c \<Rightarrow> c | None \<Rightarrow> mp_input_per_million p);
          cached_cost = per_million cached cached_rate;
          reasoning_cost = (case reasoning_toks of
                              Some n \<Rightarrow> (case mp_reasoning_per_million p of
                                           Some rate \<Rightarrow> per_million n rate | None \<Rightarrow> f64_lit 0 1)
                            | None \<Rightarrow> f64_lit 0 1)
      in f64_add (f64_add (f64_add input_cost output_cost) cached_cost) reasoning_cost)"

subsection \<open>The seeded table\<close>

definition seed_pricing_1 :: "(rstring \<times> ModelPricing) list" where
  "seed_pricing_1 =
     [(''gpt-6.1-sol'', ModelPricing_with_cached (ModelPricing_new (f64_lit 2 1) (f64_lit 10 1)) (f64_lit 1 10)),
      (''gpt-6-sol'', ModelPricing_with_cached (ModelPricing_new (f64_lit 2 1) (f64_lit 10 1)) (f64_lit 2 10)),
      (''gpt-6-luna'', ModelPricing_with_cached (ModelPricing_new (f64_lit 1 10) (f64_lit 5 10)) (f64_lit 1 100)),
      (''gpt-6-astra'', ModelPricing_with_cached (ModelPricing_new (f64_lit 10 1) (f64_lit 50 1)) (f64_lit 1 1)),
      (''gpt-5.6-sol'', ModelPricing_with_cached (ModelPricing_new (f64_lit 4 1) (f64_lit 20 1)) (f64_lit 4 10)),
      (''gpt-5.6'', ModelPricing_with_cached (ModelPricing_new (f64_lit 4 1) (f64_lit 20 1)) (f64_lit 4 10)),
      (''gpt-5.6-terra'', ModelPricing_with_cached (ModelPricing_new (f64_lit 2 1) (f64_lit 12 1)) (f64_lit 2 10)),
      (''gpt-5.6-luna'', ModelPricing_with_cached (ModelPricing_new (f64_lit 2 10) (f64_lit 12 10)) (f64_lit 2 100)),
      (''gpt-5.5-pro'', ModelPricing_new (f64_lit 30 1) (f64_lit 180 1)),
      (''gpt-5.5'', ModelPricing_with_cached (ModelPricing_new (f64_lit 5 1) (f64_lit 30 1)) (f64_lit 5 10)),
      (''gpt-5.4'', ModelPricing_with_cached (ModelPricing_new (f64_lit 25 10) (f64_lit 15 1)) (f64_lit 25 100)),
      (''gpt-5.4-mini'', ModelPricing_with_cached (ModelPricing_new (f64_lit 75 100) (f64_lit 45 10)) (f64_lit 75 1000)),
      (''gpt-5.4-nano'', ModelPricing_with_cached (ModelPricing_new (f64_lit 2 10) (f64_lit 125 100)) (f64_lit 2 100)),
      (''gpt-4o'', ModelPricing_with_cached (ModelPricing_new (f64_lit 25 10) (f64_lit 10 1)) (f64_lit 125 100)),
      (''gpt-4o-2024-11-20'', ModelPricing_with_cached (ModelPricing_new (f64_lit 25 10) (f64_lit 10 1)) (f64_lit 125 100)),
      (''gpt-4o-2024-08-06'', ModelPricing_with_cached (ModelPricing_new (f64_lit 25 10) (f64_lit 10 1)) (f64_lit 125 100)),
      (''chatgpt-4o-latest'', ModelPricing_with_cached (ModelPricing_new (f64_lit 5 1) (f64_lit 15 1)) (f64_lit 25 10)),
      (''gpt-4o-mini'', ModelPricing_with_cached (ModelPricing_new (f64_lit 15 100) (f64_lit 6 10)) (f64_lit 75 1000)),
      (''gpt-4o-mini-2024-07-18'', ModelPricing_with_cached (ModelPricing_new (f64_lit 15 100) (f64_lit 6 10)) (f64_lit 75 1000)),
      (''gpt-4.1'', ModelPricing_with_cached (ModelPricing_new (f64_lit 2 1) (f64_lit 8 1)) (f64_lit 5 10)),
      (''gpt-4.1-mini'', ModelPricing_with_cached (ModelPricing_new (f64_lit 4 10) (f64_lit 16 10)) (f64_lit 1 10)),
      (''gpt-4.1-nano'', ModelPricing_with_cached (ModelPricing_new (f64_lit 1 10) (f64_lit 4 10)) (f64_lit 25 1000)),
      (''gpt-5'', ModelPricing_with_cached (ModelPricing_new (f64_lit 5 1) (f64_lit 20 1)) (f64_lit 125 100)),
      (''gpt-5-2025-12-15'', ModelPricing_with_cached (ModelPricing_new (f64_lit 5 1) (f64_lit 20 1)) (f64_lit 125 100)),
      (''gpt-5-mini'', ModelPricing_with_cached (ModelPricing_new (f64_lit 5 10) (f64_lit 2 1)) (f64_lit 125 1000)),
      (''gpt-5.2'', ModelPricing_with_cached (ModelPricing_new (f64_lit 5 1) (f64_lit 20 1)) (f64_lit 125 100)),
      (''gpt-5.2-2026-01-10'', ModelPricing_with_cached (ModelPricing_new (f64_lit 5 1) (f64_lit 20 1)) (f64_lit 125 100)),
      (''gpt-4-turbo'', ModelPricing_new (f64_lit 10 1) (f64_lit 30 1)),
      (''gpt-4-turbo-2024-04-09'', ModelPricing_new (f64_lit 10 1) (f64_lit 30 1)),
      (''gpt-4'', ModelPricing_new (f64_lit 30 1) (f64_lit 60 1)),
      (''gpt-4-0613'', ModelPricing_new (f64_lit 30 1) (f64_lit 60 1)),
      (''gpt-3.5-turbo'', ModelPricing_new (f64_lit 5 10) (f64_lit 15 10)),
      (''gpt-3.5-turbo-0125'', ModelPricing_new (f64_lit 5 10) (f64_lit 15 10))]"

definition seed_pricing_2 :: "(rstring \<times> ModelPricing) list" where
  "seed_pricing_2 =
     [(''o1'', ModelPricing_with_cached (ModelPricing_new (f64_lit 15 1) (f64_lit 60 1)) (f64_lit 75 10)),
      (''o1-2024-12-17'', ModelPricing_with_cached (ModelPricing_new (f64_lit 15 1) (f64_lit 60 1)) (f64_lit 75 10)),
      (''o1-preview'', ModelPricing_new (f64_lit 15 1) (f64_lit 60 1)),
      (''o1-mini'', ModelPricing_with_cached (ModelPricing_new (f64_lit 3 1) (f64_lit 12 1)) (f64_lit 15 10)),
      (''o1-pro'', ModelPricing_with_cached (ModelPricing_new (f64_lit 150 1) (f64_lit 600 1)) (f64_lit 75 1)),
      (''o3'', ModelPricing_with_cached (ModelPricing_new (f64_lit 2 1) (f64_lit 8 1)) (f64_lit 1 1)),
      (''o3-mini'', ModelPricing_with_cached (ModelPricing_new (f64_lit 11 10) (f64_lit 44 10)) (f64_lit 55 100)),
      (''o3-mini-2025-01-31'', ModelPricing_with_cached (ModelPricing_new (f64_lit 11 10) (f64_lit 44 10)) (f64_lit 55 100)),
      (''o4-mini'', ModelPricing_with_cached (ModelPricing_new (f64_lit 11 10) (f64_lit 44 10)) (f64_lit 55 100)),
      (''claude-fable-5-1'', ModelPricing_with_cached (ModelPricing_new (f64_lit 10 1) (f64_lit 50 1)) (f64_lit 25 100)),
      (''claude-fable-5'', ModelPricing_with_cached (ModelPricing_new (f64_lit 10 1) (f64_lit 50 1)) (f64_lit 1 1)),
      (''claude-opus-5-5'', ModelPricing_with_cached (ModelPricing_new (f64_lit 4 1) (f64_lit 20 1)) (f64_lit 2 10)),
      (''claude-sonnet-5-5'', ModelPricing_with_cached (ModelPricing_new (f64_lit 2 1) (f64_lit 10 1)) (f64_lit 2 10)),
      (''claude-haiku-5-5'', ModelPricing_with_cached (ModelPricing_new (f64_lit 1 10) (f64_lit 5 10)) (f64_lit 1 100)),
      (''claude-opus-5'', ModelPricing_with_cached (ModelPricing_new (f64_lit 5 1) (f64_lit 25 1)) (f64_lit 5 10)),
      (''claude-sonnet-5'', ModelPricing_with_cached (ModelPricing_new (f64_lit 2 1) (f64_lit 10 1)) (f64_lit 2 10)),
      (''claude-opus-4-8'', ModelPricing_with_cached (ModelPricing_new (f64_lit 5 1) (f64_lit 25 1)) (f64_lit 5 10)),
      (''claude-opus-4-7-20260416'', ModelPricing_with_cached (ModelPricing_new (f64_lit 5 1) (f64_lit 25 1)) (f64_lit 5 10)),
      (''claude-opus-4-7'', ModelPricing_with_cached (ModelPricing_new (f64_lit 5 1) (f64_lit 25 1)) (f64_lit 5 10)),
      (''claude-opus-4-6'', ModelPricing_with_cached (ModelPricing_new (f64_lit 5 1) (f64_lit 25 1)) (f64_lit 5 10)),
      (''claude-sonnet-4-6'', ModelPricing_with_cached (ModelPricing_new (f64_lit 3 1) (f64_lit 15 1)) (f64_lit 3 10)),
      (''claude-opus-4-5-20251101'', ModelPricing_with_cached (ModelPricing_new (f64_lit 15 1) (f64_lit 75 1)) (f64_lit 15 10)),
      (''claude-opus-4-5'', ModelPricing_with_cached (ModelPricing_new (f64_lit 15 1) (f64_lit 75 1)) (f64_lit 15 10)),
      (''claude-sonnet-4-5-20251022'', ModelPricing_with_cached (ModelPricing_new (f64_lit 3 1) (f64_lit 15 1)) (f64_lit 3 10)),
      (''claude-sonnet-4-5'', ModelPricing_with_cached (ModelPricing_new (f64_lit 3 1) (f64_lit 15 1)) (f64_lit 3 10)),
      (''claude-haiku-4-5-20251001'', ModelPricing_with_cached (ModelPricing_new (f64_lit 1 1) (f64_lit 5 1)) (f64_lit 1 10)),
      (''claude-haiku-4-5-20251201'', ModelPricing_with_cached (ModelPricing_new (f64_lit 1 1) (f64_lit 5 1)) (f64_lit 1 10)),
      (''claude-haiku-4-5'', ModelPricing_with_cached (ModelPricing_new (f64_lit 1 1) (f64_lit 5 1)) (f64_lit 1 10))]"

definition seed_pricing_3 :: "(rstring \<times> ModelPricing) list" where
  "seed_pricing_3 =
     [(''claude-3-5-sonnet-20241022'', ModelPricing_with_cached (ModelPricing_new (f64_lit 3 1) (f64_lit 15 1)) (f64_lit 3 10)),
      (''claude-3-5-sonnet-20240620'', ModelPricing_with_cached (ModelPricing_new (f64_lit 3 1) (f64_lit 15 1)) (f64_lit 3 10)),
      (''claude-3-5-sonnet-latest'', ModelPricing_with_cached (ModelPricing_new (f64_lit 3 1) (f64_lit 15 1)) (f64_lit 3 10)),
      (''claude-3-5-haiku-20241022'', ModelPricing_with_cached (ModelPricing_new (f64_lit 8 10) (f64_lit 4 1)) (f64_lit 8 100)),
      (''claude-3-5-haiku-latest'', ModelPricing_with_cached (ModelPricing_new (f64_lit 8 10) (f64_lit 4 1)) (f64_lit 8 100)),
      (''claude-3-opus-20240229'', ModelPricing_with_cached (ModelPricing_new (f64_lit 15 1) (f64_lit 75 1)) (f64_lit 15 10)),
      (''claude-3-opus-latest'', ModelPricing_with_cached (ModelPricing_new (f64_lit 15 1) (f64_lit 75 1)) (f64_lit 15 10)),
      (''claude-3-sonnet-20240229'', ModelPricing_with_cached (ModelPricing_new (f64_lit 3 1) (f64_lit 15 1)) (f64_lit 3 10)),
      (''claude-3-haiku-20240307'', ModelPricing_with_cached (ModelPricing_new (f64_lit 25 100) (f64_lit 125 100)) (f64_lit 3 100)),
      (''gemini-4-argon'', ModelPricing_with_cached (ModelPricing_new (f64_lit 2 1) (f64_lit 10 1)) (f64_lit 1 10)),
      (''gemini-3.8-flash'', ModelPricing_with_cached (ModelPricing_new (f64_lit 75 100) (f64_lit 375 100)) (f64_lit 75 1000)),
      (''gemini-3.7-flash'', ModelPricing_with_cached (ModelPricing_new (f64_lit 75 100) (f64_lit 375 100)) (f64_lit 75 1000)),
      (''gemini-3.6-flash'', ModelPricing_with_cached (ModelPricing_new (f64_lit 75 100) (f64_lit 375 100)) (f64_lit 75 1000)),
      (''gemini-3.5-flash-lite'', ModelPricing_with_cached (ModelPricing_new (f64_lit 3 10) (f64_lit 25 10)) (f64_lit 3 100)),
      (''gemini-3-pro-preview'', ModelPricing_with_cached (ModelPricing_new (f64_lit 25 10) (f64_lit 10 1)) (f64_lit 625 1000)),
      (''gemini-3.1-pro-preview'', ModelPricing_with_cached (ModelPricing_new (f64_lit 25 10) (f64_lit 10 1)) (f64_lit 625 1000)),
      (''gemini-3-flash-preview'', ModelPricing_with_cached (ModelPricing_new (f64_lit 15 100) (f64_lit 6 10)) (f64_lit 375 10000)),
      (''gemini-3.5-flash'', ModelPricing_with_cached (ModelPricing_new (f64_lit 2 10) (f64_lit 8 10)) (f64_lit 5 100)),
      (''gemini-3.1-flash-lite'', ModelPricing_with_cached (ModelPricing_new (f64_lit 75 1000) (f64_lit 3 10)) (f64_lit 1875 100000)),
      (''gemini-3.1-flash-lite-preview'', ModelPricing_with_cached (ModelPricing_new (f64_lit 75 1000) (f64_lit 3 10)) (f64_lit 1875 100000)),
      (''gemini-2.5-pro'', ModelPricing_with_cached (ModelPricing_new (f64_lit 125 100) (f64_lit 10 1)) (f64_lit 3125 10000)),
      (''gemini-2.5-flash'', ModelPricing_with_cached (ModelPricing_new (f64_lit 3 10) (f64_lit 25 10)) (f64_lit 75 1000)),
      (''gemini-2.5-flash-lite'', ModelPricing_with_cached (ModelPricing_new (f64_lit 75 1000) (f64_lit 3 10)) (f64_lit 1875 100000)),
      (''gemini-2.0-flash'', ModelPricing_with_cached (ModelPricing_new (f64_lit 1 10) (f64_lit 4 10)) (f64_lit 25 1000)),
      (''gemini-2.0-flash-001'', ModelPricing_with_cached (ModelPricing_new (f64_lit 1 10) (f64_lit 4 10)) (f64_lit 25 1000)),
      (''gemini-2.0-flash-lite'', ModelPricing_with_cached (ModelPricing_new (f64_lit 75 1000) (f64_lit 3 10)) (f64_lit 2 100)),
      (''gemini-2.0-flash-lite-001'', ModelPricing_with_cached (ModelPricing_new (f64_lit 75 1000) (f64_lit 3 10)) (f64_lit 2 100))]"

definition seed_pricing_4 :: "(rstring \<times> ModelPricing) list" where
  "seed_pricing_4 =
     [(''gemini-pro-latest'', ModelPricing_with_cached (ModelPricing_new (f64_lit 125 100) (f64_lit 10 1)) (f64_lit 3125 10000)),
      (''gemini-flash-latest'', ModelPricing_with_cached (ModelPricing_new (f64_lit 3 10) (f64_lit 25 10)) (f64_lit 75 1000)),
      (''gemini-flash-lite-latest'', ModelPricing_with_cached (ModelPricing_new (f64_lit 75 1000) (f64_lit 3 10)) (f64_lit 1875 100000)),
      (''mistral-large-latest'', ModelPricing_new (f64_lit 2 1) (f64_lit 6 1)),
      (''mistral-large-2411'', ModelPricing_new (f64_lit 2 1) (f64_lit 6 1)),
      (''mistral-medium-latest'', ModelPricing_new (f64_lit 4 10) (f64_lit 2 1)),
      (''mistral-small-latest'', ModelPricing_new (f64_lit 2 10) (f64_lit 6 10)),
      (''codestral-latest'', ModelPricing_new (f64_lit 3 10) (f64_lit 9 10)),
      (''pixtral-large-latest'', ModelPricing_new (f64_lit 2 1) (f64_lit 6 1)),
      (''ministral-8b-latest'', ModelPricing_new (f64_lit 1 10) (f64_lit 1 10)),
      (''ministral-3b-latest'', ModelPricing_new (f64_lit 4 100) (f64_lit 4 100)),
      (''meta-llama/Llama-3.3-70B-Instruct-Turbo'', ModelPricing_new (f64_lit 88 100) (f64_lit 88 100)),
      (''meta-llama/Meta-Llama-3-8B-Instruct-Lite'', ModelPricing_new (f64_lit 1 10) (f64_lit 1 10)),
      (''deepseek-ai/DeepSeek-V4-Pro'', ModelPricing_with_cached (ModelPricing_new (f64_lit 21 10) (f64_lit 44 10)) (f64_lit 2 10)),
      (''Qwen/Qwen3.5-397B-A17B'', ModelPricing_new (f64_lit 6 10) (f64_lit 36 10)),
      (''Qwen/Qwen3.6-Plus'', ModelPricing_new (f64_lit 5 10) (f64_lit 3 1)),
      (''Qwen/Qwen3.5-9B'', ModelPricing_new (f64_lit 1 10) (f64_lit 15 100)),
      (''Qwen/Qwen2.5-7B-Instruct-Turbo'', ModelPricing_new (f64_lit 3 10) (f64_lit 3 10)),
      (''Qwen/Qwen3-Coder-480B-A35B-Instruct-FP8'', ModelPricing_new (f64_lit 2 1) (f64_lit 2 1)),
      (''Qwen/Qwen3-235B-A22B-Instruct-2507-tput'', ModelPricing_new (f64_lit 2 10) (f64_lit 6 10)),
      (''openai/gpt-oss-120b'', ModelPricing_new (f64_lit 15 100) (f64_lit 6 10)),
      (''openai/gpt-oss-20b'', ModelPricing_new (f64_lit 5 100) (f64_lit 2 10)),
      (''moonshotai/Kimi-K2.6'', ModelPricing_with_cached (ModelPricing_new (f64_lit 12 10) (f64_lit 45 10)) (f64_lit 2 10)),
      (''moonshotai/Kimi-K2.5'', ModelPricing_new (f64_lit 5 10) (f64_lit 28 10)),
      (''zai-org/GLM-5.1'', ModelPricing_new (f64_lit 14 10) (f64_lit 44 10)),
      (''zai-org/GLM-5'', ModelPricing_new (f64_lit 1 1) (f64_lit 32 10)),
      (''essentialai/rnj-1-instruct'', ModelPricing_new (f64_lit 15 100) (f64_lit 15 100)),
      (''google/gemma-4-31B-it'', ModelPricing_new (f64_lit 2 10) (f64_lit 5 10)),
      (''google/gemma-3n-E4B-it'', ModelPricing_new (f64_lit 6 100) (f64_lit 12 100)),
      (''LiquidAI/LFM2-24B-A2B'', ModelPricing_new (f64_lit 3 100) (f64_lit 12 100)),
      (''deepcogito/cogito-v2-1-671b'', ModelPricing_new (f64_lit 125 100) (f64_lit 125 100)),
      (''accounts/fireworks/models/glm-5p2'', ModelPricing_with_cached (ModelPricing_new (f64_lit 14 10) (f64_lit 44 10)) (f64_lit 2 10))]"

definition seed_pricing_5 :: "(rstring \<times> ModelPricing) list" where
  "seed_pricing_5 =
     [(''accounts/fireworks/models/kimi-k2p6'', ModelPricing_with_cached (ModelPricing_new (f64_lit 12 10) (f64_lit 45 10)) (f64_lit 2 10)),
      (''accounts/fireworks/models/deepseek-v4-pro'', ModelPricing_with_cached (ModelPricing_new (f64_lit 21 10) (f64_lit 44 10)) (f64_lit 2 10)),
      (''accounts/fireworks/models/qwen3p6-plus'', ModelPricing_new (f64_lit 5 10) (f64_lit 3 1)),
      (''accounts/fireworks/models/gpt-oss-120b'', ModelPricing_new (f64_lit 15 100) (f64_lit 6 10)),
      (''accounts/fireworks/models/gpt-oss-20b'', ModelPricing_new (f64_lit 5 100) (f64_lit 2 10))]"

definition seed_pricing_6 :: "(rstring \<times> ModelPricing) list" where
  "seed_pricing_6 =
     [(''anthropic.claude-opus-4-5-20251001-v1:0'', ModelPricing_with_cached (ModelPricing_new (f64_lit 15 1) (f64_lit 75 1)) (f64_lit 15 10)),
      (''anthropic.claude-sonnet-4-5-20250929-v1:0'', ModelPricing_with_cached (ModelPricing_new (f64_lit 3 1) (f64_lit 15 1)) (f64_lit 3 10)),
      (''anthropic.claude-haiku-4-5-20251001-v1:0'', ModelPricing_with_cached (ModelPricing_new (f64_lit 8 10) (f64_lit 4 1)) (f64_lit 8 100)),
      (''anthropic.claude-3-7-sonnet-20250219-v1:0'', ModelPricing_with_cached (ModelPricing_new (f64_lit 3 1) (f64_lit 15 1)) (f64_lit 3 10))]"

definition ollama_models :: "rstring list" where
  "ollama_models = [''llama3.3'', ''llama3.2'', ''llama3.1'', ''qwen2.5'', ''mistral'', ''mixtral'', ''phi3'', ''gemma2'', ''codellama'', ''deepseek-r1'']"

definition seed_pricing :: "(rstring \<times> ModelPricing) list" where
  "seed_pricing =
     seed_pricing_1 @ seed_pricing_2 @ seed_pricing_3 @ seed_pricing_4 @ seed_pricing_5
     @ map (\<lambda>m. (m, ModelPricing_new (f64_lit 0 1) (f64_lit 0 1))) ollama_models @ seed_pricing_6"

type_synonym CostCalculator = "rstring \<rightharpoonup> ModelPricing"

definition CostCalculator_new :: CostCalculator where
  "CostCalculator_new = fold (\<lambda>(m, p) c. c(m \<mapsto> p)) seed_pricing Map.empty"

subsection \<open>The calculator\<close>

definition get_pricing :: "CostCalculator \<Rightarrow> rstring \<Rightarrow> ModelPricing option" where
  "get_pricing c model = c model"

definition blended_cost_per_million :: "CostCalculator \<Rightarrow> rstring \<Rightarrow> f64 option" where
  "blended_cost_per_million c model =
     map_option (\<lambda>p. f64_add (f64_mul (f64_lit 7 10) (mp_input_per_million p))
                       (f64_mul (f64_lit 3 10) (mp_output_per_million p))) (get_pricing c model)"

definition CostCalculator_calculate_cost ::
    "CostCalculator \<Rightarrow> rstring \<Rightarrow> u32 \<Rightarrow> u32 \<Rightarrow> u32 option \<Rightarrow> u32 option \<Rightarrow> f64 option" where
  "CostCalculator_calculate_cost c model inp out cached reasoning =
     map_option (\<lambda>p. ModelPricing_calculate_cost p inp out cached reasoning) (get_pricing c model)"

definition set_pricing :: "CostCalculator \<Rightarrow> rstring \<Rightarrow> ModelPricing \<Rightarrow> CostCalculator" where
  "set_pricing c model p = c(model \<mapsto> p)"

record ScrapedPricing =
  sp_provider :: rstring
  sp_scraped_model_id :: rstring
  sp_input_per_million :: f64
  sp_output_per_million :: f64
  sp_cached_input_per_million :: "f64 option"

definition api_slug_table :: "((rstring \<times> rstring) \<times> rstring) list" where
  "api_slug_table =
     [((''fireworks'', ''glm-5-2''), ''accounts/fireworks/models/glm-5p2''),
      ((''fireworks'', ''kimi-k2-6''), ''accounts/fireworks/models/kimi-k2p6''),
      ((''fireworks'', ''deepseek-v4-pro''), ''accounts/fireworks/models/deepseek-v4-pro''),
      ((''fireworks'', ''qwen3-6-plus''), ''accounts/fireworks/models/qwen3p6-plus''),
      ((''fireworks'', ''gpt-oss-120b''), ''accounts/fireworks/models/gpt-oss-120b''),
      ((''fireworks'', ''gpt-oss-20b''), ''accounts/fireworks/models/gpt-oss-20b''),
      ((''together'', ''llama-3-3-70b''), ''meta-llama/Llama-3.3-70B-Instruct-Turbo''),
      ((''together'', ''deepseek-v4-pro''), ''deepseek-ai/DeepSeek-V4-Pro''),
      ((''together'', ''qwen3-6-plus''), ''Qwen/Qwen3.6-Plus''),
      ((''together'', ''gpt-oss-120b''), ''openai/gpt-oss-120b''),
      ((''together'', ''gpt-oss-20b''), ''openai/gpt-oss-20b'')]"

definition api_slug_for_scraped :: "rstring \<Rightarrow> rstring \<Rightarrow> rstring option" where
  "api_slug_for_scraped provider scraped = map_of api_slug_table (provider, scraped)"

definition row_pricing :: "ScrapedPricing \<Rightarrow> ModelPricing" where
  "row_pricing row =
     (let p = ModelPricing_new (sp_input_per_million row) (sp_output_per_million row)
      in case sp_cached_input_per_million row of
           Some c \<Rightarrow> ModelPricing_with_cached p c | None \<Rightarrow> p)"

fun apply_db_pricing :: "CostCalculator \<Rightarrow> ScrapedPricing list \<Rightarrow> nat \<Rightarrow> CostCalculator \<times> nat" where
  "apply_db_pricing c [] updated = (c, updated)"
| "apply_db_pricing c (row # rows) updated =
     (case api_slug_for_scraped (sp_provider row) (sp_scraped_model_id row) of
        None \<Rightarrow> apply_db_pricing c rows updated
      | Some slug \<Rightarrow> apply_db_pricing (set_pricing c slug (row_pricing row)) rows (updated + 1))"

record UsageWithCost =
  uc_input_tokens :: u32
  uc_output_tokens :: u32
  uc_total_tokens :: u32
  uc_cached_tokens :: "u32 option"
  uc_reasoning_tokens :: "u32 option"
  uc_cost_usd :: "f64 option"

definition UsageWithCost_from_usage :: "Usage \<Rightarrow> CostCalculator \<Rightarrow> rstring \<Rightarrow> UsageWithCost" where
  "UsageWithCost_from_usage u c model =
     \<lparr> uc_input_tokens = input_tokens u, uc_output_tokens = output_tokens u,
       uc_total_tokens = total_tokens u, uc_cached_tokens = cached_tokens u,
       uc_reasoning_tokens = reasoning_tokens u,
       uc_cost_usd = CostCalculator_calculate_cost c model (input_tokens u) (output_tokens u)
                       (cached_tokens u) (reasoning_tokens u) \<rparr>"

text \<open>\<open>AppState::enrich_response\<close>.\<close>

definition enrich_response :: "CostCalculator \<Rightarrow> Response \<Rightarrow> Response" where
  "enrich_response c r =
     (case resp_usage r of
        None \<Rightarrow> r
      | Some u \<Rightarrow>
          (case CostCalculator_calculate_cost c (resp_model r) (input_tokens u) (output_tokens u)
                  (cached_tokens u) (reasoning_tokens u) of
             Some cost \<Rightarrow> r\<lparr> resp_usage := Some (Usage_set_cost u cost) \<rparr>
           | None \<Rightarrow> r))"

subsection \<open>Costs are finite, non-negative and monotone\<close>

text \<open>A price table is sane when every rate is between nothing and \<open>2^30\<close> dollars.\<close>

definition pricing_ok :: "ModelPricing \<Rightarrow> bool" where
  "pricing_ok p \<longleftrightarrow> upto_pow 30 (mp_input_per_million p) \<and> upto_pow 30 (mp_output_per_million p)
     \<and> (\<forall>c \<in> set_option (mp_cached_input_per_million p). upto_pow 30 c)
     \<and> (\<forall>c \<in> set_option (mp_reasoning_per_million p). upto_pow 30 c)"

lemma pricing_ok_intros:
  "upto_pow 30 i \<Longrightarrow> upto_pow 30 out \<Longrightarrow> pricing_ok (ModelPricing_new i out)"
  "pricing_ok p \<Longrightarrow> upto_pow 30 c \<Longrightarrow> pricing_ok (ModelPricing_with_cached p c)"
  "pricing_ok p \<Longrightarrow> upto_pow 30 c \<Longrightarrow> pricing_ok (ModelPricing_with_reasoning p c)"
  by (auto simp: pricing_ok_def ModelPricing_new_def ModelPricing_with_cached_def
      ModelPricing_with_reasoning_def)

lemma rate_lit_ok: "0 \<le> n \<Longrightarrow> n \<le> 1000000000 \<Longrightarrow> 1 \<le> d \<Longrightarrow> upto_pow 30 (f64_lit n d)"
proof (rule upto_pow_lit)
  assume n: "0 \<le> n" "n \<le> 1000000000" and d: "1 \<le> d"
  have "(of_int n :: rat) / of_int d \<le> of_int n"
    using n d by (simp add: divide_le_eq mult_le_cancel_left1)
  moreover have "(of_int n :: rat) \<le> 1000000000" using n(2) by linarith
  moreover have "(1000000000 :: rat) \<le> 2 powi 30" by (simp add: power_int_def)
  ultimately show "(of_int n :: rat) / of_int d \<le> 2 powi 30" by linarith
qed auto

lemma per_million_upto: "upto_pow 30 rate \<Longrightarrow> upto_pow 62 (per_million n rate)"
proof -
  assume "upto_pow 30 rate"
  have "(of_nat (unat n) :: rat) < of_nat (2 ^ 32)"
    using unsigned_less [of n, where 'a = nat] by (simp only: of_nat_less_iff) simp
  then have "(of_nat (unat n) :: rat) \<le> 2 powi 32" by (simp add: power_int_def)
  then have "upto_pow 32 (f64_div (f64_of_nat (unat n)) (f64_lit 1000000 1))"
    by (simp add: upto_pow_div upto_pow_of_nat)
  with \<open>upto_pow 30 rate\<close> show ?thesis
    unfolding per_million_def using upto_pow_mul [of 32 _ 30 rate] by simp
qed

lemma f64_div_million_mono: "f64_le a b \<Longrightarrow> f64_le (f64_div a (Fin 1000000)) (f64_div b (Fin 1000000))"
  by (cases a; cases b)
    (auto simp: f64_div_def f64_sgn_def signed_inf_def divide_right_mono intro!: to_f64_mono)

lemma per_million_mono:
  assumes "upto_pow 30 rate" "n \<le> m"
  shows "f64_le (per_million n rate) (per_million m rate)"
proof -
  from assms(2) have "unat n \<le> unat m" by (simp add: word_le_nat_alt)
  then have le: "f64_le (f64_of_nat (unat n)) (f64_of_nat (unat m))"
    by (simp add: f64_of_nat_def to_f64_mono del: of_nat_unat)
  have "upto_pow 32 (f64_of_nat (unat k))" for k :: u32
  proof (rule upto_pow_of_nat)
    have "(of_nat (unat k) :: rat) < of_nat (2 ^ 32)"
      using unsigned_less [of k, where 'a = nat] by (simp only: of_nat_less_iff) simp
    then show "(of_nat (unat k) :: rat) \<le> 2 powi 32" by (simp add: power_int_def)
  qed auto
  then have "upto_pow 32 (f64_div (f64_of_nat (unat k)) (Fin 1000000))" for k :: u32
    by (simp add: upto_pow_div)
  then obtain a b where ab: "f64_div (f64_of_nat (unat n)) (Fin 1000000) = Fin a"
    "f64_div (f64_of_nat (unat m)) (Fin 1000000) = Fin b"
    by (metis upto_pow_def)
  obtain q where q: "rate = Fin q" "0 \<le> q" using assms(1) by (auto simp: upto_pow_def)
  from f64_div_million_mono [OF le] ab have "a \<le> b" by simp
  with q show ?thesis by (simp add: per_million_def ab f64_mul_mono)
qed

definition cost_parts :: "ModelPricing \<Rightarrow> u32 \<Rightarrow> u32 \<Rightarrow> u32 option \<Rightarrow> u32 option \<Rightarrow> f64 list" where
  "cost_parts p inp out cached reasoning =
     (let c = min (case cached of Some c \<Rightarrow> c | None \<Rightarrow> 0) inp
      in [per_million (inp - c) (mp_input_per_million p), per_million out (mp_output_per_million p),
          per_million c (case mp_cached_input_per_million p of Some c \<Rightarrow> c | None \<Rightarrow> mp_input_per_million p),
          (case reasoning of
             Some n \<Rightarrow> (case mp_reasoning_per_million p of Some r \<Rightarrow> per_million n r | None \<Rightarrow> f64_lit 0 1)
           | None \<Rightarrow> f64_lit 0 1)])"

lemma cost_is_sum:
  "ModelPricing_calculate_cost p inp out c r =
     (case cost_parts p inp out c r of [a, b, d, e] \<Rightarrow> f64_add (f64_add (f64_add a b) d) e)"
  by (simp add: ModelPricing_calculate_cost_def cost_parts_def Let_def)

lemma cost_parts_upto: "pricing_ok p \<Longrightarrow> x \<in> set (cost_parts p inp out c r) \<Longrightarrow> upto_pow 62 x"
  by (auto simp: cost_parts_def Let_def pricing_ok_def upto_pow_def [of _ "Fin 0"]
      intro!: per_million_upto split: option.splits)

lemma calculate_cost_upto:
  assumes "pricing_ok p"
  shows "upto_pow 65 (ModelPricing_calculate_cost p inp out c r)"
proof -
  obtain a b d e where parts: "cost_parts p inp out c r = [a, b, d, e]"
    by (simp add: cost_parts_def Let_def)
  with cost_parts_upto [OF assms] have u: "upto_pow 62 a" "upto_pow 62 b" "upto_pow 62 d" "upto_pow 62 e"
    by (metis list.set_intros)+
  have "upto_pow 63 (f64_add a b)" using upto_pow_add [OF u(1,2)] by simp
  moreover have "upto_pow 63 d" using upto_pow_mono [OF u(3)] by simp
  ultimately have "upto_pow 64 (f64_add (f64_add a b) d)" using upto_pow_add [of 63] by simp
  moreover have "upto_pow 64 e" using upto_pow_mono [OF u(4)] by simp
  ultimately have "upto_pow 65 (f64_add (f64_add (f64_add a b) d) e)" using upto_pow_add [of 64] by simp
  then show ?thesis by (simp add: cost_is_sum parts)
qed

text \<open>More tokens never cost less.\<close>

lemma min_split_mono:
  fixes c i i' :: u32
  assumes "i \<le> i'"
  shows "min c i \<le> min c i'" "i - min c i \<le> i' - min c i'"
proof -
  have a: "unat i \<le> unat i'" using assms by (simp add: word_le_nat_alt)
  have m: "unat (min c x) = min (unat c) (unat x)" for x :: u32
    by (auto simp: min_def word_le_nat_alt)
  have d: "unat (x - min c x) = unat x - min (unat c) (unat x)" for x :: u32
    by (simp add: unat_sub m word_le_nat_alt)
  from a show "min c i \<le> min c i'" by (simp add: word_le_nat_alt m)
  from a show "i - min c i \<le> i' - min c i'" by (simp add: word_le_nat_alt d)
qed

lemma calculate_cost_mono:
  assumes "pricing_ok p" "inp \<le> inp'" "out \<le> out'"
  shows "f64_le (ModelPricing_calculate_cost p inp out c r) (ModelPricing_calculate_cost p inp' out' c r)"
proof -
  let ?c = "case c of Some c \<Rightarrow> c | None \<Rightarrow> 0"
  obtain a b d e where x: "cost_parts p inp out c r = [a, b, d, e]"
    by (simp add: cost_parts_def Let_def)
  obtain a' b' d' e' where y: "cost_parts p inp' out' c r = [a', b', d', e']"
    by (simp add: cost_parts_def Let_def)
  have u: "upto_pow 62 a" "upto_pow 62 b" "upto_pow 62 d" "upto_pow 62 e"
    using cost_parts_upto [OF assms(1), of _ inp out c r] x by auto
  have rates: "upto_pow 30 (mp_input_per_million p)" "upto_pow 30 (mp_output_per_million p)"
    "upto_pow 30 (case mp_cached_input_per_million p of Some c \<Rightarrow> c | None \<Rightarrow> mp_input_per_million p)"
    using assms(1) by (auto simp: pricing_ok_def split: option.splits)
  have le: "f64_le a a'" "f64_le b b'" "f64_le d d'"
    using x y min_split_mono [OF assms(2), of ?c] assms(3) rates
    by (auto simp: cost_parts_def Let_def intro!: per_million_mono)
  have e: "e = e'" using x y by (simp add: cost_parts_def Let_def)
  have ab: "upto_pow 63 (f64_add a b)" using upto_pow_add [OF u(1,2)] by simp
  have abd: "upto_pow 64 (f64_add (f64_add a b) d)"
    using upto_pow_add [OF ab upto_pow_mono [OF u(3)]] by simp
  have s1: "f64_le (f64_add a b) (f64_add a' b')"
    using u le by (intro f64_add_mono) (auto dest: upto_pow_Fin)
  have s2: "f64_le (f64_add (f64_add a b) d) (f64_add (f64_add a' b') d')"
    using s1 u ab le by (intro f64_add_mono) (auto dest: upto_pow_Fin)
  have "e \<noteq> NaN" using u(4) by (auto simp: upto_pow_def)
  then have s3: "f64_le (f64_add (f64_add (f64_add a b) d) e) (f64_add (f64_add (f64_add a' b') d') e')"
    unfolding e using upto_pow_Fin [OF abd] upto_pow_Fin [OF u(4)] e
    by (intro f64_add_mono [OF _ _ s2]) (auto simp: f64_le_refl)
  then show ?thesis by (simp add: cost_is_sum x y)
qed

text \<open>Cache reads in excess of the prompt are billed as the whole prompt.\<close>

lemma calculate_cost_cached_clamp:
  "inp \<le> c \<Longrightarrow> ModelPricing_calculate_cost p inp out (Some c) r = ModelPricing_calculate_cost p inp out (Some inp) r"
  by (simp add: ModelPricing_calculate_cost_def Let_def min_def)

subsection \<open>The table\<close>

lemma upto_pow_30_Fin [simp]: "upto_pow 30 (Fin q) \<longleftrightarrow> 0 \<le> q \<and> q \<le> 1073741824"
  by (simp add: upto_pow_def power_int_def)

lemma seed_pricing_1_ok: "list_all (\<lambda>(m, p). pricing_ok p) seed_pricing_1"
  by (simp add: seed_pricing_1_def pricing_ok_intros rate_lit_ok)

lemma seed_pricing_2_ok: "list_all (\<lambda>(m, p). pricing_ok p) seed_pricing_2"
  by (simp add: seed_pricing_2_def pricing_ok_intros rate_lit_ok)

lemma seed_pricing_3_ok: "list_all (\<lambda>(m, p). pricing_ok p) seed_pricing_3"
  by (simp add: seed_pricing_3_def pricing_ok_intros rate_lit_ok)

lemma seed_pricing_4_ok: "list_all (\<lambda>(m, p). pricing_ok p) seed_pricing_4"
  by (simp add: seed_pricing_4_def pricing_ok_intros rate_lit_ok)

lemma seed_pricing_5_ok: "list_all (\<lambda>(m, p). pricing_ok p) seed_pricing_5"
  by (simp add: seed_pricing_5_def pricing_ok_intros rate_lit_ok)

lemma seed_pricing_6_ok: "list_all (\<lambda>(m, p). pricing_ok p) seed_pricing_6"
  by (simp add: seed_pricing_6_def pricing_ok_intros rate_lit_ok)

lemmas seed_chunks_ok =
  seed_pricing_1_ok seed_pricing_2_ok seed_pricing_3_ok seed_pricing_4_ok seed_pricing_5_ok seed_pricing_6_ok

lemma seed_pricing_ok: "(m, p) \<in> set seed_pricing \<Longrightarrow> pricing_ok p"
proof -
  have "list_all (\<lambda>(m, p). pricing_ok p) (map (\<lambda>m. (m, ModelPricing_new (f64_lit 0 1) (f64_lit 0 1))) ollama_models)"
    by (simp add: list_all_iff pricing_ok_intros)
  then have "list_all (\<lambda>(m, p). pricing_ok p) seed_pricing"
    by (simp only: seed_pricing_def list_all_append seed_chunks_ok simp_thms)
  then show "(m, p) \<in> set seed_pricing \<Longrightarrow> pricing_ok p" by (auto simp: list_all_iff)
qed

lemma fold_insert_range:
  "fold (\<lambda>(m, p) c. c(m \<mapsto> p)) xs c0 m = Some p \<Longrightarrow> (m, p) \<in> set xs \<or> c0 m = Some p"
  by (induction xs arbitrary: c0) (fastforce split: if_splits)+

lemma CostCalculator_new_ok: "CostCalculator_new m = Some p \<Longrightarrow> pricing_ok p"
  unfolding CostCalculator_new_def by (drule fold_insert_range) (auto dest: seed_pricing_ok)

lemma fold_insert_known: "m \<in> fst ` set xs \<or> c m \<noteq> None \<Longrightarrow> fold (\<lambda>(m, p) c. c(m \<mapsto> p)) xs c m \<noteq> None"
  by (induction xs arbitrary: c) (auto split: if_splits)

lemma CostCalculator_new_known: "m \<in> fst ` set seed_pricing_1 \<Longrightarrow> CostCalculator_new m \<noteq> None"
  unfolding CostCalculator_new_def by (rule fold_insert_known) (auto simp: seed_pricing_def image_Un)

text \<open>A refresh touches exactly the mapped slugs, and the last row for a slug decides.\<close>

definition row_slug :: "ScrapedPricing \<Rightarrow> rstring option" where
  "row_slug row = api_slug_for_scraped (sp_provider row) (sp_scraped_model_id row)"

lemma apply_db_pricing_count:
  "snd (apply_db_pricing c rows n) = n + length (filter (\<lambda>r. row_slug r \<noteq> None) rows)"
  by (induction c rows n rule: apply_db_pricing.induct) (auto simp: row_slug_def split: option.splits)

lemma apply_db_pricing_get:
  "get_pricing (fst (apply_db_pricing c rows n)) m =
     (case filter (\<lambda>r. row_slug r = Some m) rows of
        [] \<Rightarrow> get_pricing c m
      | x # xs \<Rightarrow> Some (row_pricing (last (x # xs))))"
proof (induction c rows n rule: apply_db_pricing.induct)
  case (1 c n)
  show ?case by simp
next
  case (2 c row rows n)
  show ?case
  proof (cases "row_slug row")
    case None
    with 2 show ?thesis by (simp add: row_slug_def)
  next
    case (Some slug)
    then have "api_slug_for_scraped (sp_provider row) (sp_scraped_model_id row) = Some slug"
      by (simp add: row_slug_def)
    note IH = 2(2) [OF this]
    have "get_pricing (set_pricing c slug (row_pricing row)) m =
        (if slug = m then Some (row_pricing row) else get_pricing c m)"
      by (simp add: get_pricing_def set_pricing_def)
    with IH Some show ?thesis
      by (cases "filter (\<lambda>r. row_slug r = Some m) rows") (simp_all add: row_slug_def [of row])
  qed
qed

text \<open>Enrichment fills in the cost and nothing else.\<close>

lemma enrich_response_frame:
  "resp_usage (enrich_response c r) = map_option (\<lambda>u. u\<lparr> cost_usd :=
     (case CostCalculator_calculate_cost c (resp_model r) (input_tokens u) (output_tokens u)
         (cached_tokens u) (reasoning_tokens u) of Some x \<Rightarrow> Some x | None \<Rightarrow> cost_usd u) \<rparr>) (resp_usage r)"
  "(enrich_response c r)\<lparr> resp_usage := None \<rparr> = r\<lparr> resp_usage := None \<rparr>"
  by (auto simp: enrich_response_def Usage_set_cost_def split: option.splits)

end
