(* ===== verification/Catalog.thy ===== *)
theory Catalog
  imports Auto_Config "HOL-Library.AList"
begin

text \<open>
  The model catalog (\<open>aura-core/src/router/auto/catalog.rs\<close>) and the static capability hints
  (\<open>capabilities.rs\<close>): what the gateway knows about each servable model, the matching of scraped
  rows to API ids, and the tier lists derived from prices when none are configured.

  A hash map whose iteration order the code never observes is a finite map; the catalog's
  entries, which the code lists, are an association list with distinct keys.
\<close>

subsection \<open>Capability hints\<close>

definition text_only_families :: "rstring list" where
  "text_only_families =
     [''o1-mini'', ''o1-preview'', ''o3-mini'', ''gpt-3.5'', ''gpt-4-'', ''claude-2'', ''claude-instant'', ''mistral-'', ''mixtral'', ''codestral'', ''deepseek'', ''llama'', ''qwen'', ''glm'', ''kimi'', ''gpt-oss'']"

definition vision_families :: "rstring list" where
  "vision_families =
     [''gpt-4o'', ''gpt-4.1'', ''gpt-5'', ''o1'', ''o3'', ''o4'', ''claude-3'', ''claude-opus'', ''claude-sonnet'', ''claude-haiku'', ''gemini'', ''pixtral'']"

definition model_supports_vision :: "rstring \<Rightarrow> bool" where
  "model_supports_vision model =
     (let m = to_ascii_lowercase model
      in if str_contains m ''vision'' \<or> str_contains m ''-vl'' then True
         else if m = ''gpt-4'' \<or> (\<exists>p \<in> set text_only_families. starts_with m p) then False
         else (\<exists>p \<in> set vision_families. starts_with m p))"

definition model_supports_tools :: "rstring \<Rightarrow> bool" where
  "model_supports_tools model =
     (let m = to_ascii_lowercase model
      in \<not> (starts_with m ''o1-mini'' \<or> starts_with m ''o1-preview''
             \<or> starts_with m ''gpt-3.5-turbo-instruct'' \<or> starts_with m ''claude-2''
             \<or> starts_with m ''claude-instant'' \<or> str_contains m ''-image''
             \<or> str_contains m ''embedding''))"

subsection \<open>Entries\<close>

record CatalogSource =
  cs_model_id :: rstring
  cs_provider :: rstring
  cs_capabilities :: "rstring list"
  cs_good_at :: "rstring option"
  cs_context_window :: "u32 option"
  cs_max_output_tokens :: "u32 option"
  cs_input_per_million :: "f64 option"
  cs_output_per_million :: "f64 option"

record CatalogEntry =
  ce_model :: rstring
  ce_provider :: rstring
  ce_capabilities :: "rstring list"
  ce_good_at :: "rstring option"
  ce_context_window :: "u32 option"
  ce_max_output_tokens :: "u32 option"
  ce_input_per_million :: "f64 option"
  ce_output_per_million :: "f64 option"
  ce_from_database :: bool

definition blended_per_million :: "CatalogEntry \<Rightarrow> f64 option" where
  "blended_per_million e =
     do { i \<leftarrow> ce_input_per_million e; out \<leftarrow> ce_output_per_million e;
          Some (f64_add (f64_mul (f64_lit 7 10) i) (f64_mul (f64_lit 3 10) out)) }"

definition has_tag :: "CatalogEntry \<Rightarrow> rstring \<Rightarrow> bool" where
  "has_tag e tag \<longleftrightarrow> (\<exists>c \<in> set (ce_capabilities e). eq_ignore_ascii_case c tag)"

definition supports_vision :: "CatalogEntry \<Rightarrow> bool" where
  "supports_vision e \<longleftrightarrow>
     (ce_capabilities e \<noteq> [] \<and> (has_tag e ''vision'' \<or> has_tag e ''multimodal''))
     \<or> model_supports_vision (ce_model e)"

definition supports_tools :: "CatalogEntry \<Rightarrow> bool" where
  "supports_tools e \<longleftrightarrow>
     has_tag e ''tool-calling'' \<or> has_tag e ''agentic'' \<or> model_supports_tools (ce_model e)"

definition is_reasoning :: "CatalogEntry \<Rightarrow> bool" where
  "is_reasoning e = has_tag e ''reasoning''"

text \<open>The loop of \<open>canonical_slug\<close>, with the pending dash and the output so far.\<close>

fun slug_loop :: "rstring \<Rightarrow> bool \<Rightarrow> rstring \<Rightarrow> rstring" where
  "slug_loop [] pending out = out"
| "slug_loop (c # cs) pending out =
     (if is_ascii_alphanumeric c
      then slug_loop cs False ((if pending \<and> out \<noteq> [] then out @ ''-'' else out) @ [ascii_lower_char c])
      else slug_loop cs True out)"

definition canonical_slug :: "rstring \<Rightarrow> rstring" where
  "canonical_slug raw = slug_loop (str_trim raw) False []"

subsection \<open>Building the catalog\<close>

type_synonym ModelCatalog = "(rstring \<times> CatalogEntry) list"

text \<open>\<open>entry(k).or_insert(v)\<close>.\<close>

definition or_insert :: "'k \<Rightarrow> 'v \<Rightarrow> ('k \<rightharpoonup> 'v) \<Rightarrow> ('k \<rightharpoonup> 'v)" where
  "or_insert k v m = (case m k of None \<Rightarrow> m(k \<mapsto> v) | Some _ \<Rightarrow> m)"

fun index_sources ::
    "(rstring \<Rightarrow> rstring \<Rightarrow> rstring option) \<Rightarrow> CatalogSource list \<Rightarrow>
     (rstring \<rightharpoonup> CatalogSource) \<times> (rstring \<times> rstring \<rightharpoonup> CatalogSource) \<Rightarrow>
     (rstring \<rightharpoonup> CatalogSource) \<times> (rstring \<times> rstring \<rightharpoonup> CatalogSource)" where
  "index_sources slug [] idx = idx"
| "index_sources slug (s # ss) (by_id, by_can) =
     (let by_id = or_insert (cs_model_id s) s by_id;
          by_id = (case slug (cs_provider s) (cs_model_id s) of
                     Some api \<Rightarrow> or_insert api s by_id | None \<Rightarrow> by_id);
          by_can = or_insert (to_ascii_lowercase (cs_provider s), canonical_slug (cs_model_id s)) s by_can
      in index_sources slug ss (by_id, by_can))"

definition entry_for :: "rstring \<Rightarrow> rstring \<Rightarrow> CatalogSource option \<Rightarrow> CatalogEntry" where
  "entry_for model provider src =
     (case src of
        Some s \<Rightarrow>
          \<lparr> ce_model = model, ce_provider = provider, ce_capabilities = cs_capabilities s,
            ce_good_at = cs_good_at s, ce_context_window = cs_context_window s,
            ce_max_output_tokens = cs_max_output_tokens s,
            ce_input_per_million = cs_input_per_million s,
            ce_output_per_million = cs_output_per_million s, ce_from_database = True \<rparr>
      | None \<Rightarrow>
          \<lparr> ce_model = model, ce_provider = provider, ce_capabilities = [], ce_good_at = None,
            ce_context_window = None, ce_max_output_tokens = None, ce_input_per_million = None,
            ce_output_per_million = None, ce_from_database = False \<rparr>)"

definition ModelCatalog_build ::
    "(rstring \<times> rstring) list \<Rightarrow> CatalogSource list \<Rightarrow> (rstring \<Rightarrow> rstring \<Rightarrow> rstring option) \<Rightarrow>
     ModelCatalog" where
  "ModelCatalog_build servable sources slug =
     (let (by_id, by_can) = index_sources slug sources (Map.empty, Map.empty)
      in fold (\<lambda>(model, provider) es.
             AList.update model
               (entry_for model provider
                 (case by_id model of
                    Some s \<Rightarrow> Some s
                  | None \<Rightarrow> by_can (to_ascii_lowercase provider, canonical_slug model))) es)
           servable [])"

definition ModelCatalog_get :: "ModelCatalog \<Rightarrow> rstring \<Rightarrow> CatalogEntry option" where
  "ModelCatalog_get c m = map_of c m"

text \<open>\<open>String::cmp\<close> compares bytes.\<close>

fun str_cmp :: "rstring \<Rightarrow> rstring \<Rightarrow> ordering" where
  "str_cmp [] [] = Equal"
| "str_cmp [] (_ # _) = Less"
| "str_cmp (_ # _) [] = Greater"
| "str_cmp (a # as) (b # bs) = cmp_then (cmp_key byte_of a b) (str_cmp as bs)"

definition entry_cmp :: "CatalogEntry \<Rightarrow> CatalogEntry \<Rightarrow> ordering" where
  "entry_cmp a b = cmp_then (str_cmp (ce_provider a) (ce_provider b)) (str_cmp (ce_model a) (ce_model b))"

definition ModelCatalog_entries :: "ModelCatalog \<Rightarrow> CatalogEntry list" where
  "ModelCatalog_entries c = sort_by entry_cmp (map snd c)"

definition ModelCatalog_fill_prices ::
    "ModelCatalog \<Rightarrow> (rstring \<Rightarrow> (f64 \<times> f64) option) \<Rightarrow> ModelCatalog" where
  "ModelCatalog_fill_prices c price_of =
     map (\<lambda>(m, e).
       (m, if ce_input_per_million e = None \<or> ce_output_per_million e = None
           then (case price_of (ce_model e) of
                   Some (i, out) \<Rightarrow> e\<lparr> ce_input_per_million := Some i, ce_output_per_million := Some out \<rparr>
                 | None \<Rightarrow> e)
           else e)) c"

subsection \<open>Tiers derived from prices\<close>

definition priced_entries :: "ModelCatalog \<Rightarrow> CatalogEntry list" where
  "priced_entries c =
     map fst (sort_by (\<lambda>a b. f64_cmp (snd a) (snd b))
       (List.map_filter (\<lambda>e. map_option (Pair e) (blended_per_million e)) (ModelCatalog_entries c)))"

definition reasoning_entries :: "CatalogEntry list \<Rightarrow> CatalogEntry list" where
  "reasoning_entries priced =
     (let r = rev (filter is_reasoning priced) in if r = [] then take 3 (rev priced) else r)"

text \<open>\<open>sort_by_key(|e| !e.supports_tools())\<close> is stable: the tool-capable first.\<close>

definition take_models :: "nat \<Rightarrow> CatalogEntry list \<Rightarrow> rstring list" where
  "take_models per_tier es =
     map ce_model (take per_tier (filter supports_tools es @ filter (\<lambda>e. \<not> supports_tools e) es))"

definition TierModels_from_catalog :: "ModelCatalog \<Rightarrow> nat \<Rightarrow> TierModels" where
  "TierModels_from_catalog c per_tier =
     (let priced = priced_entries c;
          reas = reasoning_entries priced;
          rest = filter (\<lambda>e. \<forall>r \<in> set reas. ce_model r \<noteq> ce_model e) priced;
          n = length rest;
          third = max ((n + 2) div 3) 1
      in \<lparr> simple = take_models per_tier (take (min third n) rest),
           medium = take_models per_tier (take (min (2 * third) n - min third n) (drop (min third n) rest)),
           complex = take_models per_tier (drop (min (2 * third) n) rest),
           reasoning = map ce_model (take per_tier reas) \<rparr>)"

subsection \<open>Properties\<close>

text \<open>The slug has no leading, trailing or doubled dash, and is its own canonical form.\<close>

definition slug_ok :: "rstring \<Rightarrow> bool" where
  "slug_ok s \<longleftrightarrow> (\<forall>c \<in> set s. c = CHR ''-'' \<or> is_ascii_alphanumeric c \<and> ascii_lower_char c = c)
     \<and> (s \<noteq> [] \<longrightarrow> hd s \<noteq> CHR ''-'' \<and> last s \<noteq> CHR ''-'')
     \<and> (\<forall>a b. s \<noteq> a @ ''--'' @ b)"

lemma alphanumeric_lower: "is_ascii_alphanumeric c \<Longrightarrow> is_ascii_alphanumeric (ascii_lower_char c)"
proof -
  assume a: "is_ascii_alphanumeric c"
  show ?thesis
  proof (cases "is_ascii_upper c")
    case True
    then have "is_ascii_lower (ascii_lower_char c)"
      by (auto simp: ascii_lower_char_def is_ascii_upper_def is_ascii_lower_def byte_of_def)
    then show ?thesis by (simp add: is_ascii_alphanumeric_def)
  qed (use a in \<open>simp add: ascii_lower_char_def\<close>)
qed

lemma alphanumeric_not_dash: "is_ascii_alphanumeric c \<Longrightarrow> c \<noteq> CHR ''-''"
  by (auto simp: is_ascii_alphanumeric_def is_ascii_upper_def is_ascii_lower_def is_ascii_digit_def byte_of_def)

lemma dash_not_alphanumeric: "\<not> is_ascii_alphanumeric (CHR ''-'')"
  by code_simp

lemma alphanumeric_visible: "is_ascii_alphanumeric c \<Longrightarrow> visible c"
  by (auto simp: visible_def is_ascii_alphanumeric_def is_ascii_upper_def is_ascii_lower_def is_ascii_digit_def)

lemma no_double_dash_snoc:
  "(\<forall>a b. s \<noteq> a @ ''--'' @ b) \<Longrightarrow> c \<noteq> CHR ''-'' \<Longrightarrow> s @ [c] \<noteq> a @ ''--'' @ b"
  by (cases b rule: rev_cases) auto

lemma slug_ok_snoc:
  assumes "slug_ok s" "is_ascii_alphanumeric c" "ascii_lower_char c = c"
  shows "slug_ok (s @ [c])" and "s \<noteq> [] \<Longrightarrow> slug_ok (s @ ''-'' @ [c])"
proof -
  note c = alphanumeric_not_dash [OF assms(2)]
  show "slug_ok (s @ [c])"
    using assms c no_double_dash_snoc [of s c] by (cases s) (auto simp: slug_ok_def)
  assume "s \<noteq> []"
  have "\<forall>a b. s @ ''-'' \<noteq> a @ ''--'' @ b"
  proof (intro allI notI)
    fix a b assume e: "s @ ''-'' = a @ ''--'' @ b"
    show False
    proof (cases b rule: rev_cases)
      case Nil
      with e have "s = a @ ''-''" by simp
      with assms(1) show False by (auto simp: slug_ok_def)
    next
      case (snoc b' x)
      with e have "s = a @ ''--'' @ b'" by simp
      with assms(1) show False by (auto simp: slug_ok_def)
    qed
  qed
  with no_double_dash_snoc [of "s @ ''-''" c] c have "\<forall>a b. (s @ ''-'') @ [c] \<noteq> a @ ''--'' @ b" by blast
  with assms c \<open>s \<noteq> []\<close> show "slug_ok (s @ ''-'' @ [c])"
    by (cases s) (auto simp: slug_ok_def)
qed

lemma slug_loop_ok: "slug_ok out \<Longrightarrow> slug_ok (slug_loop cs pending out)"
proof (induction cs arbitrary: pending out)
  case (Cons c cs)
  then show ?case
    using slug_ok_snoc [of out "ascii_lower_char c"] alphanumeric_lower [of c] by simp
qed simp

lemma canonical_slug_ok: "slug_ok (canonical_slug raw)"
  unfolding canonical_slug_def by (rule slug_loop_ok) (simp add: slug_ok_def)

lemma slug_ok_chars:
  "slug_ok s \<Longrightarrow> c \<in> set s \<Longrightarrow> c = CHR ''-'' \<or> is_ascii_alphanumeric c \<and> ascii_lower_char c = c"
  by (simp add: slug_ok_def)

lemma slug_ok_no_double: "\<not> slug_ok (a @ CHR ''-'' # CHR ''-'' # b)"
  unfolding slug_ok_def by (metis append_Cons append_Nil)

lemma slug_ok_end: "\<not> slug_ok (a @ [CHR ''-''])"
  by (simp add: slug_ok_def)

text \<open>A well-formed slug passes through the loop unchanged.\<close>

lemma slug_loop_id:
  "slug_ok (out @ cs) \<Longrightarrow> out = [] \<or> last out \<noteq> CHR ''-'' \<Longrightarrow> slug_loop cs False out = out @ cs"
proof (induction cs arbitrary: out rule: length_induct)
  case (1 cs)
  note [simp] = alphanumeric_not_dash
  show ?case
  proof (cases cs)
    case (Cons c cs')
    show ?thesis
    proof (cases "c = CHR ''-''")
      case False
      then have a: "is_ascii_alphanumeric c" "ascii_lower_char c = c"
        using slug_ok_chars [OF 1(2), of c] unfolding Cons by simp_all
      have ok: "slug_ok ((out @ [c]) @ cs')" using 1(2) Cons by simp
      have "slug_loop cs False out = slug_loop cs' False (out @ [c])" using a Cons by simp
      also have "\<dots> = (out @ [c]) @ cs'"
        using 1(1) [rule_format, of cs' "out @ [c]", OF _ ok] False unfolding Cons by simp
      finally show ?thesis using Cons by simp
    next
      case True
      have out: "out \<noteq> []"
      proof
        assume "out = []"
        with 1(2) Cons True show False by (simp add: slug_ok_def)
      qed
      have "cs' \<noteq> []" using 1(2) slug_ok_end [of out] unfolding Cons True by blast
      then obtain d cs2 where d: "cs' = d # cs2" by (cases cs') simp_all
      have nd: "d \<noteq> CHR ''-''" using 1(2) slug_ok_no_double [of out] unfolding Cons True d by blast
      from 1(2) Cons True d have ok: "slug_ok ((out @ ''-'' @ [d]) @ cs2)" by simp
      from slug_ok_chars [OF this, of d] nd have a: "is_ascii_alphanumeric d" "ascii_lower_char d = d"
        by simp_all
      have "slug_loop cs False out = slug_loop cs2 False (out @ ''-'' @ [d])"
        using a dash_not_alphanumeric out unfolding Cons True d by simp
      also have "\<dots> = (out @ ''-'' @ [d]) @ cs2"
        using 1(1) [rule_format, of cs2 "out @ ''-'' @ [d]", OF _ ok] nd unfolding Cons d by simp
      finally show ?thesis using Cons True d by simp
    qed
  qed simp
qed

lemma slug_ok_visible:
  assumes "slug_ok s"
  shows "str_trim s = s"
proof -
  have "visible (CHR ''-'')" by code_simp
  then have "visible c" if "c \<in> set s" for c
    using that slug_ok_chars [OF assms that] alphanumeric_visible by blast
  then show ?thesis by (cases "s = []") (auto intro!: str_trim_visible)
qed

lemma canonical_slug_idem: "canonical_slug (canonical_slug raw) = canonical_slug raw"
  using slug_loop_id [of "[]" "canonical_slug raw"] canonical_slug_ok slug_ok_visible
  by (simp add: canonical_slug_def)

lemma map_of_build:
  "map_of (fold (\<lambda>(m, p) es. AList.update m (f m p) es) xs es0) m =
     (case filter (\<lambda>x. fst x = m) xs of [] \<Rightarrow> map_of es0 m | y # ys \<Rightarrow> Some (f m (snd (last (y # ys)))))"
proof (induction xs arbitrary: es0)
  case Nil
  show ?case by simp
next
  case (Cons x xs)
  obtain a b where x: "x = (a, b)" by (cases x)
  show ?case
    using Cons.IH [of "AList.update a (f a b) es0"]
    by (cases "filter (\<lambda>x. fst x = m) xs") (auto simp: x update_conv')
qed

text \<open>The catalog knows exactly the servable models, each under its own id and provider.\<close>

lemma build_get:
  "ModelCatalog_get (ModelCatalog_build servable sources slug) m \<noteq> None \<longleftrightarrow> m \<in> fst ` set servable"
proof -
  have "ModelCatalog_get (ModelCatalog_build servable sources slug) m \<noteq> None \<longleftrightarrow>
      filter (\<lambda>x. fst x = m) servable \<noteq> []"
    by (auto simp: ModelCatalog_get_def ModelCatalog_build_def Let_def case_prod_beta map_of_build
        split: list.splits)
  also have "\<dots> \<longleftrightarrow> m \<in> fst ` set servable" by (auto simp: filter_empty_conv image_iff)
  finally show ?thesis .
qed

lemma entry_for_id: "ce_model (entry_for m p s) = m" "ce_provider (entry_for m p s) = p"
  by (auto simp: entry_for_def split: option.splits)

lemma build_get_id:
  assumes "ModelCatalog_get (ModelCatalog_build servable sources slug) m = Some e"
  shows "ce_model e = m \<and> (m, ce_provider e) \<in> set servable"
proof -
  from assms obtain y ys where f: "filter (\<lambda>x. fst x = m) servable = y # ys"
    and e: "ce_model e = m" "ce_provider e = snd (last (y # ys))"
    by (auto simp: ModelCatalog_get_def ModelCatalog_build_def Let_def case_prod_beta map_of_build
        entry_for_id split: list.splits)
  have "last (y # ys) \<in> set (filter (\<lambda>x. fst x = m) servable)" unfolding f by (rule last_in_set) simp
  with e show ?thesis by (cases "last (y # ys)") simp
qed

text \<open>Prices that are known are never overwritten by the fallback.\<close>

lemma fill_prices_keeps:
  assumes "ModelCatalog_get c m = Some e" "ce_input_per_million e \<noteq> None" "ce_output_per_million e \<noteq> None"
  shows "ModelCatalog_get (ModelCatalog_fill_prices c f) m = Some e"
  using assms
  by (induction c) (auto simp: ModelCatalog_get_def ModelCatalog_fill_prices_def split: if_splits)

text \<open>The derived tiers: no more than \<open>per_tier\<close> models each, and none in two of them.\<close>

lemma take_models_subset: "set (take_models k es) \<subseteq> ce_model ` set es"
  by (auto simp: take_models_def dest!: in_set_takeD)

lemma length_take_models: "length (take_models k es) \<le> k"
  by (simp add: take_models_def)

lemma from_catalog_lengths: "length (TierModels_get (TierModels_from_catalog c k) t) \<le> k"
  by (cases t; simp only: TierModels_from_catalog_def Let_def TierModels_get.simps TierModels.simps
      length_take_models length_map length_take; simp)

lemma set_priced_entries: "set (priced_entries c) \<subseteq> snd ` set c"
  by (force simp: priced_entries_def List.map_filter_def ModelCatalog_entries_def)

lemma take_models_within: "set xs \<subseteq> set ys \<Longrightarrow> set (take_models k xs) \<subseteq> ce_model ` set ys"
  by (rule order_trans [OF take_models_subset image_mono])

definition rest_entries :: "ModelCatalog \<Rightarrow> CatalogEntry list" where
  "rest_entries c = filter (\<lambda>e. \<forall>r \<in> set (reasoning_entries (priced_entries c)). ce_model r \<noteq> ce_model e)
     (priced_entries c)"

lemma from_catalog_sets:
  "set (TierModels_get (TierModels_from_catalog c k) t) \<subseteq>
     ce_model ` set (if t = Reasoning then reasoning_entries (priced_entries c) else rest_entries c)"
  by (cases t; simp only: TierModels_from_catalog_def Let_def TierModels_get.simps TierModels.simps
      Tier.distinct if_False if_True set_map simp_thms flip: rest_entries_def)
    (intro take_models_within set_take_subset set_drop_subset image_mono
      order_trans [OF set_take_subset set_drop_subset])+

lemma reasoning_entries_subset: "set (reasoning_entries es) \<subseteq> set es"
  by (auto simp: reasoning_entries_def Let_def dest!: in_set_takeD)

lemma from_catalog_known:
  assumes "m \<in> set (TierModels_get (TierModels_from_catalog c k) t)"
  shows "\<exists>e \<in> snd ` set c. ce_model e = m"
proof -
  have "set (if t = Reasoning then reasoning_entries (priced_entries c) else rest_entries c)
      \<subseteq> set (priced_entries c)"
    using reasoning_entries_subset by (auto simp: rest_entries_def)
  with assms from_catalog_sets [of c k t] set_priced_entries [of c] show ?thesis by fastforce
qed

lemma from_catalog_reasoning_apart:
  assumes "m \<in> set (TierModels_get (TierModels_from_catalog c k) Reasoning)" "t \<noteq> Reasoning"
  shows "m \<notin> set (TierModels_get (TierModels_from_catalog c k) t)"
proof
  assume "m \<in> set (TierModels_get (TierModels_from_catalog c k) t)"
  with from_catalog_sets [of c k t] assms(2) have "m \<in> ce_model ` set (rest_entries c)" by auto
  moreover from from_catalog_sets [of c k Reasoning] assms(1)
  have "m \<in> ce_model ` set (reasoning_entries (priced_entries c))" by auto
  ultimately show False by (auto simp: rest_entries_def)
qed

end
