(* ===== verification/Clock.thy ===== *)
theory Clock
  imports Prelude
begin

text \<open>
  Time: a \<open>std::time::Instant\<close> is a number of nanoseconds, and so is a \<open>Duration\<close>. Every operation
  that reads the clock takes the reading as an argument.
\<close>

type_synonym instant = nat

definition secs :: "u64 \<Rightarrow> nat" where
  "secs s = unat s * 1000000000"

text \<open>\<open>as_millis() as u64\<close>.\<close>

definition as_millis :: "nat \<Rightarrow> u64" where
  "as_millis d = of_nat (d div 1000000)"

end
