(* ===== verification/Breaker.thy ===== *)
theory Breaker
  imports Auto_Config Clock
begin

text \<open>
  The per-model circuit breaker of the gateway (\<open>BreakerState\<close> and the three methods on it in
  \<open>aura-proxy/src/main.rs\<close>): failures inside a sliding window open it, a cooldown closes it, a
  success forgets the model.

  The clock is an argument of every operation that reads it. The map behind the mutex is passed and returned.
\<close>

record BreakerState =
  br_failures :: "instant list"
  br_open_until :: "instant option"

definition BreakerState_default :: BreakerState where
  "BreakerState_default = \<lparr> br_failures = [], br_open_until = None \<rparr>"

type_synonym breaker_map = "rstring \<rightharpoonup> BreakerState"

definition record_model_failure ::
    "EscalationConfig \<Rightarrow> instant \<Rightarrow> rstring \<Rightarrow> breaker_map \<Rightarrow> breaker_map \<times> bool" where
  "record_model_failure cfg now model m =
     (let window = secs (max (esc_breaker_window_secs cfg) 1);
          st = (case m model of Some st \<Rightarrow> st | None \<Rightarrow> BreakerState_default);
          failures = filter (\<lambda>t. now - t < window) (br_failures st) @ [now]
      in if max (esc_breaker_failures cfg) 1 \<le> of_nat (length failures)
         then (m(model \<mapsto> \<lparr> br_failures = [],
                   br_open_until = Some (now + secs (max (esc_breaker_cooldown_secs cfg) 1)) \<rparr>), True)
         else (m(model \<mapsto> st\<lparr> br_failures := failures \<rparr>),
               (case br_open_until st of Some u \<Rightarrow> now < u | None \<Rightarrow> False)))"

definition record_model_success :: "rstring \<Rightarrow> breaker_map \<Rightarrow> breaker_map" where
  "record_model_success model m = m(model := None)"

definition is_model_breaker_open :: "instant \<Rightarrow> rstring \<Rightarrow> breaker_map \<Rightarrow> bool" where
  "is_model_breaker_open now model m =
     (case Option.bind (m model) br_open_until of Some u \<Rightarrow> now < u | None \<Rightarrow> False)"

subsection \<open>Histories\<close>

datatype breaker_event = Failed instant rstring | Succeeded rstring

fun breaker_step :: "EscalationConfig \<Rightarrow> breaker_event \<Rightarrow> breaker_map \<Rightarrow> breaker_map" where
  "breaker_step cfg (Failed now m) b = fst (record_model_failure cfg now m b)"
| "breaker_step cfg (Succeeded m) b = record_model_success m b"

definition breaker_run :: "EscalationConfig \<Rightarrow> breaker_event list \<Rightarrow> breaker_map \<Rightarrow> breaker_map" where
  "breaker_run cfg es b = fold (breaker_step cfg) es b"

text \<open>The number of failures that opens the breaker.\<close>

definition breaker_limit :: "EscalationConfig \<Rightarrow> nat" where
  "breaker_limit cfg = unat (max (esc_breaker_failures cfg) 1)"

lemma breaker_limit_pos: "0 < breaker_limit cfg" "breaker_limit cfg < 2 ^ 32"
  using unsigned_less [of "max (esc_breaker_failures cfg) 1", where 'a = nat]
  by (auto simp: breaker_limit_def max_def unat_gt_0)

text \<open>A model's window never holds as many failures as open the breaker.\<close>

definition breaker_ok :: "EscalationConfig \<Rightarrow> breaker_map \<Rightarrow> bool" where
  "breaker_ok cfg b \<longleftrightarrow> (\<forall>m st. b m = Some st \<longrightarrow> length (br_failures st) < breaker_limit cfg)"

lemma limit_reached:
  assumes "n \<le> breaker_limit cfg"
  shows "max (esc_breaker_failures cfg) 1 \<le> of_nat n \<longleftrightarrow> n = breaker_limit cfg"
proof -
  have "unat (of_nat n :: u32) = n"
    using assms breaker_limit_pos(2) [of cfg] by (simp add: unsigned_of_nat take_bit_nat_eq_self)
  with assms show ?thesis
    by (auto simp: word_le_nat_alt breaker_limit_def simp del: max.bounded_iff)
qed

text \<open>The model's window at a failure, and that it still has room for it.\<close>

definition recent_failures :: "EscalationConfig \<Rightarrow> instant \<Rightarrow> rstring \<Rightarrow> breaker_map \<Rightarrow> instant list" where
  "recent_failures cfg now m b =
     (case b m of
        Some st \<Rightarrow> filter (\<lambda>t. now - t < secs (max (esc_breaker_window_secs cfg) 1)) (br_failures st)
      | None \<Rightarrow> [])"

lemma recent_room: "breaker_ok cfg b \<Longrightarrow> Suc (length (recent_failures cfg now m b)) \<le> breaker_limit cfg"
  using breaker_limit_pos(1) [of cfg]
  by (auto simp: recent_failures_def breaker_ok_def Suc_le_eq split: option.splits
      intro: le_less_trans [OF length_filter_le])

text \<open>What one failure does, in a map that keeps the invariant.\<close>

lemma failure_step:
  assumes "breaker_ok cfg b"
  shows "record_model_failure cfg now m b =
     (if Suc (length (recent_failures cfg now m b)) = breaker_limit cfg
      then (b(m \<mapsto> \<lparr> br_failures = [],
              br_open_until = Some (now + secs (max (esc_breaker_cooldown_secs cfg) 1)) \<rparr>), True)
      else (b(m \<mapsto> \<lparr> br_failures = recent_failures cfg now m b @ [now],
              br_open_until = Option.bind (b m) br_open_until \<rparr>), is_model_breaker_open now m b))"
proof (cases "b m")
  case None
  with limit_reached [of "Suc 0" cfg] breaker_limit_pos(1) [of cfg] show ?thesis
    by (simp add: record_model_failure_def Let_def recent_failures_def BreakerState_default_def
        is_model_breaker_open_def del: max.bounded_iff of_nat_Suc of_nat_1 of_nat_0)
next
  case (Some st)
  then show ?thesis
    using limit_reached [OF recent_room [OF assms], of now m]
    by (cases st) (simp add: record_model_failure_def Let_def recent_failures_def
        is_model_breaker_open_def del: max.bounded_iff of_nat_Suc)
qed

lemma breaker_ok_failure:
  assumes "breaker_ok cfg b"
  shows "breaker_ok cfg (fst (record_model_failure cfg now m b))"
  using assms recent_room [OF assms, of now m] breaker_limit_pos(1) [of cfg]
  by (auto simp: failure_step [OF assms] breaker_ok_def)

lemma breaker_ok_step: "breaker_ok cfg b \<Longrightarrow> breaker_ok cfg (breaker_step cfg e b)"
  by (cases e) (simp_all add: breaker_ok_failure, simp add: breaker_ok_def record_model_success_def)

lemma breaker_ok_run: "breaker_ok cfg b \<Longrightarrow> breaker_ok cfg (breaker_run cfg es b)"
  unfolding breaker_run_def by (induction es arbitrary: b) (simp_all add: breaker_ok_step)

lemma breaker_ok_empty: "breaker_ok cfg Map.empty"
  by (simp add: breaker_ok_def)

lemma is_open_other: "m \<noteq> m' \<Longrightarrow>
    is_model_breaker_open now m (fst (record_model_failure cfg t m' b)) = is_model_breaker_open now m b"
  by (simp add: record_model_failure_def Let_def is_model_breaker_open_def)

lemma is_open_success [simp]: "\<not> is_model_breaker_open now m (record_model_success m b)"
  by (simp add: is_model_breaker_open_def record_model_success_def)

text \<open>
  A run of failures of one model whose times lie inside one window: the breaker opens at the
  \<open>limit\<close>-th of them and not before.
\<close>

lemma window_pos: "0 < secs (max s 1)"
proof -
  have "max s 1 \<noteq> 0"
    by (metis max.cobounded2 word_le_0_iff zero_neq_one)
  then show ?thesis by (simp add: secs_def unat_gt_0)
qed

lemma recent_all:
  assumes "sorted ts" "ts \<noteq> []" "t - hd ts < secs (max (esc_breaker_window_secs cfg) 1)"
  shows "recent_failures cfg t m (b(m \<mapsto> \<lparr> br_failures = ts, br_open_until = u \<rparr>)) = ts"
proof -
  have "hd ts \<le> x" if "x \<in> set ts" for x using that assms(1) by (cases ts) auto
  with assms(3) have "\<forall>x \<in> set ts. t - x < secs (max (esc_breaker_window_secs cfg) 1)"
    by (meson diff_le_mono2 le_less_trans)
  then show ?thesis by (simp add: recent_failures_def filter_True)
qed

definition window_of :: "EscalationConfig \<Rightarrow> instant list \<Rightarrow> bool" where
  "window_of cfg ts \<longleftrightarrow> sorted ts \<and> last ts - hd ts < secs (max (esc_breaker_window_secs cfg) 1)"

lemma window_of_snoc:
  assumes "window_of cfg (ts @ [t])" "ts \<noteq> []"
  shows "window_of cfg ts" "sorted ts" "t - hd ts < secs (max (esc_breaker_window_secs cfg) 1)"
proof -
  from assms show s: "sorted ts" and d: "t - hd ts < secs (max (esc_breaker_window_secs cfg) 1)"
    by (simp_all add: window_of_def sorted_append)
  have "last ts \<le> t" using assms by (auto simp: window_of_def sorted_append)
  with s d show "window_of cfg ts" by (simp add: window_of_def)
qed

lemma run_failures:
  assumes "window_of cfg ts" "ts \<noteq> []" "length ts < breaker_limit cfg" "b m = None" "breaker_ok cfg b"
  shows "breaker_run cfg (map (\<lambda>t. Failed t m) ts) b = b(m \<mapsto> \<lparr> br_failures = ts, br_open_until = None \<rparr>)"
  using assms(1-3)
proof (induction ts rule: rev_induct)
  case (snoc t ts)
  show ?case
  proof (cases "ts = []")
    case True
    with snoc.prems assms(4) failure_step [OF assms(5), of t m] show ?thesis
      by (simp add: breaker_run_def recent_failures_def)
  next
    case False
    let ?b = "b(m \<mapsto> \<lparr> br_failures = ts, br_open_until = None \<rparr>)"
    note w = window_of_snoc [OF snoc.prems(1) False]
    from False snoc.prems w have IH: "breaker_run cfg (map (\<lambda>t. Failed t m) ts) b = ?b"
      by (intro snoc.IH) simp_all
    have ok: "breaker_ok cfg ?b" using assms(5) snoc.prems(3) by (auto simp: breaker_ok_def)
    have "fst (record_model_failure cfg t m ?b) = ?b(m \<mapsto> \<lparr> br_failures = ts @ [t], br_open_until = None \<rparr>)"
      using snoc.prems(3) recent_all [OF w(2) False w(3), of m b None]
      by (simp add: failure_step [OF ok])
    with IH show ?thesis by (simp add: breaker_run_def)
  qed
qed simp

lemma run_failures_opens:
  assumes "window_of cfg (ts @ [t])" "length (ts @ [t]) = breaker_limit cfg" "b m = None" "breaker_ok cfg b"
  shows "breaker_run cfg (map (\<lambda>t. Failed t m) (ts @ [t])) b =
    b(m \<mapsto> \<lparr> br_failures = [], br_open_until = Some (t + secs (max (esc_breaker_cooldown_secs cfg) 1)) \<rparr>)"
proof (cases "ts = []")
  case True
  with assms failure_step [OF assms(4), of t m] show ?thesis
    by (simp add: breaker_run_def recent_failures_def)
next
  case False
  let ?b = "b(m \<mapsto> \<lparr> br_failures = ts, br_open_until = None \<rparr>)"
  note w = window_of_snoc [OF assms(1) False]
  have r: "breaker_run cfg (map (\<lambda>t. Failed t m) ts) b = ?b"
    using False w assms by (intro run_failures) simp_all
  have ok: "breaker_ok cfg ?b" using assms(2,4) by (auto simp: breaker_ok_def)
  have "fst (record_model_failure cfg t m ?b) =
      ?b(m \<mapsto> \<lparr> br_failures = [], br_open_until = Some (t + secs (max (esc_breaker_cooldown_secs cfg) 1)) \<rparr>)"
    using assms(2) recent_all [OF w(2) False w(3), of m b None]
    by (simp add: failure_step [OF ok])
  with r show ?thesis by (simp add: breaker_run_def)
qed

text \<open>A breaker that is open has opened at most one cooldown ago.\<close>

lemma failure_open_until:
  assumes "breaker_ok cfg b" "fst (record_model_failure cfg now m b) x = Some st" "br_open_until st = Some u"
  shows "(x = m \<and> u = now + secs (max (esc_breaker_cooldown_secs cfg) 1))
    \<or> Option.bind (b x) br_open_until = Some u"
  using assms(2,3) by (auto simp: failure_step [OF assms(1)] split: if_splits)

end
