(* ===== verification/Provider_Error.thy ===== *)
theory Provider_Error
  imports Rust_Str
begin

text \<open>
  The errors of a provider call (\<open>aura-core/src/provider/error.rs\<close>): the enumeration, its
  constructors, which errors are worth a retry, and the code and status the API answers with.
  The conversions from the HTTP client's and the JSON library's own errors take what those
  libraries answer as arguments.
\<close>

datatype ProviderError =
    InvalidRequest rstring "rstring option"
  | Authentication rstring
  | RateLimit rstring "u64 option"
  | ModelNotFound rstring
  | PE_ContentFilter rstring
  | ServiceUnavailable rstring
  | Timeout u64
  | Network rstring
  | ParseError rstring
  | StreamError rstring
  | PE_ProviderError u16 rstring "rstring option"
  | Internal rstring

definition invalid_request :: "rstring \<Rightarrow> ProviderError" where
  "invalid_request message = InvalidRequest message None"

definition invalid_request_with_param :: "rstring \<Rightarrow> rstring \<Rightarrow> ProviderError" where
  "invalid_request_with_param message param = InvalidRequest message (Some param)"

definition rate_limit :: "rstring \<Rightarrow> ProviderError" where
  "rate_limit message = RateLimit message None"

definition rate_limit_with_retry :: "rstring \<Rightarrow> u64 \<Rightarrow> ProviderError" where
  "rate_limit_with_retry message retry_after = RateLimit message (Some retry_after)"

definition from_provider :: "u16 \<Rightarrow> rstring \<Rightarrow> ProviderError" where
  "from_provider status_code message = PE_ProviderError status_code message None"

fun is_retryable :: "ProviderError \<Rightarrow> bool" where
  "is_retryable (RateLimit _ _) = True"
| "is_retryable (ServiceUnavailable _) = True"
| "is_retryable (Timeout _) = True"
| "is_retryable (Network _) = True"
| "is_retryable _ = False"

fun error_code :: "ProviderError \<Rightarrow> rstring" where
  "error_code (InvalidRequest _ _) = ''invalid_request''"
| "error_code (Authentication _) = ''authentication_error''"
| "error_code (RateLimit _ _) = ''rate_limit_exceeded''"
| "error_code (ModelNotFound _) = ''model_not_found''"
| "error_code (PE_ContentFilter _) = ''content_filter''"
| "error_code (ServiceUnavailable _) = ''service_unavailable''"
| "error_code (Timeout _) = ''timeout''"
| "error_code (Network _) = ''network_error''"
| "error_code (ParseError _) = ''parse_error''"
| "error_code (StreamError _) = ''stream_error''"
| "error_code (PE_ProviderError _ _ _) = ''provider_error''"
| "error_code (Internal _) = ''internal_error''"

fun status_code :: "ProviderError \<Rightarrow> u16" where
  "status_code (InvalidRequest _ _) = 400"
| "status_code (Authentication _) = 401"
| "status_code (RateLimit _ _) = 429"
| "status_code (ModelNotFound _) = 404"
| "status_code (PE_ContentFilter _) = 400"
| "status_code (ServiceUnavailable _) = 503"
| "status_code (Timeout _) = 504"
| "status_code (Network _) = 502"
| "status_code (ParseError _) = 502"
| "status_code (StreamError _) = 500"
| "status_code (PE_ProviderError s _ _) = s"
| "status_code (Internal _) = 500"

text \<open>What the HTTP client says of its error, and the conversion that reads it.\<close>

record reqwest_error =
  rq_is_timeout :: bool
  rq_is_connect :: bool
  rq_is_request :: bool
  rq_text :: rstring

definition from_reqwest :: "reqwest_error \<Rightarrow> ProviderError" where
  "from_reqwest err =
     (if rq_is_timeout err then Timeout 0
      else if rq_is_connect err then Network (''Connection failed: '' @ rq_text err)
      else if rq_is_request err then InvalidRequest (''Request error: '' @ rq_text err) None
      else Network (rq_text err))"

text \<open>The messages of \<open>thiserror\<close>.\<close>

fun ProviderError_display :: "ProviderError \<Rightarrow> rstring" where
  "ProviderError_display (InvalidRequest m _) = ''Invalid request: '' @ m"
| "ProviderError_display (Authentication m) = ''Authentication failed: '' @ m"
| "ProviderError_display (RateLimit m _) = ''Rate limit exceeded: '' @ m"
| "ProviderError_display (ModelNotFound m) = ''Model not found: '' @ m"
| "ProviderError_display (PE_ContentFilter m) = ''Content filtered: '' @ m"
| "ProviderError_display (ServiceUnavailable m) = ''Provider unavailable: '' @ m"
| "ProviderError_display (Timeout ms) = ''Request timeout after '' @ dec_digits (unat ms) @ ''ms''"
| "ProviderError_display (Network m) = ''Network error: '' @ m"
| "ProviderError_display (ParseError m) = ''Failed to parse response: '' @ m"
| "ProviderError_display (StreamError m) = ''Streaming error: '' @ m"
| "ProviderError_display (PE_ProviderError s m _) = ''Provider error ('' @ dec_digits (unat s) @ ''): '' @ m"
| "ProviderError_display (Internal m) = ''Internal error: '' @ m"

subsection \<open>Laws\<close>

text \<open>The code tells the kinds apart.\<close>

lemma error_code_inj:
  assumes "error_code a = error_code b"
  shows "is_retryable a = is_retryable b"
    and "(\<forall>s m t. a \<noteq> PE_ProviderError s m t) \<Longrightarrow> status_code a = status_code b"
  using assms by (cases a; cases b; simp)+

lemma retryable_codes:
  "is_retryable e \<longleftrightarrow>
     error_code e \<in> {''rate_limit_exceeded'', ''service_unavailable'', ''timeout'', ''network_error''}"
  by (cases e) simp_all

lemma retryable_status: "is_retryable e \<Longrightarrow> status_code e \<in> {429, 502, 503, 504}"
  by (cases e) simp_all

end
