(* ===== verification/Llm.thy ===== *)
theory Llm
  imports Features Scorer
begin

text \<open>
  The prompts of the LLM classifier and the gold-label judge, and the parsers of their replies
  (\<open>aura-core/src/router/auto/llm.rs\<close>). The JSON library is the argument \<open>from_str\<close>: the value a
  text parses to, if it parses.
\<close>

subsection \<open>Reading a JSON value\<close>

text \<open>\<open>Value::get\<close> with a string index, \<open>as_str\<close> and \<open>as_f64\<close>.\<close>

fun json_get :: "json \<Rightarrow> rstring \<Rightarrow> json option" where
  "json_get (JObj es) k = map_of es k"
| "json_get _ _ = None"

fun json_as_str :: "json \<Rightarrow> rstring option" where
  "json_as_str (JStr s) = Some s"
| "json_as_str _ = None"

fun json_number_f64 :: "json_number \<Rightarrow> f64" where
  "json_number_f64 (PosInt n) = f64_of_nat (unat n)"
| "json_number_f64 (NegInt i) = to_f64 (of_int (sint i))"
| "json_number_f64 (JFloat x) = x"

fun json_as_f64 :: "json \<Rightarrow> f64 option" where
  "json_as_f64 (JNum n) = Some (json_number_f64 n)"
| "json_as_f64 _ = None"

text \<open>A number of JSON is finite: \<open>serde_json\<close> cannot hold another one.\<close>

definition json_finite :: "json \<Rightarrow> bool" where
  "json_finite v \<longleftrightarrow> json_as_f64 v \<noteq> Some NaN"

text \<open>\<open>get(key).and_then(as_f64).unwrap_or(0.5).clamp(0.0, 1.0)\<close>, of both parsers.\<close>

definition confidence_of :: "json \<Rightarrow> f64" where
  "confidence_of v =
     clamp01 (case Option.bind (json_get v ''confidence'') json_as_f64 of
                Some x \<Rightarrow> x | None \<Rightarrow> f64_lit 5 10)"

text \<open>\<open>chars().take(n)\<close>.\<close>

definition take_chars :: "nat \<Rightarrow> rstring \<Rightarrow> rstring" where
  "take_chars n s = concat (take n (str_chars s))"

subsection \<open>The classifier\<close>

definition CLASSIFIER_EXCERPT_CHARS :: nat where
  "CLASSIFIER_EXCERPT_CHARS = 1500"

fun bool_str :: "bool \<Rightarrow> rstring" where
  "bool_str True = ''true''"
| "bool_str False = ''false''"

definition classifier_prompt :: "RequestFeatures \<Rightarrow> rstring \<Rightarrow> rstring" where
  "classifier_prompt f excerpt =
     ''You route requests to LLM tiers. Classify the request below into exactly one tier:'' @ nl @
     ''- simple: short factual questions, rewrites, translations, greetings'' @ nl @
     ''- medium: everyday assistant work, light code, single tool calls'' @ nl @
     ''- complex: multi-step engineering, debugging, long context, hard analysis'' @ nl @
     ''- reasoning: proofs, derivations, deep multi-constraint planning, research'' @ nl @ nl @
     ''Signals: input_tokens='' @ dec_digits (unat (ft_est_input_tokens f)) @ '', code='' @
     fmt_fixed 1 (ft_code f) @ '', reasoning_markers='' @ dec_digits (unat (ft_reasoning_matches f)) @
     '', technical_terms='' @ dec_digits (unat (ft_technical_matches f)) @ '', tools='' @
     dec_digits (unat (ft_tool_count f)) @ '', images='' @ bool_str (ft_has_images f) @
     '', continuation='' @ bool_str (ft_is_continuation f) @ '', explicit_intent='' @
     (case ft_explicit_intent f of Some Quick \<Rightarrow> ''quick'' | Some Deep \<Rightarrow> ''deep'' | None \<Rightarrow> ''none'') @
     nl @ nl @ ''Latest user text (may be truncated):'' @ nl @ dquote @ dquote @ dquote @ nl @
     take_chars CLASSIFIER_EXCERPT_CHARS excerpt @ nl @ dquote @ dquote @ dquote @ nl @ nl @
     ''Answer with one line of JSON and nothing else: {'' @ dquote @ ''tier'' @ dquote @ '':'' @
     dquote @ ''simple|medium|complex|reasoning'' @ dquote @ '','' @ dquote @ ''confidence'' @ dquote @
     '':0.0-1.0}''"

record ClassifierAnswer =
  ca_tier :: Tier
  ca_confidence :: f64

text \<open>From the first opening brace to the last closing one.\<close>

definition str_rfind :: "rstring \<Rightarrow> char \<Rightarrow> nat option" where
  "str_rfind s c = (if c \<in> set s then Some (length s - 1 - length (takeWhile (\<lambda>x. x \<noteq> c) (rev s))) else None)"

definition first_json_object :: "rstring \<Rightarrow> rstring option" where
  "first_json_object t =
     do { start \<leftarrow> str_find t ''{'';
          e \<leftarrow> str_rfind (drop start t) (CHR ''}'');
          Some (take (Suc (e + start) - start) (drop start t)) }"

text \<open>The JSON answer, when the reply holds one with a known tier.\<close>

definition json_answer :: "(rstring \<Rightarrow> json option) \<Rightarrow> rstring \<Rightarrow> ClassifierAnswer option" where
  "json_answer from_str t =
     do { s \<leftarrow> first_json_object t;
          v \<leftarrow> from_str s;
          n \<leftarrow> json_get v ''tier'';
          n \<leftarrow> json_as_str n;
          tier \<leftarrow> Tier_parse n;
          Some \<lparr> ca_tier = tier, ca_confidence = confidence_of v \<rparr> }"

text \<open>The bare words, in the order of the table.\<close>

definition answer_words :: "(rstring \<times> Tier) list" where
  "answer_words = [(''reasoning'', Reasoning), (''complex'', Complex), (''medium'', Medium), (''simple'', Simple)]"

definition words_of :: "unicode \<Rightarrow> rstring \<Rightarrow> rstring list" where
  "words_of U t = split_chars (\<lambda>c. \<not> u_alphabetic U c) (str_chars (to_ascii_lowercase t))"

definition parse_classifier_output ::
    "unicode \<Rightarrow> (rstring \<Rightarrow> json option) \<Rightarrow> rstring \<Rightarrow> ClassifierAnswer option" where
  "parse_classifier_output U from_str t =
     (case json_answer from_str t of
        Some a \<Rightarrow> Some a
      | None \<Rightarrow>
          map_option (\<lambda>(_, tier). \<lparr> ca_tier = tier, ca_confidence = f64_lit 5 10 \<rparr>)
            (find (\<lambda>(name, _). name \<in> set (words_of U t)) answer_words))"

subsection \<open>The judge\<close>

datatype JudgeVerdict = VA | VB | VTie

fun JudgeVerdict_as_str :: "JudgeVerdict \<Rightarrow> rstring" where
  "JudgeVerdict_as_str VA = ''a''"
| "JudgeVerdict_as_str VB = ''b''"
| "JudgeVerdict_as_str VTie = ''tie''"

definition cheap_sufficed :: "JudgeVerdict \<Rightarrow> bool" where
  "cheap_sufficed v \<longleftrightarrow> v \<noteq> VB"

record JudgeAnswer =
  ja_verdict :: JudgeVerdict
  ja_confidence :: f64
  ja_rationale :: "rstring option"

definition judge_prompt :: "rstring \<Rightarrow> rstring \<Rightarrow> rstring \<Rightarrow> nat \<Rightarrow> rstring" where
  "judge_prompt user_text answer_a answer_b max_chars =
     ''You are grading two assistant answers to the same user request. Judge correctness, completeness and how well each follows the request. Ignore length and style unless the request asks for them.'' @
     nl @ nl @ ''USER REQUEST:'' @ nl @ dquote @ dquote @ dquote @ nl @ take_chars max_chars user_text @
     nl @ dquote @ dquote @ dquote @ nl @ nl @ ''ANSWER A:'' @ nl @ dquote @ dquote @ dquote @ nl @
     take_chars max_chars answer_a @ nl @ dquote @ dquote @ dquote @ nl @ nl @ ''ANSWER B:'' @ nl @
     dquote @ dquote @ dquote @ nl @ take_chars max_chars answer_b @ nl @ dquote @ dquote @ dquote @
     nl @ nl @ ''Reply with one line of JSON and nothing else: {'' @ dquote @ ''verdict'' @ dquote @
     '':'' @ dquote @ ''a'' @ dquote @ ''|'' @ dquote @ ''b'' @ dquote @ ''|'' @ dquote @ ''tie'' @
     dquote @ '','' @ dquote @ ''confidence'' @ dquote @ '':0.0-1.0,'' @ dquote @ ''rationale'' @
     dquote @ '':'' @ dquote @ ''<=25 words'' @ dquote @ ''}. Use '' @ dquote @ ''a'' @ dquote @
     '' when A is at least as good as B, '' @ dquote @ ''b'' @ dquote @
     '' when B is clearly better, '' @ dquote @ ''tie'' @ dquote @ '' when they are equivalent.''"

definition verdict_of :: "rstring \<Rightarrow> JudgeVerdict option" where
  "verdict_of s =
     (let w = to_ascii_lowercase (str_trim s)
      in if w = ''a'' then Some VA
         else if w = ''b'' then Some VB
         else if w \<in> {''tie'', ''equal'', ''same''} then Some VTie
         else None)"

definition parse_judge_output :: "(rstring \<Rightarrow> json option) \<Rightarrow> rstring \<Rightarrow> JudgeAnswer option" where
  "parse_judge_output from_str t =
     do { s \<leftarrow> first_json_object t;
          v \<leftarrow> from_str s;
          x \<leftarrow> json_get v ''verdict'';
          x \<leftarrow> json_as_str x;
          w \<leftarrow> verdict_of x;
          Some \<lparr> ja_verdict = w, ja_confidence = confidence_of v,
                 ja_rationale = map_option (take_chars 500)
                   (Option.bind (json_get v ''rationale'') json_as_str) \<rparr> }"

subsection \<open>Laws\<close>

lemma str_find_char:
  assumes "str_find t [c] = Some i"
  shows "\<exists>a b. t = a @ c # b \<and> length a = i \<and> c \<notin> set a"
proof -
  from str_find_Some [OF assms] obtain a b where t: "t = a @ c # b" "length a = i" by auto
  have "c \<notin> set a"
  proof
    assume "c \<in> set a"
    then obtain a1 a2 where a: "a = a1 @ c # a2" by (auto dest: split_list)
    with t str_find_least [OF assms, of a1 "a2 @ c # b"] show False by simp
  qed
  with t show ?thesis by blast
qed

lemma str_rfind_char:
  assumes "str_rfind s c = Some e"
  shows "\<exists>a b. s = a @ c # b \<and> length a = e \<and> c \<notin> set b"
proof -
  from assms have "c \<in> set s" by (simp add: str_rfind_def split: if_splits)
  then obtain a b where s: "s = a @ c # b" "c \<notin> set b" by (auto dest: split_list_last)
  then have "takeWhile (\<lambda>x. x \<noteq> c) (rev s) = rev b"
    by (simp add: takeWhile_append2 takeWhile_tail) (metis set_rev takeWhile_append2 takeWhile.simps(2) append_Nil2)
  with assms s show ?thesis by (auto simp: str_rfind_def)
qed

text \<open>The slice runs from the first brace to the last one, and never goes backwards.\<close>

lemma first_json_object_sound:
  assumes "first_json_object t = Some s"
  shows "\<exists>a w b. t = a @ s @ b \<and> s = CHR ''{'' # w @ ''}'' \<and> CHR ''{'' \<notin> set a \<and> CHR ''}'' \<notin> set b"
proof -
  from assms obtain st e where f: "str_find t ''{'' = Some st"
    and e: "str_rfind (drop st t) (CHR ''}'') = Some e" and s: "s = take (Suc e) (drop st t)"
    by (auto simp: first_json_object_def split: bind_splits)
  from str_find_char [OF f] obtain a r where t: "t = a @ CHR ''{'' # r" "length a = st" "CHR ''{'' \<notin> set a"
    by blast
  from str_rfind_char [OF e] t obtain a2 b where r: "CHR ''{'' # r = a2 @ CHR ''}'' # b"
    "length a2 = e" "CHR ''}'' \<notin> set b" by auto
  from r(1) obtain w where w: "a2 = CHR ''{'' # w" by (cases a2) auto
  from s t r have "s = a2 @ ''}''" by simp
  with t r w show ?thesis
    by (intro exI [of _ a] exI [of _ w] exI [of _ b]) simp
qed

lemma clamp01_range: "x \<noteq> NaN \<Longrightarrow> f64_le (Fin 0) (clamp01 x) \<and> f64_le (clamp01 x) (Fin 1)"
  using f64_clamp_range [of x "Fin 0" "Fin 1"] by (simp add: clamp01_def)

text \<open>A confidence read from a reply is a probability.\<close>

definition json_values_finite :: "json \<Rightarrow> bool" where
  "json_values_finite v \<longleftrightarrow> (\<forall>k x. json_get v k = Some x \<longrightarrow> json_finite x)"

lemma confidence_of_range:
  "json_values_finite v \<Longrightarrow> f64_le (Fin 0) (confidence_of v) \<and> f64_le (confidence_of v) (Fin 1)"
  unfolding confidence_of_def
  by (rule clamp01_range) (auto simp: json_values_finite_def json_finite_def split: option.splits bind_splits)

lemma parse_classifier_confidence:
  assumes "parse_classifier_output U from_str t = Some a" "\<And>s v. from_str s = Some v \<Longrightarrow> json_values_finite v"
  shows "f64_le (Fin 0) (ca_confidence a) \<and> f64_le (ca_confidence a) (Fin 1)"
proof (cases "json_answer from_str t")
  case None
  with assms(1) show ?thesis by (auto simp: parse_classifier_output_def)
next
  case (Some x)
  with assms(1) have "\<exists>s v. from_str s = Some v \<and> ca_confidence a = confidence_of v"
    by (fastforce simp: parse_classifier_output_def json_answer_def split: bind_splits)
  with assms(2) confidence_of_range show ?thesis by metis
qed

lemma parse_judge_confidence:
  assumes "parse_judge_output from_str t = Some a" "\<And>s v. from_str s = Some v \<Longrightarrow> json_values_finite v"
  shows "f64_le (Fin 0) (ja_confidence a) \<and> f64_le (ja_confidence a) (Fin 1)"
proof -
  from assms(1) have "\<exists>s v. from_str s = Some v \<and> ja_confidence a = confidence_of v"
    by (fastforce simp: parse_judge_output_def split: bind_splits)
  with assms(2) confidence_of_range show ?thesis by metis
qed

text \<open>Without a usable JSON answer, the highest tier named as a word wins.\<close>

lemma parse_classifier_words:
  assumes "json_answer from_str t = None"
  shows "parse_classifier_output U from_str t =
    (if ''reasoning'' \<in> set (words_of U t) then Some \<lparr> ca_tier = Reasoning, ca_confidence = Fin (1 / 2) \<rparr>
     else if ''complex'' \<in> set (words_of U t) then Some \<lparr> ca_tier = Complex, ca_confidence = Fin (1 / 2) \<rparr>
     else if ''medium'' \<in> set (words_of U t) then Some \<lparr> ca_tier = Medium, ca_confidence = Fin (1 / 2) \<rparr>
     else if ''simple'' \<in> set (words_of U t) then Some \<lparr> ca_tier = Simple, ca_confidence = Fin (1 / 2) \<rparr>
     else None)"
  by (simp add: parse_classifier_output_def assms answer_words_def)

end
