(* ===== verification/Provider.thy ===== *)
theory Provider
  imports Provider_Error
begin

text \<open>
  A provider as its callers see it (the trait of \<open>aura-core/src/provider/mod.rs\<close>): its name, its
  list of models and its answer to \<open>supports_model\<close>, which an implementation may override.
\<close>

record provider =
  pv_name :: rstring
  pv_models :: "rstring list"
  pv_supports :: "rstring \<Rightarrow> bool"

definition default_supports_model :: "rstring list \<Rightarrow> rstring \<Rightarrow> bool" where
  "default_supports_model models model \<longleftrightarrow> (\<exists>m \<in> set models. m = model \<or> starts_with model m)"

definition default_provider :: "rstring \<Rightarrow> rstring list \<Rightarrow> provider" where
  "default_provider name models =
     \<lparr> pv_name = name, pv_models = models, pv_supports = default_supports_model models \<rparr>"

end
