(* ===== verification/Gateway.thy ===== *)
theory Gateway
  imports Auto_Router Learned Cost Catalog Breaker Provider_Error Llm Provider
begin

text \<open>
  The gateway around the auto router: the parts of \<open>AppState\<close> that routing reads and writes
  (\<open>aura-proxy/src/main.rs\<close>), the eligibility oracle over them, the resolution of \<open>auto\<close> to a
  concrete model and the escalation after a provider failure
  (\<open>aura-proxy/src/routes/auto_routing.rs\<close>).

  The state is passed and returned. What lies outside the source (database lookups, provider
  calls, the JSON library, the clock) is the record \<open>services\<close> or an argument. A hash map whose
  iteration order the code observes is the list of its entries. Metrics, log lines and the
  sampling of gold pairs leave no trace in what the model returns.
\<close>

subsection \<open>State\<close>

record AppState =
  as_config :: AutoRoutingConfig
  as_providers :: "(rstring \<times> provider) list"
  as_model_map :: "rstring \<rightharpoonup> rstring"
  as_cost_calculator :: CostCalculator
  as_auto_router :: "AutoRouter option"
  as_router_dropped :: "rstring list"
  as_model_catalog :: ModelCatalog
  as_arm_stats :: "rstring \<times> rstring \<rightharpoonup> ArmStats"
  as_learned_model :: "LearnedModel option"
  as_cost_model :: "CostModel option"
  as_model_breaker :: breaker_map

record services =
  sv_env :: env
  sv_math :: math
  sv_from_str :: "rstring \<Rightarrow> json option"
  sv_find_model_by_id :: "rstring \<Rightarrow> rstring option"
  sv_complete :: "provider \<Rightarrow> Request \<Rightarrow> (ProviderError + Response) option"

definition provider_name_for_catalog_model :: "AppState \<Rightarrow> rstring \<Rightarrow> rstring option" where
  "provider_name_for_catalog_model st model =
     (case as_model_map st model of
        Some name \<Rightarrow> Some name
      | None \<Rightarrow>
          map_option fst
            (find (\<lambda>(_, p). pv_supports p model)
              (filter (\<lambda>(name, _). name \<noteq> ''ollama'') (as_providers st))))"

definition get_provider :: "AppState \<Rightarrow> rstring \<Rightarrow> provider option" where
  "get_provider st model =
     (case as_model_map st model of
        Some name \<Rightarrow> map_of (as_providers st) name
      | None \<Rightarrow> map_option snd (find (\<lambda>(_, p). pv_supports p model) (as_providers st)))"

definition arm_stats_for :: "AppState \<Rightarrow> rstring \<Rightarrow> rstring \<Rightarrow> ArmStats option" where
  "arm_stats_for st tier model = as_arm_stats st (tier, model)"

text \<open>Building the router from a configuration, with the entries it drops.\<close>

definition build_auto_router :: "env \<Rightarrow> AutoRoutingConfig \<Rightarrow> AppState \<Rightarrow> AutoRouter option \<times> rstring list" where
  "build_auto_router e cfg st =
     (let cfg = (if has_candidates cfg then cfg
                 else cfg\<lparr> tiers := TierModels_from_catalog (as_model_catalog st) 3 \<rparr>);
          (cfg, dropped) = prune_unknown_models cfg (\<lambda>m. provider_name_for_catalog_model st m \<noteq> None);
          wanted = enabled cfg \<or> shadow_for_pinned_models cfg
      in (if wanted \<and> has_candidates cfg then Some (AutoRouter_new e cfg) else None, dropped))"

subsection \<open>The eligibility oracle\<close>

record GatewayEligibility =
  ge_needs_vision :: bool
  ge_needs_tools :: bool
  ge_needs_context :: u32
  ge_features :: "RequestFeatures option"

text \<open>
  The scan for images, as the closure runs it: it adds up the text it passes and stops at the
  first image.
\<close>

fun scan_parts :: "ContentPart list \<Rightarrow> nat \<Rightarrow> bool \<times> nat" where
  "scan_parts [] n = (False, n)"
| "scan_parts (CImage _ _ _ # ps) n = (True, n)"
| "scan_parts (CText t # ps) n = scan_parts ps (n + length t)"
| "scan_parts (CAudio _ _ # ps) n = scan_parts ps n"

fun scan_item :: "InputItem \<Rightarrow> nat \<Rightarrow> bool \<times> nat" where
  "scan_item (InMessage _ (IParts parts)) n = scan_parts parts n"
| "scan_item (InMessage _ (IText t)) n = (False, n + length t)"
| "scan_item (InFunctionCallOutput _ out) n = (False, n + length out)"
| "scan_item (InFunctionCall _ _ _) n = (False, n)"

fun scan_input :: "InputItem list \<Rightarrow> nat \<Rightarrow> bool \<times> nat" where
  "scan_input [] n = (False, n)"
| "scan_input (i # is) n =
     (case scan_item i n of (True, n') \<Rightarrow> (True, n') | (False, n') \<Rightarrow> scan_input is n')"

definition for_request :: "env \<Rightarrow> AppState \<Rightarrow> Request \<Rightarrow> GatewayEligibility" where
  "for_request e st request =
     (let (needs_vision, text_chars) =
            scan_input (req_input request)
              (case req_instructions request of Some s \<Rightarrow> length s | None \<Rightarrow> 0);
          est_input = estimate_tokens (replicate (min text_chars 4000000) (CHR ''x''))
      in \<lparr> ge_needs_vision = needs_vision,
           ge_needs_tools = (case req_tools request of Some t \<Rightarrow> t \<noteq> [] | None \<Rightarrow> False),
           ge_needs_context = saturating_add est_input
             (case req_max_output_tokens request of Some n \<Rightarrow> n | None \<Rightarrow> 0),
           ge_features = (case (as_cost_model st, as_auto_router st) of
               (Some _, Some router) \<Rightarrow> Some (AutoRouter_features e router request)
             | _ \<Rightarrow> None) \<rparr>)"

definition gw_is_eligible :: "AppState \<Rightarrow> instant \<Rightarrow> GatewayEligibility \<Rightarrow> rstring \<Rightarrow> bool" where
  "gw_is_eligible st now g model =
     (if provider_name_for_catalog_model st model = None then False
      else if is_model_breaker_open now model (as_model_breaker st) then False
      else
        (let entry = ModelCatalog_get (as_model_catalog st) model;
             vision_ok = (case entry of Some e \<Rightarrow> supports_vision e | None \<Rightarrow> model_supports_vision model);
             tools_ok = (case entry of Some e \<Rightarrow> supports_tools e | None \<Rightarrow> model_supports_tools model)
         in if ge_needs_vision g \<and> \<not> vision_ok then False
            else if ge_needs_tools g \<and> \<not> tools_ok then False
            else (case Option.bind entry ce_context_window of
                    Some window \<Rightarrow> \<not> window < ge_needs_context g
                  | None \<Rightarrow> True)))"

definition gw_blended_cost :: "AppState \<Rightarrow> rstring \<Rightarrow> f64 option" where
  "gw_blended_cost st model =
     opt_or (Option.bind (ModelCatalog_get (as_model_catalog st) model) blended_per_million)
            (blended_cost_per_million (as_cost_calculator st) model)"

text \<open>A loaded cost model is a validated one, and a validated one does not panic.\<close>

definition gw_predicted_cost :: "math \<Rightarrow> AppState \<Rightarrow> GatewayEligibility \<Rightarrow> rstring \<Rightarrow> f64 option" where
  "gw_predicted_cost M st g model =
     do { cm \<leftarrow> as_cost_model st;
          features \<leftarrow> ge_features g;
          p \<leftarrow> predict_cost M cm features model
                (opt_or
                   (do { e \<leftarrow> ModelCatalog_get (as_model_catalog st) model;
                         i \<leftarrow> ce_input_per_million e; out \<leftarrow> ce_output_per_million e; Some (i, out) })
                   (map_option (\<lambda>p. (mp_input_per_million p, mp_output_per_million p))
                      (get_pricing (as_cost_calculator st) model)));
          map_option cp_cost_usd p }"

definition GatewayEligibility_oracle ::
    "math \<Rightarrow> AppState \<Rightarrow> instant \<Rightarrow> GatewayEligibility \<Rightarrow> eligibility" where
  "GatewayEligibility_oracle M st now g =
     \<lparr> is_eligible = (\<lambda>m. Some (gw_is_eligible st now g m)),
       blended_cost = gw_blended_cost st,
       provider_of = provider_name_for_catalog_model st,
       arm_stats_of = (\<lambda>tier m. arm_stats_for st (Tier_as_str tier) m),
       predicted_cost = gw_predicted_cost M st g \<rparr>"

text \<open>The gateway's oracle keeps the contract of the search.\<close>

interpretation gateway: answering "GatewayEligibility_oracle M st now g" "gw_is_eligible st now g"
  for M st now g
  by unfold_locales (simp add: GatewayEligibility_oracle_def)

subsection \<open>Resolving the model\<close>

record ApiError =
  api_code :: rstring
  api_message :: rstring
  api_param :: "rstring option"

definition ApiError_new :: "rstring \<Rightarrow> rstring \<Rightarrow> ApiError" where
  "ApiError_new code message = \<lparr> api_code = code, api_message = message, api_param = None \<rparr>"

definition ApiError_with_param :: "rstring \<Rightarrow> rstring \<Rightarrow> rstring \<Rightarrow> ApiError" where
  "ApiError_with_param code message param =
     \<lparr> api_code = code, api_message = message, api_param = Some param \<rparr>"

text \<open>The user's latest text, for the classifier's excerpt.\<close>

fun user_content :: "InputItem \<Rightarrow> rstring option" where
  "user_content (InMessage r c) =
     (if r = User
      then Some (case c of
             IText t \<Rightarrow> t
           | IParts parts \<Rightarrow> str_join '' '' (List.map_filter part_text parts))
      else None)"
| "user_content _ = None"

definition last_user_excerpt :: "Request \<Rightarrow> rstring" where
  "last_user_excerpt request =
     (case List.map_filter user_content (rev (req_input request)) of
        t # _ \<Rightarrow> take_chars CLASSIFIER_EXCERPT_CHARS t
      | [] \<Rightarrow> [])"

text \<open>The call that times out answers nothing.\<close>

definition llm_classify ::
    "services \<Rightarrow> AppState \<Rightarrow> LlmClassifierConfig \<Rightarrow> RequestFeatures \<Rightarrow> rstring \<Rightarrow>
     ClassifierOverride option" where
  "llm_classify sv st cfg features excerpt =
     (case get_provider st (llm_model cfg) of
        None \<Rightarrow> None
      | Some provider \<Rightarrow>
          (let req = (Request_text (llm_model cfg) (classifier_prompt features excerpt))
                       \<lparr> req_temperature := Some (Fin 0), req_max_output_tokens := Some 40 \<rparr>
           in case sv_complete sv provider req of
                Some (Inr resp) \<Rightarrow>
                  map_option (\<lambda>a. \<lparr> ov_tier = ca_tier a, ov_classifier = ''llm@'' @ llm_model cfg,
                                    ov_confidence = ca_confidence a \<rparr>)
                    (parse_classifier_output (en_unicode (sv_env sv)) (sv_from_str sv) (Response_text resp))
              | _ \<Rightarrow> None))"

definition is_synthetic_request :: "rstring option \<Rightarrow> bool" where
  "is_synthetic_request header =
     (case header of
        Some v \<Rightarrow> str_trim v \<notin> {[], ''0'', ''false'', ''off''}
      | None \<Rightarrow> False)"

text \<open>The classifier of a request that is really routed; the heuristic needs no override.\<close>

definition classifier_override ::
    "services \<Rightarrow> AppState \<Rightarrow> AutoRouter \<Rightarrow> DecisionContext \<Rightarrow> Request \<Rightarrow> ClassifierOverride option panics" where
  "classifier_override sv st router ctx request =
     (case effective_classifier router ctx of
        Llm \<Rightarrow>
          Some (llm_classify sv st (llm_classifier (ar_config router))
                  (AutoRouter_features (sv_env sv) router request) (last_user_excerpt request))
      | Learned \<Rightarrow>
          (case as_learned_model st of
             Some model \<Rightarrow>
               map_option (\<lambda>(tier, _, confidence).
                   Some \<lparr> ov_tier = tier, ov_classifier = classifier_label model, ov_confidence = confidence \<rparr>)
                 (LearnedModel_classify (sv_math sv) model (AutoRouter_features (sv_env sv) router request)
                    (effective_mode router ctx) (boundaries (ar_config router)) (mode_offsets (ar_config router)))
           | None \<Rightarrow> Some None)
      | Heuristic \<Rightarrow> Some None)"

definition model_not_found :: "rstring \<Rightarrow> nat \<times> ApiError" where
  "model_not_found message = (404, ApiError_with_param ''model_not_found'' message ''model'')"

definition AutoRouteError_display :: "AutoRouteError \<Rightarrow> rstring" where
  "AutoRouteError_display err =
     (case err of
        Disabled \<Rightarrow> ''auto routing is disabled''
      | NoCandidate tier n \<Rightarrow>
          ''no eligible model for tier '' @ Tier_as_str tier @ '' (considered '' @ dec_digits n @ '')'')"

text \<open>
  \<open>resolve_auto_model\<close>: the state and the request as it leaves them, and its result. The
  request's options are merged under the organization's; a shadow decision never changes the
  model.
\<close>

definition resolve_context ::
    "services \<Rightarrow> AutoRouter \<Rightarrow> OrgAutoRoutingOverride \<Rightarrow> Request \<Rightarrow> Request \<times> DecisionContext" where
  "resolve_context sv router org request =
     (let alias = parse_auto_model (req_model request);
          merged = (if OrgAutoRoutingOverride_is_empty org then None
                    else Some (merged_with org (req_routing request) (Option.bind alias alias_mode)));
          request' = (case merged of Some m \<Rightarrow> request\<lparr> req_routing := Some m \<rparr> | None \<Rightarrow> request)
      in (request',
          \<lparr> dc_requested_model = req_model request, dc_alias_mode = Option.bind alias alias_mode,
            dc_options = opt_or merged (req_routing request'),
            dc_previous_model = Option.bind (req_previous_response_id request) (sv_find_model_by_id sv),
            dc_shadow = alias = None \<or> \<not> AutoRouter_is_enabled router \<rparr>))"

definition resolve_auto_model ::
    "services \<Rightarrow> AppState \<Rightarrow> instant \<Rightarrow> OrgAutoRoutingOverride \<Rightarrow> bool \<Rightarrow> bool \<Rightarrow> Request \<Rightarrow>
     (AppState \<times> Request \<times> ((nat \<times> ApiError) + AutoDecision option)) panics" where
  "resolve_auto_model sv st now org has_org synthetic request =
     (let shadow = (parse_auto_model (req_model request) = None)
      in case as_auto_router st of
        None \<Rightarrow>
          Some (st, request,
            if shadow then Inr None
            else Inl (model_not_found (''Model '' @ apos @ ''auto'' @ apos
              @ '' requires auto routing, which is not enabled on this gateway (set routing.auto.enabled: true or AURA_AUTO_ROUTING=on)'')))
      | Some router \<Rightarrow>
          (let synthetic = (synthetic \<and> (\<not> has_org \<or> org_allow_synthetic org = Some True));
               shadow_enabled = (case org_shadow_for_pinned_models org of
                                   Some b \<Rightarrow> b | None \<Rightarrow> shadow_for_pinned_models (ar_config router));
               org_on = (case org_enabled org of Some b \<Rightarrow> b | None \<Rightarrow> AutoRouter_is_enabled router)
           in if shadow \<and> \<not> shadow_enabled then Some (st, request, Inr None)
              else if \<not> shadow \<and> \<not> org_on then
                Some (st, request, Inl (model_not_found (''Model '' @ apos @ ''auto'' @ apos
                  @ '' is not enabled for this organization'')))
              else
                (let (request, ctx) = resolve_context sv router org request;
                     orc = GatewayEligibility_oracle (sv_math sv) st now (for_request (sv_env sv) st request)
                 in case (if shadow then Some None else classifier_override sv st router ctx request) of
                      None \<Rightarrow> None
                    | Some ov \<Rightarrow>
                        (case decide_with_override (sv_env sv) router request ctx orc ov of
                           None \<Rightarrow> None
                         | Some (router', Inr d) \<Rightarrow>
                             Some (st\<lparr> as_auto_router := Some router' \<rparr>,
                                   if shadow then request else request\<lparr> req_model := ad_selected d \<rparr>,
                                   Inr (Some (d\<lparr> ad_shadow := shadow, ad_synthetic := synthetic \<rparr>)))
                         | Some (router', Inl Disabled) \<Rightarrow>
                             Some (st\<lparr> as_auto_router := Some router' \<rparr>, request,
                               Inl (model_not_found (''Model '' @ apos @ ''auto'' @ apos
                                 @ '' requires auto routing, which is not enabled on this gateway'')))
                         | Some (router', Inl err) \<Rightarrow>
                             Some (st\<lparr> as_auto_router := Some router' \<rparr>, request,
                               if shadow then Inr None
                               else Inl (503, ApiError_with_param ''no_eligible_model''
                                 (''Auto routing could not find an eligible model: '' @ AutoRouteError_display err)
                                 ''model''))))))"

subsection \<open>Escalation\<close>

text \<open>
  \<open>escalate_after_failure\<close>: the state, the request and the decision as it leaves them, and the
  provider to retry with.
\<close>

definition escalate_after_failure ::
    "services \<Rightarrow> AppState \<Rightarrow> instant \<Rightarrow> Request \<Rightarrow> AutoDecision option \<Rightarrow> ProviderError \<Rightarrow> u32 \<Rightarrow>
     (AppState \<times> Request \<times> AutoDecision option \<times> provider option) panics" where
  "escalate_after_failure sv st now request decision error attempt =
     (case as_auto_router st of
        None \<Rightarrow> Some (st, request, decision, None)
      | Some router \<Rightarrow>
          (let cfg = escalation (ar_config router);
               code = error_code error;
               failed_model = req_model request;
               st = (if triggers_on cfg code
                     then st\<lparr> as_model_breaker := fst (record_model_failure (escalation (as_config st)) now
                                failed_model (as_model_breaker st)) \<rparr>
                     else st)
           in case decision of
                None \<Rightarrow> Some (st, request, None, None)
              | Some d \<Rightarrow>
                  if ad_shadow d \<or> \<not> triggers_on cfg code \<or> esc_max_attempts cfg \<le> attempt
                  then Some (st, request, Some d, None)
                  else
                    (let exclude = map es_from_model (ad_escalations d) @ [failed_model];
                         orc = GatewayEligibility_oracle (sv_math sv) st now (for_request (sv_env sv) st request)
                     in case next_candidate (sv_env sv) router d (req_routing request) orc exclude of
                          None \<Rightarrow> None
                        | Some (router', None) \<Rightarrow>
                            Some (st\<lparr> as_auto_router := Some router' \<rparr>, request, Some d, None)
                        | Some (router', Some sel) \<Rightarrow>
                            (case get_provider st (sel_model sel) of
                               None \<Rightarrow> Some (st\<lparr> as_auto_router := Some router' \<rparr>, request, Some d, None)
                             | Some p \<Rightarrow>
                                 Some (st\<lparr> as_auto_router := Some router' \<rparr>,
                                       request\<lparr> req_model := sel_model sel \<rparr>,
                                       Some (apply_escalation d sel code), Some p)))))"

definition selected_model_header :: "AutoDecision option \<Rightarrow> (rstring \<Rightarrow> rstring option) \<Rightarrow> (rstring \<times> rstring) option" where
  "selected_model_header decision from_header =
     (case decision of
        None \<Rightarrow> None
      | Some d \<Rightarrow>
          if ad_shadow d then None
          else map_option (\<lambda>v. (''x-aura-selected-model'', v)) (from_header (ad_selected d)))"

text \<open>
  The retry loop of both completion paths (\<open>routes/responses.rs\<close>): call the provider, and while
  the escalation gives another one call that. \<open>call k p r\<close> is the outcome of the \<open>k\<close>-th call and
  \<open>clock k\<close> the time of its failure. The first argument bounds the number of calls; running out
  of it is \<open>None\<close>, a panic inside is \<open>Some None\<close>.
\<close>

fun attempt_loop ::
    "nat \<Rightarrow> services \<Rightarrow> (nat \<Rightarrow> provider \<Rightarrow> Request \<Rightarrow> ProviderError + 'r) \<Rightarrow> (nat \<Rightarrow> instant) \<Rightarrow>
     AppState \<Rightarrow> provider \<Rightarrow> Request \<Rightarrow> AutoDecision option \<Rightarrow> u32 \<Rightarrow>
     (AppState \<times> Request \<times> AutoDecision option \<times> (ProviderError + 'r) \<times> u32) panics option" where
  "attempt_loop 0 sv call clock st p request decision attempt = None"
| "attempt_loop (Suc fuel) sv call clock st p request decision attempt =
     (case call (unat attempt) p request of
        Inr r \<Rightarrow>
          Some (Some (st\<lparr> as_model_breaker := record_model_success (req_model request) (as_model_breaker st) \<rparr>,
                      request, decision, Inr r, attempt))
      | Inl e \<Rightarrow>
          (case escalate_after_failure sv st (clock (unat attempt)) request decision e attempt of
             None \<Rightarrow> Some None
           | Some (st', request', decision', Some p') \<Rightarrow>
               attempt_loop fuel sv call clock st' p' request' decision' (attempt + 1)
           | Some (st', request', decision', None) \<Rightarrow>
               Some (Some (st', request', decision', Inl e, attempt))))"

subsection \<open>What resolution and escalation guarantee\<close>

text \<open>A decision comes from \<open>decide_with_override\<close> over the gateway's own oracle.\<close>

lemma resolve_Some:
  assumes "resolve_auto_model sv st now org has_org syn req = Some (st', req', Inr (Some d))"
  obtains router req1 ctx ov r' d0 where
    "as_auto_router st = Some router" "resolve_context sv router org req = (req1, ctx)"
    "decide_with_override (sv_env sv) router req1 ctx
       (GatewayEligibility_oracle (sv_math sv) st now (for_request (sv_env sv) st req1)) ov = Some (r', Inr d0)"
    "ad_selected d = ad_selected d0" "ad_tier d = ad_tier d0" "ad_selected_provider d = ad_selected_provider d0"
    "ad_shadow d \<longleftrightarrow> parse_auto_model (req_model req) = None"
    "req' = (if parse_auto_model (req_model req) = None then req1 else req1\<lparr> req_model := ad_selected d \<rparr>)"
    "st' = st\<lparr> as_auto_router := Some r' \<rparr>"
proof -
  from assms obtain router where r: "as_auto_router st = Some router"
    by (auto simp: resolve_auto_model_def Let_def split: option.splits if_splits)
  obtain req1 ctx where c: "resolve_context sv router org req = (req1, ctx)" by fastforce
  from assms r c that show ?thesis
    by (auto simp: resolve_auto_model_def Let_def
        split: option.splits if_splits prod.splits sum.splits AutoRouteError.splits)
qed

lemma resolve_context_options:
  "resolve_context sv router org req = (req1, ctx) \<Longrightarrow>
     dc_options ctx = req_routing req1
     \<and> (org \<noteq> OrgAutoRoutingOverride_default \<longrightarrow>
          dc_options ctx = Some (merged_with org (req_routing req)
            (Option.bind (parse_auto_model (req_model req)) alias_mode)))
     \<and> (org = OrgAutoRoutingOverride_default \<longrightarrow> req1 = req)"
  by (auto simp: resolve_context_def Let_def OrgAutoRoutingOverride_is_empty_def split: if_splits)

lemma oracle_eligible [oracle_simps]:
  "is_eligible (GatewayEligibility_oracle M st now g) m = Some (gw_is_eligible st now g m)"
  "provider_of (GatewayEligibility_oracle M st now g) = provider_name_for_catalog_model st"
  by (simp_all add: GatewayEligibility_oracle_def)

text \<open>What an eligible model is, in the terms of the gateway's state.\<close>

lemma gw_eligible:
  assumes "gw_is_eligible st now g m"
  shows "provider_name_for_catalog_model st m \<noteq> None"
    and "\<not> is_model_breaker_open now m (as_model_breaker st)"
    and "ModelCatalog_get (as_model_catalog st) m = Some e \<Longrightarrow> ce_context_window e = Some w \<Longrightarrow> ge_needs_context g \<le> w"
    and "ModelCatalog_get (as_model_catalog st) m = Some e \<Longrightarrow> ge_needs_tools g \<Longrightarrow> supports_tools e"
    and "ModelCatalog_get (as_model_catalog st) m = Some e \<Longrightarrow> ge_needs_vision g \<Longrightarrow> supports_vision e"
  using assms by (auto simp: gw_is_eligible_def Let_def not_less split: if_splits)

text \<open>What one escalation does when it gives a provider.\<close>

lemma next_candidate_Some:
  assumes "next_candidate e r d options orc ex = Some (r', Some sel)"
  shows "ar_config r' = ar_config r" "sel_model sel \<notin> set ex" "ad_tier d \<le> sel_tier sel"
    "sel_model sel \<in> set (TierModels_get (cat_tiers (ar_catalog r)) (sel_tier sel))"
    "is_eligible (FilteredOracle orc options) (sel_model sel) = Some True"
    "sel_provider sel = provider_of orc (sel_model sel)"
    "cat_tiers (ar_catalog r') = cat_tiers (ar_catalog r)"
proof -
  let ?ex = "ExcludingOracle (FilteredOracle orc options) ex"
  from assms obtain cat nt where
    b: "budgeted_select e (ar_catalog r) (budget_of options) (ad_tier d) (ad_tier d)
          (max (case Option.bind options max_tier of Some t \<Rightarrow> t | None \<Rightarrow> Reasoning) (ad_tier d)) ?ex
        = Some (cat, Some sel, nt)" and r': "r' = r\<lparr> ar_catalog := cat \<rparr>"
    by (auto simp: next_candidate_def Let_def)
  note s = budgeted_select_sel [OF b]
  from r' show "ar_config r' = ar_config r" by simp
  from r' budgeted_select_tiers [OF b] show "cat_tiers (ar_catalog r') = cat_tiers (ar_catalog r)" by simp
  from s show "sel_model sel \<notin> set ex" "is_eligible (FilteredOracle orc options) (sel_model sel) = Some True"
    by (auto simp: eligible_excluding split: if_splits)
  from s show "sel_model sel \<in> set (TierModels_get (cat_tiers (ar_catalog r)) (sel_tier sel))"
    "sel_provider sel = provider_of orc (sel_model sel)"
    by (simp_all add: oracle_frame)
  from s(4) show "ad_tier d \<le> sel_tier sel" by (auto simp: set_search_order)
qed

lemma escalate_frame:
  assumes "escalate_after_failure sv st now req dec err n = Some (st', req', dec', p)"
  shows "map_option ar_config (as_auto_router st') = map_option ar_config (as_auto_router st)"
    and "as_model_catalog st' = as_model_catalog st" "as_providers st' = as_providers st"
    "as_model_map st' = as_model_map st" "req_routing req' = req_routing req"
proof -
  have "map_option ar_config (as_auto_router st') = map_option ar_config (as_auto_router st)
    \<and> as_model_catalog st' = as_model_catalog st \<and> as_providers st' = as_providers st
    \<and> as_model_map st' = as_model_map st \<and> req_routing req' = req_routing req"
    using assms
    by (auto simp: escalate_after_failure_def Let_def next_candidate_def split: option.splits if_splits)
  then show "map_option ar_config (as_auto_router st') = map_option ar_config (as_auto_router st)"
    "as_model_catalog st' = as_model_catalog st" "as_providers st' = as_providers st"
    "as_model_map st' = as_model_map st" "req_routing req' = req_routing req" by blast+
qed

end
