(* ===== verification/Escalation.thy ===== *)
theory Escalation
  imports Gateway
begin

text \<open>
  The retry loop around a provider call: it stops, it never calls a model twice, every model it
  turns to is listed, permitted and eligible, and it leaves the breaker as the calls deserve.
\<close>

subsection \<open>One escalation\<close>

lemma escalate_Some:
  assumes "escalate_after_failure sv st now req dec err n = Some (st', req', dec', Some p)"
  obtains router d sel st1 router' where
    "as_auto_router st = Some router" "dec = Some d" "\<not> ad_shadow d"
    "triggers_on (escalation (ar_config router)) (error_code err)"
    "n < esc_max_attempts (escalation (ar_config router))"
    "st1 = st\<lparr> as_model_breaker := fst (record_model_failure (escalation (as_config st)) now
        (req_model req) (as_model_breaker st)) \<rparr>"
    "next_candidate (sv_env sv) router d (req_routing req)
       (GatewayEligibility_oracle (sv_math sv) st1 now (for_request (sv_env sv) st1 req))
       (map es_from_model (ad_escalations d) @ [req_model req]) = Some (router', Some sel)"
    "get_provider st1 (sel_model sel) = Some p"
    "st' = st1\<lparr> as_auto_router := Some router' \<rparr>" "req' = req\<lparr> req_model := sel_model sel \<rparr>"
    "dec' = Some (apply_escalation d sel (error_code err))"
  using assms
  by (auto simp: escalate_after_failure_def Let_def not_le split: option.splits if_splits)

lemma apply_escalation_simps [simp]:
  "ad_escalations (apply_escalation d sel c) = ad_escalations d @
     [\<lparr> es_from_model = ad_selected d, es_from_tier = ad_tier d, es_to_model = sel_model sel,
        es_to_tier = sel_tier sel, es_error_code = c \<rparr>]"
  "ad_selected (apply_escalation d sel c) = sel_model sel"
  "ad_tier (apply_escalation d sel c) = sel_tier sel"
  "ad_shadow (apply_escalation d sel c) = ad_shadow d"
  "ad_predicted_cost_usd (apply_escalation d sel c) = ad_predicted_cost_usd d"
  by (simp_all add: apply_escalation_def)

lemma escalate_None:
  "escalate_after_failure sv st now req dec err n = Some (st', req', dec', None) \<Longrightarrow>
     dec' = dec \<and> req' = req"
  by (auto simp: escalate_after_failure_def Let_def split: option.splits if_splits)

subsection \<open>The models tried\<close>

text \<open>The models a request has been sent to so far, in order.\<close>

definition tried :: "Request \<Rightarrow> AutoDecision option \<Rightarrow> rstring list" where
  "tried req dec = (case dec of Some d \<Rightarrow> map es_from_model (ad_escalations d) | None \<Rightarrow> []) @ [req_model req]"

text \<open>The decision, when there is one that applies, selected the request's model.\<close>

definition in_step :: "Request \<Rightarrow> AutoDecision option \<Rightarrow> bool" where
  "in_step req dec \<longleftrightarrow> (\<forall>d \<in> set_option dec. \<not> ad_shadow d \<longrightarrow> ad_selected d = req_model req)"

lemma escalate_tried:
  assumes "escalate_after_failure sv st now req dec err n = Some (st', req', dec', Some p)" "in_step req dec"
  shows "tried req' dec' = tried req dec @ [req_model req']" "req_model req' \<notin> set (tried req dec)"
    "in_step req' dec'"
proof -
  from assms(1) obtain router d sel st1 router' where
    s: "dec = Some d" "\<not> ad_shadow d"
    "next_candidate (sv_env sv) router d (req_routing req)
       (GatewayEligibility_oracle (sv_math sv) st1 now (for_request (sv_env sv) st1 req))
       (map es_from_model (ad_escalations d) @ [req_model req]) = Some (router', Some sel)"
    "req' = req\<lparr> req_model := sel_model sel \<rparr>" "dec' = Some (apply_escalation d sel (error_code err))"
    by (elim escalate_Some) blast
  then show "tried req' dec' = tried req dec @ [req_model req']"
    using assms(2) by (simp add: tried_def in_step_def)
  show "req_model req' \<notin> set (tried req dec)"
    using next_candidate_Some(2) [OF s(3)] s(1,4) by (simp add: tried_def)
  show "in_step req' dec'" using s(4,5) by (simp add: in_step_def)
qed

lemma loop_tried:
  assumes "attempt_loop fuel sv call clock st p req dec n = Some (Some (st', req', dec', res, k))"
    "in_step req dec" "distinct (tried req dec)"
  shows "distinct (tried req' dec') \<and> in_step req' dec'
    \<and> (\<exists>ms. tried req' dec' = tried req dec @ ms)"
  using assms
proof (induction fuel arbitrary: st p req dec n)
  case (Suc fuel)
  show ?case
  proof (cases "call (unat n) p req")
    case (Inr r)
    with Suc.prems show ?thesis by auto
  next
    case (Inl err)
    with Suc.prems(1) obtain st1 req1 dec1 q where
      e: "escalate_after_failure sv st (clock (unat n)) req dec err n = Some (st1, req1, dec1, q)"
      by (auto split: option.splits)
    show ?thesis
    proof (cases q)
      case None
      with Suc.prems Inl e escalate_None [OF e [unfolded None]] show ?thesis
        by (auto intro: exI [of _ "[]"])
    next
      case (Some p')
      note t = escalate_tried [OF e [unfolded Some] Suc.prems(2)]
      from Suc.prems(1) Inl e Some have
        "attempt_loop fuel sv call clock st1 p' req1 dec1 (n + 1) = Some (Some (st', req', dec', res, k))"
        by simp
      from Suc.IH [OF this t(3)] t(1,2) Suc.prems(3) show ?thesis by auto
    qed
  qed
qed simp

subsection \<open>Termination\<close>

definition max_retries :: "AppState \<Rightarrow> nat" where
  "max_retries st = (case as_auto_router st of
      None \<Rightarrow> 0 | Some r \<Rightarrow> unat (esc_max_attempts (escalation (ar_config r))))"

lemma max_retries_frame:
  "escalate_after_failure sv st now req dec err n = Some (st', req', dec', p) \<Longrightarrow> max_retries st' = max_retries st"
  using escalate_frame(1) [of sv st now req dec err n st' req' dec' p]
  by (auto simp: max_retries_def split: option.splits)

lemma escalate_attempts:
  assumes "escalate_after_failure sv st now req dec err n = Some (st', req', dec', Some p)"
  shows "unat n < max_retries st" "unat (n + 1) = Suc (unat n)"
proof -
  from assms obtain router where r: "as_auto_router st = Some router"
    and n: "n < esc_max_attempts (escalation (ar_config router))"
    by (elim escalate_Some) blast
  then show "unat n < max_retries st" by (simp add: max_retries_def word_less_nat_alt)
  from n have "unat n < unat (esc_max_attempts (escalation (ar_config router)))"
    by (simp add: word_less_nat_alt)
  moreover have "unat (esc_max_attempts (escalation (ar_config router))) < 2 ^ 32"
    using unsigned_less [of "esc_max_attempts (escalation (ar_config router))", where 'a = nat] by simp
  ultimately show "unat (n + 1) = Suc (unat n)"
    by (simp add: unat_add_no_wrap)
qed

lemma loop_returns:
  assumes "max_retries st - unat n < fuel"
  shows "\<exists>x. attempt_loop fuel sv call clock st p req dec n = Some x
    \<and> (\<forall>st' req' dec' res k. x = Some (st', req', dec', res, k) \<longrightarrow> unat k \<le> max (unat n) (max_retries st))"
  using assms
proof (induction fuel arbitrary: st p req dec n)
  case (Suc fuel)
  show ?case
  proof (cases "call (unat n) p req")
    case (Inl err)
    show ?thesis
    proof (cases "escalate_after_failure sv st (clock (unat n)) req dec err n")
      case (Some a)
      obtain st1 req1 dec1 q where a: "a = (st1, req1, dec1, q)" by (metis prod_cases4)
      show ?thesis
      proof (cases q)
        case (Some p')
        note e = \<open>escalate_after_failure sv st (clock (unat n)) req dec err n = Some a\<close> [unfolded a Some]
        note b = escalate_attempts [OF e] max_retries_frame [OF e]
        have "max_retries st1 - unat (n + 1) < fuel" using Suc.prems b by simp
        from Suc.IH [OF this, of p' req1 dec1] b Inl e show ?thesis by auto
      qed (use Inl Some a in auto)
    qed (use Inl in auto)
  qed auto
qed simp

subsection \<open>No panics\<close>

text \<open>With single-star patterns the escalation never panics.\<close>

lemma next_candidate_total:
  assumes "answering orc ok" "\<forall>q \<in> set_option options. simple_options q"
  shows "\<exists>r' s. next_candidate e r d options orc ex = Some (r', s)"
proof -
  from budgeted_select_total [OF answering_excluding [OF answering_filtered [OF assms]]]
  obtain x where "budgeted_select e (ar_catalog r) (budget_of options) (ad_tier d) (ad_tier d)
    (max (case Option.bind options max_tier of Some t \<Rightarrow> t | None \<Rightarrow> Reasoning) (ad_tier d))
    (ExcludingOracle (FilteredOracle orc options) ex) = Some x" by blast
  then show ?thesis by (cases x) (simp add: next_candidate_def Let_def)
qed

lemma escalate_total:
  assumes "\<forall>q \<in> set_option (req_routing req). simple_options q"
  shows "\<exists>x. escalate_after_failure sv st now req dec err n = Some x"
proof -
  have "\<exists>r' s. next_candidate (sv_env sv) router d (req_routing req)
      (GatewayEligibility_oracle (sv_math sv) st1 now (for_request (sv_env sv) st1 req)) ex = Some (r', s)"
    for st1 router d ex
    by (rule next_candidate_total [OF gateway.answering_axioms assms])
  then have "next_candidate (sv_env sv) router d (req_routing req)
      (GatewayEligibility_oracle (sv_math sv) st1 now (for_request (sv_env sv) st1 req)) ex \<noteq> None"
    for st1 router d ex by (metis option.distinct(1))
  then have "escalate_after_failure sv st now req dec err n \<noteq> None"
    by (simp add: escalate_after_failure_def Let_def split: option.split del: not_None_eq)
  then show ?thesis by blast
qed

lemma loop_no_panic:
  assumes "\<forall>q \<in> set_option (req_routing req). simple_options q"
  shows "attempt_loop fuel sv call clock st p req dec n \<noteq> Some None"
  using assms
proof (induction fuel arbitrary: st p req dec n)
  case (Suc fuel)
  show ?case
  proof (cases "call (unat n) p req")
    case (Inl err)
    from escalate_total [OF Suc.prems] obtain st1 req1 dec1 q where
      e: "escalate_after_failure sv st (clock (unat n)) req dec err n = Some (st1, req1, dec1, q)"
      by (metis prod_cases4)
    then have "\<forall>q \<in> set_option (req_routing req1). simple_options q"
      using Suc.prems escalate_frame(5) by metis
    with Suc.IH Inl e show ?thesis by (cases q) auto
  qed simp
qed simp

subsection \<open>Resolution finds a model when there is one\<close>

lemma decide_finds:
  assumes "answering orc ok" "\<forall>q \<in> set_option (dc_options ctx). simple_options q"
    and "enabled (ar_config r) \<or> dc_shadow ctx"
    and "tier_bounds (dc_options ctx) = (lo, hi, hf)" "lo \<le> t" "t \<le> hi"
    and "m \<in> set (TierModels_get (cat_tiers (ar_catalog r)) t)"
    and "is_eligible (FilteredOracle orc (dc_options ctx)) m = Some True"
  shows "\<exists>r' d. decide_with_override e r req ctx orc ov = Some (r', Inr d)"
proof -
  obtain r' x where x: "decide_with_override e r req ctx orc ov = Some (r', x)"
    using decide_total [OF assms(1,2)] by blast
  show ?thesis
  proof (cases x)
    case (Inl err)
    with x assms decide_NoCandidate_none [of e r req ctx orc ov r' _ _ lo hi hf t m] show ?thesis
      by (cases err) (auto dest: decide_Disabled)
  qed (use x in auto)
qed

lemma resolve_finds:
  assumes "as_auto_router st = Some router" "parse_auto_model (req_model req) \<noteq> None"
    and "resolve_context sv router org req = (req1, ctx)"
    and "org_enabled org = Some True \<or> org_enabled org = None \<and> AutoRouter_is_enabled router"
    and "effective_classifier router ctx \<noteq> Learned"
    and "\<forall>q \<in> set_option (dc_options ctx). simple_options q"
    and "tier_bounds (dc_options ctx) = (lo, hi, hf)" "lo \<le> t" "t \<le> hi"
    and "m \<in> set (TierModels_get (cat_tiers (ar_catalog router)) t)"
    and "permitted_by (dc_options ctx) (GatewayEligibility_oracle (sv_math sv) st now (for_request (sv_env sv) st req1)) m"
    and "gw_is_eligible st now (for_request (sv_env sv) st req1) m"
  shows "\<exists>st' req' d. resolve_auto_model sv st now org has_org syn req = Some (st', req', Inr (Some d))"
proof -
  let ?orc = "GatewayEligibility_oracle (sv_math sv) st now (for_request (sv_env sv) st req1)"
  have sh: "enabled (ar_config router) \<or> dc_shadow ctx"
    using assms(3) by (auto simp: resolve_context_def Let_def AutoRouter_is_enabled_def)
  have el: "is_eligible (FilteredOracle ?orc (dc_options ctx)) m = Some True"
    using assms(6,11,12) answering.answers [OF answering_filtered [OF gateway.answering_axioms assms(6)]]
    by simp
  have D: "\<exists>r' d. decide_with_override (sv_env sv) router req1 ctx ?orc ov = Some (r', Inr d)" for ov
    by (rule decide_finds [OF gateway.answering_axioms assms(6) sh assms(7-10) el])
  have "\<exists>ov. classifier_override sv st router ctx req1 = Some ov"
    using assms(5) by (cases "effective_classifier router ctx") (simp_all add: classifier_override_def)
  then obtain ov where ov: "classifier_override sv st router ctx req1 = Some ov" ..
  from D [of ov] obtain r' d where "decide_with_override (sv_env sv) router req1 ctx ?orc ov = Some (r', Inr d)"
    by blast
  with assms(1-4) ov show ?thesis
    by (auto simp: resolve_auto_model_def Let_def)
qed

end
