(* ===== verification/Example_Gateway.thy ===== *)
theory Example_Gateway
  imports Escalation
begin

text \<open>
  A small gateway on which the general theorems are instantiated: two models in two tiers, served
  by one provider, heuristic classification with empty keyword lists.
\<close>

definition ex_env :: env where
  "ex_env = \<lparr> en_unicode = ascii_unicode, en_regex = \<lparr> rx_new = (\<lambda>_ _. None), rx_escape = (\<lambda>s. s) \<rparr>,
     en_samp = (\<lambda>_ _ _. Fin 0), en_elapsed_us = 0 \<rparr>"

definition ex_cfg :: AutoRoutingConfig where
  "ex_cfg =
     \<lparr> enabled = True, default_mode = Balanced, default_classifier = Heuristic,
       llm_classifier = \<lparr> llm_model = ''a'', llm_timeout_ms = 800 \<rparr>, shadow_for_pinned_models = True,
       tiers = \<lparr> simple = [''a''], medium = [''b''], complex = [], reasoning = [] \<rparr>,
       boundaries = \<lparr> simple_medium = Fin (1 / 4), medium_complex = Fin (1 / 2), complex_reasoning = Fin (3 / 4) \<rparr>,
       mode_offsets = \<lparr> off_cost = Fin 0, off_balanced = Fin 0, off_quality = Fin (1 / 4) \<rparr>,
       weights = \<lparr> w_tokens = Fin 0, w_code = Fin 0, w_reasoning = Fin 0, w_technical = Fin 0,
         w_simple = Fin 0, w_multi_step = Fin 0, w_questions = Fin 0, w_tools = Fin 0,
         w_explicit_intent = Fin 0, w_continuation = Fin 0, w_output_length = Fin 0 \<rparr>,
       token_thresholds = \<lparr> th_short = 15, th_long = 400, th_long_output = 2000 \<rparr>,
       keyword_lists = \<lparr> kw_code = [], kw_reasoning = [], kw_technical = [], kw_simple = [],
         kw_intent_quick = [], kw_intent_deep = [] \<rparr>,
       within_tier = ConfigOrder, sticky_tool_loops = True, tools_min_tier = Some Medium,
       reasoning_override_matches = 3, outcome_rollup_interval_secs = 900,
       outcome_grace_secs = 1800, arm_stats_window_days = 30, gold_sample_rate = Fin 0,
       gold_sample_shadow = False, gold_judge_model = ''b'', gold_max_text_chars = 4000,
       escalation = \<lparr> esc_enabled = True, esc_max_attempts = 1, esc_on_errors = [''timeout''],
         esc_breaker_failures = 3, esc_breaker_window_secs = 60, esc_breaker_cooldown_secs = 30 \<rparr>,
       learned_weights_file = None, cost_weights_file = None \<rparr>"

definition ex_orc :: eligibility where
  "ex_orc = \<lparr> is_eligible = (\<lambda>m. Some (m = ''a'')), blended_cost = (\<lambda>_. None), provider_of = (\<lambda>_. None),
     arm_stats_of = (\<lambda>_ _. None), predicted_cost = (\<lambda>m. Some (Fin (if m = ''a'' then 1 else 5))) \<rparr>"

definition ex_router :: AutoRouter where
  "ex_router = AutoRouter_new ex_env ex_cfg"

text \<open>A request with a tool, whose floor is above the only eligible model.\<close>

definition ex_tool_req :: Request where
  "ex_tool_req = Request_with_tools (Request_text ''auto'' ''hi'') [TFunction (FunctionDefinition_new ''f'')]"

definition ex_opts :: RoutingOptions where
  "ex_opts = RoutingOptions_default\<lparr> deny := [''c*''], max_cost_usd := Some (Fin 2) \<rparr>"

definition ex_ctx :: DecisionContext where
  "ex_ctx = \<lparr> dc_requested_model = ''auto'', dc_alias_mode = None, dc_options = Some ex_opts,
     dc_previous_model = None, dc_shadow = False \<rparr>"

lemma ex_answering: "answering ex_orc (\<lambda>m. m = ''a'')"
  by unfold_locales (simp add: ex_orc_def)

lemma ex_simple_options: "simple_options ex_opts"
  by code_simp

lemma ex_features: "ft_tool_count (AutoRouter_features ex_env ex_router ex_tool_req) = 1"
  "\<not> ft_is_tool_loop_turn (AutoRouter_features ex_env ex_router ex_tool_req)"
  by code_simp+

lemma ex_eligible: "is_eligible (FilteredOracle ex_orc (Some ex_opts)) m = Some True \<longleftrightarrow> m = ''a''"
proof -
  have "permits ex_opts [] ''a'' = Some True" by code_simp
  then show ?thesis by (auto simp: eligible_filtered ex_orc_def)
qed

lemma ex_within_budget: "within_budget ex_orc (Fin 2) ''a''"
  by (simp add: within_budget_def ex_orc_def f64_lt_def)

lemma ex_tiers: "cat_tiers (ar_catalog ex_router) = \<lparr> simple = [''a''], medium = [''b''], complex = [], reasoning = [] \<rparr>"
  by (simp add: ex_router_def AutoRouter_new_def TierCatalog_new_def ex_cfg_def)

lemma ex_config: "ar_config ex_router = ex_cfg"
  by (simp add: ex_router_def AutoRouter_new_def)

lemma ex_bounds: "tier_bounds (Some ex_opts) = (Simple, Reasoning, [])"
  by code_simp

lemma ex_decide:
  "\<exists>r' d. decide_with_override ex_env ex_router ex_tool_req ex_ctx ex_orc None = Some (r', Inr d)
     \<and> ad_tier d = Simple \<and> ad_selected d = ''a''
     \<and> ad_features d = AutoRouter_features ex_env ex_router ex_tool_req"
proof -
  have o: "dc_options ex_ctx = Some ex_opts" by (simp add: ex_ctx_def)
  obtain r' x where x: "decide_with_override ex_env ex_router ex_tool_req ex_ctx ex_orc None = Some (r', x)"
    using decide_total [OF ex_answering, of ex_ctx ex_env ex_router ex_tool_req None] ex_simple_options
    by (auto simp: o)
  show ?thesis
  proof (cases x)
    case (Inl err)
    then have False
    proof (cases err)
      case Disabled
      with x Inl have "\<not> enabled (ar_config ex_router)" by (blast dest: decide_Disabled)
      then show ?thesis by (simp add: ex_config ex_cfg_def)
    next
      case (NoCandidate t n)
      have "is_eligible (FilteredOracle ex_orc (dc_options ex_ctx)) ''a'' \<noteq> Some True"
        by (rule decide_NoCandidate_none [OF x [unfolded Inl NoCandidate], of Simple Reasoning "[]" Simple])
          (simp_all add: o ex_bounds ex_tiers)
      then show ?thesis by (simp add: o ex_eligible)
    qed
    then show ?thesis ..
  next
    case (Inr d)
    note d = x [unfolded Inr]
    have "ad_selected d = ''a''"
      using decide_eligible(2) [OF d] by (simp add: o ex_eligible)
    moreover from this have "ad_tier d = Simple"
      using decide_eligible(1) [OF d] by (cases "ad_tier d") (simp_all add: ex_tiers)
    moreover have "ad_features d = AutoRouter_features ex_env ex_router ex_tool_req"
      using d by (rule decide_Inr)
    ultimately show ?thesis using d by blast
  qed
qed

subsection \<open>The gateway's state\<close>

definition ex_provider :: provider where
  "ex_provider = \<lparr> pv_name = ''p'', pv_models = [''a'', ''b''], pv_supports = (\<lambda>m. m \<in> {''a'', ''b''}) \<rparr>"

definition ex_st :: AppState where
  "ex_st = \<lparr> as_config = ex_cfg, as_providers = [(''p'', ex_provider)], as_model_map = Map.empty,
     as_cost_calculator = Map.empty, as_auto_router = Some ex_router, as_router_dropped = [],
     as_model_catalog = [], as_arm_stats = Map.empty, as_learned_model = None,
     as_cost_model = None, as_model_breaker = Map.empty \<rparr>"

definition ex_sv :: services where
  "ex_sv = \<lparr> sv_env = ex_env, sv_math = \<lparr> m_ln = (\<lambda>_. Fin 0), m_exp = (\<lambda>_. Fin 1), m_exp_m1 = (\<lambda>_. Fin 0) \<rparr>,
     sv_from_str = (\<lambda>_. None), sv_find_model_by_id = (\<lambda>_. None), sv_complete = (\<lambda>_ _. None) \<rparr>"

definition ex_org :: OrgAutoRoutingOverride where
  "ex_org = OrgAutoRoutingOverride_default\<lparr> org_deny := [''a''] \<rparr>"

definition ex_req :: Request where
  "ex_req = Request_text ''auto'' ''hi''"

definition ex_req1 :: Request where
  "ex_req1 = ex_req\<lparr> req_routing := Some (merged_with ex_org None None) \<rparr>"

definition ex_ctx1 :: DecisionContext where
  "ex_ctx1 = \<lparr> dc_requested_model = ''auto'', dc_alias_mode = None,
     dc_options = Some (merged_with ex_org None None), dc_previous_model = None, dc_shadow = False \<rparr>"

lemma ex_merged:
  "merged_with ex_org None None = RoutingOptions_default\<lparr> deny := [''a''] \<rparr>"
  by (simp add: merged_with_def ex_org_def OrgAutoRoutingOverride_default_def RoutingOptions_default_def)

lemma ex_parse: "parse_auto_model ''auto'' = Some \<lparr> alias_mode = None \<rparr>"
  by code_simp

lemma ex_context: "resolve_context ex_sv ex_router ex_org ex_req = (ex_req1, ex_ctx1)"
proof -
  have "req_model ex_req = ''auto''" "req_routing ex_req = None" "req_previous_response_id ex_req = None"
    by (simp_all add: ex_req_def Request_text_def Request_new_def)
  moreover have "\<not> OrgAutoRoutingOverride_is_empty ex_org" "AutoRouter_is_enabled ex_router"
    by (simp_all add: OrgAutoRoutingOverride_is_empty_def ex_org_def OrgAutoRoutingOverride_default_def
        AutoRouter_is_enabled_def ex_config ex_cfg_def)
  ultimately show ?thesis
    by (simp add: resolve_context_def Let_def ex_parse ex_req1_def ex_ctx1_def)
qed

abbreviation "ex_oracle1 \<equiv>
  GatewayEligibility_oracle (sv_math ex_sv) ex_st 0 (for_request (sv_env ex_sv) ex_st ex_req1)"

lemma ex_gw_eligible:
  "gw_is_eligible ex_st 0 (for_request (sv_env ex_sv) ex_st ex_req1) m \<longleftrightarrow> m = ''a'' \<or> m = ''b''"
proof -
  have "model_supports_tools ''a''" "model_supports_tools ''b''" by code_simp+
  moreover have "\<not> ge_needs_vision (for_request (sv_env ex_sv) ex_st ex_req1)"
    by (simp add: for_request_def Let_def ex_req1_def ex_req_def Request_text_def Request_new_def
        InputItem_user_def split: prod.splits)
  ultimately show ?thesis
    by (auto simp: gw_is_eligible_def Let_def provider_name_for_catalog_model_def ex_st_def ex_provider_def
        is_model_breaker_open_def ModelCatalog_get_def)
qed

lemma ex_provider_of: "provider_name_for_catalog_model ex_st ''b'' = Some ''p''"
  by (simp add: provider_name_for_catalog_model_def ex_st_def ex_provider_def)

lemma ex_pattern: "pattern_spec ''a'' p ''a''" "\<not> pattern_spec ''a'' ''p'' ''b''"
proof -
  have "simple_pattern ''a''" "pattern_matches ''a'' ''p'' ''b'' = Some False" by code_simp+
  then show "\<not> pattern_spec ''a'' ''p'' ''b''" 
    using pattern_matches_spec [of "''a''" "''p''" "''b''"] by simp
  have "to_ascii_lowercase (str_trim ''a'') = ''a''" "to_ascii_lowercase ''a'' = ''a''" by code_simp+
  then show "pattern_spec ''a'' p ''a''" by (simp add: pattern_spec_def glob_spec_literal del: glob_spec.simps)
qed

lemma ex_denied: "pattern_matches ''a'' p ''a'' = Some True"
proof -
  have "simple_pattern ''a''" by code_simp
  then show ?thesis using ex_pattern(1) [of p] pattern_matches_spec [of "''a''" p "''a''"] by simp
qed

lemma ex_simple1: "simple_options (merged_with ex_org None None)"
  unfolding ex_merged by code_simp

lemma ex_bounds1: "tier_bounds (Some (merged_with ex_org None None)) = (Simple, Reasoning, [])"
  unfolding ex_merged by code_simp

lemma ex_premises:
  "as_auto_router ex_st = Some ex_router" "parse_auto_model (req_model ex_req) \<noteq> None"
  "org_enabled ex_org = Some True \<or> org_enabled ex_org = None \<and> AutoRouter_is_enabled ex_router"
  "effective_classifier ex_router ex_ctx1 \<noteq> Learned"
  "\<forall>q \<in> set_option (dc_options ex_ctx1). simple_options q"
  "tier_bounds (dc_options ex_ctx1) = (Simple, Reasoning, [])"
  "''b'' \<in> set (TierModels_get (cat_tiers (ar_catalog ex_router)) Medium)"
  "gw_is_eligible ex_st 0 (for_request (sv_env ex_sv) ex_st ex_req1) ''b''"
proof -
  show "as_auto_router ex_st = Some ex_router" by (simp add: ex_st_def)
  show "parse_auto_model (req_model ex_req) \<noteq> None"
    by (simp add: ex_req_def Request_text_def Request_new_def ex_parse)
  show "org_enabled ex_org = Some True \<or> org_enabled ex_org = None \<and> AutoRouter_is_enabled ex_router"
    by (simp add: ex_org_def OrgAutoRoutingOverride_default_def AutoRouter_is_enabled_def ex_config ex_cfg_def)
  show "effective_classifier ex_router ex_ctx1 \<noteq> Learned"
    by (simp add: effective_classifier_def ex_ctx1_def ex_merged RoutingOptions_default_def ex_config ex_cfg_def)
qed (simp_all add: ex_ctx1_def ex_simple1 ex_bounds1 ex_tiers ex_gw_eligible)

lemma ex_permitted: "permitted_by (dc_options ex_ctx1) ex_oracle1 ''b''"
  using ex_pattern(2)
  by (simp add: permitted_by_def permits_spec_def ex_ctx1_def ex_merged RoutingOptions_default_def
      oracle_eligible ex_provider_of)

lemma ex_resolve:
  "\<exists>st' req' d. resolve_auto_model ex_sv ex_st 0 ex_org True False ex_req = Some (st', req', Inr (Some d))"
  by (rule resolve_finds [OF ex_premises(1,2) ex_context ex_premises(3,4,5,6) Simple_le_tier
        tier_le_Reasoning ex_premises(7) ex_permitted ex_premises(8)])

text \<open>Its retry loop, with a provider that always times out.\<close>

definition ex_call :: "nat \<Rightarrow> provider \<Rightarrow> Request \<Rightarrow> ProviderError + unit" where
  "ex_call k p r = Inl (Timeout 5)"

lemma ex_loop:
  "\<exists>st' req' dec' res k. attempt_loop 2 ex_sv ex_call (\<lambda>_. 0) ex_st ex_provider ex_req None 0 =
     Some (Some (st', req', dec', res, k))"
proof -
  have opts: "\<forall>q \<in> set_option (req_routing ex_req). simple_options q"
    by (simp add: ex_req_def Request_text_def Request_new_def)
  have "max_retries ex_st = 1" by (simp add: max_retries_def ex_st_def ex_config ex_cfg_def)
  then obtain x where "attempt_loop 2 ex_sv ex_call (\<lambda>_. 0) ex_st ex_provider ex_req None 0 = Some x"
    using loop_returns [of ex_st 0 2 ex_sv ex_call "\<lambda>_. 0" ex_provider ex_req None] by auto
  moreover from this have "x \<noteq> None"
    using loop_no_panic [OF opts, of 2 ex_sv ex_call "\<lambda>_. 0" ex_st ex_provider None 0] by auto
  ultimately show ?thesis by auto
qed

text \<open>An oracle that accepts nothing.\<close>

definition ex_closed :: eligibility where
  "ex_closed = ex_orc\<lparr> is_eligible := (\<lambda>_. Some False) \<rparr>"

lemma ex_no_candidate:
  "\<exists>r' t n. decide_with_override ex_env ex_router ex_tool_req ex_ctx ex_closed None = Some (r', Inl (NoCandidate t n))"
proof -
  have a: "answering ex_closed (\<lambda>_. False)" by unfold_locales (simp add: ex_closed_def)
  obtain r' x where x: "decide_with_override ex_env ex_router ex_tool_req ex_ctx ex_closed None = Some (r', x)"
    using decide_total [OF a, of ex_ctx ex_env ex_router ex_tool_req None] ex_simple_options
    by (auto simp: ex_ctx_def)
  show ?thesis
  proof (cases x)
    case (Inl err)
    with x decide_Disabled [of ex_env ex_router ex_tool_req ex_ctx ex_closed None r'] show ?thesis
      by (cases err) (auto simp: ex_config ex_cfg_def)
  next
    case (Inr d)
    from decide_eligible(2) [OF x [unfolded Inr]] show ?thesis
      by (simp add: eligible_filtered ex_closed_def)
  qed
qed

lemma ex_limit: "breaker_limit (escalation ex_cfg) = 3"
  by (simp add: breaker_limit_def ex_cfg_def max_def word_le_nat_alt)

end
