(* ===== verification/Endpoint.thy ===== *)
theory Endpoint
  imports Provider
begin

text \<open>Provider endpoints and their builder (\<open>aura-core/src/router/endpoint.rs\<close>).\<close>

record ProviderEndpoint =
  ep_id :: rstring
  ep_name :: rstring
  ep_provider :: provider
  ep_weight :: u32
  ep_priority :: u32
  ep_enabled :: bool
  ep_tags :: "rstring list"

definition ProviderEndpoint_new :: "rstring \<Rightarrow> rstring \<Rightarrow> provider \<Rightarrow> ProviderEndpoint" where
  "ProviderEndpoint_new i name p =
     \<lparr> ep_id = i, ep_name = name, ep_provider = p, ep_weight = 1, ep_priority = 0,
       ep_enabled = True, ep_tags = [] \<rparr>"

definition ProviderEndpoint_with_weight :: "u32 \<Rightarrow> ProviderEndpoint \<Rightarrow> ProviderEndpoint" where
  "ProviderEndpoint_with_weight w e = e\<lparr> ep_weight := w \<rparr>"

definition ProviderEndpoint_with_priority :: "u32 \<Rightarrow> ProviderEndpoint \<Rightarrow> ProviderEndpoint" where
  "ProviderEndpoint_with_priority p e = e\<lparr> ep_priority := p \<rparr>"

definition ProviderEndpoint_with_enabled :: "bool \<Rightarrow> ProviderEndpoint \<Rightarrow> ProviderEndpoint" where
  "ProviderEndpoint_with_enabled b e = e\<lparr> ep_enabled := b \<rparr>"

definition ProviderEndpoint_with_tags :: "rstring list \<Rightarrow> ProviderEndpoint \<Rightarrow> ProviderEndpoint" where
  "ProviderEndpoint_with_tags ts e = e\<lparr> ep_tags := ts \<rparr>"

definition ProviderEndpoint_provider_name :: "ProviderEndpoint \<Rightarrow> rstring" where
  "ProviderEndpoint_provider_name e = pv_name (ep_provider e)"

definition ProviderEndpoint_supports_model :: "ProviderEndpoint \<Rightarrow> rstring \<Rightarrow> bool" where
  "ProviderEndpoint_supports_model e m = pv_supports (ep_provider e) m"

definition ProviderEndpoint_models :: "ProviderEndpoint \<Rightarrow> rstring list" where
  "ProviderEndpoint_models e = pv_models (ep_provider e)"

subsection \<open>The builder\<close>

record ProviderEndpointBuilder =
  eb_id :: rstring
  eb_name :: rstring
  eb_provider :: provider
  eb_weight :: u32
  eb_priority :: u32
  eb_enabled :: bool
  eb_tags :: "rstring list"

definition ProviderEndpointBuilder_new :: "rstring \<Rightarrow> provider \<Rightarrow> ProviderEndpointBuilder" where
  "ProviderEndpointBuilder_new i p =
     \<lparr> eb_id = i, eb_name = i, eb_provider = p, eb_weight = 1, eb_priority = 0, eb_enabled = True,
       eb_tags = [] \<rparr>"

definition ProviderEndpointBuilder_name :: "rstring \<Rightarrow> ProviderEndpointBuilder \<Rightarrow> ProviderEndpointBuilder" where
  "ProviderEndpointBuilder_name n b = b\<lparr> eb_name := n \<rparr>"

definition ProviderEndpointBuilder_weight :: "u32 \<Rightarrow> ProviderEndpointBuilder \<Rightarrow> ProviderEndpointBuilder" where
  "ProviderEndpointBuilder_weight w b = b\<lparr> eb_weight := w \<rparr>"

definition ProviderEndpointBuilder_priority :: "u32 \<Rightarrow> ProviderEndpointBuilder \<Rightarrow> ProviderEndpointBuilder" where
  "ProviderEndpointBuilder_priority p b = b\<lparr> eb_priority := p \<rparr>"

definition ProviderEndpointBuilder_enabled :: "bool \<Rightarrow> ProviderEndpointBuilder \<Rightarrow> ProviderEndpointBuilder" where
  "ProviderEndpointBuilder_enabled x b = b\<lparr> eb_enabled := x \<rparr>"

definition ProviderEndpointBuilder_tag :: "rstring \<Rightarrow> ProviderEndpointBuilder \<Rightarrow> ProviderEndpointBuilder" where
  "ProviderEndpointBuilder_tag t b = b\<lparr> eb_tags := eb_tags b @ [t] \<rparr>"

definition ProviderEndpointBuilder_tags :: "rstring list \<Rightarrow> ProviderEndpointBuilder \<Rightarrow> ProviderEndpointBuilder" where
  "ProviderEndpointBuilder_tags ts b = b\<lparr> eb_tags := eb_tags b @ ts \<rparr>"

definition ProviderEndpointBuilder_build :: "ProviderEndpointBuilder \<Rightarrow> ProviderEndpoint" where
  "ProviderEndpointBuilder_build b =
     \<lparr> ep_id = eb_id b, ep_name = eb_name b, ep_provider = eb_provider b, ep_weight = eb_weight b,
       ep_priority = eb_priority b, ep_enabled = eb_enabled b, ep_tags = eb_tags b \<rparr>"

text \<open>A fresh builder builds what the constructor makes, named by its id.\<close>

lemma build_new: "ProviderEndpointBuilder_build (ProviderEndpointBuilder_new i p) = ProviderEndpoint_new i i p"
  by (simp add: ProviderEndpointBuilder_build_def ProviderEndpointBuilder_new_def ProviderEndpoint_new_def)

end
