(* ===== verification/Health.thy ===== *)
theory Health
  imports Provider_Error Clock F64
begin

text \<open>
  The health tracker of the smart router (\<open>aura-core/src/router/health.rs\<close>): per endpoint a
  circuit breaker over consecutive failures. The map behind the lock is passed and returned; the
  atomics inside an entry are plain fields, because every operation that writes one holds the
  map's write lock.
\<close>

datatype HealthState = Healthy | Unhealthy | HalfOpen

fun HealthState_display :: "HealthState \<Rightarrow> rstring" where
  "HealthState_display Healthy = ''healthy''"
| "HealthState_display Unhealthy = ''unhealthy''"
| "HealthState_display HalfOpen = ''half_open''"

record EndpointHealth =
  eh_state :: HealthState
  eh_success_count :: u64
  eh_failure_count :: u64
  eh_consecutive_failures :: u32
  eh_last_failure_ms :: "u64 option"
  eh_last_success_ms :: "u64 option"
  eh_last_error :: "rstring option"
  eh_circuit_opened_ms :: "u64 option"

definition EndpointHealth_default :: EndpointHealth where
  "EndpointHealth_default =
     \<lparr> eh_state = Healthy, eh_success_count = 0, eh_failure_count = 0, eh_consecutive_failures = 0,
       eh_last_failure_ms = None, eh_last_success_ms = None, eh_last_error = None,
       eh_circuit_opened_ms = None \<rparr>"

definition success_rate :: "EndpointHealth \<Rightarrow> f64" where
  "success_rate h =
     (let total = eh_success_count h + eh_failure_count h
      in if total = 0 then f64_lit 1 1
         else f64_div (f64_of_nat (unat (eh_success_count h))) (f64_of_nat (unat total)))"

definition EndpointHealth_is_available :: "EndpointHealth \<Rightarrow> bool" where
  "EndpointHealth_is_available h \<longleftrightarrow> eh_state h = Healthy \<or> eh_state h = HalfOpen"

record HealthEntry =
  he_state :: HealthState
  he_success_count :: u64
  he_failure_count :: u64
  he_consecutive_failures :: u64
  he_last_failure :: "instant option"
  he_last_success :: "instant option"
  he_last_error :: "rstring option"
  he_circuit_opened :: "instant option"

definition HealthEntry_default :: HealthEntry where
  "HealthEntry_default =
     \<lparr> he_state = Healthy, he_success_count = 0, he_failure_count = 0, he_consecutive_failures = 0,
       he_last_failure = None, he_last_success = None, he_last_error = None,
       he_circuit_opened = None \<rparr>"

record HealthConfig =
  failure_threshold :: u32
  recovery_timeout :: nat
  success_threshold :: u32
  rate_limit_is_failure :: bool

definition HealthConfig_default :: HealthConfig where
  "HealthConfig_default =
     \<lparr> failure_threshold = 5, recovery_timeout = secs 30, success_threshold = 2,
       rate_limit_is_failure = False \<rparr>"

record HealthTracker =
  ht_entries :: "rstring \<rightharpoonup> HealthEntry"
  ht_config :: HealthConfig

definition HealthTracker_new :: "HealthConfig \<Rightarrow> HealthTracker" where
  "HealthTracker_new c = \<lparr> ht_entries = Map.empty, ht_config = c \<rparr>"

definition HealthTracker_with_defaults :: HealthTracker where
  "HealthTracker_with_defaults = HealthTracker_new HealthConfig_default"

text \<open>\<open>entry(id).or_default()\<close>.\<close>

definition entry_of_endpoint :: "HealthTracker \<Rightarrow> rstring \<Rightarrow> HealthEntry" where
  "entry_of_endpoint h e = (case ht_entries h e of Some en \<Rightarrow> en | None \<Rightarrow> HealthEntry_default)"

definition put_entry :: "rstring \<Rightarrow> HealthEntry \<Rightarrow> HealthTracker \<Rightarrow> HealthTracker" where
  "put_entry e en h = h\<lparr> ht_entries := (ht_entries h)(e \<mapsto> en) \<rparr>"

definition register_endpoint :: "rstring \<Rightarrow> HealthTracker \<Rightarrow> HealthTracker" where
  "register_endpoint e h = put_entry e (entry_of_endpoint h e) h"

definition is_healthy :: "instant \<Rightarrow> HealthTracker \<Rightarrow> rstring \<Rightarrow> bool" where
  "is_healthy now h e =
     (case ht_entries h e of
        Some en \<Rightarrow>
          (case he_state en of
             Healthy \<Rightarrow> True
           | Unhealthy \<Rightarrow>
               (case he_circuit_opened en of
                  Some opened \<Rightarrow> recovery_timeout (ht_config h) \<le> now - opened
                | None \<Rightarrow> False)
           | HalfOpen \<Rightarrow> True)
      | None \<Rightarrow> True)"

definition record_success :: "instant \<Rightarrow> rstring \<Rightarrow> HealthTracker \<Rightarrow> HealthTracker" where
  "record_success now e h =
     (let en = entry_of_endpoint h e;
          en = en\<lparr> he_success_count := he_success_count en + 1, he_consecutive_failures := 0,
                   he_last_success := Some now \<rparr>
      in put_entry e
           (case he_state en of
              HalfOpen \<Rightarrow> en\<lparr> he_state := Healthy, he_circuit_opened := None \<rparr>
            | Unhealthy \<Rightarrow> en\<lparr> he_state := Healthy, he_circuit_opened := None \<rparr>
            | Healthy \<Rightarrow> en) h)"

definition is_rate_limit :: "ProviderError \<Rightarrow> bool" where
  "is_rate_limit err = (case err of RateLimit _ _ \<Rightarrow> True | _ \<Rightarrow> False)"

definition record_failure :: "instant \<Rightarrow> rstring \<Rightarrow> ProviderError \<Rightarrow> HealthTracker \<Rightarrow> HealthTracker" where
  "record_failure now e err h =
     (if \<not> rate_limit_is_failure (ht_config h) \<and> is_rate_limit err then h
      else
        (let en = entry_of_endpoint h e;
             consecutive = he_consecutive_failures en + 1;
             en = en\<lparr> he_failure_count := he_failure_count en + 1,
                      he_consecutive_failures := consecutive, he_last_failure := Some now,
                      he_last_error := Some (ProviderError_display err) \<rparr>
         in put_entry e
              (case he_state en of
                 Healthy \<Rightarrow>
                   if ucast (failure_threshold (ht_config h)) \<le> consecutive
                   then en\<lparr> he_state := Unhealthy, he_circuit_opened := Some now \<rparr>
                   else en
               | HalfOpen \<Rightarrow> en\<lparr> he_state := Unhealthy, he_circuit_opened := Some now \<rparr>
               | Unhealthy \<Rightarrow> en\<lparr> he_circuit_opened := Some now \<rparr>) h))"

text \<open>
  \<open>now_ms\<close> is the wall clock in milliseconds, \<open>now\<close> the monotonic clock; the time of an event is
  the wall clock less the milliseconds since.
\<close>

definition event_ms :: "u64 \<Rightarrow> instant \<Rightarrow> instant option \<Rightarrow> u64 option" where
  "event_ms now_ms now i = map_option (\<lambda>i. saturating_sub now_ms (as_millis (now - i))) i"

definition health_of_entry :: "u64 \<Rightarrow> instant \<Rightarrow> HealthEntry \<Rightarrow> EndpointHealth" where
  "health_of_entry now_ms now en =
     \<lparr> eh_state = he_state en, eh_success_count = he_success_count en,
       eh_failure_count = he_failure_count en,
       eh_consecutive_failures = ucast (he_consecutive_failures en),
       eh_last_failure_ms = event_ms now_ms now (he_last_failure en),
       eh_last_success_ms = event_ms now_ms now (he_last_success en),
       eh_last_error = he_last_error en,
       eh_circuit_opened_ms = event_ms now_ms now (he_circuit_opened en) \<rparr>"

definition get_health :: "u64 \<Rightarrow> instant \<Rightarrow> HealthTracker \<Rightarrow> rstring \<Rightarrow> EndpointHealth option" where
  "get_health now_ms now h e = map_option (health_of_entry now_ms now) (ht_entries h e)"

definition all_health :: "u64 \<Rightarrow> instant \<Rightarrow> HealthTracker \<Rightarrow> (rstring \<rightharpoonup> EndpointHealth)" where
  "all_health now_ms now h = (\<lambda>e. get_health now_ms now h e)"

definition update_entry :: "(HealthEntry \<Rightarrow> HealthEntry) \<Rightarrow> rstring \<Rightarrow> HealthTracker \<Rightarrow> HealthTracker" where
  "update_entry f e h = (case ht_entries h e of Some en \<Rightarrow> put_entry e (f en) h | None \<Rightarrow> h)"

definition mark_healthy :: "rstring \<Rightarrow> HealthTracker \<Rightarrow> HealthTracker" where
  "mark_healthy =
     update_entry (\<lambda>en. en\<lparr> he_state := Healthy, he_consecutive_failures := 0, he_circuit_opened := None \<rparr>)"

definition mark_unhealthy :: "instant \<Rightarrow> rstring \<Rightarrow> HealthTracker \<Rightarrow> HealthTracker" where
  "mark_unhealthy now = update_entry (\<lambda>en. en\<lparr> he_state := Unhealthy, he_circuit_opened := Some now \<rparr>)"

definition health_reset :: "rstring \<Rightarrow> HealthTracker \<Rightarrow> HealthTracker" where
  "health_reset =
     update_entry (\<lambda>en. \<lparr> he_state = Healthy, he_success_count = 0, he_failure_count = 0,
       he_consecutive_failures = 0, he_last_failure = None, he_last_success = None,
       he_last_error = None, he_circuit_opened = None \<rparr>)"

subsection \<open>The machine and its invariant\<close>

text \<open>Every operation that changes the tracker is a step; time is whatever the clock says.\<close>

inductive tracker_step :: "HealthTracker \<Rightarrow> HealthTracker \<Rightarrow> bool" where
  registered: "tracker_step h (register_endpoint e h)"
| succeeded: "tracker_step h (record_success now e h)"
| failed: "tracker_step h (record_failure now e err h)"
| marked_up: "tracker_step h (mark_healthy e h)"
| marked_down: "tracker_step h (mark_unhealthy now e h)"
| was_reset: "tracker_step h (health_reset e h)"

inductive reachable :: "HealthConfig \<Rightarrow> HealthTracker \<Rightarrow> bool" for cfg where
  start: "reachable cfg (HealthTracker_new cfg)"
| step: "reachable cfg h \<Longrightarrow> tracker_step h h' \<Longrightarrow> reachable cfg h'"

inductive_cases tracker_stepE: "tracker_step h h'"

definition entry_ok :: "HealthConfig \<Rightarrow> HealthEntry \<Rightarrow> bool" where
  "entry_ok cfg en \<longleftrightarrow> he_state en \<noteq> HalfOpen
     \<and> (he_state en = Unhealthy \<longleftrightarrow> he_circuit_opened en \<noteq> None)
     \<and> (he_state en = Healthy \<longrightarrow>
          unat (he_consecutive_failures en) < max (unat (failure_threshold cfg)) 1)"

definition tracker_ok :: "HealthTracker \<Rightarrow> bool" where
  "tracker_ok h \<longleftrightarrow> (\<forall>e en. ht_entries h e = Some en \<longrightarrow> entry_ok (ht_config h) en)"

lemma unat_threshold: "unat (ucast (t :: u32) :: u64) = unat t"
proof -
  have "unat t < 2 ^ 64" using unsigned_less [of t, where 'a = nat] by simp
  then show ?thesis by (simp add: unsigned_ucast_eq take_bit_nat_eq_self)
qed

lemma unat_next_failure:
  assumes "unat (c :: u64) < max (unat (t :: u32)) 1"
  shows "unat (c + 1) = Suc (unat c)"
proof -
  have "unat c + 1 < 2 ^ 64" using assms unsigned_less [of t, where 'a = nat] by (simp add: max_def split: if_splits)
  then show ?thesis using unat_add_no_wrap [of c 1] by simp
qed

lemma entry_ok_next:
  "entry_ok cfg en \<Longrightarrow> he_state en = Healthy \<Longrightarrow>
     unat (he_consecutive_failures en + 1) = Suc (unat (he_consecutive_failures en))"
  by (rule unat_next_failure [of _ "failure_threshold cfg"]) (simp add: entry_ok_def)

lemma tracker_ok_put:
  "tracker_ok h \<Longrightarrow> entry_ok (ht_config h) en \<Longrightarrow> tracker_ok (put_entry e en h)"
  by (simp add: tracker_ok_def put_entry_def)

lemma config_put [simp]: "ht_config (put_entry e en h) = ht_config h"
  by (simp add: put_entry_def)

lemma entries_put: "ht_entries (put_entry e en h) = (ht_entries h)(e \<mapsto> en)"
  by (simp add: put_entry_def)

lemma entry_ok_default: "entry_ok cfg HealthEntry_default"
  by (simp add: entry_ok_def HealthEntry_default_def)

lemma entry_ok_of: "tracker_ok h \<Longrightarrow> entry_ok (ht_config h) (entry_of_endpoint h e)"
  by (simp add: entry_of_endpoint_def tracker_ok_def entry_ok_default split: option.splits)

lemma tracker_ok_update:
  assumes "tracker_ok h" "\<And>en. entry_ok (ht_config h) en \<Longrightarrow> entry_ok (ht_config h) (f en)"
  shows "tracker_ok (update_entry f e h)"
  using assms by (auto simp: update_entry_def tracker_ok_def put_entry_def split: option.splits)

text \<open>What one counted failure does to an entry that keeps the invariant.\<close>

definition failed_entry :: "HealthConfig \<Rightarrow> instant \<Rightarrow> ProviderError \<Rightarrow> HealthEntry \<Rightarrow> HealthEntry" where
  "failed_entry cfg now err en =
     (let en' = en\<lparr> he_failure_count := he_failure_count en + 1,
                     he_consecutive_failures := he_consecutive_failures en + 1,
                     he_last_failure := Some now, he_last_error := Some (ProviderError_display err) \<rparr>
      in if he_state en = Unhealthy then en'\<lparr> he_circuit_opened := Some now \<rparr>
         else if unat (failure_threshold cfg) \<le> Suc (unat (he_consecutive_failures en))
         then en'\<lparr> he_state := Unhealthy, he_circuit_opened := Some now \<rparr> else en')"

lemma record_failure_counted:
  assumes "tracker_ok h" "rate_limit_is_failure (ht_config h) \<or> \<not> is_rate_limit err"
  shows "record_failure now e err h = put_entry e (failed_entry (ht_config h) now err (entry_of_endpoint h e)) h"
proof -
  let ?en = "entry_of_endpoint h e"
  have ok: "entry_ok (ht_config h) ?en" using assms(1) by (rule entry_ok_of)
  show ?thesis
  proof (cases "he_state ?en")
    case Healthy
    with ok have n: "unat (he_consecutive_failures ?en + 1) = Suc (unat (he_consecutive_failures ?en))"
      by (blast intro: entry_ok_next)
    have "ucast (failure_threshold (ht_config h)) \<le> he_consecutive_failures ?en + 1 \<longleftrightarrow>
        unat (failure_threshold (ht_config h)) \<le> Suc (unat (he_consecutive_failures ?en))"
      unfolding word_le_nat_alt n unat_threshold ..
    with Healthy assms(2) show ?thesis by (auto simp: record_failure_def Let_def failed_entry_def)
  qed (use ok assms(2) in \<open>auto simp: record_failure_def Let_def failed_entry_def entry_ok_def\<close>)
qed

lemma entry_ok_failed: "entry_ok cfg en \<Longrightarrow> entry_ok cfg (failed_entry cfg now err en)"
proof -
  assume ok: "entry_ok cfg en"
  show ?thesis
  proof (cases "he_state en")
    case Healthy
    with ok have "unat (he_consecutive_failures en + 1) = Suc (unat (he_consecutive_failures en))"
      by (blast intro: entry_ok_next)
    with ok Healthy show ?thesis
      by (auto simp: failed_entry_def Let_def entry_ok_def max_def split: if_splits)
  qed (use ok in \<open>auto simp: failed_entry_def Let_def entry_ok_def\<close>)
qed

lemma tracker_ok_step: "tracker_step h h' \<Longrightarrow> tracker_ok h \<Longrightarrow> tracker_ok h' \<and> ht_config h' = ht_config h"
proof (induction rule: tracker_step.induct)
  case (registered h e)
  then show ?case by (simp add: register_endpoint_def tracker_ok_put entry_ok_of)
next
  case (succeeded h now e)
  then have "entry_ok (ht_config h) (entry_of_endpoint h e)" by (rule entry_ok_of)
  with succeeded show ?case
    unfolding record_success_def Let_def
    by (auto intro!: tracker_ok_put simp: entry_ok_def split: HealthState.splits)
next
  case (failed h now e err)
  then show ?case
    using record_failure_counted [OF failed, of err now e] entry_ok_failed [OF entry_ok_of [OF failed, of e], of now err]
    by (cases "rate_limit_is_failure (ht_config h) \<or> \<not> is_rate_limit err")
      (auto simp: tracker_ok_put, simp_all add: record_failure_def)
next
  case (marked_up h e)
  then show ?case
    unfolding mark_healthy_def
    by (auto intro!: tracker_ok_update simp: entry_ok_def, simp add: update_entry_def split: option.splits)
next
  case (marked_down h now e)
  then show ?case
    unfolding mark_unhealthy_def
    by (auto intro!: tracker_ok_update simp: entry_ok_def, simp add: update_entry_def split: option.splits)
next
  case (was_reset h e)
  then show ?case
    unfolding health_reset_def
    by (auto intro!: tracker_ok_update simp: entry_ok_def, simp add: update_entry_def split: option.splits)
qed

lemma reachable_ok: "reachable cfg h \<Longrightarrow> tracker_ok h \<and> ht_config h = cfg"
proof (induction rule: reachable.induct)
  case start
  show ?case by (simp add: tracker_ok_def HealthTracker_new_def)
qed (auto dest: tracker_ok_step)

subsection \<open>A run of failures\<close>

definition fail_run :: "rstring \<Rightarrow> (instant \<times> ProviderError) list \<Rightarrow> HealthTracker \<Rightarrow> HealthTracker" where
  "fail_run e fs h = fold (\<lambda>(t, err). record_failure t e err) fs h"

lemma fail_run_snoc: "fail_run e (fs @ [(t, err)]) h = record_failure t e err (fail_run e fs h)"
  by (simp add: fail_run_def)

lemma fail_run_ok: "tracker_ok h \<Longrightarrow> tracker_ok (fail_run e fs h) \<and> ht_config (fail_run e fs h) = ht_config h"
proof (induction fs rule: rev_induct)
  case (snoc f fs)
  then show ?case
    using tracker_ok_step [OF failed, of "fail_run e fs h" "fst f" e "snd f"]
    by (cases f) (simp add: fail_run_snoc)
qed (simp add: fail_run_def)

lemma fail_run_entry:
  assumes "tracker_ok h" "he_state (entry_of_endpoint h e) = Healthy"
    and "he_consecutive_failures (entry_of_endpoint h e) = 0"
    and "\<forall>(t, err) \<in> set fs. rate_limit_is_failure (ht_config h) \<or> \<not> is_rate_limit err" "fs \<noteq> []"
  shows "\<exists>en. ht_entries (fail_run e fs h) e = Some en
    \<and> (if length fs < max (unat (failure_threshold (ht_config h))) 1
       then he_state en = Healthy \<and> unat (he_consecutive_failures en) = length fs
       else he_state en = Unhealthy \<and> he_circuit_opened en = Some (fst (last fs)))"
  using assms(4,5)
proof (induction fs rule: rev_induct)
  case (snoc f fs)
  obtain t err where f: "f = (t, err)" by (cases f)
  let ?h = "fail_run e fs h" and ?m = "max (unat (failure_threshold (ht_config h))) 1"
  have ok: "tracker_ok ?h" "ht_config ?h = ht_config h" using fail_run_ok [OF assms(1)] by auto
  have "if length fs < ?m then he_state (entry_of_endpoint ?h e) = Healthy
        \<and> unat (he_consecutive_failures (entry_of_endpoint ?h e)) = length fs
      else he_state (entry_of_endpoint ?h e) = Unhealthy"
  proof (cases "fs = []")
    case True
    then show ?thesis using assms(2,3) by (simp add: fail_run_def)
  next
    case False
    with snoc.IH snoc.prems(1) obtain en where "ht_entries ?h e = Some en"
      "if length fs < ?m then he_state en = Healthy \<and> unat (he_consecutive_failures en) = length fs
       else he_state en = Unhealthy"
      by (auto split: if_splits)
    then show ?thesis by (simp add: entry_of_endpoint_def)
  qed
  moreover have "fail_run e (fs @ [f]) h = put_entry e (failed_entry (ht_config h) t err (entry_of_endpoint ?h e)) ?h"
    using record_failure_counted [OF ok(1), of err t e] snoc.prems(1) ok(2) by (simp add: f fail_run_snoc)
  moreover have "he_state (entry_of_endpoint ?h e) = Healthy \<Longrightarrow>
      unat (he_consecutive_failures (entry_of_endpoint ?h e) + 1) =
      Suc (unat (he_consecutive_failures (entry_of_endpoint ?h e)))"
    using entry_ok_next [OF entry_ok_of [OF ok(1)], of e] by simp
  ultimately show ?case
    by (auto simp: entries_put failed_entry_def Let_def f split: if_splits)
qed simp

text \<open>The circuit: open exactly from the threshold on, until the timeout after the last failure.\<close>

lemma fail_run_healthy:
  assumes "tracker_ok h" "he_state (entry_of_endpoint h e) = Healthy"
    and "he_consecutive_failures (entry_of_endpoint h e) = 0"
    and "\<forall>(t, err) \<in> set fs. rate_limit_is_failure (ht_config h) \<or> \<not> is_rate_limit err" "fs \<noteq> []"
  shows "is_healthy now (fail_run e fs h) e \<longleftrightarrow>
    length fs < max (unat (failure_threshold (ht_config h))) 1
    \<or> recovery_timeout (ht_config h) \<le> now - fst (last fs)"
proof -
  from fail_run_entry [OF assms] obtain en where en: "ht_entries (fail_run e fs h) e = Some en"
    "if length fs < max (unat (failure_threshold (ht_config h))) 1
     then he_state en = Healthy \<and> unat (he_consecutive_failures en) = length fs
     else he_state en = Unhealthy \<and> he_circuit_opened en = Some (fst (last fs))"
    by blast
  have "ht_config (fail_run e fs h) = ht_config h" using fail_run_ok [OF assms(1)] by blast
  with en show ?thesis
    by (cases "length fs < max (unat (failure_threshold (ht_config h))) 1") (simp_all add: is_healthy_def)
qed

lemma success_heals: "is_healthy now' (record_success now e h) e"
  by (auto simp: is_healthy_def record_success_def Let_def put_entry_def split: HealthState.splits)

lemma other_endpoint:
  "e \<noteq> e' \<Longrightarrow> ht_entries (record_failure now e err h) e' = ht_entries h e'"
  "e \<noteq> e' \<Longrightarrow> ht_entries (record_success now e h) e' = ht_entries h e'"
  by (simp_all add: record_failure_def record_success_def Let_def put_entry_def)

subsection \<open>The rate\<close>

lemma success_rate_unit:
  assumes "unat (eh_success_count h) + unat (eh_failure_count h) < 2 ^ 64"
  shows "f64_le (Fin 0) (success_rate h) \<and> f64_le (success_rate h) (Fin 1)"
proof (cases "eh_success_count h + eh_failure_count h = 0")
  case False
  let ?s = "unat (eh_success_count h)" and ?t = "unat (eh_success_count h + eh_failure_count h)"
  have t: "?t = ?s + unat (eh_failure_count h)" using assms by (intro unat_add_no_wrap) simp
  have t0: "0 < ?t" using False by (simp add: unat_gt_0)
  have "(of_nat ?t :: rat) < of_nat (2 ^ 64)"
    using assms unfolding t by (subst of_nat_less_iff) simp
  then have le: "(of_nat ?t :: rat) \<le> 2 powi 64" by (simp add: power_int_def)
  from f64_ratio_unit [OF _ t0 le, of ?s] t False show ?thesis by (simp add: success_rate_def Let_def)
qed (simp add: success_rate_def f64_small_lits)

end
