(* ===== verification/Strategy.thy ===== *)
theory Strategy
  imports Endpoint Health
begin

text \<open>
  The vocabulary of the endpoint strategies (first half of
  \<open>aura-core/src/router/strategy.rs\<close>): strategies, model traits and profiles, regions, tool
  categories and the context of an agent request. Hash sets are lists without duplicates; nothing
  read from them depends on their order.
\<close>

subsection \<open>Strategies and traits\<close>

datatype RoutingStrategy =
    RS_RoundRobin
  | RS_Weighted
  | RS_Random
  | RS_LeastLatency
  | RS_RegionBased
  | RS_Priority
  | RS_TraitBased
  | RS_CostOptimized
  | RS_ToolAware
  | RS_ContextAdaptive
  | RS_StickySession
  | RS_ReasoningDepth

fun RoutingStrategy_display :: "RoutingStrategy \<Rightarrow> rstring" where
  "RoutingStrategy_display RS_RoundRobin = ''round_robin''"
| "RoutingStrategy_display RS_Weighted = ''weighted''"
| "RoutingStrategy_display RS_Random = ''random''"
| "RoutingStrategy_display RS_LeastLatency = ''least_latency''"
| "RoutingStrategy_display RS_RegionBased = ''region_based''"
| "RoutingStrategy_display RS_Priority = ''priority''"
| "RoutingStrategy_display RS_TraitBased = ''trait_based''"
| "RoutingStrategy_display RS_CostOptimized = ''cost_optimized''"
| "RoutingStrategy_display RS_ToolAware = ''tool_aware''"
| "RoutingStrategy_display RS_ContextAdaptive = ''context_adaptive''"
| "RoutingStrategy_display RS_StickySession = ''sticky_session''"
| "RoutingStrategy_display RS_ReasoningDepth = ''reasoning_depth''"

datatype ModelTrait =
    MT_Code
  | MT_Creative
  | MT_Analysis
  | MT_Math
  | MT_Vision
  | MT_Fast
  | MT_Cheap
  | MT_LongContext
  | MT_Instruction
  | MT_Conversational
  | MT_ToolUse
  | MT_Summarization
  | MT_Translation
  | MT_StructuredOutput
  | MT_Research
  | MT_Reasoning

fun ModelTrait_display :: "ModelTrait \<Rightarrow> rstring" where
  "ModelTrait_display MT_Code = ''code''"
| "ModelTrait_display MT_Creative = ''creative''"
| "ModelTrait_display MT_Analysis = ''analysis''"
| "ModelTrait_display MT_Math = ''math''"
| "ModelTrait_display MT_Vision = ''vision''"
| "ModelTrait_display MT_Fast = ''fast''"
| "ModelTrait_display MT_Cheap = ''cheap''"
| "ModelTrait_display MT_LongContext = ''long_context''"
| "ModelTrait_display MT_Instruction = ''instruction''"
| "ModelTrait_display MT_Conversational = ''conversational''"
| "ModelTrait_display MT_ToolUse = ''tool_use''"
| "ModelTrait_display MT_Summarization = ''summarization''"
| "ModelTrait_display MT_Translation = ''translation''"
| "ModelTrait_display MT_StructuredOutput = ''structured_output''"
| "ModelTrait_display MT_Research = ''research''"
| "ModelTrait_display MT_Reasoning = ''reasoning''"

definition ModelTrait_names :: "(rstring list \<times> ModelTrait) list" where
  "ModelTrait_names =
     [([''code'', ''coding'', ''programming''], MT_Code),
      ([''creative'', ''creative_writing'', ''writing''], MT_Creative),
      ([''analysis'', ''analytical'', ''data''], MT_Analysis),
      ([''math'', ''mathematics'', ''calculation''], MT_Math),
      ([''vision'', ''image'', ''multimodal''], MT_Vision),
      ([''fast'', ''speed'', ''low_latency''], MT_Fast),
      ([''cheap'', ''cost'', ''budget'', ''economical''], MT_Cheap),
      ([''long_context'', ''large_context'', ''context''], MT_LongContext),
      ([''instruction'', ''instructions'', ''following''], MT_Instruction),
      ([''conversational'', ''chat'', ''dialogue''], MT_Conversational),
      ([''tool_use'', ''tools'', ''function_calling'', ''functions''], MT_ToolUse),
      ([''summarization'', ''summary'', ''summarize''], MT_Summarization),
      ([''translation'', ''translate''], MT_Translation),
      ([''structured_output'', ''json'', ''structured''], MT_StructuredOutput),
      ([''research'', ''factual'', ''knowledge''], MT_Research),
      ([''reasoning'', ''thinking'', ''cot'', ''chain_of_thought''], MT_Reasoning)]"

definition ModelTrait_parse :: "unicode \<Rightarrow> rstring \<Rightarrow> ModelTrait option" where
  "ModelTrait_parse U s =
     map_option snd (find (\<lambda>(names, _). u_to_lowercase U s \<in> set names) ModelTrait_names)"

definition ModelTrait_all :: "ModelTrait list" where
  "ModelTrait_all =
     [MT_Code, MT_Creative, MT_Analysis, MT_Math, MT_Vision, MT_Fast, MT_Cheap, MT_LongContext,
      MT_Instruction, MT_Conversational, MT_ToolUse, MT_Summarization, MT_Translation,
      MT_StructuredOutput, MT_Research, MT_Reasoning]"

subsection \<open>Profiles\<close>

record ModelProfile =
  pf_model :: rstring
  pf_provider :: rstring
  pf_traits :: "ModelTrait list"
  pf_input_cost_per_million :: f64
  pf_output_cost_per_million :: f64
  pf_avg_latency_ms :: "u32 option"
  pf_max_context :: "u32 option"

definition ModelProfile_new :: "rstring \<Rightarrow> rstring \<Rightarrow> ModelProfile" where
  "ModelProfile_new m p =
     \<lparr> pf_model = m, pf_provider = p, pf_traits = [], pf_input_cost_per_million = f64_lit 0 1,
       pf_output_cost_per_million = f64_lit 0 1, pf_avg_latency_ms = None, pf_max_context = None \<rparr>"

definition ModelProfile_with_traits :: "ModelTrait list \<Rightarrow> ModelProfile \<Rightarrow> ModelProfile" where
  "ModelProfile_with_traits ts p = p\<lparr> pf_traits := pf_traits p @ ts \<rparr>"

definition ModelProfile_with_cost :: "f64 \<Rightarrow> f64 \<Rightarrow> ModelProfile \<Rightarrow> ModelProfile" where
  "ModelProfile_with_cost i out p = p\<lparr> pf_input_cost_per_million := i, pf_output_cost_per_million := out \<rparr>"

definition ModelProfile_with_latency :: "u32 \<Rightarrow> ModelProfile \<Rightarrow> ModelProfile" where
  "ModelProfile_with_latency l p = p\<lparr> pf_avg_latency_ms := Some l \<rparr>"

definition ModelProfile_with_context :: "u32 \<Rightarrow> ModelProfile \<Rightarrow> ModelProfile" where
  "ModelProfile_with_context c p = p\<lparr> pf_max_context := Some c \<rparr>"

definition has_trait :: "ModelProfile \<Rightarrow> ModelTrait \<Rightarrow> bool" where
  "has_trait p t \<longleftrightarrow> t \<in> set (pf_traits p)"

definition trait_match_score :: "ModelProfile \<Rightarrow> ModelTrait list \<Rightarrow> f64" where
  "trait_match_score p required =
     (if required = [] then f64_lit 1 1
      else f64_div (f64_of_nat (length (filter (has_trait p) required))) (f64_of_nat (length required)))"

definition ModelProfile_estimate_cost :: "ModelProfile \<Rightarrow> u32 \<Rightarrow> u32 \<Rightarrow> f64" where
  "ModelProfile_estimate_cost p inp out =
     f64_add
       (f64_div (f64_mul (f64_of_nat (unat inp)) (pf_input_cost_per_million p)) (f64_lit 1000000 1))
       (f64_div (f64_mul (f64_of_nat (unat out)) (pf_output_cost_per_million p)) (f64_lit 1000000 1))"

definition ModelProfile_defaults :: "ModelProfile list" where
  "ModelProfile_defaults =
     [ModelProfile_with_context 128000 (ModelProfile_with_latency 800
        (ModelProfile_with_cost (f64_lit 250 100) (f64_lit 1000 100)
          (ModelProfile_with_traits [MT_Code, MT_Analysis, MT_Vision, MT_ToolUse, MT_Instruction, MT_StructuredOutput]
            (ModelProfile_new ''gpt-4o'' ''openai'')))),
      ModelProfile_with_context 128000 (ModelProfile_with_latency 400
        (ModelProfile_with_cost (f64_lit 15 100) (f64_lit 60 100)
          (ModelProfile_with_traits [MT_Fast, MT_Cheap, MT_ToolUse, MT_StructuredOutput]
            (ModelProfile_new ''gpt-4o-mini'' ''openai'')))),
      ModelProfile_with_context 128000 (ModelProfile_with_latency 1200
        (ModelProfile_with_cost (f64_lit 1000 100) (f64_lit 3000 100)
          (ModelProfile_with_traits [MT_Code, MT_Analysis, MT_Vision, MT_LongContext]
            (ModelProfile_new ''gpt-4-turbo'' ''openai'')))),
      ModelProfile_with_context 200000 (ModelProfile_with_latency 5000
        (ModelProfile_with_cost (f64_lit 1500 100) (f64_lit 6000 100)
          (ModelProfile_with_traits [MT_Reasoning, MT_Math, MT_Code, MT_Analysis]
            (ModelProfile_new ''o1'' ''openai'')))),
      ModelProfile_with_context 200000 (ModelProfile_with_latency 600
        (ModelProfile_with_cost (f64_lit 300 100) (f64_lit 1500 100)
          (ModelProfile_with_traits [MT_Code, MT_Analysis, MT_Reasoning, MT_ToolUse, MT_LongContext]
            (ModelProfile_new ''claude-sonnet-4-20250514'' ''anthropic'')))),
      ModelProfile_with_context 200000 (ModelProfile_with_latency 1500
        (ModelProfile_with_cost (f64_lit 1500 100) (f64_lit 7500 100)
          (ModelProfile_with_traits [MT_Code, MT_Creative, MT_Analysis, MT_Reasoning, MT_Research, MT_LongContext]
            (ModelProfile_new ''claude-opus-4-20250514'' ''anthropic'')))),
      ModelProfile_with_context 200000 (ModelProfile_with_latency 300
        (ModelProfile_with_cost (f64_lit 80 100) (f64_lit 400 100)
          (ModelProfile_with_traits [MT_Fast, MT_Cheap, MT_Code, MT_ToolUse]
            (ModelProfile_new ''claude-3-5-haiku-20241022'' ''anthropic'')))),
      ModelProfile_with_context 1000000 (ModelProfile_with_latency 250
        (ModelProfile_with_cost (f64_lit 75 1000) (f64_lit 30 100)
          (ModelProfile_with_traits [MT_Fast, MT_Cheap, MT_Vision, MT_ToolUse]
            (ModelProfile_new ''gemini-2.0-flash'' ''google'')))),
      ModelProfile_with_context 2000000 (ModelProfile_with_latency 800
        (ModelProfile_with_cost (f64_lit 125 100) (f64_lit 500 100)
          (ModelProfile_with_traits [MT_Code, MT_Analysis, MT_Reasoning, MT_LongContext]
            (ModelProfile_new ''gemini-2.0-pro'' ''google''))))]"

subsection \<open>Regions\<close>

datatype Region =
    UsEast | UsWest | EuWest | EuCentral | AsiaPacificNortheast | AsiaPacificSoutheast
  | AsiaPacificSouth | Region_Custom rstring

fun Region_display :: "Region \<Rightarrow> rstring" where
  "Region_display UsEast = ''us-east''"
| "Region_display UsWest = ''us-west''"
| "Region_display EuWest = ''eu-west''"
| "Region_display EuCentral = ''eu-central''"
| "Region_display AsiaPacificNortheast = ''ap-northeast''"
| "Region_display AsiaPacificSoutheast = ''ap-southeast''"
| "Region_display AsiaPacificSouth = ''ap-south''"
| "Region_display (Region_Custom s) = s"

definition Region_names :: "(rstring list \<times> Region) list" where
  "Region_names =
     [([''us-east'', ''us-east-1'', ''virginia''], UsEast),
      ([''us-west'', ''us-west-2'', ''oregon''], UsWest),
      ([''eu-west'', ''eu-west-1'', ''ireland''], EuWest),
      ([''eu-central'', ''eu-central-1'', ''frankfurt''], EuCentral),
      ([''ap-northeast'', ''ap-northeast-1'', ''tokyo''], AsiaPacificNortheast),
      ([''ap-southeast'', ''ap-southeast-1'', ''singapore''], AsiaPacificSoutheast),
      ([''ap-south'', ''ap-south-1'', ''sydney'', ''australia''], AsiaPacificSouth)]"

definition Region_parse :: "unicode \<Rightarrow> rstring \<Rightarrow> Region" where
  "Region_parse U s =
     (let k = u_to_lowercase U s
      in case find (\<lambda>(names, _). k \<in> set names) Region_names of
           Some (_, r) \<Rightarrow> r | None \<Rightarrow> Region_Custom k)"

fun region_pair :: "Region \<Rightarrow> Region \<Rightarrow> u32 option" where
  "region_pair UsEast UsWest = Some 60"
| "region_pair EuWest EuCentral = Some 20"
| "region_pair UsEast EuWest = Some 80"
| "region_pair UsEast EuCentral = Some 90"
| "region_pair UsWest EuWest = Some 130"
| "region_pair UsWest EuCentral = Some 140"
| "region_pair UsWest AsiaPacificNortheast = Some 100"
| "region_pair UsWest AsiaPacificSoutheast = Some 150"
| "region_pair UsEast AsiaPacificNortheast = Some 180"
| "region_pair UsEast AsiaPacificSoutheast = Some 200"
| "region_pair EuWest AsiaPacificNortheast = Some 220"
| "region_pair EuWest AsiaPacificSoutheast = Some 180"
| "region_pair EuCentral AsiaPacificNortheast = Some 200"
| "region_pair EuCentral AsiaPacificSoutheast = Some 170"
| "region_pair AsiaPacificNortheast AsiaPacificSoutheast = Some 70"
| "region_pair AsiaPacificNortheast AsiaPacificSouth = Some 120"
| "region_pair AsiaPacificSoutheast AsiaPacificSouth = Some 80"
| "region_pair _ _ = None"

text \<open>Each or-pattern of the match names a pair both ways.\<close>

definition latency_to :: "Region \<Rightarrow> Region \<Rightarrow> u32" where
  "latency_to a b =
     (if a = b then 0
      else case region_pair a b of
             Some l \<Rightarrow> l
           | None \<Rightarrow> (case region_pair b a of Some l \<Rightarrow> l | None \<Rightarrow> 150))"

subsection \<open>Tools\<close>

datatype ToolCategory =
    CodeExecution | WebSearch | DataAnalysis | ImageProcessing | FileSystem | ApiCalls | Calculator
  | Memory | ToolCategory_Custom rstring

definition tool_keywords :: "(rstring list \<times> ToolCategory) list" where
  "tool_keywords =
     [([''code'', ''execute'', ''python'', ''bash''], CodeExecution),
      ([''search'', ''web'', ''browse''], WebSearch),
      ([''csv'', ''sql'', ''data'', ''analyze''], DataAnalysis),
      ([''image'', ''vision'', ''screenshot''], ImageProcessing),
      ([''file'', ''read'', ''write'', ''directory''], FileSystem),
      ([''api'', ''http'', ''fetch'', ''request''], ApiCalls),
      ([''math'', ''calc'', ''compute''], Calculator),
      ([''memory'', ''retrieve'', ''recall''], Memory)]"

definition from_tool_name :: "unicode \<Rightarrow> rstring \<Rightarrow> ToolCategory" where
  "from_tool_name U name =
     (let k = u_to_lowercase U name
      in case find (\<lambda>(words, _). \<exists>w \<in> set words. str_contains k w) tool_keywords of
           Some (_, c) \<Rightarrow> c | None \<Rightarrow> ToolCategory_Custom name)"

fun ToolCategory_recommended_traits :: "ToolCategory \<Rightarrow> ModelTrait list" where
  "ToolCategory_recommended_traits CodeExecution = [MT_Code, MT_ToolUse]"
| "ToolCategory_recommended_traits WebSearch = [MT_Research, MT_ToolUse]"
| "ToolCategory_recommended_traits DataAnalysis = [MT_Analysis, MT_Code, MT_ToolUse]"
| "ToolCategory_recommended_traits ImageProcessing = [MT_Vision, MT_ToolUse]"
| "ToolCategory_recommended_traits FileSystem = [MT_Code, MT_ToolUse]"
| "ToolCategory_recommended_traits ApiCalls = [MT_ToolUse, MT_StructuredOutput]"
| "ToolCategory_recommended_traits Calculator = [MT_Math, MT_ToolUse]"
| "ToolCategory_recommended_traits Memory = [MT_LongContext, MT_ToolUse]"
| "ToolCategory_recommended_traits (ToolCategory_Custom _) = [MT_ToolUse]"

subsection \<open>The agent context\<close>

record AgentContext =
  ac_tools :: "rstring list"
  ac_estimated_tokens :: "u32 option"
  ac_previous_response_id :: "rstring option"
  ac_requires_reasoning :: bool
  ac_session_id :: "rstring option"

definition AgentContext_new :: AgentContext where
  "AgentContext_new =
     \<lparr> ac_tools = [], ac_estimated_tokens = None, ac_previous_response_id = None,
       ac_requires_reasoning = False, ac_session_id = None \<rparr>"

definition AgentContext_with_tools :: "rstring list \<Rightarrow> AgentContext \<Rightarrow> AgentContext" where
  "AgentContext_with_tools ts c = c\<lparr> ac_tools := ts \<rparr>"

definition AgentContext_with_tokens :: "u32 \<Rightarrow> AgentContext \<Rightarrow> AgentContext" where
  "AgentContext_with_tokens n c = c\<lparr> ac_estimated_tokens := Some n \<rparr>"

definition AgentContext_with_previous_response :: "rstring \<Rightarrow> AgentContext \<Rightarrow> AgentContext" where
  "AgentContext_with_previous_response r c = c\<lparr> ac_previous_response_id := Some r \<rparr>"

definition AgentContext_with_reasoning :: "AgentContext \<Rightarrow> AgentContext" where
  "AgentContext_with_reasoning c = c\<lparr> ac_requires_reasoning := True \<rparr>"

definition tool_categories :: "unicode \<Rightarrow> AgentContext \<Rightarrow> ToolCategory list" where
  "tool_categories U c = map (from_tool_name U) (ac_tools c)"

definition AgentContext_recommended_traits :: "unicode \<Rightarrow> AgentContext \<Rightarrow> ModelTrait list" where
  "AgentContext_recommended_traits U c =
     remdups (concat (map ToolCategory_recommended_traits (tool_categories U c))
       @ (if ac_requires_reasoning c then [MT_Reasoning] else []))"

subsection \<open>Laws\<close>

lemma latency_symmetric: "latency_to a b = latency_to b a"
  by (cases a; cases b) (simp_all add: latency_to_def)

lemma latency_zero: "latency_to a b = 0 \<longleftrightarrow> a = b"
  by (cases a; cases b) (simp_all add: latency_to_def)

lemma trait_parse_display: "ModelTrait_parse ascii_unicode (ModelTrait_display t) = Some t"
  by (cases t; simp; code_simp)

lemma set_ModelTrait_all: "set ModelTrait_all = UNIV"
  by (rule set_eqI, case_tac x) (simp_all add: ModelTrait_all_def)

lemma trait_match_score_unit:
  assumes "length required < 2 ^ 64"
  shows "f64_le (Fin 0) (trait_match_score p required) \<and> f64_le (trait_match_score p required) (Fin 1)"
proof (cases "required = []")
  case False
  have "(of_nat (length required) :: rat) < of_nat (2 ^ 64)"
    using assms by (subst of_nat_less_iff) simp
  then have "(of_nat (length required) :: rat) \<le> 2 powi 64" by (simp add: power_int_def)
  with False f64_ratio_unit [of "length (filter (has_trait p) required)" "length required"] show ?thesis
    by (simp add: trait_match_score_def)
qed (simp add: trait_match_score_def)

end
