(* ===== verification/Selector.thy ===== *)
theory Selector
  imports Strategy
begin

text \<open>
  The endpoint selectors (second half of \<open>aura-core/src/router/strategy.rs\<close>): one function per
  strategy, the dispatch over them and the multi-objective selector.

  The round-robin counter is the only state; it is passed and returned. The random generator is
  a parameter: \<open>se_gen_range n\<close> is what \<open>gen_range(0..n)\<close> draws. The sum of weights wraps at 32
  bits, as in a release build.
\<close>

record select_env =
  se_gen_range :: "nat \<Rightarrow> nat"
  se_now_ms :: u64
  se_now :: instant
  se_unicode :: unicode

record StrategySelector =
  ss_strategy :: RoutingStrategy
  ss_counter :: usize
  ss_preferred_region :: "Region option"
  ss_required_traits :: "ModelTrait list"
  ss_model_profiles :: "ModelProfile list"
  ss_agent_context :: "AgentContext option"

definition StrategySelector_new :: "RoutingStrategy \<Rightarrow> StrategySelector" where
  "StrategySelector_new s =
     \<lparr> ss_strategy = s, ss_counter = 0, ss_preferred_region = None, ss_required_traits = [],
       ss_model_profiles = ModelProfile_defaults, ss_agent_context = None \<rparr>"

definition StrategySelector_default :: StrategySelector where
  "StrategySelector_default = StrategySelector_new RS_RoundRobin"

definition StrategySelector_with_agent_context :: "AgentContext \<Rightarrow> StrategySelector \<Rightarrow> StrategySelector" where
  "StrategySelector_with_agent_context c s = s\<lparr> ss_agent_context := Some c \<rparr>"

definition StrategySelector_with_region :: "Region \<Rightarrow> StrategySelector \<Rightarrow> StrategySelector" where
  "StrategySelector_with_region r s = s\<lparr> ss_preferred_region := Some r \<rparr>"

definition StrategySelector_with_traits :: "ModelTrait list \<Rightarrow> StrategySelector \<Rightarrow> StrategySelector" where
  "StrategySelector_with_traits ts s = s\<lparr> ss_required_traits := ts \<rparr>"

definition StrategySelector_with_profile :: "ModelProfile \<Rightarrow> StrategySelector \<Rightarrow> StrategySelector" where
  "StrategySelector_with_profile p s = s\<lparr> ss_model_profiles := ss_model_profiles s @ [p] \<rparr>"

definition StrategySelector_with_profiles :: "ModelProfile list \<Rightarrow> StrategySelector \<Rightarrow> StrategySelector" where
  "StrategySelector_with_profiles ps s = s\<lparr> ss_model_profiles := ps \<rparr>"

type_synonym selection = "(StrategySelector \<times> ProviderEndpoint option) panics"

subsection \<open>Simple strategies\<close>

definition select_round_robin :: "StrategySelector \<Rightarrow> ProviderEndpoint list \<Rightarrow> selection" where
  "select_round_robin s es =
     (if es = [] then None
      else Some (s\<lparr> ss_counter := ss_counter s + 1 \<rparr>, Some (es ! (unat (ss_counter s) mod length es))))"

fun weighted_loop :: "ProviderEndpoint list \<Rightarrow> u32 \<Rightarrow> u32 \<Rightarrow> ProviderEndpoint option" where
  "weighted_loop [] target cumulative = None"
| "weighted_loop (e # es) target cumulative =
     (let cumulative = cumulative + ep_weight e
      in if target < cumulative then Some e else weighted_loop es target cumulative)"

definition select_weighted :: "select_env \<Rightarrow> StrategySelector \<Rightarrow> ProviderEndpoint list \<Rightarrow> selection" where
  "select_weighted v s es =
     (let total = sum_list (map ep_weight es)
      in if total = 0 then select_round_robin s es
         else (let target = of_nat (se_gen_range v (unat total))
               in Some (s, case weighted_loop es target 0 of
                             Some e \<Rightarrow> Some e
                           | None \<Rightarrow> if es = [] then None else Some (last es))))"

definition select_random :: "select_env \<Rightarrow> StrategySelector \<Rightarrow> ProviderEndpoint list \<Rightarrow> selection" where
  "select_random v s es =
     (let idx = se_gen_range v (length es)
      in if idx < length es then Some (s, Some (es ! idx)) else None)"

fun least_latency_loop ::
    "select_env \<Rightarrow> HealthTracker \<Rightarrow> ProviderEndpoint list \<Rightarrow> (ProviderEndpoint \<times> f64) option \<Rightarrow>
     (ProviderEndpoint \<times> f64) option" where
  "least_latency_loop v h [] best = best"
| "least_latency_loop v h (e # es) best =
     least_latency_loop v h es
       (case get_health (se_now_ms v) (se_now v) h (ep_id e) of
          Some health \<Rightarrow>
            (let rate = success_rate health
             in case best of
                  None \<Rightarrow> Some (e, rate)
                | Some (_, r) \<Rightarrow> if f64_lt r rate then Some (e, rate) else best)
        | None \<Rightarrow> (case best of None \<Rightarrow> Some (e, f64_lit 1 1) | Some _ \<Rightarrow> best))"

definition select_least_latency ::
    "select_env \<Rightarrow> HealthTracker \<Rightarrow> StrategySelector \<Rightarrow> ProviderEndpoint list \<Rightarrow> selection" where
  "select_least_latency v h s es = Some (s, map_option fst (least_latency_loop v h es None))"

definition region_latency :: "select_env \<Rightarrow> Region \<Rightarrow> ProviderEndpoint \<Rightarrow> u32" where
  "region_latency v preferred e =
     (case find (\<lambda>t. starts_with t ''region:'' \<or> str_contains t ''us-'' \<or> str_contains t ''eu-''
                     \<or> str_contains t ''ap-'') (ep_tags e) of
        Some tag \<Rightarrow>
          (let region_str = (case strip_prefix tag ''region:'' of Some r \<Rightarrow> r | None \<Rightarrow> tag)
           in latency_to preferred (Region_parse (se_unicode v) region_str))
      | None \<Rightarrow> 100)"

definition first_endpoint :: "(ProviderEndpoint \<times> 'a) list \<Rightarrow> ProviderEndpoint option" where
  "first_endpoint scored = (case scored of [] \<Rightarrow> None | (e, _) # _ \<Rightarrow> Some e)"

definition select_region_based :: "select_env \<Rightarrow> StrategySelector \<Rightarrow> ProviderEndpoint list \<Rightarrow> selection" where
  "select_region_based v s es =
     (case ss_preferred_region s of
        None \<Rightarrow> select_round_robin s es
      | Some preferred \<Rightarrow>
          (let scored = map (\<lambda>e. (e, region_latency v preferred e)) es
           in Some (s, first_endpoint (sort_by (cmp_key snd) scored))))"

definition select_priority :: "StrategySelector \<Rightarrow> ProviderEndpoint list \<Rightarrow> selection" where
  "select_priority s es = Some (s, min_by (cmp_key ep_priority) es)"

subsection \<open>Strategies over profiles\<close>

definition endpoint_profiles :: "StrategySelector \<Rightarrow> ProviderEndpoint \<Rightarrow> ModelProfile list" where
  "endpoint_profiles s e =
     filter (\<lambda>p. ProviderEndpoint_supports_model e (pf_model p)
                 \<or> ProviderEndpoint_provider_name e = pf_provider p) (ss_model_profiles s)"

text \<open>Highest score first; round robin when the best score is not positive.\<close>

definition best_score :: "StrategySelector \<Rightarrow> (ModelProfile \<Rightarrow> f64) \<Rightarrow> ProviderEndpoint \<Rightarrow> f64" where
  "best_score s f e =
     (case max_by f64_cmp (map f (endpoint_profiles s e)) of Some x \<Rightarrow> x | None \<Rightarrow> f64_lit 0 1)"

definition by_score_desc :: "ProviderEndpoint \<times> f64 \<Rightarrow> ProviderEndpoint \<times> f64 \<Rightarrow> ordering" where
  "by_score_desc a b = f64_cmp (snd b) (snd a)"

definition select_best_score ::
    "StrategySelector \<Rightarrow> (ModelProfile \<Rightarrow> f64) \<Rightarrow> ProviderEndpoint list \<Rightarrow> selection" where
  "select_best_score s f es =
     (let scored = sort_by by_score_desc (map (\<lambda>e. (e, best_score s f e)) es)
      in case scored of
           (e, sc) # _ \<Rightarrow> if f64_lt (f64_lit 0 1) sc then Some (s, Some e) else select_round_robin s es
         | [] \<Rightarrow> select_round_robin s es)"

definition select_trait_based :: "StrategySelector \<Rightarrow> ProviderEndpoint list \<Rightarrow> selection" where
  "select_trait_based s es =
     (if ss_required_traits s = [] then select_round_robin s es
      else select_best_score s (\<lambda>p. trait_match_score p (ss_required_traits s)) es)"

definition F64_MAX :: f64 where
  "F64_MAX = Fin (2 ^ 1024 - 2 ^ 971)"

definition mean_cost :: "ModelProfile \<Rightarrow> f64" where
  "mean_cost p = f64_div (f64_add (pf_input_cost_per_million p) (pf_output_cost_per_million p)) (f64_lit 2 1)"

definition lowest_cost :: "StrategySelector \<Rightarrow> (ModelProfile \<Rightarrow> f64) \<Rightarrow> ProviderEndpoint \<Rightarrow> f64" where
  "lowest_cost s f e =
     (case min_by f64_cmp (map f (endpoint_profiles s e)) of Some x \<Rightarrow> x | None \<Rightarrow> F64_MAX)"

definition trait_cost :: "StrategySelector \<Rightarrow> ModelProfile \<Rightarrow> f64" where
  "trait_cost s p =
     (let score = (if ss_required_traits s = [] then f64_lit 1 1
                   else trait_match_score p (ss_required_traits s))
      in if f64_le (f64_lit 5 10) score then mean_cost p else F64_MAX)"

definition by_cost :: "ProviderEndpoint \<times> f64 \<Rightarrow> ProviderEndpoint \<times> f64 \<Rightarrow> ordering" where
  "by_cost a b = f64_cmp (snd a) (snd b)"

definition select_cost_optimized :: "StrategySelector \<Rightarrow> ProviderEndpoint list \<Rightarrow> selection" where
  "select_cost_optimized s es =
     (let scored = sort_by by_cost (map (\<lambda>e. (e, lowest_cost s (trait_cost s) e)) es)
      in case scored of
           (e, c) # _ \<Rightarrow> if f64_lt c F64_MAX then Some (s, Some e) else select_round_robin s es
         | [] \<Rightarrow> select_round_robin s es)"
subsection \<open>Agentic strategies\<close>

definition select_tool_aware :: "select_env \<Rightarrow> StrategySelector \<Rightarrow> ProviderEndpoint list \<Rightarrow> selection" where
  "select_tool_aware v s es =
     (case ss_agent_context s of
        None \<Rightarrow> select_round_robin s es
      | Some c \<Rightarrow>
          if ac_tools c = [] then select_round_robin s es
          else (let recommended = AgentContext_recommended_traits (se_unicode v) c
                in select_best_score s (\<lambda>p. trait_match_score p recommended) es))"

definition context_fits :: "u32 \<Rightarrow> ModelProfile \<Rightarrow> bool" where
  "context_fits tokens p = (case pf_max_context p of Some c \<Rightarrow> tokens \<le> c | None \<Rightarrow> True)"

definition largest_context :: "StrategySelector \<Rightarrow> ProviderEndpoint \<Rightarrow> u32" where
  "largest_context s e =
     (case max_by (cmp_key id) (List.map_filter pf_max_context (endpoint_profiles s e)) of
        Some c \<Rightarrow> c | None \<Rightarrow> 0)"

definition select_context_adaptive :: "StrategySelector \<Rightarrow> ProviderEndpoint list \<Rightarrow> selection" where
  "select_context_adaptive s es =
     (case ss_agent_context s of
        None \<Rightarrow> select_round_robin s es
      | Some c \<Rightarrow>
          (let tokens = (case ac_estimated_tokens c of Some n \<Rightarrow> n | None \<Rightarrow> 0);
               suitable = filter (\<lambda>e. \<exists>p \<in> set (endpoint_profiles s e). context_fits tokens p) es
           in if suitable = []
              then Some (s, first_endpoint
                     (sort_by (\<lambda>a b. cmp_rev (cmp_key snd a b)) (map (\<lambda>e. (e, largest_context s e)) es)))
              else Some (s, first_endpoint
                     (sort_by by_cost (map (\<lambda>e. (e, lowest_cost s mean_cost e)) suitable)))))"

definition byte_sum :: "rstring \<Rightarrow> usize" where
  "byte_sum str = fold (\<lambda>b acc. acc + of_nat (byte_of b)) str 0"

definition select_by_hash :: "StrategySelector \<Rightarrow> rstring \<Rightarrow> ProviderEndpoint list \<Rightarrow> selection" where
  "select_by_hash s key es =
     (if es = [] then None else Some (s, Some (es ! (unat (byte_sum key) mod length es))))"

definition select_sticky_session :: "StrategySelector \<Rightarrow> ProviderEndpoint list \<Rightarrow> selection" where
  "select_sticky_session s es =
     (case ss_agent_context s of
        None \<Rightarrow> select_round_robin s es
      | Some c \<Rightarrow>
          (case ac_previous_response_id c of
             Some prev \<Rightarrow>
               (case ac_session_id c of
                  Some session \<Rightarrow> select_by_hash s session es
                | None \<Rightarrow> select_by_hash s prev es)
           | None \<Rightarrow> select_round_robin s es))"

definition add_if :: "bool \<Rightarrow> f64 \<Rightarrow> f64 \<Rightarrow> f64" where
  "add_if b x s = (if b then f64_add s x else s)"

definition reasoning_score :: "ModelProfile \<Rightarrow> f64" where
  "reasoning_score p =
     add_if (has_trait p MT_Code) (f64_lit 2 10)
       (add_if (has_trait p MT_Math) (f64_lit 3 10)
         (add_if (has_trait p MT_Analysis) (f64_lit 5 10)
           (add_if (has_trait p MT_Reasoning) (f64_lit 1 1) (f64_lit 0 1))))"

definition select_reasoning_depth :: "StrategySelector \<Rightarrow> ProviderEndpoint list \<Rightarrow> selection" where
  "select_reasoning_depth s es =
     (case ss_agent_context s of
        None \<Rightarrow> select_round_robin s es
      | Some c \<Rightarrow>
          if \<not> ac_requires_reasoning c then select_round_robin s es
          else select_best_score s reasoning_score es)"

subsection \<open>The dispatch\<close>

definition StrategySelector_select ::
    "select_env \<Rightarrow> HealthTracker \<Rightarrow> StrategySelector \<Rightarrow> ProviderEndpoint list \<Rightarrow> selection" where
  "StrategySelector_select v h s endpoints =
     (if endpoints = [] then Some (s, None)
      else
        (let es = filter ep_enabled endpoints
         in if es = [] then Some (s, None)
            else case ss_strategy s of
                   RS_RoundRobin \<Rightarrow> select_round_robin s es
                 | RS_Weighted \<Rightarrow> select_weighted v s es
                 | RS_Random \<Rightarrow> select_random v s es
                 | RS_LeastLatency \<Rightarrow> select_least_latency v h s es
                 | RS_RegionBased \<Rightarrow> select_region_based v s es
                 | RS_Priority \<Rightarrow> select_priority s es
                 | RS_TraitBased \<Rightarrow> select_trait_based s es
                 | RS_CostOptimized \<Rightarrow> select_cost_optimized s es
                 | RS_ToolAware \<Rightarrow> select_tool_aware v s es
                 | RS_ContextAdaptive \<Rightarrow> select_context_adaptive s es
                 | RS_StickySession \<Rightarrow> select_sticky_session s es
                 | RS_ReasoningDepth \<Rightarrow> select_reasoning_depth s es))"

definition StrategySelector_get_profile :: "StrategySelector \<Rightarrow> rstring \<Rightarrow> ModelProfile option" where
  "StrategySelector_get_profile s m = find (\<lambda>p. pf_model p = m) (ss_model_profiles s)"

definition StrategySelector_estimate_cost :: "StrategySelector \<Rightarrow> rstring \<Rightarrow> u32 \<Rightarrow> u32 \<Rightarrow> f64 option" where
  "StrategySelector_estimate_cost s m inp out =
     map_option (\<lambda>p. ModelProfile_estimate_cost p inp out) (StrategySelector_get_profile s m)"

subsection \<open>Several objectives\<close>

datatype OptimizationGoal = MinCost | MinLatency | MaxQuality | OG_Balanced

record MultiObjectiveSelector =
  mo_selector :: StrategySelector
  mo_goal :: OptimizationGoal
  mo_cost_weight :: f64
  mo_latency_weight :: f64
  mo_quality_weight :: f64

fun goal_weights :: "OptimizationGoal \<Rightarrow> f64 \<times> f64 \<times> f64" where
  "goal_weights MinCost = (f64_lit 1 1, f64_lit 0 1, f64_lit 0 1)"
| "goal_weights MinLatency = (f64_lit 0 1, f64_lit 1 1, f64_lit 0 1)"
| "goal_weights MaxQuality = (f64_lit 0 1, f64_lit 0 1, f64_lit 1 1)"
| "goal_weights OG_Balanced = (f64_lit 33 100, f64_lit 33 100, f64_lit 34 100)"

definition MultiObjectiveSelector_new :: "OptimizationGoal \<Rightarrow> MultiObjectiveSelector" where
  "MultiObjectiveSelector_new goal =
     (let (c, l, q) = goal_weights goal
      in \<lparr> mo_selector = StrategySelector_new RS_RoundRobin, mo_goal = goal, mo_cost_weight = c,
           mo_latency_weight = l, mo_quality_weight = q \<rparr>)"

definition MultiObjectiveSelector_with_weights ::
    "f64 \<Rightarrow> f64 \<Rightarrow> f64 \<Rightarrow> MultiObjectiveSelector \<Rightarrow> MultiObjectiveSelector" where
  "MultiObjectiveSelector_with_weights cost latency quality s =
     (let total = f64_add (f64_add cost latency) quality
      in if f64_lt (f64_lit 0 1) total
         then s\<lparr> mo_cost_weight := f64_div cost total, mo_latency_weight := f64_div latency total,
                 mo_quality_weight := f64_div quality total \<rparr>
         else s)"

definition MultiObjectiveSelector_with_traits :: "ModelTrait list \<Rightarrow> MultiObjectiveSelector \<Rightarrow> MultiObjectiveSelector" where
  "MultiObjectiveSelector_with_traits ts s = s\<lparr> mo_selector := StrategySelector_with_traits ts (mo_selector s) \<rparr>"

definition MultiObjectiveSelector_with_profiles :: "ModelProfile list \<Rightarrow> MultiObjectiveSelector \<Rightarrow> MultiObjectiveSelector" where
  "MultiObjectiveSelector_with_profiles ps s = s\<lparr> mo_selector := StrategySelector_with_profiles ps (mo_selector s) \<rparr>"

definition profile_cost :: "ModelProfile \<Rightarrow> f64" where
  "profile_cost p = f64_add (pf_input_cost_per_million p) (pf_output_cost_per_million p)"

definition cost_score :: "ModelProfile list \<Rightarrow> ModelProfile \<Rightarrow> f64" where
  "cost_score profiles p =
     (let max_cost = foldl f64_max (f64_lit 0 1) (map profile_cost profiles)
      in if f64_lt (f64_lit 0 1) max_cost
         then f64_sub (f64_lit 1 1) (f64_div (profile_cost p) max_cost)
         else f64_lit 5 10)"

definition latency_score :: "ModelProfile list \<Rightarrow> ModelProfile \<Rightarrow> f64" where
  "latency_score profiles p =
     (let m = (case max_by (cmp_key id) (List.map_filter pf_avg_latency_ms profiles) of
                 Some l \<Rightarrow> l | None \<Rightarrow> 5000);
          l = (case pf_avg_latency_ms p of Some l \<Rightarrow> l | None \<Rightarrow> 1000)
      in f64_sub (f64_lit 1 1) (f64_div (f64_of_nat (unat l)) (f64_of_nat (unat m))))"

definition quality_score :: "ModelTrait list \<Rightarrow> ModelProfile \<Rightarrow> f64" where
  "quality_score required p =
     (if required = []
      then f64_min (f64_div (f64_of_nat (length (pf_traits p))) (f64_lit 10 1)) (f64_lit 1 1)
      else trait_match_score p required)"

definition total_score :: "MultiObjectiveSelector \<Rightarrow> ProviderEndpoint \<Rightarrow> f64" where
  "total_score s e =
     (let profiles = ss_model_profiles (mo_selector s);
          (c, l, q) =
            (case find (\<lambda>p. ProviderEndpoint_supports_model e (pf_model p)
                            \<or> ProviderEndpoint_provider_name e = pf_provider p) profiles of
               Some p \<Rightarrow> (cost_score profiles p, latency_score profiles p,
                         quality_score (ss_required_traits (mo_selector s)) p)
             | None \<Rightarrow> (f64_lit 5 10, f64_lit 5 10, f64_lit 5 10))
      in f64_add (f64_add (f64_mul c (mo_cost_weight s)) (f64_mul l (mo_latency_weight s)))
                 (f64_mul q (mo_quality_weight s)))"

definition MultiObjectiveSelector_select ::
    "MultiObjectiveSelector \<Rightarrow> ProviderEndpoint list \<Rightarrow> ProviderEndpoint option" where
  "MultiObjectiveSelector_select s endpoints =
     (if endpoints = [] then None
      else
        (let es = filter ep_enabled endpoints
         in if es = [] then None
            else first_endpoint (sort_by by_score_desc (map (\<lambda>e. (e, total_score s e)) es))))"

subsection \<open>What a selector promises its pool\<close>

text \<open>
  A selector answers with an enabled endpoint of the list it is given, and with none only if there
  is none. The pool and the router rely on this and on nothing else.
\<close>

locale endpoint_selector =
  fixes pick :: "ProviderEndpoint list \<Rightarrow> ProviderEndpoint option panics"
  assumes answers: "\<exists>r. pick es = Some r"
    and member: "pick es = Some (Some e) \<Longrightarrow> e \<in> set es \<and> ep_enabled e"
    and none: "pick es = Some None \<Longrightarrow> \<forall>e \<in> set es. \<not> ep_enabled e"
begin

lemma pick_None_iff: "pick es = Some None \<longleftrightarrow> (\<forall>e \<in> set es. \<not> ep_enabled e)"
proof
  assume a: "\<forall>e \<in> set es. \<not> ep_enabled e"
  from answers obtain r where r: "pick es = Some r" by blast
  with a member [of es] show "pick es = Some None" by (cases r) auto
qed (rule none)

lemma pick_filtered:
  assumes "pick (filter ok es) = Some (Some e)"
  shows "e \<in> set es" "ok e" "ep_enabled e"
  using member [OF assms] by auto

lemma pick_filtered_some:
  assumes "e \<in> set es" "ok e" "ep_enabled e"
  shows "\<exists>e'. pick (filter ok es) = Some (Some e')"
proof -
  from answers [of "filter ok es"] obtain r where r: "pick (filter ok es) = Some r" by blast
  with assms none [of "filter ok es"] show ?thesis by (cases r) auto
qed

lemma pick_only:
  assumes "filter ep_enabled es = [e]"
  shows "pick es = Some (Some e)"
proof -
  have f: "x \<in> set es \<and> ep_enabled x \<longleftrightarrow> x = e" for x
    using arg_cong [OF assms, of "\<lambda>l. x \<in> set l"] by simp
  from answers obtain r where r: "pick es = Some r" by blast
  with f [of e] none [of es] obtain e' where e': "r = Some e'" by (cases r) auto
  from member [OF r [unfolded e']] f r e' show ?thesis by simp
qed

end

subsection \<open>The selectors keep the promise\<close>

definition answers_in :: "ProviderEndpoint list \<Rightarrow> selection \<Rightarrow> bool" where
  "answers_in es r \<longleftrightarrow> (\<exists>s' e. r = Some (s', Some e) \<and> e \<in> set es)"

named_theorems selector_intros

lemma answers_inI [intro]: "e \<in> set es \<Longrightarrow> answers_in es (Some (s, Some e))"
  by (simp add: answers_in_def)

lemma answers_round_robin [selector_intros]: "es \<noteq> [] \<Longrightarrow> answers_in es (select_round_robin s es)"
  by (auto simp: select_round_robin_def intro!: nth_mem)

lemma weighted_loop_in: "weighted_loop es t c = Some e \<Longrightarrow> e \<in> set es"
  by (induction es t c rule: weighted_loop.induct) (auto simp: Let_def split: if_splits)

lemma answers_weighted [selector_intros]: "es \<noteq> [] \<Longrightarrow> answers_in es (select_weighted v s es)"
  by (auto simp: select_weighted_def Let_def intro: selector_intros weighted_loop_in split: option.splits)

lemma answers_random:
  "es \<noteq> [] \<Longrightarrow> se_gen_range v (length es) < length es \<Longrightarrow> answers_in es (select_random v s es)"
  by (auto simp: select_random_def Let_def intro!: nth_mem)

lemma least_latency_in:
  "\<forall>x \<in> set_option best. fst x \<in> S \<Longrightarrow> set es \<subseteq> S \<Longrightarrow>
     (best = None \<longrightarrow> es \<noteq> []) \<Longrightarrow> \<exists>e r. least_latency_loop v h es best = Some (e, r) \<and> e \<in> S"
proof (induction v h es best rule: least_latency_loop.induct)
  case (2 v h e es best)
  show ?case
    unfolding least_latency_loop.simps
    by (rule 2(1)) (use 2(2-4) in \<open>auto simp: Let_def split: option.splits if_splits\<close>)
qed auto

lemma answers_least_latency [selector_intros]: "es \<noteq> [] \<Longrightarrow> answers_in es (select_least_latency v h s es)"
  using least_latency_in [of None "set es" es v h] by (auto simp: select_least_latency_def)

lemma sorted_head_in:
  assumes "sort_by cmp (map (\<lambda>e. (e, f e)) es) = (e, x) # rest"
  shows "e \<in> set es \<and> x = f e"
proof -
  have "(e, x) \<in> set (sort_by cmp (map (\<lambda>e. (e, f e)) es))" by (simp add: assms)
  then show ?thesis by auto
qed

lemma first_endpoint_sorted:
  assumes "es \<noteq> []"
  shows "\<exists>e. first_endpoint (sort_by cmp (map (\<lambda>e. (e, f e)) es)) = Some e \<and> e \<in> set es"
proof (cases "sort_by cmp (map (\<lambda>e. (e, f e)) es)")
  case (Cons p rest)
  obtain e x where "p = (e, x)" by (cases p)
  with Cons sorted_head_in [of cmp f es e x rest] show ?thesis by (simp add: first_endpoint_def)
qed (use assms in simp)

lemma answers_region [selector_intros]: "es \<noteq> [] \<Longrightarrow> answers_in es (select_region_based v s es)"
proof (cases "ss_preferred_region s")
  case (Some r)
  assume "es \<noteq> []"
  from first_endpoint_sorted [OF this, of "cmp_key snd" "region_latency v r"] Some show ?thesis
    by (auto simp: select_region_based_def Let_def)
qed (simp add: select_region_based_def selector_intros)

lemma answers_priority [selector_intros]: "es \<noteq> [] \<Longrightarrow> answers_in es (select_priority s es)"
  by (cases "min_by (cmp_key ep_priority) es") (auto simp: select_priority_def dest: min_by_in)

lemma answers_best_score [selector_intros]: "es \<noteq> [] \<Longrightarrow> answers_in es (select_best_score s f es)"
  by (auto simp: select_best_score_def Let_def intro: selector_intros dest: sorted_head_in
      split: list.splits)

lemma answers_cost [selector_intros]: "es \<noteq> [] \<Longrightarrow> answers_in es (select_cost_optimized s es)"
  by (auto simp: select_cost_optimized_def Let_def intro: selector_intros dest: sorted_head_in
      split: list.splits)

lemma answers_trait [selector_intros]: "es \<noteq> [] \<Longrightarrow> answers_in es (select_trait_based s es)"
  by (simp add: select_trait_based_def selector_intros)

lemma answers_tool [selector_intros]: "es \<noteq> [] \<Longrightarrow> answers_in es (select_tool_aware v s es)"
  by (simp add: select_tool_aware_def Let_def selector_intros split: option.splits)

lemma answers_context [selector_intros]: "es \<noteq> [] \<Longrightarrow> answers_in es (select_context_adaptive s es)"
proof (cases "ss_agent_context s")
  case (Some c)
  let ?t = "case ac_estimated_tokens c of Some n \<Rightarrow> n | None \<Rightarrow> 0"
  let ?f = "filter (\<lambda>e. \<exists>p \<in> set (endpoint_profiles s e). context_fits ?t p) es"
  assume "es \<noteq> []"
  then show ?thesis
    using Some first_endpoint_sorted [of es "\<lambda>a b. cmp_rev (cmp_key snd a b)" "largest_context s"]
      first_endpoint_sorted [of ?f by_cost "lowest_cost s mean_cost"]
    by (cases "?f = []") (auto simp: select_context_adaptive_def Let_def simp del: filter_empty_conv)
qed (simp add: select_context_adaptive_def selector_intros)

lemma answers_hash [selector_intros]: "es \<noteq> [] \<Longrightarrow> answers_in es (select_by_hash s k es)"
  by (auto simp: select_by_hash_def intro!: nth_mem)

lemma answers_sticky [selector_intros]: "es \<noteq> [] \<Longrightarrow> answers_in es (select_sticky_session s es)"
  by (simp add: select_sticky_session_def selector_intros split: option.splits)

lemma answers_reasoning [selector_intros]: "es \<noteq> [] \<Longrightarrow> answers_in es (select_reasoning_depth s es)"
  by (simp add: select_reasoning_depth_def selector_intros split: option.splits)

definition draws_in_range :: "select_env \<Rightarrow> bool" where
  "draws_in_range v \<longleftrightarrow> (\<forall>n. 0 < n \<longrightarrow> se_gen_range v n < n)"

lemma select_answers:
  assumes "draws_in_range v"
  shows "if filter ep_enabled es = [] then StrategySelector_select v h s es = Some (s, None)
    else answers_in (filter ep_enabled es) (StrategySelector_select v h s es)"
proof (cases "filter ep_enabled es = []")
  case False
  then have "es \<noteq> []" by auto
  moreover have "answers_in (filter ep_enabled es) (select_random v s (filter ep_enabled es))"
    using False assms by (intro answers_random) (auto simp: draws_in_range_def simp del: filter_empty_conv)
  ultimately show ?thesis
    using False unfolding StrategySelector_select_def Let_def
    by (cases "ss_strategy s") (simp_all add: selector_intros del: filter_empty_conv)
qed (simp add: StrategySelector_select_def del: filter_empty_conv)

text \<open>The pool's view of the two selectors: the endpoint, without the counter.\<close>

definition select_endpoint_of ::
    "select_env \<Rightarrow> HealthTracker \<Rightarrow> StrategySelector \<Rightarrow> ProviderEndpoint list \<Rightarrow> ProviderEndpoint option panics" where
  "select_endpoint_of v h s es = map_option snd (StrategySelector_select v h s es)"

text \<open>A generator whose draws are in range, and what every strategy promises over it.\<close>

locale drawing =
  fixes v :: select_env
  assumes draws: "draws_in_range v"

sublocale drawing < strategies: endpoint_selector "select_endpoint_of v h s" for h s
proof
  fix es e
  note A = select_answers [OF draws, of es h s]
  show "\<exists>r. select_endpoint_of v h s es = Some r"
    using A by (auto simp: select_endpoint_of_def answers_in_def split: if_splits)
  show "select_endpoint_of v h s es = Some (Some e) \<Longrightarrow> e \<in> set es \<and> ep_enabled e"
    using A by (auto simp: select_endpoint_of_def answers_in_def split: if_splits)
  show "select_endpoint_of v h s es = Some None \<Longrightarrow> \<forall>e \<in> set es. \<not> ep_enabled e"
    using A by (cases "filter ep_enabled es = []")
      (auto simp: select_endpoint_of_def answers_in_def filter_empty_conv split: if_splits)
qed

text \<open>Any generator reduced to the range asked for.\<close>

definition reduced :: "select_env \<Rightarrow> select_env" where
  "reduced v = v\<lparr> se_gen_range := (\<lambda>n. se_gen_range v n mod n) \<rparr>"

interpretation reduced: drawing "reduced v" for v
  by unfold_locales (simp add: draws_in_range_def reduced_def)

interpretation objectives: endpoint_selector "\<lambda>es. Some (MultiObjectiveSelector_select s es)" for s
proof
  fix es e
  note A = first_endpoint_sorted [of "filter ep_enabled es" by_score_desc "total_score s"]
  show "\<exists>r. Some (MultiObjectiveSelector_select s es) = Some r" by blast
  show "Some (MultiObjectiveSelector_select s es) = Some (Some e) \<Longrightarrow> e \<in> set es \<and> ep_enabled e"
    using A by (auto simp: MultiObjectiveSelector_select_def Let_def simp del: filter_empty_conv split: if_splits)
  show "Some (MultiObjectiveSelector_select s es) = Some None \<Longrightarrow> \<forall>e \<in> set es. \<not> ep_enabled e"
    using A by (cases "filter ep_enabled es = []")
      (auto simp: MultiObjectiveSelector_select_def Let_def filter_empty_conv split: if_splits)
qed

subsection \<open>Weighted selection is proportional\<close>

definition weight_sum :: "ProviderEndpoint list \<Rightarrow> nat" where
  "weight_sum es = sum_list (map (unat \<circ> ep_weight) es)"

definition weight_in :: "ProviderEndpoint \<Rightarrow> ProviderEndpoint list \<Rightarrow> nat" where
  "weight_in e es = sum_list (map (\<lambda>x. if x = e then unat (ep_weight x) else 0) es)"

lemma unat_sum_weights: "weight_sum es < 2 ^ 32 \<Longrightarrow> unat (sum_list (map ep_weight es)) = weight_sum es"
proof (induction es)
  case (Cons x xs)
  then have "unat (sum_list (map ep_weight xs)) = weight_sum xs" by (simp add: weight_sum_def)
  then show ?case
    using Cons.prems unat_add_no_wrap [of "ep_weight x" "sum_list (map ep_weight xs)"]
    by (simp add: weight_sum_def)
qed (simp add: weight_sum_def)

text \<open>Of the targets in the window of a list, as many pick an endpoint as it has weight.\<close>

lemma weighted_loop_card:
  assumes "unat c + weight_sum es < 2 ^ 32"
  shows "card {t \<in> {unat c..<unat c + weight_sum es}. weighted_loop es (of_nat t) c = Some e} = weight_in e es"
  using assms
proof (induction es arbitrary: c)
  case (Cons x xs)
  let ?w = "unat (ep_weight x)" and ?W = "weight_sum xs"
  have W: "weight_sum (x # xs) = ?w + ?W" by (simp add: weight_sum_def)
  have cw: "unat (c + ep_weight x) = unat c + ?w"
    using Cons.prems by (intro unat_add_no_wrap) (simp add: W)
  have lt: "(of_nat t :: u32) < c + ep_weight x \<longleftrightarrow> t < unat c + ?w" if "t < unat c + weight_sum (x # xs)" for t
  proof -
    have "unat (of_nat t :: u32) = t"
      using that Cons.prems by (simp add: unsigned_of_nat take_bit_nat_eq_self)
    then show ?thesis by (simp add: word_less_nat_alt cw)
  qed
  let ?A = "{t \<in> {unat c..<unat c + ?w}. x = e}"
  let ?B = "{t \<in> {unat (c + ep_weight x)..<unat (c + ep_weight x) + ?W}.
              weighted_loop xs (of_nat t) (c + ep_weight x) = Some e}"
  have "{t \<in> {unat c..<unat c + weight_sum (x # xs)}. weighted_loop (x # xs) (of_nat t) c = Some e} = ?A \<union> ?B"
    unfolding W cw using lt by (auto simp: W Let_def)
  moreover have "?A \<inter> ?B = {}" by (auto simp: cw)
  moreover have "card ?A = (if x = e then ?w else 0)"
  proof -
    have "?A = (if x = e then {unat c..<unat c + ?w} else {})" by auto
    then show ?thesis by simp
  qed
  moreover have "card ?B = weight_in e xs" using Cons.prems by (intro Cons.IH) (simp add: cw W)
  moreover have "finite ?A" "finite ?B" by simp_all
  ultimately have "card {t \<in> {unat c..<unat c + weight_sum (x # xs)}. weighted_loop (x # xs) (of_nat t) c = Some e} =
      (if x = e then ?w else 0) + weight_in e xs"
    by (simp only: card_Un_disjoint)
  then show ?case by (simp add: weight_in_def)
qed (simp add: weight_sum_def weight_in_def)

lemma unat_of_nat_u32: "t < 2 ^ 32 \<Longrightarrow> unat (of_nat t :: u32) = t"
  by (simp add: unsigned_of_nat take_bit_nat_eq_self)

lemma weighted_loop_finds:
  assumes "unat c \<le> t" "t < unat c + weight_sum es" "unat c + weight_sum es < 2 ^ 32"
  shows "\<exists>x. weighted_loop es (of_nat t) c = Some x"
  using assms
proof (induction es arbitrary: c)
  case (Cons x xs)
  have W: "weight_sum (x # xs) = unat (ep_weight x) + weight_sum xs" by (simp add: weight_sum_def)
  have cw: "unat (c + ep_weight x) = unat c + unat (ep_weight x)"
    using Cons.prems(3) by (intro unat_add_no_wrap) (simp add: W)
  have t: "unat (of_nat t :: u32) = t" using Cons.prems by (intro unat_of_nat_u32) simp
  show ?case
  proof (cases "(of_nat t :: u32) < c + ep_weight x")
    case False
    with cw t have "unat (c + ep_weight x) \<le> t" by (simp add: word_less_nat_alt)
    with Cons.IH [of "c + ep_weight x"] Cons.prems False show ?thesis by (simp add: cw W)
  qed (simp add: Let_def)
qed (simp add: weight_sum_def)

lemma select_weighted_draw:
  assumes "t < weight_sum es" "weight_sum es < 2 ^ 32" "se_gen_range v (weight_sum es) = t"
  shows "select_weighted v s es = Some (s, weighted_loop es (of_nat t) 0)"
proof -
  have tot: "unat (sum_list (map ep_weight es)) = weight_sum es" using assms(2) by (rule unat_sum_weights)
  then have nz: "sum_list (map ep_weight es) \<noteq> 0" using assms(1) by (metis unat_0 not_less_zero)
  obtain x where "weighted_loop es (of_nat t) 0 = Some x"
    using weighted_loop_finds [of 0 t es] assms by auto
  with nz tot assms(3) show ?thesis by (simp add: select_weighted_def Let_def)
qed

lemma select_weighted_card:
  assumes "weight_sum es < 2 ^ 32"
  shows "card {t \<in> {0..<weight_sum es}.
      select_weighted (v\<lparr> se_gen_range := (\<lambda>_. t) \<rparr>) s es = Some (s, Some e)} = weight_in e es"
proof -
  have "{t \<in> {0..<weight_sum es}. select_weighted (v\<lparr> se_gen_range := (\<lambda>_. t) \<rparr>) s es = Some (s, Some e)}
      = {t \<in> {0..<weight_sum es}. weighted_loop es (of_nat t) 0 = Some e}"
    using assms by (auto simp: select_weighted_draw)
  with weighted_loop_card [of 0 es e] assms show ?thesis by simp
qed

subsection \<open>The cheapest endpoint\<close>

text \<open>When some cost is below the maximum, no endpoint is cheaper than the one picked.\<close>

lemma cost_optimized_cheapest:
  assumes nan: "\<forall>e \<in> set es. lowest_cost s (trait_cost s) e \<noteq> NaN"
    and cheap: "e0 \<in> set es" "f64_lt (lowest_cost s (trait_cost s) e0) F64_MAX"
  shows "\<exists>e. select_cost_optimized s es = Some (s, Some e) \<and> e \<in> set es
    \<and> (\<forall>e' \<in> set es. f64_le (lowest_cost s (trait_cost s) e) (lowest_cost s (trait_cost s) e'))"
proof -
  let ?c = "lowest_cost s (trait_cost s)" and ?l = "map (\<lambda>e. (e, lowest_cost s (trait_cost s) e)) es"
  obtain p rest where sorted: "sort_by by_cost ?l = p # rest"
    using cheap(1) by (cases "sort_by by_cost ?l") auto
  obtain e x where p: "p = (e, x)" by (cases p)
  from sorted_head_in [OF sorted [unfolded p]] have e: "e \<in> set es" "x = ?c e" by auto
  have least: "f64_le (?c e) (?c e')" if "e' \<in> set es" for e'
  proof -
    have cmp: "by_cost = (\<lambda>a b. f64_cmp (snd a) (snd b))" by (intro ext) (simp add: by_cost_def)
    have "f64_cmp (snd (hd (sort_by by_cost ?l))) (snd (e', ?c e')) \<noteq> Greater"
      unfolding cmp by (rule f64_cmp.hd_sort_by) (use nan that in auto)
    then show ?thesis using nan that e by (simp add: sorted p f64_cmp_le)
  qed
  have "f64_lt x F64_MAX"
    using least [OF cheap(1)] cheap(2) e(2) f64_le_trans by (auto simp: f64_lt_def)
  with sorted p have "select_cost_optimized s es = Some (s, Some e)"
    by (simp add: select_cost_optimized_def)
  with e least show ?thesis by blast
qed

text \<open>Priority picks a minimum.\<close>

lemma priority_least:
  "select_priority s es = Some (s', Some e) \<Longrightarrow> e' \<in> set es \<Longrightarrow> ep_priority e \<le> ep_priority e'"
  using key_cmp.min_by_least [of ep_priority es e e']
  by (auto simp: select_priority_def cmp_key_def split: if_splits)

end
