(* ===== verification/Pool.thy ===== *)
theory Pool
  imports Selector
begin

text \<open>Pools of endpoints and their builder (\<open>aura-core/src/router/pool.rs\<close>).\<close>

record EndpointPool =
  pool_provider_name :: rstring
  pool_endpoints :: "ProviderEndpoint list"
  pool_selector :: StrategySelector
  pool_models :: "rstring list"

definition EndpointPool_new :: "rstring \<Rightarrow> EndpointPool" where
  "EndpointPool_new name =
     \<lparr> pool_provider_name = name, pool_endpoints = [], pool_selector = StrategySelector_default,
       pool_models = [] \<rparr>"

definition EndpointPool_with_strategy :: "RoutingStrategy \<Rightarrow> EndpointPool \<Rightarrow> EndpointPool" where
  "EndpointPool_with_strategy s p = p\<lparr> pool_selector := StrategySelector_new s \<rparr>"

definition EndpointPool_with_selector :: "StrategySelector \<Rightarrow> EndpointPool \<Rightarrow> EndpointPool" where
  "EndpointPool_with_selector s p = p\<lparr> pool_selector := s \<rparr>"

definition add_model :: "rstring \<Rightarrow> rstring list \<Rightarrow> rstring list" where
  "add_model m ms = (if m \<in> set ms then ms else ms @ [m])"

definition EndpointPool_add_endpoint :: "ProviderEndpoint \<Rightarrow> EndpointPool \<Rightarrow> EndpointPool" where
  "EndpointPool_add_endpoint e p =
     p\<lparr> pool_models := fold add_model (ProviderEndpoint_models e) (pool_models p),
        pool_endpoints := pool_endpoints p @ [e] \<rparr>"

definition EndpointPool_supports_model :: "EndpointPool \<Rightarrow> rstring \<Rightarrow> bool" where
  "EndpointPool_supports_model p m \<longleftrightarrow> (\<exists>e \<in> set (pool_endpoints p). ProviderEndpoint_supports_model e m)"

definition EndpointPool_select_endpoint ::
    "select_env \<Rightarrow> HealthTracker \<Rightarrow> EndpointPool \<Rightarrow> ProviderEndpoint list \<Rightarrow>
     (EndpointPool \<times> ProviderEndpoint option) panics" where
  "EndpointPool_select_endpoint v h p es =
     map_option (\<lambda>(s, r). (p\<lparr> pool_selector := s \<rparr>, r)) (StrategySelector_select v h (pool_selector p) es)"

definition EndpointPool_get_endpoint :: "EndpointPool \<Rightarrow> rstring \<Rightarrow> ProviderEndpoint option" where
  "EndpointPool_get_endpoint p i = find (\<lambda>e. ep_id e = i) (pool_endpoints p)"

definition EndpointPool_get_provider :: "EndpointPool \<Rightarrow> rstring \<Rightarrow> provider option" where
  "EndpointPool_get_provider p i = map_option ep_provider (find (\<lambda>e. ep_id e = i) (pool_endpoints p))"

definition EndpointPool_len :: "EndpointPool \<Rightarrow> nat" where
  "EndpointPool_len p = length (pool_endpoints p)"

definition EndpointPool_is_empty :: "EndpointPool \<Rightarrow> bool" where
  "EndpointPool_is_empty p \<longleftrightarrow> pool_endpoints p = []"

definition EndpointPool_strategy :: "EndpointPool \<Rightarrow> RoutingStrategy" where
  "EndpointPool_strategy p = ss_strategy (pool_selector p)"

definition enabled_endpoints :: "EndpointPool \<Rightarrow> ProviderEndpoint list" where
  "enabled_endpoints p = filter ep_enabled (pool_endpoints p)"

definition endpoint_ids :: "EndpointPool \<Rightarrow> rstring list" where
  "endpoint_ids p = map ep_id (pool_endpoints p)"

subsection \<open>The builder\<close>

record EndpointPoolBuilder =
  pb_pool :: EndpointPool

definition EndpointPoolBuilder_new :: "rstring \<Rightarrow> EndpointPoolBuilder" where
  "EndpointPoolBuilder_new name = \<lparr> pb_pool = EndpointPool_new name \<rparr>"

definition EndpointPoolBuilder_strategy :: "RoutingStrategy \<Rightarrow> EndpointPoolBuilder \<Rightarrow> EndpointPoolBuilder" where
  "EndpointPoolBuilder_strategy s b = b\<lparr> pb_pool := EndpointPool_with_strategy s (pb_pool b) \<rparr>"

definition EndpointPoolBuilder_selector :: "StrategySelector \<Rightarrow> EndpointPoolBuilder \<Rightarrow> EndpointPoolBuilder" where
  "EndpointPoolBuilder_selector s b = b\<lparr> pb_pool := EndpointPool_with_selector s (pb_pool b) \<rparr>"

definition EndpointPoolBuilder_endpoint :: "ProviderEndpoint \<Rightarrow> EndpointPoolBuilder \<Rightarrow> EndpointPoolBuilder" where
  "EndpointPoolBuilder_endpoint e b = b\<lparr> pb_pool := EndpointPool_add_endpoint e (pb_pool b) \<rparr>"

definition EndpointPoolBuilder_endpoints :: "ProviderEndpoint list \<Rightarrow> EndpointPoolBuilder \<Rightarrow> EndpointPoolBuilder" where
  "EndpointPoolBuilder_endpoints es b = b\<lparr> pb_pool := fold EndpointPool_add_endpoint es (pb_pool b) \<rparr>"

definition EndpointPoolBuilder_build :: "EndpointPoolBuilder \<Rightarrow> EndpointPool" where
  "EndpointPoolBuilder_build b = pb_pool b"

subsection \<open>The list of models\<close>

lemma add_model_distinct: "distinct ms \<Longrightarrow> distinct (fold add_model ns ms)"
  by (induction ns arbitrary: ms) (auto simp: add_model_def)

lemma set_add_models: "set (fold add_model ns ms) = set ms \<union> set ns"
  by (induction ns arbitrary: ms) (auto simp: add_model_def)

text \<open>The pool's models are the union of its endpoints' models, each listed once.\<close>

definition pool_ok :: "EndpointPool \<Rightarrow> bool" where
  "pool_ok p \<longleftrightarrow> distinct (pool_models p)
     \<and> set (pool_models p) = (\<Union>e \<in> set (pool_endpoints p). set (ProviderEndpoint_models e))"

lemma pool_ok_new: "pool_ok (EndpointPool_new n)"
  by (simp add: pool_ok_def EndpointPool_new_def)

lemma pool_ok_add: "pool_ok p \<Longrightarrow> pool_ok (EndpointPool_add_endpoint e p)"
  by (auto simp: pool_ok_def EndpointPool_add_endpoint_def add_model_distinct set_add_models)

lemma pool_ok_build:
  "pool_ok (EndpointPoolBuilder_build (EndpointPoolBuilder_endpoints es (EndpointPoolBuilder_new n)))
   \<and> pool_endpoints (EndpointPoolBuilder_build (EndpointPoolBuilder_endpoints es (EndpointPoolBuilder_new n))) = es"
proof -
  have "pool_ok p \<Longrightarrow> pool_ok (fold EndpointPool_add_endpoint es p)
      \<and> pool_endpoints (fold EndpointPool_add_endpoint es p) = pool_endpoints p @ es" for p
    by (induction es arbitrary: p) (auto simp: pool_ok_add, simp add: EndpointPool_add_endpoint_def)
  from this [OF pool_ok_new, of n] show ?thesis
    by (simp add: EndpointPoolBuilder_build_def EndpointPoolBuilder_endpoints_def
        EndpointPoolBuilder_new_def EndpointPool_new_def)
qed

subsection \<open>Selection from the pool\<close>

lemma select_endpoint_pool:
  "map_option snd (EndpointPool_select_endpoint v h p es) = select_endpoint_of v h (pool_selector p) es"
  by (simp add: EndpointPool_select_endpoint_def select_endpoint_of_def option.map_comp comp_def case_prod_beta)

lemma select_endpoint_frame:
  "EndpointPool_select_endpoint v h p es = Some (p', r) \<Longrightarrow> pool_endpoints p' = pool_endpoints p"
  by (auto simp: EndpointPool_select_endpoint_def)

lemma select_endpoint_none:
  assumes "draws_in_range v" "EndpointPool_select_endpoint v h p es = Some (p', None)"
  shows "p' = p"
  using select_answers [OF assms(1), of es h "pool_selector p"] assms(2)
  by (auto simp: EndpointPool_select_endpoint_def answers_in_def split: if_splits)

end
