(* ===== verification/Fallback.thy ===== *)
theory Fallback
  imports Prelude
begin

text \<open>Fallback chains, their builder and the four built-in chains (\<open>aura-core/src/router/fallback.rs\<close>).\<close>

record ModelMapping =
  mm_primary :: rstring
  mm_fallback :: rstring
  mm_fallback_provider :: rstring

record FallbackChain =
  fc_providers :: "rstring list"
  fc_max_attempts :: usize
  fc_fallback_on_rate_limit :: bool
  fc_fallback_on_timeout :: bool
  fc_model_mappings :: "ModelMapping list"

definition FallbackChain_from_providers :: "rstring list \<Rightarrow> FallbackChain" where
  "FallbackChain_from_providers ps =
     \<lparr> fc_providers = ps, fc_max_attempts = 3, fc_fallback_on_rate_limit = True,
       fc_fallback_on_timeout = True, fc_model_mappings = [] \<rparr>"

definition FallbackChain_new :: FallbackChain where
  "FallbackChain_new =
     \<lparr> fc_providers = [], fc_max_attempts = 3, fc_fallback_on_rate_limit = True,
       fc_fallback_on_timeout = True, fc_model_mappings = [] \<rparr>"

definition FallbackChain_add_provider :: "rstring \<Rightarrow> FallbackChain \<Rightarrow> FallbackChain" where
  "FallbackChain_add_provider p c = c\<lparr> fc_providers := fc_providers c @ [p] \<rparr>"

definition FallbackChain_max_attempts :: "usize \<Rightarrow> FallbackChain \<Rightarrow> FallbackChain" where
  "FallbackChain_max_attempts n c = c\<lparr> fc_max_attempts := n \<rparr>"

definition FallbackChain_fallback_on_rate_limit :: "bool \<Rightarrow> FallbackChain \<Rightarrow> FallbackChain" where
  "FallbackChain_fallback_on_rate_limit b c = c\<lparr> fc_fallback_on_rate_limit := b \<rparr>"

definition FallbackChain_fallback_on_timeout :: "bool \<Rightarrow> FallbackChain \<Rightarrow> FallbackChain" where
  "FallbackChain_fallback_on_timeout b c = c\<lparr> fc_fallback_on_timeout := b \<rparr>"

definition FallbackChain_model_mapping :: "rstring \<Rightarrow> rstring \<Rightarrow> rstring \<Rightarrow> FallbackChain \<Rightarrow> FallbackChain" where
  "FallbackChain_model_mapping a b p c =
     c\<lparr> fc_model_mappings := fc_model_mappings c @
          [\<lparr> mm_primary = a, mm_fallback = b, mm_fallback_provider = p \<rparr>] \<rparr>"

definition get_fallback_model :: "FallbackChain \<Rightarrow> rstring \<Rightarrow> (rstring \<times> rstring) option" where
  "get_fallback_model c m =
     map_option (\<lambda>x. (mm_fallback x, mm_fallback_provider x))
       (find (\<lambda>x. mm_primary x = m) (fc_model_mappings c))"

definition FallbackChain_is_empty :: "FallbackChain \<Rightarrow> bool" where
  "FallbackChain_is_empty c \<longleftrightarrow> fc_providers c = []"

definition FallbackChain_len :: "FallbackChain \<Rightarrow> nat" where
  "FallbackChain_len c = length (fc_providers c)"

definition get_at_depth :: "FallbackChain \<Rightarrow> nat \<Rightarrow> rstring option" where
  "get_at_depth c depth =
     (if depth = 0 \<or> length (fc_providers c) < depth \<or> unat (fc_max_attempts c) < depth then None
      else if depth - 1 < length (fc_providers c) then Some (fc_providers c ! (depth - 1)) else None)"

subsection \<open>The builder\<close>

record FallbackChainBuilder =
  fb_chain :: FallbackChain

definition FallbackChainBuilder_new :: FallbackChainBuilder where
  "FallbackChainBuilder_new = \<lparr> fb_chain = FallbackChain_new \<rparr>"

definition FallbackChainBuilder_provider :: "rstring \<Rightarrow> FallbackChainBuilder \<Rightarrow> FallbackChainBuilder" where
  "FallbackChainBuilder_provider p b = b\<lparr> fb_chain := FallbackChain_add_provider p (fb_chain b) \<rparr>"

definition FallbackChainBuilder_providers :: "rstring list \<Rightarrow> FallbackChainBuilder \<Rightarrow> FallbackChainBuilder" where
  "FallbackChainBuilder_providers ps b = b\<lparr> fb_chain := fold FallbackChain_add_provider ps (fb_chain b) \<rparr>"

definition FallbackChainBuilder_max_attempts :: "usize \<Rightarrow> FallbackChainBuilder \<Rightarrow> FallbackChainBuilder" where
  "FallbackChainBuilder_max_attempts n b = b\<lparr> fb_chain := (fb_chain b)\<lparr> fc_max_attempts := n \<rparr> \<rparr>"

definition FallbackChainBuilder_on_rate_limit :: "bool \<Rightarrow> FallbackChainBuilder \<Rightarrow> FallbackChainBuilder" where
  "FallbackChainBuilder_on_rate_limit x b = b\<lparr> fb_chain := (fb_chain b)\<lparr> fc_fallback_on_rate_limit := x \<rparr> \<rparr>"

definition FallbackChainBuilder_on_timeout :: "bool \<Rightarrow> FallbackChainBuilder \<Rightarrow> FallbackChainBuilder" where
  "FallbackChainBuilder_on_timeout x b = b\<lparr> fb_chain := (fb_chain b)\<lparr> fc_fallback_on_timeout := x \<rparr> \<rparr>"

definition FallbackChainBuilder_map_model ::
    "rstring \<Rightarrow> rstring \<Rightarrow> rstring \<Rightarrow> FallbackChainBuilder \<Rightarrow> FallbackChainBuilder" where
  "FallbackChainBuilder_map_model a m p b =
     b\<lparr> fb_chain := (fb_chain b)\<lparr> fc_model_mappings := fc_model_mappings (fb_chain b) @
          [\<lparr> mm_primary = a, mm_fallback = m, mm_fallback_provider = p \<rparr>] \<rparr> \<rparr>"

definition FallbackChainBuilder_build :: "FallbackChainBuilder \<Rightarrow> FallbackChain" where
  "FallbackChainBuilder_build b = fb_chain b"

subsection \<open>The built-in chains\<close>

definition openai_primary :: FallbackChain where
  "openai_primary =
     FallbackChainBuilder_build
       (FallbackChainBuilder_map_model ''gpt-4-turbo'' ''gemini-2.0-pro'' ''google''
       (FallbackChainBuilder_map_model ''gpt-4o-mini'' ''claude-3-5-haiku-20241022'' ''anthropic''
       (FallbackChainBuilder_map_model ''gpt-4o'' ''claude-sonnet-4-20250514'' ''anthropic''
       (FallbackChainBuilder_provider ''google''
       (FallbackChainBuilder_provider ''anthropic'' FallbackChainBuilder_new)))))"

definition anthropic_primary :: FallbackChain where
  "anthropic_primary =
     FallbackChainBuilder_build
       (FallbackChainBuilder_map_model ''claude-opus-4-20250514'' ''gpt-4-turbo'' ''openai''
       (FallbackChainBuilder_map_model ''claude-3-5-haiku-20241022'' ''gpt-4o-mini'' ''openai''
       (FallbackChainBuilder_map_model ''claude-sonnet-4-20250514'' ''gpt-4o'' ''openai''
       (FallbackChainBuilder_provider ''google''
       (FallbackChainBuilder_provider ''openai'' FallbackChainBuilder_new)))))"

definition google_primary :: FallbackChain where
  "google_primary =
     FallbackChainBuilder_build
       (FallbackChainBuilder_map_model ''gemini-2.0-flash'' ''gpt-4o-mini'' ''openai''
       (FallbackChainBuilder_map_model ''gemini-2.0-pro'' ''gpt-4o'' ''openai''
       (FallbackChainBuilder_provider ''anthropic''
       (FallbackChainBuilder_provider ''openai'' FallbackChainBuilder_new))))"

definition cost_optimized :: FallbackChain where
  "cost_optimized =
     FallbackChainBuilder_build
       (FallbackChainBuilder_provider ''anthropic''
       (FallbackChainBuilder_provider ''openai''
       (FallbackChainBuilder_provider ''google'' FallbackChainBuilder_new)))"

text \<open>The depths that answer are those from one to the smaller of the length and the limit.\<close>

lemma get_at_depth_Some:
  "get_at_depth c d = Some p \<longleftrightarrow>
     1 \<le> d \<and> d \<le> min (length (fc_providers c)) (unat (fc_max_attempts c)) \<and> p = fc_providers c ! (d - 1)"
  by (auto simp: get_at_depth_def)

end
