(* ===== verification/Router_Config.thy ===== *)
theory Router_Config
  imports Selector Auto_Config
begin

text \<open>
  The configuration of the smart router (\<open>aura-core/src/router/config.rs\<close>): records, defaults and
  builder methods. Durations are nanoseconds.
\<close>

subsection \<open>Weights\<close>

record RoutingWeights =
  rw_cost :: f64
  rw_latency :: f64
  rw_quality :: f64

definition RoutingWeights_default :: RoutingWeights where
  "RoutingWeights_default = \<lparr> rw_cost = f64_lit 33 100, rw_latency = f64_lit 33 100, rw_quality = f64_lit 34 100 \<rparr>"

definition cost_focused :: RoutingWeights where
  "cost_focused = \<lparr> rw_cost = f64_lit 7 10, rw_latency = f64_lit 15 100, rw_quality = f64_lit 15 100 \<rparr>"

definition latency_focused :: RoutingWeights where
  "latency_focused = \<lparr> rw_cost = f64_lit 15 100, rw_latency = f64_lit 7 10, rw_quality = f64_lit 15 100 \<rparr>"

definition quality_focused :: RoutingWeights where
  "quality_focused = \<lparr> rw_cost = f64_lit 15 100, rw_latency = f64_lit 15 100, rw_quality = f64_lit 7 10 \<rparr>"

definition RoutingWeights_normalized :: "RoutingWeights \<Rightarrow> RoutingWeights" where
  "RoutingWeights_normalized w =
     (let total = f64_add (f64_add (rw_cost w) (rw_latency w)) (rw_quality w)
      in if f64_lt (f64_lit 0 1) total
         then \<lparr> rw_cost = f64_div (rw_cost w) total, rw_latency = f64_div (rw_latency w) total,
                rw_quality = f64_div (rw_quality w) total \<rparr>
         else RoutingWeights_default)"

subsection \<open>Agentic strategies\<close>

datatype SessionTracking = ResponseId | Header | Both

record SessionConfig =
  sc_enabled :: bool
  sc_tracking :: SessionTracking
  sc_header :: "rstring option"
  sc_fallback_strategy :: RoutingStrategy
  sc_timeout :: nat

definition SessionConfig_default :: SessionConfig where
  "SessionConfig_default =
     \<lparr> sc_enabled = False, sc_tracking = ResponseId, sc_header = None,
       sc_fallback_strategy = RS_LeastLatency, sc_timeout = secs (30 * 60) \<rparr>"

record ToolCategoryConfig =
  tc_preferred_models :: "rstring list"
  tc_required_traits :: "ModelTrait list"

record ToolRoutingConfig =
  tr_enabled :: bool
  tr_categories :: "ToolCategory \<rightharpoonup> ToolCategoryConfig"
  tr_default_models :: "rstring list"
  tr_default_traits :: "ModelTrait list"

definition default_categories :: "ToolCategory \<rightharpoonup> ToolCategoryConfig" where
  "default_categories =
     [CodeExecution \<mapsto> \<lparr> tc_preferred_models = [''claude-sonnet-4'', ''gpt-4o''],
        tc_required_traits = [MT_Code, MT_ToolUse] \<rparr>,
      WebSearch \<mapsto> \<lparr> tc_preferred_models = [''gemini-2.0-flash'', ''gpt-4o-mini''],
        tc_required_traits = [MT_Fast, MT_ToolUse] \<rparr>,
      DataAnalysis \<mapsto> \<lparr> tc_preferred_models = [''claude-opus-4'', ''gpt-4o''],
        tc_required_traits = [MT_Analysis, MT_Code] \<rparr>,
      ImageProcessing \<mapsto> \<lparr> tc_preferred_models = [''gpt-4o'', ''gemini-2.0-pro''],
        tc_required_traits = [MT_Vision] \<rparr>]"

definition ToolRoutingConfig_default :: ToolRoutingConfig where
  "ToolRoutingConfig_default =
     \<lparr> tr_enabled = False, tr_categories = default_categories,
       tr_default_models = [''gpt-4o'', ''claude-sonnet-4''], tr_default_traits = [MT_ToolUse] \<rparr>"

record ContextRoutingConfig =
  cr_enabled :: bool
  cr_small_threshold :: u32
  cr_medium_threshold :: u32
  cr_large_threshold :: u32
  cr_small_models :: "rstring list"
  cr_medium_models :: "rstring list"
  cr_large_models :: "rstring list"
  cr_xlarge_models :: "rstring list"

definition ContextRoutingConfig_default :: ContextRoutingConfig where
  "ContextRoutingConfig_default =
     \<lparr> cr_enabled = False, cr_small_threshold = 4000, cr_medium_threshold = 32000,
       cr_large_threshold = 128000,
       cr_small_models = [''gpt-4o-mini'', ''gemini-2.0-flash'', ''claude-3-5-haiku''],
       cr_medium_models = [''gpt-4o'', ''claude-sonnet-4'', ''gemini-2.0-pro''],
       cr_large_models = [''claude-sonnet-4'', ''gpt-4o''],
       cr_xlarge_models = [''claude-sonnet-4'', ''gemini-2.0-pro''] \<rparr>"

record ReasoningConfig =
  rc_enabled :: bool
  rc_triggers :: "rstring list"
  rc_deep_reasoning_models :: "rstring list"
  rc_standard_models :: "rstring list"

definition ReasoningConfig_default :: ReasoningConfig where
  "ReasoningConfig_default =
     \<lparr> rc_enabled = False,
       rc_triggers = [''step by step'', ''think carefully'', ''explain your reasoning'', ''analyze this'',
         ''compare and contrast'', ''prove that'', ''derive'', ''calculate''],
       rc_deep_reasoning_models = [''o1'', ''claude-opus-4''],
       rc_standard_models = [''gpt-4o'', ''claude-sonnet-4'', ''gemini-2.0-pro''] \<rparr>"

subsection \<open>Fallbacks\<close>

record FallbackConfig =
  fg_enabled :: bool
  fg_max_attempts :: usize
  fg_on_rate_limit :: bool
  fg_on_timeout :: bool
  fg_on_auth_error :: bool
  fg_retry_delay :: nat
  fg_chains :: "rstring \<rightharpoonup> rstring list"

definition FallbackConfig_default :: FallbackConfig where
  "FallbackConfig_default =
     \<lparr> fg_enabled = True, fg_max_attempts = 3, fg_on_rate_limit = True, fg_on_timeout = True,
       fg_on_auth_error = False, fg_retry_delay = 100 * 1000000, fg_chains = Map.empty \<rparr>"

definition FallbackConfig_enabled :: "bool \<Rightarrow> FallbackConfig \<Rightarrow> FallbackConfig" where
  "FallbackConfig_enabled b c = c\<lparr> fg_enabled := b \<rparr>"

definition FallbackConfig_max_attempts :: "usize \<Rightarrow> FallbackConfig \<Rightarrow> FallbackConfig" where
  "FallbackConfig_max_attempts n c = c\<lparr> fg_max_attempts := n \<rparr>"

definition FallbackConfig_retry_delay :: "nat \<Rightarrow> FallbackConfig \<Rightarrow> FallbackConfig" where
  "FallbackConfig_retry_delay d c = c\<lparr> fg_retry_delay := d \<rparr>"

definition FallbackConfig_chain :: "rstring \<Rightarrow> rstring list \<Rightarrow> FallbackConfig \<Rightarrow> FallbackConfig" where
  "FallbackConfig_chain primary fs c = c\<lparr> fg_chains := (fg_chains c)(primary \<mapsto> fs) \<rparr>"

definition get_fallbacks :: "FallbackConfig \<Rightarrow> rstring \<Rightarrow> rstring list option" where
  "get_fallbacks c primary = fg_chains c primary"

subsection \<open>Endpoints\<close>

record EndpointConfig =
  ec_id :: rstring
  ec_name :: "rstring option"
  ec_api_key :: "rstring option"
  ec_api_key_ref :: "rstring option"
  ec_base_url :: "rstring option"
  ec_weight :: u32
  ec_priority :: u32
  ec_enabled :: bool
  ec_region :: "Region option"
  ec_tags :: "rstring list"
  ec_rate_limit_rpm :: "u32 option"
  ec_max_concurrent :: "u32 option"

definition EndpointConfig_default :: EndpointConfig where
  "EndpointConfig_default =
     \<lparr> ec_id = [], ec_name = None, ec_api_key = None, ec_api_key_ref = None, ec_base_url = None,
       ec_weight = 1, ec_priority = 0, ec_enabled = True, ec_region = None, ec_tags = [],
       ec_rate_limit_rpm = None, ec_max_concurrent = None \<rparr>"

definition EndpointConfig_new :: "rstring \<Rightarrow> EndpointConfig" where
  "EndpointConfig_new i = EndpointConfig_default\<lparr> ec_id := i \<rparr>"

definition EndpointConfig_name :: "rstring \<Rightarrow> EndpointConfig \<Rightarrow> EndpointConfig" where
  "EndpointConfig_name x c = c\<lparr> ec_name := Some x \<rparr>"

definition EndpointConfig_api_key :: "rstring \<Rightarrow> EndpointConfig \<Rightarrow> EndpointConfig" where
  "EndpointConfig_api_key x c = c\<lparr> ec_api_key := Some x \<rparr>"

definition EndpointConfig_api_key_ref :: "rstring \<Rightarrow> EndpointConfig \<Rightarrow> EndpointConfig" where
  "EndpointConfig_api_key_ref x c = c\<lparr> ec_api_key_ref := Some x \<rparr>"

definition EndpointConfig_base_url :: "rstring \<Rightarrow> EndpointConfig \<Rightarrow> EndpointConfig" where
  "EndpointConfig_base_url x c = c\<lparr> ec_base_url := Some x \<rparr>"

definition EndpointConfig_weight :: "u32 \<Rightarrow> EndpointConfig \<Rightarrow> EndpointConfig" where
  "EndpointConfig_weight x c = c\<lparr> ec_weight := x \<rparr>"

definition EndpointConfig_priority :: "u32 \<Rightarrow> EndpointConfig \<Rightarrow> EndpointConfig" where
  "EndpointConfig_priority x c = c\<lparr> ec_priority := x \<rparr>"

definition EndpointConfig_enabled :: "bool \<Rightarrow> EndpointConfig \<Rightarrow> EndpointConfig" where
  "EndpointConfig_enabled x c = c\<lparr> ec_enabled := x \<rparr>"

definition EndpointConfig_region :: "Region \<Rightarrow> EndpointConfig \<Rightarrow> EndpointConfig" where
  "EndpointConfig_region x c = c\<lparr> ec_region := Some x \<rparr>"

definition EndpointConfig_tag :: "rstring \<Rightarrow> EndpointConfig \<Rightarrow> EndpointConfig" where
  "EndpointConfig_tag t c = c\<lparr> ec_tags := ec_tags c @ [t] \<rparr>"

definition EndpointConfig_rate_limit_rpm :: "u32 \<Rightarrow> EndpointConfig \<Rightarrow> EndpointConfig" where
  "EndpointConfig_rate_limit_rpm x c = c\<lparr> ec_rate_limit_rpm := Some x \<rparr>"

definition EndpointConfig_max_concurrent :: "u32 \<Rightarrow> EndpointConfig \<Rightarrow> EndpointConfig" where
  "EndpointConfig_max_concurrent x c = c\<lparr> ec_max_concurrent := Some x \<rparr>"

text \<open>The environment is an argument.\<close>

definition resolve_api_key :: "(rstring \<Rightarrow> rstring option) \<Rightarrow> EndpointConfig \<Rightarrow> rstring option" where
  "resolve_api_key env_var c =
     (case ec_api_key c of
        Some key \<Rightarrow> Some key
      | None \<Rightarrow> Option.bind (ec_api_key_ref c) (\<lambda>r. Option.bind (strip_prefix r ''env:'') env_var))"

subsection \<open>The configuration\<close>

record RoutingConfig =
  rg_strategy :: RoutingStrategy
  rg_health :: HealthConfig
  rg_fallback :: FallbackConfig
  rg_endpoints :: "rstring \<rightharpoonup> EndpointConfig list"
  rg_default_region :: "Region option"
  rg_optimization_goal :: OptimizationGoal
  rg_required_traits :: "ModelTrait list"
  rg_weights :: "RoutingWeights option"
  rg_session :: SessionConfig
  rg_tool_routing :: ToolRoutingConfig
  rg_context_routing :: ContextRoutingConfig
  rg_reasoning :: ReasoningConfig
  rg_auto :: AutoRoutingConfig

definition RoutingConfig_default :: RoutingConfig where
  "RoutingConfig_default =
     \<lparr> rg_strategy = RS_RoundRobin, rg_health = HealthConfig_default, rg_fallback = FallbackConfig_default,
       rg_endpoints = Map.empty, rg_default_region = None, rg_optimization_goal = OG_Balanced,
       rg_required_traits = [], rg_weights = None, rg_session = SessionConfig_default,
       rg_tool_routing = ToolRoutingConfig_default, rg_context_routing = ContextRoutingConfig_default,
       rg_reasoning = ReasoningConfig_default, rg_auto = AutoRoutingConfig_default \<rparr>"

definition RoutingConfig_with_strategy :: "RoutingStrategy \<Rightarrow> RoutingConfig \<Rightarrow> RoutingConfig" where
  "RoutingConfig_with_strategy x c = c\<lparr> rg_strategy := x \<rparr>"

definition RoutingConfig_with_health :: "HealthConfig \<Rightarrow> RoutingConfig \<Rightarrow> RoutingConfig" where
  "RoutingConfig_with_health x c = c\<lparr> rg_health := x \<rparr>"

definition RoutingConfig_with_fallback :: "FallbackConfig \<Rightarrow> RoutingConfig \<Rightarrow> RoutingConfig" where
  "RoutingConfig_with_fallback x c = c\<lparr> rg_fallback := x \<rparr>"

definition RoutingConfig_add_endpoint :: "rstring \<Rightarrow> EndpointConfig \<Rightarrow> RoutingConfig \<Rightarrow> RoutingConfig" where
  "RoutingConfig_add_endpoint p e c =
     c\<lparr> rg_endpoints := (rg_endpoints c)(p \<mapsto>
          (case rg_endpoints c p of Some es \<Rightarrow> es | None \<Rightarrow> []) @ [e]) \<rparr>"

definition RoutingConfig_with_region :: "Region \<Rightarrow> RoutingConfig \<Rightarrow> RoutingConfig" where
  "RoutingConfig_with_region x c = c\<lparr> rg_default_region := Some x \<rparr>"

definition RoutingConfig_with_optimization_goal :: "OptimizationGoal \<Rightarrow> RoutingConfig \<Rightarrow> RoutingConfig" where
  "RoutingConfig_with_optimization_goal x c = c\<lparr> rg_optimization_goal := x \<rparr>"

definition RoutingConfig_with_traits :: "ModelTrait list \<Rightarrow> RoutingConfig \<Rightarrow> RoutingConfig" where
  "RoutingConfig_with_traits x c = c\<lparr> rg_required_traits := x \<rparr>"

definition RoutingConfig_with_weights :: "RoutingWeights \<Rightarrow> RoutingConfig \<Rightarrow> RoutingConfig" where
  "RoutingConfig_with_weights x c = c\<lparr> rg_weights := Some x \<rparr>"

definition RoutingConfig_with_session :: "SessionConfig \<Rightarrow> RoutingConfig \<Rightarrow> RoutingConfig" where
  "RoutingConfig_with_session x c = c\<lparr> rg_session := x \<rparr>"

definition RoutingConfig_with_tool_routing :: "ToolRoutingConfig \<Rightarrow> RoutingConfig \<Rightarrow> RoutingConfig" where
  "RoutingConfig_with_tool_routing x c = c\<lparr> rg_tool_routing := x \<rparr>"

definition RoutingConfig_with_context_routing :: "ContextRoutingConfig \<Rightarrow> RoutingConfig \<Rightarrow> RoutingConfig" where
  "RoutingConfig_with_context_routing x c = c\<lparr> rg_context_routing := x \<rparr>"

definition RoutingConfig_with_reasoning :: "ReasoningConfig \<Rightarrow> RoutingConfig \<Rightarrow> RoutingConfig" where
  "RoutingConfig_with_reasoning x c = c\<lparr> rg_reasoning := x \<rparr>"

text \<open>A direct key wins over a reference.\<close>

lemma resolve_api_key_cases:
  "resolve_api_key env c =
     (if ec_api_key c \<noteq> None then ec_api_key c
      else case ec_api_key_ref c of
             Some r \<Rightarrow> (case strip_prefix r ''env:'' of Some v \<Rightarrow> env v | None \<Rightarrow> None)
           | None \<Rightarrow> None)"
  by (auto simp: resolve_api_key_def split: option.splits)

end
