(* ===== verification/Smart_Router.thy ===== *)
theory Smart_Router
  imports Pool Fallback Router_Config "HOL-Library.AList"
begin

text \<open>
  The smart router (\<open>aura-core/src/router/mod.rs\<close>): pools per provider, a model map, the health
  tracker and the fallback chains. Routing changes the counters of the pools' selectors, so the
  router is passed and returned. The hash map of pools, whose iteration order is observed, is
  the list of its entries.
\<close>

record RoutingDecision =
  rd_provider_name :: rstring
  rd_endpoint_id :: rstring
  rd_is_fallback :: bool
  rd_fallback_depth :: nat

definition RoutingDecision_primary :: "rstring \<Rightarrow> rstring \<Rightarrow> RoutingDecision" where
  "RoutingDecision_primary p e =
     \<lparr> rd_provider_name = p, rd_endpoint_id = e, rd_is_fallback = False, rd_fallback_depth = 0 \<rparr>"

definition RoutingDecision_fallback :: "rstring \<Rightarrow> rstring \<Rightarrow> nat \<Rightarrow> RoutingDecision" where
  "RoutingDecision_fallback p e d =
     \<lparr> rd_provider_name = p, rd_endpoint_id = e, rd_is_fallback = True, rd_fallback_depth = d \<rparr>"

record SmartRouter =
  sr_pools :: "(rstring \<times> EndpointPool) list"
  sr_model_map :: "rstring \<rightharpoonup> rstring"
  sr_health_tracker :: HealthTracker
  sr_fallback_chains :: "rstring \<rightharpoonup> FallbackChain"
  sr_config :: RoutingConfig

definition SmartRouter_new :: "RoutingConfig \<Rightarrow> SmartRouter" where
  "SmartRouter_new c =
     \<lparr> sr_pools = [], sr_model_map = Map.empty, sr_health_tracker = HealthTracker_new (rg_health c),
       sr_fallback_chains = Map.empty, sr_config = c \<rparr>"

definition register_pool :: "rstring \<Rightarrow> EndpointPool \<Rightarrow> SmartRouter \<Rightarrow> SmartRouter" where
  "register_pool name pool r =
     r\<lparr> sr_model_map := fold (\<lambda>m mm. mm(m \<mapsto> name)) (pool_models pool) (sr_model_map r),
        sr_health_tracker := fold (\<lambda>e. register_endpoint (ep_id e)) (pool_endpoints pool) (sr_health_tracker r),
        sr_pools := AList.update name pool (sr_pools r) \<rparr>"

definition add_fallback_chain :: "rstring \<Rightarrow> FallbackChain \<Rightarrow> SmartRouter \<Rightarrow> SmartRouter" where
  "add_fallback_chain primary chain r = r\<lparr> sr_fallback_chains := (sr_fallback_chains r)(primary \<mapsto> chain) \<rparr>"

definition get_provider_for_model :: "SmartRouter \<Rightarrow> rstring \<Rightarrow> rstring option" where
  "get_provider_for_model r model =
     (case sr_model_map r model of
        Some p \<Rightarrow> Some p
      | None \<Rightarrow> map_option fst (find (\<lambda>(_, pool). EndpointPool_supports_model pool model) (sr_pools r)))"

definition SmartRouter_get_pool :: "SmartRouter \<Rightarrow> rstring \<Rightarrow> EndpointPool option" where
  "SmartRouter_get_pool r p = map_of (sr_pools r) p"

definition healthy_endpoints :: "select_env \<Rightarrow> SmartRouter \<Rightarrow> EndpointPool \<Rightarrow> ProviderEndpoint list" where
  "healthy_endpoints v r pool =
     filter (\<lambda>e. is_healthy (se_now v) (sr_health_tracker r) (ep_id e)) (pool_endpoints pool)"

definition try_route_to_provider ::
    "select_env \<Rightarrow> SmartRouter \<Rightarrow> rstring \<Rightarrow> nat \<Rightarrow> (SmartRouter \<times> RoutingDecision option) panics" where
  "try_route_to_provider v r provider depth =
     (case SmartRouter_get_pool r provider of
        None \<Rightarrow> Some (r, None)
      | Some pool \<Rightarrow>
          (let healthy = healthy_endpoints v r pool
           in if healthy = [] then Some (r, None)
              else (case EndpointPool_select_endpoint v (sr_health_tracker r) pool healthy of
                      None \<Rightarrow> None
                    | Some (pool', choice) \<Rightarrow>
                        Some (r\<lparr> sr_pools := AList.update provider pool' (sr_pools r) \<rparr>,
                          map_option (\<lambda>e. if depth = 0 then RoutingDecision_primary provider (ep_id e)
                                          else RoutingDecision_fallback provider (ep_id e) depth) choice))))"

fun try_fallbacks ::
    "select_env \<Rightarrow> SmartRouter \<Rightarrow> rstring \<Rightarrow> (nat \<times> rstring) list \<Rightarrow>
     (SmartRouter \<times> RoutingDecision option) panics" where
  "try_fallbacks v r model [] = Some (r, None)"
| "try_fallbacks v r model ((depth, fallback) # rest) =
     (case SmartRouter_get_pool r fallback of
        None \<Rightarrow> try_fallbacks v r model rest
      | Some pool \<Rightarrow>
          if EndpointPool_supports_model pool model
          then (case try_route_to_provider v r fallback (depth + 1) of
                  None \<Rightarrow> None
                | Some (r', Some d) \<Rightarrow> Some (r', Some d)
                | Some (r', None) \<Rightarrow> try_fallbacks v r' model rest)
          else try_fallbacks v r model rest)"

definition no_healthy_endpoints :: "rstring \<Rightarrow> rstring \<Rightarrow> ProviderError" where
  "no_healthy_endpoints model provider =
     ServiceUnavailable (''No healthy endpoints available for model '' @ apos @ model @ apos
       @ '' (provider: '' @ provider @ '')'')"

definition SmartRouter_route ::
    "select_env \<Rightarrow> SmartRouter \<Rightarrow> rstring \<Rightarrow> (SmartRouter \<times> (ProviderError + RoutingDecision)) panics" where
  "SmartRouter_route v r model =
     (case get_provider_for_model r model of
        None \<Rightarrow> Some (r, Inl (ModelNotFound model))
      | Some primary \<Rightarrow>
          (case try_route_to_provider v r primary 0 of
             None \<Rightarrow> None
           | Some (r', Some d) \<Rightarrow> Some (r', Inr d)
           | Some (r', None) \<Rightarrow>
               (case (case sr_fallback_chains r' primary of
                        None \<Rightarrow> Some (r', None)
                      | Some chain \<Rightarrow> try_fallbacks v r' model (enumerate 0 (fc_providers chain))) of
                  None \<Rightarrow> None
                | Some (r', Some d) \<Rightarrow> Some (r', Inr d)
                | Some (r', None) \<Rightarrow> Some (r', Inl (no_healthy_endpoints model primary)))))"

definition SmartRouter_get_provider :: "SmartRouter \<Rightarrow> RoutingDecision \<Rightarrow> provider option" where
  "SmartRouter_get_provider r d =
     Option.bind (SmartRouter_get_pool r (rd_provider_name d))
       (\<lambda>pool. EndpointPool_get_provider pool (rd_endpoint_id d))"

definition report_success :: "instant \<Rightarrow> rstring \<Rightarrow> SmartRouter \<Rightarrow> SmartRouter" where
  "report_success now e r = r\<lparr> sr_health_tracker := record_success now e (sr_health_tracker r) \<rparr>"

definition report_failure :: "instant \<Rightarrow> rstring \<Rightarrow> ProviderError \<Rightarrow> SmartRouter \<Rightarrow> SmartRouter" where
  "report_failure now e err r = r\<lparr> sr_health_tracker := record_failure now e err (sr_health_tracker r) \<rparr>"

definition health_status :: "u64 \<Rightarrow> instant \<Rightarrow> SmartRouter \<Rightarrow> (rstring \<rightharpoonup> EndpointHealth)" where
  "health_status now_ms now r = all_health now_ms now (sr_health_tracker r)"

definition SmartRouter_is_empty :: "SmartRouter \<Rightarrow> bool" where
  "SmartRouter_is_empty r \<longleftrightarrow> sr_pools r = []"

definition SmartRouter_providers :: "SmartRouter \<Rightarrow> rstring list" where
  "SmartRouter_providers r = map fst (sr_pools r)"

subsection \<open>The builder\<close>

record SmartRouterBuilder =
  sb_config :: RoutingConfig
  sb_pools :: "(rstring \<times> EndpointPool) list"
  sb_fallback_chains :: "(rstring \<times> FallbackChain) list"

definition SmartRouterBuilder_new :: SmartRouterBuilder where
  "SmartRouterBuilder_new = \<lparr> sb_config = RoutingConfig_default, sb_pools = [], sb_fallback_chains = [] \<rparr>"

definition SmartRouterBuilder_config :: "RoutingConfig \<Rightarrow> SmartRouterBuilder \<Rightarrow> SmartRouterBuilder" where
  "SmartRouterBuilder_config c b = b\<lparr> sb_config := c \<rparr>"

definition SmartRouterBuilder_pool :: "rstring \<Rightarrow> EndpointPool \<Rightarrow> SmartRouterBuilder \<Rightarrow> SmartRouterBuilder" where
  "SmartRouterBuilder_pool n p b = b\<lparr> sb_pools := sb_pools b @ [(n, p)] \<rparr>"

definition SmartRouterBuilder_fallback_chain :: "rstring \<Rightarrow> FallbackChain \<Rightarrow> SmartRouterBuilder \<Rightarrow> SmartRouterBuilder" where
  "SmartRouterBuilder_fallback_chain n c b = b\<lparr> sb_fallback_chains := sb_fallback_chains b @ [(n, c)] \<rparr>"

definition SmartRouterBuilder_build :: "SmartRouterBuilder \<Rightarrow> SmartRouter" where
  "SmartRouterBuilder_build b =
     fold (\<lambda>(n, c). add_fallback_chain n c) (sb_fallback_chains b)
       (fold (\<lambda>(n, p). register_pool n p) (sb_pools b) (SmartRouter_new (sb_config b)))"

subsection \<open>What routing returns\<close>

text \<open>
  The specification: a provider is available when its pool has an endpoint that is enabled and
  healthy; the candidates of a model are its provider, at depth zero, and those providers of the
  fallback chain that support the model, each at its depth. Routing goes to the first candidate
  that is available.
\<close>

definition available :: "select_env \<Rightarrow> SmartRouter \<Rightarrow> rstring \<Rightarrow> bool" where
  "available v r p =
     (case SmartRouter_get_pool r p of
        Some pool \<Rightarrow> (\<exists>e \<in> set (healthy_endpoints v r pool). ep_enabled e)
      | None \<Rightarrow> False)"

definition fallback_candidates :: "SmartRouter \<Rightarrow> rstring \<Rightarrow> (nat \<times> rstring) list \<Rightarrow> (nat \<times> rstring) list" where
  "fallback_candidates r model xs =
     map (\<lambda>(d, p). (d + 1, p))
       (filter (\<lambda>(d, p). case SmartRouter_get_pool r p of
                            Some pool \<Rightarrow> EndpointPool_supports_model pool model | None \<Rightarrow> False) xs)"

definition route_candidates :: "SmartRouter \<Rightarrow> rstring \<Rightarrow> rstring \<Rightarrow> (nat \<times> rstring) list" where
  "route_candidates r model primary =
     (0, primary) # (case sr_fallback_chains r primary of
                       Some chain \<Rightarrow> fallback_candidates r model (enumerate 0 (fc_providers chain))
                     | None \<Rightarrow> [])"

text \<open>The decision names an endpoint of the provider's pool that is enabled and healthy.\<close>

definition serves :: "select_env \<Rightarrow> SmartRouter \<Rightarrow> nat \<Rightarrow> rstring \<Rightarrow> RoutingDecision \<Rightarrow> bool" where
  "serves v r depth p d \<longleftrightarrow> rd_provider_name d = p \<and> rd_fallback_depth d = depth
     \<and> (rd_is_fallback d \<longleftrightarrow> 0 < depth)
     \<and> (\<exists>pool e. SmartRouter_get_pool r p = Some pool \<and> e \<in> set (pool_endpoints pool)
          \<and> ep_id e = rd_endpoint_id d \<and> ep_enabled e
          \<and> is_healthy (se_now v) (sr_health_tracker r) (ep_id e))"

lemma update_same: "map_of al k = Some x \<Longrightarrow> AList.update k x al = al"
  by (induction al) auto

context drawing
begin

lemma try_route_unavailable:
  assumes "\<not> available v r p"
  shows "try_route_to_provider v r p depth = Some (r, None)"
proof (cases "SmartRouter_get_pool r p")
  case (Some pool)
  let ?hs = "healthy_endpoints v r pool"
  show ?thesis
  proof (cases "?hs = []")
    case False
    have n: "\<forall>e \<in> set ?hs. \<not> ep_enabled e" using assms Some by (simp add: available_def)
    then have "select_endpoint_of v (sr_health_tracker r) (pool_selector pool) ?hs = Some None"
      by (simp add: strategies.pick_None_iff)
    then obtain pool' where s: "EndpointPool_select_endpoint v (sr_health_tracker r) pool ?hs = Some (pool', None)"
      by (auto simp flip: select_endpoint_pool)
    with select_endpoint_none [OF draws] have "pool' = pool" by blast
    with s Some False show ?thesis
      by (simp add: try_route_to_provider_def Let_def SmartRouter_get_pool_def update_same)
  qed (simp add: try_route_to_provider_def Some)
qed (simp add: try_route_to_provider_def)

lemma try_route_available:
  assumes "available v r p"
  shows "\<exists>r' d. try_route_to_provider v r p depth = Some (r', Some d) \<and> serves v r depth p d"
proof -
  from assms obtain pool e0 where pool: "SmartRouter_get_pool r p = Some pool"
    and e0: "e0 \<in> set (healthy_endpoints v r pool)" "ep_enabled e0"
    by (auto simp: available_def split: option.splits)
  let ?hs = "healthy_endpoints v r pool"
  from e0 strategies.pick_None_iff [of "sr_health_tracker r" "pool_selector pool" ?hs] strategies.answers
  obtain e where "select_endpoint_of v (sr_health_tracker r) (pool_selector pool) ?hs = Some (Some e)"
    by (metis option.exhaust)
  moreover from strategies.member [OF this] have e: "e \<in> set ?hs" "ep_enabled e" by auto
  ultimately obtain pool' where
    s: "EndpointPool_select_endpoint v (sr_health_tracker r) pool ?hs = Some (pool', Some e)"
    by (auto simp flip: select_endpoint_pool)
  have "?hs \<noteq> []" using e0(1) by auto
  with s pool e show ?thesis
    by (auto simp: try_route_to_provider_def Let_def serves_def healthy_endpoints_def
        RoutingDecision_primary_def RoutingDecision_fallback_def)
qed

lemma try_fallbacks_spec:
  "case find (\<lambda>(d, p). available v r p) (fallback_candidates r model xs) of
      None \<Rightarrow> try_fallbacks v r model xs = Some (r, None)
    | Some (depth, p) \<Rightarrow> \<exists>r' d. try_fallbacks v r model xs = Some (r', Some d) \<and> serves v r depth p d"
proof (induction xs)
  case (Cons x xs)
  obtain depth p where x: "x = (depth, p)" by (cases x)
  show ?case
  proof (cases "\<exists>pool. SmartRouter_get_pool r p = Some pool \<and> EndpointPool_supports_model pool model")
    case True
    then obtain pool where pool: "SmartRouter_get_pool r p = Some pool" "EndpointPool_supports_model pool model"
      by blast
    show ?thesis
    proof (cases "available v r p")
      case True
      with try_route_available [OF True, of "depth + 1"] pool show ?thesis
        by (auto simp: x fallback_candidates_def)
    next
      case False
      have "find (\<lambda>(d, p). available v r p) (fallback_candidates r model (x # xs)) =
          find (\<lambda>(d, p). available v r p) (fallback_candidates r model xs)"
        using pool False by (simp add: x fallback_candidates_def)
      moreover have "try_fallbacks v r model (x # xs) = try_fallbacks v r model xs"
        using try_route_unavailable [OF False, of "depth + 1"] pool by (simp add: x)
      ultimately show ?thesis by (simp only: Cons.IH)
    qed
  next
    case False
    with Cons.IH show ?thesis
      by (auto simp: x fallback_candidates_def split: option.splits)
  qed
qed (simp add: fallback_candidates_def)

lemma route_spec:
  assumes "get_provider_for_model r model = Some primary"
  shows "case find (\<lambda>(d, p). available v r p) (route_candidates r model primary) of
      None \<Rightarrow> SmartRouter_route v r model = Some (r, Inl (no_healthy_endpoints model primary))
    | Some (depth, p) \<Rightarrow> \<exists>r' d. SmartRouter_route v r model = Some (r', Inr d) \<and> serves v r depth p d"
proof (cases "available v r primary")
  case True
  with try_route_available [OF True, of 0] assms show ?thesis
    by (auto simp: route_candidates_def SmartRouter_route_def)
next
  case False
  note t = try_route_unavailable [OF False, of 0]
  show ?thesis
  proof (cases "sr_fallback_chains r primary")
    case None
    with False t assms show ?thesis by (simp add: route_candidates_def SmartRouter_route_def)
  next
    case (Some chain)
    let ?l = "fallback_candidates r model (enumerate 0 (fc_providers chain))"
    from try_fallbacks_spec [of r model "enumerate 0 (fc_providers chain)"] False t Some assms
    show ?thesis
      by (cases "find (\<lambda>(d, p). available v r p) ?l")
        (auto simp: route_candidates_def SmartRouter_route_def)
  qed
qed

end

end
