(* ===== verification/Example_Router.thy ===== *)
theory Example_Router
  imports Smart_Router
begin

text \<open>
  A small smart router on which the general theorems are instantiated: a primary provider and a
  fallback provider with one endpoint each, and two failures that open a circuit.
\<close>

definition ex_endpoint :: "rstring \<Rightarrow> rstring \<Rightarrow> u32 \<Rightarrow> ProviderEndpoint" where
  "ex_endpoint i p w = ProviderEndpoint_with_weight w (ProviderEndpoint_new i i (default_provider p [''m'']))"

definition ex_pool :: "rstring \<Rightarrow> rstring \<Rightarrow> EndpointPool" where
  "ex_pool p i = EndpointPool_add_endpoint (ex_endpoint i p 1) (EndpointPool_new p)"

definition ex_health_config :: HealthConfig where
  "ex_health_config = HealthConfig_default\<lparr> failure_threshold := 2 \<rparr>"

definition ex_smart :: SmartRouter where
  "ex_smart = add_fallback_chain ''p'' (FallbackChain_from_providers [''q''])
     (register_pool ''p'' (ex_pool ''p'' ''e1'')
       (register_pool ''q'' (ex_pool ''q'' ''e2'')
         (SmartRouter_new (RoutingConfig_default\<lparr> rg_health := ex_health_config \<rparr>))))"

definition ex_draws :: select_env where
  "ex_draws = \<lparr> se_gen_range = (\<lambda>_. 0), se_now_ms = 0, se_now = 0, se_unicode = ascii_unicode \<rparr>"

lemma ex_draws_in_range: "draws_in_range ex_draws"
  by (simp add: draws_in_range_def ex_draws_def)

text \<open>The router after two failures of the primary endpoint: its circuit is open.\<close>

definition ex_failed :: SmartRouter where
  "ex_failed = report_failure 0 ''e1'' (Network ''x'') (report_failure 0 ''e1'' (Network ''x'') ex_smart)"

lemmas ex_router_defs = ex_failed_def report_failure_def ex_smart_def add_fallback_chain_def register_pool_def
  SmartRouter_new_def ex_pool_def ex_endpoint_def EndpointPool_add_endpoint_def EndpointPool_new_def
  ProviderEndpoint_new_def ProviderEndpoint_with_weight_def default_provider_def ProviderEndpoint_models_def
  add_model_def FallbackChain_from_providers_def

lemma ex_provider: "get_provider_for_model ex_failed ''m'' = Some ''p''"
  by (simp add: get_provider_for_model_def ex_router_defs)

lemma ex_pools: "SmartRouter_get_pool ex_failed ''p'' = Some (ex_pool ''p'' ''e1'')"
  "SmartRouter_get_pool ex_failed ''q'' = Some (ex_pool ''q'' ''e2'')"
  "sr_fallback_chains ex_failed = [''p'' \<mapsto> FallbackChain_from_providers [''q'']]"
  by (simp_all add: SmartRouter_get_pool_def ex_router_defs)

lemma ex_circuits: "\<not> is_healthy 0 (sr_health_tracker ex_failed) ''e1''" "is_healthy 0 (sr_health_tracker ex_failed) ''e2''"
  by (simp_all add: ex_router_defs is_healthy_def record_failure_def Let_def is_rate_limit_def register_endpoint_def put_entry_def
     entry_of_endpoint_def HealthEntry_default_def ex_health_config_def HealthConfig_default_def HealthTracker_new_def secs_def)

lemma ex_first_available: "find (\<lambda>(d, p). available ex_draws ex_failed p) (route_candidates ex_failed ''m'' ''p'') = Some (1, ''q'')"
  using ex_circuits by (simp add: route_candidates_def fallback_candidates_def available_def ex_pools healthy_endpoints_def
     FallbackChain_from_providers_def EndpointPool_supports_model_def ProviderEndpoint_supports_model_def default_supports_model_def
     ex_pool_def EndpointPool_add_endpoint_def EndpointPool_new_def ex_endpoint_def ex_draws_def 
     ProviderEndpoint_new_def ProviderEndpoint_with_weight_def default_provider_def)

end
