(* ===== verification/Rust_Parse.thy ===== *)
theory Rust_Parse
  imports Rust_Str
begin

text \<open>
  Standard library operations on lines and numbers: \<open>str::lines\<close>, which drops the line feed and a
  carriage return before it, and \<open>parse\<close> and \<open>Display\<close> of 64-bit numbers.
\<close>

definition strip_cr :: "rstring \<Rightarrow> rstring" where
  "strip_cr l = (if l \<noteq> [] \<and> last l = CHR 0x0D then butlast l else l)"

definition str_lines :: "rstring \<Rightarrow> rstring list" where
  "str_lines s =
     (let parts = split_on (CHR 0x0A) s
      in map strip_cr (butlast parts) @ (if last parts = [] then [] else [last parts]))"

lemma split_on_append: "c \<notin> set l \<Longrightarrow> split_on c (l @ c # s) = l # split_on c s"
  by (induction l) auto

lemma str_lines_Nil [simp]: "str_lines [] = []"
  by (simp add: str_lines_def)

lemma str_lines_line: "CHR 0x0A \<notin> set l \<Longrightarrow> str_lines (l @ CHR 0x0A # s) = strip_cr l # str_lines s"
  by (simp add: str_lines_def split_on_append Let_def)

lemma strip_cr_id: "l = [] \<or> last l \<noteq> CHR 0x0D \<Longrightarrow> strip_cr l = l"
  by (auto simp: strip_cr_def)

subsection \<open>Numbers\<close>

definition digit_of :: "char \<Rightarrow> nat option" where
  "digit_of c = (if is_ascii_digit c then Some (byte_of c - 48) else None)"

fun parse_digits :: "nat \<Rightarrow> rstring \<Rightarrow> nat option" where
  "parse_digits acc [] = Some acc"
| "parse_digits acc (c # cs) =
     (case digit_of c of
        None \<Rightarrow> None
      | Some d \<Rightarrow> if 10 * acc + d < 2 ^ 64 then parse_digits (10 * acc + d) cs else None)"

text \<open>\<open>str::parse::<u64>\<close>: an optional plus sign, then at least one digit; overflow is an error.\<close>

definition parse_u64 :: "rstring \<Rightarrow> u64 option" where
  "parse_u64 s =
     (let digits = (case s of c # cs \<Rightarrow> if c = CHR ''+'' then cs else s | [] \<Rightarrow> [])
      in if digits = [] then None else map_option of_nat (parse_digits 0 digits))"

definition show_u64 :: "u64 \<Rightarrow> rstring" where
  "show_u64 n = dec_digits (unat n)"

lemma digit_of_char: "d < 10 \<Longrightarrow> digit_of (char_of (48 + d)) = Some d"
  by (simp add: digit_of_def is_ascii_digit_def byte_of_def)

lemma parse_digits_append:
  "parse_digits acc (xs @ ys) = Option.bind (parse_digits acc xs) (\<lambda>a. parse_digits a ys)"
  by (induction acc xs rule: parse_digits.induct) (auto split: option.splits)

lemma parse_dec_digits: "n < 2 ^ 64 \<Longrightarrow> parse_digits 0 (dec_digits n) = Some n"
proof (induction n rule: dec_digits.induct)
  case (1 n)
  show ?case
  proof (cases "n < 10")
    case True
    then show ?thesis by (subst dec_digits.simps) (simp add: digit_of_char)
  next
    case False
    then have "parse_digits 0 (dec_digits (n div 10)) = Some (n div 10)" using 1 by simp
    moreover have "digit_of (char_of (48 + n mod 10)) = Some (n mod 10)" by (rule digit_of_char) simp
    ultimately show ?thesis
      using False 1(2) by (subst dec_digits.simps) (simp add: parse_digits_append)
  qed
qed

lemma dec_digits_digits: "c \<in> set (dec_digits n) \<Longrightarrow> is_ascii_digit c"
proof (induction n rule: dec_digits.induct)
  case (1 n)
  have d: "is_ascii_digit (char_of (48 + m mod 10))" for m :: nat
    by (simp add: is_ascii_digit_def byte_of_def)
  show ?case
    using 1 d [of n] by (subst (asm) (2) dec_digits.simps) (auto split: if_splits)
qed

lemma dec_digits_hd: "is_ascii_digit (hd (dec_digits n))"
  by (rule dec_digits_digits [of _ n]) simp

lemma digit_visible: "is_ascii_digit c \<Longrightarrow> visible c"
  by (simp add: is_ascii_digit_def visible_def)

lemma dec_digits_visible: "visible (hd (dec_digits n)) \<and> visible (last (dec_digits n))"
  by (simp add: digit_visible dec_digits_hd dec_digits_digits [of _ n])

lemma parse_show_u64: "parse_u64 (show_u64 n) = Some n"
proof -
  have "hd (dec_digits (unat n)) \<noteq> CHR ''+''"
    using dec_digits_hd [of "unat n"] by (auto simp: is_ascii_digit_def byte_of_def)
  then have "(case dec_digits (unat n) of c # cs \<Rightarrow> if c = CHR ''+'' then cs else dec_digits (unat n) | [] \<Rightarrow> [])
      = dec_digits (unat n)"
    by (cases "dec_digits (unat n)") auto
  moreover have "unat n < 2 ^ 64" using unsigned_less [of n, where 'a = nat] by simp
  ultimately show ?thesis by (simp add: parse_u64_def show_u64_def parse_dec_digits)
qed

subsection \<open>Trimming a field\<close>

lemma trim_start_space: "trim_start (CHR '' '' # s) = trim_start s"
proof -
  have "filter (starts_with (CHR '' '' # s)) ws_encodings = [[CHR '' '']]"
    by (simp add: ws_encodings_def)
  then show ?thesis by (simp add: trim_start_def)
qed

lemma str_trim_space: "str_trim (CHR '' '' # s) = str_trim s"
  by (simp add: str_trim_def trim_start_space)

text \<open>Trimmed text does not end in a carriage return.\<close>

lemma length_trim_end_n: "length (trim_end_n n s) \<le> length s"
  by (induction n s rule: trim_end_n.induct) (auto split: list.splits intro: order_trans)

lemma trim_end_cr:
  assumes "s \<noteq> []" "last s = CHR 0x0D"
  shows "trim_end s \<noteq> s"
proof -
  have "ends_with s [CHR 0x0D]"
    using assms by (simp add: ends_with_iff) (metis append_butlast_last_id)
  moreover have "[CHR 0x0D] \<in> set ws_encodings" by (simp add: ws_encodings_def)
  ultimately have "filter (ends_with s) ws_encodings \<noteq> []" by (auto simp: filter_empty_conv)
  then obtain w ws where f: "filter (ends_with s) ws_encodings = w # ws" by (cases "filter (ends_with s) ws_encodings") auto
  then have "w \<in> set (filter (ends_with s) ws_encodings)" by simp
  then have "w \<in> set ws_encodings" unfolding set_filter by blast
  then have w: "w \<noteq> []" by (rule ws_encodings_nonempty)
  obtain n where n: "length s = Suc n" using assms(1) by (cases s) auto
  have "trim_end s = trim_end_n n (take (length s - length w) s)" using f n by (simp add: trim_end_def)
  then have "length (trim_end s) \<le> length s - length w"
    using length_trim_end_n [of n "take (length s - length w) s"] by simp
  then show ?thesis using w assms(1) by (metis diff_less leD length_greater_0_conv)
qed

lemma trim_start_n_drop: "\<exists>k. trim_start_n n s = drop k s"
proof (induction n s rule: trim_start_n.induct)
  case (1 s)
  show ?case by (metis drop0 trim_start_n.simps(1))
next
  case (2 n s)
  show ?case
  proof (cases "filter (starts_with s) ws_encodings")
    case Nil
    then show ?thesis by (metis drop0 list.simps(4) trim_start_n.simps(2))
  next
    case (Cons w ws)
    with 2 [OF Cons] show ?thesis by auto
  qed
qed

lemma length_trim_end: "length (trim_end s) \<le> length s"
  by (simp add: trim_end_def length_trim_end_n)

lemma trimmed_no_cr:
  assumes "str_trim s = s" "s \<noteq> []"
  shows "last s \<noteq> CHR 0x0D"
proof -
  obtain k where k: "trim_start s = drop k s" using trim_start_n_drop [of "length s" s] by (auto simp: trim_start_def)
  have "length s \<le> length (drop k s)"
    using length_trim_end [of "drop k s"] assms(1) unfolding str_trim_def k by simp
  then have "drop k s = s" using assms(2) by (cases k; cases s) auto
  with k assms(1) have "trim_end s = s" by (simp add: str_trim_def)
  with trim_end_cr [OF assms(2)] show ?thesis by blast
qed

text \<open>A field that can stand on a line of its own: no line feed, nothing to trim.\<close>

definition line_field :: "rstring \<Rightarrow> bool" where
  "line_field x \<longleftrightarrow> CHR 0x0A \<notin> set x \<and> str_trim x = x"

lemma line_field_visible: "CHR 0x0A \<notin> set x \<Longrightarrow> x = [] \<or> visible (hd x) \<and> visible (last x) \<Longrightarrow> line_field x"
  by (simp add: line_field_def str_trim_visible)

lemma line_field_line:
  assumes "line_field x" "CHR 0x0A \<notin> set p"
  shows "str_lines (p @ CHR '' '' # x @ CHR 0x0A # s) = (p @ CHR '' '' # x) # str_lines s"
proof -
  have "last (p @ CHR '' '' # x) \<noteq> CHR 0x0D"
    using assms(1) trimmed_no_cr [of x] by (auto simp: line_field_def)
  then have "strip_cr (p @ CHR '' '' # x) = p @ CHR '' '' # x" by (simp add: strip_cr_id)
  moreover have "CHR 0x0A \<notin> set (p @ CHR '' '' # x)" using assms by (auto simp: line_field_def)
  ultimately show ?thesis using str_lines_line [of "p @ CHR '' '' # x" s] by simp
qed

end
