(* ===== verification/Stream_Events.thy ===== *)
theory Stream_Events
  imports Response_Types Rust_Parse
begin

text \<open>
  The streaming events and server-sent event messages (\<open>aura-types/src/stream.rs\<close>). The JSON form
  of an event is serde's and a parameter: a writer that may fail.
\<close>

subsection \<open>Errors and limits\<close>

record StreamError =
  ste_type :: rstring
  ste_code :: rstring
  ste_message :: rstring
  ste_param :: "rstring option"

definition StreamError_new :: "rstring \<Rightarrow> rstring \<Rightarrow> rstring \<Rightarrow> StreamError" where
  "StreamError_new t c m = \<lparr> ste_type = t, ste_code = c, ste_message = m, ste_param = None \<rparr>"

definition StreamError_invalid_request :: "rstring \<Rightarrow> StreamError" where
  "StreamError_invalid_request m = StreamError_new ''invalid_request_error'' ''invalid_request'' m"

definition StreamError_authentication :: "rstring \<Rightarrow> StreamError" where
  "StreamError_authentication m = StreamError_new ''authentication_error'' ''invalid_api_key'' m"

definition StreamError_rate_limit :: "rstring \<Rightarrow> StreamError" where
  "StreamError_rate_limit m = StreamError_new ''rate_limit_error'' ''rate_limit_exceeded'' m"

definition StreamError_server :: "rstring \<Rightarrow> StreamError" where
  "StreamError_server m = StreamError_new ''server_error'' ''internal_error'' m"

definition StreamError_provider :: "rstring \<Rightarrow> StreamError" where
  "StreamError_provider m = StreamError_new ''provider_error'' ''upstream_error'' m"

definition StreamError_from :: "ResponseError \<Rightarrow> StreamError" where
  "StreamError_from e =
     \<lparr> ste_type = ''api_error'', ste_code = re_code e, ste_message = re_message e, ste_param = re_param e \<rparr>"

record RateLimitInfo =
  rli_limit :: u32
  rli_remaining :: u32
  rli_reset :: "64 word"

definition RateLimitInfo_new :: "u32 \<Rightarrow> u32 \<Rightarrow> 64 word \<Rightarrow> RateLimitInfo" where
  "RateLimitInfo_new l r t = \<lparr> rli_limit = l, rli_remaining = r, rli_reset = t \<rparr>"

subsection \<open>Events\<close>

datatype StreamEvent =
    ResponseCreated Response
  | ResponseInProgress Response
  | ResponseCompleted Response
  | ResponseFailed Response
  | ResponseIncomplete Response
  | ResponseCancelled Response
  | OutputItemAdded usize Item
  | OutputItemDone usize Item
  | ContentPartAdded usize usize rstring
  | OutputTextDelta usize usize rstring
  | OutputTextDone usize usize rstring
  | ContentPartDone usize usize rstring
  | FunctionCallArgumentsDelta usize rstring
  | FunctionCallArgumentsDone usize rstring
  | ReasoningDelta usize rstring
  | ReasoningDone usize rstring
  | SE_Error StreamError
  | SE_RateLimit RateLimitInfo

definition response_created :: "Response \<Rightarrow> StreamEvent" where
  "response_created r = ResponseCreated r"

definition response_in_progress :: "Response \<Rightarrow> StreamEvent" where
  "response_in_progress r = ResponseInProgress r"

definition response_completed :: "Response \<Rightarrow> StreamEvent" where
  "response_completed r = ResponseCompleted r"

definition response_failed :: "Response \<Rightarrow> StreamEvent" where
  "response_failed r = ResponseFailed r"

definition response_incomplete :: "Response \<Rightarrow> StreamEvent" where
  "response_incomplete r = ResponseIncomplete r"

definition output_item_added :: "usize \<Rightarrow> Item \<Rightarrow> StreamEvent" where
  "output_item_added i item = OutputItemAdded i item"

definition output_item_done :: "usize \<Rightarrow> Item \<Rightarrow> StreamEvent" where
  "output_item_done i item = OutputItemDone i item"

definition content_part_added :: "usize \<Rightarrow> usize \<Rightarrow> rstring \<Rightarrow> StreamEvent" where
  "content_part_added i c t = ContentPartAdded i c t"

definition output_text_delta :: "usize \<Rightarrow> usize \<Rightarrow> rstring \<Rightarrow> StreamEvent" where
  "output_text_delta i c d = OutputTextDelta i c d"

definition output_text_done :: "usize \<Rightarrow> usize \<Rightarrow> rstring \<Rightarrow> StreamEvent" where
  "output_text_done i c t = OutputTextDone i c t"

definition function_call_arguments_delta :: "usize \<Rightarrow> rstring \<Rightarrow> StreamEvent" where
  "function_call_arguments_delta i d = FunctionCallArgumentsDelta i d"

definition function_call_arguments_done :: "usize \<Rightarrow> rstring \<Rightarrow> StreamEvent" where
  "function_call_arguments_done i a = FunctionCallArgumentsDone i a"

definition reasoning_delta :: "usize \<Rightarrow> rstring \<Rightarrow> StreamEvent" where
  "reasoning_delta i d = ReasoningDelta i d"

definition reasoning_done :: "usize \<Rightarrow> rstring \<Rightarrow> StreamEvent" where
  "reasoning_done i t = ReasoningDone i t"

definition StreamEvent_error :: "StreamError \<Rightarrow> StreamEvent" where
  "StreamEvent_error e = SE_Error e"

fun event_type :: "StreamEvent \<Rightarrow> rstring" where
  "event_type (ResponseCreated _) = ''response.created''"
| "event_type (ResponseInProgress _) = ''response.in_progress''"
| "event_type (ResponseCompleted _) = ''response.completed''"
| "event_type (ResponseFailed _) = ''response.failed''"
| "event_type (ResponseIncomplete _) = ''response.incomplete''"
| "event_type (ResponseCancelled _) = ''response.cancelled''"
| "event_type (OutputItemAdded _ _) = ''response.output_item.added''"
| "event_type (OutputItemDone _ _) = ''response.output_item.done''"
| "event_type (ContentPartAdded _ _ _) = ''response.content_part.added''"
| "event_type (OutputTextDelta _ _ _) = ''response.output_text.delta''"
| "event_type (OutputTextDone _ _ _) = ''response.output_text.done''"
| "event_type (ContentPartDone _ _ _) = ''response.content_part.done''"
| "event_type (FunctionCallArgumentsDelta _ _) = ''response.function_call_arguments.delta''"
| "event_type (FunctionCallArgumentsDone _ _) = ''response.function_call_arguments.done''"
| "event_type (ReasoningDelta _ _) = ''response.reasoning.delta''"
| "event_type (ReasoningDone _ _) = ''response.reasoning.done''"
| "event_type (SE_Error _) = ''error''"
| "event_type (SE_RateLimit _) = ''rate_limit''"

fun StreamEvent_is_terminal :: "StreamEvent \<Rightarrow> bool" where
  "StreamEvent_is_terminal (ResponseCompleted _) = True"
| "StreamEvent_is_terminal (ResponseFailed _) = True"
| "StreamEvent_is_terminal (ResponseIncomplete _) = True"
| "StreamEvent_is_terminal (ResponseCancelled _) = True"
| "StreamEvent_is_terminal _ = False"

fun StreamEvent_is_error :: "StreamEvent \<Rightarrow> bool" where
  "StreamEvent_is_error (SE_Error _) = True"
| "StreamEvent_is_error (ResponseFailed _) = True"
| "StreamEvent_is_error _ = False"

definition StreamEvent_to_sse :: "(StreamEvent \<Rightarrow> 'e + rstring) \<Rightarrow> StreamEvent \<Rightarrow> 'e + rstring" where
  "StreamEvent_to_sse to_json ev =
     map_sum id (\<lambda>json. ''event: '' @ event_type ev @ nl @ ''data: '' @ json @ nl @ nl) (to_json ev)"

subsection \<open>Messages\<close>

record SseMessage =
  sm_event :: "rstring option"
  sm_data :: rstring
  sm_id :: "rstring option"
  sm_retry :: "u64 option"

definition SseMessage_new :: "rstring \<Rightarrow> SseMessage" where
  "SseMessage_new d = \<lparr> sm_event = None, sm_data = d, sm_id = None, sm_retry = None \<rparr>"

definition SseMessage_with_event :: "rstring \<Rightarrow> SseMessage \<Rightarrow> SseMessage" where
  "SseMessage_with_event e m = m\<lparr> sm_event := Some e \<rparr>"

definition SseMessage_with_id :: "rstring \<Rightarrow> SseMessage \<Rightarrow> SseMessage" where
  "SseMessage_with_id i m = m\<lparr> sm_id := Some i \<rparr>"

definition SseMessage_is_done :: "SseMessage \<Rightarrow> bool" where
  "SseMessage_is_done m \<longleftrightarrow> str_trim (sm_data m) = ''[DONE]''"

definition SseMessage_parse_event :: "(rstring \<Rightarrow> 'e + StreamEvent) \<Rightarrow> SseMessage \<Rightarrow> 'e + StreamEvent" where
  "SseMessage_parse_event from_str m = from_str (sm_data m)"

definition opt_line :: "rstring \<Rightarrow> rstring option \<Rightarrow> rstring" where
  "opt_line name v = (case v of None \<Rightarrow> [] | Some x \<Rightarrow> name @ '': '' @ x @ nl)"

definition SseMessage_to_sse :: "SseMessage \<Rightarrow> rstring" where
  "SseMessage_to_sse m =
     opt_line ''event'' (sm_event m) @ opt_line ''id'' (sm_id m)
     @ opt_line ''retry'' (map_option show_u64 (sm_retry m)) @ ''data: '' @ sm_data m @ nl @ nl"

definition parse_line :: "SseMessage \<Rightarrow> rstring \<Rightarrow> SseMessage" where
  "parse_line m line =
     (case strip_prefix line ''event:'' of
        Some v \<Rightarrow> m\<lparr> sm_event := Some (str_trim v) \<rparr>
      | None \<Rightarrow>
          (case strip_prefix line ''data:'' of
             Some v \<Rightarrow> m\<lparr> sm_data := (if sm_data m = [] then [] else sm_data m @ nl) @ str_trim v \<rparr>
           | None \<Rightarrow>
               (case strip_prefix line ''id:'' of
                  Some v \<Rightarrow> m\<lparr> sm_id := Some (str_trim v) \<rparr>
                | None \<Rightarrow>
                    (case strip_prefix line ''retry:'' of
                       Some v \<Rightarrow> m\<lparr> sm_retry := parse_u64 (str_trim v) \<rparr>
                     | None \<Rightarrow> m))))"

definition SseMessage_parse :: "rstring \<Rightarrow> SseMessage option" where
  "SseMessage_parse text =
     (let m = foldl parse_line (SseMessage_new []) (str_lines text)
      in if sm_data m = [] then None else Some m)"

subsection \<open>Printing and parsing messages\<close>

lemma parse_line_fields:
  "parse_line m (''event: '' @ x) = m\<lparr> sm_event := Some (str_trim x) \<rparr>"
  "parse_line m (''data: '' @ x) = m\<lparr> sm_data := (if sm_data m = [] then [] else sm_data m @ nl) @ str_trim x \<rparr>"
  "parse_line m (''id: '' @ x) = m\<lparr> sm_id := Some (str_trim x) \<rparr>"
  "parse_line m (''retry: '' @ x) = m\<lparr> sm_retry := parse_u64 (str_trim x) \<rparr>"
  by (simp_all add: parse_line_def strip_prefix_def str_trim_space)

lemma parse_line_Nil: "parse_line m [] = m"
  by (simp add: parse_line_def strip_prefix_def)

definition opt_field :: "rstring option \<Rightarrow> bool" where
  "opt_field v = (case v of None \<Rightarrow> True | Some x \<Rightarrow> line_field x)"

lemma opt_line_lines:
  assumes "opt_field v" "CHR 0x0A \<notin> set name"
  shows "str_lines (opt_line name v @ s) = (case v of None \<Rightarrow> [] | Some x \<Rightarrow> [name @ '': '' @ x]) @ str_lines s"
  using assms line_field_line [of _ "name @ '':''" s] by (auto simp: opt_line_def opt_field_def split: option.splits)

lemma line_field_u64: "line_field (show_u64 n)"
  unfolding show_u64_def
  by (rule line_field_visible) (auto simp: dec_digits_visible is_ascii_digit_def byte_of_def dest: dec_digits_digits)

lemma final_blank_line: "str_lines nl = [[]]"
  using str_lines_line [of "[]" "[]"] by (simp add: strip_cr_def)

lemma data_lines: "line_field d \<Longrightarrow> str_lines (''data: '' @ d @ nl @ nl) = [''data: '' @ d, []]"
  using line_field_line [of d "''data:''" nl] by (simp add: final_blank_line)

lemma parse_to_sse:
  assumes "opt_field (sm_event m)" "opt_field (sm_id m)" "line_field (sm_data m)" "sm_data m \<noteq> []"
  shows "SseMessage_parse (SseMessage_to_sse m) = Some m"
proof -
  have r: "opt_field (map_option show_u64 (sm_retry m))"
    by (simp add: opt_field_def line_field_u64 split: option.splits)
  have s: "str_trim x = x" if "line_field x" for x using that by (simp add: line_field_def)
  have "str_lines (SseMessage_to_sse m) =
      (case sm_event m of None \<Rightarrow> [] | Some x \<Rightarrow> [''event'' @ '': '' @ x])
      @ (case sm_id m of None \<Rightarrow> [] | Some x \<Rightarrow> [''id'' @ '': '' @ x])
      @ (case sm_retry m of None \<Rightarrow> [] | Some x \<Rightarrow> [''retry'' @ '': '' @ show_u64 x])
      @ [''data: '' @ sm_data m, []]"
    unfolding SseMessage_to_sse_def
    by (subst opt_line_lines, use assms r in simp, simp)+
      (simp add: data_lines [OF assms(3), simplified] split: option.splits)
  then show ?thesis
    using assms s [OF line_field_u64]
    by (cases m; cases "sm_event m"; cases "sm_id m"; cases "sm_retry m")
      (simp_all add: SseMessage_parse_def parse_line_fields [simplified] parse_line_Nil SseMessage_new_def
        opt_field_def s parse_show_u64)
qed

text \<open>The event of a stream is read back as a message with its type and its JSON.\<close>

lemma event_type_field: "line_field (event_type e)"
  by (cases e) (simp_all add: line_field_visible visible_def byte_of_def)

lemma parse_event_to_sse:
  assumes "to_json e = Inr json" "line_field json" "json \<noteq> []"
  shows "StreamEvent_to_sse to_json e = Inr text \<Longrightarrow>
    SseMessage_parse text = Some \<lparr> sm_event = Some (event_type e), sm_data = json, sm_id = None, sm_retry = None \<rparr>"
  using parse_to_sse [of "\<lparr> sm_event = Some (event_type e), sm_data = json, sm_id = None, sm_retry = None \<rparr>"] assms
  by (auto simp: StreamEvent_to_sse_def SseMessage_to_sse_def opt_line_def opt_field_def event_type_field)

lemma event_type_terminal:
  "StreamEvent_is_terminal e \<longleftrightarrow>
     event_type e \<in> {''response.completed'', ''response.failed'', ''response.incomplete'', ''response.cancelled''}"
  by (cases e) simp_all

end
