(* ===== verification/Sse_Bytes.thy ===== *)
theory Sse_Bytes
  imports Rust_Str
begin

text \<open>
  The bytes of a provider's event stream (\<open>aura-core/src/provider/sse.rs\<close>). \<open>from_utf8\<close> is the
  validation of the standard library, as documented with \<open>Utf8Error\<close>: how far the input is valid
  and, unless the input merely ends too early, how many bytes are in error.
\<close>

subsection \<open>UTF-8 validation\<close>

definition utf8_char_width :: "nat \<Rightarrow> nat" where
  "utf8_char_width b =
     (if b < 128 then 1 else if b < 194 then 0 else if b < 224 then 2 else if b < 240 then 3
      else if b < 245 then 4 else 0)"

definition continuation :: "nat \<Rightarrow> bool" where
  "continuation b \<longleftrightarrow> 128 \<le> b \<and> b < 192"

text \<open>The second byte excludes overlong forms, surrogates and code points that are too large.\<close>

definition second_byte_ok :: "nat \<Rightarrow> nat \<Rightarrow> bool" where
  "second_byte_ok first b \<longleftrightarrow> continuation b
     \<and> (first = 0xE0 \<longrightarrow> 0xA0 \<le> b) \<and> (first = 0xED \<longrightarrow> b \<le> 0x9F)
     \<and> (first = 0xF0 \<longrightarrow> 0x90 \<le> b) \<and> (first = 0xF4 \<longrightarrow> b \<le> 0x8F)"

datatype utf8_scan = Utf8_Char nat | Utf8_Bad nat | Utf8_More

fun utf8_tail :: "nat \<Rightarrow> nat \<Rightarrow> rstring \<Rightarrow> utf8_scan" where
  "utf8_tail 0 n cs = Utf8_Char n"
| "utf8_tail (Suc k) n [] = Utf8_More"
| "utf8_tail (Suc k) n (c # cs) =
     (if continuation (byte_of c) then utf8_tail k (Suc n) cs else Utf8_Bad n)"

fun utf8_step :: "rstring \<Rightarrow> utf8_scan" where
  "utf8_step [] = Utf8_More"
| "utf8_step (c # cs) =
     (case utf8_char_width (byte_of c) of
        0 \<Rightarrow> Utf8_Bad 1
      | Suc 0 \<Rightarrow> Utf8_Char 1
      | Suc (Suc k) \<Rightarrow>
          (case cs of
             [] \<Rightarrow> Utf8_More
           | d # ds \<Rightarrow>
               if second_byte_ok (byte_of c) (byte_of d) then utf8_tail k 2 ds else Utf8_Bad 1))"

lemma utf8_tail_bounds:
  "(utf8_tail k n cs = Utf8_Char m \<longrightarrow> m = n + k \<and> k \<le> length cs)
   \<and> (utf8_tail k n cs = Utf8_Bad m \<longrightarrow> n \<le> m \<and> m < n + k \<and> m - n \<le> length cs)"
  by (induction k n cs rule: utf8_tail.induct) auto

lemma utf8_tail_append:
  "utf8_tail k n cs \<noteq> Utf8_More \<Longrightarrow> utf8_tail k n (cs @ ds) = utf8_tail k n cs"
  by (induction k n cs rule: utf8_tail.induct) (auto split: if_splits)

lemma utf8_step_Char: "utf8_step z = Utf8_Char n \<Longrightarrow> 0 < n \<and> n \<le> length z"
  by (cases z) (auto split: nat.splits list.splits if_splits dest: utf8_tail_bounds [THEN conjunct1, rule_format])

lemma utf8_step_Bad: "utf8_step z = Utf8_Bad n \<Longrightarrow> 0 < n \<and> n \<le> length z"
  by (cases z) (auto split: nat.splits list.splits if_splits dest: utf8_tail_bounds [THEN conjunct2, rule_format])

lemma utf8_step_append: "utf8_step z \<noteq> Utf8_More \<Longrightarrow> utf8_step (z @ y) = utf8_step z"
  by (cases z) (auto split: nat.splits list.splits if_splits simp: utf8_tail_append)

record Utf8Error =
  valid_up_to :: nat
  error_len :: "nat option"

function utf8_run :: "nat \<Rightarrow> rstring \<Rightarrow> Utf8Error option" where
  "utf8_run i z =
     (if z = [] then None
      else case utf8_step z of
             Utf8_Char n \<Rightarrow> utf8_run (i + n) (drop n z)
           | Utf8_Bad n \<Rightarrow> Some \<lparr> valid_up_to = i, error_len = Some n \<rparr>
           | Utf8_More \<Rightarrow> Some \<lparr> valid_up_to = i, error_len = None \<rparr>)"
  by pat_completeness auto
termination by (relation "measure (\<lambda>(i, z). length z)") (auto dest: utf8_step_Char)

declare utf8_run.simps [simp del]

definition from_utf8 :: "rstring \<Rightarrow> Utf8Error + rstring" where
  "from_utf8 z = (case utf8_run 0 z of None \<Rightarrow> Inr z | Some e \<Rightarrow> Inl e)"

definition is_utf8 :: "rstring \<Rightarrow> bool" where
  "is_utf8 z \<longleftrightarrow> from_utf8 z = Inr z"

lemma utf8_run_shift: "utf8_run (i + j) z =
    map_option (\<lambda>e. e\<lparr> valid_up_to := i + valid_up_to e \<rparr>) (utf8_run j z)"
proof (induction j z rule: utf8_run.induct)
  case (1 j z)
  show ?case
  proof (cases "z = []")
    case False
    note unfold = utf8_run.simps [of _ z]
    show ?thesis
    proof (cases "utf8_step z")
      case (Utf8_Char n)
      with 1 [OF False Utf8_Char] False show ?thesis
        by (simp add: unfold [of "i + j"] unfold [of j] add.assoc)
    qed (use False in \<open>simp_all add: unfold [of "i + j"] unfold [of j]\<close>)
  qed (simp add: utf8_run.simps)
qed

subsection \<open>The buffer\<close>

text \<open>U+FFFD, the replacement character.\<close>

definition replacement :: rstring where
  "replacement = [CHR 0xEF, CHR 0xBF, CHR 0xBD]"

text \<open>
  The loop of \<open>push_utf8\<close> over the bytes not looked at yet. It returns the buffer and the pending
  bytes; each round that does not return drops at least one byte.
\<close>

lemma utf8_run_error: "utf8_run i z = Some e \<Longrightarrow>
    i \<le> valid_up_to e \<and> valid_up_to e - i \<le> length z
    \<and> (case error_len e of Some n \<Rightarrow> 0 < n \<and> valid_up_to e - i + n \<le> length z | None \<Rightarrow> valid_up_to e - i < length z)"
proof (induction i z arbitrary: e rule: utf8_run.induct)
  case (1 i z)
  show ?case
  proof (cases "utf8_step z")
    case (Utf8_Char n)
    with "1.prems" have z: "z \<noteq> []" "utf8_run (i + n) (drop n z) = Some e"
      by (auto simp: utf8_run.simps [of i z] split: if_splits)
    from "1.IH" [OF z(1) Utf8_Char z(2)] utf8_step_Char [OF Utf8_Char] show ?thesis
      by (auto split: option.splits)
  qed (use "1.prems" utf8_step_Bad [of z] in \<open>auto simp: utf8_run.simps [of i z] split: if_splits\<close>)
qed

function push_loop :: "rstring \<Rightarrow> rstring \<Rightarrow> rstring \<Rightarrow> rstring \<times> rstring" where
  "push_loop buffer pending rest =
     (case from_utf8 rest of
        Inr s \<Rightarrow> (buffer @ s, pending)
      | Inl e \<Rightarrow>
          (let valid = valid_up_to e;
               buffer = buffer @ (case from_utf8 (take valid rest) of Inr s \<Rightarrow> s | Inl _ \<Rightarrow> [])
           in case error_len e of
                None \<Rightarrow> (buffer, pending @ drop valid rest)
              | Some bad \<Rightarrow> push_loop (buffer @ replacement) pending (drop (valid + bad) rest)))"
  by pat_completeness auto
termination
  by (relation "measure (\<lambda>(b, p, r). length r)")
    (auto simp: from_utf8_def dest!: utf8_run_error split: option.splits)

declare push_loop.simps [simp del]

definition push_utf8 :: "rstring \<times> rstring \<Rightarrow> rstring \<Rightarrow> rstring \<times> rstring" where
  "push_utf8 s bytes =
     (let (buffer, pending) = s;
          input = (if pending = [] then bytes else pending @ bytes)
      in push_loop buffer [] input)"

subsection \<open>Decoding without buffers\<close>

text \<open>The reference: character by character, an error costs one replacement character.\<close>

function utf8_decode :: "rstring \<Rightarrow> rstring \<Rightarrow> rstring \<times> rstring" where
  "utf8_decode b z =
     (if z = [] then (b, [])
      else case utf8_step z of
             Utf8_Char n \<Rightarrow> utf8_decode (b @ take n z) (drop n z)
           | Utf8_Bad n \<Rightarrow> utf8_decode (b @ replacement) (drop n z)
           | Utf8_More \<Rightarrow> (b, z))"
  by pat_completeness auto
termination by (relation "measure (\<lambda>(b, z). length z)") (auto dest: utf8_step_Char utf8_step_Bad)

declare utf8_decode.simps [simp del]

lemma utf8_decode_Nil [simp]: "utf8_decode b [] = (b, [])"
  by (simp add: utf8_decode.simps)

lemma utf8_decode_Char: "utf8_step z = Utf8_Char n \<Longrightarrow> utf8_decode b z = utf8_decode (b @ take n z) (drop n z)"
  and utf8_decode_Bad: "utf8_step z = Utf8_Bad n \<Longrightarrow> utf8_decode b z = utf8_decode (b @ replacement) (drop n z)"
  and utf8_decode_More: "utf8_step z = Utf8_More \<Longrightarrow> utf8_decode b z = (b, z)"
  by (subst utf8_decode.simps; fastforce)+

lemmas utf8_decodes = utf8_decode_Char utf8_decode_Bad utf8_decode_More

lemma utf8_tail_take: "utf8_tail k n cs = Utf8_Char m \<Longrightarrow> utf8_tail k n (take k cs) = Utf8_Char m"
  by (induction k n cs rule: utf8_tail.induct) (auto split: if_splits)

lemma utf8_step_take:
  assumes "utf8_step z = Utf8_Char n"
  shows "utf8_step (take n z) = Utf8_Char n"
proof -
  from assms obtain c cs where z: "z = c # cs" by (cases z) auto
  show ?thesis
  proof (cases "utf8_char_width (byte_of c) \<le> 1")
    case True
    with assms show ?thesis by (auto simp: z le_Suc_eq)
  next
    case False
    then obtain k where w: "utf8_char_width (byte_of c) = Suc (Suc k)"
      by (metis One_nat_def le0 le_SucI not0_implies_Suc order_refl)
    with assms obtain d ds where ds: "cs = d # ds" "second_byte_ok (byte_of c) (byte_of d)" "utf8_tail k 2 ds = Utf8_Char n"
      by (auto simp: z split: list.splits if_splits)
    with utf8_tail_bounds [of k 2 ds n] have "n = Suc (Suc k)" by simp
    with w ds utf8_tail_take [OF ds(3)] show ?thesis by (simp add: z)
  qed
qed

lemma utf8_run_None_decode: "utf8_run i z = None \<Longrightarrow> utf8_decode b z = (b @ z, [])"
proof (induction i z arbitrary: b rule: utf8_run.induct)
  case (1 i z)
  show ?case
  proof (cases "z = []")
    case False
    with 1 show ?thesis
      by (cases "utf8_step z") (auto simp: utf8_run.simps [of i z] utf8_decodes)
  qed simp
qed

lemma utf8_run_Some_decode:
  assumes "utf8_run i z = Some e"
  shows "utf8_decode b z =
      (case error_len e of
         None \<Rightarrow> (b @ take (valid_up_to e - i) z, drop (valid_up_to e - i) z)
       | Some n \<Rightarrow> utf8_decode (b @ take (valid_up_to e - i) z @ replacement) (drop (valid_up_to e - i + n) z))
    \<and> (\<forall>j. utf8_run j (take (valid_up_to e - i) z) = None)"
  using assms
proof (induction i z arbitrary: b e rule: utf8_run.induct)
  case (1 i z)
  show ?case
  proof (cases "utf8_step z")
    case (Utf8_Char n)
    with "1.prems" have z: "z \<noteq> []" and run: "utf8_run (i + n) (drop n z) = Some e"
      by (auto simp: utf8_run.simps [of i z] split: if_splits)
    let ?w = "valid_up_to e - (i + n)"
    from utf8_run_error [OF run] have v: "valid_up_to e - i = n + ?w" by simp
    note IH = "1.IH" [OF z Utf8_Char run]
    have take: "take (n + ?w) z = take n z @ take ?w (drop n z)" by (simp add: take_add)
    have "utf8_step (take (n + ?w) z) = Utf8_Char n"
      unfolding take using utf8_step_take [OF Utf8_Char] utf8_step_append [of "take n z"] by simp
    moreover have "take (n + ?w) z \<noteq> []" using z utf8_step_Char [OF Utf8_Char] by simp
    ultimately have "\<forall>j. utf8_run j (take (n + ?w) z) = None"
      using IH utf8_step_Char [OF Utf8_Char] by (subst utf8_run.simps) (simp add: drop_take)
    with IH [of "b @ take n z"] show ?thesis
      unfolding v utf8_decode_Char [OF Utf8_Char] take by (auto simp: ac_simps split: option.splits)
  qed (use "1.prems" in \<open>auto simp: utf8_run.simps [of i z] utf8_run.simps [of _ "[]"] utf8_decodes split: if_splits\<close>)
qed

lemma push_loop_decode: "push_loop b p z = (fst (utf8_decode b z), p @ snd (utf8_decode b z))"
proof (induction b p z rule: push_loop.induct)
  case (1 b p z)
  show ?case
  proof (cases "utf8_run 0 z")
    case None
    then show ?thesis by (subst push_loop.simps) (simp add: from_utf8_def utf8_run_None_decode [OF None])
  next
    case (Some e)
    note D = utf8_run_Some_decode [OF Some, of b]
    have f: "from_utf8 z = Inl e" "from_utf8 (take (valid_up_to e) z) = Inr (take (valid_up_to e) z)"
      using Some D by (simp_all add: from_utf8_def)
    show ?thesis
    proof (cases "error_len e")
      case None
      with f D show ?thesis by (subst push_loop.simps) (simp add: Let_def)
    next
      case (Some n)
      with "1.IH" [OF f(1) refl refl Some] f D show ?thesis by (subst push_loop.simps) (simp add: Let_def)
    qed
  qed
qed

text \<open>The state after a chunk is the decoding of the pending bytes and the chunk.\<close>

lemma push_utf8_decode: "push_utf8 s bytes = utf8_decode (fst s) (snd s @ bytes)"
  by (cases s) (simp add: push_utf8_def push_loop_decode)

lemma utf8_decode_append:
  "utf8_decode b (x @ y) = utf8_decode (fst (utf8_decode b x)) (snd (utf8_decode b x) @ y)"
proof (induction b x rule: utf8_decode.induct)
  case (1 b x)
  show ?case
  proof (cases "x = []")
    case False
    show ?thesis
    proof (cases "utf8_step x")
      case (Utf8_Char n)
      then have "utf8_step (x @ y) = Utf8_Char n" using utf8_step_append [of x y] by simp
      with 1(1) [OF False Utf8_Char] utf8_step_Char [OF Utf8_Char] show ?thesis
        by (simp add: utf8_decode_Char Utf8_Char)
    next
      case (Utf8_Bad n)
      then have "utf8_step (x @ y) = Utf8_Bad n" using utf8_step_append [of x y] by simp
      with 1(2) [OF False Utf8_Bad] utf8_step_Bad [OF Utf8_Bad] show ?thesis
        by (simp add: utf8_decode_Bad Utf8_Bad)
    next
      case Utf8_More
      then show ?thesis by (simp add: utf8_decode_More)
    qed
  qed simp
qed

text \<open>How the network cuts the bytes does not matter.\<close>

lemma push_utf8_chunks: "foldl push_utf8 (b, p) chunks = (if chunks = [] then (b, p) else push_utf8 (b, p) (concat chunks))"
proof (induction chunks rule: rev_induct)
  case (snoc c cs)
  then show ?case
    by (cases "cs = []") (simp_all add: push_utf8_decode utf8_decode_append [of b "p @ concat cs" c, simplified])
qed simp

subsection \<open>What the buffer holds\<close>

lemma is_utf8_run: "is_utf8 z \<longleftrightarrow> utf8_run 0 z = None"
  by (simp add: is_utf8_def from_utf8_def split: option.splits)

lemma utf8_run_append: "utf8_run i a = None \<Longrightarrow> utf8_run i (a @ c) = utf8_run (i + length a) c"
proof (induction i a rule: utf8_run.induct)
  case (1 i a)
  show ?case
  proof (cases "a = []")
    case False
    with "1.prems" obtain n where n: "utf8_step a = Utf8_Char n" "utf8_run (i + n) (drop n a) = None"
      by (auto simp: utf8_run.simps [of i a] split: utf8_scan.splits)
    note l = utf8_step_Char [OF n(1)]
    from n(1) have "utf8_step (a @ c) = Utf8_Char n" using utf8_step_append [of a c] by simp
    then have "utf8_run i (a @ c) = utf8_run (i + n) (drop n a @ c)"
      using False l by (subst utf8_run.simps) simp
    with "1.IH" [OF False n] l show ?thesis by simp
  qed simp
qed

lemma utf8_run_None_any: "utf8_run i z = None \<longleftrightarrow> utf8_run 0 z = None"
  using utf8_run_shift [of i 0 z] by simp

lemma is_utf8_append: "is_utf8 a \<Longrightarrow> is_utf8 (a @ c) \<longleftrightarrow> is_utf8 c"
  using utf8_run_append [of 0 a c] utf8_run_None_any [of "length a" c] by (simp add: is_utf8_run)

lemma is_utf8_take:
  assumes "utf8_step z = Utf8_Char n"
  shows "is_utf8 (take n z)"
  using utf8_step_take [OF assms] utf8_step_Char [OF assms]
  by (simp add: is_utf8_run utf8_run.simps [of 0 "take n z"] utf8_run.simps [of n "[]"])

lemma is_utf8_replacement: "is_utf8 replacement"
  by (simp add: is_utf8_run utf8_run.simps replacement_def utf8_char_width_def byte_of_def
      second_byte_ok_def continuation_def eval_nat_numeral)

lemma utf8_decode_is_utf8: "is_utf8 b \<Longrightarrow> is_utf8 (fst (utf8_decode b z))"
proof (induction b z rule: utf8_decode.induct)
  case (1 b z)
  show ?case
  proof (cases "z = []")
    case False
    show ?thesis
    proof (cases "utf8_step z")
      case (Utf8_Char n)
      with 1(1) [OF False Utf8_Char] "1.prems" show ?thesis
        by (simp add: utf8_decode_Char is_utf8_append is_utf8_take)
    next
      case (Utf8_Bad n)
      with 1(2) [OF False Utf8_Bad] "1.prems" show ?thesis
        by (simp add: utf8_decode_Bad is_utf8_append is_utf8_replacement)
    qed (use "1.prems" in \<open>simp add: utf8_decode_More\<close>)
  qed (use "1.prems" in simp)
qed

lemma utf8_tail_More: "utf8_tail k n cs = Utf8_More \<Longrightarrow> length cs < k"
  by (induction k n cs rule: utf8_tail.induct) (auto split: if_splits)

lemma utf8_step_More: "utf8_step z = Utf8_More \<Longrightarrow> length z \<le> 3"
  by (cases z)
    (auto simp: utf8_char_width_def split: nat.splits list.splits if_splits dest!: utf8_tail_More)

lemma utf8_decode_pending: "length (snd (utf8_decode b z)) \<le> 3"
proof (induction b z rule: utf8_decode.induct)
  case (1 b z)
  then show ?case
    by (cases "z = []"; cases "utf8_step z") (simp_all add: utf8_decodes utf8_step_More)
qed

end
