(* ===== verification/Fanout.thy ===== *)
theory Fanout
  imports Provider_Error Response_Types
begin

text \<open>
  Best-of-n and self-consistency (\<open>aura-core/src/validation/fanout.rs\<close>). The provider is a
  parameter: \<open>call i request\<close> is the outcome of the \<open>i\<close>-th concurrent call, and joining keeps
  their order. The hash map of groups is visited in an order that the map chooses: a parameter that
  permutes the list of groups. An \<open>expect\<close> that fails is a panic.
\<close>

definition DEFAULT_FANOUT_TEMPERATURE :: f32 where "DEFAULT_FANOUT_TEMPERATURE = f32_lit 7 10"
definition MAX_N :: u8 where "MAX_N = 8"

datatype FanoutSelector = HighestLogprob | MostFrequent

datatype FanoutError = AllCandidatesFailed u8 ProviderError | InvalidN u8

type_synonym groups = "(rstring \<times> nat list) list"

record fanout_env =
  fe_unicode :: unicode
  fe_order :: "groups \<Rightarrow> groups"
  fe_four_decimals :: "f32 \<Rightarrow> rstring"

subsection \<open>Normal form of a text\<close>

definition is_whitespace :: "rstring \<Rightarrow> bool" where
  "is_whitespace c \<longleftrightarrow> c \<in> set ws_encodings"

fun normalize_chars :: "bool \<Rightarrow> rstring list \<Rightarrow> rstring" where
  "normalize_chars prev_space [] = []"
| "normalize_chars prev_space (c # cs) =
     (if is_whitespace c
      then (if prev_space then normalize_chars True cs else CHR '' '' # normalize_chars True cs)
      else if c \<in> {''.'', '','', '';'', ''!'', ''?''} then normalize_chars prev_space cs
      else c @ normalize_chars False cs)"

definition normalize_text :: "unicode \<Rightarrow> rstring \<Rightarrow> rstring" where
  "normalize_text u s = normalize_chars False (str_chars (str_trim (u_to_lowercase u s)))"

subsection \<open>Choosing a candidate\<close>

definition with_confidence :: "Response list \<Rightarrow> (nat \<times> f32) list" where
  "with_confidence cs =
     List.map_filter (\<lambda>(i, c). map_option (Pair i) (Option.bind (resp_validation c) vm_confidence)) (enumerate 0 cs)"

definition select_by_logprob :: "fanout_env \<Rightarrow> Response list \<Rightarrow> (nat \<times> rstring) panics" where
  "select_by_logprob v cs =
     (let scored = with_confidence cs
      in if scored \<noteq> []
         then map_option (\<lambda>(i, score). (i, ''highest_logprob: confidence='' @ fe_four_decimals v score))
                (max_by (\<lambda>a b. f64_cmp (snd a) (snd b)) scored)
         else map_option (\<lambda>(i, _).
                  (i, ''highest_logprob: no logprobs available; selected by output length (cap 4000)''))
                (max_by (cmp_key snd) (map (\<lambda>(i, c). (i, min (length (Response_text c)) 4000)) (enumerate 0 cs))))"

fun add_to_group :: "rstring \<Rightarrow> nat \<Rightarrow> groups \<Rightarrow> groups" where
  "add_to_group t i [] = [(t, [i])]"
| "add_to_group t i ((u, is) # gs) = (if u = t then (u, is @ [i]) # gs else (u, is) # add_to_group t i gs)"

definition group_texts :: "rstring list \<Rightarrow> groups" where
  "group_texts ts = fold (\<lambda>(i, t). add_to_group t i) (enumerate 0 ts) []"

definition select_winner :: "fanout_env \<Rightarrow> Response list \<Rightarrow> FanoutSelector \<Rightarrow> (nat \<times> rstring) panics" where
  "select_winner v cs sel =
     (case sel of
        HighestLogprob \<Rightarrow> select_by_logprob v cs
      | MostFrequent \<Rightarrow>
          (let texts = map (\<lambda>c. normalize_text (fe_unicode v) (Response_text c)) cs
           in case max_by (cmp_key (\<lambda>g. length (snd g))) (fe_order v (group_texts texts)) of
                None \<Rightarrow> None
              | Some (largest, indices) \<Rightarrow>
                  if 1 < length indices
                  then (case select_by_logprob v (map (\<lambda>i. cs ! i) indices) of
                          None \<Rightarrow> None
                        | Some (off, _) \<Rightarrow>
                            if off < length indices
                            then Some (indices ! off,
                              ''most_frequent: '' @ dec_digits (length indices) @ '' of ''
                              @ dec_digits (length cs) @ '' candidates produced equivalent output'')
                            else None)
                  else map_option (\<lambda>(i, _).
                         (i, ''most_frequent: no agreement (largest_group='' @ largest
                             @ ''); fell back to highest_logprob''))
                         (select_by_logprob v cs)))"

subsection \<open>The winner's metadata\<close>

definition Usage_default :: Usage where
  "Usage_default =
     \<lparr> input_tokens = 0, output_tokens = 0, total_tokens = 0, reasoning_tokens = None,
       cached_tokens = None, cost_usd = None \<rparr>"

definition sum_usage :: "Usage list \<Rightarrow> Usage" where
  "sum_usage us =
     (let total_input = foldl (\<lambda>a u. saturating_add a (input_tokens u)) 0 us;
          total_output = foldl (\<lambda>a u. saturating_add a (output_tokens u)) 0 us;
          total_cached = foldl (\<lambda>a u. saturating_add a (case cached_tokens u of Some n \<Rightarrow> n | None \<Rightarrow> 0)) 0 us;
          costs = List.map_filter cost_usd us
      in \<lparr> input_tokens = total_input, output_tokens = total_output,
           total_tokens = saturating_add total_input total_output, reasoning_tokens = None,
           cached_tokens = (if 0 < total_cached then Some total_cached else None),
           cost_usd = (if costs = [] then None else Some (foldl f64_add (f64_lit 0 1) costs)) \<rparr>)"

definition attach_fanout_metadata ::
    "FanoutSelector \<Rightarrow> u8 \<Rightarrow> u8 \<Rightarrow> rstring option \<Rightarrow> bool \<Rightarrow> Usage list \<Rightarrow> Response \<Rightarrow> Response" where
  "attach_fanout_metadata sel n selected_index reason original_stream all_usage r =
     r\<lparr> resp_usage := Some (sum_usage all_usage),
        resp_validation := Some
          \<lparr> vm_strategy = (case sel of HighestLogprob \<Rightarrow> BestOfN | MostFrequent \<Rightarrow> SelfConsistency),
            vm_confidence = Option.bind (resp_validation r) vm_confidence, vm_perplexity = None,
            vm_candidates_generated = Some n, vm_selected_index = Some selected_index,
            vm_selection_reason =
              (if n = 1 \<and> reason = None then Some ''n=1: no fanout'' else reason),
            vm_passed = True,
            vm_warning =
              (if original_stream
               then Some ''best_of_n / self_consistency cannot stream; served as a single non-streaming response''
               else None),
            vm_logprobs = Option.bind (resp_validation r) vm_logprobs \<rparr> \<rparr>"

subsection \<open>The fan-out\<close>

definition usage_or_default :: "Response \<Rightarrow> Usage" where
  "usage_or_default r = (case resp_usage r of Some u \<Rightarrow> u | None \<Rightarrow> Usage_default)"

fun partition_results ::
    "(ProviderError + Response) list \<Rightarrow> Response list \<times> ProviderError option" where
  "partition_results [] = ([], None)"
| "partition_results (Inr r # rs) =
     (case partition_results rs of (oks, err) \<Rightarrow> (if resp_status r = RS_Completed then r # oks else oks, err))"
| "partition_results (Inl e # rs) = (case partition_results rs of (oks, _) \<Rightarrow> (oks, Some e))"

text \<open>The request of the candidates.\<close>

definition fanout_request :: "Request \<Rightarrow> Request" where
  "fanout_request r = r\<lparr> req_stream := False,
     req_temperature := (case req_temperature r of None \<Rightarrow> Some DEFAULT_FANOUT_TEMPERATURE | Some t \<Rightarrow> Some t) \<rparr>"

definition run_fanout ::
    "fanout_env \<Rightarrow> (nat \<Rightarrow> Request \<Rightarrow> ProviderError + Response) \<Rightarrow> Request \<Rightarrow> u8 \<Rightarrow> FanoutSelector \<Rightarrow>
     (FanoutError + Response) panics" where
  "run_fanout v call request n sel =
     (if n = 0 \<or> MAX_N < n then Some (Inl (InvalidN n))
      else if n = 1
      then (case call 0 (request\<lparr> req_stream := False \<rparr>) of
              Inl e \<Rightarrow> Some (Inl (AllCandidatesFailed 1 e))
            | Inr response \<Rightarrow>
                Some (Inr (attach_fanout_metadata sel 1 0 None (req_stream request)
                  [usage_or_default response] response)))
      else
        (let (successes, first_error) = partition_results (map (\<lambda>i. call i (fanout_request request)) [0..<unat n])
         in if successes = []
            then Some (Inl (AllCandidatesFailed n (case first_error of
                   Some e \<Rightarrow> e | None \<Rightarrow> Internal ''all candidates returned non-Completed status'')))
            else (case select_winner v successes sel of
                    None \<Rightarrow> None
                  | Some (i, reason) \<Rightarrow>
                      if i < length successes
                      then Some (Inr (attach_fanout_metadata sel n (of_nat i) (Some reason) (req_stream request)
                             (map usage_or_default successes) (successes ! i)))
                      else None)))"

subsection \<open>The selection answers\<close>

lemma max_by_key_greatest: "max_by (cmp_key f) xs = Some x \<Longrightarrow> y \<in> set xs \<Longrightarrow> f y \<le> f x"
proof (cases xs)
  case (Cons z zs)
  let ?m = "\<lambda>a b. if cmp_key f a b = Greater then a else b"
  have "\<forall>y \<in> set (a # zs). f y \<le> f (foldl ?m a zs)" for a
  proof (induction zs arbitrary: a)
    case (Cons b zs)
    have "f a \<le> f (?m a b)" "f b \<le> f (?m a b)" by (auto simp: cmp_key_def)
    moreover note Cons.IH [of "?m a b"]
    ultimately show ?case by (auto intro: order_trans simp del: if_split)
  qed simp
  moreover assume "max_by (cmp_key f) xs = Some x" "y \<in> set xs"
  ultimately show ?thesis using Cons by auto
qed simp

lemma with_confidence_index: "(i, x) \<in> set (with_confidence cs) \<Longrightarrow> i < length cs"
  by (auto simp: with_confidence_def List.map_filter_def in_set_enumerate_eq)

lemma select_by_logprob_answers:
  assumes "cs \<noteq> []"
  shows "\<exists>i why. select_by_logprob v cs = Some (i, why) \<and> i < length cs"
proof (cases "with_confidence cs = []")
  case False
  then obtain p where p: "max_by (\<lambda>a b. f64_cmp (snd a) (snd b)) (with_confidence cs) = Some p"
    by (metis max_by_None not_None_eq)
  from max_by_in [OF this] with_confidence_index [of "fst p" "snd p" cs] p False show ?thesis
    by (auto simp: select_by_logprob_def Let_def split_beta)
next
  case True
  let ?l = "map (\<lambda>(i, c). (i, min (length (Response_text c)) 4000)) (enumerate 0 cs)"
  have "?l \<noteq> []" using assms by (simp add: enumerate_eq_zip)
  then obtain p where p: "max_by (cmp_key snd) ?l = Some p" by (metis max_by_None not_None_eq)
  from max_by_in [OF this] have "fst p < length cs" by (auto simp: in_set_enumerate_eq)
  with p True show ?thesis by (auto simp: select_by_logprob_def Let_def split_beta)
qed

text \<open>The groups: each text with all its indices.\<close>

definition indices_of :: "rstring list \<Rightarrow> rstring \<Rightarrow> nat list" where
  "indices_of ts t = filter (\<lambda>i. ts ! i = t) [0..<length ts]"

lemma indices_of_snoc: "indices_of (ts @ [u]) t = indices_of ts t @ (if u = t then [length ts] else [])"
  by (auto simp: indices_of_def nth_append intro: filter_cong)

lemma add_to_group_keys: "fst ` set (add_to_group t i gs) = insert t (fst ` set gs)"
  by (induction t i gs rule: add_to_group.induct) auto

lemma add_to_group_distinct: "distinct (map fst gs) \<Longrightarrow> distinct (map fst (add_to_group t i gs))"
  by (induction t i gs rule: add_to_group.induct) (auto simp: add_to_group_keys [unfolded image_def, simplified] image_iff,
      (use add_to_group_keys in \<open>force\<close>)+)

lemma add_to_group_get:
  "map_of (add_to_group t i gs) u =
     (if u = t then Some ((case map_of gs t of Some is \<Rightarrow> is | None \<Rightarrow> []) @ [i]) else map_of gs u)"
  by (induction t i gs rule: add_to_group.induct) auto

lemma group_texts_snoc: "group_texts (ts @ [t]) = add_to_group t (length ts) (group_texts ts)"
  by (simp add: group_texts_def enumerate_append_eq)

lemma group_texts_get:
  "map_of (group_texts ts) t = (if indices_of ts t = [] then None else Some (indices_of ts t))"
proof (induction ts rule: rev_induct)
  case Nil
  show ?case by (simp add: group_texts_def indices_of_def)
next
  case (snoc u ts)
  then show ?case by (auto simp: group_texts_snoc add_to_group_get indices_of_snoc)
qed

lemma group_texts_distinct: "distinct (map fst (group_texts ts))"
proof (induction ts rule: rev_induct)
  case Nil
  show ?case by (simp add: group_texts_def)
qed (simp add: group_texts_snoc add_to_group_distinct)

lemma group_texts_in: "(t, is) \<in> set (group_texts ts) \<longleftrightarrow> is = indices_of ts t \<and> is \<noteq> []"
  using group_texts_get [of ts t] group_texts_distinct [of ts]
  by (metis map_of_eq_Some_iff option.distinct(1) option.inject)

lemma indices_of_less: "i \<in> set (indices_of ts t) \<Longrightarrow> i < length ts \<and> ts ! i = t"
  by (simp add: indices_of_def)

lemma indices_of_disjoint: "t \<noteq> u \<Longrightarrow> length (indices_of ts t) + length (indices_of ts u) \<le> length ts"
  by (induction ts rule: rev_induct) (auto simp: indices_of_snoc, simp_all add: indices_of_def)

lemma length_indices_of: "length (indices_of ts t) = count_list ts t"
  by (induction ts rule: rev_induct) (auto simp: indices_of_snoc, simp add: indices_of_def)

subsection \<open>The majority wins\<close>

definition texts_of :: "fanout_env \<Rightarrow> Response list \<Rightarrow> rstring list" where
  "texts_of v cs = map (\<lambda>c. normalize_text (fe_unicode v) (Response_text c)) cs"

definition visits_all :: "fanout_env \<Rightarrow> bool" where
  "visits_all v \<longleftrightarrow> (\<forall>gs. set (fe_order v gs) = set gs)"

lemma largest_group:
  assumes "visits_all v" "cs \<noteq> []"
  obtains t where "max_by (cmp_key (\<lambda>g. length (snd g))) (fe_order v (group_texts (texts_of v cs)))
      = Some (t, indices_of (texts_of v cs) t)"
    "indices_of (texts_of v cs) t \<noteq> []"
    "\<And>u. length (indices_of (texts_of v cs) u) \<le> length (indices_of (texts_of v cs) t)"
proof -
  let ?ts = "texts_of v cs" and ?gs = "fe_order v (group_texts (texts_of v cs))"
  have set: "set ?gs = set (group_texts ?ts)" using assms(1) by (simp add: visits_all_def)
  have "?ts ! 0 \<in> set ?ts" using assms(2) by (simp add: texts_of_def)
  then have "0 \<in> set (indices_of ?ts (?ts ! 0))" using assms(2) by (simp add: indices_of_def texts_of_def)
  then have "(?ts ! 0, indices_of ?ts (?ts ! 0)) \<in> set ?gs" unfolding set group_texts_in by auto
  then obtain g where g: "max_by (cmp_key (\<lambda>g. length (snd g))) ?gs = Some g"
    by (metis list.set(1) empty_iff max_by_None not_None_eq)
  obtain t ix where ti: "g = (t, ix)" by (cases g)
  from max_by_in [OF g] have "(t, ix) \<in> set (group_texts ?ts)" unfolding set ti .
  with ti have t: "g = (t, indices_of ?ts t)" "indices_of ?ts t \<noteq> []" unfolding group_texts_in by auto
  have "length (indices_of ?ts u) \<le> length (indices_of ?ts t)" for u
  proof (cases "indices_of ?ts u = []")
    case False
    then have "(u, indices_of ?ts u) \<in> set ?gs" unfolding set group_texts_in by simp
    from max_by_key_greatest [OF g this] show ?thesis by (simp add: t)
  qed simp
  with g t that show ?thesis by blast
qed

lemma select_winner_majority:
  assumes "visits_all v" "cs \<noteq> []"
  shows "\<exists>i why. select_winner v cs MostFrequent = Some (i, why) \<and> i < length cs
    \<and> (\<forall>t. length cs < 2 * count_list (texts_of v cs) t \<longrightarrow> texts_of v cs ! i = t)"
proof -
  let ?ts = "texts_of v cs"
  have len: "length ?ts = length cs" by (simp add: texts_of_def)
  obtain t where m: "max_by (cmp_key (\<lambda>g. length (snd g))) (fe_order v (group_texts ?ts)) = Some (t, indices_of ?ts t)"
    and ne: "indices_of ?ts t \<noteq> []" and most: "\<And>u. length (indices_of ?ts u) \<le> length (indices_of ?ts t)"
    using largest_group [OF assms] by blast
  have major: "u = t" if "length cs < 2 * count_list ?ts u" for u
  proof (rule ccontr)
    assume "u \<noteq> t"
    from indices_of_disjoint [OF this, of ?ts] most [of u] that show False by (simp add: len flip: length_indices_of)
  qed
  show ?thesis
  proof (cases "1 < length (indices_of ?ts t)")
    case True
    let ?g = "map (\<lambda>i. cs ! i) (indices_of ?ts t)"
    from select_by_logprob_answers [of ?g v] ne obtain off why where
      off: "select_by_logprob v ?g = Some (off, why)" "off < length (indices_of ?ts t)" by auto
    let ?i = "indices_of ?ts t ! off"
    from off(2) indices_of_less [of ?i ?ts t] have i: "?i < length cs" "?ts ! ?i = t" by (simp_all add: len)
    from True m off have "\<exists>w. select_winner v cs MostFrequent = Some (?i, w)"
      by (simp add: select_winner_def Let_def texts_of_def)
    with i major show ?thesis by blast
  next
    case False
    from select_by_logprob_answers [OF assms(2), of v] obtain i why where
      i: "select_by_logprob v cs = Some (i, why)" "i < length cs" by blast
    from False m i(1) have "\<exists>w. select_winner v cs MostFrequent = Some (i, w)"
      by (simp add: select_winner_def Let_def texts_of_def)
    moreover have "?ts ! i = u" if "length cs < 2 * count_list ?ts u" for u
    proof -
      have "count_list ?ts u \<le> 1" using False major [OF that] by (simp flip: length_indices_of)
      with that have "length cs < 2" by linarith
      moreover have "0 < length cs" using assms(2) by simp
      ultimately have "length cs = 1" by linarith
      moreover have "count_list ?ts u \<noteq> 0" using that by (cases "count_list ?ts u") auto
      ultimately show ?thesis using i(2) by (cases cs) (auto simp: texts_of_def split: if_splits)
    qed
    ultimately show ?thesis using i(2) by blast
  qed
qed

lemma select_winner_answers:
  assumes "visits_all v" "cs \<noteq> []"
  shows "\<exists>i why. select_winner v cs sel = Some (i, why) \<and> i < length cs"
  using select_winner_majority [OF assms] select_by_logprob_answers [OF assms(2), of v]
  by (cases sel) (auto simp: select_winner_def)

text \<open>The candidates that count, and what a call with several of them answers.\<close>

definition completed :: "(nat \<Rightarrow> Request \<Rightarrow> ProviderError + Response) \<Rightarrow> Request \<Rightarrow> u8 \<Rightarrow> Response list" where
  "completed call r n =
     filter (\<lambda>c. resp_status c = RS_Completed)
       (List.map_filter (\<lambda>x. case x of Inr c \<Rightarrow> Some c | Inl _ \<Rightarrow> None)
          (map (\<lambda>i. call i (fanout_request r)) [0..<unat n]))"

lemma partition_results_completed:
  "fst (partition_results rs) = filter (\<lambda>c. resp_status c = RS_Completed)
     (List.map_filter (\<lambda>x. case x of Inr c \<Rightarrow> Some c | Inl _ \<Rightarrow> None) rs)"
  by (induction rs rule: partition_results.induct) (auto simp: List.map_filter_simps split: prod.splits)

lemma run_fanout_many:
  assumes "1 < n" "n \<le> MAX_N"
  shows "run_fanout v call r n sel =
    (if completed call r n = []
     then Some (Inl (AllCandidatesFailed n
            (case snd (partition_results (map (\<lambda>i. call i (fanout_request r)) [0..<unat n])) of
               Some e \<Rightarrow> e | None \<Rightarrow> Internal ''all candidates returned non-Completed status'')))
     else (case select_winner v (completed call r n) sel of
             None \<Rightarrow> None
           | Some (i, why) \<Rightarrow>
               if i < length (completed call r n)
               then Some (Inr (attach_fanout_metadata sel n (of_nat i) (Some why) (req_stream r)
                      (map usage_or_default (completed call r n)) (completed call r n ! i)))
               else None))"
proof -
  have n: "(n = 0) = False" "(n = 1) = False" "(MAX_N < n) = False" using assms by auto
  let ?rs = "map (\<lambda>i. call i (fanout_request r)) [0..<unat n]"
  obtain oks err where p: "partition_results ?rs = (oks, err)" by fastforce
  then have c: "completed call r n = oks"
    unfolding completed_def partition_results_completed [symmetric] by simp
  show ?thesis
    unfolding run_fanout_def c n Let_def p by simp
qed

lemma attach_text [simp]: "Response_text (attach_fanout_metadata sel n i why st us c) = Response_text c"
  by (simp add: attach_fanout_metadata_def Response_text_def)

lemma run_fanout_answers:
  assumes "visits_all v" "1 < n" "n \<le> MAX_N" "completed call r n \<noteq> []"
  shows "\<exists>i why. run_fanout v call r n sel =
      Some (Inr (attach_fanout_metadata sel n (of_nat i) (Some why) (req_stream r)
        (map usage_or_default (completed call r n)) (completed call r n ! i)))
    \<and> i < length (completed call r n)
    \<and> (sel = MostFrequent \<longrightarrow> (\<forall>t. length (completed call r n) < 2 * count_list (texts_of v (completed call r n)) t
          \<longrightarrow> texts_of v (completed call r n) ! i = t))"
proof -
  obtain i why where w: "select_winner v (completed call r n) sel = Some (i, why)" "i < length (completed call r n)"
    "sel = MostFrequent \<longrightarrow> (\<forall>t. length (completed call r n) < 2 * count_list (texts_of v (completed call r n)) t
       \<longrightarrow> texts_of v (completed call r n) ! i = t)"
    using select_winner_majority [OF assms(1,4)] select_winner_answers [OF assms(1,4), of sel]
    by (cases sel) blast+
  then have "run_fanout v call r n sel =
      Some (Inr (attach_fanout_metadata sel n (of_nat i) (Some why) (req_stream r)
        (map usage_or_default (completed call r n)) (completed call r n ! i)))"
    using run_fanout_many [OF assms(2,3), of v call r sel] assms(4) by simp
  with w show ?thesis by blast
qed

lemma run_fanout_total:
  assumes "visits_all v"
  shows "run_fanout v call r n sel \<noteq> None"
proof -
  consider "n = 0 \<or> MAX_N < n" | "n = 1" "\<not> MAX_N < n" | "1 < n" "n \<le> MAX_N"
    by (metis linorder_not_less word_gt_0 word_less_1 linorder_neqE)
  then show ?thesis
  proof cases
    case 3
    then show ?thesis
      using run_fanout_many [OF 3, of v call r sel] run_fanout_answers [OF assms 3, of call r sel]
      by (cases "completed call r n = []") auto
  qed (auto simp: run_fanout_def split: sum.splits)
qed

end
