(* ===== verification/Commands.thy ===== *)
theory Commands
  imports Prelude
begin

text \<open>
  Calls of a stateful service that may fail, as functions from its state to its state and a result;
  \<open>?\<close> is the bind.
\<close>


type_synonym ('s, 'e, 'a) cmd = "'s \<Rightarrow> 's \<times> ('e + 'a)"

type_synonym ('s, 'a) command = "('s, rstring, 'a) cmd"

definition cmd_return :: "'a \<Rightarrow> ('s, 'e, 'a) cmd" where
  "cmd_return x s = (s, Inr x)"

definition cmd_bind :: "('s, 'e, 'a) cmd \<Rightarrow> ('a \<Rightarrow> ('s, 'e, 'b) cmd) \<Rightarrow> ('s, 'e, 'b) cmd" where
  "cmd_bind m f s = (case m s of (s', Inl e) \<Rightarrow> (s', Inl e) | (s', Inr x) \<Rightarrow> f x s')"

text \<open>\<open>.await.unwrap_or(d)\<close>.\<close>

definition cmd_unwrap_or :: "'a \<Rightarrow> ('s, 'e, 'a) cmd \<Rightarrow> ('s, 'e, 'a) cmd" where
  "cmd_unwrap_or d m s = (case m s of (s', Inl _) \<Rightarrow> (s', Inr d) | (s', Inr x) \<Rightarrow> (s', Inr x))"

text \<open>\<open>#[from]\<close>: the error of a call as the caller's error.\<close>

definition cmd_map_err :: "('e \<Rightarrow> 'f) \<Rightarrow> ('s, 'e, 'a) cmd \<Rightarrow> ('s, 'f, 'a) cmd" where
  "cmd_map_err f m s = (case m s of (s', Inl e) \<Rightarrow> (s', Inl (f e)) | (s', Inr x) \<Rightarrow> (s', Inr x))"

text \<open>A result that does not depend on the state.\<close>

definition cmd_of :: "'e + 'a \<Rightarrow> ('s, 'e, 'a) cmd" where
  "cmd_of r s = (s, r)"

end
