(* ===== verification/Cache.thy ===== *)
theory Cache
  imports Commands Response_Types "HOL-Library.AList"
begin

text \<open>
  The response cache (\<open>aura-core/src/cache.rs\<close>). SHA-256, the JSON writers and readers and the
  formatting of a temperature are parameters, and so is Redis, as a record of commands. The two
  scans end when Redis answers the cursor zero, which nothing in the code enforces: not returning is
  \<open>None\<close>. The keys of a JSON object are kept in insertion order.
\<close>

definition DEFAULT_CACHE_TTL :: u64 where "DEFAULT_CACHE_TTL = 300"

datatype CacheError = CE_Redis rstring | CE_Serialization rstring

record CacheHit =
  ch_response :: Response
  ch_cache_key :: rstring
  ch_ttl_remaining :: u64

record codec =
  cx_sha256 :: "rstring \<Rightarrow> rstring"
  cx_hex :: "rstring \<Rightarrow> rstring"
  cx_input_json :: "InputItem list \<Rightarrow> rstring option"
  cx_tools_json :: "Tool list \<Rightarrow> rstring option"
  cx_tool_choice_json :: "ToolChoice \<Rightarrow> rstring option"
  cx_two_decimals :: "f32 \<Rightarrow> rstring"
  cx_response_json :: "Response \<Rightarrow> rstring + rstring"
  cx_parse_response :: "rstring \<Rightarrow> rstring + Response"

record 's kv =
  kv_get :: "rstring \<Rightarrow> ('s, rstring option) command"
  kv_ttl :: "rstring \<Rightarrow> ('s, 64 word) command"
  kv_set_ex :: "rstring \<Rightarrow> rstring \<Rightarrow> u64 \<Rightarrow> ('s, unit) command"
  kv_del :: "rstring list \<Rightarrow> ('s, 64 word) command"
  kv_scan :: "u64 \<Rightarrow> rstring \<Rightarrow> nat \<Rightarrow> ('s, u64 \<times> rstring list) command"

record 's ResponseCache =
  rk_redis :: "'s kv"
  rk_key_prefix :: rstring
  rk_default_ttl :: u64

definition ResponseCache_new :: "'s kv \<Rightarrow> 's ResponseCache" where
  "ResponseCache_new r = \<lparr> rk_redis = r, rk_key_prefix = ''aura:cache'', rk_default_ttl = DEFAULT_CACHE_TTL \<rparr>"

definition ResponseCache_with_config :: "'s kv \<Rightarrow> rstring \<Rightarrow> u64 \<Rightarrow> 's ResponseCache" where
  "ResponseCache_with_config r p t = \<lparr> rk_redis = r, rk_key_prefix = p, rk_default_ttl = t \<rparr>"

subsection \<open>Keys\<close>

definition opt_bytes :: "('a \<Rightarrow> rstring) \<Rightarrow> 'a option \<Rightarrow> rstring" where
  "opt_bytes f v = (case v of Some x \<Rightarrow> f x | None \<Rightarrow> [])"

text \<open>What is hashed: seven fields, with a bar after all but the last.\<close>

definition key_material :: "codec \<Rightarrow> Request \<Rightarrow> rstring" where
  "key_material c r =
     req_model r @ ''|''
     @ opt_bytes id (cx_input_json c (req_input r)) @ ''|''
     @ opt_bytes id (req_instructions r) @ ''|''
     @ opt_bytes (cx_two_decimals c) (req_temperature r) @ ''|''
     @ opt_bytes (\<lambda>n. dec_digits (unat n)) (req_max_output_tokens r) @ ''|''
     @ opt_bytes id (Option.bind (req_tools r) (cx_tools_json c)) @ ''|''
     @ opt_bytes id (Option.bind (req_tool_choice r) (cx_tool_choice_json c))"

definition generate_cache_key :: "codec \<Rightarrow> 's ResponseCache \<Rightarrow> Request \<Rightarrow> rstring" where
  "generate_cache_key c k r = rk_key_prefix k @ '':'' @ cx_hex c (cx_sha256 c (key_material c r))"

subsection \<open>Entries\<close>

definition get_by_key :: "codec \<Rightarrow> 's ResponseCache \<Rightarrow> rstring \<Rightarrow> ('s, CacheError, CacheHit option) cmd" where
  "get_by_key c k key =
     cmd_bind (cmd_map_err CE_Redis (kv_get (rk_redis k) key)) (\<lambda>cached.
       (case cached of
          None \<Rightarrow> cmd_return None
        | Some json \<Rightarrow>
            cmd_bind (cmd_unwrap_or 0 (cmd_map_err CE_Redis (kv_ttl (rk_redis k) key))) (\<lambda>ttl.
            cmd_bind (cmd_map_err CE_Serialization (cmd_of (cx_parse_response c json))) (\<lambda>response.
            cmd_return (Some \<lparr> ch_response = response, ch_cache_key = key,
              ch_ttl_remaining = (if 0 < sint ttl then ttl else 0) \<rparr>)))))"

definition cache_get :: "codec \<Rightarrow> 's ResponseCache \<Rightarrow> Request \<Rightarrow> ('s, CacheError, CacheHit option) cmd" where
  "cache_get c k r = get_by_key c k (generate_cache_key c k r)"

definition set_by_key :: "codec \<Rightarrow> 's ResponseCache \<Rightarrow> rstring \<Rightarrow> Response \<Rightarrow> u64 \<Rightarrow> ('s, CacheError, unit) cmd" where
  "set_by_key c k key response ttl =
     cmd_bind (cmd_map_err CE_Serialization (cmd_of (cx_response_json c response))) (\<lambda>json.
       cmd_map_err CE_Redis (kv_set_ex (rk_redis k) key json ttl))"

definition cache_set ::
    "codec \<Rightarrow> 's ResponseCache \<Rightarrow> Request \<Rightarrow> Response \<Rightarrow> u64 option \<Rightarrow> ('s, CacheError, rstring) cmd" where
  "cache_set c k r response ttl =
     (let key = generate_cache_key c k r;
          ttl = (case ttl of Some t \<Rightarrow> t | None \<Rightarrow> rk_default_ttl k)
      in cmd_bind (set_by_key c k key response ttl) (\<lambda>_. cmd_return key))"

definition invalidate_by_key :: "'s ResponseCache \<Rightarrow> rstring \<Rightarrow> ('s, CacheError, bool) cmd" where
  "invalidate_by_key k key =
     cmd_bind (cmd_map_err CE_Redis (kv_del (rk_redis k) [key])) (\<lambda>deleted. cmd_return (0 < sint deleted))"

definition invalidate :: "codec \<Rightarrow> 's ResponseCache \<Rightarrow> Request \<Rightarrow> ('s, CacheError, bool) cmd" where
  "invalidate c k r = invalidate_by_key k (generate_cache_key c k r)"

subsection \<open>Scans\<close>

partial_function (option) scan_delete ::
    "'s kv \<Rightarrow> rstring \<Rightarrow> u64 \<Rightarrow> u64 \<Rightarrow> 's \<Rightarrow> ('s \<times> (CacheError + u64)) option" where
  "scan_delete r pattern cursor acc s =
     (case kv_scan r cursor pattern 100 s of
        (s1, Inl e) \<Rightarrow> Some (s1, Inl (CE_Redis e))
      | (s1, Inr (new_cursor, keys)) \<Rightarrow>
          (case (if keys = [] then (s1, Inr 0) else kv_del r keys s1) of
             (s2, Inl e) \<Rightarrow> Some (s2, Inl (CE_Redis e))
           | (s2, Inr deleted) \<Rightarrow>
               if new_cursor = 0 then Some (s2, Inr (acc + deleted))
               else scan_delete r pattern new_cursor (acc + deleted) s2))"

definition invalidate_pattern :: "'s ResponseCache \<Rightarrow> rstring \<Rightarrow> 's \<Rightarrow> ('s \<times> (CacheError + u64)) option" where
  "invalidate_pattern k pattern s = scan_delete (rk_redis k) (rk_key_prefix k @ '':'' @ pattern) 0 0 s"

record CacheStats =
  cst_entries :: u64
  cst_key_prefix :: rstring

partial_function (option) scan_count ::
    "'s kv \<Rightarrow> rstring \<Rightarrow> u64 \<Rightarrow> u64 \<Rightarrow> 's \<Rightarrow> ('s \<times> (CacheError + u64)) option" where
  "scan_count r pattern cursor acc s =
     (case kv_scan r cursor pattern 1000 s of
        (s1, Inl e) \<Rightarrow> Some (s1, Inl (CE_Redis e))
      | (s1, Inr (new_cursor, keys)) \<Rightarrow>
          if new_cursor = 0 then Some (s1, Inr (acc + of_nat (length keys)))
          else scan_count r pattern new_cursor (acc + of_nat (length keys)) s1)"

definition cache_stats :: "'s ResponseCache \<Rightarrow> 's \<Rightarrow> ('s \<times> (CacheError + CacheStats)) option" where
  "cache_stats k s =
     map_option (\<lambda>(s', r). (s', map_sum id (\<lambda>n. \<lparr> cst_entries = n, cst_key_prefix = rk_key_prefix k \<rparr>) r))
       (scan_count (rk_redis k) (rk_key_prefix k @ '':*'') 0 0 s)"

subsection \<open>What is cached\<close>

definition should_skip_cache :: "Request \<Rightarrow> bool" where
  "should_skip_cache r \<longleftrightarrow>
     (if req_stream r then True
      else case req_temperature r of Some temp \<Rightarrow> f64_lt (Fin 0) temp | None \<Rightarrow> False)"

definition should_cache_response :: "Response \<Rightarrow> bool" where
  "should_cache_response r \<longleftrightarrow>
     (if resp_status r \<noteq> RS_Completed then False
      else if resp_error r \<noteq> None then False
      else if resp_output r = [] then False else True)"

definition cache_metadata :: "rstring \<Rightarrow> (rstring \<times> json) list" where
  "cache_metadata key = [(''cache_hit'', JBool True), (''cache_key'', JStr key)]"

definition enrich_cached_response :: "rstring \<Rightarrow> Response \<Rightarrow> Response" where
  "enrich_cached_response key r =
     r\<lparr> resp_metadata := Some (case resp_metadata r of
          Some (JObj m) \<Rightarrow> JObj (fold (\<lambda>(k, v). AList.update k v) (cache_metadata key) m)
        | Some _ \<Rightarrow> JObj (cache_metadata key)
        | None \<Rightarrow> JObj (cache_metadata key)) \<rparr>"

subsection \<open>Hits\<close>

text \<open>
  The documented commands while no key expires: GET answers the live value and changes nothing,
  SETEX with a positive time stores the value, TTL changes nothing.
\<close>

definition kv_store :: "'s kv \<Rightarrow> ('s \<Rightarrow> rstring \<Rightarrow> rstring option) \<Rightarrow> bool" where
  "kv_store r val \<longleftrightarrow>
     (\<forall>k s. \<exists>s'. kv_get r k s = (s', Inr (val s k)) \<and> val s' = val s)
     \<and> (\<forall>k s. val (fst (kv_ttl r k s)) = val s)
     \<and> (\<forall>k v t s. 0 < t \<longrightarrow> (\<exists>s'. kv_set_ex r k v t s = (s', Inr ()) \<and> val s' = (val s)(k \<mapsto> v)))"

lemma cache_set_value:
  assumes "kv_store (rk_redis k) val" "cx_response_json c resp = Inr json"
    and "0 < (case ttl of Some t \<Rightarrow> t | None \<Rightarrow> rk_default_ttl k)"
  shows "\<exists>s'. cache_set c k r resp ttl s = (s', Inr (generate_cache_key c k r))
    \<and> val s' = (val s)(generate_cache_key c k r \<mapsto> json)"
proof -
  from assms(1,3) obtain s' where
    "kv_set_ex (rk_redis k) (generate_cache_key c k r) json (case ttl of Some t \<Rightarrow> t | None \<Rightarrow> rk_default_ttl k) s
       = (s', Inr ())" "val s' = (val s)(generate_cache_key c k r \<mapsto> json)"
    unfolding kv_store_def by blast
  with assms(2) show ?thesis
    by (simp add: cache_set_def Let_def set_by_key_def cmd_bind_def cmd_return_def cmd_map_err_def cmd_of_def)
qed

lemma get_by_key_value:
  assumes "kv_store (rk_redis k) val" "val s key = Some json" "cx_parse_response c json = Inr resp"
  shows "\<exists>s' hit. get_by_key c k key s = (s', Inr (Some hit)) \<and> val s' = val s
    \<and> ch_response hit = resp \<and> ch_cache_key hit = key"
proof -
  from assms(1,2) obtain s1 where s1: "kv_get (rk_redis k) key s = (s1, Inr (Some json))" "val s1 = val s"
    unfolding kv_store_def by metis
  obtain s2 t where s2: "kv_ttl (rk_redis k) key s1 = (s2, t)" by fastforce
  have "val s2 = val s1" using assms(1) s2 unfolding kv_store_def by (metis fst_conv)
  with s1 s2 assms(3) show ?thesis
    by (cases t) (simp_all add: get_by_key_def cmd_bind_def cmd_return_def cmd_map_err_def cmd_unwrap_or_def cmd_of_def)
qed

lemma get_by_key_miss:
  assumes "kv_store (rk_redis k) val" "val s key = None"
  shows "\<exists>s'. get_by_key c k key s = (s', Inr None) \<and> val s' = val s"
proof -
  from assms obtain s1 where "kv_get (rk_redis k) key s = (s1, Inr None)" "val s1 = val s"
    unfolding kv_store_def by metis
  then show ?thesis by (simp add: get_by_key_def cmd_bind_def cmd_return_def cmd_map_err_def)
qed

text \<open>Requests that agree on the hashed fields share an entry.\<close>

definition same_key_fields :: "Request \<Rightarrow> Request \<Rightarrow> bool" where
  "same_key_fields a b \<longleftrightarrow> req_model a = req_model b \<and> req_input a = req_input b
     \<and> req_instructions a = req_instructions b \<and> req_temperature a = req_temperature b
     \<and> req_max_output_tokens a = req_max_output_tokens b \<and> req_tools a = req_tools b
     \<and> req_tool_choice a = req_tool_choice b"

lemma generate_cache_key_cong: "same_key_fields a b \<Longrightarrow> generate_cache_key c k a = generate_cache_key c k b"
  by (simp add: generate_cache_key_def key_material_def same_key_fields_def)

lemma cache_set_get:
  assumes "kv_store (rk_redis k) val" "cx_response_json c resp = Inr json" "cx_parse_response c json = Inr resp"
    and "0 < (case ttl of Some t \<Rightarrow> t | None \<Rightarrow> rk_default_ttl k)" "same_key_fields r r'"
  shows "\<exists>s1 s2 hit. cache_set c k r resp ttl s = (s1, Inr (generate_cache_key c k r))
    \<and> cache_get c k r' s1 = (s2, Inr (Some hit)) \<and> ch_response hit = resp"
proof -
  from cache_set_value [OF assms(1,2,4)] obtain s1 where s1:
    "cache_set c k r resp ttl s = (s1, Inr (generate_cache_key c k r))"
    "val s1 = (val s)(generate_cache_key c k r \<mapsto> json)" by blast
  then have "val s1 (generate_cache_key c k r') = Some json"
    using generate_cache_key_cong [OF assms(5), of c k] by simp
  from get_by_key_value [OF assms(1) this assms(3)] s1(1) show ?thesis by (auto simp: cache_get_def)
qed

end
