(* ===== verification/Rate_Limit.thy ===== *)
theory Rate_Limit
  imports Rust_Parse Commands
begin

text \<open>
  The rate limiter (\<open>aura-core/src/rate_limit.rs\<close>) and its middleware
  (\<open>aura-proxy/src/routes/rate_limit.rs\<close>).

  Redis is a service: its commands are a parameter, a record of operations over an abstract state,
  each of which may fail. The two Lua scripts are part of the repository and are translated; a
  script runs as one step, so its commands follow each other in one state. Dates and clocks are
  arguments.
\<close>

subsection \<open>The service\<close>

text \<open>A reply that has to fit an integer type of the client.\<close>

definition in_range :: "int \<Rightarrow> int \<Rightarrow> int option \<Rightarrow> bool" where
  "in_range lo hi v \<longleftrightarrow> (case v of Some n \<Rightarrow> lo \<le> n \<and> n < hi | None \<Rightarrow> True)"

text \<open>
  \<open>rc_invoke\<close> is the delivery of a script, \<open>rc_num\<close> the reply conversion of the client crate to
  \<open>i32\<close>; \<open>rc_get\<close> answers nothing for an absent key.
\<close>

record 's redis =
  rc_invoke :: "('s, unit) command"
  rc_get :: "rstring \<Rightarrow> ('s, int option) command"
  rc_incr :: "rstring \<Rightarrow> int \<Rightarrow> ('s, int) command"
  rc_expire :: "rstring \<Rightarrow> int \<Rightarrow> ('s, unit) command"
  rc_ttl :: "rstring \<Rightarrow> ('s, int) command"
  rc_del :: "rstring \<Rightarrow> ('s, unit) command"
  rc_num :: "int \<Rightarrow> rstring + 32 word"

subsection \<open>Results\<close>

record RateLimitResult =
  rl_allowed :: bool
  rl_limit :: u32
  rl_remaining :: u32
  rl_reset_after_secs :: u64
  rl_reset_at :: u64

definition show_u32 :: "u32 \<Rightarrow> rstring" where
  "show_u32 n = dec_digits (unat n)"

definition RateLimitResult_headers :: "RateLimitResult \<Rightarrow> (rstring \<times> rstring) list" where
  "RateLimitResult_headers r =
     [(''X-RateLimit-Limit'', show_u32 (rl_limit r)),
      (''X-RateLimit-Remaining'', show_u32 (rl_remaining r)),
      (''X-RateLimit-Reset'', show_u64 (rl_reset_at r))]"

record DailyMessageResult =
  dm_allowed :: bool
  dm_limit :: u32
  dm_used :: u32
  dm_reset_after_secs :: u64

definition DailyMessageResult_headers :: "DailyMessageResult \<Rightarrow> (rstring \<times> rstring) list" where
  "DailyMessageResult_headers d =
     [(''X-Daily-Limit'', show_u32 (dm_limit d)),
      (''X-Daily-Remaining'', show_u32 (saturating_sub (dm_limit d) (dm_used d))),
      (''X-Daily-Reset'', show_u64 (dm_reset_after_secs d))]"

record 's RateLimiter =
  rt_redis :: "'s redis"
  rt_key_prefix :: rstring

definition RateLimiter_new :: "'s redis \<Rightarrow> 's RateLimiter" where
  "RateLimiter_new r = \<lparr> rt_redis = r, rt_key_prefix = ''aura:ratelimit'' \<rparr>"

definition RateLimiter_with_prefix :: "'s redis \<Rightarrow> rstring \<Rightarrow> 's RateLimiter" where
  "RateLimiter_with_prefix r p = \<lparr> rt_redis = r, rt_key_prefix = p \<rparr>"

subsection \<open>The counting scripts\<close>

definition ttl_or :: "'s redis \<Rightarrow> rstring \<Rightarrow> int \<Rightarrow> ('s, int) command" where
  "ttl_or r key window =
     cmd_bind (rc_ttl r key) (\<lambda>ttl. cmd_return (if ttl < 0 then window else ttl))"

definition check_script :: "'s redis \<Rightarrow> rstring \<Rightarrow> int \<Rightarrow> int \<Rightarrow> ('s, int \<times> int \<times> int) command" where
  "check_script r key limit window =
     cmd_bind (rc_get r key) (\<lambda>v.
       (let current = (case v of Some n \<Rightarrow> n | None \<Rightarrow> 0)
        in if limit \<le> current
           then cmd_bind (ttl_or r key window) (\<lambda>ttl. cmd_return (0, current, ttl))
           else cmd_bind (rc_incr r key 1) (\<lambda>new_count.
                cmd_bind (if new_count = 1 then rc_expire r key window else cmd_return ()) (\<lambda>_.
                cmd_bind (ttl_or r key window) (\<lambda>ttl. cmd_return (1, new_count, ttl))))))"

subsection \<open>Requests per minute\<close>

definition rate_key :: "'s RateLimiter \<Rightarrow> rstring \<Rightarrow> rstring" where
  "rate_key l key = rt_key_prefix l @ '':'' @ key"

definition RateLimiter_check :: "'s RateLimiter \<Rightarrow> u64 \<Rightarrow> rstring \<Rightarrow> u32 \<Rightarrow> ('s, RateLimitResult) command" where
  "RateLimiter_check l now key limit_rpm =
     cmd_bind (rc_invoke (rt_redis l)) (\<lambda>_.
     cmd_bind (check_script (rt_redis l) (rate_key l key) (uint limit_rpm) 60) (\<lambda>(allowed, count, ttl) s.
       (case (rc_num (rt_redis l) allowed, rc_num (rt_redis l) count) of
          (Inr allowed, Inr count) \<Rightarrow>
            cmd_return
              \<lparr> rl_allowed = (allowed = 1), rl_limit = limit_rpm,
                rl_remaining = saturating_sub limit_rpm count,
                rl_reset_after_secs = word_of_int ttl, rl_reset_at = now + word_of_int ttl \<rparr> s
        | (Inl e, _) \<Rightarrow> (s, Inl e)
        | (_, Inl e) \<Rightarrow> (s, Inl e))))"

definition RateLimiter_peek :: "'s RateLimiter \<Rightarrow> u64 \<Rightarrow> rstring \<Rightarrow> u32 \<Rightarrow> ('s, RateLimitResult) command" where
  "RateLimiter_peek l now key limit_rpm =
     cmd_bind (rc_get (rt_redis l) (rate_key l key)) (\<lambda>v.
     if \<not> in_range 0 (2 ^ 32) v then (\<lambda>s. (s, Inl ''not a 32-bit number'')) else
     cmd_bind (cmd_unwrap_or 60 (rc_ttl (rt_redis l) (rate_key l key))) (\<lambda>ttl.
       (let count = word_of_int (case v of Some n \<Rightarrow> n | None \<Rightarrow> 0);
            ttl = (if ttl < 0 then 60 else ttl)
        in cmd_return
             \<lparr> rl_allowed = (count < limit_rpm), rl_limit = limit_rpm,
               rl_remaining = saturating_sub limit_rpm count,
               rl_reset_after_secs = word_of_int ttl, rl_reset_at = now + word_of_int ttl \<rparr>)))"

definition RateLimiter_reset :: "'s RateLimiter \<Rightarrow> rstring \<Rightarrow> ('s, unit) command" where
  "RateLimiter_reset l key = rc_del (rt_redis l) (rate_key l key)"

subsection \<open>Tokens per month\<close>

text \<open>\<open>month\<close> is the formatted month; the sums are those of 64-bit integers.\<close>

definition month_key :: "'s RateLimiter \<Rightarrow> rstring \<Rightarrow> rstring \<Rightarrow> rstring" where
  "month_key l month key = rt_key_prefix l @ '':tokens:'' @ key @ '':'' @ month"

definition check_token_budget ::
    "'s RateLimiter \<Rightarrow> rstring \<Rightarrow> rstring \<Rightarrow> 64 word \<Rightarrow> 64 word \<Rightarrow> ('s, bool) command" where
  "check_token_budget l month key limit tokens_to_add =
     (let r = rt_redis l; k = month_key l month key
      in cmd_bind (cmd_unwrap_or 0
             (cmd_bind (rc_get r k)
               (\<lambda>v s. case v of
                  Some n \<Rightarrow> (s, if in_range (- (2 ^ 63)) (2 ^ 63) v then Inr n else Inl ''not a 64-bit number'')
                | None \<Rightarrow> (s, Inl ''nil'')))) (\<lambda>current.
         if sint limit < sint (word_of_int current + tokens_to_add) then cmd_return False
         else cmd_bind (rc_incr r k (sint tokens_to_add)) (\<lambda>_.
              cmd_bind (cmd_unwrap_or (- 1) (rc_ttl r k)) (\<lambda>ttl.
              cmd_bind (if ttl < 0 then rc_expire r k (35 * 24 * 60 * 60) else cmd_return ()) (\<lambda>_.
                cmd_return True)))))"

subsection \<open>Messages per day\<close>

text \<open>\<open>day\<close> is the formatted day, \<open>to_midnight\<close> the whole seconds until the next one.\<close>

definition day_key :: "'s RateLimiter \<Rightarrow> rstring \<Rightarrow> rstring \<Rightarrow> rstring" where
  "day_key l day key = rt_key_prefix l @ '':daily_msgs:'' @ key @ '':'' @ day"

definition check_daily_messages ::
    "'s RateLimiter \<Rightarrow> rstring \<Rightarrow> int \<Rightarrow> rstring \<Rightarrow> u32 \<Rightarrow> ('s, DailyMessageResult) command" where
  "check_daily_messages l day to_midnight key limit =
     cmd_bind (rc_invoke (rt_redis l)) (\<lambda>_.
     cmd_bind (check_script (rt_redis l) (day_key l day key) (uint limit) (max to_midnight 60))
       (\<lambda>(allowed, used, ttl). cmd_return
          \<lparr> dm_allowed = (allowed = 1), dm_limit = limit, dm_used = word_of_int used,
            dm_reset_after_secs = word_of_int ttl \<rparr>))"

subsection \<open>What the limiter relies on\<close>

text \<open>
  The documented commands while no key expires, seen through the live values \<open>val\<close>: GET answers the
  value and changes nothing, INCRBY adds to it from zero and changes no other key, TTL and EXPIRE
  keep the values; a number of 32 bits is converted exactly.
\<close>

definition count_of :: "('s \<Rightarrow> rstring \<Rightarrow> int option) \<Rightarrow> 's \<Rightarrow> rstring \<Rightarrow> int" where
  "count_of val s k = (case val s k of Some n \<Rightarrow> n | None \<Rightarrow> 0)"

definition keeps_values :: "('s \<Rightarrow> rstring \<Rightarrow> int option) \<Rightarrow> ('s, 'a) command \<Rightarrow> bool" where
  "keeps_values val m \<longleftrightarrow> (\<forall>s. \<exists>s' x. m s = (s', Inr x) \<and> val s' = val s)"

definition counter_store :: "'s redis \<Rightarrow> ('s \<Rightarrow> rstring \<Rightarrow> int option) \<Rightarrow> bool" where
  "counter_store r val \<longleftrightarrow>
     keeps_values val (rc_invoke r)
     \<and> (\<forall>k s. \<exists>s'. rc_get r k s = (s', Inr (val s k)) \<and> val s' = val s)
     \<and> (\<forall>k d s. \<exists>s'. rc_incr r k d s = (s', Inr (count_of val s k + d))
          \<and> val s' = (val s)(k \<mapsto> count_of val s k + d))
     \<and> (\<forall>k t. 0 < t \<longrightarrow> keeps_values val (rc_expire r k t))
     \<and> (\<forall>k. keeps_values val (rc_ttl r k))
     \<and> (\<forall>i. - (2 ^ 31) \<le> i \<and> i < 2 ^ 31 \<longrightarrow> rc_num r i = Inr (word_of_int i))"

lemma counter_storeD:
  assumes "counter_store r val"
  shows "\<exists>s'. rc_invoke r s = (s', Inr ()) \<and> val s' = val s"
    "\<exists>s'. rc_get r k s = (s', Inr (val s k)) \<and> val s' = val s"
    "\<exists>s'. rc_incr r k d s = (s', Inr (count_of val s k + d)) \<and> val s' = (val s)(k \<mapsto> count_of val s k + d)"
    "0 < t \<Longrightarrow> \<exists>s'. rc_expire r k t s = (s', Inr ()) \<and> val s' = val s"
    "\<exists>s' x. rc_ttl r k s = (s', Inr x) \<and> val s' = val s"
    "- (2 ^ 31) \<le> i \<Longrightarrow> i < 2 ^ 31 \<Longrightarrow> rc_num r i = Inr (word_of_int i)"
  using assms unfolding counter_store_def keeps_values_def by simp_all

lemma ttl_or_keeps:
  assumes "counter_store r val"
  shows "\<exists>s' x. ttl_or r k w s = (s', Inr x) \<and> val s' = val s"
  using counter_storeD(5) [OF assms, of k s] by (auto simp: ttl_or_def cmd_bind_def cmd_return_def)

text \<open>The script counts up to the limit and no further.\<close>

lemma check_script_counts:
  assumes "counter_store r val" "0 < window"
  shows "\<exists>s' ttl. check_script r k limit window s =
      (s', Inr (if limit \<le> count_of val s k then (0, count_of val s k, ttl) else (1, count_of val s k + 1, ttl)))
    \<and> val s' = (if limit \<le> count_of val s k then val s else (val s)(k \<mapsto> count_of val s k + 1))"
proof -
  note C = counter_storeD [OF assms(1)]
  from C(2) obtain s1 where s1: "rc_get r k s = (s1, Inr (val s k))" "val s1 = val s" by blast
  then have c1: "count_of val s1 k = count_of val s k" by (simp add: count_of_def)
  show ?thesis
  proof (cases "limit \<le> count_of val s k")
    case True
    from ttl_or_keeps [OF assms(1)] obtain s2 x where "ttl_or r k window s1 = (s2, Inr x)" "val s2 = val s1" by blast
    with True s1 show ?thesis
      by (simp add: check_script_def cmd_bind_def cmd_return_def Let_def count_of_def)
  next
    case False
    from C(3) [of k 1 s1] obtain s2 where s2: "rc_incr r k 1 s1 = (s2, Inr (count_of val s k + 1))"
      "val s2 = (val s)(k \<mapsto> count_of val s k + 1)"
      unfolding c1 s1(2) by blast
    let ?e = "if count_of val s k + 1 = 1 then rc_expire r k window else cmd_return ()"
    have "\<exists>s3. ?e s2 = (s3, Inr ()) \<and> val s3 = val s2"
      using C(4) [OF assms(2), of k s2] by (simp add: cmd_return_def)
    then obtain s3 where s3: "?e s2 = (s3, Inr ())" "val s3 = val s2" by blast
    from ttl_or_keeps [OF assms(1)] obtain s4 x where s4: "ttl_or r k window s3 = (s4, Inr x)" "val s4 = val s3" by blast
    have lt: "\<not> limit \<le> (case val s k of Some n \<Rightarrow> n | None \<Rightarrow> 0)" using False by (simp add: count_of_def)
    show ?thesis
      using False s1 s2 s3 s4 lt unfolding check_script_def Let_def
      by (simp only: cmd_bind_def cmd_return_def prod.case sum.case if_False) simp
  qed
qed

subsection \<open>A request\<close>

lemma word_of_int_remaining:
  assumes "0 \<le> n" "n < 2 ^ 31"
  shows "unat (saturating_sub limit (word_of_int n :: u32)) = unat limit - nat n"
proof -
  have "uint (word_of_int n :: u32) = n" using assms by (simp add: unsigned_of_int take_bit_int_eq_self)
  then have "unat (word_of_int n :: u32) = nat n" by (simp flip: nat_uint_eq)
  then show ?thesis by (simp add: unat_saturating_sub)
qed

lemma count_less: "0 \<le> n \<Longrightarrow> n < uint (w :: u32) \<longleftrightarrow> nat n < unat w"
  by (metis nat_less_eq_zless nat_uint_eq)

lemma RateLimiter_check_counts:
  assumes "counter_store (rt_redis l) val" "limit < 2 ^ 31"
    and "0 \<le> count_of val s (rate_key l key)" "count_of val s (rate_key l key) < 2 ^ 31"
  shows "\<exists>s' res. RateLimiter_check l now key limit s = (s', Inr res)
    \<and> (rl_allowed res \<longleftrightarrow> count_of val s (rate_key l key) < uint limit)
    \<and> rl_limit res = limit
    \<and> unat (rl_remaining res) = unat limit - Suc (nat (count_of val s (rate_key l key)))
    \<and> val s' = (if count_of val s (rate_key l key) < uint limit
         then (val s)(rate_key l key \<mapsto> count_of val s (rate_key l key) + 1) else val s)"
proof -
  let ?k = "rate_key l key"
  let ?c = "count_of val s ?k"
  note C = counter_storeD [OF assms(1)]
  from C(1) obtain s1 where s1: "rc_invoke (rt_redis l) s = (s1, Inr ())" "val s1 = val s" by blast
  have c1: "count_of val s1 ?k = ?c" using s1(2) by (simp add: count_of_def)
  have lim: "uint limit < 2 ^ 31" using assms(2) by (simp add: word_less_def)
  from check_script_counts [OF assms(1), of 60 ?k "uint limit" s1, unfolded c1 s1(2)]
  obtain s2 ttl where s2: "check_script (rt_redis l) ?k (uint limit) 60 s1 =
      (s2, Inr (if uint limit \<le> ?c then (0, ?c, ttl) else (1, ?c + 1, ttl)))"
    "val s2 = (if uint limit \<le> ?c then val s else (val s)(?k \<mapsto> ?c + 1))"
    by auto
  show ?thesis
  proof (cases "uint limit \<le> ?c")
    case True
    with s2 have s2': "check_script (rt_redis l) ?k (uint limit) 60 s1 = (s2, Inr (0, ?c, ttl))" "val s2 = val s"
      by simp_all
    have "unat (saturating_sub limit (word_of_int ?c)) = unat limit - Suc (nat ?c)"
      using word_of_int_remaining [OF assms(3,4), of limit] True count_less [OF assms(3), of limit] by simp
    moreover have "rc_num (rt_redis l) 0 = Inr 0" "rc_num (rt_redis l) ?c = Inr (word_of_int ?c)"
      using C(6) [of 0] C(6) [of ?c] assms(3,4) by simp_all
    ultimately show ?thesis
      using True s1(1) s2' by (simp add: RateLimiter_check_def cmd_bind_def cmd_return_def)
  next
    case False
    with s2 have s2': "check_script (rt_redis l) ?k (uint limit) 60 s1 = (s2, Inr (1, ?c + 1, ttl))"
      "val s2 = (val s)(?k \<mapsto> ?c + 1)"
      by simp_all
    have "unat (saturating_sub limit (word_of_int (?c + 1))) = unat limit - Suc (nat ?c)"
      using word_of_int_remaining [of "?c + 1" limit] False lim assms(3) by (simp add: nat_add_distrib)
    moreover have "rc_num (rt_redis l) 1 = Inr 1"
      "rc_num (rt_redis l) (?c + 1) = Inr (word_of_int (?c + 1))"
      using C(6) [of 1] C(6) [of "?c + 1"] assms(3) lim False by simp_all
    ultimately show ?thesis
      using False s1(1) s2' by (simp add: RateLimiter_check_def cmd_bind_def cmd_return_def del: of_int_add)
  qed
qed

subsection \<open>Many requests\<close>

text \<open>The calls of all clients in the order Redis runs them; a failed call stops the run.\<close>

fun check_run ::
    "'s RateLimiter \<Rightarrow> (rstring \<Rightarrow> u32) \<Rightarrow> (u64 \<times> rstring) list \<Rightarrow> 's \<Rightarrow>
     's \<times> (rstring + (rstring \<times> RateLimitResult) list)" where
  "check_run l limit [] s = (s, Inr [])"
| "check_run l limit ((now, key) # calls) s =
     cmd_bind (RateLimiter_check l now key (limit key)) (\<lambda>res.
     cmd_bind (check_run l limit calls) (\<lambda>rs. cmd_return ((key, res) # rs))) s"

definition calls_for :: "rstring \<Rightarrow> (u64 \<times> rstring) list \<Rightarrow> nat" where
  "calls_for key calls = length (filter (\<lambda>(_, k). k = key) calls)"

definition allowed_for :: "rstring \<Rightarrow> (rstring \<times> RateLimitResult) list \<Rightarrow> nat" where
  "allowed_for key rs = length (filter (\<lambda>(k, r). k = key \<and> rl_allowed r) rs)"

lemma rate_key_inj: "rate_key l a = rate_key l b \<longleftrightarrow> a = b"
  by (simp add: rate_key_def)

lemma check_run_counts:
  assumes "counter_store (rt_redis l) val" "\<And>k. limit k < 2 ^ 31"
    and "\<And>k. 0 \<le> count_of val s (rate_key l k) \<and> count_of val s (rate_key l k) < 2 ^ 31"
  shows "\<exists>s' rs. check_run l limit calls s = (s', Inr rs) \<and> length rs = length calls
    \<and> (\<forall>k. allowed_for k rs = min (calls_for k calls) (unat (limit k) - nat (count_of val s (rate_key l k))))"
  using assms(3)
proof (induction calls arbitrary: s)
  case (Cons call calls)
  obtain now key where call: "call = (now, key)" by (cases call)
  let ?c = "count_of val s (rate_key l key)"
  from Cons.prems [of key] obtain s1 res where step: "RateLimiter_check l now key (limit key) s = (s1, Inr res)"
    "rl_allowed res \<longleftrightarrow> ?c < uint (limit key)"
    and v1: "val s1 = (if ?c < uint (limit key) then (val s)(rate_key l key \<mapsto> ?c + 1) else val s)"
    using RateLimiter_check_counts [OF assms(1) assms(2) [of key], of s key now] by blast
  have c1: "count_of val s1 (rate_key l k) =
      (if k = key \<and> ?c < uint (limit key) then ?c + 1 else count_of val s (rate_key l k))" for k
    by (simp add: count_of_def v1 rate_key_inj)
  have lim: "uint (limit key) < 2 ^ 31" using assms(2) [of key] by (simp add: word_less_def)
  have "0 \<le> count_of val s1 (rate_key l k) \<and> count_of val s1 (rate_key l k) < 2 ^ 31" for k
    using Cons.prems [of k] lim unfolding c1 by auto
  from Cons.IH [OF this] obtain s2 rs where run: "check_run l limit calls s1 = (s2, Inr rs)" "length rs = length calls"
    and n: "\<And>k. allowed_for k rs = min (calls_for k calls) (unat (limit k) - nat (count_of val s1 (rate_key l k)))"
    by blast
  have "allowed_for k ((key, res) # rs) =
      min (calls_for k (call # calls)) (unat (limit k) - nat (count_of val s (rate_key l k)))" for k
  proof (cases "k = key")
    case True
    from Cons.prems [of key] count_less [of ?c "limit key"]
    have less: "?c < uint (limit key) \<longleftrightarrow> nat ?c < unat (limit key)" and c: "0 \<le> ?c" by auto
    show ?thesis
    proof (cases "nat ?c < unat (limit key)")
      case True
      then have "allowed_for key rs = min (calls_for key calls) (unat (limit key) - Suc (nat ?c))"
        using n [of key, unfolded c1] less c by (simp add: nat_add_distrib)
      moreover have "unat (limit key) - nat ?c = Suc (unat (limit key) - Suc (nat ?c))" using True by simp
      ultimately show ?thesis
        using True \<open>k = key\<close> step(2) less by (simp add: allowed_for_def calls_for_def call)
    next
      case False
      then show ?thesis
        using n [of key, unfolded c1] \<open>k = key\<close> step(2) less by (simp add: allowed_for_def calls_for_def call)
    qed
  next
    case False
    then show ?thesis using n [of k, unfolded c1] by (simp add: allowed_for_def calls_for_def call)
  qed
  with step(1) run show ?case by (simp add: call cmd_bind_def cmd_return_def)
qed (simp add: allowed_for_def calls_for_def)

subsection \<open>The budget of a month\<close>

lemma check_token_budget_true:
  assumes "counter_store (rt_redis l) val" "val s (month_key l month key) = Some n"
    and "0 \<le> n" "0 \<le> sint add" "n + sint add < 2 ^ 63"
  shows "\<exists>s'. check_token_budget l month key limit add s = (s', Inr (n + sint add \<le> sint limit))
    \<and> val s' = (if n + sint add \<le> sint limit then (val s)(month_key l month key \<mapsto> n + sint add) else val s)"
proof -
  let ?k = "month_key l month key" and ?r = "rt_redis l"
  note C = counter_storeD [OF assms(1)]
  have sum: "sint (word_of_int n + add) = n + sint add"
  proof -
    have "word_of_int n + add = (word_of_int (n + sint add) :: 64 word)" by simp
    also have "sint \<dots> = n + sint add" unfolding sint_sbintrunc' using assms by (intro signed_take_bit_int_eq_self) simp_all
    finally show ?thesis .
  qed
  from C(2) obtain s1 where s1: "rc_get ?r ?k s = (s1, Inr (Some n))" "val s1 = val s" by (metis assms(2))
  have range: "in_range (- (2 ^ 63)) (2 ^ 63) (Some n)" using assms by (simp add: in_range_def)
  show ?thesis
  proof (cases "n + sint add \<le> sint limit")
    case False
    then show ?thesis
      using s1 range assms(2) by (simp add: check_token_budget_def Let_def cmd_bind_def cmd_return_def cmd_unwrap_or_def sum)
  next
    case True
    from C(3) [of ?k "sint add" s1] obtain s2 where s2: "rc_incr ?r ?k (sint add) s1 = (s2, Inr (n + sint add))"
      "val s2 = (val s)(?k \<mapsto> n + sint add)"
      using s1(2) assms(2) by (auto simp: count_of_def)
    from C(5) obtain s3 x where s3: "rc_ttl ?r ?k s2 = (s3, Inr x)" "val s3 = val s2" by blast
    obtain s4 where s4: "rc_expire ?r ?k (35 * 24 * 60 * 60) s3 = (s4, Inr ())" "val s4 = val s3"
      using C(4) [of "35 * 24 * 60 * 60" ?k s3] by auto
    show ?thesis
      using True s1 range s2 s3 s4 assms(2)
      by (auto simp: check_token_budget_def Let_def cmd_bind_def cmd_return_def cmd_unwrap_or_def sum)
  qed
qed

end
