(* ===== verification/Rate_Middleware.thy ===== *)
theory Rate_Middleware
  imports Rate_Limit Items "HOL-Library.AList"
begin

text \<open>
  The rate limiting middleware (\<open>aura-proxy/src/routes/rate_limit.rs\<close>). The rest of the service is
  a parameter, the handler \<open>next\<close>; metrics and logs are left out. Header names are kept in lower
  case, as the header map does.
\<close>

record limit_auth =
  la_key_id :: rstring
  la_rate_limit_rpm :: "32 word option"
  la_daily_message_limit :: "32 word option"

record http_request =
  rq_method :: rstring
  rq_path :: rstring
  rq_auth :: "limit_auth option"

record http_response =
  rp_status :: u16
  rp_headers :: "(rstring \<times> rstring) list"
  rp_body :: json

record 's limit_state =
  li_rate_limiter :: "'s RateLimiter option"
  li_enabled :: bool
  li_default_rpm :: u32

record limit_clock =
  lc_now :: u64
  lc_day :: rstring
  lc_to_midnight :: int

type_synonym 's handler = "'s \<Rightarrow> 's \<times> http_response"

definition insert_headers :: "(rstring \<times> rstring) list \<Rightarrow> (rstring \<times> rstring) list \<Rightarrow> (rstring \<times> rstring) list" where
  "insert_headers hs base = fold (\<lambda>(n, v). AList.update (to_ascii_lowercase n) v) hs base"

definition RateLimitError_new :: "u64 \<Rightarrow> json" where
  "RateLimitError_new secs =
     JObj [(''error'', JObj
       [(''code'', JStr ''rate_limit_exceeded''),
        (''message'', JStr (''Rate limit exceeded. Please retry after '' @ show_u64 secs @ '' seconds.'')),
        (''retry_after_seconds'', JNum (PosInt secs))])]"

definition daily_limit_error :: "DailyMessageResult \<Rightarrow> json" where
  "daily_limit_error d =
     JObj [(''error'', JObj
       [(''code'', JStr ''daily_message_limit_exceeded''),
        (''message'', JStr (''You'' @ apos @ ''ve used your '' @ show_u32 (dm_limit d)
          @ '' free messages for today. The limit resets in about ''
          @ dec_digits (max ((unat (dm_reset_after_secs d) + 3599) div 3600) 1) @ ''h.'')),
        (''retry_after_seconds'', JNum (PosInt (dm_reset_after_secs d)))])]"

definition too_many_requests :: "(rstring \<times> rstring) list \<Rightarrow> u64 \<Rightarrow> json \<Rightarrow> http_response" where
  "too_many_requests hs retry_after body =
     \<lparr> rp_status = 429, rp_headers = insert_headers (hs @ [(''Retry-After'', show_u64 retry_after)]) [],
       rp_body = body \<rparr>"

text \<open>The limit of a key: its own when it is positive, else the gateway's.\<close>

definition effective_rpm :: "'s limit_state \<Rightarrow> limit_auth \<Rightarrow> u32" where
  "effective_rpm st auth =
     (case la_rate_limit_rpm auth of
        Some v \<Rightarrow> if 0 < sint v then v else li_default_rpm st
      | None \<Rightarrow> li_default_rpm st)"

definition is_response_creation :: "http_request \<Rightarrow> bool" where
  "is_response_creation rq \<longleftrightarrow> rq_method rq = ''POST'' \<and> rq_path rq = ''/v1/responses''"

text \<open>The daily check; an error of Redis counts as no check.\<close>

definition daily_check ::
    "'s RateLimiter \<Rightarrow> limit_clock \<Rightarrow> http_request \<Rightarrow> limit_auth \<Rightarrow> 's \<Rightarrow> 's \<times> DailyMessageResult option" where
  "daily_check rl clock rq auth s =
     (if is_response_creation rq
      then (case la_daily_message_limit auth of
              Some limit \<Rightarrow>
                (case check_daily_messages rl (lc_day clock) (lc_to_midnight clock) (la_key_id auth) limit s of
                   (s', Inr r) \<Rightarrow> (s', Some r)
                 | (s', Inl _) \<Rightarrow> (s', None))
            | None \<Rightarrow> (s, None))
      else (s, None))"

definition rate_limit_middleware ::
    "'s limit_state \<Rightarrow> limit_clock \<Rightarrow> http_request \<Rightarrow> 's handler \<Rightarrow> 's handler" where
  "rate_limit_middleware st clock rq next s =
     (case (li_rate_limiter st, rq_auth rq) of
        (Some rl, Some auth) \<Rightarrow>
          if \<not> li_enabled st then next s
          else
            (case RateLimiter_check rl (lc_now clock) (la_key_id auth) (effective_rpm st auth) s of
               (s1, Inl _) \<Rightarrow> next s1
             | (s1, Inr result) \<Rightarrow>
                 if \<not> rl_allowed result
                 then (s1, too_many_requests (RateLimitResult_headers result) (rl_reset_after_secs result)
                         (RateLimitError_new (rl_reset_after_secs result)))
                 else
                   (case daily_check rl clock rq auth s1 of
                      (s2, daily) \<Rightarrow>
                        (case daily of
                           Some d \<Rightarrow>
                             if \<not> dm_allowed d
                             then (s2, too_many_requests (DailyMessageResult_headers d) (dm_reset_after_secs d)
                                     (daily_limit_error d))
                             else (case next s2 of
                                     (s3, response) \<Rightarrow>
                                       (s3, response\<lparr> rp_headers := insert_headers (DailyMessageResult_headers d)
                                          (insert_headers (RateLimitResult_headers result) (rp_headers response)) \<rparr>))
                         | None \<Rightarrow>
                             (case next s2 of
                                (s3, response) \<Rightarrow>
                                  (s3, response\<lparr> rp_headers :=
                                     insert_headers (RateLimitResult_headers result) (rp_headers response) \<rparr>)))))
      | _ \<Rightarrow> next s)"

subsection \<open>What the middleware guarantees\<close>

lemma insert_headers_lookup:
  assumes "distinct (map (to_ascii_lowercase \<circ> fst) hs)" "(n, v) \<in> set hs"
  shows "map_of (insert_headers hs base) (to_ascii_lowercase n) = Some v"
  using assms
proof (induction hs arbitrary: base)
  case (Cons h hs)
  have other: "map_of (insert_headers hs b) k = map_of b k" if "k \<notin> set (map (to_ascii_lowercase \<circ> fst) hs)" for b k
    using that by (induction hs arbitrary: b) (auto simp: insert_headers_def update_conv')
  show ?case
  proof (cases "h = (n, v)")
    case True
    with Cons.prems other [of "to_ascii_lowercase n" "AList.update (to_ascii_lowercase n) v base"] show ?thesis
      by (simp add: insert_headers_def update_conv')
  next
    case False
    with Cons show ?thesis by (auto simp: insert_headers_def)
  qed
qed simp

text \<open>Over the limit, the handler never runs: the answer is 429 and says when to come back.\<close>

lemma middleware_blocks:
  assumes "counter_store (rt_redis rl) val" "li_rate_limiter st = Some rl" "li_enabled st" "rq_auth rq = Some auth"
    and "effective_rpm st auth < 2 ^ 31"
    and "0 \<le> count_of val s (rate_key rl (la_key_id auth))" "count_of val s (rate_key rl (la_key_id auth)) < 2 ^ 31"
    and over: "uint (effective_rpm st auth) \<le> count_of val s (rate_key rl (la_key_id auth))"
  shows "\<exists>s' resp. (\<forall>next. rate_limit_middleware st clock rq next s = (s', resp)) \<and> val s' = val s
    \<and> rp_status resp = 429 \<and> map_of (rp_headers resp) ''retry-after'' \<noteq> None"
proof -
  from RateLimiter_check_counts [OF assms(1,5,6,7), of "lc_now clock"] over
  obtain s' res where c: "RateLimiter_check rl (lc_now clock) (la_key_id auth) (effective_rpm st auth) s = (s', Inr res)"
    "\<not> rl_allowed res" "val s' = val s"
    by auto
  let ?resp = "too_many_requests (RateLimitResult_headers res) (rl_reset_after_secs res)
      (RateLimitError_new (rl_reset_after_secs res))"
  have "rate_limit_middleware st clock rq next s = (s', ?resp)" for "next"
    using c assms(2-4) by (simp add: rate_limit_middleware_def)
  moreover have "map_of (rp_headers ?resp) (to_ascii_lowercase ''Retry-After'') = Some (show_u64 (rl_reset_after_secs res))"
    unfolding too_many_requests_def http_response.simps
    by (rule insert_headers_lookup)
      (simp_all add: RateLimitResult_headers_def to_ascii_lowercase_def ascii_lower_char_def is_ascii_upper_def byte_of_def)
  moreover have "to_ascii_lowercase ''Retry-After'' = ''retry-after''" by code_simp
  ultimately show ?thesis using c(3) by (intro exI [of _ s'] exI [of _ ?resp]) (simp add: too_many_requests_def)
qed

text \<open>Redis down, the handler runs as if there were no limiter.\<close>

lemma middleware_fails_open:
  assumes "\<And>now key limit s. \<exists>e. RateLimiter_check rl now key limit s = (s, Inl e)" "li_rate_limiter st = Some rl"
  shows "rate_limit_middleware st clock rq next s = next s"
proof (cases "rq_auth rq")
  case (Some auth)
  from assms(1) obtain e where
    "RateLimiter_check rl (lc_now clock) (la_key_id auth) (effective_rpm st auth) s = (s, Inl e)" by blast
  with Some assms(2) show ?thesis by (simp add: rate_limit_middleware_def)
qed (simp add: rate_limit_middleware_def assms(2))

end
