(* ===== verification/Provider_Cache.thy ===== *)
theory Provider_Cache
  imports Response_Types
begin

text \<open>
  Prompt-cache helpers of the provider adapters (\<open>aura-core/src/provider/cache.rs\<close>): usage in the
  gateway's convention and the key that routes requests with a common prefix to the same cache.
  SHA-256, the hexadecimal form and the JSON writers are parameters.
\<close>

record PromptTokensDetails =
  ptd_cached_tokens :: "u32 option"

definition opt_or_zero :: "u32 option \<Rightarrow> u32" where
  "opt_or_zero v = (case v of Some n \<Rightarrow> n | None \<Rightarrow> 0)"

definition openai_compatible_usage :: "u32 \<Rightarrow> u32 \<Rightarrow> PromptTokensDetails option \<Rightarrow> Usage" where
  "openai_compatible_usage prompt_tokens completion_tokens details =
     Usage_with_cache_hits (Usage_new prompt_tokens completion_tokens)
       (opt_or_zero (Option.bind details ptd_cached_tokens))"

record key_codec =
  kc_sha256 :: "rstring \<Rightarrow> rstring"
  kc_hex :: "rstring \<Rightarrow> rstring"
  kc_parts_json :: "ContentPart list \<Rightarrow> rstring option"
  kc_tools_json :: "Tool list option \<Rightarrow> rstring option"

definition u64_le_bytes :: "u64 \<Rightarrow> rstring" where
  "u64_le_bytes n = map (\<lambda>i. char_of (unat n div 256 ^ i mod 256)) [0..<8]"

definition key_field :: "rstring \<Rightarrow> rstring" where
  "key_field bytes = u64_le_bytes (of_nat (length bytes)) @ bytes"

definition bytes_or_empty :: "rstring option \<Rightarrow> rstring" where
  "bytes_or_empty v = (case v of Some s \<Rightarrow> s | None \<Rightarrow> [])"

fun system_field :: "key_codec \<Rightarrow> InputItem \<Rightarrow> rstring option" where
  "system_field k (InMessage System (IText t)) = Some t"
| "system_field k (InMessage System (IParts ps)) = Some (bytes_or_empty (kc_parts_json k ps))"
| "system_field k _ = None"

definition key_fields :: "key_codec \<Rightarrow> Request \<Rightarrow> rstring list" where
  "key_fields k r =
     [req_model r, bytes_or_empty (req_instructions r)]
     @ List.map_filter (system_field k) (req_input r)
     @ [bytes_or_empty (kc_tools_json k (req_tools r)), bytes_or_empty (req_user r)]"

definition key_bytes :: "key_codec \<Rightarrow> Request \<Rightarrow> rstring" where
  "key_bytes k r = concat (map key_field (key_fields k r))"

definition prompt_cache_key :: "key_codec \<Rightarrow> Request \<Rightarrow> rstring" where
  "prompt_cache_key k r = ''aura-'' @ kc_hex k (take 12 (kc_sha256 k (key_bytes k r)))"

subsection \<open>The bytes determine the fields\<close>

lemma length_u64_le_bytes [simp]: "length (u64_le_bytes n) = 8"
  by (simp add: u64_le_bytes_def)

lemma digits_inj:
  fixes a b :: nat
  assumes "\<forall>i < k. a div 256 ^ i mod 256 = b div 256 ^ i mod 256" "a < 256 ^ k" "b < 256 ^ k"
  shows "a = b"
  using assms
proof (induction k arbitrary: a b)
  case (Suc k)
  have "a div 256 div 256 ^ i mod 256 = b div 256 div 256 ^ i mod 256" if "i < k" for i
    using Suc.prems(1) [rule_format, of "Suc i"] that by (simp add: div_mult2_eq)
  moreover have "a div 256 < 256 ^ k" "b div 256 < 256 ^ k"
    using Suc.prems(2,3) by (simp_all add: less_mult_imp_div_less mult.commute)
  ultimately have "a div 256 = b div 256" by (intro Suc.IH) auto
  moreover have "a mod 256 = b mod 256" using Suc.prems(1) [rule_format, of 0] by simp
  ultimately show ?case by (metis div_mult_mod_eq)
qed simp

lemma u64_le_bytes_inj: "u64_le_bytes m = u64_le_bytes n \<Longrightarrow> m = n"
proof -
  assume e: "u64_le_bytes m = u64_le_bytes n"
  have "unat m div 256 ^ i mod 256 = unat n div 256 ^ i mod 256" if "i < 8" for i
  proof -
    from e that have "char_of (unat m div 256 ^ i mod 256) = (char_of (unat n div 256 ^ i mod 256) :: char)"
      unfolding u64_le_bytes_def by (metis (no_types, lifting) add_0 diff_zero length_upt nth_map nth_upt)
    then have "of_char (char_of (unat m div 256 ^ i mod 256) :: char)
        = (of_char (char_of (unat n div 256 ^ i mod 256) :: char) :: nat)" by simp
    then show ?thesis by simp
  qed
  moreover have "unat m < 256 ^ 8" "unat n < 256 ^ 8" using unsigned_less [of m] unsigned_less [of n] by simp_all
  ultimately have "unat m = unat n" by (intro digits_inj [of 8]) auto
  then show "m = n" by (simp add: word_unat_eq_iff)
qed

lemma key_field_inj:
  assumes "key_field a @ x = key_field b @ y" "length a < 2 ^ 64" "length b < 2 ^ 64"
  shows "a = b \<and> x = y"
proof -
  from assms(1) have *: "u64_le_bytes (of_nat (length a)) = u64_le_bytes (of_nat (length b))" "a @ x = b @ y"
    by (simp_all add: key_field_def)
  from u64_le_bytes_inj [OF *(1)] have "unat (of_nat (length a) :: u64) = unat (of_nat (length b) :: u64)" by simp
  with assms(2,3) have "length a = length b" by (simp add: unat_of_nat take_bit_nat_eq_self)
  with *(2) show ?thesis by simp
qed

lemma framed_inj:
  assumes "concat (map key_field xs) = concat (map key_field ys)"
    and "\<forall>x \<in> set xs. length x < 2 ^ 64" "\<forall>y \<in> set ys. length y < 2 ^ 64"
  shows "xs = ys"
  using assms
proof (induction xs arbitrary: ys)
  case Nil
  then show ?case by (cases ys) (auto simp: key_field_def u64_le_bytes_def)
next
  case (Cons x xs)
  show ?case
  proof (cases ys)
    case Nil
    with Cons.prems show ?thesis by (auto simp: key_field_def u64_le_bytes_def)
  next
    case (Cons y zs)
    with Cons.prems Cons.IH [of zs] show ?thesis by (auto dest!: key_field_inj)
  qed
qed

end
