(* ===== verification/Example_Services.thy ===== *)
theory Example_Services
  imports Fanout Cache Rate_Middleware Provider_Cache
begin

text \<open>
  Concrete instances for the services around a provider call: four calls of a fan-out of which one
  times out, a key-value server with a codec for the response cache, a store that keeps the laws of
  the rate limiter, and a codec with a request for the prompt cache of the providers.
\<close>

definition ex_answer :: "rstring \<Rightarrow> Response" where
  "ex_answer t = (Response_in_progress 0 ''r'' ''m'')\<lparr> resp_status := RS_Completed,
     resp_output := [Message (MessageItem_assistant ''i'' t)] \<rparr>"

definition ex_calls :: "nat \<Rightarrow> Request \<Rightarrow> ProviderError + Response" where
  "ex_calls i r = (if i = 0 then Inr (ex_answer ''42'') else if i = 1 then Inl (Timeout 1)
     else if i = 2 then Inr (ex_answer ''7'') else Inr (ex_answer ''42.''))"

definition ex_fanout :: fanout_env where
  "ex_fanout = \<lparr> fe_unicode = ascii_unicode, fe_order = rev, fe_four_decimals = (\<lambda>_. []) \<rparr>"

definition ex_kv :: "(rstring \<rightharpoonup> rstring) kv" where
  "ex_kv = \<lparr> kv_get = (\<lambda>k s. (s, Inr (s k))), kv_ttl = (\<lambda>k. cmd_return 60),
     kv_set_ex = (\<lambda>k v t s. (s(k \<mapsto> v), Inr ())), kv_del = (\<lambda>ks s. (s, Inr 0)),
     kv_scan = (\<lambda>c p n. cmd_return (0, [])) \<rparr>"

definition ex_codec :: codec where
  "ex_codec = \<lparr> cx_sha256 = id, cx_hex = id, cx_input_json = (\<lambda>_. None), cx_tools_json = (\<lambda>_. None),
     cx_tool_choice_json = (\<lambda>_. None), cx_two_decimals = (\<lambda>_. []), cx_response_json = (\<lambda>_. Inr ''r''),
     cx_parse_response = (\<lambda>_. Inr (Response_in_progress 0 ''r'' ''m'')) \<rparr>"

lemma ex_completed: "completed ex_calls (Request_new ''m'' []) 4 = map ex_answer [''42'', ''7'', ''42.'']"
  by (simp add: completed_def ex_calls_def ex_answer_def List.map_filter_def upt_rec)

lemma ex_texts: "texts_of ex_fanout (map ex_answer [''42'', ''7'', ''42.'']) = [''42'', ''7'', ''42'']"
  by code_simp

subsection \<open>Limits\<close>

text \<open>A store that keeps every law of \<open>counter_store\<close>: the values themselves, all commands succeed.\<close>

definition ex_redis :: "(rstring \<rightharpoonup> int) redis" where
  "ex_redis =
     \<lparr> rc_invoke = cmd_return (), rc_get = (\<lambda>k s. (s, Inr (s k))),
       rc_incr = (\<lambda>k d s. (s(k \<mapsto> count_of (\<lambda>s. s) s k + d), Inr (count_of (\<lambda>s. s) s k + d))),
       rc_expire = (\<lambda>k t. cmd_return ()), rc_ttl = (\<lambda>k. cmd_return 60),
       rc_del = (\<lambda>k s. (s(k := None), Inr ())), rc_num = (\<lambda>i. Inr (word_of_int i)) \<rparr>"

lemma ex_counter_store: "counter_store ex_redis (\<lambda>s. s)"
  by (auto simp: counter_store_def keeps_values_def ex_redis_def cmd_return_def)

definition ex_limiter :: "(rstring \<rightharpoonup> int) RateLimiter" where
  "ex_limiter = RateLimiter_new ex_redis"

lemma ex_limiter_store: "counter_store (rt_redis ex_limiter) (\<lambda>s. s)"
  by (simp add: ex_limiter_def RateLimiter_new_def ex_counter_store)

definition ex_limit_state :: "(rstring \<rightharpoonup> int) limit_state" where
  "ex_limit_state = \<lparr> li_rate_limiter = Some ex_limiter, li_enabled = True, li_default_rpm = 2 \<rparr>"

definition ex_limit_auth :: limit_auth where
  "ex_limit_auth = \<lparr> la_key_id = ''k'', la_rate_limit_rpm = None, la_daily_message_limit = None \<rparr>"

definition ex_limit_request :: http_request where
  "ex_limit_request = \<lparr> rq_method = ''POST'', rq_path = ''/v1/responses'', rq_auth = Some ex_limit_auth \<rparr>"

definition ex_limit_clock :: limit_clock where
  "ex_limit_clock = \<lparr> lc_now = 0, lc_day = ''2026-01-01'', lc_to_midnight = 3600 \<rparr>"

subsection \<open>Providers\<close>

text \<open>A concrete codec and a request with a system message, for the prompt cache key.\<close>

definition ex_key_codec :: key_codec where
  "ex_key_codec = \<lparr> kc_sha256 = id, kc_hex = id, kc_parts_json = (\<lambda>_. None), kc_tools_json = (\<lambda>_. None) \<rparr>"

definition ex_key_request :: Request where
  "ex_key_request = Request_new ''m'' [InMessage System (IText ''be brief''), InMessage User (IText ''hi'')]"

lemma ex_key_request_simps [simp]:
  "req_input ex_key_request = [InMessage System (IText ''be brief''), InMessage User (IText ''hi'')]"
  "req_model ex_key_request = ''m''"
  by (simp_all add: ex_key_request_def Request_new_def)

lemma ex_key_lengths:
  "\<forall>x \<in> set (key_fields ex_key_codec ex_key_request)
      \<union> set (key_fields ex_key_codec (ex_key_request\<lparr> req_stream := s \<rparr>)). length x < 2 ^ 64"
proof -
  have "req_instructions ex_key_request = None" "req_user ex_key_request = None" "req_tools ex_key_request = None"
    by (simp_all add: ex_key_request_def Request_new_def)
  then show ?thesis
    by (simp add: key_fields_def ex_key_codec_def bytes_or_empty_def List.map_filter_simps)
qed

end
