(* ===== verification/Json_Map.thy ===== *)
theory Json_Map
  imports Items "HOL-Library.List_Lexorder" "HOL-Library.Char_ord"
begin

text \<open>
  \<open>serde_json::Map\<close>: a sorted map from keys to values, here its list of entries in the order of the
  keys (bytes, lexicographically). Values are well formed when every object in them is such a list.
\<close>

type_synonym json_map = "(rstring \<times> json) list"

fun obj_insert :: "rstring \<Rightarrow> json \<Rightarrow> json_map \<Rightarrow> json_map" where
  "obj_insert k v [] = [(k, v)]"
| "obj_insert k v ((k', v') # m) =
     (if k < k' then (k, v) # (k', v') # m
      else if k = k' then (k, v) # m
      else (k', v') # obj_insert k v m)"

definition obj_of_list :: "(rstring \<times> json) list \<Rightarrow> json_map" where
  "obj_of_list kvs = fold (\<lambda>(k, v). obj_insert k v) kvs []"

definition obj_sorted :: "json_map \<Rightarrow> bool" where
  "obj_sorted m \<longleftrightarrow> sorted_wrt (<) (map fst m)"

fun json_ok :: "json \<Rightarrow> bool" where
  "json_ok (JArr vs) = list_all json_ok vs"
| "json_ok (JObj m) = (obj_sorted m \<and> list_all json_ok (map snd m))"
| "json_ok _ = True"

lemma keys_obj_insert: "fst ` set (obj_insert k v m) = insert k (fst ` set m)"
  by (induction k v m rule: obj_insert.induct) auto

lemma obj_sorted_Cons: "obj_sorted ((k, v) # m) \<longleftrightarrow> (\<forall>k' \<in> fst ` set m. k < k') \<and> obj_sorted m"
  by (auto simp: obj_sorted_def)

lemma obj_sorted_insert: "obj_sorted m \<Longrightarrow> obj_sorted (obj_insert k v m)"
proof (induction k v m rule: obj_insert.induct)
  case (2 k v k' v' m)
  then show ?case
    by (cases "k < k'"; cases "k = k'") (auto simp: obj_sorted_Cons keys_obj_insert simp del: image_iff intro: less_trans)
qed (simp add: obj_sorted_def)

lemma map_of_obj_insert: "map_of (obj_insert k v m) x = (if x = k then Some v else map_of m x)"
  by (induction k v m rule: obj_insert.induct) auto

lemma obj_insert_last: "\<forall>k' \<in> fst ` set m. k' < k \<Longrightarrow> obj_insert k v m = m @ [(k, v)]"
  by (induction m) (auto dest: order_less_asym)

lemma obj_sorted_of_list: "obj_sorted (obj_of_list kvs)"
proof -
  have "obj_sorted m \<Longrightarrow> obj_sorted (fold (\<lambda>(k, v). obj_insert k v) kvs m)" for m
    by (induction kvs arbitrary: m) (auto simp: obj_sorted_insert)
  then show ?thesis by (simp add: obj_of_list_def obj_sorted_def)
qed

text \<open>Inserting the entries of a sorted map in order rebuilds it.\<close>

lemma obj_of_list_sorted: "obj_sorted m \<Longrightarrow> obj_of_list m = m"
proof (induction m rule: rev_induct)
  case (snoc kv m)
  obtain k v where kv: "kv = (k, v)" by (cases kv)
  have "obj_sorted m" "\<forall>k' \<in> fst ` set m. k' < k"
    using snoc.prems by (auto simp: obj_sorted_def sorted_wrt_append kv)
  with snoc.IH show ?case by (simp add: obj_of_list_def kv obj_insert_last)
qed (simp add: obj_of_list_def)

lemma values_obj_of_list: "(k, v) \<in> set (obj_of_list kvs) \<Longrightarrow> (k, v) \<in> set kvs"
proof -
  have ins: "x \<in> set (obj_insert k v m) \<Longrightarrow> x = (k, v) \<or> x \<in> set m" for x k v m
    by (induction k v m rule: obj_insert.induct) (auto split: if_splits)
  have "x \<in> set (fold (\<lambda>(k, v). obj_insert k v) kvs m) \<Longrightarrow> x \<in> set kvs \<or> x \<in> set m" for x m
    by (induction kvs arbitrary: m) (auto dest: ins)
  from this [of "(k, v)" "[]"] show "(k, v) \<in> set (obj_of_list kvs) \<Longrightarrow> (k, v) \<in> set kvs"
    by (simp add: obj_of_list_def)
qed

lemma obj_of_list_get: "map_of (obj_of_list kvs) x = map_of (rev kvs) x"
proof -
  have "map_of (fold (\<lambda>(k, v). obj_insert k v) kvs m) x = (case map_of (rev kvs) x of Some v \<Rightarrow> Some v | None \<Rightarrow> map_of m x)" for m
    by (induction kvs arbitrary: m) (auto simp: map_of_obj_insert map_add_def split: option.splits)
  then show ?thesis by (simp add: obj_of_list_def split: option.splits)
qed

end
