(* ===== verification/Json_Compress.thy ===== *)
theory Json_Compress
  imports Json_Map Compression_Types Rust_Parse
begin

text \<open>
  The JSON compressor and the interface of the compressors (\<open>aura-core/src/compression/json.rs\<close>,
  \<open>mod.rs\<close>). The JSON reader and writer are parameters; errors carry their text.
\<close>

record json_codec =
  jc_from_str :: "rstring \<Rightarrow> rstring + json"
  jc_to_string :: "json \<Rightarrow> rstring"

text \<open>About four bytes per token, rounded up in single precision.\<close>

definition f32_ceil :: "f32 \<Rightarrow> f32" where
  "f32_ceil x = (case x of Fin r \<Rightarrow> Fin (of_int \<lceil>r\<rceil>) | _ \<Rightarrow> x)"

definition u32_of_f32 :: "f32 \<Rightarrow> u32" where
  "u32_of_f32 x = (case x of
      Fin r \<Rightarrow> of_nat (nat (min (max \<lfloor>r\<rfloor> 0) (2 ^ 32 - 1)))
    | PInf \<Rightarrow> of_nat (2 ^ 32 - 1) | _ \<Rightarrow> 0)"

datatype JsonError = Json_ParseError rstring | Json_InvalidStructure rstring

record JsonCompressorConfig =
  jcc_minify :: bool
  jcc_shorten_keys :: bool
  jcc_key_mappings :: "rstring \<rightharpoonup> rstring"
  jcc_remove_nulls :: bool
  jcc_remove_empty_arrays :: bool
  jcc_remove_empty_objects :: bool

definition JsonCompressorConfig_default :: JsonCompressorConfig where
  "JsonCompressorConfig_default =
     \<lparr> jcc_minify = True, jcc_shorten_keys = False, jcc_key_mappings = Map.empty,
       jcc_remove_nulls = False, jcc_remove_empty_arrays = False, jcc_remove_empty_objects = False \<rparr>"

record JsonCompressor =
  jz_config :: JsonCompressorConfig

definition JsonCompressor_new :: JsonCompressor where
  "JsonCompressor_new = \<lparr> jz_config = JsonCompressorConfig_default \<rparr>"

definition JsonCompressor_with_config :: "JsonCompressorConfig \<Rightarrow> JsonCompressor" where
  "JsonCompressor_with_config c = \<lparr> jz_config = c \<rparr>"

definition JsonCompressor_minify_only :: JsonCompressor where
  "JsonCompressor_minify_only =
     \<lparr> jz_config = JsonCompressorConfig_default\<lparr> jcc_minify := True, jcc_shorten_keys := False \<rparr> \<rparr>"

definition common_keys :: "(rstring \<times> rstring) list" where
  "common_keys =
     [(''message'', ''m''), (''content'', ''c''), (''role'', ''r''), (''name'', ''n''), (''type'', ''t''),
      (''value'', ''v''), (''id'', ''i''), (''text'', ''x''), (''data'', ''d''), (''status'', ''s''),
      (''error'', ''e''), (''result'', ''rs''), (''arguments'', ''a''), (''function'', ''f''),
      (''description'', ''dc''), (''parameters'', ''p''), (''properties'', ''pr''), (''required'', ''rq''),
      (''items'', ''it'')]"

definition JsonCompressor_aggressive :: JsonCompressor where
  "JsonCompressor_aggressive =
     \<lparr> jz_config = \<lparr> jcc_minify = True, jcc_shorten_keys = True, jcc_key_mappings = map_of common_keys,
         jcc_remove_nulls = True, jcc_remove_empty_arrays = True, jcc_remove_empty_objects = True \<rparr> \<rparr>"

definition skip_entry :: "JsonCompressorConfig \<Rightarrow> json \<Rightarrow> bool" where
  "skip_entry c v \<longleftrightarrow> jcc_remove_nulls c \<and> v = JNull \<or> jcc_remove_empty_arrays c \<and> v = JArr []
     \<or> jcc_remove_empty_objects c \<and> v = JObj []"

definition shortened :: "JsonCompressorConfig \<Rightarrow> rstring \<Rightarrow> rstring" where
  "shortened c k =
     (if jcc_shorten_keys c then (case jcc_key_mappings c k of Some s \<Rightarrow> s | None \<Rightarrow> k) else k)"

fun process_value :: "JsonCompressorConfig \<Rightarrow> json \<Rightarrow> json" where
  "process_value c (JObj m) =
     JObj (obj_of_list (map (\<lambda>(k, v). (shortened c k, process_value c v))
       (filter (\<lambda>(k, v). \<not> skip_entry c v) m)))"
| "process_value c (JArr vs) = JArr (map (process_value c) vs)"
| "process_value c v = v"

definition compress_value :: "JsonCompressor \<Rightarrow> json \<Rightarrow> JsonError + json" where
  "compress_value z v = Inr (process_value (jz_config z) v)"

definition compress_json :: "json_codec \<Rightarrow> JsonCompressor \<Rightarrow> rstring \<Rightarrow> JsonError + rstring" where
  "compress_json c z s =
     (case jc_from_str c s of
        Inl e \<Rightarrow> Inl (Json_ParseError e)
      | Inr v \<Rightarrow> Inr (jc_to_string c (process_value (jz_config z) v)))"

definition JsonCompressor_minify :: "json_codec \<Rightarrow> rstring \<Rightarrow> JsonError + rstring" where
  "JsonCompressor_minify c s =
     (case jc_from_str c s of Inl e \<Rightarrow> Inl (Json_ParseError e) | Inr v \<Rightarrow> Inr (jc_to_string c v))"

definition JsonCompressor_key_mappings :: "JsonCompressor \<Rightarrow> (rstring \<rightharpoonup> rstring)" where
  "JsonCompressor_key_mappings z = jcc_key_mappings (jz_config z)"

text \<open>It never fails: text that is not JSON has its lines trimmed and joined.\<close>

definition JsonCompressor_compress :: "json_codec \<Rightarrow> JsonCompressor \<Rightarrow> rstring \<Rightarrow> rstring" where
  "JsonCompressor_compress c z s =
     (case compress_json c z s of
        Inr r \<Rightarrow> r
      | Inl _ \<Rightarrow>
          if jcc_minify (jz_config z)
          then str_join '' '' (filter (\<lambda>l. l \<noteq> []) (map str_trim (str_lines s)))
          else s)"

definition estimate_tokens :: "rstring \<Rightarrow> u32" where
  "estimate_tokens s = u32_of_f32 (f32_ceil (f32_div (to_f32 (of_nat (length s))) (f32_lit 4 1)))"

subsection \<open>What compression keeps\<close>

definition plain :: "JsonCompressorConfig \<Rightarrow> bool" where
  "plain c \<longleftrightarrow> \<not> jcc_shorten_keys c \<and> \<not> jcc_remove_nulls c \<and> \<not> jcc_remove_empty_arrays c \<and> \<not> jcc_remove_empty_objects c"

lemma plain_entries:
  assumes "plain c"
  shows "skip_entry c v = False" "shortened c k = k"
  using assms by (simp_all add: plain_def skip_entry_def shortened_def)

lemma process_plain: "plain c \<Longrightarrow> json_ok v \<Longrightarrow> process_value c v = v"
proof (induction c v rule: process_value.induct)
  case (1 c m)
  have "process_value c (snd x) = snd x" if "x \<in> set m" for x
    using 1(1) [of x "fst x" "snd x"] that 1(2,3) by (auto simp: list_all_iff plain_entries)
  then have "map (\<lambda>(k, v). (shortened c k, process_value c v)) m = m"
    using 1(2) by (intro map_idI) (auto simp: plain_entries)
  with 1(2,3) show ?case by (simp add: plain_entries obj_of_list_sorted)
qed (auto simp: list_all_iff map_idI)

lemma process_ok: "json_ok v \<Longrightarrow> json_ok (process_value c v)"
proof (induction c v rule: process_value.induct)
  case (1 c m)
  have "json_ok w" if w: "(k, w) \<in> set (obj_of_list (map (\<lambda>(k, v). (shortened c k, process_value c v))
      (filter (\<lambda>(k, v). \<not> skip_entry c v) m)))" for k w
  proof -
    from values_obj_of_list [OF w] obtain k' v where "(k', v) \<in> set m" "\<not> skip_entry c v" "w = process_value c v"
      by auto
    with 1(1) [of "(k', v)" k' v] 1(2) show ?thesis by (force simp: list_all_iff)
  qed
  then show ?case by (auto simp: list_all_iff obj_sorted_of_list)
qed (auto simp: list_all_iff)

text \<open>A codec reads back what it writes and reads well-formed values only.\<close>

definition codec_ok :: "json_codec \<Rightarrow> bool" where
  "codec_ok c \<longleftrightarrow> (\<forall>v. json_ok v \<longrightarrow> jc_from_str c (jc_to_string c v) = Inr v)
     \<and> (\<forall>s v. jc_from_str c s = Inr v \<longrightarrow> json_ok v)"

lemma minify_lossless:
  assumes "codec_ok c" "plain (jz_config z)" "jc_from_str c s = Inr v"
  shows "jc_from_str c (JsonCompressor_compress c z s) = Inr v"
  using assms by (simp add: JsonCompressor_compress_def compress_json_def codec_ok_def process_plain)

end
