(* ===== verification/Text_Format.thy ===== *)
theory Text_Format
  imports Json_Compress
begin

text \<open>
  What the text formats of the compression module share: \<open>str::replace\<close> of a character, lines of a
  value, the syntax \<open>str::parse::<f64>\<close> accepts, and collecting results up to the first error.
\<close>

definition replace_char :: "char \<Rightarrow> rstring \<Rightarrow> rstring \<Rightarrow> rstring" where
  "replace_char c w s = concat (map (\<lambda>x. if x = c then w else [x]) s)"

fun collect_results :: "('e + 'a) list \<Rightarrow> 'e + 'a list" where
  "collect_results [] = Inr []"
| "collect_results (Inl e # rs) = Inl e"
| "collect_results (Inr x # rs) = (case collect_results rs of Inl e \<Rightarrow> Inl e | Inr xs \<Rightarrow> Inr (x # xs))"

lemma collect_results_Inr: "collect_results (map (\<lambda>x. Inr (f x)) xs) = Inr (map f xs)"
  by (induction xs) auto

lemma collect_results_all: "(\<And>r. r \<in> set rs \<Longrightarrow> \<exists>x. r = Inr x) \<Longrightarrow> \<exists>xs. collect_results rs = Inr xs"
proof (induction rs)
  case (Cons r rs)
  from Cons.prems [of r] obtain x where "r = Inr x" by auto
  moreover from Cons obtain xs where "collect_results rs = Inr xs" by fastforce
  ultimately show ?case by simp
qed simp

text \<open>The indentation of a level.\<close>

definition indent_str :: "nat \<Rightarrow> rstring" where
  "indent_str n = concat (replicate n ''  '')"

subsection \<open>Floating-point syntax\<close>

definition strip_sign :: "rstring \<Rightarrow> rstring" where
  "strip_sign s = (case s of c # cs \<Rightarrow> if c = CHR ''+'' \<or> c = CHR ''-'' then cs else s | [] \<Rightarrow> [])"

definition digits_of :: "rstring \<Rightarrow> rstring \<times> rstring" where
  "digits_of s = (takeWhile is_ascii_digit s, dropWhile is_ascii_digit s)"

definition exponent_ok :: "rstring \<Rightarrow> bool" where
  "exponent_ok s \<longleftrightarrow> (case s of
      [] \<Rightarrow> True
    | c # cs \<Rightarrow> c \<in> {CHR ''e'', CHR ''E''}
        \<and> (let d = strip_sign cs in d \<noteq> [] \<and> list_all is_ascii_digit d))"

text \<open>
  \<open>s.parse::<f64>().is_ok()\<close>: an optional sign, then a special name in any case, or digits with
  an optional point and exponent, of which the integer or the fractiontion may be missing.
\<close>

definition parse_f64_ok :: "rstring \<Rightarrow> bool" where
  "parse_f64_ok s \<longleftrightarrow>
     (let t = strip_sign s
      in to_ascii_lowercase t \<in> {''inf'', ''infinity'', ''nan''}
         \<or> (case digits_of t of (whole, rest) \<Rightarrow>
              case rest of
                c # rest' \<Rightarrow>
                  if c = CHR ''.''
                  then (case digits_of rest' of (fraction, rest'') \<Rightarrow>
                          (whole \<noteq> [] \<or> fraction \<noteq> []) \<and> exponent_ok rest'')
                  else whole \<noteq> [] \<and> exponent_ok rest
              | [] \<Rightarrow> whole \<noteq> []))"

subsection \<open>Quoting\<close>

text \<open>The quote is escaped, and the escape too where the code does it.\<close>

lemma replace_char_Cons: "replace_char c w (x # s) = (if x = c then w else [x]) @ replace_char c w s"
  by (simp add: replace_char_def)

lemma replace_char_Nil [simp]: "replace_char c w [] = []"
  by (simp add: replace_char_def)

lemma replace_char_id: "c \<notin> set s \<Longrightarrow> replace_char c w s = s"
  by (induction s) (auto simp: replace_char_Cons)

definition escaped :: "rstring \<Rightarrow> rstring" where
  "escaped s = replace_char (CHR 0x22) [CHR 0x5C, CHR 0x22] (replace_char (CHR 0x5C) [CHR 0x5C, CHR 0x5C] s)"

lemma escaped_Cons:
  "escaped (x # s) = (if x = CHR 0x5C \<or> x = CHR 0x22 then [CHR 0x5C, x] else [x]) @ escaped s"
  by (auto simp: escaped_def replace_char_Cons)

lemma escaped_Nil [simp]: "escaped [] = []"
  by (simp add: escaped_def)

text \<open>An escaped text can be read back, also before further text.\<close>

fun unescape :: "rstring \<Rightarrow> rstring" where
  "unescape [] = []"
| "unescape [c] = [c]"
| "unescape (c # d # s) = (if c = CHR 0x5C then d # unescape s else c # unescape (d # s))"

lemma unescape_Cons: "c \<noteq> CHR 0x5C \<Longrightarrow> unescape (c # s) = c # unescape s"
  by (cases s) auto

lemma unescape_escaped: "unescape (escaped s) = s"
  by (induction s) (auto simp: escaped_Cons unescape_Cons)

lemma escaped_inj: "escaped s = escaped t \<Longrightarrow> s = t"
  by (metis unescape_escaped)

end
