(* ===== verification/Toon.thy ===== *)
theory Toon
  imports Text_Format
begin

text \<open>
  The TOON encoder (\<open>aura-core/src/compression/toon.rs\<close>): an array of objects with the same keys
  becomes a header and rows, an object a list of members, everything else a cell. The JSON reader
  and writer are parameters; numbers and objects inside a cell are written by the writer.
\<close>

datatype ToonError =
  Toon_JsonParse rstring | NotUniformArray rstring | ArrayTooSmall | Toon_EncodingFailed rstring

record ToonEncoder =
  te_config :: ToonConfig

definition ToonEncoder_new :: ToonEncoder where
  "ToonEncoder_new = \<lparr> te_config = ToonConfig_default \<rparr>"

definition ToonEncoder_with_config :: "ToonConfig \<Rightarrow> ToonEncoder" where
  "ToonEncoder_with_config c = \<lparr> te_config = c \<rparr>"

fun as_object :: "json \<Rightarrow> json_map option" where
  "as_object (JObj m) = Some m"
| "as_object _ = None"

fun as_array :: "json \<Rightarrow> json list option" where
  "as_array (JArr vs) = Some vs"
| "as_array _ = None"

definition is_uniform_array :: "ToonEncoder \<Rightarrow> json list \<Rightarrow> bool" where
  "is_uniform_array t arr \<longleftrightarrow>
     (if length arr < unat (min_array_size (te_config t)) then False
      else (case arr of
         JObj first # _ \<Rightarrow>
           if length first < unat (min_fields (te_config t)) then False
           else list_all (\<lambda>item. case as_object item of
               Some obj \<Rightarrow> length obj = length first \<and> list_all (\<lambda>k. map_of obj k \<noteq> None) (map fst first)
             | None \<Rightarrow> False) arr
       | _ \<Rightarrow> False))"

definition toon_quoted :: "rstring \<Rightarrow> rstring" where
  "toon_quoted s =
     (if CHR '','' \<in> set s \<or> CHR 0x0A \<in> set s \<or> CHR 0x22 \<in> set s
      then dquote @ replace_char (CHR 0x22) [CHR 0x5C, CHR 0x22] s @ dquote else s)"

fun toon_value :: "json_codec \<Rightarrow> json \<Rightarrow> rstring" where
  "toon_value c JNull = ''~''"
| "toon_value c (JBool b) = (if b then ''T'' else ''F'')"
| "toon_value c (JNum n) = jc_to_string c (JNum n)"
| "toon_value c (JStr s) = toon_quoted s"
| "toon_value c (JArr vs) =
     (if vs = [] then ''[]'' else ''['' @ str_join '','' (map (toon_value c) vs) @ '']'')"
| "toon_value c (JObj m) = jc_to_string c (JObj m)"

definition toon_header :: "nat \<Rightarrow> rstring list \<Rightarrow> rstring" where
  "toon_header n cols = ''['' @ dec_digits n @ '']{'' @ str_join '','' cols @ ''}:''"

definition toon_row :: "json_codec \<Rightarrow> rstring list \<Rightarrow> json_map \<Rightarrow> rstring" where
  "toon_row c cols obj =
     str_join '','' (map (\<lambda>f. toon_value c (case map_of obj f of Some v \<Rightarrow> v | None \<Rightarrow> JNull)) cols)"

definition encode_tabular :: "json_codec \<Rightarrow> json list \<Rightarrow> ToonError + rstring" where
  "encode_tabular c arr =
     (case arr of
        JObj first # _ \<Rightarrow>
          (let cols = map fst first
           in Inr (toon_header (length arr) cols @ nl @ ''  ''
                @ str_join (nl @ ''  '') (map (toon_row c cols) (List.map_filter as_object arr))))
      | _ \<Rightarrow> Inl (NotUniformArray ''Array is empty or first element is not an object''))"

definition indented :: "rstring \<Rightarrow> rstring" where
  "indented s = replace_char (CHR 0x0A) (nl @ ''  '') s"

lemma size_member: "(k, v) \<in> set m \<Longrightarrow> size v < size (JObj m)"
  by (induction m) auto

function toon_object :: "json_codec \<Rightarrow> ToonEncoder \<Rightarrow> json_map \<Rightarrow> ToonError + rstring" where
  "toon_object c t m =
     (if m = [] then Inr ''{}''
      else map_sum id (str_join nl) (collect_results (map (\<lambda>(k, v).
        case v of
          JObj nested \<Rightarrow>
            map_sum id (\<lambda>e. k @ '':'' @ nl @ ''  '' @ indented e) (toon_object c t nested)
        | JArr arr \<Rightarrow>
            if is_uniform_array t arr
            then map_sum id (\<lambda>e. k @ '':'' @ nl @ ''  '' @ indented e) (encode_tabular c arr)
            else Inr (k @ '': '' @ toon_value c v)
        | _ \<Rightarrow> Inr (k @ '': '' @ toon_value c v)) m)))"
  by pat_completeness auto

termination
  by (relation "measure (\<lambda>(c, t, m). size (JObj m))") (auto dest: size_member)

declare toon_object.simps [simp del]

fun is_container :: "json \<Rightarrow> bool" where
  "is_container (JArr _) = True"
| "is_container (JObj _) = True"
| "is_container _ = False"

text \<open>An array, given what its elements are encoded to.\<close>

definition encode_array ::
    "json_codec \<Rightarrow> ToonEncoder \<Rightarrow> json list \<Rightarrow> (ToonError + rstring) list \<Rightarrow> ToonError + rstring" where
  "encode_array c t arr results =
     (if arr = [] then Inr ''[]''
      else if is_uniform_array t arr then encode_tabular c arr
      else (case collect_results results of
              Inl e \<Rightarrow> Inl e
            | Inr encoded \<Rightarrow>
                if list_all (\<lambda>v. \<not> is_container v) arr then Inr (''['' @ str_join '','' encoded @ '']'')
                else Inr (''['' @ nl @ ''  '' @ str_join ('','' @ nl @ ''  '') encoded @ nl @ '']'')))"

fun toon_encode :: "json_codec \<Rightarrow> ToonEncoder \<Rightarrow> json \<Rightarrow> ToonError + rstring" where
  "toon_encode c t (JArr arr) = encode_array c t arr (map (toon_encode c t) arr)"
| "toon_encode c t (JObj m) = toon_object c t m"
| "toon_encode c t v = Inr (jc_to_string c v)"

definition toon_encode_json :: "json_codec \<Rightarrow> ToonEncoder \<Rightarrow> rstring \<Rightarrow> ToonError + rstring" where
  "toon_encode_json c t s =
     (case jc_from_str c s of Inl e \<Rightarrow> Inl (Toon_JsonParse e) | Inr v \<Rightarrow> toon_encode c t v)"

definition toon_estimate_savings :: "json_codec \<Rightarrow> ToonEncoder \<Rightarrow> json \<Rightarrow> f32" where
  "toon_estimate_savings c t v =
     (case toon_encode c t v of
        Inr e \<Rightarrow> f32_sub (f32_lit 1 1)
          (f32_div (to_f32 (of_nat (length e))) (to_f32 (of_nat (length (jc_to_string c v)))))
      | Inl _ \<Rightarrow> f32_lit 0 1)"

text \<open>The compressor: what is not JSON stays, an encoding error falls back to the minified value.\<close>

definition toon_compress :: "json_codec \<Rightarrow> ToonEncoder \<Rightarrow> rstring \<Rightarrow> ToonError + rstring" where
  "toon_compress c t s =
     (case jc_from_str c s of
        Inl _ \<Rightarrow> Inr s
      | Inr v \<Rightarrow> (case toon_encode c t v of Inr e \<Rightarrow> Inr e | Inl _ \<Rightarrow> Inr (jc_to_string c v)))"

subsection \<open>The encoder never fails\<close>

lemma encode_tabular_total: "is_uniform_array t arr \<Longrightarrow> \<exists>e. encode_tabular c arr = Inr e"
  by (cases arr) (auto simp: is_uniform_array_def encode_tabular_def Let_def split: if_splits json.splits)

lemma toon_object_total: "\<exists>e. toon_object c t m = Inr e"
proof (induction c t m rule: toon_object.induct)
  case (1 c t m)
  let ?f = "\<lambda>(k, v). case v of
          JObj nested \<Rightarrow> map_sum id (\<lambda>e. k @ '':'' @ nl @ ''  '' @ indented e) (toon_object c t nested)
        | JArr arr \<Rightarrow>
            if is_uniform_array t arr
            then map_sum id (\<lambda>e. k @ '':'' @ nl @ ''  '' @ indented e) (encode_tabular c arr)
            else Inr (k @ '': '' @ toon_value c v)
        | _ \<Rightarrow> Inr (k @ '': '' @ toon_value c v)"
  show ?case
  proof (cases "m = []")
    case False
    have "\<exists>e. ?f (k, v) = Inr e" if "(k, v) \<in> set m" for k v
    proof (cases v)
      case (JArr arr)
      then show ?thesis using encode_tabular_total [of t arr c] by auto
    next
      case (JObj nested)
      with 1 [OF False that] have "\<exists>e. toon_object c t nested = Inr e" by simp
    then show ?thesis by (auto simp: JObj)
    qed auto
    then obtain xs where "collect_results (map ?f m) = Inr xs"
      using collect_results_all [of "map ?f m"] by fastforce
    with False show ?thesis by (subst toon_object.simps) simp
  qed (simp add: toon_object.simps)
qed

lemma toon_encode_total: "\<exists>e. toon_encode c t v = Inr e"
proof (induction c t v rule: toon_encode.induct)
  case (1 c t arr)
  have "\<exists>xs. collect_results (map (toon_encode c t) arr) = Inr xs"
    using 1 by (intro collect_results_all) auto
  then show ?case using encode_tabular_total [of t arr c] by (auto simp: encode_array_def)
qed (auto simp: toon_object_total)

lemma toon_compress_total: "\<exists>e. toon_compress c t s = Inr e"
  by (simp add: toon_compress_def split: sum.splits)

lemma toon_compress_json:
  "jc_from_str c s = Inr v \<Longrightarrow> toon_compress c t s = toon_encode c t v"
  using toon_encode_total [of c t v] by (auto simp: toon_compress_def)

text \<open>A uniform array of sorted objects: every object has the header's fields.\<close>

lemma sorted_fields_unique:
  assumes "obj_sorted a" "obj_sorted b" "length a = length b" "fst ` set b \<subseteq> fst ` set a"
  shows "map fst a = map fst b"
proof -
  have sd: "sorted (map fst x)" "distinct (map fst x)" if "obj_sorted x" for x
    using that by (simp_all add: obj_sorted_def strict_sorted_iff)
  have "card (fst ` set a) = card (fst ` set b)"
    using sd [OF assms(1)] sd [OF assms(2)] assms(3) by (metis distinct_card length_map list.set_map)
  then have "fst ` set a = fst ` set b"
    using assms(4) by (metis card_subset_eq finite_imageI finite_set)
  with sd [OF assms(1)] sd [OF assms(2)] show ?thesis
    by (metis list.set_map sorted_distinct_set_unique)
qed

lemma uniform_fields:
  assumes "is_uniform_array t arr" "json_ok (JArr arr)" "JObj obj \<in> set arr"
  shows "map fst obj = map fst (the (as_object (hd arr)))"
proof -
  from assms(1) obtain first rest where arr: "arr = JObj first # rest"
    by (auto simp: is_uniform_array_def split: if_splits list.splits json.splits)
  from assms(1) have "\<forall>item \<in> set arr. case as_object item of
      Some obj \<Rightarrow> length obj = length first \<and> list_all (\<lambda>k. map_of obj k \<noteq> None) (map fst first) | None \<Rightarrow> False"
    by (simp add: arr is_uniform_array_def list_all_iff split: if_splits)
  from bspec [OF this assms(3)] have len: "length obj = length first"
    and keys: "list_all (\<lambda>k. map_of obj k \<noteq> None) (map fst first)" by simp_all
  from keys have "fst ` set first \<subseteq> fst ` set obj" by (auto simp: list_all_iff map_of_eq_None_iff)
  moreover have "obj_sorted obj" "obj_sorted first"
    using assms(2,3) by (auto simp: arr list_all_iff)
  ultimately show ?thesis using sorted_fields_unique [of obj first] len by (simp add: arr)
qed

text \<open>The row of such an object holds its own values, in order.\<close>

lemma toon_row_own:
  assumes "obj_sorted obj"
  shows "toon_row c (map fst obj) obj = str_join '','' (map (\<lambda>(_, v). toon_value c v) obj)"
proof -
  have "distinct (map fst obj)" using assms by (simp add: obj_sorted_def strict_sorted_iff)
  then have "map_of obj k = Some v" if "(k, v) \<in> set obj" for k v using that by simp
  then have "map (\<lambda>f. toon_value c (case map_of obj f of Some v \<Rightarrow> v | None \<Rightarrow> JNull)) (map fst obj)
    = map (\<lambda>(_, v). toon_value c v) obj"
    by (auto simp: comp_def)
  then show ?thesis by (simp only: toon_row_def)
qed

end
