(* ===== verification/Yaml.thy ===== *)
theory Yaml
  imports Text_Format
begin

text \<open>
  The YAML converter (\<open>aura-core/src/compression/yaml.rs\<close>). A value is written at a level of
  indentation; the children of an array or object are written first and then put together. Numbers
  are written by the JSON writer, a parameter.
\<close>

datatype YamlError = Yaml_JsonParse rstring | YamlSerialize rstring | ConversionFailed rstring

record YamlConverter =
  yc_config :: YamlConfig

definition YamlConverter_new :: YamlConverter where
  "YamlConverter_new = \<lparr> yc_config = YamlConfig_default \<rparr>"

definition YamlConverter_with_config :: "YamlConfig \<Rightarrow> YamlConverter" where
  "YamlConverter_with_config c = \<lparr> yc_config = c \<rparr>"

definition needs_quotes :: "rstring \<Rightarrow> bool" where
  "needs_quotes s \<longleftrightarrow>
     s = [] \<or> starts_with s '' '' \<or> ends_with s '' '' \<or> CHR '':'' \<in> set s \<or> CHR ''#'' \<in> set s
     \<or> CHR 0x0A \<in> set s \<or> CHR 0x22 \<in> set s \<or> CHR 0x27 \<in> set s
     \<or> starts_with s ''-'' \<or> starts_with s ''['' \<or> starts_with s ''{''
     \<or> s = ''true'' \<or> s = ''false'' \<or> s = ''null'' \<or> s = ''~'' \<or> parse_f64_ok s"

definition format_string :: "YamlConverter \<Rightarrow> rstring \<Rightarrow> rstring" where
  "format_string y s =
     (if needs_quotes s \<or> \<not> minimal_quotes (yc_config y) then dquote @ escaped s @ dquote else s)"

fun is_object :: "json \<Rightarrow> bool" where
  "is_object (JObj _) = True"
| "is_object _ = False"

fun is_array :: "json \<Rightarrow> bool" where
  "is_array (JArr _) = True"
| "is_array _ = False"

text \<open>An item of a block: an object keeps its first line beside the dash.\<close>

definition block_item :: "nat \<Rightarrow> json \<Rightarrow> rstring \<Rightarrow> rstring" where
  "block_item indent v formatted =
     (if is_object v
      then (case str_find formatted nl of
              Some first_newline \<Rightarrow>
                indent_str indent @ ''- '' @ take first_newline formatted @ drop first_newline formatted
            | None \<Rightarrow> indent_str indent @ ''- '' @ formatted)
      else if is_array v then indent_str indent @ ''-'' @ nl @ formatted
      else indent_str indent @ ''- '' @ formatted)"

text \<open>\<open>flow\<close> and \<open>block\<close> are the items written at level zero and at the next level.\<close>

definition format_array :: "YamlConverter \<Rightarrow> json list \<Rightarrow> rstring list \<Rightarrow> rstring list \<Rightarrow> nat \<Rightarrow> rstring" where
  "format_array y arr flow block indent =
     (if arr = [] then ''[]''
      else if flow_short_arrays (yc_config y) \<and> length arr \<le> unat (flow_threshold (yc_config y))
              \<and> list_all (\<lambda>v. \<not> is_object v \<and> \<not> is_array v) arr
      then ''['' @ str_join '', '' flow @ '']''
      else str_join nl (map (\<lambda>(v, formatted). block_item indent v formatted) (zip arr block)))"

definition format_key :: "rstring \<Rightarrow> rstring" where
  "format_key k = (if CHR '':'' \<in> set k \<or> CHR '' '' \<in> set k \<or> k = [] then dquote @ k @ dquote else k)"

definition member_line :: "nat \<Rightarrow> rstring \<times> json \<Rightarrow> rstring \<Rightarrow> rstring" where
  "member_line indent kv formatted =
     (if (is_object (snd kv) \<or> is_array (snd kv)) \<and> \<not> starts_with formatted ''['' \<and> \<not> starts_with formatted ''{''
      then indent_str indent @ format_key (fst kv) @ '':'' @ nl @ formatted
      else indent_str indent @ format_key (fst kv) @ '': '' @ formatted)"

definition format_object :: "json_map \<Rightarrow> rstring list \<Rightarrow> nat \<Rightarrow> rstring" where
  "format_object m values indent =
     (if m = [] then ''{}''
      else str_join nl (map (\<lambda>(kv, formatted). member_line indent kv formatted) (zip m values)))"

fun to_yaml :: "json_codec \<Rightarrow> YamlConverter \<Rightarrow> json \<Rightarrow> nat \<Rightarrow> rstring" where
  "to_yaml c y JNull indent = ''~''"
| "to_yaml c y (JBool b) indent = (if b then ''true'' else ''false'')"
| "to_yaml c y (JNum n) indent = jc_to_string c (JNum n)"
| "to_yaml c y (JStr s) indent = format_string y s"
| "to_yaml c y (JArr arr) indent =
     format_array y arr (map (\<lambda>v. to_yaml c y v 0) arr) (map (\<lambda>v. to_yaml c y v (indent + 1)) arr) indent"
| "to_yaml c y (JObj m) indent = format_object m (map (\<lambda>(k, v). to_yaml c y v (indent + 1)) m) indent"

definition yaml_convert :: "json_codec \<Rightarrow> YamlConverter \<Rightarrow> json \<Rightarrow> YamlError + rstring" where
  "yaml_convert c y v = Inr (to_yaml c y v 0)"

definition yaml_convert_json :: "json_codec \<Rightarrow> YamlConverter \<Rightarrow> rstring \<Rightarrow> YamlError + rstring" where
  "yaml_convert_json c y s =
     (case jc_from_str c s of Inl e \<Rightarrow> Inl (Yaml_JsonParse e) | Inr v \<Rightarrow> yaml_convert c y v)"

definition yaml_estimate_savings :: "json_codec \<Rightarrow> YamlConverter \<Rightarrow> json \<Rightarrow> f32" where
  "yaml_estimate_savings c y v =
     (let yaml = (case yaml_convert c y v of Inr s \<Rightarrow> s | Inl _ \<Rightarrow> [])
      in f32_sub (f32_lit 1 1)
           (f32_div (to_f32 (of_nat (length yaml))) (to_f32 (of_nat (length (jc_to_string c v))))))"

definition yaml_compress :: "json_codec \<Rightarrow> YamlConverter \<Rightarrow> rstring \<Rightarrow> YamlError + rstring" where
  "yaml_compress c y s = (case jc_from_str c s of Inr v \<Rightarrow> yaml_convert c y v | Inl _ \<Rightarrow> Inr s)"

lemma yaml_compress_total: "\<exists>r. yaml_compress c y s = Inr r"
  by (auto simp: yaml_compress_def yaml_convert_def split: sum.splits)

subsection \<open>Scalars keep their kind\<close>

fun is_scalar :: "json_number set \<Rightarrow> json \<Rightarrow> bool" where
  "is_scalar N (JArr _) = False"
| "is_scalar N (JObj _) = False"
| "is_scalar N (JNum n) = (n \<in> N)"
| "is_scalar N _ = True"

text \<open>
  What the JSON writer promises of the numbers in a set: their text reads as a number, does not
  begin with a quote, and tells them apart.
\<close>

definition writes_numbers :: "json_codec \<Rightarrow> json_number set \<Rightarrow> bool" where
  "writes_numbers c N \<longleftrightarrow>
     (\<forall>n \<in> N. parse_f64_ok (jc_to_string c (JNum n)) \<and> \<not> starts_with (jc_to_string c (JNum n)) dquote
        \<and> jc_to_string c (JNum n) \<notin> {''~'', ''true'', ''false''})
     \<and> inj_on (\<lambda>n. jc_to_string c (JNum n)) N"

lemma format_string_inj: "format_string y s = format_string y t \<Longrightarrow> s = t"
proof -
  have no_quote: "\<not> needs_quotes s \<Longrightarrow> \<not> starts_with s dquote" for s
    by (cases s) (auto simp: needs_quotes_def)
  assume "format_string y s = format_string y t"
  then show ?thesis
    using no_quote [of s] no_quote [of t]
    by (auto simp: format_string_def dest: escaped_inj split: if_splits)
qed

lemma format_string_no_scalar:
  "format_string y s \<noteq> ''~''" "format_string y s \<noteq> ''true''" "format_string y s \<noteq> ''false''"
  "parse_f64_ok w \<Longrightarrow> \<not> starts_with w dquote \<Longrightarrow> format_string y s \<noteq> w"
  by (auto simp: format_string_def needs_quotes_def)

lemma scalar_inj:
  assumes "writes_numbers c N" "is_scalar N a" "is_scalar N b" "to_yaml c y a i = to_yaml c y b j"
  shows "a = b"
proof -
  have num: "jc_to_string c (JNum n) \<noteq> ''~''" "jc_to_string c (JNum n) \<noteq> ''true''"
    "jc_to_string c (JNum n) \<noteq> ''false''" "format_string y s \<noteq> jc_to_string c (JNum n)" if "n \<in> N" for n s
    using assms(1) that format_string_no_scalar(4) [of "jc_to_string c (JNum n)" y s]
    by (auto simp: writes_numbers_def)
  have inj: "jc_to_string c (JNum m) = jc_to_string c (JNum n) \<Longrightarrow> m \<in> N \<Longrightarrow> n \<in> N \<Longrightarrow> m = n" for m n
    using assms(1) by (auto simp: writes_numbers_def dest: inj_onD)
  note neq = num format_string_no_scalar(1-3)
  show ?thesis
    using assms(2-4)
    by (cases a; cases b) (auto simp: neq neq [THEN not_sym] dest: inj format_string_inj split: if_splits)
qed

subsection \<open>Objects in a block array\<close>

text \<open>
  The members of an object in a block array are already indented when the dash is put in front: the
  first key stands two columns past the others.
\<close>

lemma block_item_object: "block_item i (JObj m) s = indent_str i @ ''- '' @ s"
  by (simp add: block_item_def split: option.splits)

lemma indent_str_Suc: "indent_str (Suc n) = ''  '' @ indent_str n"
  by (simp add: indent_str_def)

lemma member_line_cases: "\<exists>rest. member_line i (k, v) s = indent_str i @ format_key k @ '':'' @ rest"
  by (auto simp: member_line_def)

lemma object_in_block:
  assumes "m = (k, v) # (k', v') # kvs" "length vals = length m"
  shows "\<exists>r1 r2. block_item i (JObj m) (format_object m vals (i + 1)) =
    indent_str i @ ''- '' @ indent_str (i + 1) @ format_key k @ '':'' @ r1 @ nl
    @ indent_str (i + 1) @ format_key k' @ '':'' @ r2"
proof -
  obtain a b vs where vals: "vals = a # b # vs" using assms by (metis length_Suc_conv)
  obtain r1 where r1: "member_line (i + 1) (k, v) a = indent_str (i + 1) @ format_key k @ '':'' @ r1"
    using member_line_cases by blast
  obtain r2 where r2: "member_line (i + 1) (k', v') b = indent_str (i + 1) @ format_key k' @ '':'' @ r2"
    using member_line_cases by blast
  have "\<exists>rest. str_join nl (x # y # zs) = x @ nl @ y @ rest" for x y :: rstring and zs
    by (cases zs) auto
  then obtain rest where "format_object m vals (i + 1)
      = member_line (i + 1) (k, v) a @ nl @ member_line (i + 1) (k', v') b @ rest"
    unfolding assms(1) vals by (auto simp: format_object_def)
  then have "block_item i (JObj m) (format_object m vals (i + 1)) =
    indent_str i @ ''- '' @ indent_str (i + 1) @ format_key k @ '':'' @ r1 @ nl
    @ indent_str (i + 1) @ format_key k' @ '':'' @ r2 @ rest"
    by (simp add: block_item_object r1 [simplified] r2 [simplified])
  then show ?thesis by blast
qed

end
