(* ===== verification/Aisp.thy ===== *)
theory Aisp
  imports Text_Format
begin

text \<open>
  The AISP encoder (\<open>aura-core/src/compression/aisp.rs\<close>): each line goes through a chain of
  rewrites by regular expressions. The regex engine is the parameter \<open>regex_lib\<close>: the groups of
  the first match, and replacement of the first or of every match by a template or by a function of
  the groups. A pattern is its source text, here with \<open>%\<close> for the backslash and a backquote for the
  apostrophe. The symbols are in UTF-8.
\<close>

record regex_lib =
  rx_is_match :: "rstring \<Rightarrow> rstring \<Rightarrow> bool"
  rx_captures :: "rstring \<Rightarrow> rstring \<Rightarrow> rstring option list option"
  rx_replace :: "rstring \<Rightarrow> rstring \<Rightarrow> rstring \<Rightarrow> rstring"
  rx_replace_all :: "rstring \<Rightarrow> rstring \<Rightarrow> rstring \<Rightarrow> rstring"
  rx_replace_all_with :: "rstring \<Rightarrow> rstring \<Rightarrow> (rstring option list \<Rightarrow> rstring) \<Rightarrow> rstring"

definition regex :: "rstring \<Rightarrow> rstring" where
  "regex s = map (\<lambda>x. if x = CHR ''%'' then CHR 0x5C else if x = CHR 0x60 then CHR 0x27 else x) s"

datatype AispError =
  Aisp_InvalidInput rstring | UnrecognizedPattern rstring | Aisp_EncodingFailed rstring

record AispEncoder =
  ae_config :: AispConfig

subsection \<open>Symbols and patterns\<close>

record AispSymbols =
  sym_for_all :: rstring
  sym_exists :: rstring
  sym_not_exists :: rstring
  sym_implies :: rstring
  sym_iff :: rstring
  sym_and :: rstring
  sym_or :: rstring
  sym_not :: rstring
  sym_element_of :: rstring
  sym_not_element_of :: rstring
  sym_subset :: rstring
  sym_superset :: rstring
  sym_union :: rstring
  sym_intersection :: rstring
  sym_empty_set :: rstring
  sym_defined_as :: rstring
  sym_less_than :: rstring
  sym_greater_than :: rstring
  sym_less_equal :: rstring
  sym_greater_equal :: rstring
  sym_not_equal :: rstring
  sym_approx :: rstring
  sym_lambda :: rstring
  sym_maps_to :: rstring
  sym_compose :: rstring
  sym_arrow_right :: rstring
  sym_arrow_left :: rstring
  sym_arrow_both :: rstring
  sym_infinity :: rstring
  sym_therefore :: rstring
  sym_because :: rstring

definition CORE_SYMBOLS :: AispSymbols where
  "CORE_SYMBOLS =
     \<lparr> sym_for_all = [CHR 0xE2, CHR 0x88, CHR 0x80],
       sym_exists = [CHR 0xE2, CHR 0x88, CHR 0x83],
       sym_not_exists = [CHR 0xE2, CHR 0x88, CHR 0x84],
       sym_implies = [CHR 0xE2, CHR 0x87, CHR 0x92],
       sym_iff = [CHR 0xE2, CHR 0x87, CHR 0x94],
       sym_and = [CHR 0xE2, CHR 0x88, CHR 0xA7],
       sym_or = [CHR 0xE2, CHR 0x88, CHR 0xA8],
       sym_not = [CHR 0xC2, CHR 0xAC],
       sym_element_of = [CHR 0xE2, CHR 0x88, CHR 0x88],
       sym_not_element_of = [CHR 0xE2, CHR 0x88, CHR 0x89],
       sym_subset = [CHR 0xE2, CHR 0x8A, CHR 0x86],
       sym_superset = [CHR 0xE2, CHR 0x8A, CHR 0x87],
       sym_union = [CHR 0xE2, CHR 0x88, CHR 0xAA],
       sym_intersection = [CHR 0xE2, CHR 0x88, CHR 0xA9],
       sym_empty_set = [CHR 0xE2, CHR 0x88, CHR 0x85],
       sym_defined_as = [CHR 0xE2, CHR 0x89, CHR 0x9C],
       sym_less_than = ''<'',
       sym_greater_than = ''>'',
       sym_less_equal = [CHR 0xE2, CHR 0x89, CHR 0xA4],
       sym_greater_equal = [CHR 0xE2, CHR 0x89, CHR 0xA5],
       sym_not_equal = [CHR 0xE2, CHR 0x89, CHR 0xA0],
       sym_approx = [CHR 0xE2, CHR 0x89, CHR 0x88],
       sym_lambda = [CHR 0xCE, CHR 0xBB],
       sym_maps_to = [CHR 0xE2, CHR 0x86, CHR 0xA6],
       sym_compose = [CHR 0xE2, CHR 0x88, CHR 0x98],
       sym_arrow_right = [CHR 0xE2, CHR 0x86, CHR 0x92],
       sym_arrow_left = [CHR 0xE2, CHR 0x86, CHR 0x90],
       sym_arrow_both = [CHR 0xE2, CHR 0x86, CHR 0x94],
       sym_infinity = [CHR 0xE2, CHR 0x88, CHR 0x9E],
       sym_therefore = [CHR 0xE2, CHR 0x88, CHR 0xB4],
       sym_because = [CHR 0xE2, CHR 0x88, CHR 0xB5] \<rparr>"

record AispPatterns =
  pat_for_all :: rstring
  pat_exists :: rstring
  pat_define :: rstring
  pat_equals_def :: rstring
  pat_if_then :: rstring
  pat_when_then :: rstring
  pat_implies_word :: rstring
  pat_and_word :: rstring
  pat_or_word :: rstring
  pat_not_word :: rstring
  pat_greater_than :: rstring
  pat_less_than :: rstring
  pat_at_least :: rstring
  pat_at_most :: rstring
  pat_in_set :: rstring
  pat_not_in_set :: rstring

definition PATTERNS :: AispPatterns where
  "PATTERNS =
     \<lparr> pat_for_all = regex ''(?i)%b(for all|for each|for every|all)%s+(%w+)s?%s+(in|of|from)%s+(%w+)'',
       pat_exists = regex ''(?i)%b(there exists?|exists?|some|at least one)%s+(%w+)%s*(in|of|from|such that|where)?'',
       pat_define = regex ''(?i)%b(define|set|let)%s+(%w+)%s*(as|to|=|:=)%s*(.+)'',
       pat_equals_def = regex ''(?i)^(%w+)%s*=%s*(.+)$'',
       pat_if_then = regex ''(?i)%bif%s+(.+?)%s*,?%s*then%s+(.+)'',
       pat_when_then = regex ''(?i)%bwhen%s+(.+?)%s*,?%s*then%s+(.+)'',
       pat_implies_word = regex ''(?i)%b(.+?)%s+implies%s+(.+)'',
       pat_and_word = regex ''(?i)%s+and%s+'',
       pat_or_word = regex ''(?i)%s+or%s+'',
       pat_not_word = regex ''(?i)%b(not|don`t|doesn`t|isn`t|aren`t|won`t|cannot|can`t)%s+'',
       pat_greater_than = regex ''(?i)(%w+)%s+(is%s+)?(greater than|more than|above|exceeds?|>)%s+(%d+)'',
       pat_less_than = regex ''(?i)(%w+)%s+(is%s+)?(less than|fewer than|below|under|<)%s+(%d+)'',
       pat_at_least = regex ''(?i)(%w+)%s+(is%s+)?(at least|>=|'' @ [CHR 0xE2, CHR 0x89, CHR 0xA5] @ regex '')%s+(%d+)'',
       pat_at_most = regex ''(?i)(%w+)%s+(is%s+)?(at most|<=|'' @ [CHR 0xE2, CHR 0x89, CHR 0xA4] @ regex '')%s+(%d+)'',
       pat_in_set = regex ''(?i)(%w+)%s+(is%s+)?(in|member of|belongs to|'' @ [CHR 0xE2, CHR 0x88, CHR 0x88] @ regex '')%s+(%w+)'',
       pat_not_in_set = regex ''(?i)(%w+)%s+(is%s+)?(not in|not a member of|doesn`t belong to|'' @ [CHR 0xE2, CHR 0x88, CHR 0x89] @ regex '')%s+(%w+)'' \<rparr>"

definition core_reference :: "(rstring \<times> rstring \<times> rstring) list" where
  "core_reference =
    [([CHR 0xE2, CHR 0x88, CHR 0x80], ''for_all'', ''For all / Universal quantifier''),
     ([CHR 0xE2, CHR 0x88, CHR 0x83], ''exists'', ''There exists / Existential quantifier''),
     ([CHR 0xE2, CHR 0x87, CHR 0x92], ''implies'', ''Implies / If-then''),
     ([CHR 0xE2, CHR 0x87, CHR 0x94], ''iff'', ''If and only if / Biconditional''),
     ([CHR 0xE2, CHR 0x88, CHR 0xA7], ''and'', ''Logical AND''),
     ([CHR 0xE2, CHR 0x88, CHR 0xA8], ''or'', ''Logical OR''),
     ([CHR 0xC2, CHR 0xAC], ''not'', ''Logical NOT''),
     ([CHR 0xE2, CHR 0x88, CHR 0x88], ''element_of'', ''Element of / Member of''),
     ([CHR 0xE2, CHR 0x88, CHR 0x89], ''not_element_of'', ''Not an element of''),
     ([CHR 0xE2, CHR 0x89, CHR 0x9C], ''defined_as'', ''Defined as / Definition''),
     (''<'', ''less_than'', ''Less than''),
     (''>'', ''greater_than'', ''Greater than''),
     ([CHR 0xE2, CHR 0x89, CHR 0xA4], ''less_equal'', ''Less than or equal''),
     ([CHR 0xE2, CHR 0x89, CHR 0xA5], ''greater_equal'', ''Greater than or equal'')]"

definition extended_reference :: "(rstring \<times> rstring \<times> rstring) list" where
  "extended_reference =
    [([CHR 0xE2, CHR 0x8A, CHR 0x86], ''subset'', ''Subset of''),
     ([CHR 0xE2, CHR 0x8A, CHR 0x87], ''superset'', ''Superset of''),
     ([CHR 0xE2, CHR 0x88, CHR 0xAA], ''union'', ''Union''),
     ([CHR 0xE2, CHR 0x88, CHR 0xA9], ''intersection'', ''Intersection''),
     ([CHR 0xE2, CHR 0x88, CHR 0x85], ''empty_set'', ''Empty set''),
     ([CHR 0xCE, CHR 0xBB], ''lambda'', ''Lambda / Function''),
     ([CHR 0xE2, CHR 0x86, CHR 0xA6], ''maps_to'', ''Maps to''),
     ([CHR 0xE2, CHR 0x86, CHR 0x92], ''arrow'', ''Arrow / Function type''),
     ([CHR 0xE2, CHR 0x88, CHR 0x9E], ''infinity'', ''Infinity''),
     ([CHR 0xE2, CHR 0x88, CHR 0xB4], ''therefore'', ''Therefore''),
     ([CHR 0xE2, CHR 0x88, CHR 0xB5], ''because'', ''Because'')]"

definition symbol_reference :: "AispEncoder \<Rightarrow> (rstring \<times> rstring \<times> rstring) list" where
  "symbol_reference e =
     core_reference @ (if symbol_set (ae_config e) \<noteq> Core then extended_reference else [])"

subsection \<open>The rewrites\<close>

definition AispEncoder_new :: AispEncoder where
  "AispEncoder_new = \<lparr> ae_config = AispConfig_default \<rparr>"

definition AispEncoder_with_config :: "AispConfig \<Rightarrow> AispEncoder" where
  "AispEncoder_with_config c = \<lparr> ae_config = c \<rparr>"

text \<open>\<open>caps.get(i).map(as_str).unwrap_or(d)\<close>.\<close>

definition group :: "rstring option list \<Rightarrow> nat \<Rightarrow> rstring \<Rightarrow> rstring" where
  "group caps i d = (if i < length caps then (case caps ! i of Some s \<Rightarrow> s | None \<Rightarrow> d) else d)"

text \<open>\<open>format!("{} {} {}", ..)\<close>.\<close>

definition spaced :: "rstring \<Rightarrow> rstring \<Rightarrow> rstring \<Rightarrow> rstring" where
  "spaced a s b = a @ '' '' @ s @ '' '' @ b"

definition aisp_definitions :: "regex_lib \<Rightarrow> rstring \<Rightarrow> rstring" where
  "aisp_definitions X s =
     (case rx_captures X (pat_define PATTERNS) s of
        Some caps \<Rightarrow> spaced (group caps 2 []) (sym_defined_as CORE_SYMBOLS) (group caps 4 [])
      | None \<Rightarrow>
          (case rx_captures X (pat_equals_def PATTERNS) s of
             Some caps \<Rightarrow> spaced (group caps 1 []) (sym_defined_as CORE_SYMBOLS) (group caps 2 [])
           | None \<Rightarrow> s))"

definition lower_initial :: "unicode \<Rightarrow> rstring \<Rightarrow> rstring" where
  "lower_initial U var = u_to_lowercase U (case str_chars var of ch # _ \<Rightarrow> ch | [] \<Rightarrow> ''x'')"

definition aisp_quantifiers :: "unicode \<Rightarrow> regex_lib \<Rightarrow> rstring \<Rightarrow> rstring" where
  "aisp_quantifiers U X s =
     (let s = (case rx_captures X (pat_for_all PATTERNS) s of
                 Some caps \<Rightarrow>
                   rx_replace X (pat_for_all PATTERNS) s
                     (sym_for_all CORE_SYMBOLS @ lower_initial U (group caps 2 ''x'')
                      @ sym_element_of CORE_SYMBOLS @ group caps 4 [] @ '':'')
               | None \<Rightarrow> s)
      in case rx_captures X (pat_exists PATTERNS) s of
           Some caps \<Rightarrow>
             (let suffix = group caps 3 [];
                  head = sym_exists CORE_SYMBOLS @ lower_initial U (group caps 2 ''x'')
              in rx_replace X (pat_exists PATTERNS) s
                   (if suffix = [] \<or> suffix = ''such that'' \<or> suffix = ''where'' then head @ '':'' else head))
         | None \<Rightarrow> s)"

definition aisp_implication :: "regex_lib \<Rightarrow> rstring \<Rightarrow> rstring \<Rightarrow> rstring" where
  "aisp_implication X pattern s =
     (case rx_captures X pattern s of
        Some caps \<Rightarrow>
          spaced (str_trim (group caps 1 [])) (sym_implies CORE_SYMBOLS) (str_trim (group caps 2 []))
      | None \<Rightarrow> s)"

definition aisp_rules :: "regex_lib \<Rightarrow> rstring \<Rightarrow> rstring" where
  "aisp_rules X s =
     (let s = aisp_implication X (pat_if_then PATTERNS) s;
          s = aisp_implication X (pat_when_then PATTERNS) s
      in rx_replace_all_with X (pat_implies_word PATTERNS) s (\<lambda>caps.
           spaced (str_trim (group caps 1 [])) (sym_implies CORE_SYMBOLS) (str_trim (group caps 2 []))))"

definition aisp_logic :: "regex_lib \<Rightarrow> rstring \<Rightarrow> rstring" where
  "aisp_logic X s =
     (let s = rx_replace_all X (pat_and_word PATTERNS) s ('' '' @ sym_and CORE_SYMBOLS @ '' '');
          s = rx_replace_all X (pat_or_word PATTERNS) s ('' '' @ sym_or CORE_SYMBOLS @ '' '')
      in rx_replace_all X (pat_not_word PATTERNS) s (sym_not CORE_SYMBOLS))"

text \<open>The two groups around a relation, with its symbol between them.\<close>

definition aisp_relation :: "regex_lib \<Rightarrow> rstring \<Rightarrow> rstring \<Rightarrow> rstring \<Rightarrow> rstring" where
  "aisp_relation X pattern symbol s =
     (case rx_captures X pattern s of
        Some caps \<Rightarrow> rx_replace X pattern s (spaced (group caps 1 []) symbol (group caps 4 []))
      | None \<Rightarrow> s)"

definition aisp_comparisons :: "regex_lib \<Rightarrow> rstring \<Rightarrow> rstring" where
  "aisp_comparisons X s =
     (let s = aisp_relation X (pat_greater_than PATTERNS) (sym_greater_than CORE_SYMBOLS) s;
          s = aisp_relation X (pat_less_than PATTERNS) (sym_less_than CORE_SYMBOLS) s;
          s = aisp_relation X (pat_at_least PATTERNS) (sym_greater_equal CORE_SYMBOLS) s
      in aisp_relation X (pat_at_most PATTERNS) (sym_less_equal CORE_SYMBOLS) s)"

definition aisp_membership :: "regex_lib \<Rightarrow> rstring \<Rightarrow> rstring" where
  "aisp_membership X s =
     (let s = aisp_relation X (pat_not_in_set PATTERNS) (sym_not_element_of CORE_SYMBOLS) s
      in aisp_relation X (pat_in_set PATTERNS) (sym_element_of CORE_SYMBOLS) s)"

definition encode_line :: "unicode \<Rightarrow> regex_lib \<Rightarrow> AispEncoder \<Rightarrow> rstring \<Rightarrow> AispError + rstring" where
  "encode_line U X e s =
     (let s = (if convert_definitions (ae_config e) then aisp_definitions X s else s);
          s = (if convert_quantifiers (ae_config e) then aisp_quantifiers U X s else s);
          s = (if convert_rules (ae_config e) then aisp_rules X s else s)
      in Inr (aisp_membership X (aisp_comparisons X (aisp_logic X s))))"

definition aisp_encode :: "unicode \<Rightarrow> regex_lib \<Rightarrow> AispEncoder \<Rightarrow> rstring \<Rightarrow> AispError + rstring" where
  "aisp_encode U X e s =
     (if 1 < length (str_lines s)
      then map_sum id (str_join nl) (collect_results (map (encode_line U X e) (str_lines s)))
      else encode_line U X e s)"

lemma aisp_encode_total: "\<exists>r. aisp_encode U X e s = Inr r"
proof -
  have "\<exists>xs. collect_results (map (encode_line U X e) (str_lines s)) = Inr xs"
    by (intro collect_results_all) (auto simp: encode_line_def Let_def)
  then show ?thesis by (auto simp: aisp_encode_def encode_line_def Let_def)
qed

subsection \<open>What a rewrite forgets\<close>

text \<open>
  A definition or an implication is put together from its groups alone: the text of the line around
  the match is gone.
\<close>

lemma aisp_definitions_groups:
  "rx_captures X (pat_define PATTERNS) s = Some caps \<Longrightarrow> rx_captures X (pat_define PATTERNS) t = Some caps \<Longrightarrow>
     aisp_definitions X s = aisp_definitions X t"
  by (simp add: aisp_definitions_def)

lemma aisp_implication_groups:
  "rx_captures X p s = Some caps \<Longrightarrow> rx_captures X p t = Some caps \<Longrightarrow>
     aisp_implication X p s = aisp_implication X p t"
  by (simp add: aisp_implication_def)

text \<open>A line in which no pattern is found is kept.\<close>

definition no_pattern :: "regex_lib \<Rightarrow> rstring \<Rightarrow> bool" where
  "no_pattern X s \<longleftrightarrow> (\<forall>p. rx_captures X p s = None)
     \<and> (\<forall>p r. rx_replace_all X p s r = s) \<and> (\<forall>p f. rx_replace_all_with X p s f = s)"

lemma encode_line_plain: "no_pattern X s \<Longrightarrow> encode_line U X e s = Inr s"
  by (simp add: no_pattern_def encode_line_def aisp_definitions_def aisp_quantifiers_def aisp_rules_def
      aisp_implication_def aisp_logic_def aisp_comparisons_def aisp_relation_def aisp_membership_def)

end
