(* ===== verification/Smart_Compress.thy ===== *)
theory Smart_Compress
  imports Toon Yaml Aisp
begin

text \<open>
  The selection of a compression format (\<open>aura-core/src/compression/selector.rs\<close>) and the entry
  point of the module (\<open>mod.rs\<close>). The JSON codec, the regex engine, the Unicode tables and the time
  a compression took are parameters, in the record \<open>compress_env\<close>.
\<close>

record compress_env =
  ce_codec :: json_codec
  ce_regex :: regex_lib
  ce_unicode :: unicode

datatype CompressionError =
  CmpJson JsonError | CmpToon ToonError | CmpYaml YamlError | CmpAisp AispError
  | CmpInvalidInput rstring | CmpFailed rstring

definition RULE_PATTERNS :: "rstring list" where
  "RULE_PATTERNS =
    [regex ''(?i)%bif%s+.+%s+then%b'',
     regex ''(?i)%bwhen%s+.+%s+then%b'',
     regex ''(?i)%bfor (all|each|every)%b'',
     regex ''(?i)%b(must|should|shall|will)%s+(not%s+)?(be|have|allow|deny|reject)%b'',
     regex ''(?i)%b(always|never|only)%s+%w+%b'',
     regex ''(?i)%bvalidate%s+that%b'',
     regex ''(?i)%bensure%s+that%b'']"

record SmartCompressionResult =
  scr_content :: rstring
  scr_strategies :: "CompressionStrategy list"

record SmartCompressor =
  sc_json :: JsonCompressor
  sc_toon :: ToonEncoder
  sc_yaml :: YamlConverter
  sc_aisp :: AispEncoder
  sc_config :: CompressionConfig

definition SmartCompressor_new :: SmartCompressor where
  "SmartCompressor_new =
     \<lparr> sc_json = JsonCompressor_new, sc_toon = ToonEncoder_new, sc_yaml = YamlConverter_new,
       sc_aisp = AispEncoder_new, sc_config = CompressionConfig_default \<rparr>"

definition SmartCompressor_from_config :: "CompressionConfig \<Rightarrow> SmartCompressor" where
  "SmartCompressor_from_config c =
     \<lparr> sc_json = (if minify_json c then JsonCompressor_aggressive else JsonCompressor_minify_only),
       sc_toon = ToonEncoder_with_config (cfg_toon c), sc_yaml = YamlConverter_with_config (cfg_yaml c),
       sc_aisp = AispEncoder_with_config (cfg_aisp c), sc_config = c \<rparr>"

subsection \<open>Analysis\<close>

definition detect_rules :: "compress_env \<Rightarrow> rstring \<Rightarrow> bool" where
  "detect_rules E s \<longleftrightarrow> (\<exists>p \<in> set RULE_PATTERNS. rx_is_match (ce_regex E) p s)"

definition max_of :: "nat list \<Rightarrow> nat" where
  "max_of ns = (if ns = [] then 0 else Max (set ns))"

fun object_depth :: "json \<Rightarrow> nat" where
  "object_depth (JObj m) = 1 + max_of (map (\<lambda>(k, v). object_depth v) m)"
| "object_depth (JArr vs) = max_of (map object_depth vs)"
| "object_depth _ = 0"

definition detect_structure :: "SmartCompressor \<Rightarrow> json \<Rightarrow> StructureType" where
  "detect_structure z v =
     (case v of
        JArr arr \<Rightarrow>
          if arr = [] then ST_Unknown
          else if is_uniform_array (sc_toon z) arr then UniformArray
          else if list_all is_array arr then Tabular
          else Mixed
      | JObj m \<Rightarrow>
          if 2 < object_depth v then NestedObject
          else if \<exists>x \<in> set (map snd m). is_array x then Mixed
          else ST_Unknown
      | JStr _ \<Rightarrow> ST_Text
      | _ \<Rightarrow> ST_Unknown)"

definition analyze :: "compress_env \<Rightarrow> SmartCompressor \<Rightarrow> rstring \<Rightarrow> CompressionAnalysis" where
  "analyze E z s =
     (let rules = detect_rules E s;
          semantic = (if rules then SF_Aisp else Natural)
      in case jc_from_str (ce_codec E) s of
           Inr v \<Rightarrow>
             (let st = detect_structure z v;
                  (format, savings) = (case st of
                    UniformArray \<Rightarrow> (DF_Toon, f32_lit 45 100)
                  | NestedObject \<Rightarrow> (DF_Yaml, f32_lit 20 100)
                  | Tabular \<Rightarrow> (DF_Toon, f32_lit 50 100)
                  | _ \<Rightarrow> (JsonCompact, f32_lit 15 100))
              in \<lparr> recommended_format = format, recommended_semantic = semantic, estimated_savings = savings,
                   has_rules = rules, has_uniform_arrays = (st = UniformArray),
                   has_nested_objects = (st = NestedObject), structure_type = st \<rparr>)
         | Inl _ \<Rightarrow>
             \<lparr> recommended_format = JsonCompact, recommended_semantic = semantic,
               estimated_savings = (if rules then f32_lit 10 100 else f32_lit 5 100), has_rules = rules,
               has_uniform_arrays = False, has_nested_objects = False, structure_type = ST_Text \<rparr>)"

subsection \<open>Markdown\<close>

definition bar_line :: "rstring list \<Rightarrow> rstring" where
  "bar_line cells = ''| '' @ str_join '' | '' cells @ '' |''"

definition markdown_cell :: "json_codec \<Rightarrow> json option \<Rightarrow> rstring" where
  "markdown_cell c v =
     (case v of
        Some (JStr s) \<Rightarrow> s
      | Some JNull \<Rightarrow> []
      | Some w \<Rightarrow> jc_to_string c w
      | None \<Rightarrow> [])"

definition to_markdown_table :: "compress_env \<Rightarrow> SmartCompressor \<Rightarrow> json \<Rightarrow> rstring" where
  "to_markdown_table E z v =
     (case v of
        JArr (JObj first # rest) \<Rightarrow>
          (let headers = map fst first
           in str_join nl
                ([bar_line headers, bar_line (map (\<lambda>_. ''---'') headers)]
                 @ map (\<lambda>obj. bar_line (map (\<lambda>h. markdown_cell (ce_codec E) (map_of obj h)) headers))
                     (List.map_filter as_object (JObj first # rest))))
      | _ \<Rightarrow> JsonCompressor_compress (ce_codec E) (sc_json z) (jc_to_string (ce_codec E) v))"

subsection \<open>Compression\<close>

text \<open>The value is written, and read again by each format.\<close>

definition compress_value_with_strategy ::
    "compress_env \<Rightarrow> SmartCompressor \<Rightarrow> json \<Rightarrow> CompressionAnalysis \<Rightarrow> CompressionStrategy list \<Rightarrow>
     CompressionError + SmartCompressionResult" where
  "compress_value_with_strategy E z v a used =
     (let written = jc_to_string (ce_codec E) v;
          format = (if auto_select (sc_config z) then recommended_format a else data_format (sc_config z));
          json_minify = Inr (JsonMinify, JsonCompressor_compress (ce_codec E) (sc_json z) written);
          outcome =
            (case format of
               DF_Toon \<Rightarrow>
                 (case toon_compress (ce_codec E) (sc_toon z) written of
                    Inr r \<Rightarrow> Inr (CS_Toon, r) | Inl _ \<Rightarrow> json_minify)
             | DF_Yaml \<Rightarrow>
                 (case yaml_compress (ce_codec E) (sc_yaml z) written of
                    Inl e \<Rightarrow> Inl (CmpYaml e) | Inr r \<Rightarrow> Inr (CS_Yaml, r))
             | DF_Markdown \<Rightarrow>
                 if structure_type a = Tabular then Inr (CS_Markdown, to_markdown_table E z v) else json_minify
             | _ \<Rightarrow> json_minify)
      in case outcome of
           Inl e \<Rightarrow> Inl e
         | Inr (strategy, content) \<Rightarrow>
             (let used = used @ [strategy]
              in Inr \<lparr> scr_content = content,
                       scr_strategies = (if 1 < length used then used @ [Hybrid] else used) \<rparr>))"

definition compress_smart ::
    "compress_env \<Rightarrow> SmartCompressor \<Rightarrow> rstring \<Rightarrow> CompressionError + SmartCompressionResult" where
  "compress_smart E z s =
     (let a = analyze E z s;
          step = (if has_rules a \<and> semantic_format (sc_config z) = SF_Aisp
                  then (case aisp_encode (ce_unicode E) (ce_regex E) (sc_aisp z) s of
                          Inl e \<Rightarrow> Inl (CmpAisp e) | Inr p \<Rightarrow> Inr (p, [CS_Aisp]))
                  else Inr (s, []))
      in case step of
           Inl e \<Rightarrow> Inl e
         | Inr (processed, used) \<Rightarrow>
             (case jc_from_str (ce_codec E) (str_trim processed) of
                Inr v \<Rightarrow> compress_value_with_strategy E z v a used
              | Inl _ \<Rightarrow>
                  Inr \<lparr> scr_content = processed,
                        scr_strategies = (if used = [] then [TokenCleanup] else used) \<rparr>))"

definition compress_smart_legacy :: "compress_env \<Rightarrow> SmartCompressor \<Rightarrow> rstring \<Rightarrow> CompressionError + rstring" where
  "compress_smart_legacy E z s = map_sum id scr_content (compress_smart E z s)"

subsection \<open>The builder\<close>

record SmartCompressorBuilder =
  scb_config :: CompressionConfig

definition SmartCompressor_builder :: SmartCompressorBuilder where
  "SmartCompressor_builder = \<lparr> scb_config = CompressionConfig_default \<rparr>"

definition SCB_auto_select :: "SmartCompressorBuilder \<Rightarrow> bool \<Rightarrow> SmartCompressorBuilder" where
  "SCB_auto_select b x = b\<lparr> scb_config := scb_config b\<lparr> auto_select := x \<rparr> \<rparr>"

definition SCB_data_format :: "SmartCompressorBuilder \<Rightarrow> DataFormat \<Rightarrow> SmartCompressorBuilder" where
  "SCB_data_format b x = b\<lparr> scb_config := scb_config b\<lparr> data_format := x \<rparr> \<rparr>"

definition SCB_semantic_format :: "SmartCompressorBuilder \<Rightarrow> SemanticFormat \<Rightarrow> SmartCompressorBuilder" where
  "SCB_semantic_format b x = b\<lparr> scb_config := scb_config b\<lparr> semantic_format := x \<rparr> \<rparr>"

definition SCB_minify_json :: "SmartCompressorBuilder \<Rightarrow> bool \<Rightarrow> SmartCompressorBuilder" where
  "SCB_minify_json b x = b\<lparr> scb_config := scb_config b\<lparr> minify_json := x \<rparr> \<rparr>"

definition SCB_token_cleanup :: "SmartCompressorBuilder \<Rightarrow> bool \<Rightarrow> SmartCompressorBuilder" where
  "SCB_token_cleanup b x = b\<lparr> scb_config := scb_config b\<lparr> token_cleanup := x \<rparr> \<rparr>"

definition SCB_build :: "SmartCompressorBuilder \<Rightarrow> SmartCompressor" where
  "SCB_build b = SmartCompressor_from_config (scb_config b)"

subsection \<open>The entry point\<close>

record CompressedOutput =
  co_content :: rstring
  co_original_content :: "rstring option"
  co_metadata :: CompressionMetadata

definition compress_content ::
    "compress_env \<Rightarrow> u32 \<Rightarrow> rstring \<Rightarrow> CompressionConfig \<Rightarrow> CompressionError + CompressedOutput" where
  "compress_content E elapsed s config =
     (if \<not> cmp_enabled config
      then Inr \<lparr> co_content = s, co_original_content = None, co_metadata = CompressionMetadata_none \<rparr>
      else (case compress_smart E (SmartCompressor_from_config config) s of
              Inl e \<Rightarrow> Inl e
            | Inr result \<Rightarrow>
                (let original = estimate_tokens s; compressed = estimate_tokens (scr_content result)
                 in Inr \<lparr> co_content = scr_content result, co_original_content = Some s,
                      co_metadata = CompressionMetadata_default\<lparr>
                        original_tokens := Some original, compressed_tokens := Some compressed,
                        cm_ratio := Some (f32_div (to_f32 (of_nat (unat compressed))) (to_f32 (of_nat (unat original)))),
                        latency_ms := Some elapsed, strategies := scr_strategies result \<rparr> \<rparr>)))"

subsection \<open>Compression answers\<close>

lemma compress_value_total: "\<exists>r. compress_value_with_strategy E z v a ss = Inr r"
proof -
  obtain y t where "yaml_compress (ce_codec E) (sc_yaml z) (jc_to_string (ce_codec E) v) = Inr y"
    "toon_compress (ce_codec E) (sc_toon z) (jc_to_string (ce_codec E) v) = Inr t"
    using yaml_compress_total toon_compress_total by blast
  then show ?thesis by (simp add: compress_value_with_strategy_def Let_def split: DataFormat.split)
qed

lemma compress_smart_total: "\<exists>r. compress_smart E z s = Inr r"
  using aisp_encode_total [of "ce_unicode E" "ce_regex E" "sc_aisp z" s]
  by (auto simp: compress_smart_def Let_def compress_value_total split: sum.splits if_splits)

lemma compress_content_total: "\<exists>r. compress_content E n s config = Inr r"
  using compress_smart_total [of E "SmartCompressor_from_config config" s]
  by (auto simp: compress_content_def Let_def)

text \<open>No rules in force and no JSON: the text itself, reported as cleaned up.\<close>

lemma compress_smart_text:
  assumes "\<not> detect_rules E s \<or> semantic_format (sc_config z) \<noteq> SF_Aisp"
    and "jc_from_str (ce_codec E) (str_trim s) = Inl e"
  shows "compress_smart E z s = Inr \<lparr> scr_content = s, scr_strategies = [TokenCleanup] \<rparr>"
proof -
  have "has_rules (analyze E z s) = detect_rules E s"
    by (simp add: analyze_def Let_def split: sum.splits prod.splits)
  with assms have "(has_rules (analyze E z s) \<and> semantic_format (sc_config z) = SF_Aisp) = False" by blast
  with assms(2) show ?thesis by (simp only: compress_smart_def Let_def) simp
qed

subsection \<open>Markdown is never written\<close>

lemma analyze_structure:
  "structure_type (analyze E z s) =
     (case jc_from_str (ce_codec E) s of Inr v \<Rightarrow> detect_structure z v | Inl _ \<Rightarrow> ST_Text)"
  by (simp add: analyze_def Let_def split: sum.splits prod.splits)

lemma tabular_not_object:
  "detect_structure z v = Tabular \<Longrightarrow> \<exists>vs rest. v = JArr (JArr vs # rest)"
proof -
  assume t: "detect_structure z v = Tabular"
  then obtain arr where v: "v = JArr arr" and arr: "arr \<noteq> []" "list_all is_array arr"
    by (auto simp: detect_structure_def split: json.splits if_splits)
  then obtain x xs where "arr = x # xs" "is_array x" by (cases arr) auto
  with v show ?thesis by (cases x) auto
qed

lemma markdown_is_json:
  "detect_structure z v = Tabular \<Longrightarrow> to_markdown_table E z v
     = JsonCompressor_compress (ce_codec E) (sc_json z) (jc_to_string (ce_codec E) v)"
  using tabular_not_object [of z v] by (auto simp: to_markdown_table_def)

end
