(* ===== verification/Db_Models.thy ===== *)
theory Db_Models
  imports Json_Map
begin

text \<open>
  The rows of the database (\<open>aura-db/src/models.rs\<close>): one record per table and one per insertion. An
  identifier is a number that is only compared, a time the microseconds since an epoch.
\<close>

type_synonym uuid = nat
type_synonym utc = int
type_synonym i32 = "32 word"
type_synonym i64 = "64 word"

subsection \<open>Rows\<close>

record Conversation =
  cv_id :: uuid
  cv_user_id :: "rstring option"
  cv_title :: "rstring option"
  cv_model_id :: rstring
  cv_metadata :: "json option"
  cv_created_at :: utc
  cv_updated_at :: utc

record NewConversation =
  nc_user_id :: "rstring option"
  nc_title :: "rstring option"
  nc_model_id :: rstring
  nc_metadata :: "json option"

record Message =
  ms_id :: uuid
  ms_conversation_id :: uuid
  ms_role :: rstring
  ms_content :: rstring
  ms_metadata :: "json option"
  ms_created_at :: utc

record NewMessage =
  nm_conversation_id :: uuid
  nm_role :: rstring
  nm_content :: rstring
  nm_metadata :: "json option"

record RequestLog =
  rl_id :: uuid
  rl_response_id :: rstring
  rl_conversation_id :: "uuid option"
  rl_provider_name :: rstring
  rl_model_id :: rstring
  rl_user_id :: "rstring option"
  rl_input_tokens :: "i32 option"
  rl_output_tokens :: "i32 option"
  rl_cached_tokens :: "i32 option"
  rl_reasoning_tokens :: "i32 option"
  rl_cost_usd :: "f64 option"
  rl_latency_ms :: "i32 option"
  rl_status :: rstring
  rl_error_code :: "rstring option"
  rl_error_message :: "rstring option"
  rl_metadata :: "json option"
  rl_request_body :: "json option"
  rl_response_body :: "json option"
  rl_created_at :: utc

record NewRequestLog =
  nl_response_id :: rstring
  nl_conversation_id :: "uuid option"
  nl_provider_name :: rstring
  nl_model_id :: rstring
  nl_user_id :: "rstring option"
  nl_input_tokens :: "i32 option"
  nl_output_tokens :: "i32 option"
  nl_cached_tokens :: "i32 option"
  nl_reasoning_tokens :: "i32 option"
  nl_cost_usd :: "f64 option"
  nl_latency_ms :: "i32 option"
  nl_status :: rstring
  nl_error_code :: "rstring option"
  nl_error_message :: "rstring option"
  nl_metadata :: "json option"
  nl_request_body :: "json option"
  nl_response_body :: "json option"

record ResponseRecord =
  rr_id :: rstring
  rr_conversation_id :: uuid
  rr_model_id :: rstring
  rr_status :: rstring
  rr_previous_response_id :: "rstring option"
  rr_input_items :: json
  rr_output_items :: json
  rr_usage_input_tokens :: "i32 option"
  rr_usage_output_tokens :: "i32 option"
  rr_usage_cached_tokens :: "i32 option"
  rr_usage_reasoning_tokens :: "i32 option"
  rr_usage_cost_usd :: "f64 option"
  rr_error_code :: "rstring option"
  rr_error_message :: "rstring option"
  rr_incomplete_reason :: "rstring option"
  rr_metadata :: "json option"
  rr_created_at :: utc
  rr_updated_at :: utc

record NewResponse =
  nr_id :: rstring
  nr_conversation_id :: uuid
  nr_model_id :: rstring
  nr_status :: rstring
  nr_previous_response_id :: "rstring option"
  nr_input_items :: json
  nr_output_items :: json
  nr_usage_input_tokens :: "i32 option"
  nr_usage_output_tokens :: "i32 option"
  nr_usage_cached_tokens :: "i32 option"
  nr_usage_reasoning_tokens :: "i32 option"
  nr_usage_cost_usd :: "f64 option"
  nr_error_code :: "rstring option"
  nr_error_message :: "rstring option"
  nr_incomplete_reason :: "rstring option"
  nr_metadata :: "json option"

record ApiKey =
  ak_id :: uuid
  ak_key_id :: rstring
  ak_key_hash :: rstring
  ak_name :: rstring
  ak_description :: "rstring option"
  ak_user_id :: "rstring option"
  ak_organization_id :: "uuid option"
  ak_scopes :: json
  ak_rate_limit_rpm :: "i32 option"
  ak_monthly_token_limit :: "i64 option"
  ak_daily_message_limit :: "i32 option"
  ak_current_month_tokens :: i64
  ak_usage_reset_month :: "rstring option"
  ak_status :: rstring
  ak_expires_at :: "utc option"
  ak_last_used_at :: "utc option"
  ak_allowed_ips :: "json option"
  ak_metadata :: "json option"
  ak_scope_type :: "rstring option"
  ak_scope_id :: "uuid option"
  ak_created_at :: utc
  ak_updated_at :: utc

record NewApiKey =
  nk_key_id :: rstring
  nk_key_hash :: rstring
  nk_name :: rstring
  nk_description :: "rstring option"
  nk_user_id :: "rstring option"
  nk_organization_id :: "uuid option"
  nk_scopes :: json
  nk_rate_limit_rpm :: "i32 option"
  nk_monthly_token_limit :: "i64 option"
  nk_daily_message_limit :: "i32 option"
  nk_expires_at :: "utc option"
  nk_allowed_ips :: "json option"
  nk_metadata :: "json option"
  nk_scope_type :: "rstring option"
  nk_scope_id :: "uuid option"

record ApiKeyUsage =
  au_id :: uuid
  au_api_key_id :: uuid
  au_request_id :: rstring
  au_model_id :: rstring
  au_provider_name :: rstring
  au_input_tokens :: i32
  au_output_tokens :: i32
  au_cached_tokens :: "i32 option"
  au_reasoning_tokens :: "i32 option"
  au_cost_usd :: "f64 option"
  au_end_user_id :: "uuid option"
  au_end_user_external_id :: "rstring option"
  au_created_at :: utc

record NewApiKeyUsage =
  nu_api_key_id :: uuid
  nu_request_id :: rstring
  nu_model_id :: rstring
  nu_provider_name :: rstring
  nu_input_tokens :: i32
  nu_output_tokens :: i32
  nu_cached_tokens :: "i32 option"
  nu_reasoning_tokens :: "i32 option"
  nu_cost_usd :: "f64 option"
  nu_end_user_id :: "uuid option"
  nu_end_user_external_id :: "rstring option"

record Organization =
  og_id :: uuid
  og_name :: rstring
  og_slug :: rstring
  og_owner_id :: rstring
  og_settings :: "json option"
  og_created_at :: utc
  og_updated_at :: utc

record NewOrganization =
  no_name :: rstring
  no_slug :: rstring
  no_owner_id :: rstring
  no_settings :: "json option"

record Team =
  tm_id :: uuid
  tm_organization_id :: uuid
  tm_name :: rstring
  tm_slug :: rstring
  tm_description :: "rstring option"
  tm_monthly_token_limit :: "i64 option"
  tm_current_month_tokens :: i64
  tm_usage_reset_month :: "rstring option"
  tm_settings :: "json option"
  tm_created_at :: utc
  tm_updated_at :: utc

record NewTeam =
  nt_organization_id :: uuid
  nt_name :: rstring
  nt_slug :: rstring
  nt_description :: "rstring option"
  nt_monthly_token_limit :: "i64 option"
  nt_settings :: "json option"

record Project =
  pj_id :: uuid
  pj_team_id :: uuid
  pj_name :: rstring
  pj_slug :: rstring
  pj_description :: "rstring option"
  pj_monthly_token_limit :: "i64 option"
  pj_current_month_tokens :: i64
  pj_usage_reset_month :: "rstring option"
  pj_status :: rstring
  pj_settings :: "json option"
  pj_created_at :: utc
  pj_updated_at :: utc

record NewProject =
  np_team_id :: uuid
  np_name :: rstring
  np_slug :: rstring
  np_description :: "rstring option"
  np_monthly_token_limit :: "i64 option"
  np_settings :: "json option"

record EndUser =
  eu_id :: uuid
  eu_organization_id :: uuid
  eu_external_id :: rstring
  eu_name :: "rstring option"
  eu_email :: "rstring option"
  eu_total_input_tokens :: i64
  eu_total_output_tokens :: i64
  eu_total_cost_usd :: f64
  eu_request_count :: i64
  eu_rate_limit_rpm :: "i32 option"
  eu_monthly_token_limit :: "i64 option"
  eu_current_month_tokens :: i64
  eu_usage_reset_month :: "rstring option"
  eu_is_blocked :: bool
  eu_metadata :: "json option"
  eu_first_seen_at :: utc
  eu_last_seen_at :: utc
  eu_created_at :: utc
  eu_updated_at :: utc

record NewEndUser =
  ne_organization_id :: uuid
  ne_external_id :: rstring
  ne_name :: "rstring option"
  ne_email :: "rstring option"
  ne_metadata :: "json option"

record RoutingDecision =
  rd_id :: uuid
  rd_response_id :: rstring
  rd_provider_response_id :: "rstring option"
  rd_organization_id :: "uuid option"
  rd_api_key_id :: "uuid option"
  rd_conversation_id :: "uuid option"
  rd_requested_model :: rstring
  rd_mode :: rstring
  rd_classifier :: rstring
  rd_score :: f64
  rd_raw_score :: f64
  rd_classified_tier :: rstring
  rd_tier :: rstring
  rd_selected_model :: rstring
  rd_selected_provider :: "rstring option"
  rd_reason :: rstring
  rd_shadow :: bool
  rd_features :: json
  rd_signals :: json
  rd_hard_filters :: "rstring list"
  rd_candidates :: json
  rd_requested_blended_per_million :: "f64 option"
  rd_selected_blended_per_million :: "f64 option"
  rd_decision_latency_us :: i32
  rd_escalations :: "json option"
  rd_synthetic :: bool
  rd_created_at :: utc
  rd_boundaries :: "json option"

record NewRoutingDecision =
  nd_response_id :: rstring
  nd_provider_response_id :: "rstring option"
  nd_organization_id :: "uuid option"
  nd_api_key_id :: "uuid option"
  nd_conversation_id :: "uuid option"
  nd_requested_model :: rstring
  nd_mode :: rstring
  nd_classifier :: rstring
  nd_score :: f64
  nd_raw_score :: f64
  nd_classified_tier :: rstring
  nd_tier :: rstring
  nd_selected_model :: rstring
  nd_selected_provider :: "rstring option"
  nd_reason :: rstring
  nd_shadow :: bool
  nd_features :: json
  nd_signals :: json
  nd_hard_filters :: "rstring list"
  nd_candidates :: json
  nd_requested_blended_per_million :: "f64 option"
  nd_selected_blended_per_million :: "f64 option"
  nd_decision_latency_us :: i32
  nd_escalations :: json
  nd_synthetic :: bool
  nd_boundaries :: "json option"

subsection \<open>API keys\<close>

datatype ApiKeyStatus = KS_Active | KS_Revoked | KS_Expired

fun ApiKeyStatus_display :: "ApiKeyStatus \<Rightarrow> rstring" where
  "ApiKeyStatus_display KS_Active = ''active''"
| "ApiKeyStatus_display KS_Revoked = ''revoked''"
| "ApiKeyStatus_display KS_Expired = ''expired''"

definition ApiKeyStatus_from_str :: "rstring \<Rightarrow> rstring + ApiKeyStatus" where
  "ApiKeyStatus_from_str s =
     (if s = ''active'' then Inr KS_Active
      else if s = ''revoked'' then Inr KS_Revoked
      else if s = ''expired'' then Inr KS_Expired
      else Inl (''Unknown API key status: '' @ s))"

definition ApiKey_is_valid :: "utc \<Rightarrow> ApiKey \<Rightarrow> bool" where
  "ApiKey_is_valid now k \<longleftrightarrow>
     ak_status k = ''active'' \<and> (case ak_expires_at k of Some e \<Rightarrow> now < e | None \<Rightarrow> True)"

definition ApiKey_has_scope :: "ApiKey \<Rightarrow> rstring \<Rightarrow> bool" where
  "ApiKey_has_scope k scope \<longleftrightarrow>
     (case ak_scopes k of
        JArr scopes \<Rightarrow> (\<exists>s \<in> set scopes. s = JStr scope \<or> s = JStr ''*'')
      | _ \<Rightarrow> False)"

fun json_str :: "json \<Rightarrow> rstring option" where
  "json_str (JStr s) = Some s"
| "json_str _ = None"

definition ApiKey_get_scopes :: "ApiKey \<Rightarrow> rstring list" where
  "ApiKey_get_scopes k = (case ak_scopes k of JArr arr \<Rightarrow> List.map_filter json_str arr | _ \<Rightarrow> [])"

text \<open>The sum of two \<open>i64\<close> panics on overflow in a debug build and wraps in release.\<close>

definition EndUser_total_tokens :: "EndUser \<Rightarrow> i64" where
  "EndUser_total_tokens u = eu_total_input_tokens u + eu_total_output_tokens u"

lemma ApiKeyStatus_round_trip: "ApiKeyStatus_from_str (ApiKeyStatus_display s) = Inr s"
  by (cases s) (simp_all add: ApiKeyStatus_from_str_def)

lemma json_str_Some: "json_str v = Some s \<longleftrightarrow> v = JStr s"
  by (cases v) auto

lemma has_scope_iff: "ApiKey_has_scope k s \<longleftrightarrow> s \<in> set (ApiKey_get_scopes k) \<or> ''*'' \<in> set (ApiKey_get_scopes k)"
proof (cases "ak_scopes k")
  case (JArr arr)
  have "t \<in> set (List.map_filter json_str arr) \<longleftrightarrow> JStr t \<in> set arr" for t
    by (induction arr) (auto simp: map_filter_simps json_str_Some split: option.splits)
  with JArr show ?thesis by (auto simp: ApiKey_has_scope_def ApiKey_get_scopes_def)
qed (simp_all add: ApiKey_has_scope_def ApiKey_get_scopes_def)

end
