(* ===== verification/Db.thy ===== *)
theory Db
  imports Db_Models Commands
begin

text \<open>
  The queries of the gateway on its database (\<open>aura-db/src/repo.rs\<close>), as functions on tables. A table
  is the list of its rows in the order of insertion. Keys, foreign keys, defaults, cascades and the
  trigger are those of \<open>migrations/\<close>. Any query may fail, by its number, and then changes nothing;
  an identifier the database chooses is a fresh one. A column of type \<open>NUMERIC\<close> that is not null
  cannot be read as a floating-point number (\<open>migrations/20260524_022\<close> says so): reading it panics.
\<close>

datatype DbError =
  Db_Connection rstring | Db_NotFound rstring rstring | Db_Duplicate rstring rstring
  | Db_Migration rstring | Db_Config rstring

definition DbError_not_found :: "rstring \<Rightarrow> rstring \<Rightarrow> DbError" where
  "DbError_not_found entity i = Db_NotFound entity i"

definition DbError_duplicate :: "rstring \<Rightarrow> rstring \<Rightarrow> DbError" where
  "DbError_duplicate entity key = Db_Duplicate entity key"

definition DbError_config :: "rstring \<Rightarrow> DbError" where
  "DbError_config msg = Db_Config msg"

record db =
  db_conversations :: "Conversation list"
  db_messages :: "Message list"
  db_responses :: "ResponseRecord list"
  db_request_logs :: "RequestLog list"
  db_api_keys :: "ApiKey list"
  db_usage :: "ApiKeyUsage list"
  db_organizations :: "Organization list"
  db_teams :: "Team list"
  db_projects :: "Project list"
  db_end_users :: "EndUser list"
  db_decisions :: "RoutingDecision list"
  db_next_uuid :: uuid
  db_now :: utc
  db_queries :: nat
  db_fails :: "nat \<Rightarrow> bool"
  db_numeric_cost :: bool

type_synonym 'a query = "db \<Rightarrow> db \<times> (DbError + 'a)"

definition db_query :: "(db \<Rightarrow> db \<times> (rstring + 'a)) \<Rightarrow> 'a query" where
  "db_query f s =
     (let s' = s\<lparr> db_queries := db_queries s + 1 \<rparr>
      in if db_fails s (db_queries s) then (s', Inl (Db_Connection ''connection lost''))
         else (case f s' of
                 (_, Inl e) \<Rightarrow> (s', Inl (Db_Connection e))
               | (t, Inr x) \<Rightarrow> (t, Inr x)))"

definition db_read :: "(db \<Rightarrow> 'a) \<Rightarrow> 'a query" where
  "db_read f = db_query (\<lambda>s. (s, Inr (f s)))"

definition db_write :: "(db \<Rightarrow> db) \<Rightarrow> unit query" where
  "db_write f = db_query (\<lambda>s. (f s, Inr ()))"

text \<open>\<open>ORDER BY\<close>, \<open>LIMIT\<close> and \<open>OFFSET\<close>; a negative one is an error.\<close>

definition oldest_first :: "('a \<Rightarrow> utc) \<Rightarrow> 'a list \<Rightarrow> 'a list" where
  "oldest_first t rows = sort_key t rows"

definition newest_first :: "('a \<Rightarrow> utc) \<Rightarrow> 'a list \<Rightarrow> 'a list" where
  "newest_first t rows = sort_key (\<lambda>r. - t r) rows"

definition db_page :: "i64 \<Rightarrow> i64 \<Rightarrow> (db \<Rightarrow> 'a list) \<Rightarrow> 'a list query" where
  "db_page limit offset f =
     db_query (\<lambda>s. (s,
       if sint limit < 0 then Inl ''LIMIT must not be negative''
       else if sint offset < 0 then Inl ''OFFSET must not be negative''
       else Inr (take (nat (sint limit)) (drop (nat (sint offset)) (f s)))))"

text \<open>\<open>VARCHAR(n)\<close> counts characters.\<close>

definition fits :: "nat \<Rightarrow> rstring option \<Rightarrow> bool" where
  "fits n v = (case v of Some s \<Rightarrow> length (str_chars s) \<le> n | None \<Rightarrow> True)"

text \<open>\<open>COALESCE\<close>, and the merge of two \<open>JSONB\<close> values.\<close>

definition coalesce :: "'a option \<Rightarrow> 'a option \<Rightarrow> 'a option" where
  "coalesce a b = (case a of Some x \<Rightarrow> Some x | None \<Rightarrow> b)"

definition jsonb_elements :: "json \<Rightarrow> json list" where
  "jsonb_elements v = (case v of JArr vs \<Rightarrow> vs | _ \<Rightarrow> [v])"

definition jsonb_concat :: "json \<Rightarrow> json \<Rightarrow> json" where
  "jsonb_concat a b =
     (case (a, b) of
        (JObj m, JObj n) \<Rightarrow> JObj (fold (\<lambda>(k, v). obj_insert k v) n m)
      | _ \<Rightarrow> JArr (jsonb_elements a @ jsonb_elements b))"

definition jsonb_patch :: "json option \<Rightarrow> json option \<Rightarrow> json option" where
  "jsonb_patch old patch =
     (case patch of
        None \<Rightarrow> old
      | Some p \<Rightarrow> Some (jsonb_concat (case old of Some v \<Rightarrow> v | None \<Rightarrow> JObj []) p))"

subsection \<open>Conversations and messages\<close>

definition ConversationRepo_create :: "NewConversation \<Rightarrow> Conversation query" where
  "ConversationRepo_create new = db_query (\<lambda>s.
     if \<not> fits 100 (nc_user_id new) \<or> \<not> fits 500 (nc_title new) \<or> \<not> fits 100 (Some (nc_model_id new))
     then (s, Inl ''value too long'')
     else (let row = \<lparr> cv_id = db_next_uuid s, cv_user_id = nc_user_id new, cv_title = nc_title new,
                  cv_model_id = nc_model_id new, cv_metadata = nc_metadata new,
                  cv_created_at = db_now s, cv_updated_at = db_now s \<rparr>
           in (s\<lparr> db_conversations := db_conversations s @ [row], db_next_uuid := Suc (db_next_uuid s) \<rparr>, Inr row)))"

definition ConversationRepo_get_by_id :: "uuid \<Rightarrow> Conversation option query" where
  "ConversationRepo_get_by_id i = db_read (\<lambda>s. find (\<lambda>c. cv_id c = i) (db_conversations s))"

definition ConversationRepo_get_by_user :: "rstring \<Rightarrow> i64 \<Rightarrow> Conversation list query" where
  "ConversationRepo_get_by_user user limit =
     db_page limit 0 (\<lambda>s. newest_first cv_updated_at (filter (\<lambda>c. cv_user_id c = Some user) (db_conversations s)))"

definition ConversationRepo_update_title :: "uuid \<Rightarrow> rstring \<Rightarrow> unit query" where
  "ConversationRepo_update_title i title = db_query (\<lambda>s.
     if (\<exists>c \<in> set (db_conversations s). cv_id c = i) \<and> \<not> fits 500 (Some title) then (s, Inl ''value too long'')
     else (s\<lparr> db_conversations := map (\<lambda>c. if cv_id c = i
             then c\<lparr> cv_title := Some title, cv_updated_at := db_now s \<rparr> else c) (db_conversations s) \<rparr>, Inr ()))"

definition ConversationRepo_delete :: "uuid \<Rightarrow> unit query" where
  "ConversationRepo_delete i = db_write (\<lambda>s. s\<lparr>
     db_conversations := filter (\<lambda>c. cv_id c \<noteq> i) (db_conversations s),
     db_messages := filter (\<lambda>m. ms_conversation_id m \<noteq> i) (db_messages s),
     db_responses := filter (\<lambda>r. rr_conversation_id r \<noteq> i) (db_responses s),
     db_request_logs := map (\<lambda>l. if rl_conversation_id l = Some i then l\<lparr> rl_conversation_id := None \<rparr> else l)
       (db_request_logs s) \<rparr>)"

text \<open>\<open>&s[..n]\<close> panics past the end and inside a character.\<close>

definition is_char_boundary :: "rstring \<Rightarrow> nat \<Rightarrow> bool" where
  "is_char_boundary s n \<longleftrightarrow>
     n = length s \<or> n < length s \<and> \<not> (0x80 \<le> byte_of (s ! n) \<and> byte_of (s ! n) < 0xC0)"

definition str_prefix :: "rstring \<Rightarrow> nat \<Rightarrow> rstring panics" where
  "str_prefix s n = (if is_char_boundary s n then Some (take n s) else None)"

definition auto_title :: "rstring \<Rightarrow> rstring panics" where
  "auto_title first_message =
     (if 100 < length first_message
      then map_option (\<lambda>p. p @ ''...'') (str_prefix first_message 97)
      else Some first_message)"

definition create_with_auto_title ::
    "rstring option \<Rightarrow> rstring \<Rightarrow> rstring \<Rightarrow> db \<Rightarrow> (db \<times> (DbError + Conversation)) panics" where
  "create_with_auto_title user_id model_id first_message s =
     map_option (\<lambda>title. ConversationRepo_create
         \<lparr> nc_user_id = user_id, nc_title = Some title, nc_model_id = model_id, nc_metadata = None \<rparr> s)
       (auto_title first_message)"

definition conversation_exists :: "db \<Rightarrow> uuid \<Rightarrow> bool" where
  "conversation_exists s i \<longleftrightarrow> (\<exists>c \<in> set (db_conversations s). cv_id c = i)"

definition message_roles :: "rstring list" where
  "message_roles = [''user'', ''assistant'', ''system'', ''tool'']"

definition MessageRepo_create :: "NewMessage \<Rightarrow> Message query" where
  "MessageRepo_create new = db_query (\<lambda>s.
     if \<not> conversation_exists s (nm_conversation_id new) then (s, Inl ''foreign key violation'')
     else if nm_role new \<notin> set message_roles then (s, Inl ''check violation'')
     else (let row = \<lparr> ms_id = db_next_uuid s, ms_conversation_id = nm_conversation_id new,
                  ms_role = nm_role new, ms_content = nm_content new, ms_metadata = nm_metadata new,
                  ms_created_at = db_now s \<rparr>
           in (s\<lparr> db_messages := db_messages s @ [row], db_next_uuid := Suc (db_next_uuid s) \<rparr>, Inr row)))"

definition MessageRepo_get_by_conversation :: "uuid \<Rightarrow> Message list query" where
  "MessageRepo_get_by_conversation i =
     db_read (\<lambda>s. oldest_first ms_created_at (filter (\<lambda>m. ms_conversation_id m = i) (db_messages s)))"

subsection \<open>Request logs\<close>

definition log_fits :: "NewRequestLog \<Rightarrow> bool" where
  "log_fits new \<longleftrightarrow> fits 100 (Some (nl_response_id new)) \<and> fits 50 (Some (nl_provider_name new))
     \<and> fits 100 (Some (nl_model_id new)) \<and> fits 100 (nl_user_id new) \<and> fits 20 (Some (nl_status new))
     \<and> fits 50 (nl_error_code new)"

definition log_row :: "db \<Rightarrow> NewRequestLog \<Rightarrow> RequestLog" where
  "log_row s new =
     \<lparr> rl_id = db_next_uuid s, rl_response_id = nl_response_id new, rl_conversation_id = nl_conversation_id new,
       rl_provider_name = nl_provider_name new, rl_model_id = nl_model_id new, rl_user_id = nl_user_id new,
       rl_input_tokens = nl_input_tokens new, rl_output_tokens = nl_output_tokens new,
       rl_cached_tokens = nl_cached_tokens new, rl_reasoning_tokens = nl_reasoning_tokens new,
       rl_cost_usd = nl_cost_usd new, rl_latency_ms = nl_latency_ms new, rl_status = nl_status new,
       rl_error_code = nl_error_code new, rl_error_message = nl_error_message new,
       rl_metadata = nl_metadata new, rl_request_body = nl_request_body new,
       rl_response_body = nl_response_body new, rl_created_at = db_now s \<rparr>"

text \<open>The row is stored before the returned one is decoded.\<close>

definition insert_log :: "NewRequestLog \<Rightarrow> RequestLog query" where
  "insert_log new = db_query (\<lambda>s.
     if \<not> log_fits new then (s, Inl ''value too long'')
     else if \<not> (case nl_conversation_id new of Some i \<Rightarrow> conversation_exists s i | None \<Rightarrow> True)
     then (s, Inl ''foreign key violation'')
     else (s\<lparr> db_request_logs := db_request_logs s @ [log_row s new], db_next_uuid := Suc (db_next_uuid s) \<rparr>,
           Inr (log_row s new)))"

definition RequestLogRepo_create :: "NewRequestLog \<Rightarrow> db \<Rightarrow> db \<times> (DbError + RequestLog) panics" where
  "RequestLogRepo_create new s =
     (case insert_log new s of
        (s', Inr row) \<Rightarrow>
          (s', if db_numeric_cost s' \<and> rl_cost_usd row \<noteq> None then None else Some (Inr row))
      | (s', Inl e) \<Rightarrow> (s', Some (Inl e)))"

subsection \<open>Responses\<close>

definition response_row :: "db \<Rightarrow> NewResponse \<Rightarrow> ResponseRecord" where
  "response_row s new =
     \<lparr> rr_id = nr_id new, rr_conversation_id = nr_conversation_id new, rr_model_id = nr_model_id new,
       rr_status = nr_status new, rr_previous_response_id = nr_previous_response_id new,
       rr_input_items = nr_input_items new, rr_output_items = nr_output_items new,
       rr_usage_input_tokens = nr_usage_input_tokens new, rr_usage_output_tokens = nr_usage_output_tokens new,
       rr_usage_cached_tokens = nr_usage_cached_tokens new,
       rr_usage_reasoning_tokens = nr_usage_reasoning_tokens new,
       rr_usage_cost_usd = nr_usage_cost_usd new, rr_error_code = nr_error_code new,
       rr_error_message = nr_error_message new, rr_incomplete_reason = nr_incomplete_reason new,
       rr_metadata = nr_metadata new, rr_created_at = db_now s, rr_updated_at = db_now s \<rparr>"

definition response_fits :: "NewResponse \<Rightarrow> bool" where
  "response_fits new \<longleftrightarrow> fits 100 (Some (nr_id new)) \<and> fits 100 (Some (nr_model_id new))
     \<and> fits 100 (nr_previous_response_id new) \<and> fits 50 (nr_error_code new) \<and> fits 50 (nr_incomplete_reason new)"

definition response_statuses :: "rstring list" where
  "response_statuses = [''in_progress'', ''completed'', ''failed'', ''incomplete'', ''cancelled'']"

definition ResponseRepo_create :: "NewResponse \<Rightarrow> ResponseRecord query" where
  "ResponseRepo_create new = db_query (\<lambda>s.
     if \<not> response_fits new then (s, Inl ''value too long'')
     else if nr_status new \<notin> set response_statuses
     then (s, Inl ''check violation'')
     else if \<exists>r \<in> set (db_responses s). rr_id r = nr_id new then (s, Inl ''duplicate key'')
     else if \<not> conversation_exists s (nr_conversation_id new) then (s, Inl ''foreign key violation'')
     else (s\<lparr> db_responses := db_responses s @ [response_row s new] \<rparr>, Inr (response_row s new)))"

definition find_response :: "rstring \<Rightarrow> db \<Rightarrow> ResponseRecord option" where
  "find_response i s = find (\<lambda>r. rr_id r = i) (db_responses s)"

definition find_conversation_by_response_id :: "rstring \<Rightarrow> uuid option query" where
  "find_conversation_by_response_id i = db_read (\<lambda>s. map_option rr_conversation_id (find_response i s))"

definition find_model_by_id :: "rstring \<Rightarrow> rstring option query" where
  "find_model_by_id i = db_read (\<lambda>s. map_option rr_model_id (find_response i s))"

definition find_output_items_by_id :: "rstring \<Rightarrow> json option query" where
  "find_output_items_by_id i = db_read (\<lambda>s. map_option rr_output_items (find_response i s))"

definition ResponseRepo_get_by_conversation :: "uuid \<Rightarrow> ResponseRecord list query" where
  "ResponseRepo_get_by_conversation i =
     db_read (\<lambda>s. oldest_first rr_created_at (filter (\<lambda>r. rr_conversation_id r = i) (db_responses s)))"

end
