(* ===== verification/Db_Tenants.thy ===== *)
theory Db_Tenants
  imports Db
begin

text \<open>
  The queries on API keys, their usage, organizations, teams, projects, end users and routing
  decisions (\<open>aura-db/src/repo.rs\<close>).
\<close>

subsection \<open>API keys\<close>

text \<open>
  The row an insertion makes: what the statement does not name has its default, which is
  \<open>organization\<close> for the type of the scope and nothing for its identifier.
\<close>

definition api_key_row :: "db \<Rightarrow> NewApiKey \<Rightarrow> ApiKey" where
  "api_key_row s new =
     \<lparr> ak_id = db_next_uuid s, ak_key_id = nk_key_id new, ak_key_hash = nk_key_hash new, ak_name = nk_name new,
       ak_description = nk_description new, ak_user_id = nk_user_id new,
       ak_organization_id = nk_organization_id new, ak_scopes = nk_scopes new,
       ak_rate_limit_rpm = nk_rate_limit_rpm new, ak_monthly_token_limit = nk_monthly_token_limit new,
       ak_daily_message_limit = nk_daily_message_limit new, ak_current_month_tokens = 0,
       ak_usage_reset_month = None, ak_status = ''active'', ak_expires_at = nk_expires_at new,
       ak_last_used_at = None, ak_allowed_ips = nk_allowed_ips new, ak_metadata = nk_metadata new,
       ak_scope_type = Some ''organization'', ak_scope_id = None,
       ak_created_at = db_now s, ak_updated_at = db_now s \<rparr>"

definition ApiKeyRepo_create :: "NewApiKey \<Rightarrow> ApiKey query" where
  "ApiKeyRepo_create new = db_query (\<lambda>s.
     if \<not> fits 50 (Some (nk_key_id new)) \<or> \<not> fits 128 (Some (nk_key_hash new)) \<or> \<not> fits 200 (Some (nk_name new))
        \<or> \<not> fits 100 (nk_user_id new)
     then (s, Inl ''value too long'')
     else if \<exists>k \<in> set (db_api_keys s). ak_key_id k = nk_key_id new then (s, Inl ''duplicate key'')
     else (s\<lparr> db_api_keys := db_api_keys s @ [api_key_row s new], db_next_uuid := Suc (db_next_uuid s) \<rparr>,
           Inr (api_key_row s new)))"

definition find_api_key :: "rstring \<Rightarrow> db \<Rightarrow> ApiKey option" where
  "find_api_key key_id s = find (\<lambda>k. ak_key_id k = key_id) (db_api_keys s)"

definition ApiKeyRepo_find_by_key_id :: "rstring \<Rightarrow> ApiKey option query" where
  "ApiKeyRepo_find_by_key_id key_id = db_read (find_api_key key_id)"

definition ApiKeyRepo_find_by_id :: "uuid \<Rightarrow> ApiKey option query" where
  "ApiKeyRepo_find_by_id i = db_read (\<lambda>s. find (\<lambda>k. ak_id k = i) (db_api_keys s))"

definition ApiKeyRepo_get_by_user :: "rstring \<Rightarrow> ApiKey list query" where
  "ApiKeyRepo_get_by_user user =
     db_read (\<lambda>s. newest_first ak_created_at (filter (\<lambda>k. ak_user_id k = Some user) (db_api_keys s)))"

definition ApiKeyRepo_get_by_organization :: "uuid \<Rightarrow> ApiKey list query" where
  "ApiKeyRepo_get_by_organization org =
     db_read (\<lambda>s. newest_first ak_created_at (filter (\<lambda>k. ak_organization_id k = Some org) (db_api_keys s)))"

definition ApiKeyRepo_validate :: "rstring \<Rightarrow> rstring \<Rightarrow> ApiKey option query" where
  "ApiKeyRepo_validate key_id key_hash =
     db_read (\<lambda>s. find (\<lambda>k. ak_key_id k = key_id \<and> ak_key_hash k = key_hash \<and> ak_status k = ''active''
        \<and> (case ak_expires_at k of Some e \<Rightarrow> db_now s < e | None \<Rightarrow> True)) (db_api_keys s))"

definition update_api_key :: "uuid \<Rightarrow> (db \<Rightarrow> ApiKey \<Rightarrow> ApiKey) \<Rightarrow> unit query" where
  "update_api_key i f = db_write (\<lambda>s. s\<lparr> db_api_keys :=
     map (\<lambda>k. if ak_id k = i then (f s k)\<lparr> ak_updated_at := db_now s \<rparr> else k) (db_api_keys s) \<rparr>)"

definition ApiKeyRepo_update_last_used :: "uuid \<Rightarrow> unit query" where
  "ApiKeyRepo_update_last_used i = update_api_key i (\<lambda>s k. k\<lparr> ak_last_used_at := Some (db_now s) \<rparr>)"

definition ApiKeyRepo_revoke :: "uuid \<Rightarrow> unit query" where
  "ApiKeyRepo_revoke i = update_api_key i (\<lambda>s k. k\<lparr> ak_status := ''revoked'' \<rparr>)"

definition ApiKeyRepo_delete :: "uuid \<Rightarrow> unit query" where
  "ApiKeyRepo_delete i = db_write (\<lambda>s. s\<lparr>
     db_api_keys := filter (\<lambda>k. ak_id k \<noteq> i) (db_api_keys s),
     db_usage := filter (\<lambda>u. au_api_key_id u \<noteq> i) (db_usage s) \<rparr>)"

subsection \<open>Usage\<close>

definition usage_row :: "db \<Rightarrow> NewApiKeyUsage \<Rightarrow> ApiKeyUsage" where
  "usage_row s new =
     \<lparr> au_id = db_next_uuid s, au_api_key_id = nu_api_key_id new, au_request_id = nu_request_id new,
       au_model_id = nu_model_id new, au_provider_name = nu_provider_name new,
       au_input_tokens = nu_input_tokens new, au_output_tokens = nu_output_tokens new,
       au_cached_tokens = nu_cached_tokens new, au_reasoning_tokens = nu_reasoning_tokens new,
       au_cost_usd = nu_cost_usd new, au_end_user_id = nu_end_user_id new,
       au_end_user_external_id = nu_end_user_external_id new, au_created_at = db_now s \<rparr>"

text \<open>The trigger on the insertion adds the usage to its end user.\<close>

definition aggregate_end_user_usage :: "utc \<Rightarrow> NewApiKeyUsage \<Rightarrow> EndUser \<Rightarrow> EndUser" where
  "aggregate_end_user_usage now new u =
     (if nu_end_user_id new = Some (eu_id u)
      then u\<lparr> eu_total_input_tokens := eu_total_input_tokens u + scast (nu_input_tokens new),
              eu_total_output_tokens := eu_total_output_tokens u + scast (nu_output_tokens new),
              eu_total_cost_usd := f64_add (eu_total_cost_usd u)
                (case nu_cost_usd new of Some c \<Rightarrow> c | None \<Rightarrow> f64_lit 0 1),
              eu_request_count := eu_request_count u + 1,
              eu_current_month_tokens := eu_current_month_tokens u
                + scast (nu_input_tokens new) + scast (nu_output_tokens new),
              eu_last_seen_at := now, eu_updated_at := now \<rparr>
      else u)"

definition ApiKeyUsageRepo_create :: "NewApiKeyUsage \<Rightarrow> ApiKeyUsage query" where
  "ApiKeyUsageRepo_create new = db_query (\<lambda>s.
     if \<not> fits 100 (Some (nu_request_id new)) \<or> \<not> fits 100 (Some (nu_model_id new))
        \<or> \<not> fits 50 (Some (nu_provider_name new)) \<or> \<not> fits 255 (nu_end_user_external_id new)
     then (s, Inl ''value too long'')
     else if \<forall>k \<in> set (db_api_keys s). ak_id k \<noteq> nu_api_key_id new then (s, Inl ''foreign key violation'')
     else if \<not> (case nu_end_user_id new of Some i \<Rightarrow> \<exists>u \<in> set (db_end_users s). eu_id u = i | None \<Rightarrow> True)
     then (s, Inl ''foreign key violation'')
     else (s\<lparr> db_usage := db_usage s @ [usage_row s new], db_next_uuid := Suc (db_next_uuid s),
              db_end_users := map (aggregate_end_user_usage (db_now s) new) (db_end_users s) \<rparr>,
           Inr (usage_row s new)))"

definition ApiKeyUsageRepo_get_by_api_key :: "uuid \<Rightarrow> i64 \<Rightarrow> ApiKeyUsage list query" where
  "ApiKeyUsageRepo_get_by_api_key i limit =
     db_page limit 0 (\<lambda>s. newest_first au_created_at (filter (\<lambda>u. au_api_key_id u = i) (db_usage s)))"

definition ApiKeyUsageRepo_get_by_end_user :: "uuid \<Rightarrow> i64 \<Rightarrow> ApiKeyUsage list query" where
  "ApiKeyUsageRepo_get_by_end_user i limit =
     db_page limit 0 (\<lambda>s. newest_first au_created_at (filter (\<lambda>u. au_end_user_id u = Some i) (db_usage s)))"

subsection \<open>End users\<close>

definition end_user_row :: "db \<Rightarrow> NewEndUser \<Rightarrow> EndUser" where
  "end_user_row s new =
     \<lparr> eu_id = db_next_uuid s, eu_organization_id = ne_organization_id new, eu_external_id = ne_external_id new,
       eu_name = ne_name new, eu_email = ne_email new, eu_total_input_tokens = 0, eu_total_output_tokens = 0,
       eu_total_cost_usd = f64_lit 0 1, eu_request_count = 0, eu_rate_limit_rpm = None,
       eu_monthly_token_limit = None, eu_current_month_tokens = 0, eu_usage_reset_month = None,
       eu_is_blocked = False, eu_metadata = ne_metadata new, eu_first_seen_at = db_now s,
       eu_last_seen_at = db_now s, eu_created_at = db_now s, eu_updated_at = db_now s \<rparr>"

definition end_user_at :: "uuid \<Rightarrow> rstring \<Rightarrow> EndUser \<Rightarrow> bool" where
  "end_user_at org external_id u \<longleftrightarrow> eu_organization_id u = org \<and> eu_external_id u = external_id"

definition merge_end_user :: "db \<Rightarrow> NewEndUser \<Rightarrow> EndUser \<Rightarrow> EndUser" where
  "merge_end_user s new u =
     u\<lparr> eu_name := coalesce (ne_name new) (eu_name u), eu_email := coalesce (ne_email new) (eu_email u),
        eu_metadata := coalesce (ne_metadata new) (eu_metadata u),
        eu_last_seen_at := db_now s, eu_updated_at := db_now s \<rparr>"

definition EndUserRepo_upsert :: "NewEndUser \<Rightarrow> EndUser query" where
  "EndUserRepo_upsert new = db_query (\<lambda>s.
     if \<not> fits 255 (Some (ne_external_id new)) \<or> \<not> fits 255 (ne_name new) \<or> \<not> fits 255 (ne_email new)
     then (s, Inl ''value too long'')
     else if \<forall>g \<in> set (db_organizations s). og_id g \<noteq> ne_organization_id new
     then (s, Inl ''foreign key violation'')
     else (case find (end_user_at (ne_organization_id new) (ne_external_id new)) (db_end_users s) of
             Some u \<Rightarrow>
               (s\<lparr> db_end_users := map (\<lambda>v. if eu_id v = eu_id u then merge_end_user s new v else v) (db_end_users s) \<rparr>,
                Inr (merge_end_user s new u))
           | None \<Rightarrow>
               (s\<lparr> db_end_users := db_end_users s @ [end_user_row s new], db_next_uuid := Suc (db_next_uuid s) \<rparr>,
                Inr (end_user_row s new))))"

definition EndUserRepo_find_by_id :: "uuid \<Rightarrow> EndUser option query" where
  "EndUserRepo_find_by_id i = db_read (\<lambda>s. find (\<lambda>u. eu_id u = i) (db_end_users s))"

definition EndUserRepo_find_by_external_id :: "uuid \<Rightarrow> rstring \<Rightarrow> EndUser option query" where
  "EndUserRepo_find_by_external_id org external_id =
     db_read (\<lambda>s. find (end_user_at org external_id) (db_end_users s))"

definition EndUserRepo_get_by_organization :: "uuid \<Rightarrow> i64 \<Rightarrow> i64 \<Rightarrow> EndUser list query" where
  "EndUserRepo_get_by_organization org limit offset =
     db_page limit offset (\<lambda>s. newest_first eu_last_seen_at (filter (\<lambda>u. eu_organization_id u = org) (db_end_users s)))"

definition update_end_users :: "uuid \<Rightarrow> (EndUser \<Rightarrow> EndUser) \<Rightarrow> unit query" where
  "update_end_users i f = db_write (\<lambda>s. s\<lparr> db_end_users :=
     map (\<lambda>u. if eu_id u = i then (f u)\<lparr> eu_updated_at := db_now s \<rparr> else u) (db_end_users s) \<rparr>)"

definition EndUserRepo_block :: "uuid \<Rightarrow> unit query" where
  "EndUserRepo_block i = update_end_users i (\<lambda>u. u\<lparr> eu_is_blocked := True \<rparr>)"

definition EndUserRepo_unblock :: "uuid \<Rightarrow> unit query" where
  "EndUserRepo_unblock i = update_end_users i (\<lambda>u. u\<lparr> eu_is_blocked := False \<rparr>)"

definition EndUserRepo_set_rate_limit :: "uuid \<Rightarrow> i32 option \<Rightarrow> unit query" where
  "EndUserRepo_set_rate_limit i v = update_end_users i (\<lambda>u. u\<lparr> eu_rate_limit_rpm := v \<rparr>)"

definition EndUserRepo_set_monthly_limit :: "uuid \<Rightarrow> i64 option \<Rightarrow> unit query" where
  "EndUserRepo_set_monthly_limit i v = update_end_users i (\<lambda>u. u\<lparr> eu_monthly_token_limit := v \<rparr>)"

definition EndUserRepo_delete :: "uuid \<Rightarrow> unit query" where
  "EndUserRepo_delete i = db_write (\<lambda>s. s\<lparr>
     db_end_users := filter (\<lambda>u. eu_id u \<noteq> i) (db_end_users s),
     db_usage := map (\<lambda>v. if au_end_user_id v = Some i then v\<lparr> au_end_user_id := None \<rparr> else v) (db_usage s) \<rparr>)"

subsection \<open>Organizations\<close>

definition organization_row :: "db \<Rightarrow> NewOrganization \<Rightarrow> Organization" where
  "organization_row s new =
     \<lparr> og_id = db_next_uuid s, og_name = no_name new, og_slug = no_slug new, og_owner_id = no_owner_id new,
       og_settings = no_settings new, og_created_at = db_now s, og_updated_at = db_now s \<rparr>"

definition OrganizationRepo_create :: "NewOrganization \<Rightarrow> Organization query" where
  "OrganizationRepo_create new = db_query (\<lambda>s.
     if \<not> fits 200 (Some (no_name new)) \<or> \<not> fits 100 (Some (no_slug new)) \<or> \<not> fits 100 (Some (no_owner_id new))
     then (s, Inl ''value too long'')
     else if \<exists>g \<in> set (db_organizations s). og_slug g = no_slug new then (s, Inl ''duplicate key'')
     else (s\<lparr> db_organizations := db_organizations s @ [organization_row s new],
              db_next_uuid := Suc (db_next_uuid s) \<rparr>, Inr (organization_row s new)))"

definition OrganizationRepo_find_by_id :: "uuid \<Rightarrow> Organization option query" where
  "OrganizationRepo_find_by_id i = db_read (\<lambda>s. find (\<lambda>g. og_id g = i) (db_organizations s))"

definition OrganizationRepo_find_by_slug :: "rstring \<Rightarrow> Organization option query" where
  "OrganizationRepo_find_by_slug slug = db_read (\<lambda>s. find (\<lambda>g. og_slug g = slug) (db_organizations s))"

definition OrganizationRepo_list_all :: "i64 \<Rightarrow> i64 \<Rightarrow> Organization list query" where
  "OrganizationRepo_list_all limit offset =
     db_page limit offset (\<lambda>s. newest_first og_created_at (db_organizations s))"

definition patch_organization :: "db \<Rightarrow> rstring option \<Rightarrow> json option \<Rightarrow> Organization \<Rightarrow> Organization" where
  "patch_organization s name settings g =
     g\<lparr> og_name := (case name of Some n \<Rightarrow> n | None \<Rightarrow> og_name g),
        og_settings := jsonb_patch (og_settings g) settings, og_updated_at := db_now s \<rparr>"

definition OrganizationRepo_update :: "uuid \<Rightarrow> rstring option \<Rightarrow> json option \<Rightarrow> Organization query" where
  "OrganizationRepo_update i name settings = db_query (\<lambda>s.
     case find (\<lambda>g. og_id g = i) (db_organizations s) of
       None \<Rightarrow> (s, Inl ''no rows returned by a query that expected to return at least one row'')
     | Some g \<Rightarrow>
         if \<not> fits 200 name then (s, Inl ''value too long'')
         else (s\<lparr> db_organizations := map (\<lambda>h. if og_id h = i then patch_organization s name settings h else h)
                    (db_organizations s) \<rparr>, Inr (patch_organization s name settings g)))"

definition OrganizationRepo_get_settings :: "uuid \<Rightarrow> json option query" where
  "OrganizationRepo_get_settings i =
     db_read (\<lambda>s. Option.bind (find (\<lambda>g. og_id g = i) (db_organizations s)) og_settings)"

text \<open>The teams of the organization, their projects and its end users go with it.\<close>

definition OrganizationRepo_delete :: "uuid \<Rightarrow> unit query" where
  "OrganizationRepo_delete i = db_write (\<lambda>s.
     let gone_team = (\<lambda>t. \<exists>x \<in> set (db_teams s). tm_organization_id x = i \<and> tm_id x = t);
         gone_user = (\<lambda>u. \<exists>x \<in> set (db_end_users s). eu_organization_id x = i \<and> eu_id x = u)
     in s\<lparr> db_organizations := filter (\<lambda>g. og_id g \<noteq> i) (db_organizations s),
           db_teams := filter (\<lambda>t. tm_organization_id t \<noteq> i) (db_teams s),
           db_projects := filter (\<lambda>p. \<not> gone_team (pj_team_id p)) (db_projects s),
           db_end_users := filter (\<lambda>u. eu_organization_id u \<noteq> i) (db_end_users s),
           db_usage := map (\<lambda>v. case au_end_user_id v of
               Some u \<Rightarrow> if gone_user u then v\<lparr> au_end_user_id := None \<rparr> else v | None \<Rightarrow> v) (db_usage s) \<rparr>)"

subsection \<open>Teams and projects\<close>

definition team_row :: "db \<Rightarrow> NewTeam \<Rightarrow> Team" where
  "team_row s new =
     \<lparr> tm_id = db_next_uuid s, tm_organization_id = nt_organization_id new, tm_name = nt_name new,
       tm_slug = nt_slug new, tm_description = nt_description new,
       tm_monthly_token_limit = nt_monthly_token_limit new, tm_current_month_tokens = 0,
       tm_usage_reset_month = None, tm_settings = nt_settings new,
       tm_created_at = db_now s, tm_updated_at = db_now s \<rparr>"

definition TeamRepo_create :: "NewTeam \<Rightarrow> Team query" where
  "TeamRepo_create new = db_query (\<lambda>s.
     if \<not> fits 200 (Some (nt_name new)) \<or> \<not> fits 100 (Some (nt_slug new)) then (s, Inl ''value too long'')
     else if \<exists>t \<in> set (db_teams s). tm_organization_id t = nt_organization_id new \<and> tm_slug t = nt_slug new
     then (s, Inl ''duplicate key'')
     else if \<forall>g \<in> set (db_organizations s). og_id g \<noteq> nt_organization_id new
     then (s, Inl ''foreign key violation'')
     else (s\<lparr> db_teams := db_teams s @ [team_row s new], db_next_uuid := Suc (db_next_uuid s) \<rparr>,
           Inr (team_row s new)))"

definition TeamRepo_find_by_id :: "uuid \<Rightarrow> Team option query" where
  "TeamRepo_find_by_id i = db_read (\<lambda>s. find (\<lambda>t. tm_id t = i) (db_teams s))"

definition TeamRepo_find_by_org_and_slug :: "uuid \<Rightarrow> rstring \<Rightarrow> Team option query" where
  "TeamRepo_find_by_org_and_slug org slug =
     db_read (\<lambda>s. find (\<lambda>t. tm_organization_id t = org \<and> tm_slug t = slug) (db_teams s))"

definition TeamRepo_get_by_organization :: "uuid \<Rightarrow> Team list query" where
  "TeamRepo_get_by_organization org =
     db_read (\<lambda>s. sort_key tm_name (filter (\<lambda>t. tm_organization_id t = org) (db_teams s)))"

definition TeamRepo_update :: "uuid \<Rightarrow> rstring option \<Rightarrow> rstring option \<Rightarrow> i64 option \<Rightarrow> unit query" where
  "TeamRepo_update i name description limit = db_query (\<lambda>s.
     if (\<exists>t \<in> set (db_teams s). tm_id t = i) \<and> \<not> fits 200 name then (s, Inl ''value too long'')
     else (s\<lparr> db_teams := map (\<lambda>t. if tm_id t = i
             then t\<lparr> tm_name := (case name of Some n \<Rightarrow> n | None \<Rightarrow> tm_name t),
                     tm_description := coalesce description (tm_description t),
                     tm_monthly_token_limit := coalesce limit (tm_monthly_token_limit t),
                     tm_updated_at := db_now s \<rparr>
             else t) (db_teams s) \<rparr>, Inr ()))"

definition TeamRepo_delete :: "uuid \<Rightarrow> unit query" where
  "TeamRepo_delete i = db_write (\<lambda>s. s\<lparr>
     db_teams := filter (\<lambda>t. tm_id t \<noteq> i) (db_teams s),
     db_projects := filter (\<lambda>p. pj_team_id p \<noteq> i) (db_projects s) \<rparr>)"

definition project_row :: "db \<Rightarrow> NewProject \<Rightarrow> Project" where
  "project_row s new =
     \<lparr> pj_id = db_next_uuid s, pj_team_id = np_team_id new, pj_name = np_name new, pj_slug = np_slug new,
       pj_description = np_description new, pj_monthly_token_limit = np_monthly_token_limit new,
       pj_current_month_tokens = 0, pj_usage_reset_month = None, pj_status = ''active'',
       pj_settings = np_settings new, pj_created_at = db_now s, pj_updated_at = db_now s \<rparr>"

definition ProjectRepo_create :: "NewProject \<Rightarrow> Project query" where
  "ProjectRepo_create new = db_query (\<lambda>s.
     if \<not> fits 200 (Some (np_name new)) \<or> \<not> fits 100 (Some (np_slug new)) then (s, Inl ''value too long'')
     else if \<exists>p \<in> set (db_projects s). pj_team_id p = np_team_id new \<and> pj_slug p = np_slug new
     then (s, Inl ''duplicate key'')
     else if \<forall>t \<in> set (db_teams s). tm_id t \<noteq> np_team_id new then (s, Inl ''foreign key violation'')
     else (s\<lparr> db_projects := db_projects s @ [project_row s new], db_next_uuid := Suc (db_next_uuid s) \<rparr>,
           Inr (project_row s new)))"

definition ProjectRepo_find_by_id :: "uuid \<Rightarrow> Project option query" where
  "ProjectRepo_find_by_id i = db_read (\<lambda>s. find (\<lambda>p. pj_id p = i) (db_projects s))"

definition ProjectRepo_find_by_team_and_slug :: "uuid \<Rightarrow> rstring \<Rightarrow> Project option query" where
  "ProjectRepo_find_by_team_and_slug team slug =
     db_read (\<lambda>s. find (\<lambda>p. pj_team_id p = team \<and> pj_slug p = slug) (db_projects s))"

definition ProjectRepo_get_by_team :: "uuid \<Rightarrow> Project list query" where
  "ProjectRepo_get_by_team team =
     db_read (\<lambda>s. sort_key pj_name (filter (\<lambda>p. pj_team_id p = team) (db_projects s)))"

definition ProjectRepo_get_active_by_team :: "uuid \<Rightarrow> Project list query" where
  "ProjectRepo_get_active_by_team team =
     db_read (\<lambda>s. sort_key pj_name (filter (\<lambda>p. pj_team_id p = team \<and> pj_status p = ''active'') (db_projects s)))"

definition ProjectRepo_update_status :: "uuid \<Rightarrow> rstring \<Rightarrow> unit query" where
  "ProjectRepo_update_status i status = db_query (\<lambda>s.
     if (\<exists>p \<in> set (db_projects s). pj_id p = i) \<and> status \<notin> {''active'', ''archived''}
     then (s, Inl ''check violation'')
     else (s\<lparr> db_projects := map (\<lambda>p. if pj_id p = i
             then p\<lparr> pj_status := status, pj_updated_at := db_now s \<rparr> else p) (db_projects s) \<rparr>, Inr ()))"

definition ProjectRepo_archive :: "uuid \<Rightarrow> unit query" where
  "ProjectRepo_archive i = ProjectRepo_update_status i ''archived''"

definition ProjectRepo_delete :: "uuid \<Rightarrow> unit query" where
  "ProjectRepo_delete i = db_write (\<lambda>s. s\<lparr> db_projects := filter (\<lambda>p. pj_id p \<noteq> i) (db_projects s) \<rparr>)"

subsection \<open>Routing decisions\<close>

definition decision_row :: "db \<Rightarrow> NewRoutingDecision \<Rightarrow> RoutingDecision" where
  "decision_row s new =
     \<lparr> rd_id = db_next_uuid s, rd_response_id = nd_response_id new,
       rd_provider_response_id = nd_provider_response_id new, rd_organization_id = nd_organization_id new,
       rd_api_key_id = nd_api_key_id new, rd_conversation_id = nd_conversation_id new,
       rd_requested_model = nd_requested_model new, rd_mode = nd_mode new, rd_classifier = nd_classifier new,
       rd_score = nd_score new, rd_raw_score = nd_raw_score new, rd_classified_tier = nd_classified_tier new,
       rd_tier = nd_tier new, rd_selected_model = nd_selected_model new,
       rd_selected_provider = nd_selected_provider new, rd_reason = nd_reason new, rd_shadow = nd_shadow new,
       rd_features = nd_features new, rd_signals = nd_signals new, rd_hard_filters = nd_hard_filters new,
       rd_candidates = nd_candidates new,
       rd_requested_blended_per_million = nd_requested_blended_per_million new,
       rd_selected_blended_per_million = nd_selected_blended_per_million new,
       rd_decision_latency_us = nd_decision_latency_us new, rd_escalations = Some (nd_escalations new),
       rd_synthetic = nd_synthetic new, rd_created_at = db_now s, rd_boundaries = nd_boundaries new \<rparr>"

text \<open>On a conflict the row keeps what the statement does not set.\<close>

definition decision_again :: "NewRoutingDecision \<Rightarrow> RoutingDecision \<Rightarrow> RoutingDecision" where
  "decision_again new d =
     d\<lparr> rd_provider_response_id := coalesce (nd_provider_response_id new) (rd_provider_response_id d),
        rd_conversation_id := coalesce (nd_conversation_id new) (rd_conversation_id d),
        rd_selected_model := nd_selected_model new, rd_selected_provider := nd_selected_provider new,
        rd_tier := nd_tier new, rd_reason := nd_reason new, rd_candidates := nd_candidates new,
        rd_escalations := Some (nd_escalations new),
        rd_boundaries := coalesce (nd_boundaries new) (rd_boundaries d) \<rparr>"

definition decision_fits :: "NewRoutingDecision \<Rightarrow> bool" where
  "decision_fits new \<longleftrightarrow> fits 100 (Some (nd_response_id new)) \<and> fits 100 (nd_provider_response_id new)
     \<and> fits 100 (Some (nd_requested_model new)) \<and> fits 16 (Some (nd_mode new)) \<and> fits 64 (Some (nd_classifier new))
     \<and> fits 16 (Some (nd_classified_tier new)) \<and> fits 16 (Some (nd_tier new))
     \<and> fits 100 (Some (nd_selected_model new)) \<and> fits 50 (nd_selected_provider new)"

definition RoutingDecisionRepo_upsert :: "NewRoutingDecision \<Rightarrow> unit query" where
  "RoutingDecisionRepo_upsert new = db_query (\<lambda>s.
     if \<not> decision_fits new then (s, Inl ''value too long'')
     else if \<exists>d \<in> set (db_decisions s). rd_response_id d = nd_response_id new
     then (s\<lparr> db_decisions := map (\<lambda>d. if rd_response_id d = nd_response_id new then decision_again new d else d)
                (db_decisions s) \<rparr>, Inr ())
     else (s\<lparr> db_decisions := db_decisions s @ [decision_row s new], db_next_uuid := Suc (db_next_uuid s) \<rparr>, Inr ()))"

end
