(* ===== verification/Crypto.thy ===== *)
theory Crypto
  imports Json_Map Sse_Bytes
begin

text \<open>
  API keys and the encryption of provider credentials (\<open>aura-core/src/crypto.rs\<close>). SHA-256, the
  hexadecimal form and AES-256-GCM are parameters, the record \<open>crypto_lib\<close>; random bytes are
  arguments. Bytes are characters.
\<close>

record crypto_lib =
  cl_sha256 :: "rstring \<Rightarrow> rstring"
  cl_hex :: "rstring \<Rightarrow> rstring"
  cl_unhex :: "rstring \<Rightarrow> rstring + rstring"
  cl_encrypt :: "rstring \<Rightarrow> rstring \<Rightarrow> rstring \<Rightarrow> rstring + rstring"
  cl_decrypt :: "rstring \<Rightarrow> rstring \<Rightarrow> rstring \<Rightarrow> rstring + rstring"

datatype CryptoError =
    EncryptionFailed rstring
  | DecryptionFailed rstring
  | InvalidKeyLength nat nat
  | InvalidNonceLength nat nat
  | Base64DecodeError rstring

definition API_KEY_PREFIX_LIVE :: rstring where "API_KEY_PREFIX_LIVE = ''aura_live_''"
definition API_KEY_PREFIX_TEST :: rstring where "API_KEY_PREFIX_TEST = ''aura_test_''"
definition API_KEY_RANDOM_BYTES :: nat where "API_KEY_RANDOM_BYTES = 24"
definition AES_KEY_SIZE :: nat where "AES_KEY_SIZE = 32"
definition NONCE_SIZE :: nat where "NONCE_SIZE = 12"

subsection \<open>API keys\<close>

record GeneratedApiKey =
  gk_key :: rstring
  gk_key_id :: rstring
  gk_key_hash :: rstring

definition hash_api_key :: "crypto_lib \<Rightarrow> rstring \<Rightarrow> rstring" where
  "hash_api_key C key = cl_hex C (cl_sha256 C key)"

definition generate_api_key :: "crypto_lib \<Rightarrow> rstring \<Rightarrow> rstring \<Rightarrow> GeneratedApiKey" where
  "generate_api_key C random_bytes prefix =
     (let identifier = cl_hex C (take 12 random_bytes);
          secret = cl_hex C (drop 12 random_bytes);
          key_id = prefix @ identifier;
          key = key_id @ secret
      in \<lparr> gk_key = key, gk_key_id = key_id, gk_key_hash = hash_api_key C key \<rparr>)"

definition extract_key_id :: "rstring \<Rightarrow> rstring option" where
  "extract_key_id full_key =
     (if starts_with full_key API_KEY_PREFIX_LIVE
      then (let id_end = length API_KEY_PREFIX_LIVE + 24
            in if id_end \<le> length full_key then Some (take id_end full_key) else None)
      else if starts_with full_key API_KEY_PREFIX_TEST
      then (let id_end = length API_KEY_PREFIX_TEST + 24
            in if id_end \<le> length full_key then Some (take id_end full_key) else None)
      else None)"

text \<open>The bytes that differ are collected in one byte, whatever their place.\<close>

definition constant_time_compare :: "u8 list \<Rightarrow> u8 list \<Rightarrow> bool" where
  "constant_time_compare a b =
     (if length a \<noteq> length b then False
      else fold (\<lambda>(x, y) result. or result (xor x y)) (zip a b) 0 = 0)"

definition bytes_of :: "rstring \<Rightarrow> u8 list" where
  "bytes_of s = map (\<lambda>c. of_nat (byte_of c)) s"

definition verify_api_key :: "crypto_lib \<Rightarrow> rstring \<Rightarrow> rstring \<Rightarrow> bool" where
  "verify_api_key C key stored_hash = constant_time_compare (bytes_of (hash_api_key C key)) (bytes_of stored_hash)"

subsection \<open>Envelope encryption\<close>

record DataEncryptionKey =
  dek_key :: rstring

definition DataEncryptionKey_generate :: "rstring \<Rightarrow> DataEncryptionKey" where
  "DataEncryptionKey_generate random_bytes = \<lparr> dek_key = random_bytes \<rparr>"

definition DataEncryptionKey_from_bytes :: "rstring \<Rightarrow> CryptoError + DataEncryptionKey" where
  "DataEncryptionKey_from_bytes bytes =
     (if length bytes \<noteq> AES_KEY_SIZE then Inl (InvalidKeyLength AES_KEY_SIZE (length bytes))
      else Inr \<lparr> dek_key = bytes \<rparr>)"

record MasterKey =
  mk_key :: rstring

definition MasterKey_from_bytes :: "rstring \<Rightarrow> CryptoError + MasterKey" where
  "MasterKey_from_bytes bytes =
     (if length bytes \<noteq> AES_KEY_SIZE then Inl (InvalidKeyLength AES_KEY_SIZE (length bytes))
      else Inr \<lparr> mk_key = bytes \<rparr>)"

definition MasterKey_from_hex :: "crypto_lib \<Rightarrow> rstring \<Rightarrow> CryptoError + MasterKey" where
  "MasterKey_from_hex C hex_key =
     (case cl_unhex C hex_key of
        Inl e \<Rightarrow> Inl (DecryptionFailed e) | Inr bytes \<Rightarrow> MasterKey_from_bytes bytes)"

definition MasterKey_generate :: "rstring \<Rightarrow> MasterKey" where
  "MasterKey_generate random_bytes = \<lparr> mk_key = random_bytes \<rparr>"

definition MasterKey_to_hex :: "crypto_lib \<Rightarrow> MasterKey \<Rightarrow> rstring" where
  "MasterKey_to_hex C k = cl_hex C (mk_key k)"

definition wrap_dek :: "crypto_lib \<Rightarrow> rstring \<Rightarrow> MasterKey \<Rightarrow> DataEncryptionKey \<Rightarrow> CryptoError + rstring" where
  "wrap_dek C nonce_bytes k dek =
     (case cl_encrypt C (mk_key k) nonce_bytes (dek_key dek) of
        Inl e \<Rightarrow> Inl (EncryptionFailed e)
      | Inr ciphertext \<Rightarrow> Inr (nonce_bytes @ ciphertext))"

definition unwrap_dek :: "crypto_lib \<Rightarrow> MasterKey \<Rightarrow> rstring \<Rightarrow> CryptoError + DataEncryptionKey" where
  "unwrap_dek C k wrapped =
     (if length wrapped < NONCE_SIZE then Inl (DecryptionFailed ''Wrapped DEK too short'')
      else (case cl_decrypt C (mk_key k) (take NONCE_SIZE wrapped) (drop NONCE_SIZE wrapped) of
              Inl e \<Rightarrow> Inl (DecryptionFailed e)
            | Inr plaintext \<Rightarrow> DataEncryptionKey_from_bytes plaintext))"

record EncryptedCredential =
  ec_ciphertext :: rstring
  ec_wrapped_dek :: rstring
  ec_nonce :: rstring

definition encryption_params :: "crypto_lib \<Rightarrow> EncryptedCredential \<Rightarrow> json" where
  "encryption_params C e =
     JObj [(''algorithm'', JStr ''AES-256-GCM''), (''nonce'', JStr (cl_hex C (ec_nonce e)))]"

text \<open>The random bytes of the data key, of the nonce that wraps it and of the nonce of the text.\<close>

definition encrypt_credential ::
    "crypto_lib \<Rightarrow> rstring \<Rightarrow> rstring \<Rightarrow> rstring \<Rightarrow> MasterKey \<Rightarrow> rstring \<Rightarrow> CryptoError + EncryptedCredential" where
  "encrypt_credential C dek_bytes wrap_nonce nonce_bytes k api_key =
     (let dek = DataEncryptionKey_generate dek_bytes
      in case wrap_dek C wrap_nonce k dek of
           Inl e \<Rightarrow> Inl e
         | Inr wrapped \<Rightarrow>
             (case cl_encrypt C (dek_key dek) nonce_bytes api_key of
                Inl e \<Rightarrow> Inl (EncryptionFailed e)
              | Inr ciphertext \<Rightarrow>
                  Inr \<lparr> ec_ciphertext = ciphertext, ec_wrapped_dek = wrapped, ec_nonce = nonce_bytes \<rparr>))"

definition decrypt_credential ::
    "crypto_lib \<Rightarrow> MasterKey \<Rightarrow> rstring \<Rightarrow> rstring \<Rightarrow> rstring \<Rightarrow> CryptoError + rstring" where
  "decrypt_credential C k ciphertext wrapped nonce =
     (if length nonce \<noteq> NONCE_SIZE then Inl (InvalidNonceLength NONCE_SIZE (length nonce))
      else (case unwrap_dek C k wrapped of
              Inl e \<Rightarrow> Inl e
            | Inr dek \<Rightarrow>
                (case cl_decrypt C (dek_key dek) nonce ciphertext of
                   Inl e \<Rightarrow> Inl (DecryptionFailed e)
                 | Inr plaintext \<Rightarrow>
                     if is_utf8 plaintext then Inr plaintext
                     else Inl (DecryptionFailed ''invalid utf-8 sequence''))))"

definition parse_encryption_params :: "crypto_lib \<Rightarrow> json \<Rightarrow> CryptoError + rstring" where
  "parse_encryption_params C params =
     (case (case params of
              JObj m \<Rightarrow> (case map_of m ''nonce'' of Some (JStr s) \<Rightarrow> Some s | _ \<Rightarrow> None)
            | _ \<Rightarrow> None) of
        None \<Rightarrow> Inl (DecryptionFailed ''Missing nonce in params'')
      | Some nonce_hex \<Rightarrow>
          (case cl_unhex C nonce_hex of
             Inl e \<Rightarrow> Inl (DecryptionFailed e)
           | Inr nonce \<Rightarrow>
               if length nonce \<noteq> NONCE_SIZE then Inl (InvalidNonceLength NONCE_SIZE (length nonce))
               else Inr nonce))"

subsection \<open>Comparison and keys\<close>

lemma or_zero_iff: "or x y = 0 \<longleftrightarrow> x = 0 \<and> y = (0 :: 'a::len word)"
  by (auto simp: bit_eq_iff bit_simps)

lemma xor_zero_iff: "xor x y = 0 \<longleftrightarrow> x = (y :: 'a::len word)"
  by (auto simp: bit_eq_iff bit_simps)

lemma fold_or_xor:
  "fold (\<lambda>(x, y) result. or result (xor x y)) xys r = 0 \<longleftrightarrow> r = 0 \<and> (\<forall>(x, y) \<in> set xys. x = (y :: u8))"
  by (induction xys arbitrary: r) (auto simp: or_zero_iff xor_zero_iff)

lemma constant_time_compare_eq: "constant_time_compare a b \<longleftrightarrow> a = b"
proof -
  have "length a = length b \<Longrightarrow> (\<forall>(x, y) \<in> set (zip a b). x = y) \<longleftrightarrow> a = b"
    by (induction a b rule: list_induct2) auto
  then show ?thesis by (auto simp: constant_time_compare_def fold_or_xor)
qed

lemma bytes_of_inj: "bytes_of s = bytes_of t \<longleftrightarrow> s = t"
proof -
  have "inj (\<lambda>c. of_nat (byte_of c) :: u8)"
  proof (rule injI)
    fix c d :: char
    assume "(of_nat (byte_of c) :: u8) = of_nat (byte_of d)"
    then have "unat (of_nat (byte_of c) :: u8) = unat (of_nat (byte_of d) :: u8)" by (rule arg_cong)
    then have "byte_of c = byte_of d" by (simp add: unat_of_nat byte_of_def)
    then show "c = d" by (simp add: byte_of_def)
  qed
  then show ?thesis by (simp add: bytes_of_def inj_map_eq_map)
qed

lemma verify_api_key_eq: "verify_api_key C key h \<longleftrightarrow> h = hash_api_key C key"
  by (auto simp: verify_api_key_def constant_time_compare_eq bytes_of_inj)

text \<open>A generated key verifies and names its own identifier.\<close>

definition hex_ok :: "crypto_lib \<Rightarrow> bool" where
  "hex_ok C \<longleftrightarrow> (\<forall>b. length (cl_hex C b) = 2 * length b \<and> cl_unhex C (cl_hex C b) = Inr b)"

lemma generated_key_verifies: "verify_api_key C (gk_key (generate_api_key C bytes p)) (gk_key_hash (generate_api_key C bytes p))"
  by (simp add: verify_api_key_eq generate_api_key_def Let_def)

lemma generated_key_id:
  assumes "hex_ok C" "length bytes = API_KEY_RANDOM_BYTES" "p = API_KEY_PREFIX_LIVE \<or> p = API_KEY_PREFIX_TEST"
  shows "extract_key_id (gk_key (generate_api_key C bytes p)) = Some (gk_key_id (generate_api_key C bytes p))"
proof -
  have len: "length (cl_hex C (take 12 bytes)) = 24"
    using assms(1,2) by (simp add: hex_ok_def API_KEY_RANDOM_BYTES_def)
  from assms(3) show ?thesis
    by (elim disjE)
      (simp_all add: generate_api_key_def extract_key_id_def Let_def len API_KEY_PREFIX_LIVE_def API_KEY_PREFIX_TEST_def)
qed

subsection \<open>Credentials\<close>

definition aead_ok :: "crypto_lib \<Rightarrow> bool" where
  "aead_ok C \<longleftrightarrow> (\<forall>k n m c. cl_encrypt C k n m = Inr c \<longrightarrow> cl_decrypt C k n c = Inr m)"

lemma unwrap_wrap:
  assumes "aead_ok C" "wrap_dek C n k dek = Inr w" "length n = NONCE_SIZE" "length (dek_key dek) = AES_KEY_SIZE"
  shows "unwrap_dek C k w = Inr dek"
proof -
  from assms(2) obtain c where c: "cl_encrypt C (mk_key k) n (dek_key dek) = Inr c" "w = n @ c"
    by (auto simp: wrap_dek_def split: sum.splits)
  with assms show ?thesis
    by (auto simp: unwrap_dek_def aead_ok_def DataEncryptionKey_from_bytes_def)
qed

lemma decrypt_encrypt:
  assumes "aead_ok C" "encrypt_credential C d wn n k key = Inr e"
    and "length d = AES_KEY_SIZE" "length wn = NONCE_SIZE" "length n = NONCE_SIZE" "is_utf8 key"
  shows "decrypt_credential C k (ec_ciphertext e) (ec_wrapped_dek e) (ec_nonce e) = Inr key"
proof -
  let ?dek = "DataEncryptionKey_generate d"
  from assms(2) obtain w c where w: "wrap_dek C wn k ?dek = Inr w"
    and c: "cl_encrypt C (dek_key ?dek) n key = Inr c"
    and e: "e = \<lparr> ec_ciphertext = c, ec_wrapped_dek = w, ec_nonce = n \<rparr>"
    by (auto simp: encrypt_credential_def Let_def split: sum.splits)
  have "unwrap_dek C k w = Inr ?dek"
    using unwrap_wrap [OF assms(1) w assms(4)] assms(3) by (simp add: DataEncryptionKey_generate_def)
  with assms(1,5,6) c e show ?thesis by (auto simp: decrypt_credential_def aead_ok_def)
qed

lemma parse_params:
  "hex_ok C \<Longrightarrow> length (ec_nonce e) = NONCE_SIZE \<Longrightarrow> parse_encryption_params C (encryption_params C e) = Inr (ec_nonce e)"
  by (simp add: parse_encryption_params_def encryption_params_def hex_ok_def)

end
