(* ===== verification/Auth.thy ===== *)
theory Auth
  imports Db_Tenants Crypto
begin

text \<open>
  Authentication and the management of API keys (\<open>aura-proxy/src/routes/auth.rs\<close>). The database is
  the state; whether one is configured, the clock, random bytes and the text of a time are in the
  record \<open>auth_env\<close>. The rest of the service is a parameter, the handler \<open>next\<close>. The update of the
  time of last use runs in the background; here it runs where it is started.
\<close>

record TenantContext =
  tc_organization_id :: "uuid option"
  tc_organization_name :: "rstring option"
  tc_team_id :: "uuid option"
  tc_team_name :: "rstring option"
  tc_project_id :: "uuid option"
  tc_project_name :: "rstring option"
  tc_api_key_id :: rstring

record AuthContext =
  ac_api_key :: ApiKey
  ac_user_id :: "rstring option"
  ac_tenant :: TenantContext

record auth_env =
  ae_crypto :: crypto_lib
  ae_has_db :: bool
  ae_now :: utc
  ae_random :: rstring
  ae_rfc3339 :: "utc \<Rightarrow> rstring"
  ae_min_time :: utc
  ae_max_time :: utc

definition AuthContext_has_scope :: "AuthContext \<Rightarrow> rstring \<Rightarrow> bool" where
  "AuthContext_has_scope a scope = ApiKey_has_scope (ac_api_key a) scope"

subsection \<open>Errors\<close>

record AuthError =
  aerr_code :: rstring
  aerr_message :: rstring

definition missing_auth :: AuthError where
  "missing_auth = \<lparr> aerr_code = ''missing_authentication'',
     aerr_message = ''Missing or invalid Authorization header. Use Bearer token authentication.'' \<rparr>"

definition invalid_key :: AuthError where
  "invalid_key = \<lparr> aerr_code = ''invalid_api_key'',
     aerr_message = ''Invalid API key. Please check your key and try again.'' \<rparr>"

definition expired_key :: AuthError where
  "expired_key = \<lparr> aerr_code = ''expired_api_key'',
     aerr_message = ''API key has expired. Please generate a new key.'' \<rparr>"

definition revoked_key :: AuthError where
  "revoked_key = \<lparr> aerr_code = ''revoked_api_key'', aerr_message = ''API key has been revoked.'' \<rparr>"

definition insufficient_scope :: "rstring \<Rightarrow> AuthError" where
  "insufficient_scope required = \<lparr> aerr_code = ''insufficient_scope'',
     aerr_message = ''API key does not have required scope: '' @ required \<rparr>"

definition AuthError_status :: "AuthError \<Rightarrow> nat" where
  "AuthError_status e =
     (if aerr_code e = ''missing_authentication'' then 401
      else if aerr_code e = ''invalid_api_key'' then 401
      else if aerr_code e = ''expired_api_key'' then 401
      else if aerr_code e = ''revoked_api_key'' then 403
      else if aerr_code e = ''insufficient_scope'' then 403
      else 401)"

definition auth_error_response :: "nat \<Rightarrow> rstring \<Rightarrow> rstring \<Rightarrow> nat \<times> AuthError" where
  "auth_error_response status code message = (status, \<lparr> aerr_code = code, aerr_message = message \<rparr>)"

definition authenticated_user_id :: "AuthContext option \<Rightarrow> (nat \<times> AuthError) + rstring" where
  "authenticated_user_id auth =
     (case Option.bind auth (\<lambda>a. ak_user_id (ac_api_key a)) of
        Some u \<Rightarrow> Inr u
      | None \<Rightarrow> Inl (auth_error_response 401 ''missing_user_context''
          ''Authenticated API key is not associated with a user.''))"

definition ensure_api_key_owner :: "ApiKey \<Rightarrow> rstring \<Rightarrow> (nat \<times> AuthError) + unit" where
  "ensure_api_key_owner k user_id =
     (if ak_user_id k = Some user_id then Inr ()
      else Inl (auth_error_response 403 ''forbidden'' ''API key does not belong to the authenticated user.''))"

subsection \<open>The tenant\<close>

text \<open>\<open>if let Ok(Some(x))\<close>: an error counts as nothing found.\<close>

definition found :: "'a option query \<Rightarrow> db \<Rightarrow> db \<times> 'a option" where
  "found q s = (case q s of (s', Inr r) \<Rightarrow> (s', r) | (s', Inl _) \<Rightarrow> (s', None))"

definition with_organization :: "uuid \<Rightarrow> TenantContext \<Rightarrow> db \<Rightarrow> db \<times> TenantContext" where
  "with_organization i t s =
     (case found (OrganizationRepo_find_by_id i) s of
        (s', Some org) \<Rightarrow>
          (s', t\<lparr> tc_organization_id := Some (og_id org), tc_organization_name := Some (og_name org) \<rparr>)
      | (s', None) \<Rightarrow> (s', t))"

definition with_team :: "uuid \<Rightarrow> TenantContext \<Rightarrow> db \<Rightarrow> db \<times> TenantContext" where
  "with_team i t s =
     (case found (TeamRepo_find_by_id i) s of
        (s', Some team) \<Rightarrow>
          (let t' = t\<lparr> tc_team_id := Some (tm_id team), tc_team_name := Some (tm_name team) \<rparr>
           in if tc_organization_id t' = None then with_organization (tm_organization_id team) t' s' else (s', t'))
      | (s', None) \<Rightarrow> (s', t))"

definition with_project :: "uuid \<Rightarrow> TenantContext \<Rightarrow> db \<Rightarrow> db \<times> TenantContext" where
  "with_project i t s =
     (case found (ProjectRepo_find_by_id i) s of
        (s', Some project) \<Rightarrow>
          with_team (pj_team_id project)
            (t\<lparr> tc_project_id := Some (pj_id project), tc_project_name := Some (pj_name project) \<rparr>) s'
      | (s', None) \<Rightarrow> (s', t))"

definition TenantContext_for :: "rstring \<Rightarrow> TenantContext" where
  "TenantContext_for key_id =
     \<lparr> tc_organization_id = None, tc_organization_name = None, tc_team_id = None, tc_team_name = None,
       tc_project_id = None, tc_project_name = None, tc_api_key_id = key_id \<rparr>"

definition load_tenant_context :: "ApiKey \<Rightarrow> db \<Rightarrow> db \<times> TenantContext" where
  "load_tenant_context k s =
     (let (s1, t1) = (case ak_organization_id k of
            Some org \<Rightarrow> with_organization org (TenantContext_for (ak_key_id k)) s
          | None \<Rightarrow> (s, TenantContext_for (ak_key_id k)))
      in case (ak_scope_type k, ak_scope_id k) of
           (Some scope_type, Some scope_id) \<Rightarrow>
             if scope_type = ''team'' then with_team scope_id t1 s1
             else if scope_type = ''project'' then with_project scope_id t1 s1
             else (s1, t1)
         | _ \<Rightarrow> (s1, t1))"

subsection \<open>Administrators\<close>

record AdminAuthConfig =
  aa_key :: rstring
  aa_no_auth :: bool

text \<open>The two environment variables.\<close>

definition AdminAuthConfig_from_env :: "rstring option \<Rightarrow> rstring option \<Rightarrow> AdminAuthConfig" where
  "AdminAuthConfig_from_env key no_auth =
     (let v = (case no_auth of Some s \<Rightarrow> s | None \<Rightarrow> [])
      in \<lparr> aa_key = (case key of Some k \<Rightarrow> k | None \<Rightarrow> []),
           aa_no_auth = (v = ''1'' \<or> eq_ignore_ascii_case v ''true'') \<rparr>)"

definition bearer_token :: "rstring option \<Rightarrow> rstring option" where
  "bearer_token header =
     (case header of
        Some h \<Rightarrow> if starts_with h ''Bearer '' then Some (drop 7 h) else None
      | None \<Rightarrow> None)"

definition AdminAuthConfig_check :: "AdminAuthConfig \<Rightarrow> rstring option \<Rightarrow> AuthError + unit" where
  "AdminAuthConfig_check a header =
     (if aa_key a = [] then (if aa_no_auth a then Inr () else Inl missing_auth)
      else (case bearer_token header of
              Some token \<Rightarrow> if token = aa_key a then Inr () else Inl invalid_key
            | None \<Rightarrow> Inl missing_auth))"

subsection \<open>The middleware\<close>

definition public_path :: "rstring \<Rightarrow> bool" where
  "public_path path \<longleftrightarrow>
     starts_with path ''/health'' \<or> starts_with path ''/metrics'' \<or> starts_with path ''/openapi''
     \<or> starts_with path ''/swagger-ui'' \<or> starts_with path ''/swagger''"

text \<open>The check of a token against the stored key.\<close>

definition check_api_key :: "auth_env \<Rightarrow> rstring \<Rightarrow> ApiKey \<Rightarrow> AuthError + unit" where
  "check_api_key E token k =
     (if ak_status k = ''revoked'' then Inl revoked_key
      else if ak_status k = ''expired'' \<or> \<not> ApiKey_is_valid (ae_now E) k then Inl expired_key
      else if \<not> verify_api_key (ae_crypto E) token (ak_key_hash k) then Inl invalid_key
      else Inr ())"

definition authenticate ::
    "auth_env \<Rightarrow> AdminAuthConfig \<Rightarrow> rstring \<Rightarrow> rstring option \<Rightarrow> (AuthContext option \<Rightarrow> db \<Rightarrow> db \<times> 'r) \<Rightarrow>
     db \<Rightarrow> db \<times> (AuthError + 'r)" where
  "authenticate E admin path header next_handler s =
     (let run = (\<lambda>auth s. case next_handler auth s of (s', r) \<Rightarrow> (s', Inr r))
      in if public_path path then run None s
         else if starts_with path ''/admin''
         then (case AdminAuthConfig_check admin header of Inl e \<Rightarrow> (s, Inl e) | Inr _ \<Rightarrow> run None s)
         else (case bearer_token header of
                 None \<Rightarrow> if \<not> ae_has_db E then run None s else (s, Inl missing_auth)
               | Some token \<Rightarrow>
                   (case extract_key_id token of
                      None \<Rightarrow> (s, Inl invalid_key)
                    | Some key_id \<Rightarrow>
                        if \<not> ae_has_db E then run None s
                        else (case ApiKeyRepo_find_by_key_id key_id s of
                                (s1, Inl _) \<Rightarrow> (s1, Inl invalid_key)
                              | (s1, Inr None) \<Rightarrow> (s1, Inl invalid_key)
                              | (s1, Inr (Some k)) \<Rightarrow>
                                  (case check_api_key E token k of
                                     Inl e \<Rightarrow> (s1, Inl e)
                                   | Inr _ \<Rightarrow>
                                       (let s2 = fst (ApiKeyRepo_update_last_used (ak_id k) s1);
                                            (s3, tenant) = load_tenant_context k s2
                                        in run (Some \<lparr> ac_api_key = k, ac_user_id = ak_user_id k,
                                                       ac_tenant = tenant \<rparr>) s3))))))"

definition require_scope :: "rstring \<Rightarrow> AuthContext \<Rightarrow> AuthError + unit" where
  "require_scope scope auth =
     (if AuthContext_has_scope auth scope \<or> AuthContext_has_scope auth ''*'' then Inr ()
      else Inl (insufficient_scope scope))"

subsection \<open>Managing keys\<close>

record CreateApiKeyRequest =
  ck_name :: rstring
  ck_description :: "rstring option"
  ck_environment :: rstring
  ck_scopes :: "rstring list"
  ck_rate_limit_rpm :: "i32 option"
  ck_monthly_token_limit :: "i64 option"
  ck_expires_in_days :: "i64 option"
  ck_organization_id :: "uuid option"
  ck_scope_type :: "rstring option"
  ck_scope_id :: "uuid option"

definition default_environment :: rstring where "default_environment = ''live''"
definition default_scopes :: "rstring list" where "default_scopes = [''responses:create'']"

record CreateApiKeyResponse =
  cr_key :: rstring
  cr_key_id :: rstring
  cr_name :: rstring
  cr_scopes :: "rstring list"
  cr_created_at :: rstring
  cr_expires_at :: "rstring option"

record ApiKeyInfo =
  ki_key_id :: rstring
  ki_name :: rstring
  ki_description :: "rstring option"
  ki_scopes :: "rstring list"
  ki_status :: rstring
  ki_created_at :: rstring
  ki_expires_at :: "rstring option"
  ki_last_used_at :: "rstring option"

definition ApiKeyInfo_from :: "auth_env \<Rightarrow> ApiKey \<Rightarrow> ApiKeyInfo" where
  "ApiKeyInfo_from E k =
     \<lparr> ki_key_id = ak_key_id k, ki_name = ak_name k, ki_description = ak_description k,
       ki_scopes = ApiKey_get_scopes k, ki_status = ak_status k,
       ki_created_at = ae_rfc3339 E (ak_created_at k),
       ki_expires_at = map_option (ae_rfc3339 E) (ak_expires_at k),
       ki_last_used_at = map_option (ae_rfc3339 E) (ak_last_used_at k) \<rparr>"

definition build_new_api_key ::
    "CreateApiKeyRequest \<Rightarrow> GeneratedApiKey \<Rightarrow> rstring \<Rightarrow> utc option \<Rightarrow> NewApiKey" where
  "build_new_api_key req generated user_id expires_at =
     \<lparr> nk_key_id = gk_key_id generated, nk_key_hash = gk_key_hash generated, nk_name = ck_name req,
       nk_description = ck_description req, nk_user_id = Some user_id,
       nk_organization_id = ck_organization_id req, nk_scopes = JArr (map JStr (ck_scopes req)),
       nk_rate_limit_rpm = ck_rate_limit_rpm req, nk_monthly_token_limit = ck_monthly_token_limit req,
       nk_daily_message_limit = None, nk_expires_at = expires_at, nk_allowed_ips = None, nk_metadata = None,
       nk_scope_type = ck_scope_type req, nk_scope_id = ck_scope_id req \<rparr>"

text \<open>
  \<open>Utc::now() + Duration::days(n)\<close> panics when the duration in milliseconds is not a 64-bit number
  and when the sum is not a time.
\<close>

definition add_days :: "auth_env \<Rightarrow> i64 \<Rightarrow> utc panics" where
  "add_days E n =
     (let millis = sint n * 86400000; t = ae_now E + millis * 1000
      in if millis < - (2 ^ 63 - 1) \<or> 2 ^ 63 - 1 < millis then None
         else if ae_min_time E \<le> t \<and> t \<le> ae_max_time E then Some t else None)"

definition database_unavailable :: "nat \<times> AuthError" where
  "database_unavailable = (503, \<lparr> aerr_code = ''database_unavailable'', aerr_message = ''Database not configured'' \<rparr>)"

definition DbError_display :: "DbError \<Rightarrow> rstring" where
  "DbError_display e =
     (case e of
        Db_Connection m \<Rightarrow> ''Database connection error: '' @ m
      | Db_NotFound entity i \<Rightarrow> entity @ '' not found: '' @ i
      | Db_Duplicate entity key \<Rightarrow> ''Duplicate '' @ entity @ '': '' @ key
      | Db_Migration m \<Rightarrow> ''Migration error: '' @ m
      | Db_Config m \<Rightarrow> ''Configuration error: '' @ m)"

definition db_failure :: "rstring \<Rightarrow> rstring \<Rightarrow> DbError \<Rightarrow> nat \<times> AuthError" where
  "db_failure code what e = (500, \<lparr> aerr_code = code, aerr_message = what @ DbError_display e \<rparr>)"

definition create_api_key ::
    "auth_env \<Rightarrow> AuthContext option \<Rightarrow> CreateApiKeyRequest \<Rightarrow> db \<Rightarrow>
     (db \<times> ((nat \<times> AuthError) + CreateApiKeyResponse)) panics" where
  "create_api_key E auth req s =
     (if \<not> ae_has_db E then Some (s, Inl database_unavailable)
      else (case authenticated_user_id auth of
              Inl e \<Rightarrow> Some (s, Inl e)
            | Inr user_id \<Rightarrow>
                (let prefix = (if ck_environment req = ''test'' then API_KEY_PREFIX_TEST else API_KEY_PREFIX_LIVE);
                     generated = generate_api_key (ae_crypto E) (ae_random E) prefix
                 in case (case ck_expires_in_days req of
                            None \<Rightarrow> Some None | Some n \<Rightarrow> map_option Some (add_days E n)) of
                      None \<Rightarrow> None
                    | Some expires_at \<Rightarrow>
                        Some (case ApiKeyRepo_create (build_new_api_key req generated user_id expires_at) s of
                          (s', Inl e) \<Rightarrow> (s', Inl (db_failure ''creation_failed'' ''Failed to create API key: '' e))
                        | (s', Inr k) \<Rightarrow>
                            (s', Inr \<lparr> cr_key = gk_key generated, cr_key_id = ak_key_id k, cr_name = ak_name k,
                               cr_scopes = ApiKey_get_scopes k, cr_created_at = ae_rfc3339 E (ak_created_at k),
                               cr_expires_at = map_option (ae_rfc3339 E) (ak_expires_at k) \<rparr>)))))"

definition api_key_infos_owned_by_user :: "auth_env \<Rightarrow> ApiKey list \<Rightarrow> rstring \<Rightarrow> ApiKeyInfo list" where
  "api_key_infos_owned_by_user E keys user_id =
     map (ApiKeyInfo_from E) (filter (\<lambda>k. ak_user_id k = Some user_id) keys)"

definition list_api_keys ::
    "auth_env \<Rightarrow> AuthContext option \<Rightarrow> db \<Rightarrow> db \<times> ((nat \<times> AuthError) + ApiKeyInfo list)" where
  "list_api_keys E auth s =
     (if \<not> ae_has_db E then (s, Inl database_unavailable)
      else (case authenticated_user_id auth of
              Inl e \<Rightarrow> (s, Inl e)
            | Inr user_id \<Rightarrow>
                (case ApiKeyRepo_get_by_user user_id s of
                   (s', Inl e) \<Rightarrow> (s', Inl (db_failure ''lookup_failed'' ''Failed to list API keys: '' e))
                 | (s', Inr keys) \<Rightarrow> (s', Inr (api_key_infos_owned_by_user E keys user_id)))))"

text \<open>Looking up a key for its owner: the common part of reading and of revoking one.\<close>

definition owned_api_key ::
    "auth_env \<Rightarrow> AuthContext option \<Rightarrow> rstring \<Rightarrow> db \<Rightarrow> db \<times> ((nat \<times> AuthError) + ApiKey)" where
  "owned_api_key E auth key_id s =
     (if \<not> ae_has_db E then (s, Inl database_unavailable)
      else (case authenticated_user_id auth of
              Inl e \<Rightarrow> (s, Inl e)
            | Inr user_id \<Rightarrow>
                (case ApiKeyRepo_find_by_key_id key_id s of
                   (s', Inl e) \<Rightarrow> (s', Inl (db_failure ''lookup_failed'' ''Failed to look up API key: '' e))
                 | (s', Inr None) \<Rightarrow>
                     (s', Inl (404, \<lparr> aerr_code = ''not_found'', aerr_message = ''API key not found'' \<rparr>))
                 | (s', Inr (Some k)) \<Rightarrow>
                     (case ensure_api_key_owner k user_id of Inl e \<Rightarrow> (s', Inl e) | Inr _ \<Rightarrow> (s', Inr k)))))"

definition get_api_key ::
    "auth_env \<Rightarrow> AuthContext option \<Rightarrow> rstring \<Rightarrow> db \<Rightarrow> db \<times> ((nat \<times> AuthError) + ApiKeyInfo)" where
  "get_api_key E auth key_id s =
     (case owned_api_key E auth key_id s of
        (s', Inl e) \<Rightarrow> (s', Inl e) | (s', Inr k) \<Rightarrow> (s', Inr (ApiKeyInfo_from E k)))"

definition revoke_api_key ::
    "auth_env \<Rightarrow> AuthContext option \<Rightarrow> rstring \<Rightarrow> db \<Rightarrow> db \<times> ((nat \<times> AuthError) + nat)" where
  "revoke_api_key E auth key_id s =
     (case owned_api_key E auth key_id s of
        (s', Inl e) \<Rightarrow> (s', Inl e)
      | (s', Inr k) \<Rightarrow>
          (case ApiKeyRepo_revoke (ak_id k) s' of
             (s'', Inl e) \<Rightarrow> (s'', Inl (db_failure ''revoke_failed'' ''Failed to revoke API key: '' e))
           | (s'', Inr _) \<Rightarrow> (s'', Inr 204)))"

end
