(* ===== verification/Db_Invariant.thy ===== *)
theory Db_Invariant
  imports Db_Tenants
begin

text \<open>
  What the keys and foreign keys of the tables promise, and that every query keeps it: identifiers
  are distinct and below the next one, unique columns are distinct, references point to rows.
\<close>

subsection \<open>Tables\<close>

definition keyed :: "('r \<Rightarrow> uuid) \<Rightarrow> uuid \<Rightarrow> 'r list \<Rightarrow> bool" where
  "keyed i n rows \<longleftrightarrow> distinct (map i rows) \<and> (\<forall>r \<in> set rows. i r < n)"

definition refers :: "('r \<Rightarrow> 'k option) \<Rightarrow> 'r list \<Rightarrow> ('q \<Rightarrow> 'k) \<Rightarrow> 'q list \<Rightarrow> bool" where
  "refers f rows i targets \<longleftrightarrow> (\<forall>r \<in> set rows. case f r of Some k \<Rightarrow> k \<in> i ` set targets | None \<Rightarrow> True)"

named_theorems table_simps \<open>how changes of a table keep its keys and references\<close>

lemma keyed_append [table_simps]: "keyed i n rows \<Longrightarrow> i r = n \<Longrightarrow> keyed i (Suc n) (rows @ [r])"
  by (force simp: keyed_def)

lemma keyed_Suc [table_simps]: "keyed i n rows \<Longrightarrow> keyed i (Suc n) rows"
  by (force simp: keyed_def)

lemma keyed_filter [table_simps]: "keyed i n rows \<Longrightarrow> keyed i n (filter p rows)"
  by (auto simp: keyed_def distinct_map_filter)

lemma map_same: "(\<And>r. k (f r) = k r) \<Longrightarrow> map k (map f rows) = map k rows"
  by simp

lemma keyed_map [table_simps]: "keyed i n rows \<Longrightarrow> (\<And>r. i (f r) = i r) \<Longrightarrow> keyed i n (map f rows)"
  by (simp add: keyed_def comp_def)

lemma unique_append [table_simps]:
  "distinct (map k (rows @ [x])) \<longleftrightarrow> distinct (map k rows) \<and> (\<forall>r \<in> set rows. k r \<noteq> k x)"
  by (auto simp: image_iff)

lemma unique_filter [table_simps]: "distinct (map k rows) \<Longrightarrow> distinct (map k (filter p rows))"
  by (rule distinct_map_filter)

lemma unique_map [table_simps]:
  "distinct (map k rows) \<Longrightarrow> (\<And>r. k (f r) = k r) \<Longrightarrow> distinct (map k (map f rows))"
  by (simp only: map_same)

lemma refers_append [table_simps]:
  "refers f (rows @ [r]) i targets \<longleftrightarrow>
   refers f rows i targets \<and> (case f r of Some k \<Rightarrow> \<exists>t \<in> set targets. i t = k | None \<Rightarrow> True)"
  by (auto simp: refers_def image_iff split: option.splits)

lemma refers_target_append [table_simps]: "refers f rows i targets \<Longrightarrow> refers f rows i (targets @ [t])"
  by (auto simp: refers_def split: option.splits)

lemma refers_target_map [table_simps]:
  "refers f rows i targets \<Longrightarrow> (\<And>t. i (g t) = i t) \<Longrightarrow> refers f rows i (map g targets)"
  by (auto simp: refers_def image_iff split: option.splits)

lemma refers_map [table_simps]:
  "refers f rows i targets \<Longrightarrow> (\<And>r. f (g r) = f r) \<Longrightarrow> refers f (map g rows) i targets"
  by (auto simp: refers_def)

lemma refers_filter [table_simps]: "refers f rows i targets \<Longrightarrow> refers f (filter p rows) i targets"
  by (auto simp: refers_def)

lemma refersD: "refers f rows i targets \<Longrightarrow> r \<in> set rows \<Longrightarrow> f r = Some k \<Longrightarrow> \<exists>t \<in> set targets. k = i t"
  unfolding refers_def by (drule (1) bspec) auto

text \<open>A deletion that takes the rows that refer to it, or their references.\<close>

lemma refers_cascade:
  "refers f rows i targets \<Longrightarrow> (\<And>r t. r \<in> set rows \<Longrightarrow> t \<in> set targets \<Longrightarrow> p r \<Longrightarrow> f r = Some (i t) \<Longrightarrow> q t) \<Longrightarrow>
   refers f (filter p rows) i (filter q targets)"
  by (force simp: refers_def split: option.splits)

lemma refers_unlink:
  assumes old: "refers f rows i targets"
    and kept: "\<And>r t. r \<in> set rows \<Longrightarrow> t \<in> set targets \<Longrightarrow> f (g r) = Some (i t) \<Longrightarrow> q t"
    and same: "\<And>r. f (g r) = f r \<or> f (g r) = None"
  shows "refers f (map g rows) i (filter q targets)"
  unfolding refers_def
proof (clarsimp split: option.splits)
  fix r k
  assume r: "r \<in> set rows" and k: "f (g r) = Some k"
  with same [of r] old obtain t where t: "t \<in> set targets" "k = i t"
    using refersD [OF old r, of k] by force
  with kept [OF r t(1)] k show "k \<in> i ` {x \<in> set targets. q x}" by auto
qed

subsection \<open>The invariant\<close>

text \<open>Conversations with what hangs from them, and the tenants with their keys and users.\<close>

definition chats_inv :: "db \<Rightarrow> bool" where
  "chats_inv s \<longleftrightarrow>
     keyed cv_id (db_next_uuid s) (db_conversations s) \<and> keyed ms_id (db_next_uuid s) (db_messages s)
     \<and> keyed rl_id (db_next_uuid s) (db_request_logs s) \<and> distinct (map rr_id (db_responses s))
     \<and> refers (Some \<circ> ms_conversation_id) (db_messages s) cv_id (db_conversations s)
     \<and> refers (Some \<circ> rr_conversation_id) (db_responses s) cv_id (db_conversations s)
     \<and> refers rl_conversation_id (db_request_logs s) cv_id (db_conversations s)"

definition tenants_inv :: "db \<Rightarrow> bool" where
  "tenants_inv s \<longleftrightarrow>
     keyed og_id (db_next_uuid s) (db_organizations s) \<and> distinct (map og_slug (db_organizations s))
     \<and> keyed tm_id (db_next_uuid s) (db_teams s)
     \<and> distinct (map (\<lambda>t. (tm_organization_id t, tm_slug t)) (db_teams s))
     \<and> refers (Some \<circ> tm_organization_id) (db_teams s) og_id (db_organizations s)
     \<and> keyed pj_id (db_next_uuid s) (db_projects s)
     \<and> distinct (map (\<lambda>p. (pj_team_id p, pj_slug p)) (db_projects s))
     \<and> refers (Some \<circ> pj_team_id) (db_projects s) tm_id (db_teams s)"

definition keys_inv :: "db \<Rightarrow> bool" where
  "keys_inv s \<longleftrightarrow>
     keyed ak_id (db_next_uuid s) (db_api_keys s) \<and> distinct (map ak_key_id (db_api_keys s))
     \<and> keyed eu_id (db_next_uuid s) (db_end_users s)
     \<and> distinct (map (\<lambda>u. (eu_organization_id u, eu_external_id u)) (db_end_users s))
     \<and> refers (Some \<circ> eu_organization_id) (db_end_users s) og_id (db_organizations s)
     \<and> keyed au_id (db_next_uuid s) (db_usage s)
     \<and> refers (Some \<circ> au_api_key_id) (db_usage s) ak_id (db_api_keys s)
     \<and> refers au_end_user_id (db_usage s) eu_id (db_end_users s)
     \<and> keyed rd_id (db_next_uuid s) (db_decisions s) \<and> distinct (map rd_response_id (db_decisions s))"

definition db_inv :: "db \<Rightarrow> bool" where
  "db_inv s \<longleftrightarrow> chats_inv s \<and> tenants_inv s \<and> keys_inv s"

lemmas db_inv_defs = db_inv_def chats_inv_def tenants_inv_def keys_inv_def

lemma db_inv_frame [simp]: "db_inv (s\<lparr> db_queries := n \<rparr>) = db_inv s" "db_inv (s\<lparr> db_now := t \<rparr>) = db_inv s"
  by (simp_all add: db_inv_defs)

subsection \<open>Queries\<close>

text \<open>A failed query changes nothing but the count of queries.\<close>

lemma db_query_inv:
  assumes inv: "db_inv s"
    and keeps: "\<And>u t x. db_inv u \<Longrightarrow> f u = (t, Inr x) \<Longrightarrow> db_inv t"
  shows "db_inv (fst (db_query f s))"
  using inv keeps [of "s\<lparr> db_queries := db_queries s + 1 \<rparr>"]
  by (auto simp: db_query_def Let_def split: prod.splits sum.splits)

lemma db_write_inv: "db_inv s \<Longrightarrow> (\<And>u. db_inv u \<Longrightarrow> db_inv (f u)) \<Longrightarrow> db_inv (fst (db_write f s))"
  unfolding db_write_def by (erule db_query_inv) auto

lemma db_read_inv [simp]: "db_inv (fst (db_read f s)) = db_inv s"
  by (simp add: db_read_def db_query_def Let_def)

lemma db_page_inv [simp]: "db_inv (fst (db_page l n f s)) = db_inv s"
  by (simp add: db_page_def db_query_def Let_def split: sum.splits)

subsection \<open>Every query keeps the invariant\<close>

lemma create_conversation_inv: "db_inv s \<Longrightarrow> db_inv (fst (ConversationRepo_create new s))"
  unfolding ConversationRepo_create_def
  by (erule db_query_inv) (auto simp del: map_append map_map simp: db_inv_defs table_simps Let_def split: if_splits)

lemma create_message_inv: "db_inv s \<Longrightarrow> db_inv (fst (MessageRepo_create new s))"
  unfolding MessageRepo_create_def
  by (erule db_query_inv)
    (auto simp del: map_append map_map simp: db_inv_defs table_simps conversation_exists_def Let_def split: if_splits)


lemma update_title_inv: "db_inv s \<Longrightarrow> db_inv (fst (ConversationRepo_update_title i title s))"
  unfolding ConversationRepo_update_title_def
  by (erule db_query_inv) (auto simp del: map_append map_map simp: db_inv_defs table_simps Let_def split: if_splits)

lemma delete_conversation_inv: "db_inv s \<Longrightarrow> db_inv (fst (ConversationRepo_delete i s))"
  unfolding ConversationRepo_delete_def
  by (erule db_write_inv)
    (auto simp del: map_append map_map simp: db_inv_defs table_simps intro!: refers_cascade refers_unlink split: if_splits)

lemma create_log_inv: "db_inv s \<Longrightarrow> db_inv (fst (RequestLogRepo_create new s))"
proof -
  assume "db_inv s"
  then have "db_inv (fst (insert_log new s))"
    unfolding insert_log_def
    by (rule db_query_inv)
      (auto simp del: map_append map_map simp: db_inv_defs table_simps log_row_def conversation_exists_def split: if_splits option.splits)
  then show ?thesis by (auto simp: RequestLogRepo_create_def split: prod.splits sum.splits)
qed

lemma create_response_inv: "db_inv s \<Longrightarrow> db_inv (fst (ResponseRepo_create new s))"
  unfolding ResponseRepo_create_def
  by (erule db_query_inv) (auto simp del: map_append map_map simp: db_inv_defs table_simps response_row_def conversation_exists_def split: if_splits option.splits)

lemma create_api_key_inv: "db_inv s \<Longrightarrow> db_inv (fst (ApiKeyRepo_create new s))"
  unfolding ApiKeyRepo_create_def
  by (erule db_query_inv) (auto simp del: map_append map_map simp: db_inv_defs table_simps api_key_row_def split: if_splits option.splits)

lemma update_api_key_inv:
  "db_inv s \<Longrightarrow> (\<And>u k. ak_id (f u k) = ak_id k \<and> ak_key_id (f u k) = ak_key_id k) \<Longrightarrow>
   db_inv (fst (update_api_key i f s))"
  unfolding update_api_key_def
  by (erule db_write_inv) (auto simp del: map_append map_map simp: db_inv_defs table_simps split: if_splits)

lemma delete_api_key_inv: "db_inv s \<Longrightarrow> db_inv (fst (ApiKeyRepo_delete i s))"
  unfolding ApiKeyRepo_delete_def
  by (erule db_write_inv) (auto simp del: map_append map_map simp: db_inv_defs table_simps intro!: refers_cascade)

lemma aggregate_same [simp]:
  "eu_id (aggregate_end_user_usage now new u) = eu_id u"
  "eu_organization_id (aggregate_end_user_usage now new u) = eu_organization_id u"
  "eu_external_id (aggregate_end_user_usage now new u) = eu_external_id u"
  by (simp_all add: aggregate_end_user_usage_def)

lemma create_usage_inv: "db_inv s \<Longrightarrow> db_inv (fst (ApiKeyUsageRepo_create new s))"
  unfolding ApiKeyUsageRepo_create_def
  by (erule db_query_inv) (auto simp del: map_append map_map simp: db_inv_defs table_simps usage_row_def split: if_splits option.splits)

lemma merge_same [simp]:
  "eu_id (merge_end_user s new u) = eu_id u"
  "eu_organization_id (merge_end_user s new u) = eu_organization_id u"
  "eu_external_id (merge_end_user s new u) = eu_external_id u"
  by (simp_all add: merge_end_user_def)

lemma upsert_end_user_inv: "db_inv s \<Longrightarrow> db_inv (fst (EndUserRepo_upsert new s))"
  unfolding EndUserRepo_upsert_def
  by (erule db_query_inv) (auto simp del: map_append map_map simp: db_inv_defs table_simps end_user_row_def end_user_at_def find_None_iff split: if_splits option.splits)

lemma update_end_users_inv:
  "db_inv s \<Longrightarrow>
   (\<And>u. eu_id (f u) = eu_id u \<and> eu_organization_id (f u) = eu_organization_id u
      \<and> eu_external_id (f u) = eu_external_id u) \<Longrightarrow>
   db_inv (fst (update_end_users i f s))"
  unfolding update_end_users_def
  by (erule db_write_inv) (auto simp del: map_append map_map simp: db_inv_defs table_simps split: if_splits)

lemma delete_end_user_inv: "db_inv s \<Longrightarrow> db_inv (fst (EndUserRepo_delete i s))"
  unfolding EndUserRepo_delete_def
  by (erule db_write_inv)
    (auto simp del: map_append map_map simp: db_inv_defs table_simps intro!: refers_cascade refers_unlink split: if_splits)

lemma create_organization_inv: "db_inv s \<Longrightarrow> db_inv (fst (OrganizationRepo_create new s))"
  unfolding OrganizationRepo_create_def
  by (erule db_query_inv) (auto simp del: map_append map_map simp: db_inv_defs table_simps organization_row_def split: if_splits option.splits)

lemma create_team_inv: "db_inv s \<Longrightarrow> db_inv (fst (TeamRepo_create new s))"
  unfolding TeamRepo_create_def
  by (erule db_query_inv) (auto simp del: map_append map_map simp: db_inv_defs table_simps team_row_def split: if_splits option.splits)

lemma update_team_inv: "db_inv s \<Longrightarrow> db_inv (fst (TeamRepo_update i n d l s))"
  unfolding TeamRepo_update_def
  by (erule db_query_inv) (auto simp del: map_append map_map simp: db_inv_defs table_simps split: if_splits option.splits)

lemma create_project_inv: "db_inv s \<Longrightarrow> db_inv (fst (ProjectRepo_create new s))"
  unfolding ProjectRepo_create_def
  by (erule db_query_inv) (auto simp del: map_append map_map simp: db_inv_defs table_simps project_row_def split: if_splits option.splits)

lemma update_status_inv: "db_inv s \<Longrightarrow> db_inv (fst (ProjectRepo_update_status i st s))"
  unfolding ProjectRepo_update_status_def
  by (erule db_query_inv) (auto simp del: map_append map_map simp: db_inv_defs table_simps split: if_splits option.splits)

lemma delete_project_inv: "db_inv s \<Longrightarrow> db_inv (fst (ProjectRepo_delete i s))"
  unfolding ProjectRepo_delete_def
  by (erule db_write_inv) (auto simp del: map_append map_map simp: db_inv_defs table_simps  split: if_splits option.splits)

lemma upsert_decision_inv: "db_inv s \<Longrightarrow> db_inv (fst (RoutingDecisionRepo_upsert new s))"
  unfolding RoutingDecisionRepo_upsert_def
  by (erule db_query_inv) (auto simp del: map_append map_map simp: db_inv_defs table_simps decision_row_def decision_again_def split: if_splits option.splits)

lemma update_organization_inv: "db_inv s \<Longrightarrow> db_inv (fst (OrganizationRepo_update i n v s))"
  unfolding OrganizationRepo_update_def
  by (erule db_query_inv)
    (auto simp del: map_append map_map simp: db_inv_defs table_simps patch_organization_def
       split: if_splits option.splits)

lemma delete_team_inv: "db_inv s \<Longrightarrow> db_inv (fst (TeamRepo_delete i s))"
  unfolding TeamRepo_delete_def
  by (erule db_write_inv)
    (auto simp del: map_append map_map simp: db_inv_defs table_simps intro!: refers_cascade)

lemma delete_organization_inv: "db_inv s \<Longrightarrow> db_inv (fst (OrganizationRepo_delete i s))"
  unfolding OrganizationRepo_delete_def Let_def
  by (erule db_write_inv)
    (auto simp del: map_append map_map simp: db_inv_defs table_simps intro!: refers_cascade refers_unlink
       split: option.splits if_splits)

subsection \<open>Histories\<close>

text \<open>The queries that write, as data, and what a history of them does.\<close>

datatype db_op =
    Create_conversation NewConversation
  | Update_title uuid rstring
  | Delete_conversation uuid
  | Create_message NewMessage
  | Create_log NewRequestLog
  | Create_response NewResponse
  | Create_api_key NewApiKey
  | Update_last_used uuid
  | Revoke_api_key uuid
  | Delete_api_key uuid
  | Create_usage NewApiKeyUsage
  | Upsert_end_user NewEndUser
  | Block_end_user uuid
  | Unblock_end_user uuid
  | Set_rate_limit uuid "i32 option"
  | Set_monthly_limit uuid "i64 option"
  | Delete_end_user uuid
  | Create_organization NewOrganization
  | Update_organization uuid "rstring option" "json option"
  | Delete_organization uuid
  | Create_team NewTeam
  | Update_team uuid "rstring option" "rstring option" "i64 option"
  | Delete_team uuid
  | Create_project NewProject
  | Update_project_status uuid rstring
  | Delete_project uuid
  | Upsert_decision NewRoutingDecision
  | Tick int

fun db_apply :: "db_op \<Rightarrow> db \<Rightarrow> db" where
  "db_apply (Create_conversation new) s = fst (ConversationRepo_create new s)"
| "db_apply (Update_title i title) s = fst (ConversationRepo_update_title i title s)"
| "db_apply (Delete_conversation i) s = fst (ConversationRepo_delete i s)"
| "db_apply (Create_message new) s = fst (MessageRepo_create new s)"
| "db_apply (Create_log new) s = fst (RequestLogRepo_create new s)"
| "db_apply (Create_response new) s = fst (ResponseRepo_create new s)"
| "db_apply (Create_api_key new) s = fst (ApiKeyRepo_create new s)"
| "db_apply (Update_last_used i) s = fst (ApiKeyRepo_update_last_used i s)"
| "db_apply (Revoke_api_key i) s = fst (ApiKeyRepo_revoke i s)"
| "db_apply (Delete_api_key i) s = fst (ApiKeyRepo_delete i s)"
| "db_apply (Create_usage new) s = fst (ApiKeyUsageRepo_create new s)"
| "db_apply (Upsert_end_user new) s = fst (EndUserRepo_upsert new s)"
| "db_apply (Block_end_user i) s = fst (EndUserRepo_block i s)"
| "db_apply (Unblock_end_user i) s = fst (EndUserRepo_unblock i s)"
| "db_apply (Set_rate_limit i v) s = fst (EndUserRepo_set_rate_limit i v s)"
| "db_apply (Set_monthly_limit i v) s = fst (EndUserRepo_set_monthly_limit i v s)"
| "db_apply (Delete_end_user i) s = fst (EndUserRepo_delete i s)"
| "db_apply (Create_organization new) s = fst (OrganizationRepo_create new s)"
| "db_apply (Update_organization i n v) s = fst (OrganizationRepo_update i n v s)"
| "db_apply (Delete_organization i) s = fst (OrganizationRepo_delete i s)"
| "db_apply (Create_team new) s = fst (TeamRepo_create new s)"
| "db_apply (Update_team i n d l) s = fst (TeamRepo_update i n d l s)"
| "db_apply (Delete_team i) s = fst (TeamRepo_delete i s)"
| "db_apply (Create_project new) s = fst (ProjectRepo_create new s)"
| "db_apply (Update_project_status i st) s = fst (ProjectRepo_update_status i st s)"
| "db_apply (Delete_project i) s = fst (ProjectRepo_delete i s)"
| "db_apply (Upsert_decision new) s = fst (RoutingDecisionRepo_upsert new s)"
| "db_apply (Tick d) s = s\<lparr> db_now := db_now s + d \<rparr>"

lemmas query_invs = create_conversation_inv update_title_inv delete_conversation_inv create_message_inv
  create_log_inv create_response_inv create_api_key_inv update_api_key_inv delete_api_key_inv
  create_usage_inv upsert_end_user_inv update_end_users_inv delete_end_user_inv
  create_organization_inv update_organization_inv delete_organization_inv create_team_inv
  update_team_inv delete_team_inv create_project_inv update_status_inv delete_project_inv
  upsert_decision_inv

lemmas row_updates = ApiKeyRepo_update_last_used_def ApiKeyRepo_revoke_def EndUserRepo_block_def
  EndUserRepo_unblock_def EndUserRepo_set_rate_limit_def EndUserRepo_set_monthly_limit_def

lemma db_apply_inv: "db_inv s \<Longrightarrow> db_inv (db_apply op s)"
  by (cases op) (simp_all add: query_invs row_updates)

lemma db_history_inv: "db_inv s \<Longrightarrow> db_inv (fold db_apply ops s)"
  by (induction ops arbitrary: s) (simp_all add: db_apply_inv)

text \<open>The empty database; what fails and what it reports are the environment's.\<close>

definition db_empty :: "(nat \<Rightarrow> bool) \<Rightarrow> bool \<Rightarrow> utc \<Rightarrow> db" where
  "db_empty fails numeric now =
     \<lparr> db_conversations = [], db_messages = [], db_responses = [], db_request_logs = [], db_api_keys = [],
       db_usage = [], db_organizations = [], db_teams = [], db_projects = [], db_end_users = [],
       db_decisions = [], db_next_uuid = 0, db_now = now, db_queries = 0, db_fails = fails,
       db_numeric_cost = numeric \<rparr>"

lemma db_empty_inv: "db_inv (db_empty f n t)"
  by (simp add: db_empty_def db_inv_defs keyed_def refers_def)

end
