(* ===== verification/Auth_Facts.thy ===== *)
theory Auth_Facts
  imports Auth Db_Invariant
begin

text \<open>
  What authentication guarantees: who reaches the handler, what creating and revoking a key does to
  later requests, and who manages a key.
\<close>

subsection \<open>Queries\<close>

lemma db_read_eq:
  "db_read f s =
     (s\<lparr> db_queries := db_queries s + 1 \<rparr>,
      if db_fails s (db_queries s) then Inl (Db_Connection ''connection lost'')
      else Inr (f (s\<lparr> db_queries := db_queries s + 1 \<rparr>)))"
  by (simp add: db_read_def db_query_def Let_def)

lemma find_by_key_id:
  assumes "ApiKeyRepo_find_by_key_id key_id s = (s', r)"
  shows "db_api_keys s' = db_api_keys s" "db_now s' = db_now s"
    and "r = Inr x \<Longrightarrow> x = find_api_key key_id s"
  using assms by (auto simp: ApiKeyRepo_find_by_key_id_def db_read_eq find_api_key_def split: if_splits)

lemma find_api_key_in: "find_api_key key_id s = Some k \<Longrightarrow> k \<in> set (db_api_keys s) \<and> ak_key_id k = key_id"
  by (auto simp: find_api_key_def find_Some_iff)

lemma find_unique:
  "distinct (map k xs) \<Longrightarrow> x \<in> set xs \<Longrightarrow> find (\<lambda>y. k y = k x) xs = Some x"
  by (induction xs) auto

subsection \<open>Who is served\<close>

text \<open>A request outside the public and the administrators' paths.\<close>

definition protected_path :: "rstring \<Rightarrow> bool" where
  "protected_path path \<longleftrightarrow> \<not> public_path path \<and> \<not> starts_with path ''/admin''"

text \<open>A stored key that the bearer token of the request proves.\<close>

definition proves_key :: "auth_env \<Rightarrow> db \<Rightarrow> rstring option \<Rightarrow> ApiKey \<Rightarrow> bool" where
  "proves_key E s header k \<longleftrightarrow>
     k \<in> set (db_api_keys s) \<and> ApiKey_is_valid (ae_now E) k
     \<and> (\<exists>token. header = Some (''Bearer '' @ token) \<and> ak_key_hash k = hash_api_key (ae_crypto E) token
          \<and> extract_key_id token = Some (ak_key_id k))"

lemma bearer_token_Some: "bearer_token header = Some t \<longleftrightarrow> header = Some (''Bearer '' @ t)"
  by (auto simp: bearer_token_def starts_with_iff split: option.splits if_splits)

lemma check_api_key_Inr:
  "check_api_key E token k = Inr u \<longleftrightarrow>
   ApiKey_is_valid (ae_now E) k \<and> ak_key_hash k = hash_api_key (ae_crypto E) token"
  by (auto simp: check_api_key_def verify_api_key_eq ApiKey_is_valid_def)

lemma authenticate_served:
  assumes "authenticate E admin path header h s = (s', Inr r)" "protected_path path" "ae_has_db E"
  shows "\<exists>k a t. proves_key E s header k \<and> ac_api_key a = k \<and> ac_user_id a = ak_user_id k \<and> h (Some a) t = (s', r)"
proof -
  from assms obtain token key_id s1 k u where token: "bearer_token header = Some token"
    and id: "extract_key_id token = Some key_id"
    and find: "ApiKeyRepo_find_by_key_id key_id s = (s1, Inr (Some k))"
    and check: "check_api_key E token k = Inr u"
    by (auto simp: authenticate_def protected_path_def Let_def split: option.splits sum.splits prod.splits if_splits)
  have k: "find_api_key key_id s = Some k" using find_by_key_id(3) [OF find] by simp
  obtain t tenant where "load_tenant_context k (fst (ApiKeyRepo_update_last_used (ak_id k) s1)) = (t, tenant)"
    by fastforce
  then have "h (Some \<lparr> ac_api_key = k, ac_user_id = ak_user_id k, ac_tenant = tenant \<rparr>) t = (s', r)"
    using assms token id find check
    by (auto simp: authenticate_def protected_path_def Let_def split: prod.splits)
  then have "\<exists>a t. ac_api_key a = k \<and> ac_user_id a = ak_user_id k \<and> h (Some a) t = (s', r)"
    by (intro exI conjI) auto
  moreover have "proves_key E s header k"
    using find_api_key_in [OF k] token id check
    by (auto simp: proves_key_def bearer_token_Some check_api_key_Inr)
  ultimately show ?thesis by blast
qed

lemma authenticate_refuses:
  assumes "protected_path path" "ae_has_db E" "bearer_token header = Some token"
    and "extract_key_id token = Some key_id" "find_api_key key_id s = Some k" "\<not> ApiKey_is_valid (ae_now E) k"
  shows "\<exists>s' e. authenticate E admin path header h s = (s', Inl e)"
proof -
  have "check_api_key E token k \<noteq> Inr u" for u using assms(6) by (simp add: check_api_key_Inr)
  then obtain e where e: "check_api_key E token k = Inl e" by (cases "check_api_key E token k") auto
  obtain s1 r where q: "ApiKeyRepo_find_by_key_id key_id s = (s1, r)" by fastforce
  have "r = Inr x \<Longrightarrow> x = Some k" for x using find_by_key_id(3) [OF q] assms(5) by simp
  with assms(1-4) e q show ?thesis
    by (auto simp: authenticate_def protected_path_def Let_def split: sum.splits option.splits)
qed

subsection \<open>Revocation\<close>

definition is_revoked :: "rstring \<Rightarrow> db \<Rightarrow> bool" where
  "is_revoked key_id s \<longleftrightarrow> (\<exists>k \<in> set (db_api_keys s). ak_key_id k = key_id \<and> ak_status k = ''revoked'')"

text \<open>Only the deletion of a key can bring its identifier back.\<close>

fun deletes_key :: "db_op \<Rightarrow> bool" where
  "deletes_key (Delete_api_key _) = True"
| "deletes_key _ = False"

lemma query_keys_same:
  "(\<And>u t x. f u = (t, Inr x) \<Longrightarrow> db_api_keys t = db_api_keys u) \<Longrightarrow>
   db_api_keys (fst (db_query f s)) = db_api_keys s"
  by (auto simp: db_query_def Let_def split: prod.splits sum.splits)

lemma write_keys:
  "db_api_keys (fst (db_write f s)) = db_api_keys s \<or>
   db_api_keys (fst (db_write f s)) = db_api_keys (f (s\<lparr> db_queries := db_queries s + 1 \<rparr>))"
  by (simp add: db_write_def db_query_def Let_def)

lemma create_key_keys:
  "\<exists>ks. db_api_keys (fst (ApiKeyRepo_create new s)) = db_api_keys s @ ks"
  by (simp add: ApiKeyRepo_create_def db_query_def Let_def split: sum.splits)

lemma log_keys: "db_api_keys (fst (RequestLogRepo_create new s)) = db_api_keys s"
proof -
  have "db_api_keys (fst (insert_log new s)) = db_api_keys s"
    unfolding insert_log_def by (rule query_keys_same) (auto split: if_splits)
  then show ?thesis by (auto simp: RequestLogRepo_create_def split: prod.splits sum.splits)
qed

text \<open>The operations that say something of keys.\<close>

fun on_keys :: "db_op \<Rightarrow> bool" where
  "on_keys (Create_api_key _) = True"
| "on_keys (Update_last_used _) = True"
| "on_keys (Revoke_api_key _) = True"
| "on_keys (Delete_api_key _) = True"
| "on_keys _ = False"

lemmas query_defs = ConversationRepo_create_def ConversationRepo_update_title_def ConversationRepo_delete_def
  MessageRepo_create_def ResponseRepo_create_def ApiKeyUsageRepo_create_def EndUserRepo_upsert_def
  update_end_users_def EndUserRepo_delete_def OrganizationRepo_create_def OrganizationRepo_update_def
  OrganizationRepo_delete_def TeamRepo_create_def TeamRepo_update_def TeamRepo_delete_def
  ProjectRepo_create_def ProjectRepo_update_status_def ProjectRepo_delete_def RoutingDecisionRepo_upsert_def

lemma other_keys: "\<not> on_keys op \<Longrightarrow> db_api_keys (db_apply op s) = db_api_keys s"
  by (cases op)
    (auto simp: query_defs row_updates db_write_def Let_def log_keys intro!: query_keys_same
      split: if_splits option.splits)

lemma update_key_keys:
  "db_api_keys (fst (update_api_key i f s)) =
     (if db_fails s (db_queries s) then db_api_keys s
      else (let u = s\<lparr> db_queries := db_queries s + 1 \<rparr>
            in map (\<lambda>k. if ak_id k = i then (f u k)\<lparr> ak_updated_at := db_now s \<rparr> else k) (db_api_keys s)))"
  by (simp add: update_api_key_def db_write_def db_query_def Let_def)

lemma bex_map: "x \<in> set xs \<Longrightarrow> P (g x) \<Longrightarrow> \<exists>y \<in> set (map g xs). P y"
  by auto

lemma update_keeps_revoked:
  assumes "is_revoked i s" "\<And>u k. ak_key_id (f u k) = ak_key_id k"
    "\<And>u k. ak_status k = ''revoked'' \<Longrightarrow> ak_status (f u k) = ''revoked''"
  shows "is_revoked i (fst (update_api_key j f s))"
proof -
  from assms(1) obtain k where "k \<in> set (db_api_keys s)" "ak_key_id k = i" "ak_status k = ''revoked''"
    by (auto simp: is_revoked_def)
  with assms show ?thesis
    unfolding is_revoked_def update_key_keys Let_def by (auto simp del: set_map intro!: bex_map)
qed

lemma revoked_stays:
  assumes "is_revoked i s" "\<not> deletes_key op"
  shows "is_revoked i (db_apply op s)"
proof (cases "on_keys op")
  case False
  with assms other_keys show ?thesis by (simp add: is_revoked_def)
next
  case True
  with assms show ?thesis
  proof (cases op)
    case (Create_api_key new)
    with assms create_key_keys [of new s] show ?thesis by (auto simp: is_revoked_def)
  qed (auto simp: row_updates intro!: update_keeps_revoked)
qed

lemma revoked_in_history:
  "is_revoked i s \<Longrightarrow> list_all (\<lambda>op. \<not> deletes_key op) ops \<Longrightarrow> is_revoked i (fold db_apply ops s)"
  by (induction ops arbitrary: s) (simp_all add: revoked_stays)

lemma revoked_is_refused:
  assumes "db_inv s" "is_revoked key_id s" "protected_path path" "ae_has_db E"
    and "bearer_token header = Some token" "extract_key_id token = Some key_id"
  shows "\<exists>s' e. authenticate E admin path header h s = (s', Inl e)"
proof -
  from assms(2) obtain k where k: "k \<in> set (db_api_keys s)" "ak_key_id k = key_id" "ak_status k = ''revoked''"
    by (auto simp: is_revoked_def)
  with assms(1) have "find_api_key key_id s = Some k"
    using find_unique [of ak_key_id "db_api_keys s" k] by (simp add: find_api_key_def db_inv_defs)
  moreover have "\<not> ApiKey_is_valid (ae_now E) k" using k(3) by (simp add: ApiKey_is_valid_def)
  ultimately show ?thesis using authenticate_refuses assms(3-6) by blast
qed

lemma owned_key:
  assumes "owned_api_key E auth key_id s = (s', Inr k)"
  shows "find_api_key key_id s = Some k" "db_api_keys s' = db_api_keys s"
    and "\<exists>a u. auth = Some a \<and> ak_user_id (ac_api_key a) = Some u \<and> ak_user_id k = Some u"
  using assms find_by_key_id
  by (auto simp: owned_api_key_def authenticated_user_id_def ensure_api_key_owner_def
      split: if_splits sum.splits prod.splits option.splits bind_splits)

lemma revoke_revokes:
  assumes "revoke_api_key E auth key_id s = (s', Inr n)"
  shows "is_revoked key_id s'" "n = 204"
proof -
  from assms obtain s1 k where own: "owned_api_key E auth key_id s = (s1, Inr k)"
    and rev: "ApiKeyRepo_revoke (ak_id k) s1 = (s', Inr ())" and n: "n = 204"
    by (auto simp: revoke_api_key_def split: prod.splits sum.splits)
  have k: "k \<in> set (db_api_keys s1)" "ak_key_id k = key_id"
    using find_api_key_in [OF owned_key(1) [OF own]] owned_key(2) [OF own] by auto
  have ok: "\<not> db_fails s1 (db_queries s1)" and s': "s' = fst (ApiKeyRepo_revoke (ak_id k) s1)"
    using rev by (auto simp: ApiKeyRepo_revoke_def update_api_key_def db_write_def db_query_def Let_def
      split: if_splits)
  show "is_revoked key_id s'"
    unfolding s' is_revoked_def ApiKeyRepo_revoke_def update_key_keys Let_def
    using ok k by (auto simp del: set_map intro!: bex_map)
  show "n = 204" by (rule n)
qed

lemma revoke_keeps_inv: "db_inv s \<Longrightarrow> db_inv (fst (revoke_api_key E auth key_id s))"
proof -
  assume inv: "db_inv s"
  have "db_inv (fst (owned_api_key E auth key_id s))"
    using inv by (auto simp: owned_api_key_def ApiKeyRepo_find_by_key_id_def db_read_eq
      split: sum.splits option.splits if_splits)
  then show ?thesis
    using update_api_key_inv [of "fst (owned_api_key E auth key_id s)" "\<lambda>s k. k\<lparr> ak_status := ''revoked'' \<rparr>"]
    by (auto simp: revoke_api_key_def ApiKeyRepo_revoke_def split: prod.splits sum.splits)
       (metis fst_conv)+
qed

subsection \<open>New keys\<close>

lemma find_new: "\<forall>x \<in> set xs. f x \<noteq> f y \<Longrightarrow> find (\<lambda>x. f x = f y) (xs @ [y]) = Some y"
  by (induction xs) auto

text \<open>The row a successful creation stores, and where.\<close>

lemma created_row:
  assumes "ApiKeyRepo_create new s = (s', Inr k)"
  shows "k = api_key_row s new" "db_api_keys s' = db_api_keys s @ [k]" "find_api_key (ak_key_id k) s' = Some k"
    and "db_fails s' = db_fails s" "db_queries s' = Suc (db_queries s)"
proof -
  show k: "k = api_key_row s new" and rows: "db_api_keys s' = db_api_keys s @ [k]"
    and "db_fails s' = db_fails s" "db_queries s' = Suc (db_queries s)"
    using assms by (auto simp: ApiKeyRepo_create_def db_query_def api_key_row_def Let_def split: if_splits)
  have "\<forall>x \<in> set (db_api_keys s). ak_key_id x \<noteq> ak_key_id k"
    using assms k by (auto simp: ApiKeyRepo_create_def db_query_def api_key_row_def Let_def split: if_splits)
  then have "find (\<lambda>x. ak_key_id x = ak_key_id k) (db_api_keys s @ [k]) = Some k"
    by (rule find_new)
  then show "find_api_key (ak_key_id k) s' = Some k" by (simp add: find_api_key_def rows)
qed

lemma created_key:
  assumes "create_api_key E auth req s = Some (s', Inr r)"
  obtains k a u p expires where "ak_key_id k = cr_key_id r" "find_api_key (cr_key_id r) s' = Some k"
    and "auth = Some a" "ak_user_id (ac_api_key a) = Some u" "ae_has_db E"
    and "p = API_KEY_PREFIX_LIVE \<or> p = API_KEY_PREFIX_TEST"
    and "cr_key r = gk_key (generate_api_key (ae_crypto E) (ae_random E) p)"
    and "k = api_key_row s (build_new_api_key req (generate_api_key (ae_crypto E) (ae_random E) p) u expires)"
    and "(case ck_expires_in_days req of None \<Rightarrow> Some None | Some n \<Rightarrow> map_option Some (add_days E n)) = Some expires"
    and "db_fails s' = db_fails s" "db_queries s' = Suc (db_queries s)"
proof -
  define p where "p = (if ck_environment req = ''test'' then API_KEY_PREFIX_TEST else API_KEY_PREFIX_LIVE)"
  define g where "g = generate_api_key (ae_crypto E) (ae_random E) p"
  from assms obtain a u where auth: "auth = Some a" "ak_user_id (ac_api_key a) = Some u" "ae_has_db E"
    by (auto simp: create_api_key_def authenticated_user_id_def split: if_splits option.splits bind_splits)
  with assms obtain expires where e: "(case ck_expires_in_days req of None \<Rightarrow> Some None
      | Some n \<Rightarrow> map_option Some (add_days E n)) = Some expires"
    by (auto simp: create_api_key_def authenticated_user_id_def Let_def split: option.splits)
  from assms auth e have "(case ApiKeyRepo_create (build_new_api_key req g u expires) s of
       (s', Inl e) \<Rightarrow> (s', Inl (db_failure ''creation_failed'' ''Failed to create API key: '' e))
     | (s', Inr k) \<Rightarrow> (s', Inr \<lparr> cr_key = gk_key g, cr_key_id = ak_key_id k, cr_name = ak_name k,
          cr_scopes = ApiKey_get_scopes k, cr_created_at = ae_rfc3339 E (ak_created_at k),
          cr_expires_at = map_option (ae_rfc3339 E) (ak_expires_at k) \<rparr>)) = (s', Inr r)"
    unfolding g_def p_def by (simp add: create_api_key_def authenticated_user_id_def Let_def)
  then obtain k where create: "ApiKeyRepo_create (build_new_api_key req g u expires) s = (s', Inr k)"
    and r: "cr_key r = gk_key g" "cr_key_id r = ak_key_id k"
    by (auto split: prod.splits sum.splits)
  show thesis
    using created_row [OF create] r auth e
    by (intro that [of k a u p expires]) (simp_all add: g_def p_def)
qed

lemma created_key_admitted:
  assumes new: "create_api_key E auth req s = Some (s', Inr r)"
    and lib: "hex_ok (ae_crypto E)" "length (ae_random E) = API_KEY_RANDOM_BYTES"
    and days: "case ck_expires_in_days req of Some n \<Rightarrow> 0 < sint n | None \<Rightarrow> True"
    and up: "\<not> db_fails s' (db_queries s')" and path: "protected_path path"
  shows "\<exists>s'' x. authenticate E admin path (Some (''Bearer '' @ cr_key r)) h s' = (s'', Inr x)"
proof -
  from new obtain k a u p expires where k: "ak_key_id k = cr_key_id r" "find_api_key (cr_key_id r) s' = Some k"
    and E: "ae_has_db E" and p: "p = API_KEY_PREFIX_LIVE \<or> p = API_KEY_PREFIX_TEST"
    and key: "cr_key r = gk_key (generate_api_key (ae_crypto E) (ae_random E) p)"
    and row: "k = api_key_row s (build_new_api_key req (generate_api_key (ae_crypto E) (ae_random E) p) u expires)"
    and e: "(case ck_expires_in_days req of None \<Rightarrow> Some None | Some n \<Rightarrow> map_option Some (add_days E n)) = Some expires"
    by (elim created_key)
  have id: "extract_key_id (cr_key r) = Some (cr_key_id r)"
    using generated_key_id [OF lib p] k(1) key by (simp add: row api_key_row_def build_new_api_key_def)
  have later: "case expires of Some t \<Rightarrow> ae_now E < t | None \<Rightarrow> True"
    using e days by (auto simp: add_days_def Let_def split: option.splits if_splits)
  have check: "check_api_key E (cr_key r) k = Inr ()"
    using later generated_key_verifies [of "ae_crypto E" "ae_random E" p]
    by (auto simp: check_api_key_Inr verify_api_key_eq ApiKey_is_valid_def row api_key_row_def
        build_new_api_key_def key split: option.splits)
  obtain s1 where q: "ApiKeyRepo_find_by_key_id (cr_key_id r) s' = (s1, Inr (Some k))"
    using k(2) up by (simp add: ApiKeyRepo_find_by_key_id_def db_read_eq find_api_key_def)
  obtain t tenant where "load_tenant_context k (fst (ApiKeyRepo_update_last_used (ak_id k) s1)) = (t, tenant)"
    by fastforce
  moreover have "bearer_token (Some (''Bearer '' @ cr_key r)) = Some (cr_key r)" by (simp only: bearer_token_Some)
  ultimately show ?thesis
    using path E id q check
    by (auto simp: authenticate_def protected_path_def Let_def simp del: append_Cons split: prod.splits)
qed

text \<open>
  What a new key may do is what the request says, whatever the caller's own key may do; the team or
  project the request names is not stored.
\<close>

lemma created_key_powers:
  assumes "create_api_key E auth req s = Some (s', Inr r)"
  shows "\<exists>k a. find_api_key (cr_key_id r) s' = Some k \<and> auth = Some a \<and> ak_user_id k = ak_user_id (ac_api_key a)
    \<and> ApiKey_get_scopes k = ck_scopes req \<and> ak_organization_id k = ck_organization_id req
    \<and> ak_rate_limit_rpm k = ck_rate_limit_rpm req
    \<and> ak_scope_type k = Some ''organization'' \<and> ak_scope_id k = None"
proof -
  have "List.map_filter json_str (map JStr xs) = xs" for xs
    by (induction xs) (simp_all add: map_filter_simps)
  with assms show ?thesis
    by (elim created_key)
      (auto simp: api_key_row_def build_new_api_key_def ApiKey_get_scopes_def)
qed

subsection \<open>Whose keys\<close>

lemma listed_keys_owned:
  assumes "list_api_keys E auth s = (s', Inr infos)" "i \<in> set infos"
  shows "\<exists>k a. k \<in> set (db_api_keys s) \<and> i = ApiKeyInfo_from E k \<and> auth = Some a
    \<and> ak_user_id k = ak_user_id (ac_api_key a) \<and> ak_user_id k \<noteq> None"
  using assms
  by (auto simp: list_api_keys_def authenticated_user_id_def api_key_infos_owned_by_user_def
      ApiKeyRepo_get_by_user_def db_read_eq newest_first_def
      split: if_splits option.splits sum.splits prod.splits bind_splits)
    blast

lemma admin_needs_key:
  assumes "authenticate E admin path header h s = (s', Inr r)" "\<not> public_path path" "starts_with path ''/admin''"
  shows "(aa_key admin = [] \<and> aa_no_auth admin)
    \<or> (aa_key admin \<noteq> [] \<and> header = Some (''Bearer '' @ aa_key admin))"
  using assms bearer_token_Some [of header]
  by (auto simp: authenticate_def AdminAuthConfig_check_def simp del: append_Cons
      split: sum.splits if_splits option.splits prod.splits)

end
