(* ===== verification/Example_Access.thy ===== *)
theory Example_Access
  imports Auth_Facts
begin

text \<open>
  An instance of the parameters of \<open>Crypto\<close> and \<open>Auth\<close>: hexadecimal digits as they are, a hash that
  keeps the text, a cipher that prefixes the key. A user creates a key and revokes it.
\<close>

definition hex_digit :: "nat \<Rightarrow> char" where
  "hex_digit n = char_of (if n < 10 then 48 + n else 87 + n)"

definition hex_value :: "char \<Rightarrow> nat" where
  "hex_value c = (let n = byte_of c in if n < 58 then n - 48 else n - 87)"

definition hex_encode :: "rstring \<Rightarrow> rstring" where
  "hex_encode s = concat (map (\<lambda>c. [hex_digit (byte_of c div 16), hex_digit (byte_of c mod 16)]) s)"

fun hex_decode :: "rstring \<Rightarrow> rstring + rstring" where
  "hex_decode [] = Inr []"
| "hex_decode [c] = Inl ''Odd number of digits''"
| "hex_decode (a # b # s) =
     (case hex_decode s of Inl e \<Rightarrow> Inl e | Inr r \<Rightarrow> Inr (char_of (16 * hex_value a + hex_value b) # r))"

lemma hex_value_digit: "n < 16 \<Longrightarrow> hex_value (hex_digit n) = n"
  by (simp add: hex_value_def hex_digit_def byte_of_def Let_def)

lemma hex_decode_encode: "hex_decode (hex_encode s) = Inr s"
proof (induction s)
  case (Cons c s)
  have "byte_of c < 256" by (simp add: byte_of_def)
  then have "hex_value (hex_digit (byte_of c div 16)) = byte_of c div 16"
    "hex_value (hex_digit (byte_of c mod 16)) = byte_of c mod 16"
    by (simp_all add: hex_value_digit)
  with Cons show ?case by (simp add: hex_encode_def) (simp add: byte_of_def)
qed (simp add: hex_encode_def)

definition example_crypto :: crypto_lib where
  "example_crypto =
     \<lparr> cl_sha256 = id, cl_hex = hex_encode, cl_unhex = hex_decode,
       cl_encrypt = (\<lambda>k n m. Inr (k @ m)), cl_decrypt = (\<lambda>k n c. Inr (drop (length k) c)) \<rparr>"

lemma example_hex_ok: "hex_ok example_crypto"
proof -
  have "length (hex_encode b) = 2 * length b" for b
    by (induction b) (simp_all add: hex_encode_def)
  then show ?thesis by (simp add: hex_ok_def example_crypto_def hex_decode_encode)
qed

lemma example_aead_ok: "aead_ok example_crypto"
  by (auto simp: aead_ok_def example_crypto_def)

definition example_auth_env :: auth_env where
  "example_auth_env =
     \<lparr> ae_crypto = example_crypto, ae_has_db = True, ae_now = 5, ae_random = replicate 24 CHR ''r'',
       ae_rfc3339 = (\<lambda>t. ''time''), ae_min_time = - (2 ^ 62), ae_max_time = 2 ^ 62 \<rparr>"

definition example_caller :: AuthContext where
  "example_caller =
     (let k = api_key_row (db_empty (\<lambda>_. False) False 0)
           \<lparr> nk_key_id = ''caller'', nk_key_hash = [], nk_name = [], nk_description = None, nk_user_id = Some ''ada'',
             nk_organization_id = None, nk_scopes = JArr [], nk_rate_limit_rpm = None,
             nk_monthly_token_limit = None, nk_daily_message_limit = None, nk_expires_at = None,
             nk_allowed_ips = None, nk_metadata = None, nk_scope_type = None, nk_scope_id = None \<rparr>
      in \<lparr> ac_api_key = k, ac_user_id = ak_user_id k, ac_tenant = TenantContext_for (ak_key_id k) \<rparr>)"

definition example_key_request :: CreateApiKeyRequest where
  "example_key_request =
     \<lparr> ck_name = ''key'', ck_description = None, ck_environment = ''live'', ck_scopes = [''*''],
       ck_rate_limit_rpm = None, ck_monthly_token_limit = None, ck_expires_in_days = None,
       ck_organization_id = Some 7, ck_scope_type = Some ''team'', ck_scope_id = Some 3 \<rparr>"

definition example_db :: db where
  "example_db = db_empty (\<lambda>_. False) False 0"

definition example_created :: "db \<times> CreateApiKeyResponse" where
  "example_created =
     (case create_api_key example_auth_env (Some example_caller) example_key_request example_db of
        Some (s, Inr r) \<Rightarrow> (s, r)
      | _ \<Rightarrow> (example_db, \<lparr> cr_key = [], cr_key_id = [], cr_name = [], cr_scopes = [], cr_created_at = [],
                             cr_expires_at = None \<rparr>))"

lemma example_generated:
  "generate_api_key example_crypto (replicate 24 CHR ''r'') API_KEY_PREFIX_LIVE =
     \<lparr> gk_key = API_KEY_PREFIX_LIVE @ hex_encode (replicate 12 CHR ''r'') @ hex_encode (replicate 12 CHR ''r''),
       gk_key_id = API_KEY_PREFIX_LIVE @ hex_encode (replicate 12 CHR ''r''),
       gk_key_hash = hex_encode (API_KEY_PREFIX_LIVE @ hex_encode (replicate 12 CHR ''r'')
         @ hex_encode (replicate 12 CHR ''r'')) \<rparr>"
  by (simp only: generate_api_key_def example_crypto_def hash_api_key_def Let_def take_replicate drop_replicate)
    simp

lemma fits_length: "length s \<le> n \<Longrightarrow> fits n (Some s)"
  using length_str_chars_le [of s] by (simp add: fits_def)

lemma length_hex: "length (hex_encode b) = 2 * length b"
  by (induction b) (simp_all add: hex_encode_def)

lemma example_fits:
  "fits 128 (Some (hex_encode (API_KEY_PREFIX_LIVE @ hex_encode (replicate 12 CHR ''r'')
     @ hex_encode (replicate 12 CHR ''r''))))"
  "fits 50 (Some (API_KEY_PREFIX_LIVE @ hex_encode (replicate 12 CHR ''r'')))"
  "fits 200 (Some ''key'')" "fits 100 (Some ''ada'')"
  by (rule fits_length, simp add: length_hex API_KEY_PREFIX_LIVE_def)+

lemma example_creation:
  "create_api_key example_auth_env (Some example_caller) example_key_request example_db
     = Some (fst example_created, Inr (snd example_created))"
  by (simp add: example_created_def create_api_key_def example_auth_env_def example_caller_def example_key_request_def
      authenticated_user_id_def example_db_def db_empty_def ApiKeyRepo_create_def db_query_def Let_def
      api_key_row_def build_new_api_key_def example_generated example_fits)


text \<open>The owner revokes the key.\<close>

definition example_revoked :: db where
  "example_revoked =
     fst (revoke_api_key example_auth_env (Some example_caller) (cr_key_id (snd example_created)) (fst example_created))"

definition example_key :: ApiKey where
  "example_key = api_key_row example_db (build_new_api_key example_key_request
     (generate_api_key example_crypto (replicate 24 CHR ''r'') API_KEY_PREFIX_LIVE) ''ada'' None)"

lemma example_created_db:
  "fst example_created = example_db\<lparr> db_queries := 1, db_api_keys := [example_key], db_next_uuid := 1 \<rparr>"
  "cr_key_id (snd example_created) = API_KEY_PREFIX_LIVE @ hex_encode (replicate 12 CHR ''r'')"
  "cr_key (snd example_created) = API_KEY_PREFIX_LIVE @ hex_encode (replicate 12 CHR ''r'')
     @ hex_encode (replicate 12 CHR ''r'')"
  by (simp_all add: example_created_def create_api_key_def example_auth_env_def example_caller_def
      example_key_request_def authenticated_user_id_def example_db_def db_empty_def ApiKeyRepo_create_def
      db_query_def Let_def api_key_row_def build_new_api_key_def example_generated example_fits example_key_def)

lemma example_created_inv: "db_inv (fst example_created)"
  by (simp add: example_created_db example_db_def db_empty_def db_inv_defs keyed_def refers_def
      example_key_def api_key_row_def)

lemma example_revocation:
  "revoke_api_key example_auth_env (Some example_caller) (cr_key_id (snd example_created)) (fst example_created)
     = (example_revoked, Inr 204)"
  by (simp add: example_revoked_def example_created_db revoke_api_key_def owned_api_key_def example_auth_env_def
      example_caller_def authenticated_user_id_def ApiKeyRepo_find_by_key_id_def db_read_eq example_db_def db_empty_def
      find_api_key_def ensure_api_key_owner_def example_key_def api_key_row_def build_new_api_key_def
      example_generated ApiKeyRepo_revoke_def update_api_key_def db_write_def db_query_def Let_def)

lemma example_paths: "protected_path ''/v1/responses''"
  by (simp add: protected_path_def public_path_def)

lemma example_key_id:
  "extract_key_id (cr_key (snd example_created)) = Some (cr_key_id (snd example_created))"
  by (simp add: example_created_db extract_key_id_def API_KEY_PREFIX_LIVE_def length_hex Let_def)

end
