(* ===== verification/Request_Prep.thy ===== *)
theory Request_Prep
  imports Gateway Smart_Compress Db
begin

text \<open>
  What a request goes through before a provider is called (\<open>aura-proxy/src/routes/responses.rs\<close>):
  the headers, the replay of earlier tool calls, compression and the consistency prompts; and the
  confidence gate after it. The JSON codec is a parameter; the values \<open>serde\<close> makes of items follow
  the attributes in \<open>aura-types/src/item.rs\<close>. The times compression takes are in \<open>prep_env\<close>.
\<close>

definition PAYLOAD_MAX_BYTES :: nat where "PAYLOAD_MAX_BYTES = 256 * 1024"

definition json_nat :: "nat \<Rightarrow> json" where
  "json_nat n = JNum (PosInt (of_nat n))"

definition cap_payload :: "json_codec \<Rightarrow> json \<Rightarrow> json" where
  "cap_payload c value =
     (let serialised = jc_to_string c value
      in if PAYLOAD_MAX_BYTES < length serialised
         then JObj (obj_of_list [(''truncated'', JBool True), (''reason'', JStr ''size''),
                (''original_bytes'', json_nat (length serialised))])
         else value)"

definition from_provider_error :: "ProviderError \<Rightarrow> nat \<times> ApiError" where
  "from_provider_error err =
     (let n = unat (status_code err);
          status = (if 100 \<le> n \<and> n < 1000 then n else 500);
          code = error_code err;
          message = ProviderError_display err
      in (status, case err of
            InvalidRequest _ (Some p) \<Rightarrow> ApiError_with_param code message p
          | _ \<Rightarrow> ApiError_new code message))"

subsection \<open>Headers\<close>

text \<open>The headers whose values are text.\<close>

type_synonym header_map = "rstring \<rightharpoonup> rstring"

definition should_bypass_cache :: "header_map \<Rightarrow> bool" where
  "should_bypass_cache headers =
     (case headers ''x-cache-control'' of
        Some v \<Rightarrow> eq_ignore_ascii_case v ''no-cache'' \<or> eq_ignore_ascii_case v ''no-store''
      | None \<Rightarrow> False)"

definition extract_routing_strategy :: "header_map \<Rightarrow> rstring option" where
  "extract_routing_strategy headers = headers ''x-routing-strategy''"

definition tool_context_replay_from_env :: "rstring option \<Rightarrow> bool" where
  "tool_context_replay_from_env var =
     (case var of
        Some v \<Rightarrow> to_ascii_lowercase (str_trim v) \<notin> {''0'', ''false'', ''no'', ''off''}
      | None \<Rightarrow> True)"

subsection \<open>The values of items\<close>

definition status_str :: "ItemStatus \<Rightarrow> rstring" where
  "status_str s = (case s of It_InProgress \<Rightarrow> ''in_progress'' | It_Completed \<Rightarrow> ''completed''
     | It_Failed \<Rightarrow> ''failed'' | It_Incomplete \<Rightarrow> ''incomplete'')"

definition role_str :: "Role \<Rightarrow> rstring" where
  "role_str r = (case r of User \<Rightarrow> ''user'' | Assistant \<Rightarrow> ''assistant'' | System \<Rightarrow> ''system'' | RTool \<Rightarrow> ''tool'')"

definition opt_field :: "rstring \<Rightarrow> rstring option \<Rightarrow> (rstring \<times> json) list" where
  "opt_field k v = (case v of Some s \<Rightarrow> [(k, JStr s)] | None \<Rightarrow> [])"

definition ContentPart_value :: "ContentPart \<Rightarrow> json" where
  "ContentPart_value p = JObj (obj_of_list (case p of
       CText t \<Rightarrow> [(''type'', JStr ''text''), (''text'', JStr t)]
     | CImage url d m \<Rightarrow> (''type'', JStr ''image'') # opt_field ''url'' url @ opt_field ''data'' d
         @ opt_field ''media_type'' m
     | CAudio d m \<Rightarrow> [(''type'', JStr ''audio''), (''data'', JStr d)] @ opt_field ''media_type'' m))"

definition ReasoningContent_value :: "ReasoningContent \<Rightarrow> json" where
  "ReasoningContent_value r = JObj (obj_of_list (case r of
       RText t \<Rightarrow> [(''type'', JStr ''text''), (''text'', JStr t)]
     | Redacted d \<Rightarrow> [(''type'', JStr ''redacted''), (''data'', JStr d)]))"

definition Item_value :: "Item \<Rightarrow> json" where
  "Item_value i = JObj (obj_of_list (case i of
       Message m \<Rightarrow> [(''type'', JStr ''message''), (''id'', JStr (msg_id m)), (''role'', JStr (role_str (msg_role m))),
         (''content'', JArr (map ContentPart_value (msg_content m))), (''status'', JStr (status_str (msg_status m)))]
     | FunctionCall f \<Rightarrow> [(''type'', JStr ''function_call''), (''id'', JStr (fc_id f)), (''call_id'', JStr (fc_call_id f)),
         (''name'', JStr (fc_name f)), (''arguments'', JStr (fc_arguments f)), (''status'', JStr (status_str (fc_status f)))]
     | FunctionCallOutput f \<Rightarrow> [(''type'', JStr ''function_call_output''), (''id'', JStr (fco_id f)),
         (''call_id'', JStr (fco_call_id f)), (''output'', JStr (fco_output f)),
         (''status'', JStr (status_str (fco_status f)))]
     | IReasoning r \<Rightarrow> [(''type'', JStr ''reasoning''), (''id'', JStr (rs_id r)),
         (''content'', JArr (map ReasoningContent_value (rs_content r)))] @ opt_field ''summary'' (rs_summary r)
         @ [(''status'', JStr (status_str (rs_status r)))]))"

definition items_value :: "Item list \<Rightarrow> json" where
  "items_value is = JArr (map Item_value is)"

subsection \<open>Replaying the tool calls of the previous response\<close>

definition json_get :: "json \<Rightarrow> rstring \<Rightarrow> json option" where
  "json_get v k = (case v of JObj m \<Rightarrow> map_of m k | _ \<Rightarrow> None)"

definition get_str :: "json \<Rightarrow> rstring \<Rightarrow> rstring option" where
  "get_str v k = Option.bind (json_get v k) json_str"

definition prior_call :: "json \<Rightarrow> InputItem option" where
  "prior_call item =
     (if get_str item ''type'' \<noteq> Some ''function_call'' then None
      else (case (get_str item ''call_id'', get_str item ''name'') of
              (Some call_id, Some name) \<Rightarrow>
                Some (InFunctionCall call_id name
                  (case get_str item ''arguments'' of Some a \<Rightarrow> a | None \<Rightarrow> ''{}''))
            | _ \<Rightarrow> None))"

fun is_tool_output :: "InputItem \<Rightarrow> bool" where
  "is_tool_output (InFunctionCallOutput _ _) = True"
| "is_tool_output _ = False"

definition replay_prior_tool_calls :: "Request \<Rightarrow> db \<Rightarrow> db \<times> InputItem list" where
  "replay_prior_tool_calls request s =
     (case req_previous_response_id request of
        None \<Rightarrow> (s, [])
      | Some prev_id \<Rightarrow>
          if \<not> list_ex is_tool_output (req_input request) then (s, [])
          else (case find_output_items_by_id prev_id s of
                  (s', Inr (Some (JArr items))) \<Rightarrow> (s', List.map_filter prior_call items)
                | (s', _) \<Rightarrow> (s', [])))"

subsection \<open>The confidence gate\<close>

definition apply_confidence_threshold_gate :: "Request \<Rightarrow> Response \<Rightarrow> Response" where
  "apply_confidence_threshold_gate request response =
     (case req_validation request of
        None \<Rightarrow> response
      | Some cfg \<Rightarrow>
          if vc_strategy cfg \<noteq> ConfidenceThreshold then response
          else (case vc_min_confidence cfg of
                  None \<Rightarrow> response
                | Some min_confidence \<Rightarrow>
                    if resp_status response \<noteq> RS_Completed then response
                    else (case Option.bind (resp_validation response) vm_confidence of
                            None \<Rightarrow> response
                          | Some measured \<Rightarrow>
                              if f64_lt measured min_confidence
                              then response\<lparr> resp_status := RS_Incomplete,
                                             resp_incomplete_reason := Some LowConfidence \<rparr>
                              else response)))"

subsection \<open>Compression of the input\<close>

record prep_env =
  pe_compress :: compress_env
  pe_elapsed :: "rstring \<Rightarrow> u32"
  pe_total_elapsed :: u32

record prep_acc =
  pa_input :: "InputItem list"
  pa_original_tokens :: u32
  pa_compressed_tokens :: u32
  pa_strategies :: "CompressionStrategy list"
  pa_originals :: "rstring list"
  pa_compressed :: "rstring list"

definition content_text :: "rstring \<Rightarrow> InputContent \<Rightarrow> rstring" where
  "content_text sep content =
     (case content of
        IText t \<Rightarrow> t
      | IParts parts \<Rightarrow> str_join sep (List.map_filter part_text parts))"

definition add_strategies :: "CompressionStrategy list \<Rightarrow> CompressionStrategy list \<Rightarrow> CompressionStrategy list" where
  "add_strategies old new = fold (\<lambda>x used. if x \<in> set used then used else used @ [x]) new old"

definition opt_add :: "u32 \<Rightarrow> u32 option \<Rightarrow> u32" where
  "opt_add acc n = (case n of Some k \<Rightarrow> acc + k | None \<Rightarrow> acc)"

definition compress_item :: "prep_env \<Rightarrow> CompressionConfig \<Rightarrow> InputItem \<Rightarrow> prep_acc \<Rightarrow> prep_acc" where
  "compress_item v config item a =
     (case item of
        InMessage role content \<Rightarrow>
          (let text = content_text nl content
           in case compress_content (pe_compress v) (pe_elapsed v text) text config of
                Inr out \<Rightarrow>
                  a\<lparr> pa_input := pa_input a @ [InMessage role (IText (co_content out))],
                     pa_original_tokens := opt_add (pa_original_tokens a) (original_tokens (co_metadata out)),
                     pa_compressed_tokens := opt_add (pa_compressed_tokens a) (compressed_tokens (co_metadata out)),
                     pa_strategies := add_strategies (pa_strategies a) (strategies (co_metadata out)),
                     pa_originals := pa_originals a @ [text], pa_compressed := pa_compressed a @ [co_content out] \<rparr>
              | Inl _ \<Rightarrow> a\<lparr> pa_input := pa_input a @ [item] \<rparr>)
      | _ \<Rightarrow> a\<lparr> pa_input := pa_input a @ [item] \<rparr>)"

definition prep_acc_new :: prep_acc where
  "prep_acc_new =
     \<lparr> pa_input = [], pa_original_tokens = 0, pa_compressed_tokens = 0, pa_strategies = [], pa_originals = [],
       pa_compressed = [] \<rparr>"

definition prep_metadata :: "u32 \<Rightarrow> prep_acc \<Rightarrow> CompressionMetadata" where
  "prep_metadata elapsed a =
     CompressionMetadata_default\<lparr>
       original_tokens := (if 0 < pa_original_tokens a then Some (pa_original_tokens a) else None),
       compressed_tokens := (if 0 < pa_compressed_tokens a then Some (pa_compressed_tokens a) else None),
       cm_ratio := (if 0 < pa_original_tokens a
          then Some (f32_div (to_f32 (of_nat (unat (pa_compressed_tokens a)))) (to_f32 (of_nat (unat (pa_original_tokens a)))))
          else None),
       strategies := pa_strategies a, latency_ms := Some elapsed \<rparr>"

record PreprocessResult =
  pp_request :: Request
  pp_compression_metadata :: "CompressionMetadata option"
  pp_original_input :: "rstring option"
  pp_compressed_input :: "rstring option"

definition log_separator :: rstring where
  "log_separator = nl @ ''---'' @ nl"

definition compress_input :: "prep_env \<Rightarrow> Request \<Rightarrow> PreprocessResult" where
  "compress_input v request =
     (case req_compression request of
        Some config \<Rightarrow>
          if cmp_enabled config
          then (let a = fold (compress_item v config) (req_input request) prep_acc_new
                in \<lparr> pp_request = request\<lparr> req_input := pa_input a \<rparr>,
                     pp_compression_metadata = Some (prep_metadata (pe_total_elapsed v) a),
                     pp_original_input = Some (str_join log_separator (pa_originals a)),
                     pp_compressed_input = Some (str_join log_separator (pa_compressed a)) \<rparr>)
          else \<lparr> pp_request = request, pp_compression_metadata = None, pp_original_input = None,
                 pp_compressed_input = None \<rparr>
      | None \<Rightarrow> \<lparr> pp_request = request, pp_compression_metadata = None, pp_original_input = None,
                  pp_compressed_input = None \<rparr>)"

subsection \<open>Consistency\<close>

text \<open>The new instructions, when the strategy has what it needs.\<close>

definition consistent_instructions :: "unicode \<Rightarrow> Request \<Rightarrow> ConsistencyConfig \<Rightarrow> rstring option" where
  "consistent_instructions U request c =
     (case cc_strategy c of
        Constitutional \<Rightarrow> map_option (PromptAugmenter_with_constitution (req_instructions request)) (cc_principles c)
      | CStrat_StyleProfile \<Rightarrow> map_option (PromptAugmenter_with_style (req_instructions request)) (cc_style_profile c)
      | ReferenceAnchoring \<Rightarrow>
          map_option (PromptAugmenter_with_reference (req_instructions request)) (cc_reference_response c)
      | FewShotPriming \<Rightarrow> map_option (PromptAugmenter_with_examples (req_instructions request)) (cc_examples c)
      | CStrat_ModelCalibration \<Rightarrow>
          Some (PromptAugmenter_with_calibration (req_instructions request)
            (DefaultCalibrations_for_model U (req_model request)))
      | _ \<Rightarrow> None)"

definition augment_instructions :: "unicode \<Rightarrow> Request \<Rightarrow> Request" where
  "augment_instructions U request =
     (case Option.bind (req_consistency request) (consistent_instructions U request) of
        Some augmented \<Rightarrow> request\<lparr> req_instructions := Some augmented \<rparr>
      | None \<Rightarrow> request)"

definition preprocess_request :: "prep_env \<Rightarrow> Request \<Rightarrow> PreprocessResult" where
  "preprocess_request v request =
     (let p = compress_input v request
      in p\<lparr> pp_request := augment_instructions (ce_unicode (pe_compress v)) (pp_request p) \<rparr>)"


subsection \<open>The replay reads what was written\<close>

definition replayed_call :: "Item \<Rightarrow> InputItem option" where
  "replayed_call i = map_option (\<lambda>f. InFunctionCall (fc_call_id f) (fc_name f) (fc_arguments f)) (Item_as_function_call i)"

lemma json_get_obj: "json_get (JObj (obj_of_list kvs)) k = map_of (rev kvs) k"
  by (simp add: json_get_def obj_of_list_get)

lemma prior_call_value: "prior_call (Item_value i) = replayed_call i"
  by (cases i)
    (simp_all add: prior_call_def Item_value_def get_str_def json_get_obj replayed_call_def opt_field_def
      split: option.splits)

lemma replay_items: "List.map_filter prior_call (map Item_value is) = List.map_filter replayed_call is"
  by (induction "is") (auto simp: map_filter_simps prior_call_value split: option.splits)

lemma replay_eq:
  assumes "req_previous_response_id request = Some i" "list_ex is_tool_output (req_input request)"
    and "find_response i s = Some r" "rr_output_items r = items_value out" "\<not> db_fails s (db_queries s)"
  shows "snd (replay_prior_tool_calls request s) = List.map_filter replayed_call out"
  using assms by (simp add: replay_prior_tool_calls_def find_output_items_by_id_def db_read_def db_query_def
      find_response_def items_value_def replay_items Let_def)

subsection \<open>What compression does to the input\<close>

definition compressed_item :: "prep_env \<Rightarrow> CompressionConfig \<Rightarrow> InputItem \<Rightarrow> InputItem" where
  "compressed_item v config item =
     (case item of
        InMessage role content \<Rightarrow>
          (case compress_content (pe_compress v) (pe_elapsed v (content_text nl content)) (content_text nl content) config of
             Inr out \<Rightarrow> InMessage role (IText (co_content out)) | Inl _ \<Rightarrow> item)
      | _ \<Rightarrow> item)"

lemma compress_items: "pa_input (fold (compress_item v config) items a) = pa_input a @ map (compressed_item v config) items"
  by (induction items arbitrary: a)
    (auto simp: compress_item_def compressed_item_def Let_def split: InputItem.splits sum.splits)

lemma compressed_input:
  assumes "req_compression request = Some config" "cmp_enabled config"
  shows "req_input (pp_request (preprocess_request v request)) = map (compressed_item v config) (req_input request)"
  using assms
  by (simp add: preprocess_request_def compress_input_def augment_instructions_def compress_items prep_acc_new_def Let_def
      split: option.splits)

lemma compressed_message: "\<exists>t. compressed_item v config (InMessage role content) = InMessage role (IText t)"
  using compress_content_total [of "pe_compress v" "pe_elapsed v (content_text nl content)" "content_text nl content" config]
  by (auto simp: compressed_item_def)

lemma uncompressed_input:
  assumes "case req_compression request of Some config \<Rightarrow> \<not> cmp_enabled config | None \<Rightarrow> True"
  shows "req_input (pp_request (preprocess_request v request)) = req_input request"
    and "pp_compression_metadata (preprocess_request v request) = None"
  using assms
  by (auto simp: preprocess_request_def compress_input_def augment_instructions_def Let_def split: option.splits)

subsection \<open>The gate\<close>

lemma gate_demotes:
  "apply_confidence_threshold_gate request response \<noteq> response \<Longrightarrow>
   resp_status (apply_confidence_threshold_gate request response) = RS_Incomplete
   \<and> (\<exists>cfg m c. req_validation request = Some cfg \<and> vc_strategy cfg = ConfidenceThreshold
        \<and> vc_min_confidence cfg = Some m \<and> Option.bind (resp_validation response) vm_confidence = Some c
        \<and> f64_lt c m) \<and> resp_status response = RS_Completed"
  by (auto simp: apply_confidence_threshold_gate_def split: option.splits if_splits)

lemma gate_frame [simp]:
  "resp_id (apply_confidence_threshold_gate q r) = resp_id r"
  "resp_output (apply_confidence_threshold_gate q r) = resp_output r"
  "resp_usage (apply_confidence_threshold_gate q r) = resp_usage r"
  "resp_model (apply_confidence_threshold_gate q r) = resp_model r"
  by (simp_all add: apply_confidence_threshold_gate_def split: option.split)

end
