(* ===== verification/Persistence.thy ===== *)
theory Persistence
  imports Auth Request_Prep
begin

text \<open>
  What the gateway writes about a request (\<open>AppState\<close> in \<open>aura-proxy/src/main.rs\<close>): logs, routing
  decisions, conversations, responses, messages, usage of keys, and the metadata it adds to a
  response. The values \<open>serde\<close> derives for whole requests, responses and decisions, the text of an
  identifier and the version are parameters, in \<open>persist_env\<close>.
\<close>

record gateway_app =
  ga_state :: AppState
  ga_has_db :: bool
  ga_payload_capture :: bool
  ga_replay_tool_context :: bool
  ga_cache_enabled :: bool
  ga_cache_ttl_secs :: u64
  ga_org_cache :: "uuid \<rightharpoonup> instant \<times> json"

record persist_env =
  px_codec :: json_codec
  px_uuid :: "uuid \<Rightarrow> rstring"
  px_version :: rstring
  px_request :: "Request \<Rightarrow> json option"
  px_response :: "Response \<Rightarrow> json option"
  px_decision :: "AutoDecision \<Rightarrow> json option"
  px_features :: "RequestFeatures \<Rightarrow> json option"
  px_signals :: "(rstring \<rightharpoonup> f64) \<Rightarrow> json option"
  px_candidates :: "CandidateInfo list \<Rightarrow> json option"
  px_escalations :: "Escalation list \<Rightarrow> json option"
  px_boundaries :: "TierBoundaries \<Rightarrow> json option"

subsection \<open>Values\<close>

definition json_f64 :: "f64 \<Rightarrow> json" where
  "json_f64 x = (case x of Fin r \<Rightarrow> JNum (JFloat x) | _ \<Rightarrow> JNull)"

definition json_u :: "'a::len word \<Rightarrow> json" where
  "json_u n = JNum (PosInt (ucast n))"

definition object :: "(rstring \<times> json) list \<Rightarrow> json" where
  "object kvs = JObj (obj_of_list kvs)"

definition field_opt :: "rstring \<Rightarrow> ('a \<Rightarrow> json) \<Rightarrow> 'a option \<Rightarrow> (rstring \<times> json) list" where
  "field_opt k f v = (case v of Some x \<Rightarrow> [(k, f x)] | None \<Rightarrow> [])"

definition field_if :: "bool \<Rightarrow> rstring \<Rightarrow> json \<Rightarrow> (rstring \<times> json) list" where
  "field_if b k v = (if b then [(k, v)] else [])"

definition InputContent_value :: "InputContent \<Rightarrow> json" where
  "InputContent_value c = (case c of IText t \<Rightarrow> JStr t | IParts ps \<Rightarrow> JArr (map ContentPart_value ps))"

definition InputItem_value :: "InputItem \<Rightarrow> json" where
  "InputItem_value i = object (case i of
       InMessage r c \<Rightarrow> [(''type'', JStr ''message''), (''role'', JStr (role_str r)), (''content'', InputContent_value c)]
     | InFunctionCall c n a \<Rightarrow> [(''type'', JStr ''function_call''), (''call_id'', JStr c), (''name'', JStr n),
         (''arguments'', JStr a)]
     | InFunctionCallOutput c out \<Rightarrow> [(''type'', JStr ''function_call_output''), (''call_id'', JStr c),
         (''output'', JStr out)])"

text \<open>\<open>format!("{:?}", x).to_lowercase()\<close>.\<close>

definition reason_debug :: "IncompleteReason \<Rightarrow> rstring" where
  "reason_debug r = (case r of MaxTokens \<Rightarrow> ''maxtokens'' | ContentFilter \<Rightarrow> ''contentfilter''
     | IR_Cancelled \<Rightarrow> ''cancelled'' | LowConfidence \<Rightarrow> ''lowconfidence'' | IR_Unknown \<Rightarrow> ''unknown'')"

definition validation_debug :: "ValidationStrategy \<Rightarrow> rstring" where
  "validation_debug s = (case s of VS_None \<Rightarrow> ''none'' | Logprobs \<Rightarrow> ''logprobs'' | BestOfN \<Rightarrow> ''bestofn''
     | SelfConsistency \<Rightarrow> ''selfconsistency'' | ConfidenceThreshold \<Rightarrow> ''confidencethreshold''
     | Ensemble \<Rightarrow> ''ensemble'')"

definition selection_debug :: "SelectionCriteria \<Rightarrow> rstring" where
  "selection_debug s = (case s of HighestConfidence \<Rightarrow> ''highestconfidence'' | Longest \<Rightarrow> ''longest''
     | MostRelevant \<Rightarrow> ''mostrelevant'' | Shortest \<Rightarrow> ''shortest'' | LowestPerplexity \<Rightarrow> ''lowestperplexity'')"

definition consistency_debug :: "ConsistencyStrategy \<Rightarrow> rstring" where
  "consistency_debug s = (case s of CStrat_None \<Rightarrow> ''none'' | Constitutional \<Rightarrow> ''constitutional''
     | ReferenceAnchoring \<Rightarrow> ''referenceanchoring'' | CStrat_ModelCalibration \<Rightarrow> ''modelcalibration''
     | FormatSchema \<Rightarrow> ''formatschema'' | FewShotPriming \<Rightarrow> ''fewshotpriming''
     | CStrat_StyleProfile \<Rightarrow> ''styleprofile'' | SemanticNormalization \<Rightarrow> ''semanticnormalization''
     | EnsembleVoting \<Rightarrow> ''ensemblevoting'' | AdaptiveFewShot \<Rightarrow> ''adaptivefewshot'')"

definition data_format_debug :: "DataFormat \<Rightarrow> rstring" where
  "data_format_debug f = (case f of DF_Json \<Rightarrow> ''json'' | JsonCompact \<Rightarrow> ''jsoncompact'' | DF_Yaml \<Rightarrow> ''yaml''
     | DF_Toon \<Rightarrow> ''toon'' | DF_Markdown \<Rightarrow> ''markdown'')"

definition semantic_format_debug :: "SemanticFormat \<Rightarrow> rstring" where
  "semantic_format_debug f = (case f of Natural \<Rightarrow> ''natural'' | SF_Aisp \<Rightarrow> ''aisp'' | Pseudocode \<Rightarrow> ''pseudocode'')"

definition compression_debug :: "CompressionStrategy \<Rightarrow> rstring" where
  "compression_debug s = (case s of CS_None \<Rightarrow> ''none'' | TokenCleanup \<Rightarrow> ''tokencleanup''
     | JsonMinify \<Rightarrow> ''jsonminify'' | CS_Yaml \<Rightarrow> ''yaml'' | CS_Toon \<Rightarrow> ''toon'' | CS_Markdown \<Rightarrow> ''markdown''
     | CS_Aisp \<Rightarrow> ''aisp'' | Hybrid \<Rightarrow> ''hybrid'')"

definition item_status_debug :: "ItemStatus \<Rightarrow> rstring" where
  "item_status_debug s = (case s of It_InProgress \<Rightarrow> ''inprogress'' | It_Completed \<Rightarrow> ''completed''
     | It_Failed \<Rightarrow> ''failed'' | It_Incomplete \<Rightarrow> ''incomplete'')"

definition response_status_to_string :: "ResponseStatus \<Rightarrow> rstring" where
  "response_status_to_string s = (case s of RS_InProgress \<Rightarrow> ''in_progress'' | RS_Completed \<Rightarrow> ''completed''
     | RS_Failed \<Rightarrow> ''failed'' | RS_Incomplete \<Rightarrow> ''incomplete'' | RS_Cancelled \<Rightarrow> ''cancelled'')"

subsection \<open>Settings of an organization\<close>

definition ORG_SETTINGS_TTL :: nat where "ORG_SETTINGS_TTL = 60 * 1000000000"

definition org_settings :: "instant \<Rightarrow> uuid \<Rightarrow> gateway_app \<Rightarrow> db \<Rightarrow> gateway_app \<times> db \<times> json option" where
  "org_settings now i app s =
     (if \<not> ga_has_db app then (app, s, None)
      else (case (case ga_org_cache app i of
                    Some (stored, value) \<Rightarrow> if now - stored < ORG_SETTINGS_TTL then Some value else None
                  | None \<Rightarrow> None) of
              Some value \<Rightarrow> (app, s, Some value)
            | None \<Rightarrow>
                (case OrganizationRepo_get_settings i s of
                   (s', Inl _) \<Rightarrow> (app, s', None)
                 | (s', Inr settings) \<Rightarrow>
                     (let value = (case settings of Some v \<Rightarrow> v | None \<Rightarrow> JNull)
                      in (app\<lparr> ga_org_cache := (ga_org_cache app)(i \<mapsto> (now, value)) \<rparr>, s',
                          if value = JNull then None else Some value)))))"

definition invalidate_org_settings :: "uuid \<Rightarrow> gateway_app \<Rightarrow> gateway_app" where
  "invalidate_org_settings i app = app\<lparr> ga_org_cache := (ga_org_cache app)(i := None) \<rparr>"

text \<open>How the override is read from the settings is serde's.\<close>

definition org_auto_routing_override ::
    "(json \<Rightarrow> OrgAutoRoutingOverride) \<Rightarrow> instant \<Rightarrow> uuid option \<Rightarrow> gateway_app \<Rightarrow> db \<Rightarrow>
     gateway_app \<times> db \<times> OrgAutoRoutingOverride" where
  "org_auto_routing_override from_org_settings now org app s =
     (case org of
        None \<Rightarrow> (app, s, OrgAutoRoutingOverride_default)
      | Some i \<Rightarrow>
          (case org_settings now i app s of
             (app', s', Some v) \<Rightarrow> (app', s', from_org_settings v)
           | (app', s', None) \<Rightarrow> (app', s', OrgAutoRoutingOverride_default)))"

definition should_capture_payload :: "instant \<Rightarrow> uuid option \<Rightarrow> gateway_app \<Rightarrow> db \<Rightarrow> gateway_app \<times> db \<times> bool" where
  "should_capture_payload now org app s =
     (if \<not> ga_payload_capture app then (app, s, False)
      else (case org of
              None \<Rightarrow> (app, s, True)
            | Some i \<Rightarrow>
                if \<not> ga_has_db app then (app, s, True)
                else (case org_settings now i app s of
                        (app', s', Some v) \<Rightarrow>
                          (app', s', (case json_get v ''capture_payloads'' of Some (JBool b) \<Rightarrow> b | _ \<Rightarrow> False))
                      | (app', s', None) \<Rightarrow> (app', s', False))))"

subsection \<open>Logs and decisions\<close>

text \<open>Whether the statement after it is reached: a panic ends the task.\<close>

definition log_request :: "gateway_app \<Rightarrow> NewRequestLog \<Rightarrow> db \<Rightarrow> db \<times> unit panics" where
  "log_request app entry s =
     (if \<not> ga_has_db app then (s, Some ())
      else (case RequestLogRepo_create entry s of (s', r) \<Rightarrow> (s', map_option (\<lambda>_. ()) r)))"

definition or_value :: "json \<Rightarrow> json option \<Rightarrow> json" where
  "or_value d v = (case v of Some x \<Rightarrow> x | None \<Rightarrow> d)"

definition new_decision ::
    "persist_env \<Rightarrow> CostCalculator \<Rightarrow> AutoDecision \<Rightarrow> rstring \<Rightarrow> rstring option \<Rightarrow> AuthContext option \<Rightarrow> uuid option \<Rightarrow>
     NewRoutingDecision" where
  "new_decision px c d request_id provider_response_id auth conversation_id =
     \<lparr> nd_response_id = request_id, nd_provider_response_id = provider_response_id,
       nd_organization_id = Option.bind auth (\<lambda>a. tc_organization_id (ac_tenant a)),
       nd_api_key_id = map_option (\<lambda>a. ak_id (ac_api_key a)) auth, nd_conversation_id = conversation_id,
       nd_requested_model = ad_requested_model d, nd_mode = RoutingMode_as_str (ad_mode d),
       nd_classifier = ad_classifier d, nd_score = ad_score d, nd_raw_score = ad_raw_score d,
       nd_classified_tier = Tier_as_str (ad_classified_tier d), nd_tier = Tier_as_str (ad_tier d),
       nd_selected_model = ad_selected d, nd_selected_provider = ad_selected_provider d,
       nd_reason = ad_reason d, nd_shadow = ad_shadow d,
       nd_features = or_value (object []) (px_features px (ad_features d)),
       nd_signals = or_value (object []) (px_signals px (ad_signals d)),
       nd_hard_filters = ad_hard_filters d,
       nd_candidates = or_value (JArr []) (px_candidates px (ad_candidates d)),
       nd_requested_blended_per_million =
         (if ad_shadow d then blended_cost_per_million c (ad_requested_model d) else None),
       nd_selected_blended_per_million = blended_cost_per_million c (ad_selected d),
       nd_decision_latency_us = ucast (min (ad_latency_us d) (2 ^ 31 - 1)),
       nd_escalations = or_value (JArr []) (px_escalations px (ad_escalations d)),
       nd_synthetic = ad_synthetic d, nd_boundaries = px_boundaries px (ad_boundaries d) \<rparr>"

definition record_routing_decision ::
    "persist_env \<Rightarrow> gateway_app \<Rightarrow> AutoDecision option \<Rightarrow> rstring \<Rightarrow> rstring option \<Rightarrow> AuthContext option \<Rightarrow>
     uuid option \<Rightarrow> db \<Rightarrow> db" where
  "record_routing_decision px app decision request_id provider_response_id auth conversation_id s =
     (case decision of
        Some d \<Rightarrow>
          if ga_has_db app
          then fst (RoutingDecisionRepo_upsert (new_decision px (as_cost_calculator (ga_state app)) d request_id
                 provider_response_id auth conversation_id) s)
          else s
      | None \<Rightarrow> s)"

subsection \<open>The metadata of a response\<close>

definition inferred_provider :: "rstring \<Rightarrow> rstring" where
  "inferred_provider model =
     (if starts_with model ''gpt-'' \<or> starts_with model ''o1-'' then ''openai''
      else if starts_with model ''claude-'' then ''anthropic''
      else if starts_with model ''gemini-'' then ''google''
      else if starts_with model ''mistral'' \<or> starts_with model ''codestral'' \<or> starts_with model ''ministral''
              \<or> starts_with model ''pixtral'' then ''mistral''
      else if starts_with model ''anthropic.'' then ''bedrock''
      else ''unknown'')"

definition response_provider :: "AppState \<Rightarrow> rstring \<Rightarrow> rstring" where
  "response_provider st model = (case as_model_map st model of Some p \<Rightarrow> p | None \<Rightarrow> inferred_provider model)"

definition tool_call_data :: "json_codec \<Rightarrow> FunctionCallItem \<Rightarrow> json" where
  "tool_call_data c f =
     object [(''name'', JStr (fc_name f)),
       (''arguments'', case jc_from_str c (fc_arguments f) of Inr v \<Rightarrow> v | Inl _ \<Rightarrow> JStr (fc_arguments f)),
       (''call_id'', JStr (fc_call_id f))]"

definition agentic_metadata :: "json_codec \<Rightarrow> Response \<Rightarrow> json" where
  "agentic_metadata c r =
     (let calls = List.map_filter Item_as_function_call (resp_output r);
          has_tool_calls = (calls \<noteq> [])
      in object
           ([(''output_items_count'', json_nat (length (resp_output r))), (''has_tool_calls'', JBool has_tool_calls)]
            @ (if has_tool_calls
               then [(''tool_calls_count'', json_nat (length calls)),
                     (''tools_used'', JArr (map (\<lambda>f. JStr (fc_name f)) calls)),
                     (''tool_calls_data'', JArr (map (tool_call_data c) calls)),
                     (''requires_action'', JBool (\<exists>i \<in> set (resp_output r).
                        Item_is_function_call i \<and> Item_status i = It_InProgress))]
               else [])
            @ field_if (\<exists>i \<in> set (resp_output r). Item_is_reasoning i) ''has_reasoning'' (JBool True)
            @ field_opt ''reasoning_tokens'' json_u (Option.bind (resp_usage r) reasoning_tokens)
            @ field_opt ''incomplete_reason'' (\<lambda>x. JStr (reason_debug x)) (resp_incomplete_reason r)))"

definition tenant_level ::
    "persist_env \<Rightarrow> rstring \<Rightarrow> rstring \<Rightarrow> uuid option \<Rightarrow> rstring option \<Rightarrow> (rstring \<times> json) list" where
  "tenant_level px id_key name_key i name =
     (case i of Some u \<Rightarrow> (id_key, JStr (px_uuid px u)) # field_opt name_key JStr name | None \<Rightarrow> [])"

definition tenant_metadata :: "persist_env \<Rightarrow> AuthContext option \<Rightarrow> json" where
  "tenant_metadata px auth =
     object (case auth of
        Some a \<Rightarrow>
          (let t = ac_tenant a
           in (''api_key_id'', JStr (tc_api_key_id t))
              # tenant_level px ''organization_id'' ''organization_name'' (tc_organization_id t) (tc_organization_name t)
              @ tenant_level px ''team_id'' ''team_name'' (tc_team_id t) (tc_team_name t)
              @ tenant_level px ''project_id'' ''project_name'' (tc_project_id t) (tc_project_name t))
      | None \<Rightarrow> [])"

definition end_user_metadata :: "EndUser \<Rightarrow> json" where
  "end_user_metadata u =
     object ([(''external_id'', JStr (eu_external_id u))] @ field_opt ''name'' JStr (eu_name u)
       @ field_opt ''email'' JStr (eu_email u) @ field_opt ''metadata'' id (eu_metadata u))"

definition load_end_user ::
    "gateway_app \<Rightarrow> AuthContext option \<Rightarrow> Request option \<Rightarrow> db \<Rightarrow> db \<times> EndUser option" where
  "load_end_user app auth request s =
     (case (Option.bind request req_user, Option.bind auth (\<lambda>a. tc_organization_id (ac_tenant a))) of
        (Some user, Some org) \<Rightarrow>
          if ga_has_db app then found (EndUserRepo_find_by_external_id org user) s else (s, None)
      | _ \<Rightarrow> (s, None))"

definition validation_metadata :: "ValidationConfig \<Rightarrow> json" where
  "validation_metadata v =
     object ([(''strategy'', JStr (validation_debug (vc_strategy v)))] @ field_opt ''n'' json_u (vc_n v)
       @ field_opt ''min_confidence'' json_f64 (vc_min_confidence v)
       @ field_opt ''selection'' (\<lambda>x. JStr (selection_debug x)) (vc_selection v)
       @ field_if (vc_include_logprobs v = Some True) ''include_logprobs'' (JBool True))"

definition consistency_metadata :: "ConsistencyConfig \<Rightarrow> json" where
  "consistency_metadata c =
     object ([(''strategy'', JStr (consistency_debug (cc_strategy c)))]
       @ field_if (cc_apply_calibration c) ''apply_calibration'' (JBool True)
       @ (case cc_principles c of
            Some p \<Rightarrow> [(''has_principles'', JBool True), (''principles_count'', json_nat (length p))] | None \<Rightarrow> [])
       @ field_if (cc_style_profile c \<noteq> None) ''has_style_profile'' (JBool True)
       @ (case cc_examples c of
            Some e \<Rightarrow> [(''has_examples'', JBool True), (''examples_count'', json_nat (length e))] | None \<Rightarrow> []))"

definition compression_fields :: "CompressionConfig \<Rightarrow> (rstring \<times> json) list" where
  "compression_fields c =
     (if cmp_enabled c
      then [(''compression_enabled'', JBool True),
            (''compression_config'', object
               [(''data_format'', JStr (data_format_debug (data_format c))),
                (''semantic_format'', JStr (semantic_format_debug (semantic_format c))),
                (''auto_select'', JBool (auto_select c))])]
      else [])"

definition request_fields :: "Request \<Rightarrow> (rstring \<times> json) list" where
  "request_fields q =
     field_opt ''validation'' validation_metadata (req_validation q)
     @ field_opt ''consistency'' consistency_metadata (req_consistency q)
     @ (case req_compression q of Some c \<Rightarrow> compression_fields c | None \<Rightarrow> [])"

definition with_cost :: "CostCalculator \<Rightarrow> Response \<Rightarrow> Response" where
  "with_cost c r =
     (case resp_usage r of
        None \<Rightarrow> r
      | Some u \<Rightarrow>
          (case CostCalculator_calculate_cost c (resp_model r) (input_tokens u) (output_tokens u) (cached_tokens u)
                  (reasoning_tokens u) of
             Some cost \<Rightarrow> r\<lparr> resp_usage := Some (Usage_set_cost u cost) \<rparr>
           | None \<Rightarrow> r))"

definition merge_metadata :: "json option \<Rightarrow> json \<Rightarrow> json \<Rightarrow> json" where
  "merge_metadata existing aura_metadata short =
     (case existing of
        None \<Rightarrow> aura_metadata
      | Some old \<Rightarrow>
          (case (old, aura_metadata) of
             (JObj m, JObj n) \<Rightarrow> JObj (fold (\<lambda>(k, v). obj_insert k v) n m)
           | _ \<Rightarrow> short))"

definition enrich_response ::
    "persist_env \<Rightarrow> gateway_app \<Rightarrow> Response \<Rightarrow> rstring \<Rightarrow> AuthContext option \<Rightarrow> Request option \<Rightarrow> db \<Rightarrow>
     db \<times> Response" where
  "enrich_response px app response request_id auth request s =
     (let response = with_cost (as_cost_calculator (ga_state app)) response;
          provider_name = response_provider (ga_state app) (resp_model response);
          (s', end_user) = load_end_user app auth request s;
          aura_metadata_obj = object
            ([(''request_id'', JStr request_id), (''model'', JStr (resp_model response)),
              (''provider'', JStr provider_name), (''gateway_version'', JStr (px_version px)),
              (''agentic'', agentic_metadata (px_codec px) response), (''tenant'', tenant_metadata px auth)]
             @ field_opt ''end_user'' end_user_metadata end_user
             @ (case request of Some q \<Rightarrow> request_fields q | None \<Rightarrow> []));
          short = object [(''aura'', object [(''request_id'', JStr request_id), (''provider'', JStr provider_name),
             (''gateway_version'', JStr (px_version px))])]
      in (s', response\<lparr> resp_metadata :=
             Some (merge_metadata (resp_metadata response) (object [(''aura'', aura_metadata_obj)]) short) \<rparr>))"

definition compression_stats :: "CompressionMetadata \<Rightarrow> json" where
  "compression_stats m =
     object (field_opt ''original_tokens'' json_u (original_tokens m)
       @ field_opt ''compressed_tokens'' json_u (compressed_tokens m)
       @ (case cm_ratio m of
            Some r \<Rightarrow> [(''ratio'', json_f64 r),
                       (''savings_percent'', json_f64 (f32_mul (f32_sub (f32_lit 1 1) r) (f32_lit 100 1)))]
          | None \<Rightarrow> [])
       @ field_if (strategies m \<noteq> []) ''strategies'' (JArr (map (\<lambda>x. JStr (compression_debug x)) (strategies m)))
       @ field_opt ''latency_ms'' json_u (latency_ms m))"

text \<open>\<open>metadata.get_mut("aura")\<close>, when both are objects.\<close>

definition update_aura :: "(rstring \<times> json) list \<Rightarrow> json \<Rightarrow> json" where
  "update_aura kvs metadata =
     (case metadata of
        JObj m \<Rightarrow>
          (case map_of m ''aura'' of
             Some (JObj aura) \<Rightarrow> JObj (obj_insert ''aura'' (JObj (fold (\<lambda>(k, v). obj_insert k v) kvs aura)) m)
           | _ \<Rightarrow> metadata)
      | _ \<Rightarrow> metadata)"

definition enrich_response_with_latency ::
    "persist_env \<Rightarrow> gateway_app \<Rightarrow> Response \<Rightarrow> rstring \<Rightarrow> u64 \<Rightarrow> AuthContext option \<Rightarrow> Request option \<Rightarrow>
     CompressionMetadata option \<Rightarrow> rstring option \<Rightarrow> AutoDecision option \<Rightarrow> db \<Rightarrow> db \<times> Response" where
  "enrich_response_with_latency px app response request_id latency auth request compression strategy decision s =
     (let (s', r) = enrich_response px app response request_id auth request s;
          added = [(''latency_ms'', json_u latency)]
            @ field_opt ''routing_strategy'' JStr strategy
            @ field_opt ''routing'' id (Option.bind decision (px_decision px))
            @ field_opt ''compression'' compression_stats compression
      in (s', r\<lparr> resp_metadata := map_option (update_aura added) (resp_metadata r) \<rparr>))"

subsection \<open>Conversations, responses, messages\<close>

fun first_user_text :: "InputItem list \<Rightarrow> rstring option" where
  "first_user_text [] = None"
| "first_user_text (InMessage User content # items) = Some (content_text '' '' content)"
| "first_user_text (_ # items) = first_user_text items"

definition extract_first_user_message :: "Request \<Rightarrow> rstring option" where
  "extract_first_user_message q = first_user_text (req_input q)"

text \<open>The conversation and whether it is new, or the text of the error.\<close>

definition new_conversation :: "Request \<Rightarrow> db \<Rightarrow> (db \<times> (rstring + uuid \<times> bool)) panics" where
  "new_conversation q s =
     map_option (map_prod id (map_sum DbError_display (\<lambda>c. (cv_id c, True))))
       (case extract_first_user_message q of
          Some msg \<Rightarrow> create_with_auto_title (req_user q) (req_model q) msg s
        | None \<Rightarrow> Some (ConversationRepo_create
            \<lparr> nc_user_id = req_user q, nc_title = Some (''Conversation with '' @ req_model q),
              nc_model_id = req_model q, nc_metadata = None \<rparr> s))"

definition get_or_create_conversation ::
    "gateway_app \<Rightarrow> Request \<Rightarrow> db \<Rightarrow> (db \<times> (rstring + uuid \<times> bool)) panics" where
  "get_or_create_conversation app q s =
     (if \<not> ga_has_db app then Some (s, Inl ''Database not configured'')
      else (case req_previous_response_id q of
              None \<Rightarrow> new_conversation q s
            | Some prev \<Rightarrow>
                (case find_conversation_by_response_id prev s of
                   (s', Inl e) \<Rightarrow> Some (s', Inl (DbError_display e))
                 | (s', Inr (Some conv)) \<Rightarrow> Some (s', Inr (conv, False))
                 | (s', Inr None) \<Rightarrow> new_conversation q s')))"

definition new_response :: "uuid \<Rightarrow> Request \<Rightarrow> Response \<Rightarrow> NewResponse" where
  "new_response conversation_id q r =
     \<lparr> nr_id = resp_id r, nr_conversation_id = conversation_id, nr_model_id = resp_model r,
       nr_status = response_status_to_string (resp_status r),
       nr_previous_response_id = req_previous_response_id q,
       nr_input_items = JArr (map InputItem_value (req_input q)), nr_output_items = items_value (resp_output r),
       nr_usage_input_tokens = map_option input_tokens (resp_usage r),
       nr_usage_output_tokens = map_option output_tokens (resp_usage r),
       nr_usage_cached_tokens = Option.bind (resp_usage r) cached_tokens,
       nr_usage_reasoning_tokens = Option.bind (resp_usage r) reasoning_tokens,
       nr_usage_cost_usd = Option.bind (resp_usage r) cost_usd,
       nr_error_code = map_option re_code (resp_error r), nr_error_message = map_option re_message (resp_error r),
       nr_incomplete_reason = map_option reason_debug (resp_incomplete_reason r), nr_metadata = resp_metadata r \<rparr>"

definition save_response :: "gateway_app \<Rightarrow> uuid \<Rightarrow> Request \<Rightarrow> Response \<Rightarrow> db \<Rightarrow> db" where
  "save_response app conversation_id q r s =
     (if ga_has_db app then fst (ResponseRepo_create (new_response conversation_id q r) s) else s)"

definition new_message :: "uuid \<Rightarrow> rstring \<Rightarrow> MessageItem \<Rightarrow> NewMessage" where
  "new_message conversation_id response_id m =
     \<lparr> nm_conversation_id = conversation_id, nm_role = role_str (msg_role m),
       nm_content = str_join nl (List.map_filter part_text (msg_content m)),
       nm_metadata = Some (object [(''item_id'', JStr (msg_id m)), (''response_id'', JStr response_id),
         (''status'', JStr (item_status_debug (msg_status m)))]) \<rparr>"

definition save_messages_from_items :: "gateway_app \<Rightarrow> uuid \<Rightarrow> rstring \<Rightarrow> Item list \<Rightarrow> db \<Rightarrow> db" where
  "save_messages_from_items app conversation_id response_id items s =
     (if ga_has_db app
      then fold (\<lambda>m s. fst (MessageRepo_create (new_message conversation_id response_id m) s))
             (List.map_filter Item_as_message items) s
      else s)"

subsection \<open>Usage of keys\<close>

definition resolve_end_user ::
    "AuthContext \<Rightarrow> Request \<Rightarrow> db \<Rightarrow> db \<times> uuid option \<times> rstring option" where
  "resolve_end_user auth q s =
     (case req_user q of
        None \<Rightarrow> (s, None, None)
      | Some user \<Rightarrow>
          (case tc_organization_id (ac_tenant auth) of
             None \<Rightarrow> (s, None, Some user)
           | Some org \<Rightarrow>
               (case EndUserRepo_find_by_external_id org user s of
                  (s', Inr (Some u)) \<Rightarrow> (s', Some (eu_id u), Some user)
                | (s', Inr None) \<Rightarrow>
                    (case EndUserRepo_upsert \<lparr> ne_organization_id = org, ne_external_id = user, ne_name = None,
                             ne_email = None, ne_metadata = None \<rparr> s' of
                       (s'', Inr u) \<Rightarrow> (s'', Some (eu_id u), Some user)
                     | (s'', Inl _) \<Rightarrow> (s'', None, Some user))
                | (s', Inl _) \<Rightarrow> (s', None, Some user))))"

definition new_usage ::
    "gateway_app \<Rightarrow> AuthContext \<Rightarrow> Response \<Rightarrow> Usage \<Rightarrow> uuid option \<Rightarrow> rstring option \<Rightarrow> NewApiKeyUsage" where
  "new_usage app auth r u end_user_id external_id =
     \<lparr> nu_api_key_id = ak_id (ac_api_key auth), nu_request_id = resp_id r, nu_model_id = resp_model r,
       nu_provider_name = (case as_model_map (ga_state app) (resp_model r) of Some p \<Rightarrow> p | None \<Rightarrow> ''unknown''),
       nu_input_tokens = input_tokens u, nu_output_tokens = output_tokens u, nu_cached_tokens = cached_tokens u,
       nu_reasoning_tokens = reasoning_tokens u, nu_cost_usd = cost_usd u, nu_end_user_id = end_user_id,
       nu_end_user_external_id = external_id \<rparr>"

definition record_api_key_usage :: "gateway_app \<Rightarrow> AuthContext \<Rightarrow> Response \<Rightarrow> Request \<Rightarrow> db \<Rightarrow> db" where
  "record_api_key_usage app auth r q s =
     (if \<not> ga_has_db app then s
      else (case resp_usage r of
              None \<Rightarrow> s
            | Some u \<Rightarrow>
                (case resolve_end_user auth q s of
                   (s', end_user_id, external_id) \<Rightarrow>
                     fst (ApiKeyUsageRepo_create (new_usage app auth r u end_user_id external_id) s'))))"

end
