(* ===== verification/Create_Response.thy ===== *)
theory Create_Response
  imports Persistence Escalation Cache Fanout Stream_Events
begin

text \<open>
  The handler of \<open>POST /v1/responses\<close> (\<open>create_response\<close> in \<open>aura-proxy/src/routes/responses.rs\<close>) over
  the components it calls: replay, preprocessing, auto routing, the conversation, the cache, the
  provider calls with their escalation or the fan-out, enrichment, the gate and what is stored. A
  spawned task runs where it is started; a panic ends the task only. A stream is the list of what the
  provider sends; every event passes through \<open>on_event\<close>. The retry loop has fuel for one call more
  than the retries the router allows, which \<open>loop_returns\<close> shows to be enough.
\<close>

record 's world =
  w_app :: gateway_app
  w_db :: db
  w_cache :: 's

record 's handler_env =
  he_services :: services
  he_persist :: persist_env
  he_prep :: prep_env
  he_complete :: "nat \<Rightarrow> provider \<Rightarrow> Request \<Rightarrow> ProviderError + Response"
  he_stream :: "nat \<Rightarrow> provider \<Rightarrow> Request \<Rightarrow> ProviderError + (ProviderError + StreamEvent) list"
  he_fanout :: fanout_env
  he_response_cache :: "'s ResponseCache option"
  he_codec :: codec
  he_org_override :: "json \<Rightarrow> OrgAutoRoutingOverride"
  he_event_json :: "StreamEvent \<Rightarrow> rstring + rstring"
  he_header_value :: "rstring \<Rightarrow> rstring option"
  he_now :: instant
  he_clock :: "nat \<Rightarrow> instant"
  he_latency_ms :: u64
  he_request_uuid :: rstring

type_synonym headers = "(rstring \<times> rstring) list"

datatype http_reply =
    Json_reply Response headers
  | Sse_reply "(rstring \<times> rstring) list" headers

subsection \<open>Before the provider\<close>

definition missing_scope :: "AuthContext option \<Rightarrow> bool" where
  "missing_scope auth \<longleftrightarrow>
     (case auth of
        Some a \<Rightarrow> \<not> AuthContext_has_scope a ''responses:create'' \<and> \<not> AuthContext_has_scope a ''*''
      | None \<Rightarrow> False)"

definition replayed :: "'s world \<Rightarrow> Request \<Rightarrow> 's world \<times> Request" where
  "replayed w q =
     (if ga_has_db (w_app w) \<and> ga_replay_tool_context (w_app w)
      then (case replay_prior_tool_calls q (w_db w) of
              (s, calls) \<Rightarrow> (w\<lparr> w_db := s \<rparr>, q\<lparr> req_input := calls @ req_input q \<rparr>))
      else (w, q))"

definition json_opt :: "('a \<Rightarrow> json) \<Rightarrow> 'a option \<Rightarrow> json" where
  "json_opt f v = (case v of Some x \<Rightarrow> f x | None \<Rightarrow> JNull)"

definition preview_fields :: "rstring \<Rightarrow> rstring option \<Rightarrow> (rstring \<times> json) list" where
  "preview_fields name text =
     (case text of
        Some t \<Rightarrow> [(name @ ''_preview'', JStr (take_chars 500 t)), (name @ ''_length'', json_nat (length t))]
      | None \<Rightarrow> [])"

definition compression_log :: "PreprocessResult \<Rightarrow> json option" where
  "compression_log p =
     map_option (\<lambda>cm. object
         ([(''original_tokens'', json_opt json_u (original_tokens cm)),
           (''compressed_tokens'', json_opt json_u (compressed_tokens cm)),
           (''ratio'', json_opt json_f64 (cm_ratio cm)),
           (''strategies'', JArr (map (\<lambda>x. JStr (compression_debug x)) (strategies cm))),
           (''latency_ms'', json_opt json_u (latency_ms cm))]
          @ preview_fields ''original'' (pp_original_input p)
          @ preview_fields ''compressed'' (pp_compressed_input p)))
       (pp_compression_metadata p)"

text \<open>The database under \<open>resolve_auto_model\<close>: the settings of the organization and the previous model.\<close>

definition previous_turn_model :: "gateway_app \<Rightarrow> Request \<Rightarrow> db \<Rightarrow> db \<times> rstring option" where
  "previous_turn_model app q s =
     (case req_previous_response_id q of
        Some prev \<Rightarrow> if ga_has_db app then found (find_model_by_id prev) s else (s, None)
      | None \<Rightarrow> (s, None))"

definition resolution_stops :: "AutoRouter \<Rightarrow> OrgAutoRoutingOverride \<Rightarrow> bool \<Rightarrow> bool" where
  "resolution_stops router org shadow \<longleftrightarrow>
     (if shadow
      then \<not> (case org_shadow_for_pinned_models org of
                 Some b \<Rightarrow> b | None \<Rightarrow> shadow_for_pinned_models (ar_config router))
      else \<not> (case org_enabled org of Some b \<Rightarrow> b | None \<Rightarrow> AutoRouter_is_enabled router))"

definition resolve_model ::
    "'s handler_env \<Rightarrow> uuid option \<Rightarrow> bool \<Rightarrow> Request \<Rightarrow> 's world \<Rightarrow>
     ('s world \<times> Request \<times> ((nat \<times> ApiError) + AutoDecision option)) panics" where
  "resolve_model E org_id synthetic q w =
     (let (app, s, org) = (case as_auto_router (ga_state (w_app w)) of
              Some _ \<Rightarrow> org_auto_routing_override (he_org_override E) (he_now E) org_id (w_app w) (w_db w)
            | None \<Rightarrow> (w_app w, w_db w, OrgAutoRoutingOverride_default));
          (s, prev) = (case as_auto_router (ga_state app) of
              Some router \<Rightarrow>
                if resolution_stops router org (parse_auto_model (req_model q) = None) then (s, None)
                else previous_turn_model app q s
            | None \<Rightarrow> (s, None))
      in map_option (\<lambda>(st, q, r). (w\<lparr> w_app := app\<lparr> ga_state := st \<rparr>, w_db := s \<rparr>, q, r))
           (resolve_auto_model ((he_services E)\<lparr> sv_find_model_by_id := (\<lambda>_. prev) \<rparr>) (ga_state app) (he_now E) org
              (org_id \<noteq> None) synthetic q))"

definition applied :: "AutoDecision option \<Rightarrow> AutoDecision option" where
  "applied decision = (case decision of Some d \<Rightarrow> if ad_shadow d then None else Some d | None \<Rightarrow> None)"

definition strategy_of :: "AutoDecision option \<Rightarrow> rstring option \<Rightarrow> rstring option" where
  "strategy_of decision strategy =
     (case applied decision of Some d \<Rightarrow> Some (''auto:'' @ Tier_as_str (ad_tier d)) | None \<Rightarrow> strategy)"

definition needs_fanout :: "Request \<Rightarrow> bool" where
  "needs_fanout q \<longleftrightarrow>
     (case req_validation q of Some v \<Rightarrow> vc_strategy v \<in> {BestOfN, SelfConsistency} | None \<Rightarrow> False)"

definition with_selected_model_header :: "'s handler_env \<Rightarrow> AutoDecision option \<Rightarrow> headers" where
  "with_selected_model_header E decision =
     (case selected_model_header decision (he_header_value E) of Some h \<Rightarrow> [h] | None \<Rightarrow> [])"

definition conversation_of :: "Request \<Rightarrow> 's world \<Rightarrow> ('s world \<times> uuid option) panics" where
  "conversation_of q w =
     map_option (\<lambda>(s, r). (w\<lparr> w_db := s \<rparr>, case r of Inr (i, is_new) \<Rightarrow> Some i | Inl e \<Rightarrow> None))
       (get_or_create_conversation (w_app w) q (w_db w))"

text \<open>The retry loop over the gateway's state.\<close>

definition call_with_escalation ::
    "'s handler_env \<Rightarrow> (nat \<Rightarrow> provider \<Rightarrow> Request \<Rightarrow> ProviderError + 'r) \<Rightarrow> provider \<Rightarrow> Request \<Rightarrow> AutoDecision option \<Rightarrow>
     's world \<Rightarrow> ('s world \<times> Request \<times> AutoDecision option \<times> (ProviderError + 'r)) panics" where
  "call_with_escalation E call p q decision w =
     (let st = ga_state (w_app w)
      in case attempt_loop (Suc (max_retries st)) (he_services E) call (he_clock E) st p q decision 0 of
           Some (Some (st', q', decision', r, _)) \<Rightarrow>
             Some (w\<lparr> w_app := (w_app w)\<lparr> ga_state := st' \<rparr> \<rparr>, q', decision', r)
         | _ \<Rightarrow> None)"

subsection \<open>What is stored\<close>

record exchange =
  xc_request :: Request
  xc_request_id :: rstring
  xc_auth :: "AuthContext option"
  xc_conversation :: "uuid option"
  xc_provider_name :: rstring
  xc_strategy :: "rstring option"
  xc_decision :: "AutoDecision option"
  xc_compression :: "CompressionMetadata option"
  xc_compression_log :: "json option"
  xc_request_body :: "json option"

definition log_metadata :: "json option \<Rightarrow> json option \<Rightarrow> json option" where
  "log_metadata metadata clog =
     (case (metadata, clog) of
        (Some (JObj m), Some c) \<Rightarrow> Some (JObj (obj_insert ''compression_log'' c m))
      | (Some m, _) \<Rightarrow> Some m
      | (None, Some c) \<Rightarrow> Some (object [(''compression_log'', c)])
      | (None, None) \<Rightarrow> None)"

definition exchange_log ::
    "exchange \<Rightarrow> i32 \<Rightarrow> rstring \<Rightarrow> Usage option \<Rightarrow> json option \<Rightarrow> NewRequestLog" where
  "exchange_log x latency status usage metadata =
     \<lparr> nl_response_id = xc_request_id x, nl_conversation_id = xc_conversation x,
       nl_provider_name = xc_provider_name x, nl_model_id = req_model (xc_request x),
       nl_user_id = req_user (xc_request x), nl_input_tokens = map_option input_tokens usage,
       nl_output_tokens = map_option output_tokens usage, nl_cached_tokens = Option.bind usage cached_tokens,
       nl_reasoning_tokens = Option.bind usage reasoning_tokens, nl_cost_usd = Option.bind usage cost_usd,
       nl_latency_ms = Some latency, nl_status = status, nl_error_code = None, nl_error_message = None,
       nl_metadata = metadata, nl_request_body = None, nl_response_body = None \<rparr>"

text \<open>Usage first, then the log; what follows is done when the log did not panic.\<close>

definition usage_then_log :: "gateway_app \<Rightarrow> exchange \<Rightarrow> Response \<Rightarrow> NewRequestLog \<Rightarrow> (db \<Rightarrow> db) \<Rightarrow> db \<Rightarrow> db" where
  "usage_then_log app x r entry rest s =
     (let s = (case xc_auth x of Some a \<Rightarrow> record_api_key_usage app a r (xc_request x) s | None \<Rightarrow> s)
      in case log_request app entry s of (s', None) \<Rightarrow> s' | (s', Some _) \<Rightarrow> rest s')"

definition record_decision :: "'s handler_env \<Rightarrow> gateway_app \<Rightarrow> exchange \<Rightarrow> rstring option \<Rightarrow> db \<Rightarrow> db" where
  "record_decision E app x response_id s =
     record_routing_decision (he_persist E) app (xc_decision x) (xc_request_id x) response_id (xc_auth x)
       (xc_conversation x) s"

definition persist_completed :: "'s handler_env \<Rightarrow> gateway_app \<Rightarrow> exchange \<Rightarrow> Response \<Rightarrow> NewRequestLog \<Rightarrow> db \<Rightarrow> db" where
  "persist_completed E app x r entry s =
     usage_then_log app x r entry
       (\<lambda>s. let s = record_decision E app x (Some (resp_id r)) s
            in case xc_conversation x of
                 Some c \<Rightarrow> save_messages_from_items app c (resp_id r) (resp_output r) s
               | None \<Rightarrow> s) s"

definition persist_ended :: "'s handler_env \<Rightarrow> gateway_app \<Rightarrow> exchange \<Rightarrow> Response \<Rightarrow> NewRequestLog \<Rightarrow> db \<Rightarrow> db" where
  "persist_ended E app x r entry s =
     usage_then_log app x r entry
       (\<lambda>s. let s = record_decision E app x (Some (resp_id r)) s
            in case xc_conversation x of
                 Some c \<Rightarrow> save_response app c (xc_request x) r s
               | None \<Rightarrow> s) s"

definition save_exchange :: "gateway_app \<Rightarrow> exchange \<Rightarrow> Response \<Rightarrow> db \<Rightarrow> db" where
  "save_exchange app x r s =
     (case xc_conversation x of Some c \<Rightarrow> save_response app c (xc_request x) r s | None \<Rightarrow> s)"

definition organization_of :: "AuthContext option \<Rightarrow> uuid option" where
  "organization_of auth = Option.bind auth (\<lambda>a. tc_organization_id (ac_tenant a))"

definition capped :: "'s handler_env \<Rightarrow> json option \<Rightarrow> json option" where
  "capped E v = map_option (cap_payload (px_codec (he_persist E))) v"

definition enriched :: "'s handler_env \<Rightarrow> exchange \<Rightarrow> Response \<Rightarrow> 's world \<Rightarrow> 's world \<times> Response" where
  "enriched E x r w =
     (case enrich_response_with_latency (he_persist E) (w_app w) r (xc_request_id x) (he_latency_ms E) (xc_auth x)
             (Some (xc_request x)) (xc_compression x) (xc_strategy x) (xc_decision x) (w_db w) of
        (s, r') \<Rightarrow> (w\<lparr> w_db := s \<rparr>, apply_confidence_threshold_gate (xc_request x) r'))"

subsection \<open>Streams\<close>

definition latency_i32 :: "'s handler_env \<Rightarrow> i32" where
  "latency_i32 E = ucast (he_latency_ms E)"

text \<open>The log of a completed response, with the bodies when they are captured.\<close>

definition completed_log ::
    "'s handler_env \<Rightarrow> exchange \<Rightarrow> rstring \<Rightarrow> Response \<Rightarrow> json option \<Rightarrow> 's world \<Rightarrow> 's world \<times> NewRequestLog" where
  "completed_log E x status r request_body w =
     (let (app, s, capture) = should_capture_payload (he_now E) (organization_of (xc_auth x)) (w_app w) (w_db w);
          entry = exchange_log x (latency_i32 E) status (resp_usage r)
            (log_metadata (resp_metadata r) (xc_compression_log x))
      in (w\<lparr> w_app := app, w_db := s \<rparr>,
          if capture
          then entry\<lparr> nl_request_body := request_body,
                      nl_response_body := capped E (px_response (he_persist E) r) \<rparr>
          else entry))"

definition on_completed :: "'s handler_env \<Rightarrow> exchange \<Rightarrow> Response \<Rightarrow> 's world \<Rightarrow> 's world \<times> StreamEvent" where
  "on_completed E x r w =
     (let (w, r) = enriched E x r w;
          (w, entry) = completed_log E x ''completed'' r (xc_request_body x) w;
          s = save_exchange (w_app w) x r (w_db w);
          s = persist_completed E (w_app w) x r entry s
      in (w\<lparr> w_db := s \<rparr>, ResponseCompleted r))"

definition on_failed :: "'s handler_env \<Rightarrow> exchange \<Rightarrow> Response \<Rightarrow> 's world \<Rightarrow> 's world" where
  "on_failed E x r w =
     (let entry = (exchange_log x (latency_i32 E) ''failed'' None (resp_metadata r))
            \<lparr> nl_error_code := map_option re_code (resp_error r),
              nl_error_message := map_option re_message (resp_error r) \<rparr>
      in w\<lparr> w_db := persist_ended E (w_app w) x r entry (w_db w) \<rparr>)"

definition on_incomplete :: "'s handler_env \<Rightarrow> exchange \<Rightarrow> Response \<Rightarrow> 's world \<Rightarrow> 's world" where
  "on_incomplete E x r w =
     (let entry = exchange_log x (latency_i32 E) ''incomplete'' (resp_usage r) (resp_metadata r)
      in w\<lparr> w_db := persist_ended E (w_app w) x r entry (w_db w) \<rparr>)"

definition unserializable :: "rstring \<Rightarrow> rstring \<Rightarrow> rstring" where
  "unserializable prefix e = ''{'' @ dquote @ ''error'' @ dquote @ '':'' @ dquote @ prefix @ e @ dquote @ ''}''"

definition event_data :: "'s handler_env \<Rightarrow> rstring \<Rightarrow> StreamEvent \<Rightarrow> rstring" where
  "event_data E prefix event =
     (case he_event_json E event of Inr d \<Rightarrow> d | Inl e \<Rightarrow> unserializable prefix e)"

definition sse_event :: "'s handler_env \<Rightarrow> StreamEvent \<Rightarrow> rstring \<times> rstring" where
  "sse_event E event = (event_type event, event_data E ''Failed to serialize event: '' event)"

fun on_event ::
    "'s handler_env \<Rightarrow> exchange \<Rightarrow> ProviderError + StreamEvent \<Rightarrow> 's world \<Rightarrow> 's world \<times> rstring \<times> rstring" where
  "on_event E x (Inr (ResponseCompleted r)) w =
     (case on_completed E x r w of (w', event) \<Rightarrow> (w', sse_event E event))"
| "on_event E x (Inr (ResponseFailed r)) w = (on_failed E x r w, sse_event E (ResponseFailed r))"
| "on_event E x (Inr (ResponseIncomplete r)) w = (on_incomplete E x r w, sse_event E (ResponseIncomplete r))"
| "on_event E x (Inr event) w = (w, sse_event E event)"
| "on_event E x (Inl e) w =
     (w, ''error'', event_data E [] (StreamEvent_error (StreamError_server (ProviderError_display e))))"

fun on_events ::
    "'s handler_env \<Rightarrow> exchange \<Rightarrow> (ProviderError + StreamEvent) list \<Rightarrow> 's world \<Rightarrow> 's world \<times> (rstring \<times> rstring) list" where
  "on_events E x [] w = (w, [])"
| "on_events E x (event # events) w =
     (let (w', sent) = on_event E x event w; (w'', rest) = on_events E x events w' in (w'', sent # rest))"

definition respond_streaming ::
    "'s handler_env \<Rightarrow> exchange \<Rightarrow> provider \<Rightarrow> 's world \<Rightarrow> ('s world \<times> ((nat \<times> ApiError) + http_reply)) panics" where
  "respond_streaming E x p w =
     (case conversation_of (xc_request x) w of
        None \<Rightarrow> None
      | Some (w, conversation) \<Rightarrow>
          (case call_with_escalation E (he_stream E) p (xc_request x) (xc_decision x) w of
             None \<Rightarrow> None
           | Some (w, q, decision, Inl e) \<Rightarrow>
               (let x = x\<lparr> xc_request := q, xc_decision := decision, xc_conversation := conversation \<rparr>
                in Some (w\<lparr> w_db := record_decision E (w_app w) x None (w_db w) \<rparr>, Inl (from_provider_error e)))
           | Some (w, q, decision, Inr events) \<Rightarrow>
               (let p = (case get_provider (ga_state (w_app w)) (req_model q) of Some p' \<Rightarrow> p' | None \<Rightarrow> p);
                    x = x\<lparr> xc_request := q, xc_decision := decision, xc_conversation := conversation,
                           xc_provider_name := pv_name p, xc_strategy := strategy_of decision (xc_strategy x),
                           xc_request_body := (if ga_payload_capture (w_app w)
                             then capped E (px_request (he_persist E) q) else None) \<rparr>;
                    (w, sent) = on_events E x events w
                in Some (w, Inr (Sse_reply sent (with_selected_model_header E decision))))))"

subsection \<open>Whole responses\<close>

definition fanout_width :: "Request \<Rightarrow> u8" where
  "fanout_width q =
     u8_clamp (case Option.bind (req_validation q) vc_n of Some n \<Rightarrow> n | None \<Rightarrow> 3) 1 8"

definition fanout_selector :: "Request \<Rightarrow> FanoutSelector" where
  "fanout_selector q =
     (case map_option vc_strategy (req_validation q) of
        Some SelfConsistency \<Rightarrow> MostFrequent | _ \<Rightarrow> HighestLogprob)"

definition fanout_failure :: "FanoutError \<Rightarrow> nat \<times> ApiError" where
  "fanout_failure e =
     (case e of
        AllCandidatesFailed _ source \<Rightarrow> from_provider_error source
      | InvalidN n \<Rightarrow>
          (400, ApiError_new ''invalid_request'' (''validation.n must be between 1 and 8, got '' @ dec_digits (unat n))))"

definition failed_log :: "'s handler_env \<Rightarrow> exchange \<Rightarrow> ProviderError \<Rightarrow> NewRequestLog" where
  "failed_log E x e =
     (exchange_log x (latency_i32 E) ''failed'' None None)
       \<lparr> nl_error_code := Some (error_code e), nl_error_message := Some (ProviderError_display e) \<rparr>"

text \<open>The provider's answer: the state, the request and the decision as the loop leaves them.\<close>

definition provider_answer ::
    "'s handler_env \<Rightarrow> exchange \<Rightarrow> provider \<Rightarrow> 's world \<Rightarrow>
     ('s world \<times> exchange \<times> ((nat \<times> ApiError) + Response)) panics" where
  "provider_answer E x p w =
     (if needs_fanout (xc_request x)
      then map_option (\<lambda>r. (w, x, map_sum fanout_failure id r))
             (run_fanout (he_fanout E) (\<lambda>i q. he_complete E i p q) (xc_request x) (fanout_width (xc_request x))
                (fanout_selector (xc_request x)))
      else (case call_with_escalation E (he_complete E) p (xc_request x) (xc_decision x) w of
              None \<Rightarrow> None
            | Some (w, q, decision, r) \<Rightarrow>
                (let p = (case get_provider (ga_state (w_app w)) (req_model q) of Some p' \<Rightarrow> p' | None \<Rightarrow> p);
                     x = x\<lparr> xc_request := q, xc_decision := decision, xc_provider_name := pv_name p \<rparr>
                 in case r of
                      Inr response \<Rightarrow> Some (w, x, Inr response)
                    | Inl e \<Rightarrow>
                        Some (w\<lparr> w_db := (case log_request (w_app w) (failed_log E x e) (w_db w) of
                                 (s, None) \<Rightarrow> s | (s, Some _) \<Rightarrow> record_decision E (w_app w) x None s) \<rparr>,
                              x, Inl (from_provider_error e)))))"

definition first_message_text :: "Item list \<Rightarrow> rstring option" where
  "first_message_text items =
     (case List.map_filter (\<lambda>m. case List.map_filter part_text (msg_content m) of t # _ \<Rightarrow> Some t | [] \<Rightarrow> None)
             (List.map_filter Item_as_message items) of
        t # _ \<Rightarrow> Some t | [] \<Rightarrow> None)"

definition synthesize_sse_response :: "'s handler_env \<Rightarrow> Response \<Rightarrow> (rstring \<times> rstring) list" where
  "synthesize_sse_response E r =
     (let text = (case first_message_text (resp_output r) of Some t \<Rightarrow> t | None \<Rightarrow> []);
          i = (case List.map_filter Item_as_message (resp_output r) of m # _ \<Rightarrow> msg_id m | [] \<Rightarrow> ''msg_0'')
      in map (sse_event E)
           [response_created r, response_in_progress r, output_item_added 0 (Message (MessageItem_assistant i text)),
            content_part_added 0 0 ''text'', output_text_delta 0 0 text, output_text_done 0 0 text,
            response_completed r])"

text \<open>A lookup that fails counts as a miss.\<close>

definition cached_response ::
    "'s handler_env \<Rightarrow> bool \<Rightarrow> Request \<Rightarrow> 's world \<Rightarrow> 's world \<times> CacheHit option" where
  "cached_response E usable q w =
     (case he_response_cache E of
        Some k \<Rightarrow>
          if usable
          then (case cache_get (he_codec E) k q (w_cache w) of
                  (c, Inr hit) \<Rightarrow> (w\<lparr> w_cache := c \<rparr>, hit) | (c, Inl _) \<Rightarrow> (w\<lparr> w_cache := c \<rparr>, None))
          else (w, None)
      | None \<Rightarrow> (w, None))"

definition cache_response :: "'s handler_env \<Rightarrow> bool \<Rightarrow> Request \<Rightarrow> Response \<Rightarrow> 's world \<Rightarrow> 's world" where
  "cache_response E usable q r w =
     (case he_response_cache E of
        Some k \<Rightarrow>
          if usable \<and> should_cache_response r
          then w\<lparr> w_cache := fst (cache_set (he_codec E) k q r (Some (ga_cache_ttl_secs (w_app w))) (w_cache w)) \<rparr>
          else w
      | None \<Rightarrow> w)"

definition respond_whole ::
    "'s handler_env \<Rightarrow> bool \<Rightarrow> bool \<Rightarrow> exchange \<Rightarrow> provider \<Rightarrow> 's world \<Rightarrow>
     ('s world \<times> ((nat \<times> ApiError) + http_reply)) panics" where
  "respond_whole E wanted_streaming bypass x p w =
     (let usable = (ga_cache_enabled (w_app w) \<and> \<not> bypass \<and> \<not> should_skip_cache (xc_request x))
      in case cached_response E usable (xc_request x) w of
           (w, Some hit) \<Rightarrow>
             Some (w\<lparr> w_db := record_decision E (w_app w) x None (w_db w) \<rparr>,
                   Inr (Json_reply (enrich_cached_response (ch_cache_key hit) (ch_response hit))
                     (with_selected_model_header E (xc_decision x))))
         | (w, None) \<Rightarrow>
             (case conversation_of (xc_request x) w of
                None \<Rightarrow> None
              | Some (w, conversation) \<Rightarrow>
                  (case provider_answer E (x\<lparr> xc_conversation := conversation \<rparr>) p w of
                     None \<Rightarrow> None
                   | Some (w, x, Inl e) \<Rightarrow> Some (w, Inl e)
                   | Some (w, x, Inr r) \<Rightarrow>
                       (let x = x\<lparr> xc_strategy := strategy_of (xc_decision x) (xc_strategy x) \<rparr>;
                            (w, r) = enriched E x r w;
                            w = cache_response E usable (xc_request x) r w;
                            (w, entry) = completed_log E x (response_status_to_string (resp_status r)) r
                              (capped E (px_request (he_persist E) (xc_request x))) w;
                            s = save_exchange (w_app w) x r (w_db w);
                            s = persist_completed E (w_app w) x r entry s;
                            hs = with_selected_model_header E (xc_decision x)
                        in Some (w\<lparr> w_db := s \<rparr>,
                             Inr (if wanted_streaming then Sse_reply (synthesize_sse_response E r) hs
                                  else Json_reply r hs))))))"

subsection \<open>The handler\<close>

definition scope_error :: "nat \<times> ApiError" where
  "scope_error = (403, ApiError_new ''insufficient_scope'' ''API key does not have required scope: responses:create'')"

definition create_response ::
    "'s handler_env \<Rightarrow> header_map \<Rightarrow> AuthContext option \<Rightarrow> Request \<Rightarrow> 's world \<Rightarrow>
     ('s world \<times> ((nat \<times> ApiError) + http_reply)) panics" where
  "create_response E headers auth q w =
     (if missing_scope auth then Some (w, Inl scope_error)
      else
        (let request_id = ''aura_'' @ he_request_uuid E;
             (w, q) = replayed w q;
             pre = preprocess_request (he_prep E) q
         in case resolve_model E (organization_of auth) (is_synthetic_request (headers ''x-aura-synthetic''))
                   (pp_request pre) w of
              None \<Rightarrow> None
            | Some (w, q, Inl e) \<Rightarrow> Some (w, Inl e)
            | Some (w, q, Inr decision) \<Rightarrow>
                (case get_provider (ga_state (w_app w)) (req_model q) of
                   None \<Rightarrow> Some (w, Inl (from_provider_error (ModelNotFound (req_model q))))
                 | Some p \<Rightarrow>
                     (let wanted_streaming = req_stream q;
                          q = (if needs_fanout q then q\<lparr> req_stream := False \<rparr> else q);
                          x = \<lparr> xc_request = q, xc_request_id = request_id, xc_auth = auth, xc_conversation = None,
                                xc_provider_name = pv_name p,
                                xc_strategy = strategy_of decision (extract_routing_strategy headers),
                                xc_decision = decision, xc_compression = pp_compression_metadata pre,
                                xc_compression_log = compression_log pre, xc_request_body = None \<rparr>
                      in if req_stream q then respond_streaming E x p w
                         else respond_whole E wanted_streaming (should_bypass_cache headers) x p w))))"

end
