(* ===== verification/Settings.thy ===== *)
theory Settings
  imports Persistence Cache
begin

text \<open>
  The settings an operator changes at run time: the document and how it overrides the configuration
  (\<open>aura-core/src/settings.rs\<close>), the flags and the router it rebuilds (\<open>RuntimeFlags\<close> and
  \<open>AppState\<close> in \<open>aura-proxy/src/main.rs\<close>), and the routes that read and replace it
  (\<open>aura-proxy/src/routes/admin_settings.rs\<close>). What serde derives for the document is a parameter.
\<close>

definition MAX_CACHE_TTL_SECS :: u64 where
  "MAX_CACHE_TTL_SECS = 7 * 24 * 60 * 60"

record RoutingSettings =
  rs_enabled :: "bool option"
  rs_shadow_for_pinned_models :: "bool option"
  rs_default_mode :: "RoutingMode option"
  rs_default_classifier :: "ClassifierKind option"
  rs_within_tier :: "WithinTierStrategy option"
  rs_sticky_tool_loops :: "bool option"
  rs_tiers :: "TierModels option"
  rs_llm_classifier_model :: "rstring option"
  rs_gold_sample_rate :: "f64 option"
  rs_escalation_enabled :: "bool option"

record FeatureSettings =
  fs_payload_capture :: "bool option"
  fs_replay_tool_context :: "bool option"

record CacheSettings =
  cs_enabled :: "bool option"
  cs_default_ttl_secs :: "u64 option"

record RateLimitSettings =
  rl_set_enabled :: "bool option"
  rl_set_default_rpm :: "u32 option"

record GatewaySettings =
  gs_routing :: RoutingSettings
  gs_features :: FeatureSettings
  gs_cache :: CacheSettings
  gs_rate_limit :: RateLimitSettings

definition RoutingSettings_default :: RoutingSettings where
  "RoutingSettings_default =
     \<lparr> rs_enabled = None, rs_shadow_for_pinned_models = None, rs_default_mode = None, rs_default_classifier = None,
       rs_within_tier = None, rs_sticky_tool_loops = None, rs_tiers = None, rs_llm_classifier_model = None,
       rs_gold_sample_rate = None, rs_escalation_enabled = None \<rparr>"

definition GatewaySettings_default :: GatewaySettings where
  "GatewaySettings_default =
     \<lparr> gs_routing = RoutingSettings_default,
       gs_features = \<lparr> fs_payload_capture = None, fs_replay_tool_context = None \<rparr>,
       gs_cache = \<lparr> cs_enabled = None, cs_default_ttl_secs = None \<rparr>,
       gs_rate_limit = \<lparr> rl_set_enabled = None, rl_set_default_rpm = None \<rparr> \<rparr>"

text \<open>Field by field; no derived default has a number that compares unequal to itself.\<close>

definition GatewaySettings_is_empty :: "GatewaySettings \<Rightarrow> bool" where
  "GatewaySettings_is_empty s \<longleftrightarrow> s = GatewaySettings_default"

definition blank :: "rstring \<Rightarrow> bool" where
  "blank m \<longleftrightarrow> str_trim m = []"

definition TierModels_has_candidates :: "TierModels \<Rightarrow> bool" where
  "TierModels_has_candidates t \<longleftrightarrow>
     \<not> (simple t = [] \<and> medium t = [] \<and> complex t = [] \<and> reasoning t = [])"

definition validate_tiers :: "TierModels \<Rightarrow> rstring + unit" where
  "validate_tiers t =
     (case find (\<lambda>(name, l). list_ex blank l)
             [(''simple'', simple t), (''medium'', medium t), (''complex'', complex t), (''reasoning'', reasoning t)] of
        Some (name, _) \<Rightarrow> Inl (''routing.tiers.'' @ name @ '' contains an empty model id'')
      | None \<Rightarrow> if TierModels_has_candidates t then Inr () else Inl ''routing.tiers must list at least one model'')"

text \<open>The checks in the order of the code; each returns its error.\<close>

definition GatewaySettings_validate :: "GatewaySettings \<Rightarrow> rstring + unit" where
  "GatewaySettings_validate s =
     (let r = gs_routing s
      in if (\<exists>rate. rs_gold_sample_rate r = Some rate \<and> \<not> (f64_le (Fin 0) rate \<and> f64_le rate (Fin 1)))
         then Inl ''routing.gold_sample_rate must be between 0 and 1''
         else if (case rs_llm_classifier_model r of Some m \<Rightarrow> blank m | None \<Rightarrow> False)
         then Inl ''routing.llm_classifier_model must not be empty''
         else (case (case rs_tiers r of Some t \<Rightarrow> validate_tiers t | None \<Rightarrow> Inr ()) of
                 Inl e \<Rightarrow> Inl e
               | Inr _ \<Rightarrow>
                   if (case cs_default_ttl_secs (gs_cache s) of
                         Some ttl \<Rightarrow> ttl = 0 \<or> MAX_CACHE_TTL_SECS < ttl | None \<Rightarrow> False)
                   then Inl (''cache.default_ttl_secs must be between 1 and '' @ dec_digits (unat MAX_CACHE_TTL_SECS))
                   else if rl_set_default_rpm (gs_rate_limit s) = Some 0
                   then Inl ''rate_limit.default_rpm must be at least 1''
                   else Inr ()))"

definition cleaned :: "rstring list \<Rightarrow> rstring list" where
  "cleaned models =
     fold (\<lambda>m out. let m = str_trim m in if m \<noteq> [] \<and> m \<notin> set out then out @ [m] else out) models []"

definition or_keep :: "'a option \<Rightarrow> 'a \<Rightarrow> 'a" where
  "or_keep v old = (case v of Some x \<Rightarrow> x | None \<Rightarrow> old)"

definition apply_to_auto :: "GatewaySettings \<Rightarrow> AutoRoutingConfig \<Rightarrow> AutoRoutingConfig" where
  "apply_to_auto s base =
     (let r = gs_routing s
      in base\<lparr> enabled := or_keep (rs_enabled r) (enabled base),
               shadow_for_pinned_models := or_keep (rs_shadow_for_pinned_models r) (shadow_for_pinned_models base),
               default_mode := or_keep (rs_default_mode r) (default_mode base),
               default_classifier := or_keep (rs_default_classifier r) (default_classifier base),
               within_tier := or_keep (rs_within_tier r) (within_tier base),
               sticky_tool_loops := or_keep (rs_sticky_tool_loops r) (sticky_tool_loops base),
               tiers := (case rs_tiers r of
                   Some t \<Rightarrow> \<lparr> simple = cleaned (simple t), medium = cleaned (medium t), complex = cleaned (complex t),
                               reasoning = cleaned (reasoning t) \<rparr>
                 | None \<Rightarrow> tiers base),
               llm_classifier := (case rs_llm_classifier_model r of
                   Some m \<Rightarrow> (llm_classifier base)\<lparr> llm_model := str_trim m \<rparr> | None \<Rightarrow> llm_classifier base),
               gold_sample_rate := or_keep (rs_gold_sample_rate r) (gold_sample_rate base),
               escalation := (case rs_escalation_enabled r of
                   Some v \<Rightarrow> (escalation base)\<lparr> esc_enabled := v \<rparr> | None \<Rightarrow> escalation base) \<rparr>)"

subsection \<open>The flags\<close>

definition DEFAULT_RATE_LIMIT_RPM :: u32 where "DEFAULT_RATE_LIMIT_RPM = 60"

record RuntimeFlags =
  rf_payload_capture :: bool
  rf_replay_tool_context :: bool
  rf_cache_enabled :: bool
  rf_cache_ttl_secs :: u64
  rf_rate_limit_enabled :: bool
  rf_default_rate_limit_rpm :: u32

text \<open>What the configuration file and the environment say of them.\<close>

record boot_config =
  bc_auto :: AutoRoutingConfig
  bc_payload_capture :: bool
  bc_replay_var :: "rstring option"

definition RuntimeFlags_from_config :: "boot_config \<Rightarrow> RuntimeFlags" where
  "RuntimeFlags_from_config c =
     \<lparr> rf_payload_capture = bc_payload_capture c,
       rf_replay_tool_context = tool_context_replay_from_env (bc_replay_var c), rf_cache_enabled = True,
       rf_cache_ttl_secs = DEFAULT_CACHE_TTL, rf_rate_limit_enabled = True,
       rf_default_rate_limit_rpm = DEFAULT_RATE_LIMIT_RPM \<rparr>"

definition RuntimeFlags_apply :: "boot_config \<Rightarrow> GatewaySettings \<Rightarrow> RuntimeFlags \<Rightarrow> RuntimeFlags" where
  "RuntimeFlags_apply c s flags =
     (let boot = RuntimeFlags_from_config c
      in flags\<lparr> rf_payload_capture := or_keep (fs_payload_capture (gs_features s)) (rf_payload_capture boot),
                rf_replay_tool_context := or_keep (fs_replay_tool_context (gs_features s)) (rf_replay_tool_context boot),
                rf_cache_enabled := or_keep (cs_enabled (gs_cache s)) (rf_cache_enabled boot),
                rf_rate_limit_enabled := or_keep (rl_set_enabled (gs_rate_limit s)) (rf_rate_limit_enabled boot),
                rf_cache_ttl_secs := or_keep (cs_default_ttl_secs (gs_cache s)) (rf_cache_ttl_secs boot),
                rf_default_rate_limit_rpm := or_keep (rl_set_default_rpm (gs_rate_limit s))
                  (rf_default_rate_limit_rpm boot) \<rparr>)"

subsection \<open>Applying, storing, loading\<close>

record operator_state =
  op_gateway :: AppState
  op_flags :: RuntimeFlags
  op_settings :: GatewaySettings

text \<open>The stored document, what its next query answers, and serde.\<close>

record settings_store =
  ss_has_db :: bool
  ss_stored :: "json option"
  ss_fault :: "rstring option"

record settings_codec =
  sc_to_value :: "GatewaySettings \<Rightarrow> rstring + json"
  sc_from_value :: "json \<Rightarrow> rstring + GatewaySettings"

definition GatewaySettingsRepo_get :: "settings_store \<Rightarrow> rstring + json option" where
  "GatewaySettingsRepo_get d = (case ss_fault d of Some e \<Rightarrow> Inl e | None \<Rightarrow> Inr (ss_stored d))"

definition GatewaySettingsRepo_set :: "json \<Rightarrow> settings_store \<Rightarrow> settings_store \<times> (rstring + json)" where
  "GatewaySettingsRepo_set v d =
     (case ss_fault d of Some e \<Rightarrow> (d, Inl e) | None \<Rightarrow> (d\<lparr> ss_stored := Some v \<rparr>, Inr v))"

definition effective_auto_config :: "boot_config \<Rightarrow> operator_state \<Rightarrow> AutoRoutingConfig" where
  "effective_auto_config c st = apply_to_auto (op_settings st) (bc_auto c)"

definition apply_gateway_settings ::
    "env \<Rightarrow> boot_config \<Rightarrow> GatewaySettings \<Rightarrow> operator_state \<Rightarrow> operator_state \<times> rstring list" where
  "apply_gateway_settings e c s st =
     (let (router, dropped) = build_auto_router e (apply_to_auto s (bc_auto c)) (op_gateway st)
      in (\<lparr> op_gateway = (op_gateway st)\<lparr> as_auto_router := router, as_router_dropped := dropped \<rparr>,
            op_flags = RuntimeFlags_apply c s (op_flags st), op_settings = s \<rparr>, dropped))"

definition save_gateway_settings ::
    "settings_codec \<Rightarrow> GatewaySettings \<Rightarrow> settings_store \<Rightarrow> settings_store \<times> (rstring + bool)" where
  "save_gateway_settings k s d =
     (if \<not> ss_has_db d then (d, Inr False)
      else (case sc_to_value k s of
              Inl e \<Rightarrow> (d, Inl e)
            | Inr v \<Rightarrow> (case GatewaySettingsRepo_set v d of (d', r) \<Rightarrow> (d', map_sum id (\<lambda>_. True) r))))"

definition load_gateway_settings ::
    "env \<Rightarrow> boot_config \<Rightarrow> settings_codec \<Rightarrow> settings_store \<Rightarrow> operator_state \<Rightarrow> operator_state \<times> (rstring + bool)" where
  "load_gateway_settings e c k d st =
     (if \<not> ss_has_db d then (st, Inr False)
      else (case GatewaySettingsRepo_get d of
              Inl err \<Rightarrow> (st, Inl err)
            | Inr None \<Rightarrow> (st, Inr False)
            | Inr (Some v) \<Rightarrow>
                (case sc_from_value k v of
                   Inl err \<Rightarrow> (st, Inl (''stored gateway_settings: '' @ err))
                 | Inr s \<Rightarrow>
                     if GatewaySettings_is_empty s then (st, Inr False)
                     else (case GatewaySettings_validate s of
                             Inl err \<Rightarrow> (st, Inl err)
                           | Inr _ \<Rightarrow> (fst (apply_gateway_settings e c s st), Inr True)))))"

text \<open>A gateway that has just started, before it loads.\<close>

definition booted :: "env \<Rightarrow> boot_config \<Rightarrow> AppState \<Rightarrow> operator_state" where
  "booted e c st =
     (let (router, dropped) = build_auto_router e (bc_auto c) st
      in \<lparr> op_gateway = st\<lparr> as_auto_router := router, as_router_dropped := dropped \<rparr>,
           op_flags = RuntimeFlags_from_config c, op_settings = GatewaySettings_default \<rparr>)"

subsection \<open>The routes of the operator\<close>

record RoutingValues =
  rv_available :: bool
  rv_enabled :: bool
  rv_shadow_for_pinned_models :: bool
  rv_default_mode :: RoutingMode
  rv_default_classifier :: ClassifierKind
  rv_within_tier :: WithinTierStrategy
  rv_sticky_tool_loops :: bool
  rv_tiers :: TierModels
  rv_llm_classifier_model :: rstring
  rv_gold_sample_rate :: f64
  rv_escalation_enabled :: bool
  rv_boundaries :: TierBoundaries
  rv_mode_offsets :: ModeOffsets

record RuntimeValues =
  rt_routing :: RoutingValues
  rt_features :: "bool \<times> bool"
  rt_cache :: "bool \<times> bool \<times> u64"
  rt_rate_limit :: "bool \<times> bool \<times> u32"

definition routing_values :: "AutoRoutingConfig \<Rightarrow> bool \<Rightarrow> RoutingValues" where
  "routing_values cfg available =
     \<lparr> rv_available = available, rv_enabled = enabled cfg,
       rv_shadow_for_pinned_models = shadow_for_pinned_models cfg, rv_default_mode = default_mode cfg,
       rv_default_classifier = default_classifier cfg, rv_within_tier = within_tier cfg,
       rv_sticky_tool_loops = sticky_tool_loops cfg, rv_tiers = tiers cfg,
       rv_llm_classifier_model = llm_model (llm_classifier cfg), rv_gold_sample_rate = gold_sample_rate cfg,
       rv_escalation_enabled = esc_enabled (escalation cfg), rv_boundaries = boundaries cfg,
       rv_mode_offsets = mode_offsets cfg \<rparr>"

text \<open>Whether the router is available is read from the running gateway in both views.\<close>

definition boot_values :: "boot_config \<Rightarrow> bool \<Rightarrow> operator_state \<Rightarrow> RuntimeValues" where
  "boot_values c redis st =
     \<lparr> rt_routing = routing_values (bc_auto c) (as_auto_router (op_gateway st) \<noteq> None),
       rt_features = (bc_payload_capture c, tool_context_replay_from_env (bc_replay_var c)),
       rt_cache = (redis, True, DEFAULT_CACHE_TTL), rt_rate_limit = (redis, True, DEFAULT_RATE_LIMIT_RPM) \<rparr>"

definition effective_values :: "boot_config \<Rightarrow> bool \<Rightarrow> operator_state \<Rightarrow> RuntimeValues" where
  "effective_values c redis st =
     (let cfg = (case as_auto_router (op_gateway st) of Some r \<Rightarrow> ar_config r | None \<Rightarrow> effective_auto_config c st);
          f = op_flags st
      in \<lparr> rt_routing = routing_values cfg (as_auto_router (op_gateway st) \<noteq> None),
           rt_features = (rf_payload_capture f, rf_replay_tool_context f),
           rt_cache = (redis, rf_cache_enabled f, rf_cache_ttl_secs f),
           rt_rate_limit = (redis, rf_rate_limit_enabled f, rf_default_rate_limit_rpm f) \<rparr>)"

definition admin_auth_mode :: "rstring option \<Rightarrow> rstring option \<Rightarrow> rstring" where
  "admin_auth_mode key no_auth =
     (if (case key of Some k \<Rightarrow> k \<noteq> [] | None \<Rightarrow> False) then ''key''
      else (let v = (case no_auth of Some v \<Rightarrow> v | None \<Rightarrow> [])
            in if v = ''1'' \<or> eq_ignore_ascii_case v ''true'' then ''open'' else ''blocked''))"

definition configured_origins :: "rstring option \<Rightarrow> rstring list" where
  "configured_origins var =
     filter (\<lambda>s. s \<noteq> []) (map str_trim (split_on (CHR '','') (case var of Some v \<Rightarrow> v | None \<Rightarrow> [])))"

definition settings_warnings :: "boot_config \<Rightarrow> bool \<Rightarrow> rstring list \<Rightarrow> bool \<Rightarrow> operator_state \<Rightarrow> rstring list" where
  "settings_warnings c redis dropped persisted st =
     (if dropped = [] then []
      else [''dropped tier models this gateway cannot serve: '' @ str_join '', '' dropped])
     @ (if persisted then []
        else [''no database configured: these settings last until the next restart''])
     @ (let r = rt_routing (effective_values c redis st)
        in if rv_enabled r \<and> \<not> rv_available r
           then [''auto routing is enabled but no tier has a model this gateway can serve''] else [])"

record SettingsResponse =
  sr_boot :: RuntimeValues
  sr_overrides :: GatewaySettings
  sr_effective :: RuntimeValues
  sr_persisted :: bool
  sr_warnings :: "rstring list"

definition snapshot :: "boot_config \<Rightarrow> bool \<Rightarrow> operator_state \<Rightarrow> bool \<Rightarrow> rstring list \<Rightarrow> SettingsResponse" where
  "snapshot c redis st persisted warnings =
     \<lparr> sr_boot = boot_values c redis st, sr_overrides = op_settings st, sr_effective = effective_values c redis st,
       sr_persisted = persisted, sr_warnings = warnings \<rparr>"

definition get_settings :: "boot_config \<Rightarrow> bool \<Rightarrow> settings_store \<Rightarrow> operator_state \<Rightarrow> SettingsResponse" where
  "get_settings c redis d st = snapshot c redis st (ss_has_db d) []"

text \<open>Stored before they are applied, so a failure of the database changes nothing.\<close>

definition put_settings ::
    "env \<Rightarrow> boot_config \<Rightarrow> settings_codec \<Rightarrow> bool \<Rightarrow> json \<Rightarrow> settings_store \<Rightarrow> operator_state \<Rightarrow>
     settings_store \<times> operator_state \<times> ((nat \<times> rstring) + SettingsResponse)" where
  "put_settings e c k redis body d st =
     (case sc_from_value k body of
        Inl err \<Rightarrow> (d, st, Inl (400, ''invalid settings: '' @ err))
      | Inr s \<Rightarrow>
          (case GatewaySettings_validate s of
             Inl err \<Rightarrow> (d, st, Inl (400, err))
           | Inr _ \<Rightarrow>
               (case save_gateway_settings k s d of
                  (d', Inl err) \<Rightarrow> (d', st, Inl (500, ''failed to store settings: '' @ err))
                | (d', Inr persisted) \<Rightarrow>
                    (let (st', dropped) = apply_gateway_settings e c s st
                     in (d', st', Inr (snapshot c redis st' persisted
                          (settings_warnings c redis dropped persisted st')))))))"

subsection \<open>What the settings do does not depend on what was set before\<close>

lemma provider_frame [simp]:
  "provider_name_for_catalog_model (st\<lparr> as_auto_router := r, as_router_dropped := d \<rparr>) m =
     provider_name_for_catalog_model st m"
  by (simp add: provider_name_for_catalog_model_def cong: option.case_cong)

lemma build_frame [simp]:
  "build_auto_router e cfg (st\<lparr> as_auto_router := r, as_router_dropped := d \<rparr>) = build_auto_router e cfg st"
  by (simp add: build_auto_router_def cong: if_cong)

lemma flags_frame: "RuntimeFlags_apply c s f = RuntimeFlags_apply c s g"
  by (cases f, cases g) (simp add: RuntimeFlags_apply_def Let_def)

lemma apply_apply:
  "apply_gateway_settings e c s (fst (apply_gateway_settings e c s0 st)) = apply_gateway_settings e c s st"
  using flags_frame by (auto simp: apply_gateway_settings_def split: prod.split)

lemma apply_default:
  "apply_to_auto GatewaySettings_default base = base"
  by (simp add: apply_to_auto_def GatewaySettings_default_def RoutingSettings_default_def or_keep_def Let_def)

lemma flags_default: "RuntimeFlags_apply c GatewaySettings_default f = RuntimeFlags_from_config c"
  by (simp add: RuntimeFlags_apply_def GatewaySettings_default_def or_keep_def RuntimeFlags_from_config_def Let_def)

lemma apply_booted: "fst (apply_gateway_settings e c GatewaySettings_default (booted e c st)) = booted e c st"
  by (auto simp: apply_gateway_settings_def booted_def apply_default flags_default split: prod.split)

lemma apply_from_boot:
  "apply_gateway_settings e c s (booted e c st) = apply_gateway_settings e c s \<lparr> op_gateway = st, op_flags = f, op_settings = s0 \<rparr>"
  using flags_frame by (auto simp: apply_gateway_settings_def booted_def split: prod.split)

text \<open>Runs: any requests to replace the settings, from the start of the gateway.\<close>

lemma put_cases:
  assumes "put_settings e c k redis body d st = (d', st', r)"
  shows "(\<exists>err. r = Inl err \<and> st' = st) \<or>
    (\<exists>s. sc_from_value k body = Inr s \<and> GatewaySettings_validate s = Inr ()
       \<and> st' = fst (apply_gateway_settings e c s st))"
  using assms by (auto simp: put_settings_def split: sum.splits prod.splits)

text \<open>Whatever was set since the start, setting \<open>s\<close> gives what it gives at the start.\<close>

lemma applied_booted:
  "fst (apply_gateway_settings e c s (fold (\<lambda>s st. fst (apply_gateway_settings e c s st)) ss (booted e c st))) =
   fst (apply_gateway_settings e c s (booted e c st))"
  by (induction ss rule: rev_induct) (simp_all add: apply_apply)

lemma put_stores:
  assumes "put_settings e c k redis body d st = (d', st', Inr r)" "ss_has_db d"
  obtains s v where "sc_to_value k s = Inr v" "d' = d\<lparr> ss_stored := Some v \<rparr>" "GatewaySettings_validate s = Inr ()"
    and "st' = fst (apply_gateway_settings e c s st)" "sc_from_value k body = Inr s"
  using assms
  by (auto simp: put_settings_def save_gateway_settings_def GatewaySettingsRepo_set_def
      split: sum.splits prod.splits option.splits if_splits)

lemma restart_restores:
  assumes put: "put_settings e c k redis body d (fold (\<lambda>s st. fst (apply_gateway_settings e c s st)) ss (booted e c st))
      = (d', st', Inr r)"
    and "ss_has_db d" and serde: "\<And>s v. sc_to_value k s = Inr v \<Longrightarrow> sc_from_value k v = Inr s"
  shows "fst (load_gateway_settings e c k (d'\<lparr> ss_fault := None \<rparr>) (booted e c st)) = st'"
proof -
  from put assms(2) obtain s v where v: "sc_to_value k s = Inr v" and d': "d' = d\<lparr> ss_stored := Some v \<rparr>"
    and ok: "GatewaySettings_validate s = Inr ()"
    and st': "st' = fst (apply_gateway_settings e c s
        (fold (\<lambda>s st. fst (apply_gateway_settings e c s st)) ss (booted e c st)))"
    by (rule put_stores)
  have "fst (load_gateway_settings e c k (d'\<lparr> ss_fault := None \<rparr>) (booted e c st)) =
      fst (apply_gateway_settings e c s (booted e c st))"
    using serde [OF v] ok assms(2) apply_booted [of e c st]
    by (auto simp: load_gateway_settings_def GatewaySettingsRepo_get_def d' GatewaySettings_is_empty_def)
  then show ?thesis by (simp add: st' applied_booted)
qed

subsection \<open>Validated tiers\<close>

lemma cleaned_snoc: "cleaned (xs @ [m]) =
    (if str_trim m \<noteq> [] \<and> str_trim m \<notin> set (cleaned xs) then cleaned xs @ [str_trim m] else cleaned xs)"
  by (simp add: cleaned_def Let_def)

lemma cleaned_distinct: "distinct (cleaned xs)"
  by (induction xs rule: rev_induct) (simp_all add: cleaned_snoc, simp add: cleaned_def)

lemma cleaned_set: "set (cleaned xs) = str_trim ` set xs - {[]}"
  by (induction xs rule: rev_induct) (auto simp: cleaned_snoc, auto simp: cleaned_def)

lemma cleaned_eq_Nil: "\<not> list_ex blank xs \<Longrightarrow> cleaned xs = [] \<longleftrightarrow> xs = []"
proof -
  assume "\<not> list_ex blank xs"
  then have "str_trim ` set xs - {[]} = str_trim ` set xs" by (auto simp: list_ex_iff blank_def)
  then have "set (cleaned xs) = {} \<longleftrightarrow> set xs = {}" by (simp add: cleaned_set)
  then show ?thesis by simp
qed

lemma validated_tiers:
  assumes "GatewaySettings_validate s = Inr ()" "rs_tiers (gs_routing s) = Some t"
  shows "has_candidates (apply_to_auto s base)"
proof -
  have v: "validate_tiers t = Inr ()"
    using assms by (auto simp: GatewaySettings_validate_def Let_def split: if_splits sum.splits)
  then have "\<not> list_ex blank (simple t)" "\<not> list_ex blank (medium t)" "\<not> list_ex blank (complex t)"
    "\<not> list_ex blank (reasoning t)" "TierModels_has_candidates t"
    by (auto simp: validate_tiers_def split: option.splits if_splits)
  then show ?thesis
    by (auto simp: has_candidates_def apply_to_auto_def Let_def assms(2) Tier_ALL_def TierModels_has_candidates_def
        cleaned_eq_Nil)
qed

end
