(* ===== verification/Provider_Stream.thy ===== *)
theory Provider_Stream
  imports Stream_Events Sse_Bytes Provider_Error
begin

text \<open>
  What the provider adapters share: the HTTP exchange and the loop that turns a byte stream of
  server-sent events into stream events (\<open>transform\<close> in each file of \<open>aura-core/src/provider\<close>). The
  loops of the adapters differ in what they do with a line and at the end of the stream; these two
  steps are a \<open>line_protocol\<close>. A line may yield several events, which are queued and answered one per
  poll; an adapter that returns its event at once queues one event and is polled for it at once.
\<close>

subsection \<open>The exchange\<close>

record 'resp http_reply =
  hr_status :: u16
  hr_text :: "rstring option"
  hr_json :: "reqwest_error + 'resp"

type_synonym ('req, 'resp) transport =
  "rstring \<Rightarrow> (rstring \<times> rstring) list \<Rightarrow> 'req \<Rightarrow> reqwest_error + 'resp http_reply"

definition http_success :: "u16 \<Rightarrow> bool" where
  "http_success s \<longleftrightarrow> 200 \<le> s \<and> s < 300"

definition http_exchange ::
    "('req, 'resp) transport \<Rightarrow> (u16 \<Rightarrow> rstring \<Rightarrow> ProviderError) \<Rightarrow> rstring \<Rightarrow> (rstring \<times> rstring) list \<Rightarrow> 'req
      \<Rightarrow> ProviderError + 'resp http_reply" where
  "http_exchange send parse_error url headers req =
     (case send url headers req of
        Inl e \<Rightarrow> Inl (from_reqwest e)
      | Inr r \<Rightarrow>
          if http_success (hr_status r) then Inr r
          else Inl (parse_error (hr_status r) (case hr_text r of Some b \<Rightarrow> b | None \<Rightarrow> [])))"

definition http_json ::
    "ProviderError + 'resp http_reply \<Rightarrow> ('resp \<Rightarrow> Response) \<Rightarrow> ProviderError + Response" where
  "http_json reply transform =
     (case reply of
        Inl e \<Rightarrow> Inl e
      | Inr r \<Rightarrow> (case hr_json r of Inl e \<Rightarrow> Inl (from_reqwest e) | Inr j \<Rightarrow> Inr (transform j)))"

subsection \<open>The loop\<close>

type_synonym stream_item = "ProviderError + StreamEvent"
type_synonym chunk = "rstring + rstring"
type_synonym clock = "64 word"

text \<open>The chunks of the body of a reply.\<close>

definition body_chunks :: "chunk list http_reply \<Rightarrow> chunk list" where
  "body_chunks reply = (case hr_json reply of Inr chunks \<Rightarrow> chunks | Inl e \<Rightarrow> [Inl (rq_text e)])"

text \<open>Both steps get the model, the id of the response, the time and what has been accumulated.\<close>

record 'p line_protocol =
  lp_line :: "rstring \<Rightarrow> rstring \<Rightarrow> clock \<Rightarrow> 'p \<Rightarrow> rstring \<Rightarrow> 'p \<times> stream_item list"
  lp_end :: "rstring \<Rightarrow> rstring \<Rightarrow> clock \<Rightarrow> 'p \<Rightarrow> ('p \<times> stream_item) option"

record 'p stream_transformer =
  tr_model :: rstring
  tr_response_id :: rstring
  tr_buffer :: rstring
  tr_utf8_pending :: rstring
  tr_sent_created :: bool
  tr_sent_in_progress :: bool
  tr_pending :: "stream_item list"
  tr_acc :: 'p

definition transformer_new :: "rstring \<Rightarrow> rstring \<Rightarrow> 'p \<Rightarrow> 'p stream_transformer" where
  "transformer_new model response_id acc =
     \<lparr> tr_model = model, tr_response_id = response_id, tr_buffer = [], tr_utf8_pending = [],
       tr_sent_created = False, tr_sent_in_progress = False, tr_pending = [], tr_acc = acc \<rparr>"

definition in_progress_of :: "clock \<Rightarrow> 'p stream_transformer \<Rightarrow> Response" where
  "in_progress_of now t = Response_in_progress now (tr_response_id t) (tr_model t)"

text \<open>One line: an empty line is skipped.\<close>

definition line_step :: "'p line_protocol \<Rightarrow> clock \<Rightarrow> 'p stream_transformer \<Rightarrow> rstring \<Rightarrow> 'p stream_transformer" where
  "line_step p now t line =
     (if line = [] then t
      else let (acc, items) = lp_line p (tr_model t) (tr_response_id t) now (tr_acc t) line
           in t\<lparr> tr_acc := acc, tr_pending := tr_pending t @ items \<rparr>)"

lemma line_step_same [simp]:
  "tr_buffer (line_step p now t l) = tr_buffer t" "tr_utf8_pending (line_step p now t l) = tr_utf8_pending t"
  "tr_sent_created (line_step p now t l) = tr_sent_created t"
  "tr_sent_in_progress (line_step p now t l) = tr_sent_in_progress t"
  "tr_model (line_step p now t l) = tr_model t" "tr_response_id (line_step p now t l) = tr_response_id t"
  by (simp_all add: line_step_def split: prod.splits)

lemma line_step_update [simp]:
  "line_step p now (t\<lparr> tr_buffer := b \<rparr>) l = (line_step p now t l)\<lparr> tr_buffer := b \<rparr>"
  "line_step p now (t\<lparr> tr_utf8_pending := u \<rparr>) l = (line_step p now t l)\<lparr> tr_utf8_pending := u \<rparr>"
  by (simp_all add: line_step_def split: prod.splits)

function (sequential) poll ::
    "'p line_protocol \<Rightarrow> clock \<Rightarrow> 'p stream_transformer \<Rightarrow> chunk list \<Rightarrow>
      (stream_item \<times> 'p stream_transformer \<times> chunk list) option" where
  "poll p now t chunks =
     (if \<not> tr_sent_created t then
        Some (Inr (response_created (in_progress_of now t)), t\<lparr> tr_sent_created := True \<rparr>, chunks)
      else if \<not> tr_sent_in_progress t then
        Some (Inr (response_in_progress (in_progress_of now t)), t\<lparr> tr_sent_in_progress := True \<rparr>, chunks)
      else case tr_pending t of
        e # es \<Rightarrow> Some (e, t\<lparr> tr_pending := es \<rparr>, chunks)
      | [] \<Rightarrow>
          (case str_find (tr_buffer t) nl of
             Some line_end \<Rightarrow>
               poll p now
                 (line_step p now (t\<lparr> tr_buffer := drop (line_end + 1) (tr_buffer t) \<rparr>)
                   (str_trim (take line_end (tr_buffer t)))) chunks
           | None \<Rightarrow>
               (case chunks of
                  Inr bytes # rest \<Rightarrow>
                    (let (b, u) = push_utf8 (tr_buffer t, tr_utf8_pending t) bytes
                     in poll p now (t\<lparr> tr_buffer := b, tr_utf8_pending := u \<rparr>) rest)
                | Inl e # rest \<Rightarrow> Some (Inl (StreamError e), t, rest)
                | [] \<Rightarrow>
                    map_option (\<lambda>(acc, e). (e, t\<lparr> tr_acc := acc \<rparr>, []))
                      (lp_end p (tr_model t) (tr_response_id t) now (tr_acc t)))))"
  by pat_completeness auto
termination
  by
    (relation "measures [\<lambda>(p, now, t, chunks). length chunks, \<lambda>(p, now, t, chunks). length (tr_buffer t)]",
     auto dest: str_find_Some)

declare poll.simps [simp del]

text \<open>The first \<open>n\<close> events; the clock is read at every poll.\<close>

primrec events :: "nat \<Rightarrow> 'p line_protocol \<Rightarrow> (nat \<Rightarrow> clock) \<Rightarrow> nat \<Rightarrow> 'p stream_transformer \<Rightarrow> chunk list \<Rightarrow> stream_item list" where
  "events 0 p clock k t chunks = []"
| "events (Suc n) p clock k t chunks =
     (case poll p (clock k) t chunks of
        None \<Rightarrow> []
      | Some (e, t', chunks') \<Rightarrow> e # events n p clock (Suc k) t' chunks')"

subsection \<open>How the network cuts the stream does not matter\<close>

lemma utf8_decode_prefix: "utf8_decode (a @ b) z = (a @ fst (utf8_decode b z), snd (utf8_decode b z))"
proof (induction b z arbitrary: a rule: utf8_decode.induct)
  case (1 b z)
  show ?case
  proof (cases "z = []")
    case False
    note IH = 1(1,2) [OF False]
    show ?thesis
      by (cases "utf8_step z") (use IH False in \<open>auto simp: utf8_decodes\<close>)
  qed (simp add: utf8_decodes)
qed

text \<open>The state in which all bytes of the remaining chunks have arrived.\<close>

definition absorb :: "rstring list \<Rightarrow> 'p stream_transformer \<Rightarrow> 'p stream_transformer" where
  "absorb bs t =
     (let (b, u) = utf8_decode (tr_buffer t) (tr_utf8_pending t @ concat bs)
      in t\<lparr> tr_buffer := b, tr_utf8_pending := u \<rparr>)"

lemma absorb_same [simp]:
  "tr_sent_created (absorb bs t) = tr_sent_created t" "tr_sent_in_progress (absorb bs t) = tr_sent_in_progress t"
  "tr_pending (absorb bs t) = tr_pending t" "tr_acc (absorb bs t) = tr_acc t"
  "tr_model (absorb bs t) = tr_model t" "tr_response_id (absorb bs t) = tr_response_id t"
  by (simp_all add: absorb_def split: prod.splits)

lemma absorb_update [simp]:
  "absorb bs (t\<lparr> tr_sent_created := x \<rparr>) = (absorb bs t)\<lparr> tr_sent_created := x \<rparr>"
  "absorb bs (t\<lparr> tr_sent_in_progress := x \<rparr>) = (absorb bs t)\<lparr> tr_sent_in_progress := x \<rparr>"
  "absorb bs (t\<lparr> tr_pending := q \<rparr>) = (absorb bs t)\<lparr> tr_pending := q \<rparr>"
  "absorb bs (t\<lparr> tr_acc := a \<rparr>) = (absorb bs t)\<lparr> tr_acc := a \<rparr>"
  by (simp_all add: absorb_def split: prod.splits)

lemma absorb_line_step: "absorb bs (line_step p now t l) = line_step p now (absorb bs t) l"
  by (simp add: absorb_def line_step_def split: prod.splits)

lemma absorb_Cons:
  "push_utf8 (tr_buffer t, tr_utf8_pending t) b = (x, u) \<Longrightarrow>
     absorb (b # bs) t = absorb bs (t\<lparr> tr_buffer := x, tr_utf8_pending := u \<rparr>)"
  using utf8_decode_append [of "tr_buffer t" "tr_utf8_pending t @ b" "concat bs"]
  by (simp add: absorb_def push_utf8_decode)

lemma absorb_idle: "snd (utf8_decode [] (tr_utf8_pending t)) = tr_utf8_pending t \<and> fst (utf8_decode [] (tr_utf8_pending t)) = []
   \<Longrightarrow> absorb [] t = t"
  using utf8_decode_prefix [of "tr_buffer t" "[]" "tr_utf8_pending t"] by (simp add: absorb_def split: prod.splits)

lemma str_find_nl_append: "str_find b nl = Some i \<Longrightarrow> str_find (b @ c) nl = Some i"
  by (induction b arbitrary: i) (auto split: if_splits option.splits)

lemma absorb_line:
  assumes "str_find (tr_buffer t) nl = Some i"
  shows "str_find (tr_buffer (absorb bs t)) nl = Some i"
    and "take i (tr_buffer (absorb bs t)) = take i (tr_buffer t)"
    and "(absorb bs t)\<lparr> tr_buffer := drop (i + 1) (tr_buffer (absorb bs t)) \<rparr>
       = absorb bs (t\<lparr> tr_buffer := drop (i + 1) (tr_buffer t) \<rparr>)"
proof -
  from str_find_Some [OF assms] have i: "i < length (tr_buffer t)" by auto
  define d where "d = utf8_decode [] (tr_utf8_pending t @ concat bs)"
  have D: "utf8_decode b (tr_utf8_pending t @ concat bs) = (b @ fst d, snd d)" for b
    using utf8_decode_prefix [of b "[]"] by (simp add: d_def)
  show "str_find (tr_buffer (absorb bs t)) nl = Some i"
    using str_find_nl_append [OF assms] by (simp add: absorb_def D)
  show "take i (tr_buffer (absorb bs t)) = take i (tr_buffer t)"
    using i by (simp add: absorb_def D)
  show "(absorb bs t)\<lparr> tr_buffer := drop (i + 1) (tr_buffer (absorb bs t)) \<rparr>
       = absorb bs (t\<lparr> tr_buffer := drop (i + 1) (tr_buffer t) \<rparr>)"
    using i by (simp add: absorb_def D)
qed

text \<open>The bytes that wait are the start of one character.\<close>

definition idle :: "'p stream_transformer \<Rightarrow> bool" where
  "idle t \<longleftrightarrow> utf8_decode [] (tr_utf8_pending t) = ([], tr_utf8_pending t)"

lemma idle_new [simp]: "idle (transformer_new m i a)"
  by (simp add: idle_def transformer_new_def utf8_decode.simps)

lemma idle_update [simp]:
  "idle (t\<lparr> tr_buffer := b \<rparr>) = idle t" "idle (line_step p now t l) = idle t"
  "idle (t\<lparr> tr_sent_created := x \<rparr>) = idle t" "idle (t\<lparr> tr_sent_in_progress := x \<rparr>) = idle t"
  "idle (t\<lparr> tr_pending := q \<rparr>) = idle t" "idle (t\<lparr> tr_acc := a \<rparr>) = idle t"
  by (simp_all add: idle_def)

lemma utf8_decode_rest: "utf8_decode [] (snd (utf8_decode b z)) = ([], snd (utf8_decode b z))"
proof (induction b z rule: utf8_decode.induct)
  case (1 b z)
  show ?case
  proof (cases "z = []")
    case False
    note IH = 1(1,2) [OF False]
    show ?thesis
      by (cases "utf8_step z") (use IH False in \<open>auto simp: utf8_decodes\<close>)
  qed (simp add: utf8_decodes)
qed

lemma idle_push: "push_utf8 s b = (x, u) \<Longrightarrow> idle (t\<lparr> tr_buffer := x, tr_utf8_pending := u \<rparr>)"
  using utf8_decode_rest by (metis idle_def push_utf8_decode snd_conv stream_transformer.select_convs(4)
      stream_transformer.surjective stream_transformer.update_convs(3,4))

lemma absorb_Nil: "idle t \<Longrightarrow> absorb [] t = t"
  by (rule absorb_idle) (simp add: idle_def)

lemma poll_absorb:
  "idle t \<Longrightarrow>
     (case poll p now t (map Inr bs) of
        None \<Rightarrow> poll p now (absorb bs t) [] = None
      | Some (e, t', cs) \<Rightarrow> \<exists>bs'. cs = map Inr bs' \<and> idle t' \<and> poll p now (absorb bs t) [] = Some (e, absorb bs' t', []))"
proof (induction p now t "map Inr bs :: chunk list" arbitrary: bs rule: poll.induct)
  case (1 p now t)
  note unfold = poll.simps [of p now t] poll.simps [of p now "absorb bs t"]
  show ?case
  proof (cases "tr_sent_created t \<and> tr_sent_in_progress t \<and> tr_pending t = []")
    case False
    then show ?thesis
      using 1(3) by (auto simp: unfold in_progress_of_def split: list.splits)
  next
    case running: True
    show ?thesis
    proof (cases "str_find (tr_buffer t) nl")
      case (Some i)
      define u where "u = line_step p now (t\<lparr> tr_buffer := drop (i + 1) (tr_buffer t) \<rparr>) (str_trim (take i (tr_buffer t)))"
      have a: "poll p now t (map Inr bs) = poll p now u (map Inr bs)" using running Some by (simp add: unfold u_def)
      have b: "poll p now (absorb bs t) [] = poll p now (absorb bs u) []"
        using running absorb_line [OF Some, of bs] by (simp add: unfold u_def absorb_line_step del: line_step_update)
      have "idle u" using 1(3) by (simp add: u_def)
      then show ?thesis unfolding a b using 1(2) [of i bs, folded u_def] running Some by simp
    next
      case None
      show ?thesis
      proof (cases bs)
        case Nil
        then show ?thesis using running None 1(3) by (auto simp: unfold absorb_Nil split: option.splits)
      next
        case (Cons b bs')
        obtain x u where push: "push_utf8 (tr_buffer t, tr_utf8_pending t) b = (x, u)" by fastforce
        define v where "v = t\<lparr> tr_buffer := x, tr_utf8_pending := u \<rparr>"
        have a: "poll p now t (map Inr bs) = poll p now v (map Inr bs')"
          using running None Cons push by (simp add: unfold v_def)
        have b: "absorb bs t = absorb bs' v" using absorb_Cons [OF push, of bs'] Cons by (simp add: v_def)
        have "idle v" using idle_push [OF push] by (simp add: v_def)
        then show ?thesis
          unfolding a b using 1(1) [of "Inr b" bs' b "(x, u)" x u, folded v_def] running None Cons push by simp
      qed
    qed
  qed
qed

lemma events_absorb:
  "idle t \<Longrightarrow> events n p clock k t (map Inr bs) = events n p clock k (absorb bs t) []"
proof (induction n arbitrary: k t bs)
  case (Suc n)
  from poll_absorb [OF Suc.prems, of p "clock k" bs] Suc.IH show ?case
    by (fastforce split: option.splits)
qed simp

lemma absorb_concat: "absorb [concat bs] t = absorb bs t"
  by (simp add: absorb_def)

lemma events_of_bytes:
  assumes "concat bs = concat bs'"
  shows "events n p clock k (transformer_new m i a) (map Inr bs) = events n p clock k (transformer_new m i a) (map Inr bs')"
  by (simp add: events_absorb) (metis absorb_concat assms)

subsection \<open>The reference: line by line\<close>

text \<open>
  A whole text is read line by line; what follows the last line feed is not a line. The time of a
  line is the time of the poll that reads it: as many polls as events before it.
\<close>

function (sequential) complete_lines :: "rstring \<Rightarrow> rstring list" where
  "complete_lines s =
     (case str_find s nl of
        None \<Rightarrow> []
      | Some i \<Rightarrow> str_trim (take i s) # complete_lines (drop (i + 1) s))"
  by pat_completeness auto
termination by (relation "measure length") (auto dest: str_find_Some)

declare complete_lines.simps [simp del]

fun line_events ::
    "'p line_protocol \<Rightarrow> rstring \<Rightarrow> rstring \<Rightarrow> (nat \<Rightarrow> clock) \<Rightarrow> nat \<Rightarrow> 'p \<Rightarrow> rstring list \<Rightarrow> 'p \<times> stream_item list" where
  "line_events p m i clock k acc [] = (acc, [])"
| "line_events p m i clock k acc (l # ls) =
     (let (acc, es) = (if l = [] then (acc, []) else lp_line p m i (clock k) acc l);
          (acc, fs) = line_events p m i clock (k + length es) acc ls
      in (acc, es @ fs))"

text \<open>The event with which an adapter may close its stream; it does so once.\<close>

definition end_events :: "'p line_protocol \<Rightarrow> rstring \<Rightarrow> rstring \<Rightarrow> clock \<Rightarrow> 'p \<Rightarrow> stream_item list" where
  "end_events p m i now acc = (case lp_end p m i now acc of Some (_, e) \<Rightarrow> [e] | None \<Rightarrow> [])"

definition ends_once :: "'p line_protocol \<Rightarrow> bool" where
  "ends_once p \<longleftrightarrow> (\<forall>m i now acc acc' e now'. lp_end p m i now acc = Some (acc', e) \<longrightarrow> lp_end p m i now' acc' = None)"

definition all_events ::
    "'p line_protocol \<Rightarrow> rstring \<Rightarrow> rstring \<Rightarrow> (nat \<Rightarrow> clock) \<Rightarrow> nat \<Rightarrow> 'p \<Rightarrow> rstring list \<Rightarrow> stream_item list" where
  "all_events p m i clock k acc ls =
     (let (acc, es) = line_events p m i clock k acc ls in es @ end_events p m i (clock (k + length es)) acc)"

definition rest_events :: "'p line_protocol \<Rightarrow> (nat \<Rightarrow> clock) \<Rightarrow> nat \<Rightarrow> 'p stream_transformer \<Rightarrow> stream_item list" where
  "rest_events p clock k t =
     tr_pending t @ all_events p (tr_model t) (tr_response_id t) clock (k + length (tr_pending t)) (tr_acc t)
       (complete_lines (tr_buffer t))"

lemma rest_events_line:
  assumes "tr_pending t = []" "str_find (tr_buffer t) nl = Some i"
  shows "rest_events p clock k t =
     rest_events p clock k (line_step p (clock k) (t\<lparr> tr_buffer := drop (i + 1) (tr_buffer t) \<rparr>) (str_trim (take i (tr_buffer t))))"
  using assms
  by (simp add: rest_events_def all_events_def complete_lines.simps [of "tr_buffer t"] line_step_def add.assoc split: prod.splits)

lemma poll_rest_events:
  "ends_once p \<Longrightarrow> tr_sent_created t \<Longrightarrow> tr_sent_in_progress t \<Longrightarrow> now = clock k \<Longrightarrow> chunks = [] \<Longrightarrow>
     (case poll p now t chunks of
        None \<Rightarrow> rest_events p clock k t = []
      | Some (e, t', cs) \<Rightarrow> cs = [] \<and> tr_sent_created t' \<and> tr_sent_in_progress t'
          \<and> rest_events p clock k t = e # rest_events p clock (Suc k) t')"
proof (induction p now t chunks rule: poll.induct)
  case (1 p now t chunks)
  show ?case
  proof (cases "tr_pending t")
    case (Cons e es)
    with 1 show ?thesis by (simp add: poll.simps [of p "clock k" t] rest_events_def)
  next
    case Nil
    show ?thesis
    proof (cases "str_find (tr_buffer t) nl")
      case None
      with 1 Nil show ?thesis
        by (simp add: poll.simps [of p "clock k" t] rest_events_def all_events_def complete_lines.simps [of "tr_buffer t"]
            end_events_def ends_once_def split: option.split)
    next
      case (Some i)
      define u where "u = line_step p now (t\<lparr> tr_buffer := drop (i + 1) (tr_buffer t) \<rparr>) (str_trim (take i (tr_buffer t)))"
      have a: "poll p now t chunks = poll p now u chunks"
        using Nil Some 1 by (simp add: poll.simps [of p "clock k" t] u_def)
      have b: "rest_events p clock k t = rest_events p clock k u"
        using rest_events_line [OF Nil Some] 1 by (simp add: u_def)
      from 1 have "tr_sent_created u" "tr_sent_in_progress u" by (simp_all add: u_def)
      then show ?thesis unfolding a b using 1(2) [of i, folded u_def] Nil Some 1 by simp
    qed
  qed
qed

lemma events_rest:
  assumes "ends_once p" "tr_sent_created t" "tr_sent_in_progress t"
  shows "events n p clock k t [] = take n (rest_events p clock k t)"
  using assms(2,3)
proof (induction n arbitrary: k t)
  case (Suc n)
  from poll_rest_events [OF assms(1) Suc.prems refl refl, of clock k] Suc.IH show ?case
    by (fastforce split: option.splits)
qed simp

text \<open>The lines of a body, and what it means that a protocol reads them one after the other.\<close>

definition body_lines :: "rstring list \<Rightarrow> rstring list" where
  "body_lines bs = complete_lines (fst (utf8_decode [] (concat bs)))"

definition reads_lines :: "'p line_protocol \<Rightarrow> 'p \<Rightarrow> bool" where
  "reads_lines p a \<longleftrightarrow> (\<forall>n clock m i bs.
     events (n + 2) p clock 0 (transformer_new m i a) (map Inr bs) =
       [Inr (ResponseCreated (Response_in_progress (clock 0) i m)), Inr (ResponseInProgress (Response_in_progress (clock 1) i m))]
       @ take n (all_events p m i clock 2 a (body_lines bs)))"

lemma ends_once_reads_lines:
  assumes "ends_once p"
  shows "reads_lines p a"
  unfolding reads_lines_def
proof (intro allI)
  fix n clock m i bs
  define t where "t = absorb bs (transformer_new m i a)"
  have sel: "\<not> tr_sent_created t" "\<not> tr_sent_in_progress t" "tr_pending t = []" "tr_acc t = a" "tr_model t = m"
    "tr_response_id t = i" "tr_buffer t = fst (utf8_decode [] (concat bs))"
    by (simp_all add: t_def transformer_new_def absorb_def split: prod.splits)
  let ?t = "t\<lparr> tr_sent_created := True, tr_sent_in_progress := True \<rparr>"
  have "events (n + 2) p clock 0 (transformer_new m i a) (map Inr bs) = events (n + 2) p clock 0 t []"
    unfolding t_def by (rule events_absorb) simp
  also have "\<dots> = [Inr (ResponseCreated (Response_in_progress (clock 0) i m)), Inr (ResponseInProgress (Response_in_progress (clock 1) i m))]
      @ events n p clock 2 ?t []"
    using sel by (simp add: poll.simps [of p] in_progress_of_def response_created_def response_in_progress_def numeral_2_eq_2)
  also have "events n p clock 2 ?t [] = take n (rest_events p clock 2 ?t)"
    by (rule events_rest [OF assms]) simp_all
  finally show "events (n + 2) p clock 0 (transformer_new m i a) (map Inr bs) =
       [Inr (ResponseCreated (Response_in_progress (clock 0) i m)), Inr (ResponseInProgress (Response_in_progress (clock 1) i m))]
       @ take n (all_events p m i clock 2 a (body_lines bs))"
    using sel by (simp add: rest_events_def body_lines_def)
qed

subsection \<open>What is completed is what was streamed\<close>

fun item_delta :: "stream_item \<Rightarrow> rstring" where
  "item_delta (Inr (OutputTextDelta _ _ d)) = d"
| "item_delta _ = []"

definition delta_text :: "stream_item list \<Rightarrow> rstring" where
  "delta_text es = concat (map item_delta es)"

lemma delta_text_simps [simp]:
  "delta_text [] = []" "delta_text (e # es) = item_delta e @ delta_text es"
  "delta_text (es @ fs) = delta_text es @ delta_text fs"
  by (simp_all add: delta_text_def)

fun item_completes :: "rstring \<Rightarrow> stream_item \<Rightarrow> bool" where
  "item_completes s (Inr (ResponseCompleted r)) \<longleftrightarrow> Response_text r = s"
| "item_completes s _ \<longleftrightarrow> True"

fun completed_ok :: "rstring \<Rightarrow> stream_item list \<Rightarrow> bool" where
  "completed_ok s [] \<longleftrightarrow> True"
| "completed_ok s (e # es) \<longleftrightarrow> item_completes s e \<and> completed_ok (s @ item_delta e) es"

lemma completed_ok_append [simp]: "completed_ok s (es @ fs) \<longleftrightarrow> completed_ok s es \<and> completed_ok (s @ delta_text es) fs"
  by (induction es arbitrary: s) auto

lemma completed_ok_iff:
  "completed_ok [] es \<longleftrightarrow> (\<forall>fs r gs. es = fs @ Inr (ResponseCompleted r) # gs \<longrightarrow> Response_text r = delta_text fs)"
proof (induction es rule: rev_induct)
  case (snoc e es)
  have *: "es @ [e] = fs @ Inr (ResponseCompleted r) # gs \<longleftrightarrow>
      (gs = [] \<and> fs = es \<and> e = Inr (ResponseCompleted r)) \<or> (\<exists>hs. gs = hs @ [e] \<and> es = fs @ Inr (ResponseCompleted r) # hs)" for fs r gs
    by (cases gs rule: rev_cases) auto
  have "item_completes s e \<longleftrightarrow> (\<forall>r. e = Inr (ResponseCompleted r) \<longrightarrow> Response_text r = s)" for s
    by (cases "(s, e)" rule: item_completes.cases) auto
  with snoc show ?case unfolding * by auto
qed simp

text \<open>The whole text that is streamed, once enough events have been polled.\<close>

definition streams :: "'p line_protocol \<Rightarrow> 'p \<Rightarrow> rstring list \<Rightarrow> rstring \<Rightarrow> bool" where
  "streams p a bs s \<longleftrightarrow> (\<forall>clock m i. \<exists>N. \<forall>n \<ge> N.
     delta_text (events n p clock 0 (transformer_new m i a) (map Inr bs)) = s)"

lemma reads_lines_streams:
  assumes "reads_lines p a" "\<And>clock m i. delta_text (all_events p m i clock 2 a (body_lines bs)) = s"
  shows "streams p a bs s"
  unfolding streams_def
proof (intro allI)
  fix clock :: "nat \<Rightarrow> clock" and m i
  let ?es = "all_events p m i clock 2 a (body_lines bs)"
  show "\<exists>N. \<forall>n \<ge> N. delta_text (events n p clock 0 (transformer_new m i a) (map Inr bs)) = s"
  proof (intro exI allI impI)
    fix n
    assume n: "length ?es + 2 \<le> n"
    then obtain k where k: "n = k + 2" by (metis add.commute le_add2 le_trans le_iff_add)
    have "events n p clock 0 (transformer_new m i a) (map Inr bs) = [Inr (ResponseCreated (Response_in_progress (clock 0) i m)), Inr (ResponseInProgress (Response_in_progress (clock 1) i m))]
       @ take k ?es" using assms(1) unfolding reads_lines_def k by blast
    then show "delta_text (events n p clock 0 (transformer_new m i a) (map Inr bs)) = s" using n k by (simp add: assms(2))
  qed
qed

text \<open>A completed response has the text that was streamed before it, whatever the chunks, errors included.\<close>

definition completes_with_streamed :: "'p line_protocol \<Rightarrow> 'p \<Rightarrow> bool" where
  "completes_with_streamed p a \<longleftrightarrow> (\<forall>n clock m i chunks es r fs.
     events n p clock 0 (transformer_new m i a) chunks = es @ Inr (ResponseCompleted r) # fs \<longrightarrow> Response_text r = delta_text es)"

text \<open>
  What a line protocol promises: the text it has accumulated grows by the deltas it answers, and a
  completed response has the text accumulated so far.
\<close>

locale text_protocol =
  fixes p :: "'p line_protocol" and text_of :: "'p \<Rightarrow> rstring"
  assumes line: "lp_line p m i now acc l = (acc', es) \<Longrightarrow>
      text_of acc' = text_of acc @ delta_text es \<and> completed_ok (text_of acc) es"
    and end_of_stream: "lp_end p m i now acc = Some (acc', e) \<Longrightarrow>
      text_of acc' = text_of acc @ item_delta e \<and> item_completes (text_of acc) e"
begin

definition in_step :: "rstring \<Rightarrow> 'p stream_transformer \<Rightarrow> bool" where
  "in_step s t \<longleftrightarrow> text_of (tr_acc t) = s @ delta_text (tr_pending t) \<and> completed_ok s (tr_pending t)"

lemma in_step_update [simp]:
  "in_step s (t\<lparr> tr_buffer := b \<rparr>) = in_step s t" "in_step s (t\<lparr> tr_utf8_pending := b \<rparr>) = in_step s t"
  "in_step s (t\<lparr> tr_sent_created := x \<rparr>) = in_step s t" "in_step s (t\<lparr> tr_sent_in_progress := x \<rparr>) = in_step s t"
  by (simp_all add: in_step_def)

lemma in_step_line:
  assumes "in_step s t"
  shows "in_step s (line_step p now t l)"
proof (cases "lp_line p (tr_model t) (tr_response_id t) now (tr_acc t) l")
  case (Pair acc es)
  with assms line [OF Pair] show ?thesis by (auto simp: in_step_def line_step_def)
qed

lemma poll_in_step:
  "q = p \<Longrightarrow> in_step s t \<Longrightarrow> poll q now t chunks = Some (e, t', chunks') \<Longrightarrow>
     item_completes s e \<and> in_step (s @ item_delta e) t'"
proof (induction q now t chunks rule: poll.induct)
  case (1 q now t chunks)
  note IH = 1(1,2) and prems = 1(3-5)
  show ?case
  proof (cases "tr_sent_created t \<and> tr_sent_in_progress t \<and> tr_pending t = []")
    case False
    with prems show ?thesis
      by (auto simp: poll.simps [of p now t] response_created_def response_in_progress_def in_step_def
          split: list.splits if_splits)
  next
    case running: True
    show ?thesis
    proof (cases "str_find (tr_buffer t) nl")
      case (Some i)
      show ?thesis
        by (rule IH(2) [of i]) (use running Some prems in \<open>simp_all add: poll.simps [of p now t] in_step_line del: line_step_update\<close>)
    next
      case None
      show ?thesis
      proof (cases "\<exists>b bs. chunks = Inr b # bs")
        case True
        then obtain b bs where c: "chunks = Inr b # bs" by auto
        obtain x u where push: "push_utf8 (tr_buffer t, tr_utf8_pending t) b = (x, u)" by fastforce
        show ?thesis
          by (rule IH(1) [of "Inr b" bs b "(x, u)" x u])
            (use running None prems c push in \<open>simp_all add: poll.simps [of p now t]\<close>)
      next
        case False
        with running None prems show ?thesis
          by (auto simp: poll.simps [of p now t] in_step_def split: list.splits sum.splits dest!: end_of_stream)
      qed
    qed
  qed
qed

lemma events_completed: "in_step s t \<Longrightarrow> completed_ok s (events n p clock k t chunks)"
proof (induction n arbitrary: s k t chunks)
  case (Suc n)
  then show ?case using poll_in_step [OF refl Suc.prems] by (auto split: option.splits)
qed simp

lemma completed_text:
  assumes "text_of a = []"
  shows "completes_with_streamed p a"
  unfolding completes_with_streamed_def
proof (intro allI impI)
  fix n clock m i chunks es r fs
  assume e: "events n p clock 0 (transformer_new m i a) chunks = es @ Inr (ResponseCompleted r) # fs"
  have "in_step [] (transformer_new m i a)" using assms by (simp add: in_step_def transformer_new_def)
  from events_completed [OF this, of n clock 0 chunks] e show "Response_text r = delta_text es"
    by (auto simp: completed_ok_iff)
qed

end

end
