(* ===== verification/Tool_Calls.thy ===== *)
theory Tool_Calls
  imports Response_Types
begin

text \<open>
  Tool calls in the provider adapters (\<open>transform_request\<close> and the stream transformers of
  \<open>aura-core/src/provider\<close>): consecutive calls of a conversation become one assistant message, and
  the fragments of a streamed call are collected by index in a hash map. The map is an association
  list in the order of the insertions; the order in which the code visits it is a parameter.
\<close>

subsection \<open>Batches\<close>

text \<open>
  An item is a call, which waits in the current batch, or any number of messages, before which the
  batch is flushed.
\<close>

definition flush_pending :: "('c list \<Rightarrow> 'm) \<Rightarrow> 'c list \<Rightarrow> 'm list" where
  "flush_pending batch pending = (if pending = [] then [] else [batch pending])"

fun batch_calls :: "('c list \<Rightarrow> 'm) \<Rightarrow> ('i \<Rightarrow> 'c + 'm list) \<Rightarrow> 'c list \<Rightarrow> 'i list \<Rightarrow> 'm list" where
  "batch_calls batch step pending [] = flush_pending batch pending"
| "batch_calls batch step pending (i # is) =
     (case step i of
        Inl c \<Rightarrow> batch_calls batch step (pending @ [c]) is
      | Inr ms \<Rightarrow> flush_pending batch pending @ ms @ batch_calls batch step [] is)"

text \<open>
  A reader of messages gives back the calls of a batch one by one, and no other message is a batch.
\<close>

locale call_batches =
  fixes batch :: "'c list \<Rightarrow> 'm" and step :: "'i \<Rightarrow> 'c + 'm list"
    and read :: "'m \<Rightarrow> 't list" and call :: "'c \<Rightarrow> 't" and good :: "'c \<Rightarrow> bool" and is_batch :: "'m \<Rightarrow> bool"
  assumes read_batch: "cs \<noteq> [] \<Longrightarrow> list_all good cs \<Longrightarrow> read (batch cs) = map call cs"
    and good_call: "step i = Inl c \<Longrightarrow> good c"
    and no_batch: "step i = Inr ms \<Longrightarrow> m \<in> set ms \<Longrightarrow> \<not> is_batch m"
begin

definition item_turns :: "'i \<Rightarrow> 't list" where
  "item_turns i = (case step i of Inl c \<Rightarrow> [call c] | Inr ms \<Rightarrow> concat (map read ms))"

lemma read_flush: "list_all good cs \<Longrightarrow> concat (map read (flush_pending batch cs)) = map call cs"
  by (simp add: flush_pending_def read_batch)

lemma read_back:
  "list_all good pending \<Longrightarrow>
     concat (map read (batch_calls batch step pending is)) = map call pending @ concat (map item_turns is)"
  by (induction "is" arbitrary: pending) (auto simp: read_flush item_turns_def good_call split: sum.splits)

text \<open>When every other item leaves a message, no two batches are adjacent.\<close>

definition separated :: "'m list \<Rightarrow> bool" where
  "separated ms \<longleftrightarrow> successively (\<lambda>a b. \<not> (is_batch a \<and> is_batch b)) ms"

lemma separated_append:
  "separated (xs @ ys) \<longleftrightarrow> separated xs \<and> separated ys
     \<and> (xs = [] \<or> ys = [] \<or> \<not> (is_batch (last xs) \<and> is_batch (hd ys)))"
  by (auto simp: separated_def successively_append_iff)

lemma separated_plain: "\<forall>m \<in> set ms. \<not> is_batch m \<Longrightarrow> separated ms"
  unfolding separated_def by (induction ms rule: induct_list012) auto

lemma separated_flush: "separated (flush_pending batch cs)"
  by (simp add: flush_pending_def separated_def)

lemma batches_separated:
  assumes "\<forall>i \<in> set is. step i \<noteq> Inr []"
  shows "separated (batch_calls batch step pending is)"
  using assms
proof (induction "is" arbitrary: pending)
  case Nil
  show ?case by (simp add: separated_flush)
next
  case (Cons i "is")
  show ?case
  proof (cases "step i")
    case (Inl c)
    with Cons show ?thesis by simp
  next
    case (Inr ms)
    then have "\<forall>m \<in> set ms. \<not> is_batch m" "ms \<noteq> []" using no_batch Cons.prems by auto
    with Inr Cons separated_plain [of ms] separated_flush [of pending] show ?thesis
      by (auto simp: separated_append)
  qed
qed

end

subsection \<open>Streamed calls\<close>

record PartialToolCall =
  ptc_id :: rstring
  ptc_name :: rstring
  ptc_arguments :: rstring

definition PartialToolCall_default :: PartialToolCall where
  "PartialToolCall_default = \<lparr> ptc_id = [], ptc_name = [], ptc_arguments = [] \<rparr>"

type_synonym call_map = "(usize \<times> PartialToolCall) list"

fun update_entry :: "usize \<Rightarrow> (PartialToolCall \<Rightarrow> PartialToolCall) \<Rightarrow> call_map \<Rightarrow> call_map" where
  "update_entry i f [] = [(i, f PartialToolCall_default)]"
| "update_entry i f ((j, c) # m) = (if j = i then (j, f c) # m else (j, c) # update_entry i f m)"

definition call_item :: "usize \<times> PartialToolCall \<Rightarrow> Item" where
  "call_item e =
     (case e of (idx, tc) \<Rightarrow>
        FunctionCall (FunctionCallItem_new (''fc_'' @ dec_digits (unat idx)) (ptc_id tc) (ptc_name tc) (ptc_arguments tc)))"

definition text_item :: "rstring \<Rightarrow> Item list" where
  "text_item t = (if t = [] then [] else [Message (MessageItem_assistant ''msg_0'' t)])"

lemma map_of_update_entry:
  "map_of (update_entry i f m) j =
     (if j = i then Some (f (case map_of m i of Some c \<Rightarrow> c | None \<Rightarrow> PartialToolCall_default)) else map_of m j)"
  by (induction i f m rule: update_entry.induct) auto

lemma distinct_update_entry: "distinct (map fst m) \<Longrightarrow> distinct (map fst (update_entry i f m))"
proof (induction i f m rule: update_entry.induct)
  case (2 i f j c m)
  have "fst ` set (update_entry i f m) = insert i (fst ` set m)"
    by (induction i f m rule: update_entry.induct) auto
  with 2 show ?case by auto
qed simp

lemma MessageItem_text_assistant [simp]: "MessageItem_text (MessageItem_assistant i t) = t"
  by (simp add: MessageItem_assistant_def MessageItem_text_def MessageItem_new_def ContentPart_text_def List.map_filter_def)

lemma as_message_call_item [simp]: "Item_as_message (call_item e) = None"
  by (simp add: call_item_def split: prod.splits)

lemma text_of_output:
  "\<forall>i \<in> set is. Item_as_message i = None \<Longrightarrow>
     str_join [] (map MessageItem_text (List.map_filter Item_as_message (text_item t @ is))) = t"
  by (induction "is") (auto simp: text_item_def List.map_filter_def)

end
