(* ===== verification/Chat_Completions.thy ===== *)
theory Chat_Completions
  imports Provider Provider_Stream Tool_Calls Provider_Cache
begin

text \<open>
  The Chat Completions format that OpenAI defines and the other adapters speak: each adapter of
  \<open>aura-core/src/provider\<close> declares these structs under its own prefix. Here are the wire types, the
  transformation of contents, calls, tools and choices that the adapters repeat word for word, the
  items of an answer, and the two ways in which the adapters answer the deltas of a stream. The
  lines cited are those of \<open>openai.rs\<close>, and of \<open>together.rs\<close> for what is queued.
\<close>

subsection \<open>Wire types\<close>

datatype ChatContentPart = CP_Text rstring | CP_ImageUrl rstring

datatype ChatContent = CC_Text rstring | CC_Parts "ChatContentPart list"

record ChatFunctionCall =
  cf_name :: rstring
  cf_arguments :: rstring

record ChatToolCallRequest =
  ctc_id :: rstring
  ctc_type :: rstring
  ctc_function :: ChatFunctionCall

record ChatMessage =
  cm_role :: rstring
  cm_content :: "ChatContent option"
  cm_tool_calls :: "ChatToolCallRequest list option"
  cm_tool_call_id :: "rstring option"

record ChatFunction =
  cfn_name :: rstring
  cfn_description :: "rstring option"
  cfn_parameters :: "json option"

record ChatTool =
  ct_type :: rstring
  ct_function :: ChatFunction

datatype ChatToolChoice = CTC_String rstring | CTC_Object rstring rstring

record ChatRequest =
  cr_model :: rstring
  cr_messages :: "ChatMessage list"
  cr_max_tokens :: "u32 option"
  cr_temperature :: "f32 option"
  cr_top_p :: "f32 option"
  cr_stream :: "bool option"
  cr_tools :: "ChatTool list option"
  cr_tool_choice :: "ChatToolChoice option"

record ChatUsage =
  cu_prompt_tokens :: u32
  cu_completion_tokens :: u32
  cu_total_tokens :: u32
  cu_prompt_tokens_details :: "PromptTokensDetails option"

definition ChatUsage_to_usage :: "ChatUsage \<Rightarrow> Usage" where
  "ChatUsage_to_usage u =
     openai_compatible_usage (cu_prompt_tokens u) (cu_completion_tokens u) (cu_prompt_tokens_details u)"

record ChatStreamToolCall =
  cst_index :: usize
  cst_id :: "rstring option"
  cst_function :: "(rstring option \<times> rstring option) option"

record ChatStreamDelta =
  csd_content :: "rstring option"
  csd_tool_calls :: "ChatStreamToolCall list option"

record ChatStreamChunk =
  csc_choices :: "ChatStreamDelta list"
  csc_usage :: "ChatUsage option"

subsection \<open>Requests\<close>

fun Chat_role :: "Role \<Rightarrow> rstring" where
  "Chat_role User = ''user''"
| "Chat_role Assistant = ''assistant''"
| "Chat_role System = ''system''"
| "Chat_role RTool = ''tool''"

fun Chat_image :: "rstring option \<Rightarrow> rstring option \<Rightarrow> rstring option \<Rightarrow> ChatContentPart" where
  "Chat_image (Some url) dat media = CP_ImageUrl url"
| "Chat_image None (Some dat) media =
     CP_ImageUrl (''data:'' @ (case media of Some m \<Rightarrow> m | None \<Rightarrow> ''image/png'') @ '';base64,'' @ dat)"
| "Chat_image None None media = CP_Text ''[Invalid image]''"

fun Chat_content_part :: "ContentPart \<Rightarrow> ChatContentPart" where
  "Chat_content_part (CText t) = CP_Text t"
| "Chat_content_part (CImage url dat media) = Chat_image url dat media"
| "Chat_content_part (CAudio dat media) =
     CP_Text (''[Audio: '' @ dec_digits (length dat) @ '' bytes, type: ''
       @ (case media of Some m \<Rightarrow> m | None \<Rightarrow> ''audio/mp3'') @ '']'')"

fun Chat_content :: "InputContent \<Rightarrow> ChatContent" where
  "Chat_content (IText t) = CC_Text t"
| "Chat_content (IParts ps) = CC_Parts (map Chat_content_part ps)"

definition Chat_said :: "rstring \<Rightarrow> ChatContent \<Rightarrow> ChatMessage" where
  "Chat_said role c = \<lparr> cm_role = role, cm_content = Some c, cm_tool_calls = None, cm_tool_call_id = None \<rparr>"

definition Chat_result :: "rstring \<Rightarrow> rstring \<Rightarrow> ChatMessage" where
  "Chat_result call_id out =
     \<lparr> cm_role = ''tool'', cm_content = Some (CC_Text out), cm_tool_calls = None, cm_tool_call_id = Some call_id \<rparr>"

definition Chat_call :: "rstring \<Rightarrow> rstring \<Rightarrow> rstring \<Rightarrow> ChatToolCallRequest" where
  "Chat_call call_id name arguments =
     \<lparr> ctc_id = call_id, ctc_type = ''function'', ctc_function = \<lparr> cf_name = name, cf_arguments = arguments \<rparr> \<rparr>"

definition Chat_batch :: "ChatToolCallRequest list \<Rightarrow> ChatMessage" where
  "Chat_batch pending =
     \<lparr> cm_role = ''assistant'', cm_content = None, cm_tool_calls = Some pending, cm_tool_call_id = None \<rparr>"

definition Chat_instructions :: "Request \<Rightarrow> ChatMessage list" where
  "Chat_instructions r =
     (case req_instructions r of Some s \<Rightarrow> [Chat_said ''system'' (CC_Text s)] | None \<Rightarrow> [])"

fun Chat_tool :: "Tool \<Rightarrow> ChatTool" where
  "Chat_tool (TFunction f) =
     \<lparr> ct_type = ''function'',
       ct_function = \<lparr> cfn_name = fd_name f, cfn_description = fd_description f, cfn_parameters = fd_parameters f \<rparr> \<rparr>"

fun Chat_tool_choice :: "rstring \<Rightarrow> ToolChoice \<Rightarrow> ChatToolChoice" where
  "Chat_tool_choice required (TChoiceAuto TC_Auto) = CTC_String ''auto''"
| "Chat_tool_choice required (TChoiceAuto TC_Required) = CTC_String required"
| "Chat_tool_choice required (TChoiceAuto TC_None) = CTC_String ''none''"
| "Chat_tool_choice required (TChoiceFunction _ name) = CTC_Object ''function'' name"

definition bearer_headers :: "rstring \<Rightarrow> (rstring \<times> rstring) list" where
  "bearer_headers api_key = [(''Authorization'', ''Bearer '' @ api_key), (''Content-Type'', ''application/json'')]"

subsection \<open>Answers\<close>

text \<open>The items of a choice: its text, then its calls (id, name, arguments), numbered on.\<close>

definition Chat_call_items :: "nat \<Rightarrow> (rstring \<times> rstring \<times> rstring) list \<Rightarrow> Item list" where
  "Chat_call_items item_index calls =
     map (\<lambda>(i, call_id, name, arguments).
         FunctionCall (FunctionCallItem_new (''fc_'' @ dec_digits (item_index + i)) call_id name arguments))
       (enumerate 0 calls)"

definition Chat_items :: "rstring option \<Rightarrow> (rstring \<times> rstring \<times> rstring) list option \<Rightarrow> Item list" where
  "Chat_items content tool_calls =
     (case content of Some t \<Rightarrow> [Message (MessageItem_assistant ''msg_0'' t)] | None \<Rightarrow> [])
     @ (case tool_calls of
          Some calls \<Rightarrow> Chat_call_items (if content = None then 0 else 1) calls
        | None \<Rightarrow> [])"

definition Chat_no_response :: "ResponseStatus \<times> IncompleteReason option \<times> ResponseError option" where
  "Chat_no_response = (RS_Failed, None, Some (ResponseError_new ''no_response'' ''No response from model''))"

definition finish_response ::
    "clock \<Rightarrow> ResponseBuilder \<Rightarrow> Item list \<Rightarrow> ResponseStatus \<times> IncompleteReason option \<times> ResponseError option
      \<Rightarrow> Usage option \<Rightarrow> ValidationMetadata option \<Rightarrow> Response" where
  "finish_response now b output st usage validation =
     (let (status, incomplete_reason, err) = st;
          b = RB_status (RB_outputs b output) status;
          b = (case usage of Some u \<Rightarrow> RB_usage b u | None \<Rightarrow> b);
          b = (case incomplete_reason of Some x \<Rightarrow> RB_incomplete b x | None \<Rightarrow> b);
          b = (case err of Some e \<Rightarrow> RB_failed b e | None \<Rightarrow> b);
          b = (case validation of Some x \<Rightarrow> RB_validation b x | None \<Rightarrow> b)
      in RB_build now b)"

subsection \<open>Streams\<close>

record ChatAcc =
  ca_text :: rstring
  ca_calls :: call_map
  ca_usage :: "Usage option"
  ca_item_added :: bool
  ca_part_added :: bool

definition ChatAcc_new :: ChatAcc where
  "ChatAcc_new = \<lparr> ca_text = [], ca_calls = [], ca_usage = None, ca_item_added = False, ca_part_added = False \<rparr>"

definition Chat_final :: "(call_map \<Rightarrow> call_map) \<Rightarrow> rstring \<Rightarrow> rstring \<Rightarrow> clock \<Rightarrow> ChatAcc \<Rightarrow> Response" where
  "Chat_final order model response_id now a =
     (let b = RB_completed (RB_outputs (ResponseBuilder_new response_id model)
                (text_item (ca_text a) @ map call_item (order (ca_calls a))))
      in RB_build now (case ca_usage a of Some u \<Rightarrow> RB_usage b u | None \<Rightarrow> b))"

definition keep_some :: "'a option \<Rightarrow> 'a \<Rightarrow> 'a" where
  "keep_some v old = (case v of Some x \<Rightarrow> x | None \<Rightarrow> old)"

text \<open>The entry of a call after one fragment.\<close>

definition merge_call :: "ChatStreamToolCall \<Rightarrow> PartialToolCall \<Rightarrow> PartialToolCall" where
  "merge_call tc c =
     (let c = c\<lparr> ptc_id := keep_some (cst_id tc) (ptc_id c) \<rparr>
      in case cst_function tc of
           None \<Rightarrow> c
         | Some (name, arguments) \<Rightarrow>
             c\<lparr> ptc_name := keep_some name (ptc_name c),
                ptc_arguments := ptc_arguments c @ bytes_or_empty arguments \<rparr>)"

definition call_arguments :: "ChatStreamToolCall \<Rightarrow> rstring option" where
  "call_arguments tc = Option.bind (cst_function tc) snd"

text \<open>An adapter that returns at its first event leaves the rest of the delta unread.\<close>

fun returning_calls :: "call_map \<Rightarrow> ChatStreamToolCall list \<Rightarrow> call_map \<times> stream_item list" where
  "returning_calls m [] = (m, [])"
| "returning_calls m (tc # tcs) =
     (let m = update_entry (cst_index tc) (merge_call tc) m
      in case call_arguments tc of
           Some args \<Rightarrow> (m, [Inr (function_call_arguments_delta (cst_index tc) args)])
         | None \<Rightarrow> returning_calls m tcs)"

definition returning_delta :: "ChatStreamDelta \<Rightarrow> ChatAcc \<Rightarrow> ChatAcc \<times> stream_item list" where
  "returning_delta d a =
     (case csd_content d of
        Some content \<Rightarrow>
          if \<not> ca_item_added a then
            (a\<lparr> ca_item_added := True \<rparr>, [Inr (output_item_added 0 (Message (MessageItem_assistant ''msg_0'' [])))])
          else if \<not> ca_part_added a then
            (a\<lparr> ca_part_added := True \<rparr>, [Inr (content_part_added 0 0 ''text'')])
          else (a\<lparr> ca_text := ca_text a @ content \<rparr>, [Inr (output_text_delta 0 0 content)])
      | None \<Rightarrow>
          (case csd_tool_calls d of
             Some tcs \<Rightarrow> (let (m, es) = returning_calls (ca_calls a) tcs in (a\<lparr> ca_calls := m \<rparr>, es))
           | None \<Rightarrow> (a, [])))"

text \<open>An adapter with a queue answers every event of a text; of the calls it too returns at the first with arguments.\<close>

definition queued_delta :: "ChatStreamDelta \<Rightarrow> ChatAcc \<Rightarrow> ChatAcc \<times> stream_item list" where
  "queued_delta d a =
     (case csd_content d of
        Some content \<Rightarrow>
          (a\<lparr> ca_item_added := True, ca_part_added := True, ca_text := ca_text a @ content \<rparr>,
           (if ca_item_added a then [] else [Inr (output_item_added 0 (Message (MessageItem_assistant ''msg_0'' [])))])
           @ (if ca_part_added a then [] else [Inr (content_part_added 0 0 ''text'')])
           @ [Inr (output_text_delta 0 0 content)])
      | None \<Rightarrow>
          (case csd_tool_calls d of
             Some tcs \<Rightarrow> (let (m, es) = returning_calls (ca_calls a) tcs in (a\<lparr> ca_calls := m \<rparr>, es))
           | None \<Rightarrow> (a, [])))"

text \<open>
  A line of the stream: the end marker, a chunk, or anything else. What an adapter does at the end
  marker, whether it reads the usage and how it takes a delta are arguments.
\<close>

definition chat_line ::
    "(rstring \<Rightarrow> ChatStreamChunk option) \<Rightarrow> (rstring \<Rightarrow> rstring \<Rightarrow> clock \<Rightarrow> ChatAcc \<Rightarrow> stream_item list)
      \<Rightarrow> (ChatUsage option \<Rightarrow> ChatAcc \<Rightarrow> ChatAcc) \<Rightarrow> (ChatStreamDelta \<Rightarrow> ChatAcc \<Rightarrow> ChatAcc \<times> stream_item list)
      \<Rightarrow> rstring \<Rightarrow> rstring \<Rightarrow> clock \<Rightarrow> ChatAcc \<Rightarrow> rstring \<Rightarrow> ChatAcc \<times> stream_item list" where
  "chat_line parse at_done read_usage take_delta m i now a line =
     (if line = ''data: [DONE]'' then (a, at_done m i now a)
      else case Option.bind (strip_prefix line ''data: '') parse of
             None \<Rightarrow> (a, [])
           | Some chunk \<Rightarrow>
               (let a = read_usage (csc_usage chunk) a
                in case csc_choices chunk of
                     [] \<Rightarrow> (a, [])
                   | d # _ \<Rightarrow> take_delta d a))"

definition read_usage :: "ChatUsage option \<Rightarrow> ChatAcc \<Rightarrow> ChatAcc" where
  "read_usage u a = (case u of Some u \<Rightarrow> a\<lparr> ca_usage := Some (ChatUsage_to_usage u) \<rparr> | None \<Rightarrow> a)"

definition ignore_usage :: "ChatUsage option \<Rightarrow> ChatAcc \<Rightarrow> ChatAcc" where
  "ignore_usage u a = a"

definition returning_protocol ::
    "(rstring \<Rightarrow> ChatStreamChunk option) \<Rightarrow> (call_map \<Rightarrow> call_map) \<Rightarrow> (ChatUsage option \<Rightarrow> ChatAcc \<Rightarrow> ChatAcc) \<Rightarrow> ChatAcc line_protocol" where
  "returning_protocol parse order usage =
     \<lparr> lp_line = chat_line parse (\<lambda>m i now a. [Inr (response_completed (Chat_final order m i now a))]) usage returning_delta,
       lp_end = (\<lambda>_ _ _ _. None) \<rparr>"

definition queued_protocol ::
    "(rstring \<Rightarrow> ChatStreamChunk option) \<Rightarrow> (call_map \<Rightarrow> call_map) \<Rightarrow> ChatAcc line_protocol" where
  "queued_protocol parse order =
     \<lparr> lp_line = chat_line parse
         (\<lambda>m i now a. (if ca_text a = [] then [] else [Inr (output_text_done 0 0 (ca_text a))])
            @ [Inr (response_completed (Chat_final order m i now a))]) read_usage queued_delta,
       lp_end = (\<lambda>_ _ _ _. None) \<rparr>"

subsection \<open>The conversation as turns\<close>

datatype chat_turn = C_Said ChatMessage | C_Called ChatToolCallRequest

definition C_is_batch :: "ChatMessage \<Rightarrow> bool" where
  "C_is_batch m \<longleftrightarrow> cm_tool_calls m \<noteq> None"

definition C_read :: "ChatMessage \<Rightarrow> chat_turn list" where
  "C_read m = (case cm_tool_calls m of Some cs \<Rightarrow> map C_Called cs | None \<Rightarrow> [C_Said m])"

lemma C_read_simps [simp]:
  "C_read (Chat_batch cs) = map C_Called cs" "C_read (Chat_said role c) = [C_Said (Chat_said role c)]"
  "C_read (Chat_result i out) = [C_Said (Chat_result i out)]"
  "\<not> C_is_batch (Chat_said role c)" "\<not> C_is_batch (Chat_result i out)"
  by (simp_all add: C_read_def C_is_batch_def Chat_batch_def Chat_said_def Chat_result_def)

text \<open>What an item stands for when every message is sent.\<close>

fun chat_turns :: "(InputContent \<Rightarrow> ChatContent) \<Rightarrow> InputItem \<Rightarrow> chat_turn list" where
  "chat_turns content (InMessage role c) = [C_Said (Chat_said (Chat_role role) (content c))]"
| "chat_turns content (InFunctionCallOutput call_id out) = [C_Said (Chat_result call_id out)]"
| "chat_turns content (InFunctionCall call_id name arguments) = [C_Called (Chat_call call_id name arguments)]"

text \<open>Most adapters leave out the system messages of the input.\<close>

fun skipping_step :: "(InputContent \<Rightarrow> ChatContent) \<Rightarrow> InputItem \<Rightarrow> ChatToolCallRequest + ChatMessage list" where
  "skipping_step content (InMessage role c) =
     (if role = System then Inr [] else Inr [Chat_said (Chat_role role) (content c)])"
| "skipping_step content (InFunctionCallOutput call_id out) = Inr [Chat_result call_id out]"
| "skipping_step content (InFunctionCall call_id name arguments) = Inl (Chat_call call_id name arguments)"

definition is_system :: "InputItem \<Rightarrow> bool" where
  "is_system i \<longleftrightarrow> (\<exists>c. i = InMessage System c)"

interpretation skipping: call_batches Chat_batch "skipping_step content" C_read C_Called "\<lambda>_. True" C_is_batch for content
proof
  show "\<not> C_is_batch m" if "skipping_step content i = Inr ms" "m \<in> set ms" for i ms m
    using that by (cases i) (auto split: if_splits)
qed simp_all

text \<open>The messages say the instructions and then everything but the system messages.\<close>

definition says_no_system :: "(InputContent \<Rightarrow> ChatContent) \<Rightarrow> (Request \<Rightarrow> ChatMessage list) \<Rightarrow> bool" where
  "says_no_system content messages \<longleftrightarrow> (\<forall>r. concat (map C_read (messages r)) =
     concat (map C_read (Chat_instructions r)) @ concat (map (chat_turns content) (filter (\<lambda>i. \<not> is_system i) (req_input r))))"

lemma skipping_reads:
  "concat (map C_read (batch_calls Chat_batch (skipping_step content) [] inp)) =
     concat (map (chat_turns content) (filter (\<lambda>i. \<not> is_system i) inp))"
proof -
  have turns: "skipping.item_turns content i = (if is_system i then [] else chat_turns content i)" for i
    by (cases i) (auto simp: skipping.item_turns_def is_system_def)
  have "concat (map (skipping.item_turns content) inp) = concat (map (chat_turns content) (filter (\<lambda>i. \<not> is_system i) inp))"
    by (induction inp) (simp_all add: turns)
  then show ?thesis by (simp add: skipping.read_back)
qed

subsection \<open>What is completed is what was streamed\<close>

lemmas chat_events = response_completed_def output_item_added_def content_part_added_def
  output_text_delta_def output_text_done_def function_call_arguments_delta_def

lemma Response_text_Chat_final [simp]: "Response_text (Chat_final order m i now a) = ca_text a"
  unfolding Response_text_def Chat_final_def Let_def
  by (simp add: RB_build_def RB_completed_def RB_usage_def RB_outputs_def text_of_output split: option.split)

lemma usage_same [simp]:
  "ca_text (read_usage u a) = ca_text a" "ca_item_added (read_usage u a) = ca_item_added a"
  "ca_part_added (read_usage u a) = ca_part_added a" "ignore_usage u a = a"
  by (simp_all add: read_usage_def ignore_usage_def split: option.split)

definition silent :: "stream_item list \<Rightarrow> bool" where
  "silent es \<longleftrightarrow> delta_text es = [] \<and> (\<forall>s. completed_ok s es)"

lemma silent_returning: "returning_calls m tcs = (m', es) \<Longrightarrow> silent es"
  by (induction m tcs arbitrary: m' es rule: returning_calls.induct)
    (auto simp: silent_def chat_events Let_def split: option.splits)

text \<open>What a delta adds to the text, by the style of the adapter.\<close>

definition missing :: "ChatAcc \<Rightarrow> nat" where
  "missing a = (if \<not> ca_item_added a then 2 else if \<not> ca_part_added a then 1 else 0)"

definition flags_ok :: "ChatAcc \<Rightarrow> bool" where
  "flags_ok a \<longleftrightarrow> (ca_part_added a \<longrightarrow> ca_item_added a)"

lemma returning_delta_step:
  "returning_delta d a = (a', es) \<Longrightarrow>
     ca_text a' = ca_text a @ delta_text es \<and> (\<forall>s. completed_ok s es) \<and>
     (case csd_content d of
        Some t \<Rightarrow> delta_text es = (if missing a = 0 then t else []) \<and> (flags_ok a \<longrightarrow> flags_ok a' \<and> missing a' = missing a - 1)
      | None \<Rightarrow> delta_text es = [] \<and> missing a' = missing a \<and> (flags_ok a \<longrightarrow> flags_ok a'))"
  by (auto simp: returning_delta_def missing_def flags_ok_def chat_events silent_def
      split: option.splits if_splits prod.splits dest!: silent_returning)

lemma queued_delta_step:
  "queued_delta d a = (a', es) \<Longrightarrow>
     ca_text a' = ca_text a @ delta_text es \<and> (\<forall>s. completed_ok s es) \<and> delta_text es = bytes_or_empty (csd_content d)"
  by (auto simp: queued_delta_def bytes_or_empty_def chat_events silent_def
      split: option.splits if_splits prod.splits dest!: silent_returning)

text \<open>The text that a line brings.\<close>

definition chat_wire :: "(rstring \<Rightarrow> ChatStreamChunk option) \<Rightarrow> rstring \<Rightarrow> rstring option" where
  "chat_wire parse line =
     (if line = ''data: [DONE]'' then None
      else case Option.bind (strip_prefix line ''data: '') parse of
             Some chunk \<Rightarrow> (case csc_choices chunk of d # _ \<Rightarrow> csd_content d | [] \<Rightarrow> None)
           | None \<Rightarrow> None)"

definition chat_wires :: "(rstring \<Rightarrow> ChatStreamChunk option) \<Rightarrow> rstring list \<Rightarrow> rstring list" where
  "chat_wires parse ls = List.map_filter (chat_wire parse) ls"

lemma chat_wire_Nil [simp]: "chat_wire parse [] = None"
  by (simp add: chat_wire_def strip_prefix_def)

lemma returning_line_step:
  assumes "usage = read_usage \<or> usage = ignore_usage"
    and "lp_line (returning_protocol parse order usage) m i now a l = (a', es)"
  shows "ca_text a' = ca_text a @ delta_text es \<and> completed_ok (ca_text a) es \<and>
     (case chat_wire parse l of
        Some t \<Rightarrow> delta_text es = (if missing a = 0 then t else []) \<and> (flags_ok a \<longrightarrow> flags_ok a' \<and> missing a' = missing a - 1)
      | None \<Rightarrow> delta_text es = [] \<and> missing a' = missing a \<and> (flags_ok a \<longrightarrow> flags_ok a'))"
proof (cases "l = ''data: [DONE]''")
  case True
  with assms show ?thesis by (auto simp: returning_protocol_def chat_line_def chat_wire_def chat_events)
next
  case False
  have u: "ca_text (usage x a) = ca_text a" "missing (usage x a) = missing a" "flags_ok (usage x a) = flags_ok a" for x
    using assms(1) by (auto simp: missing_def flags_ok_def)
  show ?thesis
  proof (cases "Option.bind (strip_prefix l ''data: '') parse")
    case None
    with False assms(2) show ?thesis by (auto simp: returning_protocol_def chat_line_def chat_wire_def)
  next
    case (Some chunk)
    show ?thesis
    proof (cases "csc_choices chunk")
      case Nil
      with Some False assms(2) u [of "csc_usage chunk"] show ?thesis
        by (auto simp: returning_protocol_def chat_line_def chat_wire_def)
    next
      case (Cons d ds)
      with Some False assms(2) have "returning_delta d (usage (csc_usage chunk) a) = (a', es)"
        by (simp add: returning_protocol_def chat_line_def)
      from returning_delta_step [OF this] Cons Some False show ?thesis
        unfolding u by (simp add: chat_wire_def)
    qed
  qed
qed

lemma queued_line_step:
  assumes "lp_line (queued_protocol parse order) m i now a l = (a', es)"
  shows "ca_text a' = ca_text a @ delta_text es \<and> completed_ok (ca_text a) es \<and> delta_text es = bytes_or_empty (chat_wire parse l)"
proof (cases "l = ''data: [DONE]''")
  case True
  with assms show ?thesis
    by (auto simp: queued_protocol_def chat_line_def chat_wire_def chat_events bytes_or_empty_def)
next
  case False
  show ?thesis
  proof (cases "Option.bind (strip_prefix l ''data: '') parse")
    case None
    with False assms show ?thesis by (auto simp: queued_protocol_def chat_line_def chat_wire_def bytes_or_empty_def)
  next
    case (Some chunk)
    show ?thesis
    proof (cases "csc_choices chunk")
      case Nil
      with Some False assms show ?thesis
        by (auto simp: queued_protocol_def chat_line_def chat_wire_def bytes_or_empty_def)
    next
      case (Cons d ds)
      with Some False assms have "queued_delta d (read_usage (csc_usage chunk) a) = (a', es)"
        by (simp add: queued_protocol_def chat_line_def)
      from queued_delta_step [OF this] Cons Some False show ?thesis by (simp add: chat_wire_def)
    qed
  qed
qed

text \<open>
  Over all lines: an adapter that returns at its first event spends the first two texts on the
  announcements of the item and of its part; an adapter with a queue answers every text.
\<close>

lemma returning_lines_text:
  assumes "usage = read_usage \<or> usage = ignore_usage" "flags_ok a"
  shows "delta_text (snd (line_events (returning_protocol parse order usage) m i clock k a ls)) =
     concat (drop (missing a) (chat_wires parse ls))"
  using assms(2)
proof (induction ls arbitrary: k a)
  case (Cons l ls)
  show ?case
  proof (cases "l = []")
    case True
    with Cons show ?thesis by (simp add: chat_wires_def List.map_filter_simps case_prod_beta)
  next
    case False
    obtain a' es where line: "lp_line (returning_protocol parse order usage) m i (clock k) a l = (a', es)" by fastforce
    from returning_line_step [OF assms(1) line] False line Cons.IH [of a' "k + length es"] Cons.prems show ?thesis
      by (cases "missing a") (auto simp: chat_wires_def List.map_filter_simps case_prod_beta split: option.splits)
  qed
qed (simp add: chat_wires_def List.map_filter_simps)

lemma queued_lines_text:
  "delta_text (snd (line_events (queued_protocol parse order) m i clock k a ls)) = concat (chat_wires parse ls)"
proof (induction ls arbitrary: k a)
  case (Cons l ls)
  show ?case
  proof (cases "l = []")
    case True
    with Cons show ?thesis by (simp add: chat_wires_def List.map_filter_simps case_prod_beta)
  next
    case False
    obtain a' es where line: "lp_line (queued_protocol parse order) m i (clock k) a l = (a', es)" by fastforce
    from queued_line_step [OF line] False line Cons.IH [of "k + length es" a'] show ?thesis
      by (auto simp: chat_wires_def List.map_filter_simps case_prod_beta bytes_or_empty_def split: option.splits)
  qed
qed (simp add: chat_wires_def List.map_filter_simps)

lemma returning_ends_once: "ends_once (returning_protocol parse order usage)"
  by (simp add: ends_once_def returning_protocol_def)

lemma queued_ends_once: "ends_once (queued_protocol parse order)"
  by (simp add: ends_once_def queued_protocol_def)

lemma returning_streams:
  assumes "usage = read_usage \<or> usage = ignore_usage"
  shows "streams (returning_protocol parse order usage) ChatAcc_new bs (concat (drop 2 (chat_wires parse (body_lines bs))))"
proof (rule reads_lines_streams [OF ends_once_reads_lines [OF returning_ends_once]])
  have new: "flags_ok ChatAcc_new" "missing ChatAcc_new = 2" by (simp_all add: flags_ok_def missing_def ChatAcc_new_def)
  show "delta_text (all_events (returning_protocol parse order usage) m i clock 2 ChatAcc_new (body_lines bs)) =
      concat (drop 2 (chat_wires parse (body_lines bs)))" for m i clock
    using returning_lines_text [OF assms new(1), of parse order m i clock 2 "body_lines bs"] new(2)
    by (simp add: all_events_def end_events_def returning_protocol_def [THEN arg_cong [where f = lp_end]] case_prod_beta)
qed

lemma queued_streams: "streams (queued_protocol parse order) ChatAcc_new bs (concat (chat_wires parse (body_lines bs)))"
proof (rule reads_lines_streams [OF ends_once_reads_lines [OF queued_ends_once]])
  show "delta_text (all_events (queued_protocol parse order) m i clock 2 ChatAcc_new (body_lines bs)) =
      concat (chat_wires parse (body_lines bs))" for m i clock
    using queued_lines_text [of parse order m i clock 2 ChatAcc_new "body_lines bs"]
    by (simp add: all_events_def end_events_def queued_protocol_def [THEN arg_cong [where f = lp_end]] case_prod_beta)
qed

end
