(* ===== verification/OpenAI.thy ===== *)
theory OpenAI
  imports Chat_Completions
begin

text \<open>
  The OpenAI adapter (\<open>aura-core/src/provider/openai.rs\<close>): the request with its log probabilities and
  its cache key, the response with the confidence computed from them, errors, and the event stream.
  \<open>exp\<close>, \<open>ln\<close>, the JSON readers, the HTTP client and the order of the hash map are parameters.
\<close>

definition OPENAI_API_BASE :: rstring where "OPENAI_API_BASE = ''https://api.openai.com/v1''"

definition OPENAI_MODELS :: "rstring list" where
  "OPENAI_MODELS =
     [''gpt-6.1-sol'', ''gpt-6-sol'', ''gpt-6-luna'', ''gpt-6-astra'', ''gpt-5.6-sol'', ''gpt-5.6'', ''gpt-5.6-terra'',
      ''gpt-5.6-luna'', ''gpt-5.5-pro'', ''gpt-5.5'', ''gpt-5.4'', ''gpt-5.4-mini'', ''gpt-5.4-nano'', ''gpt-5.2'',
      ''gpt-5'', ''gpt-5-mini'', ''gpt-4o'', ''gpt-4o-mini'', ''gpt-4-turbo'', ''gpt-4'', ''gpt-3.5-turbo'', ''o1'',
      ''o1-mini'', ''o1-preview'', ''o3-mini'']"

record OpenAIProvider =
  oap_api_key :: rstring
  oap_base_url :: rstring

definition OpenAIProvider_new :: "rstring \<Rightarrow> OpenAIProvider" where
  "OpenAIProvider_new api_key = \<lparr> oap_api_key = api_key, oap_base_url = OPENAI_API_BASE \<rparr>"

definition OpenAIProvider_with_base_url :: "rstring \<Rightarrow> rstring \<Rightarrow> OpenAIProvider" where
  "OpenAIProvider_with_base_url api_key base_url = \<lparr> oap_api_key = api_key, oap_base_url = base_url \<rparr>"

definition OpenAI_provider :: provider where
  "OpenAI_provider = default_provider ''openai'' OPENAI_MODELS"

subsection \<open>Wire types\<close>

record OpenAITopLogprob =
  otl_token :: rstring
  otl_logprob :: f32

record OpenAITokenLogprob =
  otk_token :: rstring
  otk_logprob :: f32
  otk_top_logprobs :: "OpenAITopLogprob list option"

record OpenAIChoice =
  oc_content :: "rstring option"
  oc_tool_calls :: "(rstring \<times> ChatFunctionCall) list option"
  oc_finish_reason :: rstring
  oc_logprobs :: "OpenAITokenLogprob list option option"

record OpenAIResponse =
  or_id :: rstring
  or_created :: "64 word"
  or_model :: rstring
  or_choices :: "OpenAIChoice list"
  or_usage :: "ChatUsage option"

text \<open>The request: the common fields and those of OpenAI; strictness is kept per function.\<close>

record OpenAIRequest = ChatRequest +
  oar_user :: "rstring option"
  oar_prompt_cache_key :: "rstring option"
  oar_include_usage :: "bool option"
  oar_logprobs :: "bool option"
  oar_top_logprobs :: "u8 option"
  oar_strict :: "bool option list option"

record openai_env =
  oe_key :: key_codec
  oe_exp :: "f32 \<Rightarrow> f32"
  oe_ln :: "f32 \<Rightarrow> f32"
  oe_error :: "rstring \<Rightarrow> (rstring \<times> rstring option \<times> rstring option) option"
  oe_chunk :: "rstring \<Rightarrow> ChatStreamChunk option"
  oe_order :: "call_map \<Rightarrow> call_map"

subsection \<open>Requests\<close>

fun OpenAI_step :: "InputItem \<Rightarrow> ChatToolCallRequest + ChatMessage list" where
  "OpenAI_step (InMessage role content) = Inr [Chat_said (Chat_role role) (Chat_content content)]"
| "OpenAI_step (InFunctionCallOutput call_id out) = Inr [Chat_result call_id out]"
| "OpenAI_step (InFunctionCall call_id name arguments) = Inl (Chat_call call_id name arguments)"

definition OpenAI_messages :: "Request \<Rightarrow> ChatMessage list" where
  "OpenAI_messages r = Chat_instructions r @ batch_calls Chat_batch OpenAI_step [] (req_input r)"

fun tool_strict :: "Tool \<Rightarrow> bool option" where
  "tool_strict (TFunction f) = fd_strict f"

definition OpenAI_logprobs :: "ValidationConfig option \<Rightarrow> bool option \<times> u8 option" where
  "OpenAI_logprobs vc =
     (case vc of
        None \<Rightarrow> (None, None)
      | Some c \<Rightarrow>
          if vc_strategy c \<in> {Logprobs, ConfidenceThreshold} then
            (if (case vc_include_logprobs c of Some b \<Rightarrow> b | None \<Rightarrow> True)
             then (Some True, Some (min (case vc_top_logprobs c of Some n \<Rightarrow> n | None \<Rightarrow> 5) 20))
             else (Some False, None))
          else if vc_strategy c \<in> {BestOfN, SelfConsistency} then
            (if vc_selection c \<in> {Some HighestConfidence, Some LowestPerplexity} then (Some True, Some 5) else (None, None))
          else (None, None))"

definition OpenAI_transform_request :: "openai_env \<Rightarrow> Request \<Rightarrow> OpenAIRequest" where
  "OpenAI_transform_request v r =
     (let (logprobs, top_logprobs) = OpenAI_logprobs (req_validation r)
      in \<lparr> cr_model = req_model r, cr_messages = OpenAI_messages r, cr_max_tokens = req_max_output_tokens r,
           cr_temperature = req_temperature r, cr_top_p = req_top_p r, cr_stream = Some (req_stream r),
           cr_tools = map_option (map Chat_tool) (req_tools r),
           cr_tool_choice = map_option (Chat_tool_choice ''required'') (req_tool_choice r),
           oar_user = req_user r, oar_prompt_cache_key = Some (prompt_cache_key (oe_key v) r),
           oar_include_usage = (if req_stream r then Some True else None),
           oar_logprobs = logprobs, oar_top_logprobs = top_logprobs,
           oar_strict = map_option (map tool_strict) (req_tools r) \<rparr>)"

subsection \<open>Responses\<close>

definition OpenAI_status :: "rstring option \<Rightarrow> ResponseStatus \<times> IncompleteReason option \<times> ResponseError option" where
  "OpenAI_status finish_reason =
     (case finish_reason of
        None \<Rightarrow> Chat_no_response
      | Some reason \<Rightarrow>
          if reason = ''length'' then (RS_Incomplete, Some MaxTokens, None)
          else if reason = ''content_filter'' then (RS_Incomplete, Some ContentFilter, None)
          else (RS_Completed, None, None))"

definition OpenAI_token :: "OpenAITokenLogprob \<Rightarrow> TokenLogprob" where
  "OpenAI_token t =
     TokenLogprob_with_top (TokenLogprob_new (otk_token t) (otk_logprob t))
       (case otk_top_logprobs t of
          Some tops \<Rightarrow> map (\<lambda>tp. TopLogprob_new (otl_token tp) (otl_logprob tp)) tops
        | None \<Rightarrow> [])"

definition OpenAI_validation :: "openai_env \<Rightarrow> OpenAITokenLogprob list \<Rightarrow> ValidationMetadata" where
  "OpenAI_validation v tokens =
     (let logprobs_data = LogprobsData_new (map OpenAI_token tokens);
          confidence = LogprobsData_confidence_score (oe_exp v) (oe_ln v) logprobs_data;
          perplexity = LogprobsData_perplexity (oe_exp v) logprobs_data
      in ValidationMetadata_with_logprobs
           (ValidationMetadata_with_perplexity (ValidationMetadata_with_confidence Logprobs confidence) perplexity)
           logprobs_data)"

definition OpenAI_transform_response :: "openai_env \<Rightarrow> clock \<Rightarrow> OpenAIResponse \<Rightarrow> rstring \<Rightarrow> Response" where
  "OpenAI_transform_response v now r model =
     (let choice = (case or_choices r of c # _ \<Rightarrow> Some c | [] \<Rightarrow> None);
          output = (case choice of
              Some c \<Rightarrow> Chat_items (oc_content c)
                (map_option (map (\<lambda>(i, f). (i, cf_name f, cf_arguments f))) (oc_tool_calls c))
            | None \<Rightarrow> [])
      in finish_response now
           (RB_created_at (ResponseBuilder_new (''resp_oai_'' @ or_id r) model) (or_created r)) output
           (OpenAI_status (map_option oc_finish_reason choice))
           (map_option ChatUsage_to_usage (or_usage r))
           (Option.bind (Option.bind choice (\<lambda>c. Option.bind (oc_logprobs c) id)) (\<lambda>ts. Some (OpenAI_validation v ts))))"

definition OpenAI_parse_error :: "openai_env \<Rightarrow> u16 \<Rightarrow> rstring \<Rightarrow> ProviderError" where
  "OpenAI_parse_error v status body =
     (case oe_error v body of
        Some (message, typ, code) \<Rightarrow>
          if status = 400 then invalid_request message
          else if status = 401 \<or> status = 403 then Authentication message
          else if status = 404 then
            (if str_contains message ''model'' then ModelNotFound message else from_provider status message)
          else if status = 429 then rate_limit message
          else if status = 500 then from_provider status message
          else if 502 \<le> status \<and> status \<le> 504 then ServiceUnavailable message
          else PE_ProviderError status message (case typ of Some t \<Rightarrow> Some t | None \<Rightarrow> code)
      | None \<Rightarrow> from_provider status body)"

subsection \<open>Calls\<close>

definition OpenAI_send ::
    "openai_env \<Rightarrow> OpenAIProvider \<Rightarrow> (OpenAIRequest, 'r) transport \<Rightarrow> OpenAIRequest \<Rightarrow> ProviderError + 'r http_reply" where
  "OpenAI_send v p send req =
     http_exchange send (OpenAI_parse_error v) (oap_base_url p @ ''/chat/completions'') (bearer_headers (oap_api_key p)) req"

definition OpenAI_complete ::
    "openai_env \<Rightarrow> OpenAIProvider \<Rightarrow> (OpenAIRequest, OpenAIResponse) transport \<Rightarrow> clock \<Rightarrow> Request \<Rightarrow> ProviderError + Response" where
  "OpenAI_complete v p send now r =
     http_json (OpenAI_send v p send (OpenAI_transform_request v r))
       (\<lambda>reply. OpenAI_transform_response v now reply (req_model r))"

subsection \<open>The event stream\<close>

definition OpenAI_protocol :: "openai_env \<Rightarrow> ChatAcc line_protocol" where
  "OpenAI_protocol v = returning_protocol (oe_chunk v) (oe_order v) read_usage"

definition OpenAIStreamTransformer_new :: "rstring \<Rightarrow> rstring \<Rightarrow> ChatAcc stream_transformer" where
  "OpenAIStreamTransformer_new uuid model = transformer_new model (''resp_oai_'' @ uuid) ChatAcc_new"

definition OpenAI_complete_stream ::
    "openai_env \<Rightarrow> OpenAIProvider \<Rightarrow> (OpenAIRequest, chunk list) transport \<Rightarrow> rstring \<Rightarrow> Request
      \<Rightarrow> ProviderError + ChatAcc stream_transformer \<times> chunk list" where
  "OpenAI_complete_stream v p send uuid r =
     (case OpenAI_send v p send ((OpenAI_transform_request v r)\<lparr> cr_stream := Some True \<rparr>) of
        Inl e \<Rightarrow> Inl e
      | Inr reply \<Rightarrow> Inr (OpenAIStreamTransformer_new uuid (req_model r), body_chunks reply))"

interpretation openai_text: text_protocol "OpenAI_protocol v" ca_text for v
  by unfold_locales
    (auto simp: OpenAI_protocol_def returning_protocol_def [THEN arg_cong [where f = lp_end]]
      dest: returning_line_step [OF disjI1 [OF refl]])

subsection \<open>The conversation is kept\<close>

interpretation openai: call_batches Chat_batch OpenAI_step C_read C_Called "\<lambda>_. True" C_is_batch
proof
  show "\<not> C_is_batch m" if "OpenAI_step i = Inr ms" "m \<in> set ms" for i ms m
    using that by (cases i) auto
qed simp_all

lemma OpenAI_read_back:
  "concat (map C_read (OpenAI_messages r)) = concat (map C_read (Chat_instructions r)) @ concat (map (chat_turns Chat_content) (req_input r))"
proof -
  have "openai.item_turns i = chat_turns Chat_content i" for i by (cases i) (simp_all add: openai.item_turns_def)
  then show ?thesis by (simp add: OpenAI_messages_def openai.read_back cong: map_cong)
qed

lemma OpenAI_separated: "successively (\<lambda>a b. \<not> (C_is_batch a \<and> C_is_batch b)) (OpenAI_messages r)"
proof -
  have "OpenAI_step i \<noteq> Inr []" for i by (cases i) simp_all
  then have "openai.separated (batch_calls Chat_batch OpenAI_step [] (req_input r))" by (intro openai.batches_separated) simp
  then show ?thesis
    by (auto simp: OpenAI_messages_def Chat_instructions_def openai.separated_def successively_Cons split: option.split)
qed

end
