(* ===== verification/Anthropic.thy ===== *)
theory Anthropic
  imports Provider Provider_Stream Tool_Calls Provider_Cache
begin

text \<open>
  The Anthropic adapter (\<open>aura-core/src/provider/anthropic.rs\<close>): the wire types, the request and
  the response transformed, errors, and the protocol of the event stream. The JSON readers and
  writers, the HTTP client and the order of the hash map of calls are parameters.
\<close>

definition ANTHROPIC_API_BASE :: rstring where "ANTHROPIC_API_BASE = ''https://api.anthropic.com/v1''"
definition ANTHROPIC_VERSION :: rstring where "ANTHROPIC_VERSION = ''2023-06-01''"

definition ANTHROPIC_MODELS :: "rstring list" where
  "ANTHROPIC_MODELS =
     [''claude-fable-5-1'', ''claude-fable-5'', ''claude-opus-5-5'', ''claude-sonnet-5-5'', ''claude-haiku-5-5'',
      ''claude-opus-5'', ''claude-sonnet-5'', ''claude-opus-4-8'', ''claude-opus-4-7-20260416'',
      ''claude-opus-4-7'', ''claude-opus-4-6'', ''claude-sonnet-4-6'', ''claude-opus-4-5-20250514'',
      ''claude-sonnet-4-5-20250514'', ''claude-haiku-4-5-20251001'', ''claude-opus-4-5'',
      ''claude-sonnet-4-5'', ''claude-haiku-4-5'', ''claude-3-7-sonnet-20250219'',
      ''claude-3-5-sonnet-20241022'', ''claude-3-5-haiku-20241022'', ''claude-sonnet-3-5'',
      ''claude-haiku-3-5'', ''claude-3-5-sonnet-latest'', ''claude-3-5-haiku-latest'',
      ''claude-3-opus-20240229'', ''claude-3-sonnet-20240229'', ''claude-3-haiku-20240307'',
      ''claude-opus-3'', ''claude-sonnet-3'', ''claude-haiku-3'', ''claude-3-opus-latest'']"

record AnthropicProvider =
  anp_api_key :: rstring
  anp_base_url :: rstring

definition AnthropicProvider_new :: "rstring \<Rightarrow> AnthropicProvider" where
  "AnthropicProvider_new api_key = \<lparr> anp_api_key = api_key, anp_base_url = ANTHROPIC_API_BASE \<rparr>"

definition AnthropicProvider_with_base_url :: "rstring \<Rightarrow> rstring \<Rightarrow> AnthropicProvider" where
  "AnthropicProvider_with_base_url api_key base_url = \<lparr> anp_api_key = api_key, anp_base_url = base_url \<rparr>"

definition Anthropic_provider :: provider where
  "Anthropic_provider = default_provider ''anthropic'' ANTHROPIC_MODELS"

subsection \<open>Wire types\<close>

record AnthropicCacheControl =
  acc_type :: rstring

definition AnthropicCacheControl_ephemeral :: AnthropicCacheControl where
  "AnthropicCacheControl_ephemeral = \<lparr> acc_type = ''ephemeral'' \<rparr>"

record AnthropicSystemBlock =
  asb_type :: rstring
  asb_text :: rstring
  asb_cache_control :: "AnthropicCacheControl option"

record AnthropicImageSource =
  ais_type :: rstring
  ais_media_type :: rstring
  ais_data :: rstring

datatype AnthropicContentBlock =
    AText rstring
  | AImage AnthropicImageSource
  | AToolUse rstring rstring json
  | AToolResult rstring rstring "bool option"
  | AThinking rstring

record AnthropicMessage =
  am_role :: rstring
  am_content :: "AnthropicContentBlock list"

record AnthropicTool =
  at_name :: rstring
  at_description :: "rstring option"
  at_input_schema :: json
  at_cache_control :: "AnthropicCacheControl option"

datatype AnthropicToolChoice = ATC_Auto | ATC_Any | ATC_Tool rstring

record AnthropicMetadata =
  amd_user_id :: rstring

record AnthropicRequest =
  ar_model :: rstring
  ar_messages :: "AnthropicMessage list"
  ar_system :: "AnthropicSystemBlock list option"
  ar_max_tokens :: u32
  ar_temperature :: "f32 option"
  ar_top_p :: "f32 option"
  ar_stream :: "bool option"
  ar_tools :: "AnthropicTool list option"
  ar_tool_choice :: "AnthropicToolChoice option"
  ar_metadata :: "AnthropicMetadata option"
  ar_cache_control :: "AnthropicCacheControl option"

record AnthropicUsage =
  au_input_tokens :: u32
  au_output_tokens :: u32
  au_cache_creation :: "u32 option"
  au_cache_read :: "u32 option"

definition AnthropicUsage_to_usage :: "AnthropicUsage \<Rightarrow> Usage" where
  "AnthropicUsage_to_usage u =
     (let cache_read = opt_or_zero (au_cache_read u);
          total_input = saturating_add (saturating_add (au_input_tokens u) (opt_or_zero (au_cache_creation u))) cache_read
      in Usage_with_cache_hits (Usage_new total_input (au_output_tokens u)) cache_read)"

record AnthropicResponse =
  arp_id :: rstring
  arp_content :: "AnthropicContentBlock list"
  arp_stop_reason :: "rstring option"
  arp_usage :: AnthropicUsage

datatype AnthropicDelta =
    ATextDelta rstring
  | AInputJsonDelta rstring
  | AThinkingDelta rstring

record AnthropicDeltaUsage =
  adu_output_tokens :: "u32 option"
  adu_input_tokens :: "u32 option"
  adu_cache_creation :: "u32 option"
  adu_cache_read :: "u32 option"

datatype AnthropicStreamEvent =
    AMessageStart AnthropicUsage
  | AContentBlockStart usize AnthropicContentBlock
  | AContentBlockDelta usize AnthropicDelta
  | AContentBlockStop usize
  | AMessageDelta "rstring option" "AnthropicDeltaUsage option"
  | AMessageStop
  | AError rstring
  | APing

record anthropic_env =
  ae_value :: "rstring \<Rightarrow> json option"
  ae_to_string :: "json \<Rightarrow> rstring option"
  ae_error :: "rstring \<Rightarrow> (rstring \<times> rstring option) option"
  ae_event :: "rstring \<Rightarrow> AnthropicStreamEvent option"
  ae_order :: "call_map \<Rightarrow> call_map"

subsection \<open>Requests\<close>

definition media_or :: "rstring \<Rightarrow> rstring option \<Rightarrow> rstring" where
  "media_or d m = (case m of Some t \<Rightarrow> t | None \<Rightarrow> d)"

fun Anthropic_content_part :: "ContentPart \<Rightarrow> AnthropicContentBlock" where
  "Anthropic_content_part (CText t) = AText t"
| "Anthropic_content_part (CImage url dat media) =
     (case dat of
        Some d \<Rightarrow> AImage \<lparr> ais_type = ''base64'', ais_media_type = media_or ''image/png'' media, ais_data = d \<rparr>
      | None \<Rightarrow>
          (case url of
             Some u \<Rightarrow> AImage \<lparr> ais_type = ''url'', ais_media_type = media_or ''image/png'' media, ais_data = u \<rparr>
           | None \<Rightarrow> AText ''[Invalid image]''))"
| "Anthropic_content_part (CAudio dat media) =
     AText (''[Audio: '' @ dec_digits (length dat) @ '' bytes, type: '' @ media_or ''audio/mp3'' media @ '']'')"

fun Anthropic_content :: "InputContent \<Rightarrow> AnthropicContentBlock list" where
  "Anthropic_content (IText t) = [AText t]"
| "Anthropic_content (IParts ps) = map Anthropic_content_part ps"

fun Anthropic_role :: "Role \<Rightarrow> rstring" where
  "Anthropic_role User = ''user''"
| "Anthropic_role Assistant = ''assistant''"
| "Anthropic_role System = ''user''"
| "Anthropic_role RTool = ''user''"

text \<open>One item: a call waits in the batch, a system message leaves nothing.\<close>

fun Anthropic_step :: "anthropic_env \<Rightarrow> InputItem \<Rightarrow> AnthropicContentBlock + AnthropicMessage list" where
  "Anthropic_step v (InMessage role content) =
     (if role = System then Inr []
      else Inr [\<lparr> am_role = Anthropic_role role, am_content = Anthropic_content content \<rparr>])"
| "Anthropic_step v (InFunctionCallOutput call_id out) =
     Inr [\<lparr> am_role = ''user'', am_content = [AToolResult call_id out None] \<rparr>]"
| "Anthropic_step v (InFunctionCall call_id name arguments) =
     Inl (AToolUse call_id name
       (case ae_value v arguments of Some j \<Rightarrow> j | None \<Rightarrow> JObj [(''raw_arguments'', JStr arguments)]))"

definition Anthropic_batch :: "AnthropicContentBlock list \<Rightarrow> AnthropicMessage" where
  "Anthropic_batch pending = \<lparr> am_role = ''assistant'', am_content = pending \<rparr>"

definition Anthropic_messages :: "anthropic_env \<Rightarrow> InputItem list \<Rightarrow> AnthropicMessage list" where
  "Anthropic_messages v inp = batch_calls Anthropic_batch (Anthropic_step v) [] inp"

fun system_texts :: "InputItem \<Rightarrow> rstring list" where
  "system_texts (InMessage System (IText t)) = [t]"
| "system_texts (InMessage System (IParts ps)) = List.map_filter part_text ps"
| "system_texts _ = []"

definition Anthropic_extract_system_prompt :: "Request \<Rightarrow> rstring option" where
  "Anthropic_extract_system_prompt r =
     (let system_parts = (case req_instructions r of Some s \<Rightarrow> [s] | None \<Rightarrow> []) @ concat (map system_texts (req_input r))
      in if system_parts = [] then None else Some (str_join (nl @ nl) system_parts))"

fun Anthropic_tool :: "Tool \<Rightarrow> AnthropicTool" where
  "Anthropic_tool (TFunction f) =
     \<lparr> at_name = fd_name f, at_description = fd_description f,
       at_input_schema = (case fd_parameters f of Some p \<Rightarrow> p
         | None \<Rightarrow> JObj [(''properties'', JObj []), (''type'', JStr ''object'')]),
       at_cache_control = None \<rparr>"

definition mark_last :: "AnthropicTool list \<Rightarrow> AnthropicTool list" where
  "mark_last ts =
     (if ts = [] then [] else butlast ts @ [(last ts)\<lparr> at_cache_control := Some AnthropicCacheControl_ephemeral \<rparr>])"

definition place_cache_breakpoints ::
    "rstring option \<Rightarrow> AnthropicTool list option \<Rightarrow> AnthropicSystemBlock list option \<times> AnthropicTool list option" where
  "place_cache_breakpoints system tools =
     (map_option (\<lambda>t. [\<lparr> asb_type = ''text'', asb_text = t, asb_cache_control = Some AnthropicCacheControl_ephemeral \<rparr>]) system,
      if system = None then map_option mark_last tools else tools)"

fun Anthropic_tool_choice :: "ToolChoice \<Rightarrow> AnthropicToolChoice" where
  "Anthropic_tool_choice (TChoiceAuto TC_Auto) = ATC_Auto"
| "Anthropic_tool_choice (TChoiceAuto TC_Required) = ATC_Any"
| "Anthropic_tool_choice (TChoiceAuto TC_None) = ATC_Auto"
| "Anthropic_tool_choice (TChoiceFunction _ name) = ATC_Tool name"

definition Anthropic_transform_request :: "anthropic_env \<Rightarrow> Request \<Rightarrow> AnthropicRequest" where
  "Anthropic_transform_request v r =
     (let (system, tools) =
            place_cache_breakpoints (Anthropic_extract_system_prompt r) (map_option (map Anthropic_tool) (req_tools r))
      in \<lparr> ar_model = req_model r, ar_messages = Anthropic_messages v (req_input r), ar_system = system,
           ar_max_tokens = (case req_max_output_tokens r of Some n \<Rightarrow> n | None \<Rightarrow> 4096),
           ar_temperature = req_temperature r, ar_top_p = req_top_p r, ar_stream = Some (req_stream r),
           ar_tools = tools, ar_tool_choice = map_option Anthropic_tool_choice (req_tool_choice r),
           ar_metadata = map_option (\<lambda>u. \<lparr> amd_user_id = u \<rparr>) (req_user r),
           ar_cache_control = Some AnthropicCacheControl_ephemeral \<rparr>)"

subsection \<open>Responses\<close>

fun Anthropic_items :: "anthropic_env \<Rightarrow> nat \<Rightarrow> AnthropicContentBlock list \<Rightarrow> Item list" where
  "Anthropic_items v n [] = []"
| "Anthropic_items v n (AText t # bs) =
     Message (MessageItem_assistant (''msg_'' @ dec_digits n) t) # Anthropic_items v (Suc n) bs"
| "Anthropic_items v n (AToolUse i name inp # bs) =
     FunctionCall (FunctionCallItem_new (''fc_'' @ dec_digits n) i name (bytes_or_empty (ae_to_string v inp)))
       # Anthropic_items v (Suc n) bs"
| "Anthropic_items v n (AThinking t # bs) =
     IReasoning (ReasoningItem_new (''reasoning_'' @ dec_digits n) t) # Anthropic_items v (Suc n) bs"
| "Anthropic_items v n (_ # bs) = Anthropic_items v n bs"

definition Anthropic_status :: "rstring option \<Rightarrow> ResponseStatus \<times> IncompleteReason option \<times> ResponseError option" where
  "Anthropic_status stop_reason =
     (case stop_reason of
        Some reason \<Rightarrow> if reason = ''max_tokens'' then (RS_Incomplete, Some MaxTokens, None) else (RS_Completed, None, None)
      | None \<Rightarrow> (RS_Failed, None, Some (ResponseError_new ''no_response'' ''No response from model'')))"

definition finish_builder ::
    "IncompleteReason option \<Rightarrow> ResponseError option \<Rightarrow> ResponseBuilder \<Rightarrow> ResponseBuilder" where
  "finish_builder reason err b =
     (let b = (case reason of Some x \<Rightarrow> RB_incomplete b x | None \<Rightarrow> b)
      in case err of Some e \<Rightarrow> RB_failed b e | None \<Rightarrow> b)"

definition Anthropic_transform_response ::
    "anthropic_env \<Rightarrow> clock \<Rightarrow> AnthropicResponse \<Rightarrow> rstring \<Rightarrow> Response" where
  "Anthropic_transform_response v now r model =
     (let (status, incomplete_reason, err) = Anthropic_status (arp_stop_reason r);
          b = ResponseBuilder_new (''resp_ant_'' @ arp_id r) model;
          b = RB_status (RB_usage (RB_outputs b (Anthropic_items v 0 (arp_content r))) (AnthropicUsage_to_usage (arp_usage r))) status
      in RB_build now (finish_builder incomplete_reason err b))"

definition Anthropic_parse_error :: "anthropic_env \<Rightarrow> u16 \<Rightarrow> rstring \<Rightarrow> ProviderError" where
  "Anthropic_parse_error v status body =
     (case ae_error v body of
        Some (message, error_type) \<Rightarrow>
          if status = 400 then invalid_request message
          else if status = 401 \<or> status = 403 then Authentication message
          else if status = 404 then ModelNotFound message
          else if status = 429 then rate_limit message
          else if status = 500 then from_provider status message
          else if status = 529 then ServiceUnavailable message
          else if 502 \<le> status \<and> status \<le> 504 then ServiceUnavailable message
          else PE_ProviderError status message error_type
      | None \<Rightarrow> from_provider status body)"

subsection \<open>Calls\<close>

definition Anthropic_headers :: "AnthropicProvider \<Rightarrow> (rstring \<times> rstring) list" where
  "Anthropic_headers p =
     [(''x-api-key'', anp_api_key p), (''anthropic-version'', ANTHROPIC_VERSION), (''Content-Type'', ''application/json'')]"

definition Anthropic_send ::
    "anthropic_env \<Rightarrow> AnthropicProvider \<Rightarrow> (AnthropicRequest, 'r) transport \<Rightarrow> AnthropicRequest \<Rightarrow> ProviderError + 'r http_reply" where
  "Anthropic_send v p send req =
     http_exchange send (Anthropic_parse_error v) (anp_base_url p @ ''/messages'') (Anthropic_headers p) req"

definition Anthropic_complete ::
    "anthropic_env \<Rightarrow> AnthropicProvider \<Rightarrow> (AnthropicRequest, AnthropicResponse) transport \<Rightarrow> clock \<Rightarrow> Request
      \<Rightarrow> ProviderError + Response" where
  "Anthropic_complete v p send now r =
     http_json (Anthropic_send v p send (Anthropic_transform_request v r))
       (\<lambda>reply. Anthropic_transform_response v now reply (req_model r))"

subsection \<open>The event stream\<close>

record AnthropicAcc =
  aa_text :: rstring
  aa_calls :: call_map
  aa_thinking :: rstring
  aa_content_index :: usize
  aa_item_added :: bool
  aa_part_added :: bool
  aa_input_tokens :: u32
  aa_cache_creation :: u32
  aa_cache_read :: u32
  aa_output_tokens :: u32

definition AnthropicAcc_new :: AnthropicAcc where
  "AnthropicAcc_new =
     \<lparr> aa_text = [], aa_calls = [], aa_thinking = [], aa_content_index = 0, aa_item_added = False,
       aa_part_added = False, aa_input_tokens = 0, aa_cache_creation = 0, aa_cache_read = 0, aa_output_tokens = 0 \<rparr>"

definition AnthropicAcc_usage :: "AnthropicAcc \<Rightarrow> Usage" where
  "AnthropicAcc_usage a =
     AnthropicUsage_to_usage \<lparr> au_input_tokens = aa_input_tokens a, au_output_tokens = aa_output_tokens a,
       au_cache_creation = Some (aa_cache_creation a), au_cache_read = Some (aa_cache_read a) \<rparr>"

definition Anthropic_final :: "anthropic_env \<Rightarrow> rstring \<Rightarrow> rstring \<Rightarrow> clock \<Rightarrow> AnthropicAcc \<Rightarrow> Response" where
  "Anthropic_final v model response_id now a =
     (let out = text_item (aa_text a) @ map call_item (ae_order v (aa_calls a))
            @ (if aa_thinking a = [] then [] else [IReasoning (ReasoningItem_new ''reasoning_0'' (aa_thinking a))])
      in RB_build now (RB_completed (RB_usage (RB_outputs (ResponseBuilder_new response_id model) out) (AnthropicAcc_usage a))))"

definition Anthropic_message_start :: "AnthropicUsage \<Rightarrow> AnthropicAcc \<Rightarrow> AnthropicAcc" where
  "Anthropic_message_start u a =
     a\<lparr> aa_input_tokens := au_input_tokens u, aa_cache_creation := opt_or_zero (au_cache_creation u),
        aa_cache_read := opt_or_zero (au_cache_read u),
        aa_output_tokens := (if 0 < au_output_tokens u then au_output_tokens u else aa_output_tokens a) \<rparr>"

fun Anthropic_block_start :: "usize \<Rightarrow> AnthropicContentBlock \<Rightarrow> AnthropicAcc \<Rightarrow> AnthropicAcc \<times> stream_item list" where
  "Anthropic_block_start index (AText t) a =
     (let a = a\<lparr> aa_content_index := index \<rparr>
      in if aa_item_added a then (a, [])
         else (a\<lparr> aa_item_added := True \<rparr>, [Inr (output_item_added 0 (Message (MessageItem_assistant ''msg_0'' [])))]))"
| "Anthropic_block_start index (AToolUse i name inp) a =
     (a\<lparr> aa_content_index := index,
         aa_calls := update_entry index (\<lambda>c. c\<lparr> ptc_id := i, ptc_name := name \<rparr>) (aa_calls a) \<rparr>, [])"
| "Anthropic_block_start index _ a = (a\<lparr> aa_content_index := index \<rparr>, [])"

fun Anthropic_block_delta :: "usize \<Rightarrow> AnthropicDelta \<Rightarrow> AnthropicAcc \<Rightarrow> AnthropicAcc \<times> stream_item list" where
  "Anthropic_block_delta index (ATextDelta t) a =
     (if \<not> aa_part_added a then (a\<lparr> aa_part_added := True \<rparr>, [Inr (content_part_added 0 0 ''text'')])
      else (a\<lparr> aa_text := aa_text a @ t \<rparr>, [Inr (output_text_delta 0 0 t)]))"
| "Anthropic_block_delta index (AInputJsonDelta partial) a =
     (if map_of (aa_calls a) index = None then (a, [])
      else (a\<lparr> aa_calls := update_entry index (\<lambda>c. c\<lparr> ptc_arguments := ptc_arguments c @ partial \<rparr>) (aa_calls a) \<rparr>,
            [Inr (function_call_arguments_delta index partial)]))"
| "Anthropic_block_delta index (AThinkingDelta t) a =
     (a\<lparr> aa_thinking := aa_thinking a @ t \<rparr>, [Inr (reasoning_delta 0 t)])"

definition or_keep :: "u32 option \<Rightarrow> u32 \<Rightarrow> u32" where
  "or_keep v old = (case v of Some n \<Rightarrow> n | None \<Rightarrow> old)"

definition Anthropic_delta_usage :: "AnthropicDeltaUsage option \<Rightarrow> AnthropicAcc \<Rightarrow> AnthropicAcc" where
  "Anthropic_delta_usage usage a =
     (case usage of
        None \<Rightarrow> a
      | Some u \<Rightarrow>
          a\<lparr> aa_output_tokens := or_keep (adu_output_tokens u) (aa_output_tokens a),
             aa_input_tokens := or_keep (adu_input_tokens u) (aa_input_tokens a),
             aa_cache_creation := or_keep (adu_cache_creation u) (aa_cache_creation a),
             aa_cache_read := or_keep (adu_cache_read u) (aa_cache_read a) \<rparr>)"

fun Anthropic_event ::
    "anthropic_env \<Rightarrow> rstring \<Rightarrow> rstring \<Rightarrow> clock \<Rightarrow> AnthropicStreamEvent \<Rightarrow> AnthropicAcc \<Rightarrow> AnthropicAcc \<times> stream_item list" where
  "Anthropic_event v m i now (AMessageStart u) a = (Anthropic_message_start u a, [])"
| "Anthropic_event v m i now (AContentBlockStart index b) a = Anthropic_block_start index b a"
| "Anthropic_event v m i now (AContentBlockDelta index d) a = Anthropic_block_delta index d a"
| "Anthropic_event v m i now (AContentBlockStop index) a = (a, [])"
| "Anthropic_event v m i now (AMessageDelta stop usage) a =
     (let a = Anthropic_delta_usage usage a
      in if stop \<in> {Some ''end_turn'', Some ''tool_use'', Some ''stop_sequence''}
         then (a, [Inr (response_completed (Anthropic_final v m i now a))])
         else (a, []))"
| "Anthropic_event v m i now AMessageStop a = (a, [])"
| "Anthropic_event v m i now (AError message) a = (a, [Inl (from_provider 500 message)])"
| "Anthropic_event v m i now APing a = (a, [])"

definition Anthropic_process_sse_data ::
    "anthropic_env \<Rightarrow> rstring \<Rightarrow> rstring \<Rightarrow> clock \<Rightarrow> AnthropicAcc \<Rightarrow> rstring \<Rightarrow> AnthropicAcc \<times> stream_item list" where
  "Anthropic_process_sse_data v m i now a dat =
     (case ae_event v dat of Some ev \<Rightarrow> Anthropic_event v m i now ev a | None \<Rightarrow> (a, []))"

definition Anthropic_protocol :: "anthropic_env \<Rightarrow> AnthropicAcc line_protocol" where
  "Anthropic_protocol v =
     \<lparr> lp_line = (\<lambda>m i now a line.
         (case strip_prefix line ''data: '' of
            Some dat \<Rightarrow> Anthropic_process_sse_data v m i now a dat
          | None \<Rightarrow> (a, []))),
       lp_end = (\<lambda>_ _ _ _. None) \<rparr>"

definition AnthropicStreamTransformer_new :: "rstring \<Rightarrow> rstring \<Rightarrow> AnthropicAcc stream_transformer" where
  "AnthropicStreamTransformer_new uuid model = transformer_new model (''resp_ant_'' @ uuid) AnthropicAcc_new"

text \<open>The stream of a call: the transformer over the chunks of the body, polled by the caller.\<close>

definition Anthropic_complete_stream ::
    "anthropic_env \<Rightarrow> AnthropicProvider \<Rightarrow> (AnthropicRequest, chunk list) transport \<Rightarrow> rstring \<Rightarrow> Request
      \<Rightarrow> ProviderError + AnthropicAcc stream_transformer \<times> chunk list" where
  "Anthropic_complete_stream v p send uuid r =
     (case Anthropic_send v p send ((Anthropic_transform_request v r)\<lparr> ar_stream := Some True \<rparr>) of
        Inl e \<Rightarrow> Inl e
      | Inr reply \<Rightarrow>
          Inr (AnthropicStreamTransformer_new uuid (req_model r), body_chunks reply))"

subsection \<open>The conversation is kept\<close>

text \<open>A conversation as turns: what was said by a role, and the calls one by one.\<close>

datatype anthropic_turn = A_Said rstring "AnthropicContentBlock list" | A_Called AnthropicContentBlock

fun is_tool_use :: "AnthropicContentBlock \<Rightarrow> bool" where
  "is_tool_use (AToolUse _ _ _) = True"
| "is_tool_use _ = False"

definition A_is_batch :: "AnthropicMessage \<Rightarrow> bool" where
  "A_is_batch m \<longleftrightarrow> am_content m \<noteq> [] \<and> list_all is_tool_use (am_content m)"

definition A_read :: "AnthropicMessage \<Rightarrow> anthropic_turn list" where
  "A_read m = (if A_is_batch m then map A_Called (am_content m) else [A_Said (am_role m) (am_content m)])"

lemma content_not_tool_use: "b \<in> set (Anthropic_content c) \<Longrightarrow> \<not> is_tool_use b"
proof (cases c)
  case (IParts ps)
  have "\<not> is_tool_use (Anthropic_content_part x)" for x by (cases x) (simp_all split: option.split)
  moreover assume "b \<in> set (Anthropic_content c)"
  ultimately show ?thesis using IParts by auto
qed simp

lemma content_not_batch: "list_all is_tool_use (Anthropic_content c) \<Longrightarrow> Anthropic_content c = []"
  using content_not_tool_use [of "hd (Anthropic_content c)" c] by (cases "Anthropic_content c") auto

interpretation anthropic: call_batches Anthropic_batch "Anthropic_step v" A_read A_Called is_tool_use A_is_batch for v
proof
  show "A_read (Anthropic_batch cs) = map A_Called cs" if "cs \<noteq> []" "list_all is_tool_use cs" for cs
    using that by (simp add: A_read_def A_is_batch_def Anthropic_batch_def)
  show "is_tool_use c" if "Anthropic_step v i = Inl c" for i c
    using that by (cases i) (auto split: if_splits)
  show "\<not> A_is_batch m" if "Anthropic_step v i = Inr ms" "m \<in> set ms" for i ms m
    using that by (cases i) (auto simp: A_is_batch_def dest: content_not_batch split: if_splits)
qed

text \<open>What an item stands for, without any batching.\<close>

fun A_turns :: "anthropic_env \<Rightarrow> InputItem \<Rightarrow> anthropic_turn list" where
  "A_turns v (InMessage role content) =
     (if role = System then [] else [A_Said (Anthropic_role role) (Anthropic_content content)])"
| "A_turns v (InFunctionCallOutput call_id out) = [A_Said ''user'' [AToolResult call_id out None]]"
| "A_turns v (InFunctionCall call_id name arguments) =
     [A_Called (AToolUse call_id name
        (case ae_value v arguments of Some j \<Rightarrow> j | None \<Rightarrow> JObj [(''raw_arguments'', JStr arguments)]))]"

lemma A_item_turns: "anthropic.item_turns v i = A_turns v i"
  by (cases i) (auto simp: anthropic.item_turns_def A_read_def A_is_batch_def dest: content_not_batch)

lemma Anthropic_read_back: "concat (map A_read (Anthropic_messages v inp)) = concat (map (A_turns v) inp)"
  by (simp add: Anthropic_messages_def anthropic.read_back A_item_turns [abs_def])

lemma Anthropic_step_Nil: "Anthropic_step v i = Inr [] \<longleftrightarrow> (\<exists>c. i = InMessage System c)"
  by (cases i) auto

lemma Anthropic_separated:
  "\<forall>i \<in> set inp. \<forall>c. i \<noteq> InMessage System c \<Longrightarrow> successively (\<lambda>a b. \<not> (A_is_batch a \<and> A_is_batch b)) (Anthropic_messages v inp)"
  unfolding Anthropic_messages_def
  using anthropic.batches_separated [of inp v "[]"] by (auto simp: anthropic.separated_def Anthropic_step_Nil)

subsection \<open>Tokens\<close>

text \<open>The cached tokens are part of the input tokens, and the input tokens are the whole prompt.\<close>

lemma saturating_add_bounds:
  fixes a b :: "'l::len word"
  shows "a \<le> saturating_add a b" "b \<le> saturating_add a b"
proof -
  have "unat a < 2 ^ LENGTH('l)" "unat b < 2 ^ LENGTH('l)" by simp_all
  then have "unat a \<le> 2 ^ LENGTH('l) - 1" "unat b \<le> 2 ^ LENGTH('l) - 1" by linarith+
  then show "a \<le> saturating_add a b" "b \<le> saturating_add a b"
    by (simp_all add: word_le_nat_alt unat_saturating_add)
qed

lemma Anthropic_usage:
  "unat (input_tokens (AnthropicUsage_to_usage u)) =
     min (2 ^ 32 - 1) (unat (au_input_tokens u) + unat (opt_or_zero (au_cache_creation u)) + unat (opt_or_zero (au_cache_read u)))
   \<and> opt_or_zero (cached_tokens (AnthropicUsage_to_usage u)) = opt_or_zero (au_cache_read u)
   \<and> opt_or_zero (cached_tokens (AnthropicUsage_to_usage u)) \<le> input_tokens (AnthropicUsage_to_usage u)"
  using saturating_add_bounds
  by (auto simp: AnthropicUsage_to_usage_def Usage_with_cache_hits_def Usage_new_def opt_or_zero_def Let_def unat_saturating_add
      word_gt_0 split: option.splits)

subsection \<open>The streamed text\<close>

lemmas stream_events = response_completed_def output_item_added_def content_part_added_def
  output_text_delta_def function_call_arguments_delta_def reasoning_delta_def

lemma Response_text_Anthropic_final: "Response_text (Anthropic_final v m i now a) = aa_text a"
  unfolding Response_text_def Anthropic_final_def Let_def
  by (simp add: RB_build_def RB_completed_def RB_usage_def RB_outputs_def text_of_output)

lemma aa_text_same [simp]:
  "aa_text (Anthropic_message_start u a) = aa_text a" "aa_part_added (Anthropic_message_start u a) = aa_part_added a"
  "aa_text (Anthropic_delta_usage w a) = aa_text a" "aa_part_added (Anthropic_delta_usage w a) = aa_part_added a"
  by (simp_all add: Anthropic_message_start_def Anthropic_delta_usage_def split: option.splits)

lemma Anthropic_block_start_text:
  "Anthropic_block_start index b a = (a', es) \<Longrightarrow>
     aa_text a' = aa_text a \<and> aa_part_added a' = aa_part_added a \<and> delta_text es = [] \<and> completed_ok s es"
  by (cases "(index, b, a)" rule: Anthropic_block_start.cases) (auto simp: Let_def stream_events split: if_splits)

lemma Anthropic_block_delta_text:
  "Anthropic_block_delta index d a = (a', es) \<Longrightarrow> aa_text a' = aa_text a @ delta_text es \<and> completed_ok s es"
  by (cases d) (auto simp: stream_events split: if_splits)

lemma Anthropic_event_text:
  "Anthropic_event v m i now ev a = (a', es) \<Longrightarrow> aa_text a' = aa_text a @ delta_text es \<and> completed_ok (aa_text a) es"
  by (cases ev)
    (auto simp: Let_def stream_events Response_text_Anthropic_final split: if_splits
      dest: Anthropic_block_start_text Anthropic_block_delta_text)

interpretation anthropic_text: text_protocol "Anthropic_protocol v" aa_text for v
  by unfold_locales
    (auto simp: Anthropic_protocol_def Anthropic_process_sse_data_def split: option.splits dest: Anthropic_event_text)

text \<open>The texts that the provider sends, line by line.\<close>

definition A_wire_text :: "anthropic_env \<Rightarrow> rstring \<Rightarrow> rstring option" where
  "A_wire_text v line =
     Option.bind (strip_prefix line ''data: '') (\<lambda>d.
       (case ae_event v d of Some (AContentBlockDelta _ (ATextDelta t)) \<Rightarrow> Some t | _ \<Rightarrow> None))"

definition A_wire_texts :: "anthropic_env \<Rightarrow> rstring list \<Rightarrow> rstring list" where
  "A_wire_texts v lines = List.map_filter (A_wire_text v) lines"

lemma Anthropic_event_wire:
  "Anthropic_event v m i now ev a = (a', es) \<Longrightarrow>
     (case ev of
        AContentBlockDelta _ (ATextDelta t) \<Rightarrow> aa_part_added a' \<and> delta_text es = (if aa_part_added a then t else [])
      | _ \<Rightarrow> aa_part_added a' = aa_part_added a \<and> delta_text es = [])"
  by (cases ev)
    (auto simp: Let_def stream_events split: if_splits AnthropicDelta.splits
      dest: Anthropic_block_start_text elim: Anthropic_block_delta.elims)

lemma Anthropic_line_wire:
  assumes "lp_line (Anthropic_protocol v) m i now a l = (a', es)"
  shows "case A_wire_text v l of
      Some t \<Rightarrow> aa_part_added a' \<and> delta_text es = (if aa_part_added a then t else [])
    | None \<Rightarrow> aa_part_added a' = aa_part_added a \<and> delta_text es = []"
proof (cases "Option.bind (strip_prefix l ''data: '') (ae_event v)")
  case None
  with assms show ?thesis
    by (auto simp: A_wire_text_def Anthropic_protocol_def Anthropic_process_sse_data_def split: option.splits bind_splits)
next
  case (Some ev)
  with assms have "Anthropic_event v m i now ev a = (a', es)"
    by (auto simp: Anthropic_protocol_def Anthropic_process_sse_data_def split: option.splits bind_splits)
  from Anthropic_event_wire [OF this] Some show ?thesis
    by (auto simp: A_wire_text_def split: option.splits bind_splits AnthropicStreamEvent.splits AnthropicDelta.splits)
qed

text \<open>The first text is announced but not sent.\<close>

lemma A_wire_text_Nil [simp]: "A_wire_text v [] = None"
  by (simp add: A_wire_text_def strip_prefix_def)

lemma Anthropic_lines_text:
  "delta_text (snd (line_events (Anthropic_protocol v) m i clock k a ls)) =
     concat (if aa_part_added a then A_wire_texts v ls else tl (A_wire_texts v ls))"
proof (induction ls arbitrary: k a)
  case (Cons l ls)
  show ?case
  proof (cases "l = []")
    case True
    with Cons show ?thesis by (simp add: A_wire_texts_def List.map_filter_simps split: prod.splits)
  next
    case False
    obtain a' es where line: "lp_line (Anthropic_protocol v) m i (clock k) a l = (a', es)" by fastforce
    from Anthropic_line_wire [OF line] False line Cons [of "k + length es" a'] show ?thesis
      by (auto simp: A_wire_texts_def List.map_filter_simps case_prod_beta split: option.splits if_splits)
  qed
qed (simp add: A_wire_texts_def List.map_filter_simps)

lemma Anthropic_ends_once: "ends_once (Anthropic_protocol v)"
  by (simp add: ends_once_def Anthropic_protocol_def)

lemma Anthropic_streams: "streams (Anthropic_protocol v) AnthropicAcc_new bs (concat (tl (A_wire_texts v (body_lines bs))))"
proof (rule reads_lines_streams [OF ends_once_reads_lines [OF Anthropic_ends_once]])
  show "delta_text (all_events (Anthropic_protocol v) m i clock 2 AnthropicAcc_new (body_lines bs)) =
      concat (tl (A_wire_texts v (body_lines bs)))" for m i clock
    using Anthropic_lines_text [of v m i clock 2 AnthropicAcc_new "body_lines bs"]
    by (simp add: all_events_def end_events_def Anthropic_protocol_def [THEN arg_cong [where f = lp_end]] AnthropicAcc_new_def
        case_prod_beta)
qed

end
