(* ===== verification/Gemini.thy ===== *)
theory Gemini
  imports Chat_Completions Json_Map
begin

text \<open>
  The Gemini adapter (\<open>aura-core/src/provider/gemini.rs\<close>): contents with batched function calls,
  the choice among several candidates, errors, and a stream whose events are queued and which the
  adapter closes itself. A comparison that the code unwraps is \<open>None\<close> when it panics.
\<close>

definition GEMINI_API_BASE :: rstring where
  "GEMINI_API_BASE = ''https://generativelanguage.googleapis.com/v1beta''"

definition GEMINI_MODELS :: "rstring list" where
  "GEMINI_MODELS =
     [''gemini-4-argon'', ''gemini-3.8-flash'', ''gemini-3.7-flash'', ''gemini-3.6-flash'', ''gemini-3.5-flash'',
      ''gemini-3.5-flash-lite'', ''gemini-3.1-pro-preview'', ''gemini-3.1-flash-lite'',
      ''gemini-3.1-flash-lite-preview'', ''gemini-3-pro-preview'', ''gemini-3-flash-preview'',
      ''gemini-2.5-pro'', ''gemini-2.5-flash'', ''gemini-2.5-flash-lite'', ''gemini-2.0-flash'',
      ''gemini-2.0-flash-001'', ''gemini-2.0-flash-lite'', ''gemini-2.0-flash-lite-001'',
      ''gemini-pro-latest'', ''gemini-flash-latest'', ''gemini-flash-lite-latest'']"

record GeminiProvider =
  gmp_api_key :: rstring
  gmp_base_url :: rstring

definition GeminiProvider_new :: "rstring \<Rightarrow> GeminiProvider" where
  "GeminiProvider_new api_key = \<lparr> gmp_api_key = api_key, gmp_base_url = GEMINI_API_BASE \<rparr>"

definition GeminiProvider_with_base_url :: "rstring \<Rightarrow> rstring \<Rightarrow> GeminiProvider" where
  "GeminiProvider_with_base_url api_key base_url = \<lparr> gmp_api_key = api_key, gmp_base_url = base_url \<rparr>"

definition Gemini_provider :: provider where
  "Gemini_provider = default_provider ''google'' GEMINI_MODELS"

subsection \<open>Wire types\<close>

datatype GeminiPart =
    GText rstring
  | GInlineData rstring rstring
  | GFileData rstring rstring
  | GFunctionCall rstring json
  | GFunctionResponse rstring json

record GeminiContent =
  gc_role :: rstring
  gc_parts :: "GeminiPart list"

record GeminiGenerationConfig =
  ggc_max_output_tokens :: "u32 option"
  ggc_temperature :: "f32 option"
  ggc_top_p :: "f32 option"
  ggc_candidate_count :: "u32 option"

record GeminiFunctionDeclaration =
  gfd_name :: rstring
  gfd_description :: "rstring option"
  gfd_parameters :: "json option"

record GeminiToolConfig =
  gtc_mode :: rstring
  gtc_allowed_function_names :: "rstring list option"

record GeminiRequest =
  gr_contents :: "GeminiContent list"
  gr_system_instruction :: "GeminiContent option"
  gr_generation_config :: "GeminiGenerationConfig option"
  gr_tools :: "GeminiFunctionDeclaration list list option"
  gr_tool_config :: "GeminiToolConfig option"

record GeminiCandidate =
  gcd_content :: "GeminiContent option"
  gcd_finish_reason :: "rstring option"

record GeminiUsageMetadata =
  gum_prompt_token_count :: "u32 option"
  gum_cached_content_token_count :: "u32 option"
  gum_candidates_token_count :: "u32 option"

record GeminiResponse =
  grs_candidates :: "GeminiCandidate list option"
  grs_usage_metadata :: "GeminiUsageMetadata option"

record gemini_env =
  ge_value :: "rstring \<Rightarrow> json option"
  ge_to_string :: "json \<Rightarrow> rstring option"
  ge_error :: "rstring \<Rightarrow> (rstring \<times> rstring option) option"
  ge_chunk :: "rstring \<Rightarrow> GeminiResponse option"
  ge_unicode :: unicode

subsection \<open>Requests\<close>

fun Gemini_content_part :: "ContentPart \<Rightarrow> GeminiPart" where
  "Gemini_content_part (CText t) = GText t"
| "Gemini_content_part (CImage url dat media) =
     (case dat of
        Some d \<Rightarrow> GInlineData (case media of Some m \<Rightarrow> m | None \<Rightarrow> ''image/png'') d
      | None \<Rightarrow>
          (case url of
             Some u \<Rightarrow> GFileData (case media of Some m \<Rightarrow> m | None \<Rightarrow> ''image/png'') u
           | None \<Rightarrow> GText ''[Invalid image]''))"
| "Gemini_content_part (CAudio dat media) = GInlineData (case media of Some m \<Rightarrow> m | None \<Rightarrow> ''audio/mp3'') dat"

fun Gemini_parts :: "InputContent \<Rightarrow> GeminiPart list" where
  "Gemini_parts (IText t) = [GText t]"
| "Gemini_parts (IParts ps) = map Gemini_content_part ps"

fun Gemini_role :: "Role \<Rightarrow> rstring" where
  "Gemini_role User = ''user''"
| "Gemini_role Assistant = ''model''"
| "Gemini_role System = ''user''"
| "Gemini_role RTool = ''user''"

fun Gemini_step :: "gemini_env \<Rightarrow> InputItem \<Rightarrow> GeminiPart + GeminiContent list" where
  "Gemini_step v (InMessage role content) =
     (if role = System then Inr []
      else Inr [\<lparr> gc_role = Gemini_role role, gc_parts = Gemini_parts content \<rparr>])"
| "Gemini_step v (InFunctionCall call_id name arguments) =
     Inl (GFunctionCall name
       (case ge_value v arguments of Some j \<Rightarrow> j | None \<Rightarrow> JObj [(''raw_arguments'', JStr arguments)]))"
| "Gemini_step v (InFunctionCallOutput call_id out) =
     Inr [\<lparr> gc_role = ''user'',
            gc_parts = [GFunctionResponse call_id
              (case ge_value v out of Some j \<Rightarrow> j | None \<Rightarrow> JObj [(''result'', JStr out)])] \<rparr>]"

definition Gemini_batch :: "GeminiPart list \<Rightarrow> GeminiContent" where
  "Gemini_batch pending = \<lparr> gc_role = ''model'', gc_parts = pending \<rparr>"

definition Gemini_contents :: "gemini_env \<Rightarrow> InputItem list \<Rightarrow> GeminiContent list" where
  "Gemini_contents v inp = batch_calls Gemini_batch (Gemini_step v) [] inp"

fun Gemini_system_texts :: "InputItem \<Rightarrow> rstring list" where
  "Gemini_system_texts (InMessage System (IText t)) = [t]"
| "Gemini_system_texts (InMessage System (IParts ps)) = List.map_filter part_text ps"
| "Gemini_system_texts _ = []"

definition extract_system_instruction :: "Request \<Rightarrow> GeminiContent option" where
  "extract_system_instruction r =
     (let system_parts = (case req_instructions r of Some s \<Rightarrow> [s] | None \<Rightarrow> []) @ concat (map Gemini_system_texts (req_input r))
      in if system_parts = [] then None
         else Some \<lparr> gc_role = ''user'', gc_parts = [GText (str_join (nl @ nl) system_parts)] \<rparr>)"

fun Gemini_tool :: "Tool \<Rightarrow> GeminiFunctionDeclaration" where
  "Gemini_tool (TFunction f) =
     \<lparr> gfd_name = fd_name f, gfd_description = fd_description f, gfd_parameters = fd_parameters f \<rparr>"

fun Gemini_tool_config :: "ToolChoice \<Rightarrow> GeminiToolConfig" where
  "Gemini_tool_config (TChoiceAuto TC_Auto) = \<lparr> gtc_mode = ''AUTO'', gtc_allowed_function_names = None \<rparr>"
| "Gemini_tool_config (TChoiceAuto TC_Required) = \<lparr> gtc_mode = ''ANY'', gtc_allowed_function_names = None \<rparr>"
| "Gemini_tool_config (TChoiceAuto TC_None) = \<lparr> gtc_mode = ''NONE'', gtc_allowed_function_names = None \<rparr>"
| "Gemini_tool_config (TChoiceFunction _ name) = \<lparr> gtc_mode = ''ANY'', gtc_allowed_function_names = Some [name] \<rparr>"

definition Gemini_candidate_count :: "ValidationConfig option \<Rightarrow> u32 option" where
  "Gemini_candidate_count vc =
     (case vc of
        Some c \<Rightarrow>
          if vc_strategy c \<in> {BestOfN, SelfConsistency}
          then Some (ucast (min (case vc_n c of Some n \<Rightarrow> n | None \<Rightarrow> 3) 8)) else None
      | None \<Rightarrow> None)"

definition Gemini_transform_request :: "gemini_env \<Rightarrow> Request \<Rightarrow> GeminiRequest" where
  "Gemini_transform_request v r =
     \<lparr> gr_contents = Gemini_contents v (req_input r), gr_system_instruction = extract_system_instruction r,
       gr_generation_config = Some \<lparr> ggc_max_output_tokens = req_max_output_tokens r, ggc_temperature = req_temperature r,
         ggc_top_p = req_top_p r, ggc_candidate_count = Gemini_candidate_count (req_validation r) \<rparr>,
       gr_tools = map_option (\<lambda>ts. [map Gemini_tool ts]) (req_tools r),
       gr_tool_config = map_option Gemini_tool_config (req_tool_choice r) \<rparr>"

subsection \<open>The choice among candidates\<close>

fun gemini_text :: "GeminiPart \<Rightarrow> rstring option" where
  "gemini_text (GText t) = Some t"
| "gemini_text _ = None"

definition candidate_text :: "GeminiCandidate \<Rightarrow> rstring" where
  "candidate_text c =
     (case gcd_content c of
        Some content \<Rightarrow> str_join [] (List.map_filter gemini_text (gc_parts content))
      | None \<Rightarrow> [])"

text \<open>\<open>max_by\<close> with a comparison that panics when the operands are not ordered.\<close>

fun max_unwrap :: "(nat \<times> f32) \<Rightarrow> (nat \<times> f32) list \<Rightarrow> (nat \<times> f32) panics" where
  "max_unwrap best [] = Some best"
| "max_unwrap best (x # xs) =
     (case partial_cmp (snd best) (snd x) of
        None \<Rightarrow> None
      | Some c \<Rightarrow> max_unwrap (if c = Greater then best else x) xs)"

definition spread_confidence :: "nat \<Rightarrow> f32" where
  "spread_confidence n = f32_add (f32_lit 5 10) (f32_mul (f32_lit 5 10) (f32_div (f32_lit 1 1) (f32_of_nat n)))"

definition select_candidate :: "unicode \<Rightarrow> SelectionCriteria \<Rightarrow> rstring list \<Rightarrow> (nat \<times> f32 \<times> rstring) panics" where
  "select_candidate u selection texts =
     (case selection of
        Longest \<Rightarrow>
          Some ((case max_by (cmp_key (length \<circ> snd)) (enumerate 0 texts) of Some (i, _) \<Rightarrow> i | None \<Rightarrow> 0),
            spread_confidence (length texts), ''Selected longest response'')
      | Shortest \<Rightarrow>
          Some ((case min_by (cmp_key (length \<circ> snd)) (filter (\<lambda>(_, t). t \<noteq> []) (enumerate 0 texts)) of
                   Some (i, _) \<Rightarrow> i | None \<Rightarrow> 0),
            spread_confidence (length texts), ''Selected shortest response'')
      | MostRelevant \<Rightarrow> Some (0, consistency_score texts, ''Selected for consistency'')
      | _ \<Rightarrow>
          (let scores = map (\<lambda>t. estimate_confidence u t []) texts
           in case enumerate 0 scores of
                [] \<Rightarrow> None
              | x # xs \<Rightarrow>
                  map_option (\<lambda>(i, _). (i, scores ! i, ''Selected by highest heuristic confidence'')) (max_unwrap x xs)))"

subsection \<open>Responses\<close>

fun Gemini_items :: "gemini_env \<Rightarrow> nat \<Rightarrow> GeminiPart list \<Rightarrow> Item list" where
  "Gemini_items v n [] = []"
| "Gemini_items v n (GText t # ps) =
     Message (MessageItem_assistant (''msg_'' @ dec_digits n) t) # Gemini_items v (Suc n) ps"
| "Gemini_items v n (GFunctionCall name args # ps) =
     FunctionCall (FunctionCallItem_new (''fc_'' @ dec_digits n) (''call_'' @ name) name (bytes_or_empty (ge_to_string v args)))
       # Gemini_items v (Suc n) ps"
| "Gemini_items v n (_ # ps) = Gemini_items v n ps"

definition Gemini_status :: "rstring option \<Rightarrow> Item list \<Rightarrow> ResponseStatus \<times> IncompleteReason option \<times> ResponseError option" where
  "Gemini_status finish_reason output =
     (case finish_reason of
        Some reason \<Rightarrow>
          if reason = ''MAX_TOKENS'' then (RS_Incomplete, Some MaxTokens, None)
          else if reason = ''SAFETY'' \<or> reason = ''RECITATION'' then (RS_Incomplete, Some ContentFilter, None)
          else if reason = ''OTHER'' then
            (RS_Failed, None, Some (ResponseError_new ''generation_failed'' ''Generation stopped for other reasons''))
          else (RS_Completed, None, None)
      | None \<Rightarrow> if output = [] then Chat_no_response else (RS_Completed, None, None))"

definition Gemini_usage :: "GeminiUsageMetadata \<Rightarrow> Usage" where
  "Gemini_usage u =
     Usage_with_cache_hits
       (Usage_new (opt_or_zero (gum_prompt_token_count u)) (opt_or_zero (gum_candidates_token_count u)))
       (opt_or_zero (gum_cached_content_token_count u))"

definition Gemini_select ::
    "gemini_env \<Rightarrow> GeminiCandidate list option \<Rightarrow> ValidationStrategy option \<Rightarrow> SelectionCriteria option
      \<Rightarrow> (GeminiCandidate option \<times> ValidationMetadata option) panics" where
  "Gemini_select v candidates strategy criteria =
     (case candidates of
        Some cs \<Rightarrow>
          if 1 < length cs \<and> strategy \<noteq> None then
            map_option (\<lambda>(best, confidence, reason).
                (if best < length cs then Some (cs ! best) else None,
                 Some (ValidationMetadata_best_of_n (of_nat (length cs)) (of_nat best) confidence reason)))
              (select_candidate (ge_unicode v) (case criteria of Some s \<Rightarrow> s | None \<Rightarrow> HighestConfidence) (map candidate_text cs))
          else Some ((case cs of c # _ \<Rightarrow> Some c | [] \<Rightarrow> None), None)
      | None \<Rightarrow> Some (None, None))"

definition single_validation :: "unicode \<Rightarrow> ValidationStrategy option \<Rightarrow> Item list \<Rightarrow> ValidationMetadata option" where
  "single_validation u strategy output =
     (case strategy of
        None \<Rightarrow> None
      | Some s \<Rightarrow>
          (let text = concat (map MessageItem_text (List.map_filter Item_as_message output))
           in if text = [] then None
              else Some (ValidationMetadata_with_warning (ValidationMetadata_with_confidence s (estimate_confidence u text []))
                ''Heuristic confidence (logprobs not available for Gemini)'')))"

definition transform_response_with_validation ::
    "gemini_env \<Rightarrow> rstring \<Rightarrow> clock \<Rightarrow> GeminiResponse \<Rightarrow> rstring \<Rightarrow> ValidationStrategy option \<Rightarrow> SelectionCriteria option
      \<Rightarrow> Response panics" where
  "transform_response_with_validation v uuid now r model strategy criteria =
     map_option (\<lambda>(selected, meta).
         (let output = (case Option.bind selected gcd_content of Some content \<Rightarrow> Gemini_items v 0 (gc_parts content) | None \<Rightarrow> []);
              validation = (case meta of Some m \<Rightarrow> Some m | None \<Rightarrow> single_validation (ge_unicode v) strategy output)
          in finish_response now (ResponseBuilder_new (''resp_gem_'' @ uuid) model) output
               (Gemini_status (Option.bind selected gcd_finish_reason) output)
               (map_option Gemini_usage (grs_usage_metadata r)) validation))
       (Gemini_select v (grs_candidates r) strategy criteria)"

definition Gemini_transform_response :: "gemini_env \<Rightarrow> rstring \<Rightarrow> clock \<Rightarrow> GeminiResponse \<Rightarrow> rstring \<Rightarrow> Response panics" where
  "Gemini_transform_response v uuid now r model = transform_response_with_validation v uuid now r model None None"

text \<open>The match of the error looks at the HTTP status and at the status of the body, arm by arm.\<close>

definition Gemini_parse_error :: "gemini_env \<Rightarrow> u16 \<Rightarrow> rstring \<Rightarrow> ProviderError" where
  "Gemini_parse_error v status body =
     (case ge_error v body of
        Some (message, st) \<Rightarrow>
          if status = 400 \<or> st = Some ''INVALID_ARGUMENT'' then invalid_request message
          else if status = 401 \<or> st = Some ''UNAUTHENTICATED'' then Authentication message
          else if status = 403 \<or> st = Some ''PERMISSION_DENIED'' then Authentication message
          else if status = 404 \<or> st = Some ''NOT_FOUND'' then
            (if str_contains (u_to_lowercase (ge_unicode v) message) ''model'' then ModelNotFound message
             else from_provider status message)
          else if status = 429 \<or> st = Some ''RESOURCE_EXHAUSTED'' then rate_limit message
          else if status = 500 \<or> st = Some ''INTERNAL'' then from_provider status message
          else if status = 503 \<or> st = Some ''UNAVAILABLE'' then ServiceUnavailable message
          else PE_ProviderError status message st
      | None \<Rightarrow> from_provider status body)"

subsection \<open>Calls\<close>

definition get_api_url :: "GeminiProvider \<Rightarrow> rstring \<Rightarrow> bool \<Rightarrow> rstring" where
  "get_api_url p model stream =
     gmp_base_url p @ ''/models/'' @ model
     @ (if stream then '':streamGenerateContent?alt=sse&key='' else '':generateContent?key='') @ gmp_api_key p"

definition Gemini_send ::
    "gemini_env \<Rightarrow> GeminiProvider \<Rightarrow> (GeminiRequest, 'r) transport \<Rightarrow> Request \<Rightarrow> bool \<Rightarrow> ProviderError + 'r http_reply" where
  "Gemini_send v p send r stream =
     http_exchange send (Gemini_parse_error v) (get_api_url p (req_model r) stream)
       [(''Content-Type'', ''application/json'')] (Gemini_transform_request v r)"

definition Gemini_complete ::
    "gemini_env \<Rightarrow> GeminiProvider \<Rightarrow> (GeminiRequest, GeminiResponse) transport \<Rightarrow> rstring \<Rightarrow> clock \<Rightarrow> Request
      \<Rightarrow> (ProviderError + Response) panics" where
  "Gemini_complete v p send uuid now r =
     (case Gemini_send v p send r False of
        Inl e \<Rightarrow> Some (Inl e)
      | Inr reply \<Rightarrow>
          (case hr_json reply of
             Inl e \<Rightarrow> Some (Inl (from_reqwest e))
           | Inr j \<Rightarrow> map_option Inr (Gemini_transform_response v uuid now j (req_model r))))"

subsection \<open>The event stream\<close>

text \<open>A call of the stream: its name and its arguments, by the index of the part in its chunk.\<close>

type_synonym gemini_calls = "(nat \<times> rstring \<times> rstring) list"

record GeminiAcc =
  ga_text :: rstring
  ga_calls :: gemini_calls
  ga_completed_sent :: bool
  ga_item_added :: bool
  ga_part_added :: bool
  ga_input_tokens :: u32
  ga_cached_tokens :: u32
  ga_output_tokens :: u32

definition GeminiAcc_new :: GeminiAcc where
  "GeminiAcc_new =
     \<lparr> ga_text = [], ga_calls = [], ga_completed_sent = False, ga_item_added = False, ga_part_added = False,
       ga_input_tokens = 0, ga_cached_tokens = 0, ga_output_tokens = 0 \<rparr>"

text \<open>The entries are kept in the order of their index, in which the code visits them.\<close>

fun put_call :: "nat \<Rightarrow> rstring \<times> rstring \<Rightarrow> gemini_calls \<Rightarrow> gemini_calls" where
  "put_call i c [] = [(i, c)]"
| "put_call i c ((j, d) # m) =
     (if i = j then (i, c) # m else if i < j then (i, c) # (j, d) # m else (j, d) # put_call i c m)"

definition gemini_call_item :: "nat \<times> rstring \<times> rstring \<Rightarrow> Item" where
  "gemini_call_item e =
     (case e of (idx, name, args) \<Rightarrow>
        FunctionCall (FunctionCallItem_new (''fc_'' @ dec_digits idx) (''call_'' @ name) name args))"

definition completed_response :: "rstring \<Rightarrow> rstring \<Rightarrow> clock \<Rightarrow> GeminiAcc \<Rightarrow> Response" where
  "completed_response model response_id now a =
     RB_build now (RB_completed (RB_usage
       (RB_outputs (ResponseBuilder_new response_id model) (text_item (ga_text a) @ map gemini_call_item (ga_calls a)))
       (Usage_with_cache_hits (Usage_new (ga_input_tokens a) (ga_output_tokens a)) (ga_cached_tokens a))))"

definition gemini_update_usage :: "GeminiUsageMetadata option \<Rightarrow> GeminiAcc \<Rightarrow> GeminiAcc" where
  "gemini_update_usage u a =
     (case u of
        None \<Rightarrow> a
      | Some u \<Rightarrow>
          a\<lparr> ga_input_tokens := keep_some (gum_prompt_token_count u) (ga_input_tokens a),
             ga_cached_tokens := keep_some (gum_cached_content_token_count u) (ga_cached_tokens a),
             ga_output_tokens := keep_some (gum_candidates_token_count u) (ga_output_tokens a) \<rparr>)"

definition gemini_take_text :: "rstring \<Rightarrow> GeminiAcc \<Rightarrow> GeminiAcc \<times> stream_item list" where
  "gemini_take_text text a =
     (if text = [] then (a, [])
      else (a\<lparr> ga_item_added := True, ga_part_added := True, ga_text := ga_text a @ text \<rparr>,
            (if ga_item_added a then [] else [Inr (output_item_added 0 (Message (MessageItem_assistant ''msg_0'' [])))])
            @ (if ga_part_added a then [] else [Inr (content_part_added 0 0 ''text'')])
            @ [Inr (output_text_delta 0 0 text)]))"

definition gemini_take_call :: "nat \<Rightarrow> rstring \<Rightarrow> rstring \<Rightarrow> GeminiAcc \<Rightarrow> GeminiAcc \<times> stream_item list" where
  "gemini_take_call part_idx name args_str a =
     (let old_args = (case map_of (ga_calls a) part_idx of Some (_, args) \<Rightarrow> args | None \<Rightarrow> []);
          delta = (case strip_prefix args_str old_args of
              Some rest \<Rightarrow> if old_args \<noteq> [] then rest else args_str
            | None \<Rightarrow> args_str)
      in (a\<lparr> ga_calls := put_call part_idx (name, args_str) (ga_calls a) \<rparr>,
          if delta = [] then [] else [Inr (function_call_arguments_delta (of_nat part_idx) delta)]))"

fun gemini_take_parts :: "gemini_env \<Rightarrow> nat \<Rightarrow> GeminiPart list \<Rightarrow> GeminiAcc \<Rightarrow> GeminiAcc \<times> stream_item list" where
  "gemini_take_parts v n [] a = (a, [])"
| "gemini_take_parts v n (part # ps) a =
     (let (a, es) = (case part of
              GText text \<Rightarrow> gemini_take_text text a
            | GFunctionCall name args \<Rightarrow> gemini_take_call n name (bytes_or_empty (ge_to_string v args)) a
            | _ \<Rightarrow> (a, []));
          (a, fs) = gemini_take_parts v (Suc n) ps a
      in (a, es @ fs))"

definition gemini_finish :: "rstring \<Rightarrow> rstring \<Rightarrow> clock \<Rightarrow> rstring option \<Rightarrow> GeminiAcc \<Rightarrow> GeminiAcc \<times> stream_item list" where
  "gemini_finish m i now finish_reason a =
     (if finish_reason \<in> {Some ''STOP'', Some ''MAX_TOKENS'', Some ''SAFETY''} \<and> \<not> ga_completed_sent a
      then (a\<lparr> ga_completed_sent := True \<rparr>, [Inr (response_completed (completed_response m i now a))])
      else (a, []))"

definition Gemini_process_sse_data ::
    "gemini_env \<Rightarrow> rstring \<Rightarrow> rstring \<Rightarrow> clock \<Rightarrow> GeminiAcc \<Rightarrow> rstring \<Rightarrow> GeminiAcc \<times> stream_item list" where
  "Gemini_process_sse_data v m i now a dat =
     (case ge_chunk v dat of
        None \<Rightarrow> (a, [])
      | Some chunk \<Rightarrow>
          (let a = gemini_update_usage (grs_usage_metadata chunk) a
           in case grs_candidates chunk of
                Some (candidate # _) \<Rightarrow>
                  (let (a, es) = (case gcd_content candidate of
                          Some content \<Rightarrow> gemini_take_parts v 0 (gc_parts content) a
                        | None \<Rightarrow> (a, []));
                       (a, fs) = gemini_finish m i now (gcd_finish_reason candidate) a
                   in (a, es @ fs))
              | _ \<Rightarrow> (a, [])))"

definition Gemini_protocol :: "gemini_env \<Rightarrow> GeminiAcc line_protocol" where
  "Gemini_protocol v =
     \<lparr> lp_line = (\<lambda>m i now a line.
         (case strip_prefix line ''data: '' of
            Some dat \<Rightarrow> Gemini_process_sse_data v m i now a dat
          | None \<Rightarrow> (a, []))),
       lp_end = (\<lambda>m i now a.
         if \<not> ga_completed_sent a \<and> (ga_text a \<noteq> [] \<or> ga_calls a \<noteq> [])
         then Some (a\<lparr> ga_completed_sent := True \<rparr>, Inr (response_completed (completed_response m i now a)))
         else None) \<rparr>"

definition GeminiStreamTransformer_new :: "rstring \<Rightarrow> rstring \<Rightarrow> GeminiAcc stream_transformer" where
  "GeminiStreamTransformer_new uuid model = transformer_new model (''resp_gem_'' @ uuid) GeminiAcc_new"

definition Gemini_complete_stream ::
    "gemini_env \<Rightarrow> GeminiProvider \<Rightarrow> (GeminiRequest, chunk list) transport \<Rightarrow> rstring \<Rightarrow> Request
      \<Rightarrow> ProviderError + GeminiAcc stream_transformer \<times> chunk list" where
  "Gemini_complete_stream v p send uuid r =
     map_sum id (\<lambda>reply. (GeminiStreamTransformer_new uuid (req_model r), body_chunks reply)) (Gemini_send v p send r True)"

subsection \<open>What is completed is what was streamed\<close>

lemma as_message_gemini_call [simp]: "Item_as_message (gemini_call_item e) = None"
  by (simp add: gemini_call_item_def split: prod.splits)

lemma Response_text_completed_response [simp]: "Response_text (completed_response m i now a) = ga_text a"
  unfolding Response_text_def completed_response_def
  by (simp add: RB_build_def RB_completed_def RB_usage_def RB_outputs_def text_of_output)

lemma gemini_usage_same [simp]: "ga_text (gemini_update_usage u a) = ga_text a"
  by (simp add: gemini_update_usage_def split: option.split)

lemma gemini_take_text_step:
  "gemini_take_text t a = (a', es) \<Longrightarrow> ga_text a' = ga_text a @ t \<and> delta_text es = t \<and> completed_ok s es"
  by (auto simp: gemini_take_text_def chat_events split: if_splits)

lemma gemini_take_call_step:
  "gemini_take_call n name args a = (a', es) \<Longrightarrow> ga_text a' = ga_text a \<and> delta_text es = [] \<and> completed_ok s es"
  by (auto simp: gemini_take_call_def Let_def chat_events)

definition parts_text :: "GeminiPart list \<Rightarrow> rstring" where
  "parts_text ps = concat (List.map_filter gemini_text ps)"

lemma gemini_take_parts_step:
  "gemini_take_parts v n ps a = (a', es) \<Longrightarrow>
     ga_text a' = ga_text a @ delta_text es \<and> delta_text es = parts_text ps \<and> (\<forall>s. completed_ok s es)"
proof (induction v n ps a arbitrary: a' es rule: gemini_take_parts.induct)
  case (2 v n part ps a)
  obtain a1 es1 where one: "(case part of
              GText text \<Rightarrow> gemini_take_text text a
            | GFunctionCall name args \<Rightarrow> gemini_take_call n name (bytes_or_empty (ge_to_string v args)) a
            | _ \<Rightarrow> (a, [])) = (a1, es1)" by fastforce
  obtain a2 es2 where rest: "gemini_take_parts v (Suc n) ps a1 = (a2, es2)" by fastforce
  from one have "ga_text a1 = ga_text a @ delta_text es1 \<and> delta_text es1 = bytes_or_empty (gemini_text part)
      \<and> (\<forall>s. completed_ok s es1)"
    by (cases part) (auto simp: bytes_or_empty_def dest: gemini_take_text_step gemini_take_call_step)
  moreover have "a' = a2" "es = es1 @ es2" using 2(2) one rest by (simp_all add: Let_def)
  moreover have "parts_text (part # ps) = bytes_or_empty (gemini_text part) @ parts_text ps"
    by (simp add: parts_text_def List.map_filter_simps bytes_or_empty_def split: option.split)
  ultimately show ?case using 2(1) [OF one [symmetric] refl rest] by simp
qed (simp add: parts_text_def List.map_filter_simps)

lemma gemini_finish_step:
  "gemini_finish m i now r a = (a', es) \<Longrightarrow> ga_text a' = ga_text a \<and> delta_text es = [] \<and> completed_ok (ga_text a) es"
  by (auto simp: gemini_finish_def chat_events split: if_splits)

text \<open>The text of a chunk: the texts of its first candidate.\<close>

definition gemini_wire :: "gemini_env \<Rightarrow> rstring \<Rightarrow> rstring" where
  "gemini_wire v line =
     (case Option.bind (strip_prefix line ''data: '') (ge_chunk v) of
        Some chunk \<Rightarrow>
          (case grs_candidates chunk of
             Some (c # _) \<Rightarrow> (case gcd_content c of Some content \<Rightarrow> parts_text (gc_parts content) | None \<Rightarrow> [])
           | _ \<Rightarrow> [])
      | None \<Rightarrow> [])"

lemma Gemini_line_step:
  assumes "lp_line (Gemini_protocol v) m i now a l = (a', es)"
  shows "ga_text a' = ga_text a @ delta_text es \<and> completed_ok (ga_text a) es \<and> delta_text es = gemini_wire v l"
proof (cases "Option.bind (strip_prefix l ''data: '') (ge_chunk v)")
  case None
  with assms show ?thesis
    by (auto simp: Gemini_protocol_def Gemini_process_sse_data_def gemini_wire_def split: option.splits bind_splits)
next
  case (Some chunk)
  let ?a = "gemini_update_usage (grs_usage_metadata chunk) a"
  from Some assms have line: "(case grs_candidates chunk of
      Some (candidate # _) \<Rightarrow>
        (let (a, es) = (case gcd_content candidate of
                Some content \<Rightarrow> gemini_take_parts v 0 (gc_parts content) ?a
              | None \<Rightarrow> (?a, []));
             (a, fs) = gemini_finish m i now (gcd_finish_reason candidate) a
         in (a, es @ fs))
    | _ \<Rightarrow> (?a, [])) = (a', es)"
    by (auto simp: Gemini_protocol_def Gemini_process_sse_data_def Let_def split: option.splits bind_splits)
  show ?thesis
  proof (cases "\<exists>c cs. grs_candidates chunk = Some (c # cs)")
    case False
    with line Some show ?thesis by (auto simp: gemini_wire_def split: option.splits list.splits)
  next
    case True
    then obtain c cs where c: "grs_candidates chunk = Some (c # cs)" by auto
    obtain a1 es1 where one: "(case gcd_content c of
        Some content \<Rightarrow> gemini_take_parts v 0 (gc_parts content) ?a | None \<Rightarrow> (?a, [])) = (a1, es1)" by fastforce
    obtain fs where fin: "gemini_finish m i now (gcd_finish_reason c) a1 = (a', fs)" "es = es1 @ fs"
      using line one by (auto simp: c Let_def split: prod.splits)
    from one have "ga_text a1 = ga_text a @ delta_text es1 \<and> (\<forall>s. completed_ok s es1) \<and> delta_text es1 = gemini_wire v l"
      by (auto simp: gemini_wire_def Some c split: option.splits dest: gemini_take_parts_step)
    with gemini_finish_step [OF fin(1)] fin(2) show ?thesis by auto
  qed
qed

interpretation gemini_text: text_protocol "Gemini_protocol v" ga_text for v
proof
  show "ga_text a' = ga_text a @ delta_text es \<and> completed_ok (ga_text a) es"
    if "lp_line (Gemini_protocol v) m i now a l = (a', es)" for m i now a l a' es
    using Gemini_line_step [OF that] by simp
  show "ga_text a' = ga_text a @ item_delta e \<and> item_completes (ga_text a) e"
    if "lp_end (Gemini_protocol v) m i now a = Some (a', e)" for m i now a a' e
    using that by (auto simp: Gemini_protocol_def chat_events split: if_splits)
qed

subsection \<open>The choice does not panic\<close>

lemma partial_cmp_le: "f64_le a c \<Longrightarrow> f64_le b d \<Longrightarrow> partial_cmp a b \<noteq> None"
  using f64_le_not_NaN by (auto simp: partial_cmp_def)

lemma max_unwrap_Some:
  assumes "f64_le (snd best) (Fin 1)" "\<forall>x \<in> set xs. f64_le (snd x) (Fin 1)"
  shows "\<exists>y. max_unwrap best xs = Some y \<and> y \<in> insert best (set xs)"
  using assms
proof (induction xs arbitrary: best)
  case (Cons x xs)
  from partial_cmp_le [of "snd best" "Fin 1" "snd x" "Fin 1"] Cons.prems
  obtain c where c: "partial_cmp (snd best) (snd x) = Some c" by auto
  show ?case using Cons.IH [of "if c = Greater then best else x"] Cons.prems by (auto simp: c)
qed simp

lemma select_candidate_Some:
  assumes "texts \<noteq> []"
  shows "\<exists>i c why. select_candidate u selection texts = Some (i, c, why) \<and> i < length texts"
proof -
  have heuristic: "\<exists>i c why. (let scores = map (\<lambda>t. estimate_confidence u t []) texts
       in case enumerate 0 scores of
            [] \<Rightarrow> None
          | x # xs \<Rightarrow>
              map_option (\<lambda>(i, _). (i, scores ! i, ''Selected by highest heuristic confidence'')) (max_unwrap x xs))
      = Some (i, c, why) \<and> i < length texts"
  proof -
    define scores where "scores = map (\<lambda>t. estimate_confidence u t []) texts"
    obtain x xs where e: "enumerate 0 scores = x # xs"
      using assms by (cases texts) (simp_all add: scores_def)
    have mem: "y \<in> set (x # xs) \<Longrightarrow> fst y < length texts \<and> snd y \<in> set scores" for y
      unfolding e [symmetric] by (cases y) (auto simp: in_set_enumerate_eq scores_def)
    have "\<forall>s \<in> set scores. f64_le s (Fin 1)" using estimate_confidence_bounds by (auto simp: scores_def)
    with mem have "f64_le (snd x) (Fin 1)" "\<forall>y \<in> set xs. f64_le (snd y) (Fin 1)" by auto
    from max_unwrap_Some [OF this] mem obtain y where "max_unwrap x xs = Some y" "fst y < length texts" by auto
    then show ?thesis unfolding scores_def [symmetric] Let_def e by (cases y) auto
  qed
  have longest: "(case max_by f (enumerate 0 texts) of Some (i, _) \<Rightarrow> i | None \<Rightarrow> 0) < length texts" for f
    using assms by (auto split: option.split dest!: max_by_in simp: in_set_enumerate_eq)
  have shortest: "(case min_by f (filter P (enumerate 0 texts)) of Some (i, _) \<Rightarrow> i | None \<Rightarrow> 0) < length texts" for f P
    using assms by (auto split: option.split dest!: min_by_in simp: in_set_enumerate_eq)
  show ?thesis
    by (cases selection) (use heuristic longest shortest assms in \<open>simp_all add: select_candidate_def\<close>)
qed

lemma Gemini_select_Some:
  "\<exists>c m. Gemini_select v candidates strategy criteria = Some (c, m) \<and>
     (\<forall>x cs. candidates = Some (x # cs) \<longrightarrow> (\<exists>y. c = Some y \<and> y \<in> set (x # cs)))"
proof (cases "\<exists>cs. candidates = Some cs \<and> 1 < length cs \<and> strategy \<noteq> None")
  case True
  then obtain cs where cs: "candidates = Some cs" "1 < length cs" "strategy \<noteq> None" by auto
  then have "map candidate_text cs \<noteq> []" by auto
  from select_candidate_Some [OF this] obtain i c why
    where sel: "select_candidate (ge_unicode v) (case criteria of Some s \<Rightarrow> s | None \<Rightarrow> HighestConfidence) (map candidate_text cs)
      = Some (i, c, why)" and i: "i < length cs" by fastforce
  from i have "cs ! i \<in> set cs" by simp
  with sel cs i show ?thesis by (auto simp: Gemini_select_def simp del: set_simps)
qed (auto simp: Gemini_select_def split: option.splits list.splits)

subsection \<open>The conversation is kept\<close>

datatype gemini_turn = G_Said rstring "GeminiPart list" | G_Called GeminiPart

fun is_function_call :: "GeminiPart \<Rightarrow> bool" where
  "is_function_call (GFunctionCall _ _) = True"
| "is_function_call _ = False"

definition G_is_batch :: "GeminiContent \<Rightarrow> bool" where
  "G_is_batch m \<longleftrightarrow> gc_parts m \<noteq> [] \<and> list_all is_function_call (gc_parts m)"

definition G_read :: "GeminiContent \<Rightarrow> gemini_turn list" where
  "G_read m = (if G_is_batch m then map G_Called (gc_parts m) else [G_Said (gc_role m) (gc_parts m)])"

lemma parts_not_calls: "list_all is_function_call (Gemini_parts c) \<Longrightarrow> Gemini_parts c = []"
proof (cases c)
  case (IParts ps)
  have "\<not> is_function_call (Gemini_content_part x)" for x by (cases x) (simp_all split: option.split)
  then show "list_all is_function_call (Gemini_parts c) \<Longrightarrow> Gemini_parts c = []" by (cases ps) (simp_all add: IParts)
qed simp

interpretation gemini: call_batches Gemini_batch "Gemini_step v" G_read G_Called is_function_call G_is_batch for v
proof
  show "G_read (Gemini_batch cs) = map G_Called cs" if "cs \<noteq> []" "list_all is_function_call cs" for cs
    using that by (simp add: G_read_def G_is_batch_def Gemini_batch_def)
  show "is_function_call c" if "Gemini_step v i = Inl c" for i c
    using that by (cases i) (auto split: if_splits)
  show "\<not> G_is_batch m" if "Gemini_step v i = Inr ms" "m \<in> set ms" for i ms m
    using that by (cases i) (auto simp: G_is_batch_def dest: parts_not_calls split: if_splits)
qed

fun G_turns :: "gemini_env \<Rightarrow> InputItem \<Rightarrow> gemini_turn list" where
  "G_turns v (InMessage role content) =
     (if role = System then [] else [G_Said (Gemini_role role) (Gemini_parts content)])"
| "G_turns v (InFunctionCallOutput call_id out) =
     [G_Said ''user'' [GFunctionResponse call_id (case ge_value v out of Some j \<Rightarrow> j | None \<Rightarrow> JObj [(''result'', JStr out)])]]"
| "G_turns v (InFunctionCall call_id name arguments) =
     [G_Called (GFunctionCall name
        (case ge_value v arguments of Some j \<Rightarrow> j | None \<Rightarrow> JObj [(''raw_arguments'', JStr arguments)]))]"

lemma G_item_turns: "gemini.item_turns v i = G_turns v i"
  by (cases i) (auto simp: gemini.item_turns_def G_read_def G_is_batch_def dest: parts_not_calls)

lemma Gemini_read_back: "concat (map G_read (Gemini_contents v inp)) = concat (map (G_turns v) inp)"
  by (simp add: Gemini_contents_def gemini.read_back G_item_turns [abs_def])

lemma Gemini_separated:
  "\<forall>i \<in> set inp. \<forall>c. i \<noteq> InMessage System c \<Longrightarrow>
     successively (\<lambda>a b. \<not> (G_is_batch a \<and> G_is_batch b)) (Gemini_contents v inp)"
proof -
  have "Gemini_step v i = Inr [] \<longleftrightarrow> (\<exists>c. i = InMessage System c)" for i by (cases i) auto
  then show "\<forall>i \<in> set inp. \<forall>c. i \<noteq> InMessage System c \<Longrightarrow> ?thesis"
    unfolding Gemini_contents_def using gemini.batches_separated [of inp v "[]"] by (auto simp: gemini.separated_def)
qed

text \<open>A call in the first part of a later chunk replaces the call of an earlier chunk.\<close>

lemma put_call_twice: "put_call i c (put_call i d m) = put_call i c m"
  by (induction i d m rule: put_call.induct) auto

lemma gemini_take_call_twice:
  assumes "gemini_take_call n name args a = (a1, es)" "gemini_take_call n name' args' a1 = (a2, fs)"
  shows "ga_calls a2 = put_call n (name', args') (ga_calls a)"
  using assms by (auto simp: gemini_take_call_def Let_def put_call_twice)

subsection \<open>The streamed text\<close>

lemma Gemini_ends_once: "ends_once (Gemini_protocol v)"
  by (simp add: ends_once_def Gemini_protocol_def)

lemma gemini_wire_Nil [simp]: "gemini_wire v [] = []"
  by (simp add: gemini_wire_def strip_prefix_def)

lemma Gemini_lines_text: "delta_text (snd (line_events (Gemini_protocol v) m i clock k a ls)) = concat (map (gemini_wire v) ls)"
proof (induction ls arbitrary: k a)
  case (Cons l ls)
  obtain a' es where line: "lp_line (Gemini_protocol v) m i (clock k) a l = (a', es)" by fastforce
  from Gemini_line_step [OF line] line Cons show ?case by (cases "l = []") (simp_all add: case_prod_beta)
qed simp

lemma Gemini_streams: "streams (Gemini_protocol v) GeminiAcc_new bs (concat (map (gemini_wire v) (body_lines bs)))"
proof (rule reads_lines_streams [OF ends_once_reads_lines [OF Gemini_ends_once]])
  have "delta_text (end_events (Gemini_protocol v) m i now a) = []" for m i now a
    by (auto simp: end_events_def Gemini_protocol_def chat_events split: if_splits)
  then show "delta_text (all_events (Gemini_protocol v) m i clock 2 GeminiAcc_new (body_lines bs)) =
      concat (map (gemini_wire v) (body_lines bs))" for m i clock
    using Gemini_lines_text [of v m i clock 2 GeminiAcc_new "body_lines bs"] by (simp add: all_events_def case_prod_beta)
qed

end
