(* ===== verification/Chat_Adapters.thy ===== *)
theory Chat_Adapters
  imports Chat_Completions
begin

text \<open>
  Three adapters that speak Chat Completions: Mistral, Ollama and Hugging Face TGI
  (\<open>mistral.rs\<close>, \<open>ollama.rs\<close>, \<open>huggingface.rs\<close> of \<open>aura-core/src/provider\<close>). They differ in their
  urls and credentials, in how they read errors and reasons, and in what they keep of the usage.
\<close>

record ChatChoice =
  chc_content :: "rstring option"
  chc_tool_calls :: "(rstring \<times> ChatFunctionCall) list option"
  chc_finish_reason :: rstring

definition choice_items :: "ChatChoice option \<Rightarrow> Item list" where
  "choice_items choice =
     (case choice of
        Some c \<Rightarrow> Chat_items (chc_content c)
          (map_option (map (\<lambda>(i, f). (i, cf_name f, cf_arguments f))) (chc_tool_calls c))
      | None \<Rightarrow> [])"

definition first_choice :: "'c list \<Rightarrow> 'c option" where
  "first_choice cs = (case cs of c # _ \<Rightarrow> Some c | [] \<Rightarrow> None)"

definition skipping_messages :: "Request \<Rightarrow> ChatMessage list" where
  "skipping_messages r = Chat_instructions r @ batch_calls Chat_batch (skipping_step Chat_content) [] (req_input r)"

definition chat_request :: "rstring \<Rightarrow> Request \<Rightarrow> ChatMessage list \<Rightarrow> ChatRequest" where
  "chat_request required r messages =
     \<lparr> cr_model = req_model r, cr_messages = messages, cr_max_tokens = req_max_output_tokens r,
       cr_temperature = req_temperature r, cr_top_p = req_top_p r, cr_stream = Some (req_stream r),
       cr_tools = map_option (map Chat_tool) (req_tools r),
       cr_tool_choice = map_option (Chat_tool_choice required) (req_tool_choice r) \<rparr>"

text \<open>What the adapters take from outside: the typed JSON readers, the map order, Unicode.\<close>

record 'err chat_env =
  ce_error :: "rstring \<Rightarrow> 'err option"
  ce_chunk :: "rstring \<Rightarrow> ChatStreamChunk option"
  ce_order :: "call_map \<Rightarrow> call_map"
  ce_unicode :: unicode

definition http_message :: "rstring option \<Rightarrow> u16 \<Rightarrow> rstring" where
  "http_message message status = (case message of Some m \<Rightarrow> m | None \<Rightarrow> ''HTTP '' @ dec_digits (unat status))"

definition mentions_model :: "unicode \<Rightarrow> rstring \<Rightarrow> bool" where
  "mentions_model u message \<longleftrightarrow> str_contains (u_to_lowercase u message) ''model''"

subsection \<open>Mistral\<close>

definition MISTRAL_API_BASE :: rstring where "MISTRAL_API_BASE = ''https://api.mistral.ai/v1''"

definition MISTRAL_MODELS :: "rstring list" where
  "MISTRAL_MODELS =
     [''mistral-large-latest'', ''mistral-large-2411'', ''mistral-medium-latest'', ''mistral-small-latest'',
      ''codestral-latest'', ''pixtral-large-latest'', ''ministral-8b-latest'', ''ministral-3b-latest'']"

record MistralProvider =
  mip_api_key :: rstring
  mip_base_url :: rstring

definition MistralProvider_new :: "rstring \<Rightarrow> MistralProvider" where
  "MistralProvider_new api_key = \<lparr> mip_api_key = api_key, mip_base_url = MISTRAL_API_BASE \<rparr>"

definition MistralProvider_with_base_url :: "rstring \<Rightarrow> rstring \<Rightarrow> MistralProvider" where
  "MistralProvider_with_base_url api_key base_url = \<lparr> mip_api_key = api_key, mip_base_url = base_url \<rparr>"

definition Mistral_provider :: provider where
  "Mistral_provider = default_provider ''mistral'' MISTRAL_MODELS"

record MistralResponse =
  mir_id :: rstring
  mir_created :: "64 word"
  mir_model :: rstring
  mir_choices :: "ChatChoice list"
  mir_usage :: "ChatUsage option"

definition Mistral_messages :: "Request \<Rightarrow> ChatMessage list" where
  "Mistral_messages r = skipping_messages r"

definition Mistral_transform_request :: "Request \<Rightarrow> ChatRequest" where
  "Mistral_transform_request r = chat_request ''any'' r (Mistral_messages r)"

definition Mistral_status :: "rstring option \<Rightarrow> ResponseStatus \<times> IncompleteReason option \<times> ResponseError option" where
  "Mistral_status finish_reason =
     (case finish_reason of
        None \<Rightarrow> Chat_no_response
      | Some reason \<Rightarrow>
          if reason = ''length'' \<or> reason = ''model_length'' then (RS_Incomplete, Some MaxTokens, None)
          else (RS_Completed, None, None))"

definition Mistral_transform_response :: "clock \<Rightarrow> MistralResponse \<Rightarrow> rstring \<Rightarrow> Response" where
  "Mistral_transform_response now r model =
     (let choice = first_choice (mir_choices r)
      in finish_response now
           (RB_created_at (ResponseBuilder_new (''resp_mis_'' @ mir_id r) model) (mir_created r)) (choice_items choice)
           (Mistral_status (map_option chc_finish_reason choice)) (map_option ChatUsage_to_usage (mir_usage r)) None)"

text \<open>The error body: a message and a type, both optional.\<close>

definition Mistral_parse_error :: "(rstring option \<times> rstring option) chat_env \<Rightarrow> u16 \<Rightarrow> rstring \<Rightarrow> ProviderError" where
  "Mistral_parse_error v status body =
     (case ce_error v body of
        Some (msg, error_type) \<Rightarrow>
          (let message = http_message msg status
           in if status = 400 \<or> status = 422 then invalid_request message
              else if status = 401 \<or> status = 403 then Authentication message
              else if status = 404 then
                (if mentions_model (ce_unicode v) message then ModelNotFound message else from_provider status message)
              else if status = 429 then rate_limit message
              else if status = 500 then from_provider status message
              else if 502 \<le> status \<and> status \<le> 504 then ServiceUnavailable message
              else PE_ProviderError status message error_type)
      | None \<Rightarrow> from_provider status body)"

definition Mistral_send ::
    "(rstring option \<times> rstring option) chat_env \<Rightarrow> MistralProvider \<Rightarrow> (ChatRequest, 'r) transport \<Rightarrow> ChatRequest
      \<Rightarrow> ProviderError + 'r http_reply" where
  "Mistral_send v p send req =
     http_exchange send (Mistral_parse_error v) (mip_base_url p @ ''/chat/completions'') (bearer_headers (mip_api_key p)) req"

definition Mistral_complete ::
    "(rstring option \<times> rstring option) chat_env \<Rightarrow> MistralProvider \<Rightarrow> (ChatRequest, MistralResponse) transport
      \<Rightarrow> clock \<Rightarrow> Request \<Rightarrow> ProviderError + Response" where
  "Mistral_complete v p send now r =
     http_json (Mistral_send v p send (Mistral_transform_request r))
       (\<lambda>reply. Mistral_transform_response now reply (req_model r))"

definition Mistral_protocol :: "'e chat_env \<Rightarrow> ChatAcc line_protocol" where
  "Mistral_protocol v = returning_protocol (ce_chunk v) (ce_order v) ignore_usage"

definition MistralStreamTransformer_new :: "rstring \<Rightarrow> rstring \<Rightarrow> ChatAcc stream_transformer" where
  "MistralStreamTransformer_new uuid model = transformer_new model (''resp_mis_'' @ uuid) ChatAcc_new"

definition Mistral_complete_stream ::
    "(rstring option \<times> rstring option) chat_env \<Rightarrow> MistralProvider \<Rightarrow> (ChatRequest, chunk list) transport \<Rightarrow> rstring
      \<Rightarrow> Request \<Rightarrow> ProviderError + ChatAcc stream_transformer \<times> chunk list" where
  "Mistral_complete_stream v p send uuid r =
     map_sum id (\<lambda>reply. (MistralStreamTransformer_new uuid (req_model r), body_chunks reply))
       (Mistral_send v p send ((Mistral_transform_request r)\<lparr> cr_stream := Some True \<rparr>))"

subsection \<open>Ollama\<close>

definition OLLAMA_DEFAULT_BASE :: rstring where "OLLAMA_DEFAULT_BASE = ''http://localhost:11434''"

definition OLLAMA_MODELS :: "rstring list" where
  "OLLAMA_MODELS =
     [''llama3.3'', ''llama3.2'', ''llama3.1'', ''qwen2.5'', ''mistral'', ''mixtral'', ''phi3'', ''gemma2'',
      ''codellama'', ''deepseek-r1'']"

record OllamaProvider =
  olp_base_url :: rstring

definition OllamaProvider_new :: "rstring option \<Rightarrow> OllamaProvider" where
  "OllamaProvider_new base_url = \<lparr> olp_base_url = (case base_url of Some u \<Rightarrow> u | None \<Rightarrow> OLLAMA_DEFAULT_BASE) \<rparr>"

definition Ollama_provider :: provider where
  "Ollama_provider = \<lparr> pv_name = ''ollama'', pv_models = OLLAMA_MODELS, pv_supports = (\<lambda>model. model \<noteq> []) \<rparr>"

record OllamaResponse =
  olr_model :: "rstring option"
  olr_choices :: "ChatChoice list"
  olr_usage :: "ChatUsage option"

definition Ollama_messages :: "Request \<Rightarrow> ChatMessage list" where
  "Ollama_messages r = skipping_messages r"

definition Ollama_transform_request :: "Request \<Rightarrow> ChatRequest" where
  "Ollama_transform_request r = chat_request ''required'' r (Ollama_messages r)"

definition Ollama_status :: "rstring option \<Rightarrow> ResponseStatus \<times> IncompleteReason option \<times> ResponseError option" where
  "Ollama_status finish_reason =
     (case finish_reason of
        None \<Rightarrow> Chat_no_response
      | Some reason \<Rightarrow>
          if reason = ''length'' then (RS_Incomplete, Some MaxTokens, None) else (RS_Completed, None, None))"

definition plain_usage :: "ChatUsage \<Rightarrow> Usage" where
  "plain_usage u = Usage_new (cu_prompt_tokens u) (cu_completion_tokens u)"

definition Ollama_transform_response :: "rstring \<Rightarrow> clock \<Rightarrow> OllamaResponse \<Rightarrow> rstring \<Rightarrow> Response" where
  "Ollama_transform_response uuid now r model =
     (let choice = first_choice (olr_choices r)
      in finish_response now (ResponseBuilder_new (''resp_oll_'' @ uuid) model) (choice_items choice)
           (Ollama_status (map_option chc_finish_reason choice)) (map_option plain_usage (olr_usage r)) None)"

text \<open>The error body: an optional error with a message.\<close>

definition Ollama_parse_error :: "(rstring option) chat_env \<Rightarrow> u16 \<Rightarrow> rstring \<Rightarrow> ProviderError" where
  "Ollama_parse_error v status body =
     (case ce_error v body of
        Some err \<Rightarrow>
          (let message = http_message err status
           in if status = 400 then invalid_request message
              else if status = 404 then
                (if mentions_model (ce_unicode v) message then ModelNotFound message else from_provider status message)
              else if status = 500 then ServiceUnavailable message
              else if 502 \<le> status \<and> status \<le> 504 then ServiceUnavailable message
              else from_provider status message)
      | None \<Rightarrow> from_provider status body)"

definition Ollama_send ::
    "(rstring option) chat_env \<Rightarrow> OllamaProvider \<Rightarrow> (ChatRequest, 'r) transport \<Rightarrow> ChatRequest \<Rightarrow> ProviderError + 'r http_reply" where
  "Ollama_send v p send req =
     http_exchange send (Ollama_parse_error v) (olp_base_url p @ ''/v1/chat/completions'')
       [(''Content-Type'', ''application/json'')] req"

definition Ollama_complete ::
    "(rstring option) chat_env \<Rightarrow> OllamaProvider \<Rightarrow> (ChatRequest, OllamaResponse) transport \<Rightarrow> rstring \<Rightarrow> clock
      \<Rightarrow> Request \<Rightarrow> ProviderError + Response" where
  "Ollama_complete v p send uuid now r =
     http_json (Ollama_send v p send (Ollama_transform_request r))
       (\<lambda>reply. Ollama_transform_response uuid now reply (req_model r))"

definition Ollama_protocol :: "'e chat_env \<Rightarrow> ChatAcc line_protocol" where
  "Ollama_protocol v = returning_protocol (ce_chunk v) (ce_order v) ignore_usage"

definition OllamaStreamTransformer_new :: "rstring \<Rightarrow> rstring \<Rightarrow> ChatAcc stream_transformer" where
  "OllamaStreamTransformer_new uuid model = transformer_new model (''resp_oll_'' @ uuid) ChatAcc_new"

definition Ollama_complete_stream ::
    "(rstring option) chat_env \<Rightarrow> OllamaProvider \<Rightarrow> (ChatRequest, chunk list) transport \<Rightarrow> rstring
      \<Rightarrow> Request \<Rightarrow> ProviderError + ChatAcc stream_transformer \<times> chunk list" where
  "Ollama_complete_stream v p send uuid r =
     map_sum id (\<lambda>reply. (OllamaStreamTransformer_new uuid (req_model r), body_chunks reply))
       (Ollama_send v p send ((Ollama_transform_request r)\<lparr> cr_stream := Some True \<rparr>))"

text \<open>The health check asks for the tags; the answer is a status or the client's error.\<close>

definition Ollama_health_check :: "(rstring \<Rightarrow> reqwest_error + u16) \<Rightarrow> (u16 \<Rightarrow> rstring) \<Rightarrow> OllamaProvider \<Rightarrow> ProviderError + unit" where
  "Ollama_health_check get show_status p =
     (case get (olp_base_url p @ ''/api/tags'') of
        Inl e \<Rightarrow> Inl (Network (''Ollama health check failed: '' @ rq_text e))
      | Inr s \<Rightarrow>
          if http_success s then Inr ()
          else Inl (ServiceUnavailable (''Ollama returned HTTP '' @ show_status s @ '' for /api/tags'')))"

subsection \<open>Hugging Face TGI\<close>

record HuggingFaceProvider =
  hfp_api_key :: rstring
  hfp_endpoint_url :: rstring

definition HuggingFaceProvider_new :: "rstring \<Rightarrow> rstring \<Rightarrow> HuggingFaceProvider" where
  "HuggingFaceProvider_new api_key endpoint_url = \<lparr> hfp_api_key = api_key, hfp_endpoint_url = endpoint_url \<rparr>"

definition HuggingFace_provider :: provider where
  "HuggingFace_provider = \<lparr> pv_name = ''huggingface'', pv_models = [], pv_supports = (\<lambda>model. model \<noteq> []) \<rparr>"

record HfResponse =
  hfr_choices :: "ChatChoice list"
  hfr_usage :: "ChatUsage option"

definition HuggingFace_messages :: "Request \<Rightarrow> ChatMessage list" where
  "HuggingFace_messages r = skipping_messages r"

definition HuggingFace_transform_request :: "Request \<Rightarrow> ChatRequest" where
  "HuggingFace_transform_request r = chat_request ''required'' r (HuggingFace_messages r)"

definition HuggingFace_status :: "rstring option \<Rightarrow> ResponseStatus \<times> IncompleteReason option \<times> ResponseError option" where
  "HuggingFace_status finish_reason =
     (case finish_reason of
        None \<Rightarrow> Chat_no_response
      | Some reason \<Rightarrow>
          if reason = ''length'' then (RS_Incomplete, Some MaxTokens, None) else (RS_Completed, None, None))"

definition HuggingFace_transform_response :: "rstring \<Rightarrow> clock \<Rightarrow> HfResponse \<Rightarrow> rstring \<Rightarrow> Response" where
  "HuggingFace_transform_response uuid now r model =
     (let choice = first_choice (hfr_choices r)
      in finish_response now (ResponseBuilder_new (''resp_hf_'' @ uuid) model) (choice_items choice)
           (HuggingFace_status (map_option chc_finish_reason choice)) (map_option plain_usage (hfr_usage r)) None)"

text \<open>The error body: an error text and a message, both optional, the first one preferred.\<close>

definition HuggingFace_parse_error :: "(rstring option \<times> rstring option) chat_env \<Rightarrow> u16 \<Rightarrow> rstring \<Rightarrow> ProviderError" where
  "HuggingFace_parse_error v status body =
     (case ce_error v body of
        Some (err, msg) \<Rightarrow>
          (let message = http_message (case err of Some e \<Rightarrow> Some e | None \<Rightarrow> msg) status
           in if status = 400 \<or> status = 422 then invalid_request message
              else if status = 401 \<or> status = 403 then Authentication message
              else if status = 404 then ModelNotFound message
              else if status = 429 then rate_limit message
              else if status = 500 \<or> (502 \<le> status \<and> status \<le> 504) then ServiceUnavailable message
              else from_provider status message)
      | None \<Rightarrow> from_provider status body)"

definition chat_url :: "HuggingFaceProvider \<Rightarrow> rstring" where
  "chat_url p = rev (dropWhile (\<lambda>c. c = CHR ''/'') (rev (hfp_endpoint_url p))) @ ''/v1/chat/completions''"

definition HuggingFace_send ::
    "(rstring option \<times> rstring option) chat_env \<Rightarrow> HuggingFaceProvider \<Rightarrow> (ChatRequest, 'r) transport \<Rightarrow> ChatRequest
      \<Rightarrow> ProviderError + 'r http_reply" where
  "HuggingFace_send v p send req =
     http_exchange send (HuggingFace_parse_error v) (chat_url p) (bearer_headers (hfp_api_key p)) req"

definition HuggingFace_complete ::
    "(rstring option \<times> rstring option) chat_env \<Rightarrow> HuggingFaceProvider \<Rightarrow> (ChatRequest, HfResponse) transport
      \<Rightarrow> rstring \<Rightarrow> clock \<Rightarrow> Request \<Rightarrow> ProviderError + Response" where
  "HuggingFace_complete v p send uuid now r =
     http_json (HuggingFace_send v p send (HuggingFace_transform_request r))
       (\<lambda>reply. HuggingFace_transform_response uuid now reply (req_model r))"

definition HuggingFace_protocol :: "'e chat_env \<Rightarrow> ChatAcc line_protocol" where
  "HuggingFace_protocol v = returning_protocol (ce_chunk v) (ce_order v) ignore_usage"

definition HuggingFaceStreamTransformer_new :: "rstring \<Rightarrow> rstring \<Rightarrow> ChatAcc stream_transformer" where
  "HuggingFaceStreamTransformer_new uuid model = transformer_new model (''resp_hf_'' @ uuid) ChatAcc_new"

definition HuggingFace_complete_stream ::
    "(rstring option \<times> rstring option) chat_env \<Rightarrow> HuggingFaceProvider \<Rightarrow> (ChatRequest, chunk list) transport
      \<Rightarrow> rstring \<Rightarrow> Request \<Rightarrow> ProviderError + ChatAcc stream_transformer \<times> chunk list" where
  "HuggingFace_complete_stream v p send uuid r =
     map_sum id (\<lambda>reply. (HuggingFaceStreamTransformer_new uuid (req_model r), body_chunks reply))
       (HuggingFace_send v p send ((HuggingFace_transform_request r)\<lparr> cr_stream := Some True \<rparr>))"

subsection \<open>Laws\<close>

interpretation mistral_text: text_protocol "Mistral_protocol v" ca_text for v
  by unfold_locales
    (auto simp: Mistral_protocol_def returning_protocol_def [THEN arg_cong [where f = lp_end]]
      dest: returning_line_step [OF disjI2 [OF refl]])

interpretation ollama_text: text_protocol "Ollama_protocol v" ca_text for v
  by unfold_locales
    (auto simp: Ollama_protocol_def returning_protocol_def [THEN arg_cong [where f = lp_end]]
      dest: returning_line_step [OF disjI2 [OF refl]])

interpretation huggingface_text: text_protocol "HuggingFace_protocol v" ca_text for v
  by unfold_locales
    (auto simp: HuggingFace_protocol_def returning_protocol_def [THEN arg_cong [where f = lp_end]]
      dest: returning_line_step [OF disjI2 [OF refl]])

text \<open>Only the instructions reach the model as a system prompt.\<close>

lemma skipping_messages_read: "says_no_system Chat_content skipping_messages"
  by (simp add: says_no_system_def skipping_messages_def skipping_reads)

end
