(* ===== verification/Together.thy ===== *)
theory Together
  imports Chat_Adapters
begin

text \<open>
  The adapters of Together and Fireworks (\<open>together.rs\<close> and \<open>fireworks.rs\<close> of
  \<open>aura-core/src/provider\<close>), which differ in their constants only. They drop audio, read arguments
  that are a string or a value, and queue the events of a chunk.
\<close>

definition TOGETHER_API_BASE :: rstring where "TOGETHER_API_BASE = ''https://api.together.xyz/v1''"

definition TOGETHER_MODELS :: "rstring list" where
  "TOGETHER_MODELS =
     [''meta-llama/Llama-3.3-70B-Instruct-Turbo'', ''meta-llama/Meta-Llama-3-8B-Instruct-Lite'',
      ''deepseek-ai/DeepSeek-V4-Pro'', ''Qwen/Qwen3.5-397B-A17B'', ''Qwen/Qwen3.6-Plus'', ''Qwen/Qwen3.5-9B'',
      ''Qwen/Qwen2.5-7B-Instruct-Turbo'', ''Qwen/Qwen3-Coder-480B-A35B-Instruct-FP8'',
      ''Qwen/Qwen3-235B-A22B-Instruct-2507-tput'', ''openai/gpt-oss-120b'', ''openai/gpt-oss-20b'',
      ''moonshotai/Kimi-K2.6'', ''moonshotai/Kimi-K2.5'', ''zai-org/GLM-5.1'', ''zai-org/GLM-5'',
      ''essentialai/rnj-1-instruct'', ''google/gemma-4-31B-it'', ''google/gemma-3n-E4B-it'',
      ''LiquidAI/LFM2-24B-A2B'', ''deepcogito/cogito-v2-1-671b'']"

record TogetherProvider =
  tgp_api_key :: rstring
  tgp_base_url :: rstring

definition TogetherProvider_new :: "rstring \<Rightarrow> TogetherProvider" where
  "TogetherProvider_new api_key = \<lparr> tgp_api_key = api_key, tgp_base_url = TOGETHER_API_BASE \<rparr>"

definition TogetherProvider_with_base_url :: "rstring \<Rightarrow> rstring \<Rightarrow> TogetherProvider" where
  "TogetherProvider_with_base_url api_key base_url = \<lparr> tgp_api_key = api_key, tgp_base_url = base_url \<rparr>"

definition Together_provider :: provider where
  "Together_provider = default_provider ''together'' TOGETHER_MODELS"

subsection \<open>Requests\<close>

fun Together_content_part :: "ContentPart \<Rightarrow> ChatContentPart option" where
  "Together_content_part (CText t) = Some (CP_Text t)"
| "Together_content_part (CImage url dat media) = Some (Chat_image url dat media)"
| "Together_content_part (CAudio dat media) = None"

fun Together_content :: "InputContent \<Rightarrow> ChatContent" where
  "Together_content (IText t) = CC_Text t"
| "Together_content (IParts ps) =
     (let parts = List.map_filter Together_content_part ps
      in if parts = [] then CC_Text [] else CC_Parts parts)"

definition Together_messages :: "Request \<Rightarrow> ChatMessage list" where
  "Together_messages r = Chat_instructions r @ batch_calls Chat_batch (skipping_step Together_content) [] (req_input r)"

definition Together_transform_request :: "Request \<Rightarrow> ChatRequest" where
  "Together_transform_request r = chat_request ''required'' r (Together_messages r)"

subsection \<open>Responses\<close>

datatype TogetherArguments = TA_String rstring | TA_Json json

fun TogetherArguments_normalized :: "(json \<Rightarrow> rstring option) \<Rightarrow> TogetherArguments \<Rightarrow> rstring" where
  "TogetherArguments_normalized to_string (TA_String s) = s"
| "TogetherArguments_normalized to_string (TA_Json j) = (case to_string j of Some s \<Rightarrow> s | None \<Rightarrow> ''{}'')"

record TogetherChoice =
  tgc_content :: "rstring option"
  tgc_tool_calls :: "(rstring option \<times> rstring \<times> TogetherArguments) list option"
  tgc_finish_reason :: rstring

record TogetherResponse =
  tgr_id :: rstring
  tgr_created :: "64 word"
  tgr_model :: rstring
  tgr_choices :: "TogetherChoice list"
  tgr_usage :: "ChatUsage option"

text \<open>The body of an error: an envelope with an optional error (message, type) and an optional message.\<close>

type_synonym together_error = "(rstring option \<times> rstring option) option \<times> rstring option"

definition Together_calls ::
    "(json \<Rightarrow> rstring option) \<Rightarrow> (rstring option \<times> rstring \<times> TogetherArguments) list \<Rightarrow> (rstring \<times> rstring \<times> rstring) list" where
  "Together_calls to_string calls =
     map (\<lambda>(i, call_id, name, arguments).
         ((case call_id of Some c \<Rightarrow> c | None \<Rightarrow> ''call_'' @ dec_digits i), name, TogetherArguments_normalized to_string arguments))
       (enumerate 0 calls)"

definition Together_status :: "rstring option \<Rightarrow> ResponseStatus \<times> IncompleteReason option \<times> ResponseError option" where
  "Together_status finish_reason =
     (case finish_reason of
        None \<Rightarrow> Chat_no_response
      | Some reason \<Rightarrow>
          if reason = ''length'' then (RS_Incomplete, Some MaxTokens, None) else (RS_Completed, None, None))"

definition together_response ::
    "rstring \<Rightarrow> (json \<Rightarrow> rstring option) \<Rightarrow> clock \<Rightarrow> TogetherResponse \<Rightarrow> rstring \<Rightarrow> Response" where
  "together_response prefix to_string now r model =
     (let choice = first_choice (tgr_choices r);
          output = (case choice of
              Some c \<Rightarrow> Chat_items (tgc_content c) (map_option (Together_calls to_string) (tgc_tool_calls c))
            | None \<Rightarrow> [])
      in finish_response now (RB_created_at (ResponseBuilder_new (prefix @ tgr_id r) model) (tgr_created r)) output
           (Together_status (map_option tgc_finish_reason choice)) (map_option ChatUsage_to_usage (tgr_usage r)) None)"

definition Together_transform_response :: "(json \<Rightarrow> rstring option) \<Rightarrow> clock \<Rightarrow> TogetherResponse \<Rightarrow> rstring \<Rightarrow> Response" where
  "Together_transform_response = together_response ''resp_tog_''"

definition together_error_message :: "together_error chat_env \<Rightarrow> u16 \<Rightarrow> rstring \<Rightarrow> rstring \<times> rstring option" where
  "together_error_message v status body =
     (case ce_error v body of
        Some (Some (message, error_type), _) \<Rightarrow> (http_message message status, error_type)
      | Some (None, message) \<Rightarrow> (http_message message status, None)
      | None \<Rightarrow> (body, None))"

definition Together_parse_error :: "together_error chat_env \<Rightarrow> u16 \<Rightarrow> rstring \<Rightarrow> ProviderError" where
  "Together_parse_error v status body =
     (let (message, error_type) = together_error_message v status body
      in if status = 400 \<or> status = 422 then invalid_request message
         else if status = 401 \<or> status = 403 then Authentication message
         else if status = 404 then
           (if mentions_model (ce_unicode v) message then ModelNotFound message else from_provider status message)
         else if status = 429 then rate_limit message
         else if status = 500 then from_provider status message
         else if 502 \<le> status \<and> status \<le> 504 then ServiceUnavailable message
         else PE_ProviderError status message error_type)"

subsection \<open>Calls\<close>

definition Together_send ::
    "together_error chat_env \<Rightarrow> TogetherProvider \<Rightarrow> (ChatRequest, 'r) transport \<Rightarrow> ChatRequest \<Rightarrow> ProviderError + 'r http_reply" where
  "Together_send v p send req =
     http_exchange send (Together_parse_error v) (tgp_base_url p @ ''/chat/completions'') (bearer_headers (tgp_api_key p)) req"

definition Together_complete ::
    "together_error chat_env \<Rightarrow> TogetherProvider \<Rightarrow> (ChatRequest, TogetherResponse) transport \<Rightarrow> (json \<Rightarrow> rstring option)
      \<Rightarrow> clock \<Rightarrow> Request \<Rightarrow> ProviderError + Response" where
  "Together_complete v p send to_string now r =
     http_json (Together_send v p send (Together_transform_request r))
       (\<lambda>reply. Together_transform_response to_string now reply (req_model r))"

definition Together_protocol :: "'e chat_env \<Rightarrow> ChatAcc line_protocol" where
  "Together_protocol v = queued_protocol (ce_chunk v) (ce_order v)"

definition TogetherStreamTransformer_new :: "rstring \<Rightarrow> rstring \<Rightarrow> ChatAcc stream_transformer" where
  "TogetherStreamTransformer_new uuid model = transformer_new model (''resp_tog_'' @ uuid) ChatAcc_new"

definition Together_complete_stream ::
    "together_error chat_env \<Rightarrow> TogetherProvider \<Rightarrow> (ChatRequest, chunk list) transport \<Rightarrow> rstring \<Rightarrow> Request
      \<Rightarrow> ProviderError + ChatAcc stream_transformer \<times> chunk list" where
  "Together_complete_stream v p send uuid r =
     map_sum id (\<lambda>reply. (TogetherStreamTransformer_new uuid (req_model r), body_chunks reply))
       (Together_send v p send ((Together_transform_request r)\<lparr> cr_stream := Some True \<rparr>))"

subsection \<open>Fireworks\<close>

definition FIREWORKS_API_BASE :: rstring where "FIREWORKS_API_BASE = ''https://api.fireworks.ai/inference/v1''"

definition FIREWORKS_MODELS :: "rstring list" where
  "FIREWORKS_MODELS =
     [''accounts/fireworks/models/glm-5p2'', ''accounts/fireworks/models/kimi-k2p6'',
      ''accounts/fireworks/models/deepseek-v4-pro'', ''accounts/fireworks/models/qwen3p6-plus'',
      ''accounts/fireworks/models/gpt-oss-120b'', ''accounts/fireworks/models/gpt-oss-20b'']"

definition FireworksProvider_new :: "rstring \<Rightarrow> TogetherProvider" where
  "FireworksProvider_new api_key = \<lparr> tgp_api_key = api_key, tgp_base_url = FIREWORKS_API_BASE \<rparr>"

definition FireworksProvider_with_base_url :: "rstring \<Rightarrow> rstring \<Rightarrow> TogetherProvider" where
  "FireworksProvider_with_base_url api_key base_url = \<lparr> tgp_api_key = api_key, tgp_base_url = base_url \<rparr>"

definition Fireworks_provider :: provider where
  "Fireworks_provider = default_provider ''fireworks'' FIREWORKS_MODELS"

definition Fireworks_messages :: "Request \<Rightarrow> ChatMessage list" where
  "Fireworks_messages r = Chat_instructions r @ batch_calls Chat_batch (skipping_step Together_content) [] (req_input r)"

definition Fireworks_transform_request :: "Request \<Rightarrow> ChatRequest" where
  "Fireworks_transform_request r = chat_request ''required'' r (Fireworks_messages r)"

definition Fireworks_transform_response :: "(json \<Rightarrow> rstring option) \<Rightarrow> clock \<Rightarrow> TogetherResponse \<Rightarrow> rstring \<Rightarrow> Response" where
  "Fireworks_transform_response = together_response ''resp_fw_''"

definition Fireworks_parse_error :: "together_error chat_env \<Rightarrow> u16 \<Rightarrow> rstring \<Rightarrow> ProviderError" where
  "Fireworks_parse_error = Together_parse_error"

definition Fireworks_send ::
    "together_error chat_env \<Rightarrow> TogetherProvider \<Rightarrow> (ChatRequest, 'r) transport \<Rightarrow> ChatRequest \<Rightarrow> ProviderError + 'r http_reply" where
  "Fireworks_send v p send req =
     http_exchange send (Fireworks_parse_error v) (tgp_base_url p @ ''/chat/completions'') (bearer_headers (tgp_api_key p)) req"

definition Fireworks_complete ::
    "together_error chat_env \<Rightarrow> TogetherProvider \<Rightarrow> (ChatRequest, TogetherResponse) transport \<Rightarrow> (json \<Rightarrow> rstring option)
      \<Rightarrow> clock \<Rightarrow> Request \<Rightarrow> ProviderError + Response" where
  "Fireworks_complete v p send to_string now r =
     http_json (Fireworks_send v p send (Fireworks_transform_request r))
       (\<lambda>reply. Fireworks_transform_response to_string now reply (req_model r))"

definition Fireworks_protocol :: "'e chat_env \<Rightarrow> ChatAcc line_protocol" where
  "Fireworks_protocol v = queued_protocol (ce_chunk v) (ce_order v)"

definition FireworksStreamTransformer_new :: "rstring \<Rightarrow> rstring \<Rightarrow> ChatAcc stream_transformer" where
  "FireworksStreamTransformer_new uuid model = transformer_new model (''resp_fw_'' @ uuid) ChatAcc_new"

definition Fireworks_complete_stream ::
    "together_error chat_env \<Rightarrow> TogetherProvider \<Rightarrow> (ChatRequest, chunk list) transport \<Rightarrow> rstring \<Rightarrow> Request
      \<Rightarrow> ProviderError + ChatAcc stream_transformer \<times> chunk list" where
  "Fireworks_complete_stream v p send uuid r =
     map_sum id (\<lambda>reply. (FireworksStreamTransformer_new uuid (req_model r), body_chunks reply))
       (Fireworks_send v p send ((Fireworks_transform_request r)\<lparr> cr_stream := Some True \<rparr>))"

subsection \<open>Laws\<close>

interpretation together_text: text_protocol "Together_protocol v" ca_text for v
  by unfold_locales
    (auto simp: Together_protocol_def queued_protocol_def [THEN arg_cong [where f = lp_end]] dest: queued_line_step)

interpretation fireworks_text: text_protocol "Fireworks_protocol v" ca_text for v
  by unfold_locales
    (auto simp: Fireworks_protocol_def queued_protocol_def [THEN arg_cong [where f = lp_end]] dest: queued_line_step)

end
