(* ===== verification/Bedrock.thy ===== *)
theory Bedrock
  imports Anthropic Json_Map
begin

text \<open>
  The AWS Bedrock adapter (\<open>aura-core/src/provider/bedrock.rs\<close>): the model families, the Claude
  request and response, the cache breakpoint written into the JSON body, SDK errors, and a stream
  that answers every SDK event with exactly one stream event. The SDK, the JSON readers and writers
  and the order of the hash map of calls are parameters. The last part shows that the adapter agrees
  with the Anthropic adapter.
\<close>

definition BEDROCK_ANTHROPIC_VERSION :: rstring where "BEDROCK_ANTHROPIC_VERSION = ''bedrock-2023-05-31''"

definition BEDROCK_MODELS :: "rstring list" where
  "BEDROCK_MODELS =
     [''anthropic.claude-opus-4-5-20251001-v1:0'', ''anthropic.claude-sonnet-4-5-20250929-v1:0'',
      ''anthropic.claude-haiku-4-5-20251001-v1:0'', ''anthropic.claude-3-7-sonnet-20250219-v1:0'',
      ''meta.llama3-3-70b-instruct-v1:0'', ''meta.llama3-2-90b-instruct-v1:0'',
      ''mistral.mistral-large-2407-v1:0'', ''amazon.titan-text-premier-v1:0'']"

definition Bedrock_provider :: provider where
  "Bedrock_provider = default_provider ''bedrock'' BEDROCK_MODELS"

subsection \<open>Model families\<close>

definition is_claude_model :: "rstring \<Rightarrow> bool" where
  "is_claude_model model \<longleftrightarrow> starts_with model ''anthropic.claude''"

definition bedrock_llama_unimplemented :: ProviderError where
  "bedrock_llama_unimplemented =
     Internal (''Meta Llama on Bedrock is not yet implemented. ''
       @ ''Tracked in: feat(bedrock): add Meta Llama model family support'')"

definition bedrock_mistral_unimplemented :: ProviderError where
  "bedrock_mistral_unimplemented =
     Internal (''Mistral on Bedrock is not yet implemented. ''
       @ ''Tracked in: feat(bedrock): add Mistral model family support'')"

definition bedrock_titan_unimplemented :: ProviderError where
  "bedrock_titan_unimplemented =
     Internal (''Amazon Titan on Bedrock is not yet implemented. ''
       @ ''Tracked in: feat(bedrock): add Amazon Titan model family support'')"

definition check_model_family :: "rstring \<Rightarrow> ProviderError option" where
  "check_model_family model =
     (if is_claude_model model then None
      else if starts_with model ''meta.llama'' then Some bedrock_llama_unimplemented
      else if starts_with model ''mistral.'' then Some bedrock_mistral_unimplemented
      else if starts_with model ''amazon.titan'' then Some bedrock_titan_unimplemented
      else Some (ModelNotFound model))"

subsection \<open>Wire types\<close>

record BedrockCacheControl =
  bcc_type :: rstring

definition BedrockCacheControl_ephemeral :: BedrockCacheControl where
  "BedrockCacheControl_ephemeral = \<lparr> bcc_type = ''ephemeral'' \<rparr>"

record BedrockSystemBlock =
  bsb_type :: rstring
  bsb_text :: rstring
  bsb_cache_control :: "BedrockCacheControl option"

record BedrockImageSource =
  bis_type :: rstring
  bis_media_type :: rstring
  bis_data :: rstring

datatype BedrockContentBlock =
    BText rstring
  | BImage BedrockImageSource
  | BToolUse rstring rstring json
  | BToolResult rstring rstring "bool option"

record BedrockMessage =
  bm_role :: rstring
  bm_content :: "BedrockContentBlock list"

record BedrockTool =
  bt_name :: rstring
  bt_description :: "rstring option"
  bt_input_schema :: json
  bt_cache_control :: "BedrockCacheControl option"

datatype BedrockToolChoice = BTC_Auto | BTC_Any | BTC_Tool rstring

record BedrockClaudeRequest =
  br_anthropic_version :: rstring
  br_model :: rstring
  br_messages :: "BedrockMessage list"
  br_system :: "BedrockSystemBlock list option"
  br_max_tokens :: u32
  br_temperature :: "f32 option"
  br_top_p :: "f32 option"
  br_tools :: "BedrockTool list option"
  br_tool_choice :: "BedrockToolChoice option"

record BedrockUsage =
  bu_input_tokens :: u32
  bu_output_tokens :: u32
  bu_cache_creation :: "u32 option"
  bu_cache_read :: "u32 option"

definition total_input_tokens :: "BedrockUsage \<Rightarrow> u32" where
  "total_input_tokens u =
     saturating_add (saturating_add (bu_input_tokens u) (opt_or_zero (bu_cache_creation u))) (opt_or_zero (bu_cache_read u))"

definition cache_read_tokens :: "BedrockUsage \<Rightarrow> u32" where
  "cache_read_tokens u = opt_or_zero (bu_cache_read u)"

record BedrockClaudeResponse =
  brp_content :: "BedrockContentBlock list"
  brp_stop_reason :: "rstring option"
  brp_usage :: BedrockUsage

datatype BedrockDelta = BTextDelta rstring | BInputJsonDelta rstring

text \<open>The usage of a message delta has the output tokens only.\<close>

datatype BedrockStreamEvent =
    BMessageStart BedrockUsage
  | BContentBlockStart usize BedrockContentBlock
  | BContentBlockDelta usize BedrockDelta
  | BContentBlockStop usize
  | BMessageDelta "rstring option" "u32 option option"
  | BMessageStop

text \<open>An event of the SDK: a chunk with its bytes, another variant, or an error with its text.\<close>

datatype sdk_event = SE_Chunk "rstring option" | SE_Unknown | SE_Error rstring

record bedrock_env =
  be_value :: "rstring \<Rightarrow> json option"
  be_to_string :: "json \<Rightarrow> rstring option"
  be_to_value :: "BedrockClaudeRequest \<Rightarrow> rstring + json"
  be_to_vec :: "json \<Rightarrow> rstring + rstring"
  be_response :: "rstring \<Rightarrow> rstring + BedrockClaudeResponse"
  be_event :: "rstring \<Rightarrow> BedrockStreamEvent option"
  be_order :: "call_map \<Rightarrow> call_map"

subsection \<open>Requests\<close>

fun Bedrock_content_part :: "ContentPart \<Rightarrow> BedrockContentBlock" where
  "Bedrock_content_part (CText t) = BText t"
| "Bedrock_content_part (CImage url dat media) =
     (case dat of
        Some d \<Rightarrow> BImage \<lparr> bis_type = ''base64'', bis_media_type = media_or ''image/png'' media, bis_data = d \<rparr>
      | None \<Rightarrow>
          (case url of
             Some u \<Rightarrow> BImage \<lparr> bis_type = ''url'', bis_media_type = media_or ''image/png'' media, bis_data = u \<rparr>
           | None \<Rightarrow> BText ''[Invalid image]''))"
| "Bedrock_content_part (CAudio dat media) =
     BText (''[Audio: '' @ dec_digits (length dat) @ '' bytes, type: '' @ media_or ''audio/mp3'' media @ '']'')"

fun Bedrock_content :: "InputContent \<Rightarrow> BedrockContentBlock list" where
  "Bedrock_content (IText t) = [BText t]"
| "Bedrock_content (IParts ps) = map Bedrock_content_part ps"

fun Bedrock_role :: "Role \<Rightarrow> rstring" where
  "Bedrock_role User = ''user''"
| "Bedrock_role RTool = ''user''"
| "Bedrock_role Assistant = ''assistant''"
| "Bedrock_role System = ''user''"

fun Bedrock_step :: "bedrock_env \<Rightarrow> InputItem \<Rightarrow> BedrockContentBlock + BedrockMessage list" where
  "Bedrock_step v (InMessage role content) =
     (if role = System then Inr []
      else Inr [\<lparr> bm_role = Bedrock_role role, bm_content = Bedrock_content content \<rparr>])"
| "Bedrock_step v (InFunctionCall call_id name arguments) =
     Inl (BToolUse call_id name
       (case be_value v arguments of Some j \<Rightarrow> j | None \<Rightarrow> JObj [(''raw_arguments'', JStr arguments)]))"
| "Bedrock_step v (InFunctionCallOutput call_id out) =
     Inr [\<lparr> bm_role = ''user'', bm_content = [BToolResult call_id out None] \<rparr>]"

definition Bedrock_batch :: "BedrockContentBlock list \<Rightarrow> BedrockMessage" where
  "Bedrock_batch pending = \<lparr> bm_role = ''assistant'', bm_content = pending \<rparr>"

definition Bedrock_messages :: "bedrock_env \<Rightarrow> InputItem list \<Rightarrow> BedrockMessage list" where
  "Bedrock_messages v inp = batch_calls Bedrock_batch (Bedrock_step v) [] inp"

fun Bedrock_system_texts :: "InputItem \<Rightarrow> rstring list" where
  "Bedrock_system_texts (InMessage System (IText t)) = [t]"
| "Bedrock_system_texts (InMessage System (IParts ps)) = List.map_filter part_text ps"
| "Bedrock_system_texts _ = []"

definition Bedrock_system :: "Request \<Rightarrow> BedrockSystemBlock list option" where
  "Bedrock_system r =
     (let system_parts = (case req_instructions r of Some s \<Rightarrow> [s] | None \<Rightarrow> []) @ concat (map Bedrock_system_texts (req_input r))
      in if system_parts = [] then None
         else Some [\<lparr> bsb_type = ''text'', bsb_text = str_join (nl @ nl) system_parts,
                     bsb_cache_control = Some BedrockCacheControl_ephemeral \<rparr>])"

fun Bedrock_tool :: "Tool \<Rightarrow> BedrockTool" where
  "Bedrock_tool (TFunction f) =
     \<lparr> bt_name = fd_name f, bt_description = fd_description f,
       bt_input_schema = (case fd_parameters f of Some p \<Rightarrow> p
         | None \<Rightarrow> JObj [(''properties'', JObj []), (''type'', JStr ''object'')]),
       bt_cache_control = None \<rparr>"

definition Bedrock_mark_last :: "BedrockTool list \<Rightarrow> BedrockTool list" where
  "Bedrock_mark_last ts =
     (if ts = [] then [] else butlast ts @ [(last ts)\<lparr> bt_cache_control := Some BedrockCacheControl_ephemeral \<rparr>])"

definition Bedrock_tools :: "Request \<Rightarrow> BedrockTool list option" where
  "Bedrock_tools r =
     (let tools = map_option (map Bedrock_tool) (req_tools r)
      in if Bedrock_system r = None then map_option Bedrock_mark_last tools else tools)"

fun Bedrock_tool_choice :: "ToolChoice \<Rightarrow> BedrockToolChoice" where
  "Bedrock_tool_choice (TChoiceAuto TC_Auto) = BTC_Auto"
| "Bedrock_tool_choice (TChoiceAuto TC_Required) = BTC_Any"
| "Bedrock_tool_choice (TChoiceAuto TC_None) = BTC_Auto"
| "Bedrock_tool_choice (TChoiceFunction _ name) = BTC_Tool name"

definition transform_claude_request :: "bedrock_env \<Rightarrow> Request \<Rightarrow> BedrockClaudeRequest" where
  "transform_claude_request v r =
     \<lparr> br_anthropic_version = BEDROCK_ANTHROPIC_VERSION, br_model = req_model r,
       br_messages = Bedrock_messages v (req_input r), br_system = Bedrock_system r,
       br_max_tokens = (case req_max_output_tokens r of Some n \<Rightarrow> n | None \<Rightarrow> 4096),
       br_temperature = req_temperature r, br_top_p = req_top_p r, br_tools = Bedrock_tools r,
       br_tool_choice = map_option Bedrock_tool_choice (req_tool_choice r) \<rparr>"

subsection \<open>The body\<close>

text \<open>\<open>get_mut\<close>, \<open>last_mut\<close> and \<open>insert\<close> on a JSON value, which leave every other value as it is.\<close>

fun json_at :: "rstring \<Rightarrow> (json \<Rightarrow> json) \<Rightarrow> json \<Rightarrow> json" where
  "json_at k f (JObj m) = JObj (map (\<lambda>(k', j). (k', if k' = k then f j else j)) m)"
| "json_at k f j = j"

fun json_at_last :: "(json \<Rightarrow> json) \<Rightarrow> json \<Rightarrow> json" where
  "json_at_last f (JArr js) = JArr (if js = [] then [] else butlast js @ [f (last js)])"
| "json_at_last f j = j"

fun json_put :: "rstring \<Rightarrow> json \<Rightarrow> json \<Rightarrow> json" where
  "json_put k x (JObj m) = JObj (obj_insert k x m)"
| "json_put k x j = j"

definition mark_last_block :: "json \<Rightarrow> json" where
  "mark_last_block body =
     json_at ''messages'' (json_at_last (json_at ''content'' (json_at_last
       (json_put ''cache_control'' (JObj [(''type'', JStr (bcc_type BedrockCacheControl_ephemeral))]))))) body"

definition to_body :: "bedrock_env \<Rightarrow> BedrockClaudeRequest \<Rightarrow> rstring + rstring" where
  "to_body v req = (case be_to_value v req of Inl e \<Rightarrow> Inl e | Inr body \<Rightarrow> be_to_vec v (mark_last_block body))"

subsection \<open>Responses\<close>

fun Bedrock_items :: "bedrock_env \<Rightarrow> nat \<Rightarrow> BedrockContentBlock list \<Rightarrow> Item list" where
  "Bedrock_items v n [] = []"
| "Bedrock_items v n (BText t # bs) =
     Message (MessageItem_assistant (''msg_'' @ dec_digits n) t) # Bedrock_items v (Suc n) bs"
| "Bedrock_items v n (BToolUse i name inp # bs) =
     FunctionCall (FunctionCallItem_new (''fc_'' @ dec_digits n) i name (bytes_or_empty (be_to_string v inp)))
       # Bedrock_items v (Suc n) bs"
| "Bedrock_items v n (_ # bs) = Bedrock_items v n bs"

definition Bedrock_status :: "rstring option \<Rightarrow> ResponseStatus \<times> IncompleteReason option \<times> ResponseError option" where
  "Bedrock_status stop_reason =
     (case stop_reason of
        Some reason \<Rightarrow> if reason = ''max_tokens'' then (RS_Incomplete, Some MaxTokens, None) else (RS_Completed, None, None)
      | None \<Rightarrow> (RS_Failed, None, Some (ResponseError_new ''no_response'' ''No response from model'')))"

definition transform_claude_response ::
    "bedrock_env \<Rightarrow> rstring \<Rightarrow> clock \<Rightarrow> BedrockClaudeResponse \<Rightarrow> rstring \<Rightarrow> Response" where
  "transform_claude_response v uuid now r model =
     (let (status, incomplete_reason, err) = Bedrock_status (brp_stop_reason r);
          usage = Usage_with_cache_hits (Usage_new (total_input_tokens (brp_usage r)) (bu_output_tokens (brp_usage r)))
            (cache_read_tokens (brp_usage r));
          b = ResponseBuilder_new (''resp_bed_'' @ uuid) model;
          b = RB_status (RB_usage (RB_outputs b (Bedrock_items v 0 (brp_content r))) usage) status
      in RB_build now (finish_builder incomplete_reason err b))"

definition map_sdk_error :: "rstring \<Rightarrow> ProviderError" where
  "map_sdk_error msg =
     (if str_contains msg ''AccessDenied'' \<or> str_contains msg ''AuthFailure'' then Authentication msg
      else if str_contains msg ''ThrottlingException'' \<or> str_contains msg ''TooManyRequestsException'' then rate_limit msg
      else if str_contains msg ''ModelNotReadyException'' \<or> str_contains msg ''ModelNotFoundException''
        then ModelNotFound msg
      else if str_contains msg ''ServiceUnavailableException'' \<or> str_contains msg ''InternalServerException''
        then ServiceUnavailable msg
      else if str_contains msg ''timeout'' \<or> str_contains msg ''Timeout'' then Timeout 0
      else Network msg)"

subsection \<open>Calls\<close>

text \<open>The SDK call: the model and the body, answered by an error text or a result.\<close>

type_synonym 'r sdk_call = "rstring \<Rightarrow> rstring \<Rightarrow> rstring + 'r"

definition Bedrock_send :: "bedrock_env \<Rightarrow> 'r sdk_call \<Rightarrow> Request \<Rightarrow> ProviderError + 'r" where
  "Bedrock_send v invoke r =
     (case check_model_family (req_model r) of
        Some e \<Rightarrow> Inl e
      | None \<Rightarrow>
          (case to_body v (transform_claude_request v r) of
             Inl e \<Rightarrow> Inl (Internal (''Failed to serialize request: '' @ e))
           | Inr body \<Rightarrow> map_sum map_sdk_error id (invoke (req_model r) body)))"

definition Bedrock_complete ::
    "bedrock_env \<Rightarrow> rstring sdk_call \<Rightarrow> rstring \<Rightarrow> clock \<Rightarrow> Request \<Rightarrow> ProviderError + Response" where
  "Bedrock_complete v invoke uuid now r =
     (case Bedrock_send v invoke r of
        Inl e \<Rightarrow> Inl e
      | Inr body \<Rightarrow>
          (case be_response v body of
             Inl e \<Rightarrow> Inl (ParseError (''Failed to parse Bedrock response: '' @ e))
           | Inr reply \<Rightarrow> Inr (transform_claude_response v uuid now reply (req_model r))))"

subsection \<open>The event stream\<close>

record BedrockStreamState =
  bs_response_id :: rstring
  bs_model :: rstring
  bs_text :: rstring
  bs_calls :: call_map
  bs_input_tokens :: u32
  bs_cached_tokens :: u32
  bs_output_tokens :: u32
  bs_sent_created :: bool
  bs_sent_in_progress :: bool
  bs_item_added :: bool
  bs_part_added :: bool
  bs_done :: bool

definition BedrockStreamState_new :: "rstring \<Rightarrow> rstring \<Rightarrow> BedrockStreamState" where
  "BedrockStreamState_new uuid model =
     \<lparr> bs_response_id = ''resp_bed_'' @ uuid, bs_model = model, bs_text = [], bs_calls = [], bs_input_tokens = 0,
       bs_cached_tokens = 0, bs_output_tokens = 0, bs_sent_created = False, bs_sent_in_progress = False,
       bs_item_added = False, bs_part_added = False, bs_done = False \<rparr>"

definition Bedrock_in_progress :: "clock \<Rightarrow> BedrockStreamState \<Rightarrow> Response" where
  "Bedrock_in_progress now s = Response_in_progress now (bs_response_id s) (bs_model s)"

definition Bedrock_filler :: "clock \<Rightarrow> BedrockStreamState \<Rightarrow> BedrockStreamState \<times> stream_item" where
  "Bedrock_filler now s = (s, Inr (response_in_progress (Bedrock_in_progress now s)))"

definition Bedrock_final :: "bedrock_env \<Rightarrow> clock \<Rightarrow> BedrockStreamState \<Rightarrow> Response" where
  "Bedrock_final v now s =
     RB_build now (RB_completed (RB_usage
       (RB_outputs (ResponseBuilder_new (bs_response_id s) (bs_model s))
         (text_item (bs_text s) @ map call_item (be_order v (bs_calls s))))
       (Usage_with_cache_hits (Usage_new (bs_input_tokens s) (bs_output_tokens s)) (bs_cached_tokens s))))"

fun Bedrock_block_start ::
    "clock \<Rightarrow> usize \<Rightarrow> BedrockContentBlock \<Rightarrow> BedrockStreamState \<Rightarrow> BedrockStreamState \<times> stream_item" where
  "Bedrock_block_start now index (BToolUse i name inp) s =
     Bedrock_filler now (s\<lparr> bs_calls := update_entry index (\<lambda>c. c\<lparr> ptc_id := i, ptc_name := name \<rparr>) (bs_calls s) \<rparr>)"
| "Bedrock_block_start now index (BText t) s =
     (if \<not> bs_item_added s then
        (s\<lparr> bs_item_added := True \<rparr>, Inr (output_item_added 0 (Message (MessageItem_assistant ''msg_0'' []))))
      else Bedrock_filler now s)"
| "Bedrock_block_start now index _ s = Bedrock_filler now s"

fun Bedrock_block_delta :: "clock \<Rightarrow> usize \<Rightarrow> BedrockDelta \<Rightarrow> BedrockStreamState \<Rightarrow> BedrockStreamState \<times> stream_item" where
  "Bedrock_block_delta now index (BTextDelta t) s =
     (if \<not> bs_part_added s then (s\<lparr> bs_part_added := True \<rparr>, Inr (content_part_added 0 0 ''text''))
      else (s\<lparr> bs_text := bs_text s @ t \<rparr>, Inr (output_text_delta 0 0 t)))"
| "Bedrock_block_delta now index (BInputJsonDelta partial) s =
     (if map_of (bs_calls s) index = None then Bedrock_filler now s
      else (s\<lparr> bs_calls := update_entry index (\<lambda>c. c\<lparr> ptc_arguments := ptc_arguments c @ partial \<rparr>) (bs_calls s) \<rparr>,
            Inr (function_call_arguments_delta index partial)))"

definition final_stop :: "rstring option \<Rightarrow> bool" where
  "final_stop stop \<longleftrightarrow> stop \<in> {Some ''end_turn'', Some ''tool_use'', Some ''stop_sequence''}"

fun Bedrock_event ::
    "bedrock_env \<Rightarrow> clock \<Rightarrow> BedrockStreamEvent \<Rightarrow> BedrockStreamState \<Rightarrow> BedrockStreamState \<times> stream_item" where
  "Bedrock_event v now (BMessageStart u) s =
     Bedrock_filler now (s\<lparr> bs_input_tokens := total_input_tokens u, bs_cached_tokens := cache_read_tokens u \<rparr>)"
| "Bedrock_event v now (BContentBlockStart index b) s = Bedrock_block_start now index b s"
| "Bedrock_event v now (BContentBlockDelta index d) s = Bedrock_block_delta now index d s"
| "Bedrock_event v now (BContentBlockStop index) s = Bedrock_filler now s"
| "Bedrock_event v now (BMessageDelta stop usage) s =
     (let s = s\<lparr> bs_output_tokens := or_keep (Option.bind usage id) (bs_output_tokens s) \<rparr>
      in if final_stop stop then (s\<lparr> bs_done := True \<rparr>, Inr (response_completed (Bedrock_final v now s)))
         else Bedrock_filler now s)"
| "Bedrock_event v now BMessageStop s = Bedrock_filler now s"

fun sdk_step :: "bedrock_env \<Rightarrow> clock \<Rightarrow> sdk_event \<Rightarrow> BedrockStreamState \<Rightarrow> BedrockStreamState \<times> stream_item" where
  "sdk_step v now (SE_Chunk bytes) s =
     (case be_event v (bytes_or_empty bytes) of
        Some ev \<Rightarrow> Bedrock_event v now ev s
      | None \<Rightarrow> Bedrock_filler now s)"
| "sdk_step v now SE_Unknown s = Bedrock_filler now s"
| "sdk_step v now (SE_Error e) s = (s, Inl (StreamError e))"

text \<open>One poll: nothing after the completed response or the end of the SDK's stream.\<close>

definition Bedrock_poll ::
    "bedrock_env \<Rightarrow> clock \<Rightarrow> BedrockStreamState \<Rightarrow> sdk_event list
      \<Rightarrow> (stream_item \<times> BedrockStreamState \<times> sdk_event list) option" where
  "Bedrock_poll v now s evs =
     (if bs_done s then None
      else if \<not> bs_sent_created s then
        Some (Inr (response_created (Bedrock_in_progress now s)), s\<lparr> bs_sent_created := True \<rparr>, evs)
      else if \<not> bs_sent_in_progress s then
        Some (Inr (response_in_progress (Bedrock_in_progress now s)), s\<lparr> bs_sent_in_progress := True \<rparr>, evs)
      else case evs of
        [] \<Rightarrow> None
      | ev # evs' \<Rightarrow> (let (s', e) = sdk_step v now ev s in Some (e, s', evs')))"

definition Bedrock_complete_stream ::
    "bedrock_env \<Rightarrow> sdk_event list sdk_call \<Rightarrow> rstring \<Rightarrow> Request
      \<Rightarrow> ProviderError + BedrockStreamState \<times> sdk_event list" where
  "Bedrock_complete_stream v invoke uuid r =
     map_sum id (\<lambda>evs. (BedrockStreamState_new uuid (req_model r), evs)) (Bedrock_send v invoke r)"

primrec Bedrock_events ::
    "nat \<Rightarrow> bedrock_env \<Rightarrow> (nat \<Rightarrow> clock) \<Rightarrow> nat \<Rightarrow> BedrockStreamState \<Rightarrow> sdk_event list \<Rightarrow> stream_item list" where
  "Bedrock_events 0 v clock k s evs = []"
| "Bedrock_events (Suc n) v clock k s evs =
     (case Bedrock_poll v (clock k) s evs of
        None \<Rightarrow> []
      | Some (e, s', evs') \<Rightarrow> e # Bedrock_events n v clock (Suc k) s' evs')"

subsection \<open>The same as the Anthropic adapter\<close>

text \<open>What the native adapter sends for each block, message, tool and choice.\<close>

fun native_block :: "BedrockContentBlock \<Rightarrow> AnthropicContentBlock" where
  "native_block (BText t) = AText t"
| "native_block (BImage s) =
     AImage \<lparr> ais_type = bis_type s, ais_media_type = bis_media_type s, ais_data = bis_data s \<rparr>"
| "native_block (BToolUse i name inp) = AToolUse i name inp"
| "native_block (BToolResult i content err) = AToolResult i content err"

definition native_message :: "BedrockMessage \<Rightarrow> AnthropicMessage" where
  "native_message m = \<lparr> am_role = bm_role m, am_content = map native_block (bm_content m) \<rparr>"

definition native_cache :: "BedrockCacheControl \<Rightarrow> AnthropicCacheControl" where
  "native_cache c = \<lparr> acc_type = bcc_type c \<rparr>"

definition native_system :: "BedrockSystemBlock \<Rightarrow> AnthropicSystemBlock" where
  "native_system b =
     \<lparr> asb_type = bsb_type b, asb_text = bsb_text b, asb_cache_control = map_option native_cache (bsb_cache_control b) \<rparr>"

definition native_tool :: "BedrockTool \<Rightarrow> AnthropicTool" where
  "native_tool t =
     \<lparr> at_name = bt_name t, at_description = bt_description t, at_input_schema = bt_input_schema t,
       at_cache_control = map_option native_cache (bt_cache_control t) \<rparr>"

fun native_choice :: "BedrockToolChoice \<Rightarrow> AnthropicToolChoice" where
  "native_choice BTC_Auto = ATC_Auto"
| "native_choice BTC_Any = ATC_Any"
| "native_choice (BTC_Tool name) = ATC_Tool name"

text \<open>The request of the native adapter for a Bedrock request, given the fields that only it has.\<close>

definition native_request :: "Request \<Rightarrow> BedrockClaudeRequest \<Rightarrow> AnthropicRequest" where
  "native_request r b =
     \<lparr> ar_model = br_model b, ar_messages = map native_message (br_messages b),
       ar_system = map_option (map native_system) (br_system b), ar_max_tokens = br_max_tokens b,
       ar_temperature = br_temperature b, ar_top_p = br_top_p b, ar_stream = Some (req_stream r),
       ar_tools = map_option (map native_tool) (br_tools b), ar_tool_choice = map_option native_choice (br_tool_choice b),
       ar_metadata = map_option (\<lambda>u. \<lparr> amd_user_id = u \<rparr>) (req_user r),
       ar_cache_control = Some AnthropicCacheControl_ephemeral \<rparr>"

text \<open>Batching commutes with a renaming of calls and messages.\<close>

lemma batch_calls_map:
  assumes "\<And>i. step' i = map_sum f (map g) (step i)" "\<And>cs. batch' (map f cs) = g (batch cs)"
  shows "batch_calls batch' step' (map f pending) is = map g (batch_calls batch step pending is)"
proof (induction "is" arbitrary: pending)
  case (Cons i "is")
  from Cons.IH [of "pending @ [c]" for c] Cons.IH [of "[]"] show ?case
    by (cases "step i") (simp_all add: assms flush_pending_def)
qed (simp add: assms flush_pending_def)

lemma native_content_part: "native_block (Bedrock_content_part p) = Anthropic_content_part p"
  by (cases p) (simp_all split: option.split)

lemma native_content: "map native_block (Bedrock_content c) = Anthropic_content c"
  by (cases c) (simp_all add: native_content_part)

lemma native_messages:
  assumes "ae_value w = be_value v"
  shows "map native_message (Bedrock_messages v inp) = Anthropic_messages w inp"
proof -
  have "Bedrock_role x = Anthropic_role x" for x by (cases x) simp_all
  then have "Anthropic_step w i = map_sum native_block (map native_message) (Bedrock_step v i)" for i
    by (cases i) (simp_all add: assms native_message_def native_content split: option.split)
  moreover have "Anthropic_batch (map native_block cs) = native_message (Bedrock_batch cs)" for cs
    by (simp add: Anthropic_batch_def Bedrock_batch_def native_message_def)
  ultimately show ?thesis
    using batch_calls_map [of "Anthropic_step w" native_block native_message "Bedrock_step v" Anthropic_batch Bedrock_batch "[]" inp]
    by (simp add: Bedrock_messages_def Anthropic_messages_def)
qed

lemma native_system_texts: "Bedrock_system_texts = system_texts"
proof
  show "Bedrock_system_texts i = system_texts i" for i by (cases i rule: system_texts.cases) simp_all
qed

lemma native_cache_ephemeral: "native_cache BedrockCacheControl_ephemeral = AnthropicCacheControl_ephemeral"
  by (simp add: native_cache_def BedrockCacheControl_ephemeral_def AnthropicCacheControl_ephemeral_def)

lemma native_tools:
  "native_tool (Bedrock_tool t) = Anthropic_tool t"
  "map native_tool (Bedrock_mark_last ts) = mark_last (map native_tool ts)"
proof -
  show "native_tool (Bedrock_tool t) = Anthropic_tool t" by (cases t) (simp add: native_tool_def)
  show "map native_tool (Bedrock_mark_last ts) = mark_last (map native_tool ts)"
    by (cases ts rule: rev_cases) (simp_all add: Bedrock_mark_last_def mark_last_def native_tool_def native_cache_ephemeral)
qed

lemma native_prefix:
  "(map_option (map native_system) (Bedrock_system r), map_option (map native_tool) (Bedrock_tools r)) =
     place_cache_breakpoints (Anthropic_extract_system_prompt r) (map_option (map Anthropic_tool) (req_tools r))"
proof -
  have *: "map (native_tool \<circ> Bedrock_tool) ts = map Anthropic_tool ts" for ts by (simp add: native_tools)
  show ?thesis
    by (cases "req_tools r")
      (auto simp: place_cache_breakpoints_def Anthropic_extract_system_prompt_def Bedrock_system_def Bedrock_tools_def
        native_system_texts native_system_def native_cache_ephemeral native_tools * Let_def)
qed

lemma native_tool_choice: "native_choice (Bedrock_tool_choice c) = Anthropic_tool_choice c"
  by (cases c rule: Anthropic_tool_choice.cases) simp_all

lemma native_transform_request:
  assumes "ae_value w = be_value v"
  shows "native_request r (transform_claude_request v r) = Anthropic_transform_request w r"
proof -
  have c: "map_option native_choice (map_option Bedrock_tool_choice x) = map_option Anthropic_tool_choice x" for x
    by (cases x) (simp_all add: native_tool_choice)
  show ?thesis
    unfolding Anthropic_transform_request_def native_prefix [symmetric]
    by (simp add: native_request_def transform_claude_request_def native_messages [OF assms] c)
qed

lemma native_items:
  assumes "ae_to_string w = be_to_string v"
  shows "Anthropic_items w n (map native_block bs) = Bedrock_items v n bs"
  using assms by (induction v n bs rule: Bedrock_items.induct) simp_all

definition native_reply :: "rstring \<Rightarrow> BedrockClaudeResponse \<Rightarrow> AnthropicResponse" where
  "native_reply x r =
     \<lparr> arp_id = x, arp_content = map native_block (brp_content r), arp_stop_reason = brp_stop_reason r,
       arp_usage = \<lparr> au_input_tokens = bu_input_tokens (brp_usage r), au_output_tokens = bu_output_tokens (brp_usage r),
         au_cache_creation = bu_cache_creation (brp_usage r), au_cache_read = bu_cache_read (brp_usage r) \<rparr> \<rparr>"

lemma native_response:
  assumes "ae_to_string w = be_to_string v"
  shows "transform_claude_response v uuid now r model =
     Anthropic_transform_response w now (native_reply x r) model
     \<lparr> resp_id := ''resp_bed_'' @ uuid \<rparr>"
  by (simp add: native_reply_def transform_claude_response_def Anthropic_transform_response_def native_items [OF assms] Bedrock_status_def
      Anthropic_status_def AnthropicUsage_to_usage_def total_input_tokens_def cache_read_tokens_def Let_def
      finish_builder_def RB_build_def RB_status_def RB_usage_def RB_outputs_def ResponseBuilder_new_def
      RB_incomplete_def RB_failed_def split: option.split)

subsection \<open>The streamed text\<close>

text \<open>The stream after the two announcements: one event for every event of the SDK until it is done.\<close>

primrec Bedrock_run :: "bedrock_env \<Rightarrow> (nat \<Rightarrow> clock) \<Rightarrow> nat \<Rightarrow> BedrockStreamState \<Rightarrow> sdk_event list \<Rightarrow> stream_item list" where
  "Bedrock_run v clock k s [] = []"
| "Bedrock_run v clock k s (ev # evs) =
     (if bs_done s then [] else let (s', e) = sdk_step v (clock k) ev s in e # Bedrock_run v clock (Suc k) s' evs)"

lemma block_start_flags [simp]:
  "bs_sent_created (fst (Bedrock_block_start now index b s)) = bs_sent_created s"
  "bs_sent_in_progress (fst (Bedrock_block_start now index b s)) = bs_sent_in_progress s"
  by (cases b; simp add: Bedrock_filler_def)+

lemma block_delta_flags [simp]:
  "bs_sent_created (fst (Bedrock_block_delta now index d s)) = bs_sent_created s"
  "bs_sent_in_progress (fst (Bedrock_block_delta now index d s)) = bs_sent_in_progress s"
  by (cases d; simp add: Bedrock_filler_def)+

lemma event_flags [simp]:
  "bs_sent_created (fst (Bedrock_event v now ev s)) = bs_sent_created s"
  "bs_sent_in_progress (fst (Bedrock_event v now ev s)) = bs_sent_in_progress s"
  by (cases ev; simp add: Bedrock_filler_def Let_def)+

lemma sdk_step_flags:
  "sdk_step v now ev s = (s', e) \<Longrightarrow> bs_sent_created s' = bs_sent_created s \<and> bs_sent_in_progress s' = bs_sent_in_progress s"
proof (induction v now ev s rule: sdk_step.induct)
  case (1 v now bytes s)
  then show ?case
    by (auto simp: Bedrock_filler_def simp flip: fst_eqD split: option.splits
        dest!: arg_cong [where f = "\<lambda>p. (bs_sent_created (fst p), bs_sent_in_progress (fst p))"])
qed (auto simp: Bedrock_filler_def)

lemma Bedrock_events_run:
  "bs_sent_created s \<Longrightarrow> bs_sent_in_progress s \<Longrightarrow> Bedrock_events n v clock k s evs = take n (Bedrock_run v clock k s evs)"
proof (induction n arbitrary: k s evs)
  case (Suc n)
  then show ?case
    by (cases evs) (auto simp: Bedrock_poll_def dest: sdk_step_flags split: prod.splits)
qed simp

lemma Bedrock_events_new:
  assumes "2 \<le> n"
  shows "Bedrock_events n v clock 0 (BedrockStreamState_new u m) evs =
    [Inr (response_created (Bedrock_in_progress (clock 0) (BedrockStreamState_new u m))),
     Inr (response_in_progress (Bedrock_in_progress (clock 1) (BedrockStreamState_new u m)))]
    @ take (n - 2) (Bedrock_run v clock 2
        ((BedrockStreamState_new u m)\<lparr> bs_sent_created := True, bs_sent_in_progress := True \<rparr>) evs)"
proof -
  obtain n' where n: "n = Suc (Suc n')" using assms by (metis add_2_eq_Suc le_Suc_ex)
  show ?thesis
    by (simp add: n Bedrock_poll_def BedrockStreamState_new_def Bedrock_in_progress_def Bedrock_events_run numeral_2_eq_2)
qed

lemma Response_text_Bedrock_final [simp]: "Response_text (Bedrock_final v now s) = bs_text s"
  unfolding Response_text_def Bedrock_final_def
  by (simp add: RB_build_def RB_completed_def RB_usage_def RB_outputs_def text_of_output)

text \<open>The text that an SDK event brings, and whether it completes the response.\<close>

definition sdk_text :: "bedrock_env \<Rightarrow> sdk_event \<Rightarrow> rstring option" where
  "sdk_text v ev =
     (case ev of
        SE_Chunk bytes \<Rightarrow>
          (case be_event v (bytes_or_empty bytes) of Some (BContentBlockDelta _ (BTextDelta t)) \<Rightarrow> Some t | _ \<Rightarrow> None)
      | _ \<Rightarrow> None)"

definition sdk_completes :: "bedrock_env \<Rightarrow> sdk_event \<Rightarrow> bool" where
  "sdk_completes v ev \<longleftrightarrow>
     (case ev of
        SE_Chunk bytes \<Rightarrow>
          (case be_event v (bytes_or_empty bytes) of Some (BMessageDelta stop _) \<Rightarrow> final_stop stop | _ \<Rightarrow> False)
      | _ \<Rightarrow> False)"

lemma Bedrock_event_text:
  assumes "Bedrock_event v now ev s = (s', e)" "\<not> bs_done s"
  shows "bs_text s' = bs_text s @ item_delta e \<and> item_completes (bs_text s) e \<and>
     (bs_done s' \<longleftrightarrow> (\<exists>stop u. ev = BMessageDelta stop u \<and> final_stop stop)) \<and>
     (case ev of
        BContentBlockDelta _ (BTextDelta t) \<Rightarrow> bs_part_added s' \<and> item_delta e = (if bs_part_added s then t else [])
      | _ \<Rightarrow> bs_part_added s' = bs_part_added s \<and> item_delta e = [])"
  using assms
  by (cases ev)
    (auto simp: Bedrock_filler_def Let_def stream_events response_in_progress_def split: if_splits BedrockDelta.splits
      elim!: Bedrock_block_start.elims Bedrock_block_delta.elims)

lemma sdk_step_text:
  assumes "sdk_step v now ev s = (s', e)" "\<not> bs_done s"
  shows "bs_text s' = bs_text s @ item_delta e \<and> item_completes (bs_text s) e \<and> (bs_done s' \<longleftrightarrow> sdk_completes v ev) \<and>
     (case sdk_text v ev of
        Some t \<Rightarrow> bs_part_added s' \<and> item_delta e = (if bs_part_added s then t else [])
      | None \<Rightarrow> bs_part_added s' = bs_part_added s \<and> item_delta e = [])"
proof (cases ev)
  case (SE_Chunk bytes)
  show ?thesis
  proof (cases "be_event v (bytes_or_empty bytes)")
    case None
    with SE_Chunk assms show ?thesis
      by (auto simp: sdk_text_def sdk_completes_def Bedrock_filler_def response_in_progress_def)
  next
    case (Some be)
    with SE_Chunk assms have "Bedrock_event v now be s = (s', e)" by simp
    from Bedrock_event_text [OF this assms(2)] show ?thesis
      by (cases be) (auto simp: sdk_text_def sdk_completes_def SE_Chunk Some split: BedrockDelta.splits)
  qed
qed (use assms in \<open>auto simp: sdk_text_def sdk_completes_def Bedrock_filler_def response_in_progress_def\<close>)

definition sdk_texts :: "bedrock_env \<Rightarrow> sdk_event list \<Rightarrow> rstring list" where
  "sdk_texts v evs = List.map_filter (sdk_text v) (takeWhile (\<lambda>ev. \<not> sdk_completes v ev) evs)"

lemma Bedrock_run_done: "bs_done s \<Longrightarrow> Bedrock_run v clock k s evs = []"
  by (cases evs) simp_all

lemma sdk_completes_text: "sdk_completes v ev \<Longrightarrow> sdk_text v ev = None"
  by (auto simp: sdk_completes_def sdk_text_def split: sdk_event.splits option.splits BedrockStreamEvent.splits)

lemma Bedrock_run_text:
  "\<not> bs_done s \<Longrightarrow> completed_ok (bs_text s) (Bedrock_run v clock k s evs) \<and>
     delta_text (Bedrock_run v clock k s evs) =
       concat (if bs_part_added s then sdk_texts v evs else tl (sdk_texts v evs))"
proof (induction evs arbitrary: k s)
  case (Cons ev evs)
  obtain s' e where step: "sdk_step v (clock k) ev s = (s', e)" by fastforce
  note one = sdk_step_text [OF step Cons.prems]
  show ?case
  proof (cases "sdk_completes v ev")
    case True
    with one step Cons.prems sdk_completes_text [OF True] show ?thesis
      by (simp add: Bedrock_run_done sdk_texts_def List.map_filter_simps)
  next
    case False
    with one have live: "\<not> bs_done s'" by simp
    with one step False Cons.prems Cons.IH [OF live, of "Suc k"] show ?thesis
      by (auto simp: sdk_texts_def List.map_filter_simps split: option.splits)
  qed
qed (simp add: sdk_texts_def List.map_filter_simps)

definition sdk_streams :: "bedrock_env \<Rightarrow> sdk_event list \<Rightarrow> rstring \<Rightarrow> bool" where
  "sdk_streams v evs s \<longleftrightarrow> (\<forall>clock u m. \<exists>N. \<forall>n \<ge> N.
     delta_text (Bedrock_events n v clock 0 (BedrockStreamState_new u m) evs) = s)"

lemma Bedrock_streams: "sdk_streams v evs (concat (tl (sdk_texts v evs)))"
  unfolding sdk_streams_def
proof (intro allI exI impI)
  fix clock u m n
  let ?s = "(BedrockStreamState_new u m)\<lparr> bs_sent_created := True, bs_sent_in_progress := True \<rparr>"
  assume "length (Bedrock_run v clock 2 ?s evs) + 2 \<le> n"
  then show "delta_text (Bedrock_events n v clock 0 (BedrockStreamState_new u m) evs) = concat (tl (sdk_texts v evs))"
    using Bedrock_run_text [of ?s v clock 2 evs]
    by (simp add: Bedrock_events_new response_created_def response_in_progress_def) (simp add: BedrockStreamState_new_def)
qed

text \<open>A completed response has the text streamed before it.\<close>

definition sdk_completes_with_streamed :: "bedrock_env \<Rightarrow> bool" where
  "sdk_completes_with_streamed v \<longleftrightarrow> (\<forall>n clock u m evs es r fs.
     Bedrock_events n v clock 0 (BedrockStreamState_new u m) evs = es @ Inr (ResponseCompleted r) # fs
       \<longrightarrow> Response_text r = delta_text es)"

lemma completed_ok_take: "completed_ok s es \<Longrightarrow> completed_ok s (take n es)"
  by (metis append_take_drop_id completed_ok_append)

lemma Bedrock_completed:
  assumes "Bedrock_events n v clock 0 (BedrockStreamState_new u m) evs = es @ Inr (ResponseCompleted r) # fs"
  shows "Response_text r = delta_text es"
proof -
  let ?s = "(BedrockStreamState_new u m)\<lparr> bs_sent_created := True, bs_sent_in_progress := True \<rparr>"
  have run: "completed_ok [] (Bedrock_run v clock 2 ?s evs)"
    using Bedrock_run_text [of ?s v clock 2 evs] by (simp add: BedrockStreamState_new_def)
  have "completed_ok [] (Bedrock_events (n + 2) v clock 0 (BedrockStreamState_new u m) evs)"
    using completed_ok_take [OF run, of n]
    by (simp add: Bedrock_events_new response_created_def response_in_progress_def del: Bedrock_events.simps)
  moreover have "take k (Bedrock_events (k + j) v clock i s evs) = Bedrock_events k v clock i s evs" for k j i s evs
    by (induction k arbitrary: i s evs) (simp_all split: option.splits)
  ultimately have "completed_ok [] (Bedrock_events n v clock 0 (BedrockStreamState_new u m) evs)"
    by (metis completed_ok_take)
  with assms show ?thesis by (auto simp: completed_ok_iff)
qed

lemma Bedrock_completes: "sdk_completes_with_streamed v"
  unfolding sdk_completes_with_streamed_def using Bedrock_completed by blast

end
