(* ===== verification/Startup.thy ===== *)
theory Startup
  imports Settings OpenAI Anthropic Gemini Chat_Adapters Together Bedrock
begin

text \<open>
  How the gateway starts (\<open>AppState::new\<close> in \<open>aura-proxy/src/main.rs\<close>): the providers whose keys are
  configured, the map from models to providers, the prices, the catalog and the router. The orders
  in which the two hash maps are read are parameters. The constructor of the Bedrock provider is
  waited for with \<open>Handle::block_on\<close> inside an asynchronous function, which tokio documents to panic.
\<close>

record ProviderConfig =
  pc_openai_api_key :: "rstring option"
  pc_anthropic_api_key :: "rstring option"
  pc_google_api_key :: "rstring option"
  pc_mistral_api_key :: "rstring option"
  pc_together_api_key :: "rstring option"
  pc_fireworks_api_key :: "rstring option"
  pc_huggingface_api_key :: "rstring option"
  pc_huggingface_endpoint_url :: "rstring option"
  pc_huggingface_model :: "rstring option"
  pc_ollama_base_url :: "rstring option"
  pc_aws_region :: "rstring option"

record PricingRow =
  pr_model_id :: rstring
  pr_provider_name :: rstring
  pr_capabilities :: "rstring list"
  pr_good_at :: "rstring option"
  pr_context_window :: "i32 option"
  pr_max_output_tokens :: "i32 option"
  pr_input_per_million :: f64
  pr_output_per_million :: f64
  pr_cached_input_per_million :: "f64 option"

record start_env =
  se_env :: env
  se_model_order :: "(rstring \<rightharpoonup> rstring) \<Rightarrow> (rstring \<times> rstring) list"
  se_provider_order :: "(rstring \<times> provider) list \<Rightarrow> (rstring \<times> provider) list"

type_synonym registry = "(rstring \<times> provider) list \<times> (rstring \<rightharpoonup> rstring)"

definition register :: "rstring \<Rightarrow> provider \<Rightarrow> registry \<Rightarrow> registry" where
  "register name p g =
     (case g of (providers, model_map) \<Rightarrow>
        (providers @ [(name, p)], fold (\<lambda>model mm. mm(model \<mapsto> name)) (pv_models p) model_map))"

definition register_when :: "rstring option \<Rightarrow> rstring \<Rightarrow> provider \<Rightarrow> registry \<Rightarrow> registry" where
  "register_when key name p g = (case key of Some _ \<Rightarrow> register name p g | None \<Rightarrow> g)"

definition register_huggingface :: "ProviderConfig \<Rightarrow> registry \<Rightarrow> registry" where
  "register_huggingface c g =
     (case (pc_huggingface_api_key c, pc_huggingface_endpoint_url c) of
        (Some _, Some _) \<Rightarrow>
          (case g of (providers, model_map) \<Rightarrow>
             (providers @ [(''huggingface'', HuggingFace_provider)],
              case pc_huggingface_model c of Some m \<Rightarrow> model_map(m \<mapsto> ''huggingface'') | None \<Rightarrow> model_map))
      | _ \<Rightarrow> g)"

definition registered :: "ProviderConfig \<Rightarrow> registry" where
  "registered c =
     register_huggingface c
       (register_when (pc_ollama_base_url c) ''ollama'' Ollama_provider
       (register_when (pc_fireworks_api_key c) ''fireworks'' Fireworks_provider
       (register_when (pc_together_api_key c) ''together'' Together_provider
       (register_when (pc_mistral_api_key c) ''mistral'' Mistral_provider
       (register_when (pc_google_api_key c) ''google'' Gemini_provider
       (register_when (pc_anthropic_api_key c) ''anthropic'' Anthropic_provider
       (register_when (pc_openai_api_key c) ''openai'' OpenAI_provider ([], Map.empty))))))))"

text \<open>\<open>u32::try_from(c).ok()\<close>.\<close>

definition u32_of_i32 :: "i32 \<Rightarrow> u32 option" where
  "u32_of_i32 n = (if 0 \<le> sint n then Some n else None)"

definition catalog_source :: "PricingRow \<Rightarrow> CatalogSource" where
  "catalog_source r =
     \<lparr> cs_model_id = pr_model_id r, cs_provider = pr_provider_name r, cs_capabilities = pr_capabilities r,
       cs_good_at = pr_good_at r, cs_context_window = Option.bind (pr_context_window r) u32_of_i32,
       cs_max_output_tokens = Option.bind (pr_max_output_tokens r) u32_of_i32,
       cs_input_per_million = Some (pr_input_per_million r), cs_output_per_million = Some (pr_output_per_million r) \<rparr>"

definition scraped_pricing :: "PricingRow \<Rightarrow> ScrapedPricing" where
  "scraped_pricing r =
     \<lparr> sp_provider = pr_provider_name r, sp_scraped_model_id = pr_model_id r,
       sp_input_per_million = pr_input_per_million r, sp_output_per_million = pr_output_per_million r,
       sp_cached_input_per_million = pr_cached_input_per_million r \<rparr>"

text \<open>The rows of the price table, when there is a database that answers.\<close>

definition start_prices :: "(rstring + PricingRow list) option \<Rightarrow> CatalogSource list \<times> CostCalculator" where
  "start_prices rows =
     (case rows of
        Some (Inr rs) \<Rightarrow> (map catalog_source rs, fst (apply_db_pricing CostCalculator_new (map scraped_pricing rs) 0))
      | _ \<Rightarrow> ([], CostCalculator_new))"

definition start_catalog :: "start_env \<Rightarrow> (rstring \<rightharpoonup> rstring) \<Rightarrow> CatalogSource list \<Rightarrow> CostCalculator \<Rightarrow> ModelCatalog" where
  "start_catalog E model_map sources prices =
     ModelCatalog_fill_prices (ModelCatalog_build (se_model_order E model_map) sources api_slug_for_scraped)
       (\<lambda>m. map_option (\<lambda>p. (mp_input_per_million p, mp_output_per_million p)) (get_pricing prices m))"

definition AppState_new ::
    "start_env \<Rightarrow> ProviderConfig \<Rightarrow> boot_config \<Rightarrow> (rstring + PricingRow list) option \<Rightarrow> operator_state panics" where
  "AppState_new E providers c rows =
     (case pc_aws_region providers of
        Some region \<Rightarrow> None
      | None \<Rightarrow>
          (let (regs, model_map) = registered providers;
               (sources, prices) = start_prices rows;
               st = \<lparr> as_config = bc_auto c, as_providers = se_provider_order E regs, as_model_map = model_map,
                      as_cost_calculator = prices, as_auto_router = None, as_router_dropped = [],
                      as_model_catalog = start_catalog E model_map sources prices, as_arm_stats = Map.empty,
                      as_learned_model = None, as_cost_model = None, as_model_breaker = Map.empty \<rparr>
           in Some (booted (se_env E) c st)))"

subsection \<open>Every mapped model has a provider\<close>

definition mapped :: "registry \<Rightarrow> bool" where
  "mapped g \<longleftrightarrow> (\<forall>m n. snd g m = Some n \<longrightarrow> n \<in> fst ` set (fst g))"

lemma fold_upd: "fold (\<lambda>m mm. mm(m \<mapsto> n)) ms mm x = (if x \<in> set ms then Some n else mm x)"
  by (induction ms arbitrary: mm) auto

lemma mapped_register: "mapped g \<Longrightarrow> mapped (register n p g)"
  by (auto simp: mapped_def register_def fold_upd split: prod.splits if_splits)

lemma mapped_register_when: "mapped g \<Longrightarrow> mapped (register_when k n p g)"
  by (simp add: register_when_def mapped_register split: option.split)

lemma mapped_huggingface: "mapped g \<Longrightarrow> mapped (register_huggingface c g)"
  by (auto simp: mapped_def register_huggingface_def split: option.splits prod.splits if_splits)

lemma mapped_registered: "mapped (registered c)"
  unfolding registered_def by (intro mapped_huggingface mapped_register_when) (simp add: mapped_def)

text \<open>A provider listed for a model serves it: \<open>get_provider\<close> finds one for every mapped model.\<close>

lemma started_serves:
  assumes "AppState_new E providers c rows = Some st" "set (se_provider_order E (fst (registered providers))) = set (fst (registered providers))"
    and "as_model_map (op_gateway st) m = Some n"
  shows "get_provider (op_gateway st) m \<noteq> None"
proof -
  obtain regs mm where r: "registered providers = (regs, mm)" by fastforce
  have st: "as_model_map (op_gateway st) = mm" "as_providers (op_gateway st) = se_provider_order E regs"
    using assms(1) by (auto simp: AppState_new_def r booted_def Let_def split: option.splits prod.splits)
  then have "n \<in> fst ` set (se_provider_order E regs)"
    using mapped_registered [of providers] assms(2,3) by (auto simp: mapped_def r)
  then show ?thesis using assms(3) st by (simp add: get_provider_def map_of_eq_None_iff)
qed

text \<open>With Hugging Face configured, nothing is dropped from the tiers: it claims every model.\<close>

lemma huggingface_claims_all:
  assumes "(''huggingface'', HuggingFace_provider) \<in> set (as_providers st)" "m \<noteq> []"
  shows "provider_name_for_catalog_model st m \<noteq> None"
proof (cases "as_model_map st m")
  case None
  have "find (\<lambda>(_, p). pv_supports p m) (filter (\<lambda>(name, _). name \<noteq> ''ollama'') (as_providers st)) \<noteq> None"
    using assms unfolding find_None_iff
    by (auto intro!: exI [of _ "''huggingface''"] exI [of _ HuggingFace_provider] simp: HuggingFace_provider_def)
  with None show ?thesis by (simp add: provider_name_for_catalog_model_def)
qed (simp add: provider_name_for_catalog_model_def)

end
