(* ===== verification/Exchange_Facts.thy ===== *)
theory Exchange_Facts
  imports Create_Response Auth_Facts
begin

text \<open>
  What handling a request does to the database: it keeps the invariant, records the usage of the key
  before anything that can panic, and stores what the next request of the conversation needs.
\<close>

subsection \<open>What handling a request keeps\<close>

text \<open>The operations of the handler and of authentication; everything else they do is reading.\<close>

fun serving_op :: "db_op \<Rightarrow> bool" where
  "serving_op (Create_conversation _) = True"
| "serving_op (Upsert_end_user _) = True"
| "serving_op (Create_log _) = True"
| "serving_op (Create_usage _) = True"
| "serving_op (Upsert_decision _) = True"
| "serving_op (Create_response _) = True"
| "serving_op (Create_message _) = True"
| "serving_op (Update_last_used _) = True"
| "serving_op _ = False"

text \<open>A property of the database that those operations keep is kept by the whole handler.\<close>

locale kept_by_serving =
  fixes P :: "db \<Rightarrow> bool"
  assumes counted: "P s \<Longrightarrow> P (s\<lparr> db_queries := n \<rparr>)"
    and op: "serving_op op \<Longrightarrow> P s \<Longrightarrow> P (db_apply op s)"
begin

lemma read: "P s \<Longrightarrow> P (fst (db_read f s))"
  by (simp add: db_read_eq counted)

lemma inv_of: "P (fst p) \<Longrightarrow> p = (s', r) \<Longrightarrow> P s'"
  by simp

lemma reads_inv:
  "find_conversation_by_response_id i s = (s', r1) \<Longrightarrow> P s \<Longrightarrow> P s'"
  "find_model_by_id i s = (s', r2) \<Longrightarrow> P s \<Longrightarrow> P s'"
  "find_output_items_by_id i s = (s', r3) \<Longrightarrow> P s \<Longrightarrow> P s'"
  "OrganizationRepo_get_settings g s = (s', r4) \<Longrightarrow> P s \<Longrightarrow> P s'"
  "EndUserRepo_find_by_external_id g u s = (s', r5) \<Longrightarrow> P s \<Longrightarrow> P s'"
  by (auto simp: find_conversation_by_response_id_def find_model_by_id_def find_output_items_by_id_def
      OrganizationRepo_get_settings_def EndUserRepo_find_by_external_id_def simp: db_read_eq counted)

lemma writes:
  "P s \<Longrightarrow> P (fst (ConversationRepo_create nc s))" "P s \<Longrightarrow> P (fst (EndUserRepo_upsert ne s))"
  "P s \<Longrightarrow> P (fst (RequestLogRepo_create entry s))" "P s \<Longrightarrow> P (fst (ApiKeyUsageRepo_create nu s))"
  "P s \<Longrightarrow> P (fst (RoutingDecisionRepo_upsert nd s))" "P s \<Longrightarrow> P (fst (ResponseRepo_create nr s))"
  "P s \<Longrightarrow> P (fst (MessageRepo_create nm s))" "P s \<Longrightarrow> P (fst (ApiKeyRepo_update_last_used i s))"
  using op [of "Create_conversation nc"] op [of "Upsert_end_user ne"] op [of "Create_log entry"]
    op [of "Create_usage nu"] op [of "Upsert_decision nd"] op [of "Create_response nr"]
    op [of "Create_message nm"] op [of "Update_last_used i"] by simp_all

lemmas writes_inv = writes(1) [THEN inv_of] writes(2) [THEN inv_of] writes(3) [THEN inv_of]

lemma found_inv: "found q s = (s', r) \<Longrightarrow> \<exists>x. q s = (s', x)"
  by (auto simp: found_def split: prod.splits sum.splits)

lemma replay_inv: "replay_prior_tool_calls q s = (s', calls) \<Longrightarrow> P s \<Longrightarrow> P s'"
  by (auto simp: replay_prior_tool_calls_def split: option.splits prod.splits sum.splits json.splits if_splits
      dest: reads_inv)

lemma replayed_inv: "replayed w q = (w', q') \<Longrightarrow> P (w_db w) \<Longrightarrow> P (w_db w')"
  by (auto simp: replayed_def split: prod.splits if_splits dest: replay_inv)

lemma org_settings_inv: "org_settings now i app s = (app', s', r) \<Longrightarrow> P s \<Longrightarrow> P s'"
  by (auto simp: org_settings_def Let_def split: option.splits prod.splits sum.splits if_splits dest: reads_inv)

lemma override_inv: "org_auto_routing_override f now org app s = (app', s', r) \<Longrightarrow> P s \<Longrightarrow> P s'"
  by (auto simp: org_auto_routing_override_def split: option.splits prod.splits dest: org_settings_inv)

lemma capture_inv: "should_capture_payload now org app s = (app', s', r) \<Longrightarrow> P s \<Longrightarrow> P s'"
  by (auto simp: should_capture_payload_def split: option.splits prod.splits if_splits dest: org_settings_inv)

lemma previous_model_inv: "previous_turn_model app q s = (s', r) \<Longrightarrow> P s \<Longrightarrow> P s'"
  by (auto simp: previous_turn_model_def split: option.splits if_splits dest!: found_inv dest: reads_inv)

lemma resolve_model_inv:
  assumes "resolve_model E org synthetic q w = Some (w', q', r)" "P (w_db w)"
  shows "P (w_db w')"
proof -
  obtain app s orgs where o: "(case as_auto_router (ga_state (w_app w)) of
              Some _ \<Rightarrow> org_auto_routing_override (he_org_override E) (he_now E) org (w_app w) (w_db w)
            | None \<Rightarrow> (w_app w, w_db w, OrgAutoRoutingOverride_default)) = (app, s, orgs)"
    by (metis prod_cases3)
  then have s: "P s" using assms(2) override_inv by (fastforce split: option.splits)
  obtain s1 prev where p: "(case as_auto_router (ga_state app) of
              Some router \<Rightarrow>
                if resolution_stops router orgs (parse_auto_model (req_model q) = None) then (s, None)
                else previous_turn_model app q s
            | None \<Rightarrow> (s, None)) = (s1, prev)"
    by fastforce
  then have "P s1" using s previous_model_inv by (fastforce split: option.splits if_splits)
  moreover have "w_db w' = s1" using assms(1) by (auto simp: resolve_model_def o p Let_def)
  ultimately show ?thesis by simp
qed

lemma new_conversation_inv: "new_conversation q s = Some (s', r) \<Longrightarrow> P s \<Longrightarrow> P s'"
proof -
  assume q: "new_conversation q s = Some (s', r)" and inv: "P s"
  then obtain new b where "ConversationRepo_create new s = (s', b)"
    by (auto simp: new_conversation_def create_with_auto_title_def split: option.splits)
  then show ?thesis using writes(1) [OF inv] by (metis fst_conv)
qed

lemma get_or_create_inv: "get_or_create_conversation app q s = Some (s', r) \<Longrightarrow> P s \<Longrightarrow> P s'"
  by (auto simp: get_or_create_conversation_def split: if_splits option.splits prod.splits sum.splits
      dest: reads_inv new_conversation_inv)

lemma conversation_inv: "conversation_of q w = Some (w', c) \<Longrightarrow> P (w_db w) \<Longrightarrow> P (w_db w')"
  by (cases "get_or_create_conversation (w_app w) q (w_db w)")
    (auto simp: conversation_of_def dest: get_or_create_inv)

lemma call_inv: "call_with_escalation E call p q d w = Some (w', q', d', r) \<Longrightarrow> w_db w' = w_db w"
  by (auto simp: call_with_escalation_def Let_def split: option.splits prod.splits)

lemma resolve_end_user_inv: "resolve_end_user a q s = (s', u, x) \<Longrightarrow> P s \<Longrightarrow> P s'"
  by (auto simp: resolve_end_user_def split: option.splits prod.splits sum.splits dest: reads_inv writes_inv(2))

lemma usage_inv: "P s \<Longrightarrow> P (record_api_key_usage app a r q s)"
  by (auto simp: record_api_key_usage_def writes(4) split: option.splits prod.splits
      dest: resolve_end_user_inv)

lemma log_inv: "log_request app entry s = (s', r) \<Longrightarrow> P s \<Longrightarrow> P s'"
  by (auto simp: log_request_def split: if_splits prod.splits dest: writes_inv(3))

lemma decision_inv: "P s \<Longrightarrow> P (record_decision E app x i s)"
  by (simp add: record_decision_def record_routing_decision_def writes(5) split: option.split)

lemma save_inv: "P s \<Longrightarrow> P (save_response app c q r s)"
  by (simp add: save_response_def writes(6))

lemma messages_inv: "P s \<Longrightarrow> P (save_messages_from_items app c i items s)"
proof -
  have "P s \<Longrightarrow> P (fold (\<lambda>m s. fst (MessageRepo_create (new_message c i m) s)) ms s)" for ms
    by (induction ms arbitrary: s) (simp_all add: writes(7))
  then show "P s \<Longrightarrow> ?thesis" by (simp add: save_messages_from_items_def)
qed

lemma usage_then_log_inv: "P s \<Longrightarrow> (\<And>t. P t \<Longrightarrow> P (rest t)) \<Longrightarrow> P (usage_then_log app x r entry rest s)"
  by (auto simp: usage_then_log_def Let_def usage_inv split: option.splits prod.splits dest: log_inv)

lemma persist_inv:
  "P s \<Longrightarrow> P (persist_completed E app x r entry s)"
  "P s \<Longrightarrow> P (persist_ended E app x r entry s)"
  "P s \<Longrightarrow> P (save_exchange app x r s)"
  by (auto simp: persist_completed_def persist_ended_def save_exchange_def Let_def decision_inv save_inv messages_inv
      intro!: usage_then_log_inv split: option.split)

lemma enrich_inv: "enrich_response px app r i a q s = (s', r') \<Longrightarrow> P s \<Longrightarrow> P s'"
  by (auto simp: enrich_response_def load_end_user_def Let_def
      split: option.splits prod.splits if_splits dest!: found_inv dest: reads_inv)

lemma enriched_inv: "enriched E x r w = (w', r') \<Longrightarrow> P (w_db w) \<Longrightarrow> P (w_db w')"
  by (auto simp: enriched_def enrich_response_with_latency_def Let_def split: prod.splits dest: enrich_inv)

lemma completed_log_inv: "completed_log E x st r b w = (w', entry) \<Longrightarrow> P (w_db w) \<Longrightarrow> P (w_db w')"
  by (auto simp: completed_log_def Let_def split: prod.splits dest: capture_inv)

lemma on_completed_inv: "on_completed E x r w = (w', event) \<Longrightarrow> P (w_db w) \<Longrightarrow> P (w_db w')"
  by (auto simp: on_completed_def Let_def persist_inv split: prod.splits dest!: enriched_inv completed_log_inv)

lemma on_event_inv: "on_event E x event w = (w', sent) \<Longrightarrow> P (w_db w) \<Longrightarrow> P (w_db w')"
  by (cases "(E, x, event, w)" rule: on_event.cases)
    (auto simp: on_failed_def on_incomplete_def Let_def persist_inv split: prod.splits dest: on_completed_inv)

lemma on_events_inv: "on_events E x events w = (w', sent) \<Longrightarrow> P (w_db w) \<Longrightarrow> P (w_db w')"
  by (induction events arbitrary: w w' sent) (auto simp: Let_def split: prod.splits dest: on_event_inv)

lemma cached_inv: "cached_response E u q w = (w', r) \<Longrightarrow> w_db w' = w_db w"
  by (auto simp: cached_response_def split: option.splits if_splits prod.splits sum.splits)

lemma cache_inv [simp]: "w_db (cache_response E u q r w) = w_db w"
  by (simp add: cache_response_def split: option.split)

lemma call_kept: "call_with_escalation E call p q d w = Some (w', q', d', r) \<Longrightarrow> P (w_db w) \<Longrightarrow> P (w_db w')"
  by (simp add: call_inv)

lemma provider_answer_inv: "provider_answer E x p w = Some (w', x', r) \<Longrightarrow> P (w_db w) \<Longrightarrow> P (w_db w')"
  by (auto simp: provider_answer_def Let_def split: if_splits option.splits prod.splits sum.splits
      intro!: decision_inv dest: call_kept log_inv [OF _ call_kept])

lemma respond_streaming_inv: "respond_streaming E x p w = Some (w', r) \<Longrightarrow> P (w_db w) \<Longrightarrow> P (w_db w')"
  by (auto simp: respond_streaming_def Let_def decision_inv split: option.splits prod.splits sum.splits
      dest!: call_kept conversation_inv on_events_inv)

lemma whole_inv:
  assumes "respond_whole E ws bypass x p w = Some (w', r)" "P (w_db w)"
  shows "P (w_db w')"
proof -
  define u where "u = (ga_cache_enabled (w_app w) \<and> \<not> bypass \<and> \<not> should_skip_cache (xc_request x))"
  obtain w1 hit where cached: "cached_response E u (xc_request x) w = (w1, hit)" by fastforce
  then have w1: "P (w_db w1)" using assms(2) cached_inv [OF cached] by simp
  show ?thesis
  proof (cases hit)
    case (Some h)
    with assms(1) cached w1 show ?thesis by (auto simp: respond_whole_def u_def decision_inv)
  next
    case None
    with assms(1) cached obtain w2 c where conv: "conversation_of (xc_request x) w1 = Some (w2, c)"
      by (auto simp: respond_whole_def u_def split: option.splits)
    then have w2: "P (w_db w2)" using w1 conversation_inv by blast
    with assms(1) cached None conv obtain w3 x3 a
      where ans: "provider_answer E (x\<lparr> xc_conversation := c \<rparr>) p w2 = Some (w3, x3, a)"
      by (auto simp: respond_whole_def u_def split: option.splits)
    then have w3: "P (w_db w3)" using w2 provider_answer_inv by blast
    show ?thesis
    proof (cases a)
      case (Inl e)
      with assms(1) cached None conv ans w3 show ?thesis by (auto simp: respond_whole_def u_def)
    next
      case (Inr y)
      with assms(1) cached None conv ans w3 show ?thesis
        by (auto simp: respond_whole_def u_def Let_def persist_inv split: prod.splits
            dest!: enriched_inv completed_log_inv)
    qed
  qed
qed

lemma handler_kept:
  assumes run: "create_response E headers auth q w = Some (w', r)" and inv: "P (w_db w)"
  shows "P (w_db w')"
proof (cases "missing_scope auth")
  case True
  with run inv show ?thesis by (simp add: create_response_def)
next
  case False
  obtain w1 q1 where rep: "replayed w q = (w1, q1)" by fastforce
  then have w1: "P (w_db w1)" using inv replayed_inv by blast
  from run False rep obtain w2 q2 d where res: "resolve_model E (organization_of auth)
      (is_synthetic_request (headers ''x-aura-synthetic'')) (pp_request (preprocess_request (he_prep E) q1)) w1
      = Some (w2, q2, d)"
    by (auto simp: create_response_def Let_def split: option.splits)
  then have w2: "P (w_db w2)" using w1 resolve_model_inv by blast
  show ?thesis
    using run False rep res w2
    by (auto simp: create_response_def Let_def split: sum.splits option.splits if_splits
        dest: respond_streaming_inv whole_inv)
qed

lemma tenant_inv: "P s \<Longrightarrow> P (fst (load_tenant_context k s))"
proof -
  have org: "P s \<Longrightarrow> P (fst (with_organization i t s))" for i t s
    by (auto simp: with_organization_def found_def OrganizationRepo_find_by_id_def db_read_eq counted
        split: option.splits)
  have team: "P s \<Longrightarrow> P (fst (with_team i t s))" for i t s
    by (auto simp: with_team_def found_def TeamRepo_find_by_id_def db_read_eq counted Let_def org
        split: option.splits)
  have project: "P s \<Longrightarrow> P (fst (with_project i t s))" for i t s
    by (auto simp: with_project_def found_def ProjectRepo_find_by_id_def db_read_eq counted team
        split: option.splits)
  show "P s \<Longrightarrow> ?thesis"
    by (auto simp: load_tenant_context_def org team project Let_def split: option.splits prod.splits if_splits
        dest: org [THEN inv_of])
qed

lemma authenticate_inv:
  assumes "authenticate E admin path header h s = (s', r)" "P s"
    and h: "\<And>a t t' y. h a t = (t', y) \<Longrightarrow> P t \<Longrightarrow> P t'"
  shows "P s'"
  using assms(1,2)
  by (auto simp: authenticate_def Let_def ApiKeyRepo_find_by_key_id_def db_read_eq
      split: if_splits option.splits sum.splits prod.splits
      intro: h counted h [OF _ inv_of [OF tenant_inv [OF writes(8) [OF counted]]]])

end

end
