(* ===== verification/Service.thy ===== *)
theory Service
  imports Exchange_Facts
begin

text \<open>
  The service around the handler: authentication in front of \<open>create_response\<close>, as \<open>main.rs\<close> layers them,
  and the runs of the gateway, requests and operations on its tables in any order. A stored
  response, the invariant and a revoked key outlast every such run that does not delete what they
  stand on.
\<close>

definition post_responses ::
    "auth_env \<Rightarrow> AdminAuthConfig \<Rightarrow> 's handler_env \<Rightarrow> header_map \<Rightarrow> Request \<Rightarrow> 's world \<Rightarrow>
     ('s world \<times> (AuthError + ((nat \<times> ApiError) + http_reply))) panics" where
  "post_responses AE admin E headers q w =
     (case authenticate AE admin ''/v1/responses'' (headers ''authorization'')
             (\<lambda>auth s. case create_response E headers auth q (w\<lparr> w_db := s \<rparr>) of
                Some (w', r) \<Rightarrow> (w_db w', Some (w', r)) | None \<Rightarrow> (s, None)) (w_db w) of
        (s, Inl e) \<Rightarrow> Some (w\<lparr> w_db := s \<rparr>, Inl e)
      | (s, Inr (Some (w', r))) \<Rightarrow> Some (w', Inr r)
      | (s, Inr None) \<Rightarrow> None)"

text \<open>A run: requests that do not panic, and operations on the tables among those allowed.\<close>

inductive gateway_step :: "(db_op \<Rightarrow> bool) \<Rightarrow> 's world \<Rightarrow> 's world \<Rightarrow> bool" for ok where
  serve: "post_responses AE admin E headers q w = Some (w', r) \<Longrightarrow> gateway_step ok w w'"
| manage: "ok op \<Longrightarrow> gateway_step ok w (w\<lparr> w_db := db_apply op (w_db w) \<rparr>)"

inductive_cases gateway_stepE: "gateway_step ok w w'"

locale kept_by_gateway = kept_by_serving +
  fixes ok :: "db_op \<Rightarrow> bool"
  assumes managed: "ok op \<Longrightarrow> P s \<Longrightarrow> P (db_apply op s)"
begin

lemma post_responses_inv:
  assumes run: "post_responses AE admin E headers q w = Some (w', r)" and inv: "P (w_db w)"
  shows "P (w_db w')"
proof -
  define h where "h = (\<lambda>auth s. case create_response E headers auth q (w\<lparr> w_db := s \<rparr>) of
      Some (w', r) \<Rightarrow> (w_db w', Some (w', r)) | None \<Rightarrow> (s, None))"
  have h: "h a t = (t', y) \<Longrightarrow> P t \<Longrightarrow> P t'" for a t t' y
    using handler_kept [of E headers a q "w\<lparr> w_db := t \<rparr>"]
    by (auto simp: h_def split: option.splits prod.splits)
  obtain s y where auth: "authenticate AE admin ''/v1/responses'' (headers ''authorization'') h (w_db w) = (s, y)"
    by fastforce
  then have s: "P s" using authenticate_inv inv h by blast
  show ?thesis
  proof (cases y)
    case (Inl e)
    with run auth s show ?thesis by (auto simp: post_responses_def h_def)
  next
    case (Inr x)
    with auth obtain a t where "h a t = (s, x)"
      by (auto simp: authenticate_def Let_def split: if_splits option.splits sum.splits prod.splits)
    with run auth Inr s show ?thesis by (auto simp: post_responses_def h_def split: option.splits prod.splits)
  qed
qed

lemma step_inv: "gateway_step ok w w' \<Longrightarrow> P (w_db w) \<Longrightarrow> P (w_db w')"
  by (erule gateway_stepE) (auto dest: post_responses_inv managed)

lemma run_inv: "(gateway_step ok)\<^sup>*\<^sup>* w w' \<Longrightarrow> P (w_db w) \<Longrightarrow> P (w_db w')"
  by (induction rule: rtranclp_induct) (auto dest: step_inv)

end

subsection \<open>What outlasts a run\<close>

interpretation consistent: kept_by_gateway db_inv "\<lambda>_. True"
  by unfold_locales (simp_all add: db_apply_inv)

interpretation refused: kept_by_gateway "is_revoked i" "\<lambda>op. \<not> deletes_key op" for i
proof unfold_locales
  show "is_revoked i s \<Longrightarrow> is_revoked i (s\<lparr> db_queries := n \<rparr>)" for s n by (simp add: is_revoked_def)
  show "serving_op op \<Longrightarrow> is_revoked i s \<Longrightarrow> is_revoked i (db_apply op s)" for op s
    by (rule revoked_stays) (cases op; simp)+
qed (simp add: revoked_stays)

text \<open>A stored response: what it put out, and where.\<close>

definition stores :: "rstring \<Rightarrow> json \<Rightarrow> uuid \<Rightarrow> db \<Rightarrow> bool" where
  "stores i out c s \<longleftrightarrow>
     (\<exists>r. find_response i s = Some r \<and> rr_output_items r = out \<and> rr_conversation_id r = c)"

fun deletes_conversation :: "db_op \<Rightarrow> bool" where
  "deletes_conversation (Delete_conversation _) = True"
| "deletes_conversation _ = False"

fun on_responses :: "db_op \<Rightarrow> bool" where
  "on_responses (Create_response _) = True"
| "on_responses (Delete_conversation _) = True"
| "on_responses _ = False"

lemma query_responses_same:
  "(\<And>u t x. f u = (t, Inr x) \<Longrightarrow> db_responses t = db_responses u) \<Longrightarrow>
   db_responses (fst (db_query f s)) = db_responses s"
  by (auto simp: db_query_def Let_def split: prod.splits sum.splits)

lemma log_responses: "db_responses (fst (RequestLogRepo_create new s)) = db_responses s"
proof -
  have "db_responses (fst (insert_log new s)) = db_responses s"
    unfolding insert_log_def by (rule query_responses_same) (auto split: if_splits)
  then show ?thesis by (auto simp: RequestLogRepo_create_def split: prod.splits sum.splits)
qed

lemma other_responses: "\<not> on_responses op \<Longrightarrow> db_responses (db_apply op s) = db_responses s"
  by (cases op)
    (auto simp: query_defs row_updates update_api_key_def ApiKeyRepo_create_def ApiKeyRepo_delete_def db_write_def Let_def log_responses
      intro!: query_responses_same split: if_splits option.splits)

lemma new_responses: "\<exists>rs. db_responses (fst (ResponseRepo_create new s)) = db_responses s @ rs"
  by (simp add: ResponseRepo_create_def db_query_def Let_def)

lemma find_append: "find p xs = Some x \<Longrightarrow> find p (xs @ ys) = Some x"
  by (induction xs) auto

lemma stores_apply:
  assumes "stores i out c s" "\<not> deletes_conversation op"
  shows "stores i out c (db_apply op s)"
proof (cases op)
  case (Create_response new)
  with assms new_responses [of new s] show ?thesis by (auto simp: stores_def find_response_def find_append)
qed (use assms other_responses [of op s] in \<open>auto simp: stores_def find_response_def\<close>)

interpretation stored: kept_by_gateway "stores i out c" "\<lambda>op. \<not> deletes_conversation op" for i out c
proof unfold_locales
  show "stores i out c s \<Longrightarrow> stores i out c (s\<lparr> db_queries := n \<rparr>)" for s n
    by (simp add: stores_def find_response_def)
  show "serving_op op \<Longrightarrow> stores i out c s \<Longrightarrow> stores i out c (db_apply op s)" for op s
    by (rule stores_apply) (cases op; simp)+
qed (simp add: stores_apply)

subsection \<open>Who is answered\<close>

lemma answered_key:
  assumes run: "post_responses AE admin E headers q w = Some (w', Inr r)" and r: "r \<noteq> Inl scope_error"
    and "ae_has_db AE"
  shows "\<exists>k. proves_key AE (w_db w) (headers ''authorization'') k
    \<and> (ApiKey_has_scope k ''responses:create'' \<or> ApiKey_has_scope k ''*'')"
proof -
  define h where "h = (\<lambda>auth s. case create_response E headers auth q (w\<lparr> w_db := s \<rparr>) of
      Some (w', r) \<Rightarrow> (w_db w', Some (w', r)) | None \<Rightarrow> (s, None))"
  have path: "protected_path ''/v1/responses''" by (simp add: protected_path_def public_path_def)
  obtain s where auth: "authenticate AE admin ''/v1/responses'' (headers ''authorization'') h (w_db w)
      = (s, Inr (Some (w', r)))"
    using run by (auto simp: post_responses_def h_def split: prod.splits sum.splits option.splits)
  from authenticate_served [OF this path assms(3)] obtain k a t
    where k: "proves_key AE (w_db w) (headers ''authorization'') k" "ac_api_key a = k"
      and "h (Some a) t = (s, Some (w', r))" by blast
  then have "create_response E headers (Some a) q (w\<lparr> w_db := t \<rparr>) = Some (w', r)"
    by (auto simp: h_def split: option.splits prod.splits)
  with r have "\<not> missing_scope (Some a)" by (auto simp: create_response_def)
  with k show ?thesis by (auto simp: missing_scope_def AuthContext_has_scope_def)
qed

lemma revoked_never_answered:
  assumes "db_inv (w_db w)" "is_revoked key_id (w_db w)" "(gateway_step (\<lambda>op. \<not> deletes_key op))\<^sup>*\<^sup>* w w'"
    and "ae_has_db AE" "bearer_token (headers ''authorization'') = Some token" "extract_key_id token = Some key_id"
  shows "\<exists>w'' e. post_responses AE admin E headers q w' = Some (w'', Inl e)"
proof -
  have "(gateway_step (\<lambda>_. True))\<^sup>*\<^sup>* w w'"
    using assms(3) by (rule rtranclp_mono [THEN predicate2D, rotated])
      (auto elim!: gateway_stepE intro: gateway_step.intros)
  then have "db_inv (w_db w')" by (rule consistent.run_inv) (rule assms(1))
  moreover have "is_revoked key_id (w_db w')" using assms(3,2) by (rule refused.run_inv)
  moreover have "protected_path ''/v1/responses''" by (simp add: protected_path_def public_path_def)
  ultimately obtain s e where "authenticate AE admin ''/v1/responses'' (headers ''authorization'')
      (\<lambda>auth s. case create_response E headers auth q (w'\<lparr> w_db := s \<rparr>) of
         Some (w', r) \<Rightarrow> (w_db w', Some (w', r)) | None \<Rightarrow> (s, None)) (w_db w') = (s, Inl e)"
    using revoked_is_refused [OF _ _ _ assms(4-6)] by blast
  then show ?thesis by (simp add: post_responses_def)
qed

subsection \<open>Follow-ups\<close>

lemma saved_response:
  "ResponseRepo_create (new_response c q r) s = (s1, Inr row) \<Longrightarrow>
   stores (resp_id r) (items_value (resp_output r)) c s1"
proof -
  assume save: "ResponseRepo_create (new_response c q r) s = (s1, Inr row)"
  then have "\<forall>x \<in> set (db_responses s). rr_id x \<noteq> rr_id row" and rows: "db_responses s1 = db_responses s @ [row]"
    and row: "rr_id row = resp_id r" "rr_output_items row = items_value (resp_output r)" "rr_conversation_id row = c"
    by (auto simp: ResponseRepo_create_def db_query_def Let_def response_row_def new_response_def split: if_splits)
  then have "find (\<lambda>x. rr_id x = rr_id row) (db_responses s1) = Some row" using find_new by metis
  with row show ?thesis by (simp add: stores_def find_response_def)
qed

lemma follow_up:
  assumes "stores i (items_value out) c (w_db w)" "req_previous_response_id q = Some i"
    and "ga_has_db (w_app w)" "\<not> db_fails (w_db w) (db_queries (w_db w))"
  shows "ga_replay_tool_context (w_app w) \<Longrightarrow> list_ex is_tool_output (req_input q) \<Longrightarrow>
      req_input (snd (replayed w q)) = List.map_filter replayed_call out @ req_input q"
    and "\<exists>w'. conversation_of q w = Some (w', Some c)"
proof -
  from assms(1) obtain row where row: "find_response i (w_db w) = Some row"
    "rr_output_items row = items_value out" "rr_conversation_id row = c"
    by (auto simp: stores_def)
  show "req_input (snd (replayed w q)) = List.map_filter replayed_call out @ req_input q"
    if "ga_replay_tool_context (w_app w)" "list_ex is_tool_output (req_input q)"
    using replay_eq [OF assms(2) that(2) row(1,2) assms(4)] assms(3) that(1)
    by (auto simp: replayed_def split: prod.split)
  show "\<exists>w'. conversation_of q w = Some (w', Some c)"
    using assms row by (simp add: conversation_of_def get_or_create_conversation_def find_conversation_by_response_id_def
        db_read_eq find_response_def)
qed

subsection \<open>What a panic of the log leaves out\<close>

lemma usage_keeps:
  "db_numeric_cost (record_api_key_usage app a r q s) = db_numeric_cost s"
  "db_decisions (record_api_key_usage app a r q s) = db_decisions s"
  "db_messages (record_api_key_usage app a r q s) = db_messages s"
  by (auto simp: record_api_key_usage_def resolve_end_user_def EndUserRepo_find_by_external_id_def db_read_eq
      ApiKeyUsageRepo_create_def EndUserRepo_upsert_def db_query_def Let_def
      split: option.splits prod.splits sum.splits if_splits)

lemma log_keeps:
  assumes "insert_log entry s = (s', Inr row)"
  shows "db_numeric_cost s' = db_numeric_cost s" "db_decisions s' = db_decisions s" "db_messages s' = db_messages s"
    and "db_usage s' = db_usage s" "db_request_logs s' = db_request_logs s @ [row]" "rl_cost_usd row = nl_cost_usd entry"
  using assms by (auto simp: insert_log_def db_query_def Let_def log_row_def split: if_splits)

lemma panic_skips_the_rest:
  assumes "ga_has_db app" "xc_auth x = Some a" "db_numeric_cost s" "nl_cost_usd entry \<noteq> None"
    and "insert_log entry (record_api_key_usage app a r (xc_request x) s) = (s', Inr row)"
  shows "persist_completed E app x r entry s = s'"
proof -
  have "RequestLogRepo_create entry (record_api_key_usage app a r (xc_request x) s) = (s', None)"
    using assms log_keeps [OF assms(5)] by (simp add: RequestLogRepo_create_def usage_keeps)
  with assms show ?thesis by (simp add: persist_completed_def usage_then_log_def log_request_def)
qed

lemma no_panic_goes_on:
  assumes "ga_has_db app" "xc_auth x = Some a" "\<not> db_numeric_cost s"
    and "insert_log entry (record_api_key_usage app a r (xc_request x) s) = (s', Inr row)"
  shows "persist_completed E app x r entry s =
    (let s'' = record_decision E app x (Some (resp_id r)) s'
     in case xc_conversation x of Some c \<Rightarrow> save_messages_from_items app c (resp_id r) (resp_output r) s'' | None \<Rightarrow> s'')"
proof -
  have "RequestLogRepo_create entry (record_api_key_usage app a r (xc_request x) s) = (s', Some (Inr row))"
    using assms log_keeps [OF assms(4)] by (simp add: RequestLogRepo_create_def usage_keeps)
  with assms show ?thesis by (simp add: persist_completed_def usage_then_log_def log_request_def Let_def)
qed

subsection \<open>Streams\<close>

lemma on_event_type:
  "fst (snd (on_event E x event w)) = (case event of Inr ev \<Rightarrow> event_type ev | Inl _ \<Rightarrow> ''error'')"
  by (cases "(E, x, event, w)" rule: on_event.cases)
    (auto simp: sse_event_def on_completed_def Let_def split: prod.splits)

lemma on_events_types:
  "map fst (snd (on_events E x events w)) = map (case_sum (\<lambda>_. ''error'') event_type) events"
proof (induction events arbitrary: w)
  case (Cons event events)
  obtain w' t d where e: "on_event E x event w = (w', t, d)" by (metis prod_cases3)
  obtain w'' rest where r: "on_events E x events w' = (w'', rest)" by fastforce
  have "map fst rest = map (case_sum (\<lambda>_. ''error'') event_type) events" using Cons [of w'] r by simp
  moreover have "t = case_sum (\<lambda>_. ''error'') event_type event" using on_event_type [of E x event w] e by simp
  ultimately show ?case using e r by simp
qed simp

end
