(* ===== verification/Organizations.thy ===== *)
theory Organizations
  imports Persistence Auth_Facts
begin

text \<open>
  The routes of organizations, teams, projects and end users
  (\<open>aura-proxy/src/routes/organizations.rs\<close>) and of conversations
  (\<open>aura-proxy/src/routes/conversations.rs\<close>) over the queries of \<open>Db\<close> and \<open>Db_Tenants\<close>. No handler
  takes the caller: whoever passes authentication reads and changes every tenant.
\<close>

record CreateOrganizationRequest =
  og_req_name :: rstring
  og_req_slug :: rstring
  og_req_owner_id :: rstring
  og_req_settings :: json

record CreateTeamRequest =
  tm_req_name :: rstring
  tm_req_slug :: rstring
  tm_req_description :: "rstring option"
  tm_req_monthly_token_limit :: "i64 option"

record CreateProjectRequest =
  pj_req_name :: rstring
  pj_req_slug :: rstring
  pj_req_description :: "rstring option"

record CreateEndUserRequest =
  eu_req_external_id :: rstring
  eu_req_name :: "rstring option"
  eu_req_email :: "rstring option"
  eu_req_metadata :: "json option"

record UpdateOrganizationRequest =
  up_name :: "rstring option"
  up_settings :: "json option"

record ErrorDetail =
  ed_code :: rstring
  ed_message :: rstring

text \<open>A status with a value, or with an error.\<close>

type_synonym 'a reply = "(nat \<times> ErrorDetail) + nat \<times> 'a"

definition reply_error :: "nat \<Rightarrow> rstring \<Rightarrow> rstring \<Rightarrow> 'a reply" where
  "reply_error status code message = Inl (status, \<lparr> ed_code = code, ed_message = message \<rparr>)"

definition no_database :: "'a reply" where
  "no_database = reply_error 503 ''database_unavailable'' ''Database not configured''"

text \<open>One query; its failure is a 500 with the code and the text before the error.\<close>

definition reply_with :: "gateway_app \<Rightarrow> rstring \<Rightarrow> rstring \<Rightarrow> nat \<Rightarrow> 'a query \<Rightarrow> db \<Rightarrow> db \<times> 'a reply" where
  "reply_with app code failed status q s =
     (if \<not> ga_has_db app then (s, no_database)
      else (case q s of
              (s', Inr x) \<Rightarrow> (s', Inr (status, x))
            | (s', Inl e) \<Rightarrow> (s', reply_error 500 code (failed @ DbError_display e))))"

definition found_reply :: "rstring \<Rightarrow> 'a option reply \<Rightarrow> 'a reply" where
  "found_reply missing r =
     (case r of
        Inr (status, Some x) \<Rightarrow> Inr (status, x)
      | Inr (_, None) \<Rightarrow> reply_error 404 ''not_found'' missing
      | Inl e \<Rightarrow> Inl e)"

definition not_implemented :: "rstring \<Rightarrow> 'a reply" where
  "not_implemented message = reply_error 501 ''not_implemented'' message"

subsection \<open>Organizations\<close>

definition create_organization :: "gateway_app \<Rightarrow> CreateOrganizationRequest \<Rightarrow> db \<Rightarrow> db \<times> Organization reply" where
  "create_organization app req =
     reply_with app ''create_failed'' ''Failed to create organization: '' 201
       (OrganizationRepo_create
          \<lparr> no_name = og_req_name req, no_slug = og_req_slug req, no_owner_id = og_req_owner_id req,
            no_settings = Some (og_req_settings req) \<rparr>)"

definition list_organizations :: "gateway_app \<Rightarrow> db \<Rightarrow> db \<times> Organization list reply" where
  "list_organizations app =
     reply_with app ''list_failed'' ''Failed to list organizations: '' 200 (OrganizationRepo_list_all 100 0)"

definition get_organization :: "gateway_app \<Rightarrow> uuid \<Rightarrow> db \<Rightarrow> db \<times> Organization reply" where
  "get_organization app i s =
     map_prod id (found_reply ''Organization not found'')
       (reply_with app ''get_failed'' ''Failed to get organization: '' 200 (OrganizationRepo_find_by_id i) s)"

text \<open>The stale copy of the settings is dropped.\<close>

definition update_organization ::
    "gateway_app \<Rightarrow> uuid \<Rightarrow> UpdateOrganizationRequest \<Rightarrow> db \<Rightarrow> gateway_app \<times> db \<times> Organization reply" where
  "update_organization app i req s =
     (case reply_with app ''update_failed'' ''Failed to update organization: '' 200
             (OrganizationRepo_update i (up_name req) (up_settings req)) s of
        (s', Inl e) \<Rightarrow> (app, s', Inl e)
      | (s', Inr r) \<Rightarrow> (invalidate_org_settings i app, s', Inr r))"

definition delete_organization :: "gateway_app \<Rightarrow> uuid \<Rightarrow> db \<Rightarrow> db \<times> unit reply" where
  "delete_organization app i =
     reply_with app ''delete_failed'' ''Failed to delete organization: '' 204 (OrganizationRepo_delete i)"

subsection \<open>Teams\<close>

definition create_team :: "gateway_app \<Rightarrow> uuid \<Rightarrow> CreateTeamRequest \<Rightarrow> db \<Rightarrow> db \<times> Team reply" where
  "create_team app org req =
     reply_with app ''create_failed'' ''Failed to create team: '' 201
       (TeamRepo_create
          \<lparr> nt_organization_id = org, nt_name = tm_req_name req, nt_slug = tm_req_slug req,
            nt_description = tm_req_description req, nt_monthly_token_limit = tm_req_monthly_token_limit req,
            nt_settings = None \<rparr>)"

definition list_teams :: "gateway_app \<Rightarrow> uuid \<Rightarrow> db \<Rightarrow> db \<times> Team list reply" where
  "list_teams app org =
     reply_with app ''list_failed'' ''Failed to list teams: '' 200 (TeamRepo_get_by_organization org)"

definition get_team :: "gateway_app \<Rightarrow> uuid \<Rightarrow> db \<Rightarrow> db \<times> Team reply" where
  "get_team app i s =
     map_prod id (found_reply ''Team not found'')
       (reply_with app ''get_failed'' ''Failed to get team: '' 200 (TeamRepo_find_by_id i) s)"

definition update_team :: "Team reply" where
  "update_team = not_implemented ''Update team not yet implemented''"

definition delete_team :: "unit reply" where
  "delete_team = not_implemented ''Delete team not yet implemented''"

subsection \<open>Projects\<close>

definition create_project :: "gateway_app \<Rightarrow> uuid \<Rightarrow> CreateProjectRequest \<Rightarrow> db \<Rightarrow> db \<times> Project reply" where
  "create_project app team req =
     reply_with app ''create_failed'' ''Failed to create project: '' 201
       (ProjectRepo_create
          \<lparr> np_team_id = team, np_name = pj_req_name req, np_slug = pj_req_slug req,
            np_description = pj_req_description req, np_monthly_token_limit = None, np_settings = None \<rparr>)"

definition list_projects :: "gateway_app \<Rightarrow> uuid \<Rightarrow> db \<Rightarrow> db \<times> Project list reply" where
  "list_projects app team =
     reply_with app ''list_failed'' ''Failed to list projects: '' 200 (ProjectRepo_get_by_team team)"

definition get_project :: "gateway_app \<Rightarrow> uuid \<Rightarrow> db \<Rightarrow> db \<times> Project reply" where
  "get_project app i s =
     map_prod id (found_reply ''Project not found'')
       (reply_with app ''get_failed'' ''Failed to get project: '' 200 (ProjectRepo_find_by_id i) s)"

definition update_project :: "Project reply" where
  "update_project = not_implemented ''Update project not yet implemented''"

definition delete_project :: "unit reply" where
  "delete_project = not_implemented ''Delete project not yet implemented''"

subsection \<open>End users\<close>

definition create_end_user :: "gateway_app \<Rightarrow> uuid \<Rightarrow> CreateEndUserRequest \<Rightarrow> db \<Rightarrow> db \<times> EndUser reply" where
  "create_end_user app org req =
     reply_with app ''create_failed'' ''Failed to create end-user: '' 201
       (EndUserRepo_upsert
          \<lparr> ne_organization_id = org, ne_external_id = eu_req_external_id req, ne_name = eu_req_name req,
            ne_email = eu_req_email req, ne_metadata = eu_req_metadata req \<rparr>)"

definition list_end_users :: "gateway_app \<Rightarrow> uuid \<Rightarrow> db \<Rightarrow> db \<times> EndUser list reply" where
  "list_end_users app org =
     reply_with app ''list_failed'' ''Failed to list end-users: '' 200 (EndUserRepo_get_by_organization org 100 0)"

definition get_end_user :: "gateway_app \<Rightarrow> uuid \<Rightarrow> db \<Rightarrow> db \<times> EndUser reply" where
  "get_end_user app i s =
     map_prod id (found_reply ''End-user not found'')
       (reply_with app ''get_failed'' ''Failed to get end-user: '' 200 (EndUserRepo_find_by_id i) s)"

definition update_end_user :: "EndUser reply" where
  "update_end_user = not_implemented ''Update end-user not yet implemented''"

subsection \<open>Conversations\<close>

record ConversationDetail =
  cd_conversation :: Conversation
  cd_messages :: "Message list"
  cd_responses :: "ResponseRecord list"

definition plain_query :: "gateway_app \<Rightarrow> 'a query \<Rightarrow> db \<Rightarrow> db \<times> ((nat \<times> rstring) + 'a)" where
  "plain_query app q s =
     (if \<not> ga_has_db app then (s, Inl (503, ''Database not configured''))
      else (case q s of (s', Inr x) \<Rightarrow> (s', Inr x) | (s', Inl e) \<Rightarrow> (s', Inl (500, DbError_display e))))"

definition default_limit :: i64 where "default_limit = 20"

definition list_conversations ::
    "gateway_app \<Rightarrow> rstring option \<Rightarrow> i64 \<Rightarrow> db \<Rightarrow> db \<times> ((nat \<times> rstring) + Conversation list)" where
  "list_conversations app user_id limit s =
     (case user_id of
        Some u \<Rightarrow> plain_query app (ConversationRepo_get_by_user u limit) s
      | None \<Rightarrow> if ga_has_db app then (s, Inr []) else (s, Inl (503, ''Database not configured'')))"

definition get_conversation ::
    "gateway_app \<Rightarrow> uuid \<Rightarrow> db \<Rightarrow> db \<times> ((nat \<times> rstring) + ConversationDetail)" where
  "get_conversation app i s =
     (case plain_query app (ConversationRepo_get_by_id i) s of
        (s, Inl e) \<Rightarrow> (s, Inl e)
      | (s, Inr None) \<Rightarrow> (s, Inl (404, ''Conversation not found''))
      | (s, Inr (Some c)) \<Rightarrow>
          (case plain_query app (MessageRepo_get_by_conversation i) s of
             (s, Inl e) \<Rightarrow> (s, Inl e)
           | (s, Inr messages) \<Rightarrow>
               (case plain_query app (ResponseRepo_get_by_conversation i) s of
                  (s, Inl e) \<Rightarrow> (s, Inl e)
                | (s, Inr responses) \<Rightarrow>
                    (s, Inr \<lparr> cd_conversation = c, cd_messages = messages, cd_responses = responses \<rparr>))))"

definition delete_conversation :: "gateway_app \<Rightarrow> uuid \<Rightarrow> db \<Rightarrow> db \<times> ((nat \<times> rstring) + nat)" where
  "delete_conversation app i s =
     (case plain_query app (ConversationRepo_delete i) s of (s', r) \<Rightarrow> (s', map_sum id (\<lambda>_. 204) r))"

subsection \<open>What the routes do to the tables\<close>

lemma reply_with_state: "fst (reply_with app c f n q s) = (if ga_has_db app then fst (q s) else s)"
  by (simp add: reply_with_def split: prod.split sum.split)

lemma reply_with_Inr:
  "reply_with app c f n q s = (s', Inr (m, x)) \<longleftrightarrow> ga_has_db app \<and> q s = (s', Inr x) \<and> m = n"
  by (auto simp: reply_with_def no_database_def reply_error_def split: prod.split sum.split)

lemma plain_query_state: "fst (plain_query app q s) = (if ga_has_db app then fst (q s) else s)"
  by (simp add: plain_query_def split: prod.split sum.split)

text \<open>Every route that writes is one operation on the tables.\<close>

lemma route_operations:
  "\<exists>op. fst (create_organization app oreq s) \<in> {s, db_apply op s}"
  "\<exists>op. fst (snd (update_organization app i ureq s)) \<in> {s, db_apply op s}"
  "\<exists>op. fst (delete_organization app i s) \<in> {s, db_apply op s}"
  "\<exists>op. fst (create_team app i treq s) \<in> {s, db_apply op s}"
  "\<exists>op. fst (create_project app i preq s) \<in> {s, db_apply op s}"
  "\<exists>op. fst (create_end_user app i eureq s) \<in> {s, db_apply op s}"
  "\<exists>op. fst (delete_conversation app i s) \<in> {s, db_apply op s}"
proof -
  show "\<exists>op. fst (create_organization app oreq s) \<in> {s, db_apply op s}"
    unfolding create_organization_def reply_with_state
    by (metis db_apply.simps(18) insertCI)
  show "\<exists>op. fst (snd (update_organization app i ureq s)) \<in> {s, db_apply op s}"
  proof -
    have "fst (snd (update_organization app i ureq s)) =
        fst (reply_with app ''update_failed'' ''Failed to update organization: '' 200
          (OrganizationRepo_update i (up_name ureq) (up_settings ureq)) s)"
      by (simp add: update_organization_def split: prod.split sum.split)
    then show ?thesis unfolding reply_with_state by (metis db_apply.simps(19) insertCI)
  qed
  show "\<exists>op. fst (delete_organization app i s) \<in> {s, db_apply op s}"
    unfolding delete_organization_def reply_with_state by (metis db_apply.simps(20) insertCI)
  show "\<exists>op. fst (create_team app i treq s) \<in> {s, db_apply op s}"
    unfolding create_team_def reply_with_state by (metis db_apply.simps(21) insertCI)
  show "\<exists>op. fst (create_project app i preq s) \<in> {s, db_apply op s}"
    unfolding create_project_def reply_with_state by (metis db_apply.simps(24) insertCI)
  show "\<exists>op. fst (create_end_user app i eureq s) \<in> {s, db_apply op s}"
    unfolding create_end_user_def reply_with_state by (metis db_apply.simps(12) insertCI)
  have "fst (delete_conversation app i s) = fst (plain_query app (ConversationRepo_delete i) s)"
    by (simp add: delete_conversation_def split: prod.split)
  then show "\<exists>op. fst (delete_conversation app i s) \<in> {s, db_apply op s}"
    unfolding plain_query_state by (metis db_apply.simps(3) insertCI)
qed

subsection \<open>Settings take effect\<close>

text \<open>The settings of the row, \<open>null\<close> counting as none.\<close>

definition row_settings :: "Organization \<Rightarrow> json option" where
  "row_settings g = (case og_settings g of Some v \<Rightarrow> if v = JNull then None else Some v | None \<Rightarrow> None)"

lemma org_settings_read:
  assumes "ga_has_db app" "ga_org_cache app i = None" "\<not> db_fails s (db_queries s)"
    and "find (\<lambda>g. og_id g = i) (db_organizations s) = Some g"
  shows "snd (snd (org_settings now i app s)) = row_settings g"
  using assms by (auto simp: org_settings_def OrganizationRepo_get_settings_def db_read_eq row_settings_def Let_def
      split: option.splits)

lemma find_mapped:
  "find P xs = Some x \<Longrightarrow> (\<And>y. P y \<Longrightarrow> P (f y)) \<Longrightarrow> find P (map (\<lambda>y. if P y then f y else y) xs) = Some (f x)"
  by (induction xs) (auto split: if_splits)

lemma updated_row:
  assumes "OrganizationRepo_update i name settings s = (s', Inr g)"
  shows "find (\<lambda>g. og_id g = i) (db_organizations s') = Some g"
proof -
  from assms obtain old where old: "find (\<lambda>g. og_id g = i) (db_organizations s) = Some old"
    and g: "g = patch_organization (s\<lparr> db_queries := db_queries s + 1 \<rparr>) name settings old"
    and rows: "db_organizations s' = map (\<lambda>h. if og_id h = i
        then patch_organization (s\<lparr> db_queries := db_queries s + 1 \<rparr>) name settings h else h) (db_organizations s)"
    by (auto simp: OrganizationRepo_update_def db_query_def Let_def split: option.splits if_splits)
  show ?thesis unfolding g rows by (rule find_mapped [OF old]) (simp add: patch_organization_def)
qed

lemma updated_from:
  assumes "update_organization app i req s = (app', s', Inr (n, g))"
  shows "\<exists>old \<in> set (db_organizations s). og_id old = i \<and> og_settings g = jsonb_patch (og_settings old) (up_settings req)"
  using assms
  by (auto simp: update_organization_def reply_with_Inr OrganizationRepo_update_def db_query_def Let_def
      patch_organization_def find_Some_iff split: prod.splits sum.splits option.splits if_splits)

lemma update_takes_effect:
  assumes "update_organization app i req s = (app', s', Inr (n, g))" "\<not> db_fails s' (db_queries s')"
  shows "snd (snd (org_settings now i app' s')) = row_settings g"
proof -
  from assms(1) have up: "ga_has_db app" "OrganizationRepo_update i (up_name req) (up_settings req) s = (s', Inr g)"
    and app': "app' = invalidate_org_settings i app"
    by (auto simp: update_organization_def reply_with_Inr split: prod.splits sum.splits)
  show ?thesis
    by (rule org_settings_read [OF _ _ assms(2) updated_row [OF up(2)]])
      (simp_all add: app' invalidate_org_settings_def up(1))
qed

subsection \<open>Deletion\<close>

lemma deleted_organization:
  assumes "delete_organization app i s = (s', Inr r)"
  shows "\<forall>g \<in> set (db_organizations s'). og_id g \<noteq> i" "\<forall>t \<in> set (db_teams s'). tm_organization_id t \<noteq> i"
    and "\<forall>u \<in> set (db_end_users s'). eu_organization_id u \<noteq> i"
    and "\<forall>t \<in> set (db_teams s). tm_organization_id t = i \<longrightarrow> (\<forall>p \<in> set (db_projects s'). pj_team_id p \<noteq> tm_id t)"
    and "db_api_keys s' = db_api_keys s"
proof -
  obtain n where r: "r = (n, ())" by (cases r) auto
  with assms have "OrganizationRepo_delete i s = (s', Inr ())" by (simp add: delete_organization_def reply_with_Inr)
  then show "\<forall>g \<in> set (db_organizations s'). og_id g \<noteq> i" "\<forall>t \<in> set (db_teams s'). tm_organization_id t \<noteq> i"
    "\<forall>u \<in> set (db_end_users s'). eu_organization_id u \<noteq> i"
    "\<forall>t \<in> set (db_teams s). tm_organization_id t = i \<longrightarrow> (\<forall>p \<in> set (db_projects s'). pj_team_id p \<noteq> tm_id t)"
    "db_api_keys s' = db_api_keys s"
    by (auto simp: OrganizationRepo_delete_def db_write_def db_query_def Let_def split: if_splits)
qed

subsection \<open>Creation\<close>

lemma created_organization:
  assumes "db_inv s" "create_organization app req s = (s', Inr (n, g))" "\<not> db_fails s' (db_queries s')"
  shows "snd (get_organization app (og_id g) s') = Inr (200, g)"
proof -
  from assms(2) have db: "ga_has_db app"
    and g: "g = organization_row (s\<lparr> db_queries := db_queries s + 1 \<rparr>)
        \<lparr> no_name = og_req_name req, no_slug = og_req_slug req, no_owner_id = og_req_owner_id req,
          no_settings = Some (og_req_settings req) \<rparr>"
    and rows: "db_organizations s' = db_organizations s @ [g]"
    by (auto simp: create_organization_def reply_with_Inr OrganizationRepo_create_def db_query_def Let_def
        split: if_splits)
  have "\<forall>x \<in> set (db_organizations s). og_id x \<noteq> og_id g"
    using assms(1) by (auto simp: db_inv_defs keyed_def g organization_row_def)
  then have "find (\<lambda>x. og_id x = og_id g) (db_organizations s') = Some g"
    unfolding rows by (rule find_new)
  with db assms(3) show ?thesis
    by (simp add: get_organization_def reply_with_def OrganizationRepo_find_by_id_def db_read_eq found_reply_def)
qed

end
