(* ===== verification/Example_Service.thy ===== *)
theory Example_Service
  imports Service Organizations Settings Example_Access Example_Gateway Example_Services
begin

text \<open>
  An instance of the parameters of the handler: no JSON text can be read, a provider answers at once,
  and the gateway has a database, one provider and no auto router.
\<close>

definition example_json :: json_codec where
  "example_json = \<lparr> jc_from_str = (\<lambda>_. Inl ''not JSON''), jc_to_string = (\<lambda>_. []) \<rparr>"

definition example_persist :: persist_env where
  "example_persist =
     \<lparr> px_codec = example_json, px_uuid = dec_digits, px_version = ''0.1'', px_request = (\<lambda>_. None),
       px_response = (\<lambda>_. None), px_decision = (\<lambda>_. None), px_features = (\<lambda>_. None), px_signals = (\<lambda>_. None),
       px_candidates = (\<lambda>_. None), px_escalations = (\<lambda>_. None), px_boundaries = (\<lambda>_. None) \<rparr>"

definition example_prep :: prep_env where
  "example_prep =
     \<lparr> pe_compress = \<lparr> ce_codec = example_json,
         ce_regex = \<lparr> rx_is_match = (\<lambda>_ _. False), rx_captures = (\<lambda>_ _. None), rx_replace = (\<lambda>_ s _. s),
           rx_replace_all = (\<lambda>_ s _. s), rx_replace_all_with = (\<lambda>_ s _. s) \<rparr>, ce_unicode = ascii_unicode \<rparr>,
       pe_elapsed = (\<lambda>_. 0), pe_total_elapsed = 0 \<rparr>"

definition example_handler :: "unit handler_env" where
  "example_handler =
     \<lparr> he_services = ex_sv, he_persist = example_persist, he_prep = example_prep,
       he_complete = (\<lambda>_ _ _. Inr (ex_answer ''42'')), he_stream = (\<lambda>_ _ _. Inr []), he_fanout = ex_fanout,
       he_response_cache = None, he_codec = ex_codec, he_org_override = (\<lambda>_. OrgAutoRoutingOverride_default),
       he_event_json = (\<lambda>_. Inr []), he_header_value = Some, he_now = 0, he_clock = (\<lambda>_. 0), he_latency_ms = 5,
       he_request_uuid = ''u'' \<rparr>"

definition example_app :: gateway_app where
  "example_app =
     \<lparr> ga_state = ex_st\<lparr> as_auto_router := None \<rparr>, ga_has_db = True, ga_payload_capture = False,
       ga_replay_tool_context = True, ga_cache_enabled = False, ga_cache_ttl_secs = 60, ga_org_cache = Map.empty \<rparr>"

definition example_world :: "db \<Rightarrow> unit world" where
  "example_world s = \<lparr> w_app = example_app, w_db = s, w_cache = () \<rparr>"

definition example_request :: Request where
  "example_request = Request_text ''a'' ''hi''"

definition example_headers :: header_map where
  "example_headers = [''authorization'' \<mapsto> ''Bearer '' @ cr_key (snd example_created)]"

lemma example_world_simps [simp]:
  "w_app (example_world s) = example_app" "w_db (example_world s) = s"
  "example_world s\<lparr> w_db := t \<rparr> = example_world t"
  by (simp_all add: example_world_def)

lemma example_prepared: "pp_request (preprocess_request example_prep example_request) = example_request"
  by (simp add: preprocess_request_def compress_input_def augment_instructions_def example_request_def
      Request_text_def Request_new_def Let_def)

lemma example_pinned: "parse_auto_model ''a'' = None"
  by code_simp

lemma example_resolved:
  "resolve_model example_handler org syn example_request (example_world s) =
     Some (example_world s, example_request, Inr None)"
  by (simp add: resolve_model_def example_app_def ex_st_def resolve_auto_model_def example_world_def example_request_def
      Request_text_def Request_new_def example_pinned)

lemma example_title: "auto_title ''hi'' = Some ''hi''"
  by code_simp

lemma example_conversation:
  "\<exists>t c. conversation_of example_request (example_world s) = Some (example_world t, c)"
proof -
  have "extract_first_user_message example_request = Some ''hi''"
    by (simp add: extract_first_user_message_def example_request_def Request_text_def Request_new_def InputItem_user_def
        content_text_def)
  then show ?thesis
    by (auto simp: conversation_of_def get_or_create_conversation_def new_conversation_def create_with_auto_title_def
        example_title example_app_def example_request_def Request_text_def Request_new_def split: prod.split)
qed

lemma example_answered:
  "\<exists>w' r. respond_whole example_handler False b (x\<lparr> xc_request := example_request, xc_decision := None \<rparr>) ex_provider
     (example_world s) = Some (w', Inr (Json_reply r []))"
proof -
  obtain t c where c: "conversation_of example_request (example_world s) = Some (example_world t, c)"
    using example_conversation by blast
  have k: "cached_response example_handler u q w = (w, None)" for u q and w :: "unit world"
    by (simp add: cached_response_def example_handler_def)
  have call: "\<exists>st. call_with_escalation example_handler (he_complete example_handler) p q None w =
      Some (w\<lparr> w_app := (w_app w)\<lparr> ga_state := st \<rparr> \<rparr>, q, None, Inr (ex_answer ''42''))" for p q and w :: "unit world"
    by (auto simp: call_with_escalation_def example_handler_def Let_def)
  have fan: "\<not> needs_fanout example_request"
    by (simp add: needs_fanout_def example_request_def Request_text_def Request_new_def)
  show ?thesis
    using call [of ex_provider example_request "example_world t"]
    by (auto simp: respond_whole_def k c provider_answer_def fan with_selected_model_header_def selected_model_header_def Let_def
        split: prod.split)
qed

lemma example_responds:
  assumes "\<not> missing_scope auth"
  shows "\<exists>w' r. create_response example_handler headers auth example_request (example_world s)
    = Some (w', Inr (Json_reply r []))"
proof -
  have "replayed (example_world s) example_request = (example_world s, example_request)"
    by (simp add: replayed_def replay_prior_tool_calls_def example_request_def Request_text_def Request_new_def
        example_world_def example_app_def)
  moreover have "get_provider (ga_state example_app) (req_model example_request) = Some ex_provider"
    by (simp add: get_provider_def example_app_def ex_st_def ex_provider_def example_request_def Request_text_def
        Request_new_def)
  moreover have "he_prep example_handler = example_prep" by (simp add: example_handler_def)
  moreover have "\<not> req_stream example_request" "\<not> needs_fanout example_request"
    by (simp_all add: needs_fanout_def example_request_def Request_text_def Request_new_def)
  moreover obtain x where "x = \<lparr> xc_request = example_request, xc_request_id = ''aura_'' @ he_request_uuid example_handler,
      xc_auth = auth, xc_conversation = None, xc_provider_name = pv_name ex_provider,
      xc_strategy = strategy_of None (extract_routing_strategy headers), xc_decision = None,
      xc_compression = pp_compression_metadata (preprocess_request example_prep example_request),
      xc_compression_log = compression_log (preprocess_request example_prep example_request), xc_request_body = None \<rparr>"
    by simp
  ultimately show ?thesis
    using assms example_answered [of "should_bypass_cache headers" x s]
    by (simp add: create_response_def example_prepared example_resolved Let_def)
qed

text \<open>With the key just created the request is answered.\<close>

lemma example_posted:
  "\<exists>w' r. post_responses example_auth_env \<lparr> aa_key = [], aa_no_auth = False \<rparr> example_handler example_headers
     example_request (example_world (fst example_created)) = Some (w', Inr (Inr (Json_reply r [])))"
proof -
  define h where "h = (\<lambda>auth s. case create_response example_handler example_headers auth example_request
      (example_world s) of Some (w', r) \<Rightarrow> (w_db w', Some (w', r)) | None \<Rightarrow> (s, None))"
  have up: "\<not> db_fails (fst example_created) (db_queries (fst example_created))"
    by (simp add: example_created_db example_db_def db_empty_def)
  have env: "hex_ok (ae_crypto example_auth_env)" "length (ae_random example_auth_env) = API_KEY_RANDOM_BYTES"
    "ae_has_db example_auth_env" "ck_expires_in_days example_key_request = None"
    by (simp_all add: example_auth_env_def example_hex_ok API_KEY_RANDOM_BYTES_def example_key_request_def)
  obtain s x where auth: "authenticate example_auth_env \<lparr> aa_key = [], aa_no_auth = False \<rparr> ''/v1/responses''
      (example_headers ''authorization'') h (fst example_created) = (s, Inr x)"
    using created_key_admitted [OF example_creation env(1,2) _ up example_paths] env(4)
    by (fastforce simp: example_headers_def simp del: append_Cons)
  then obtain k a t where k: "k \<in> set (db_api_keys (fst example_created))" "ac_api_key a = k"
    and h: "h (Some a) t = (s, x)"
    using authenticate_served [OF auth example_paths env(3)] by (auto simp: proves_key_def)
  have "ApiKey_has_scope k ''*''"
    using k(1) by (simp add: example_created_db example_key_def api_key_row_def build_new_api_key_def example_key_request_def
        ApiKey_has_scope_def ApiKey_get_scopes_def)
  then have "\<not> missing_scope (Some a)" using k(2) by (simp add: missing_scope_def AuthContext_has_scope_def)
  then obtain w' r where "create_response example_handler example_headers (Some a) example_request (example_world t)
      = Some (w', Inr (Json_reply r []))"
    using example_responds by blast
  with h have "x = Some (w', Inr (Json_reply r []))" by (auto simp: h_def)
  with auth show ?thesis by (simp add: post_responses_def h_def)
qed

text \<open>A conversation with a stored response that called a tool, and the request that answers the call.\<close>

definition example_chat :: db where
  "example_chat = fst (ConversationRepo_create
     \<lparr> nc_user_id = None, nc_title = None, nc_model_id = ''a'', nc_metadata = None \<rparr> example_db)"

definition example_calling :: Response where
  "example_calling = (ex_answer [])\<lparr> resp_output := [FunctionCall (FunctionCallItem_new ''i'' ''call'' ''f'' ''{}'')] \<rparr>"

definition example_follow_up :: Request where
  "example_follow_up = (Request_new ''a'' [InFunctionCallOutput ''call'' ''42''])\<lparr> req_previous_response_id := Some ''r'' \<rparr>"

definition example_stored :: db where
  "example_stored = fst (ResponseRepo_create (new_response 0 example_request example_calling) example_chat)"

lemma example_stores:
  "\<exists>row. ResponseRepo_create (new_response 0 example_request example_calling) example_chat = (example_stored, Inr row)"
  by (simp add: example_stored_def ResponseRepo_create_def db_query_def example_chat_def ConversationRepo_create_def
      example_db_def db_empty_def Let_def response_fits_def new_response_def fits_length fits_def example_calling_def ex_answer_def
      Response_in_progress_def response_statuses_def response_status_to_string_def conversation_exists_def
      example_request_def Request_text_def Request_new_def)

lemma example_stored_up: "db_fails example_stored n = False"
  by (simp add: example_stored_def ResponseRepo_create_def db_query_def example_chat_def ConversationRepo_create_def
      example_db_def db_empty_def Let_def)

text \<open>A log with a cost.\<close>

definition example_exchange :: exchange where
  "example_exchange =
     \<lparr> xc_request = example_request, xc_request_id = ''aura_u'', xc_auth = Some example_caller, xc_conversation = None,
       xc_provider_name = ''p'', xc_strategy = None, xc_decision = None, xc_compression = None,
       xc_compression_log = None, xc_request_body = None \<rparr>"

definition example_log :: NewRequestLog where
  "example_log = (exchange_log example_exchange 5 ''completed'' None None)\<lparr> nl_cost_usd := Some (Fin 1) \<rparr>"

lemma example_log_fits: "log_fits example_log"
  by code_simp

lemma example_logged:
  "\<exists>s' row. insert_log example_log (record_api_key_usage example_app example_caller (ex_answer ''42'') example_request
      (example_db\<lparr> db_numeric_cost := True \<rparr>)) = (s', Inr row)"
proof -
  have "nl_conversation_id example_log = None"
    by (simp add: example_log_def exchange_log_def example_exchange_def)
  then show ?thesis
    by (simp add: insert_log_def db_query_def record_api_key_usage_def ex_answer_def Response_in_progress_def
        example_db_def db_empty_def Let_def example_log_fits)
qed

text \<open>A message with an image, to be compressed.\<close>

definition example_image :: Request where
  "example_image = (Request_new ''a'' [InMessage User (IParts [CText ''look'', CImage (Some ''u'') None None])])
     \<lparr> req_compression := Some (CompressionConfig_default\<lparr> cmp_enabled := True \<rparr>) \<rparr>"

text \<open>An organization, its new settings, and its deletion.\<close>

definition example_org_db :: db where
  "example_org_db = fst (OrganizationRepo_create
     \<lparr> no_name = ''Acme'', no_slug = ''acme'', no_owner_id = ''ada'', no_settings = None \<rparr> example_db)"

definition example_update :: UpdateOrganizationRequest where
  "example_update = \<lparr> up_name = None, up_settings = Some (JBool True) \<rparr>"

lemma example_org_rows:
  "db_organizations example_org_db = [\<lparr> og_id = 0, og_name = ''Acme'', og_slug = ''acme'', og_owner_id = ''ada'',
     og_settings = None, og_created_at = 0, og_updated_at = 0 \<rparr>]"
  "db_fails example_org_db n = False"
  by (simp_all add: example_org_db_def OrganizationRepo_create_def db_query_def example_db_def db_empty_def Let_def
      organization_row_def fits_length)

lemma example_updated:
  "\<exists>app s n g. update_organization example_app 0 example_update example_org_db = (app, s, Inr (n, g))
     \<and> \<not> db_fails s (db_queries s)"
  by (simp add: update_organization_def reply_with_def OrganizationRepo_update_def db_query_def example_org_rows Let_def
      example_app_def example_update_def fits_def)

lemma example_deleted: "\<exists>s r. delete_organization example_app 0 example_org_db = (s, Inr r)"
  by (simp add: delete_organization_def reply_with_def OrganizationRepo_delete_def db_write_def db_query_def
      example_org_rows Let_def example_app_def)

text \<open>Settings of an operator, with a codec that knows one document.\<close>

definition example_settings :: GatewaySettings where
  "example_settings = GatewaySettings_default\<lparr> gs_cache := \<lparr> cs_enabled = Some False, cs_default_ttl_secs = Some 42 \<rparr> \<rparr>"

definition example_settings_codec :: settings_codec where
  "example_settings_codec =
     \<lparr> sc_to_value = (\<lambda>s. if s = example_settings then Inr (JBool True) else Inl ''unknown''),
       sc_from_value = (\<lambda>v. if v = JBool True then Inr example_settings else Inl ''unknown'') \<rparr>"

definition example_store :: settings_store where
  "example_store = \<lparr> ss_has_db = True, ss_stored = None, ss_fault = None \<rparr>"

definition example_boot :: boot_config where
  "example_boot = \<lparr> bc_auto = ex_cfg, bc_payload_capture = False, bc_replay_var = None \<rparr>"

lemma example_put:
  "\<exists>d' st' r. put_settings ex_env example_boot example_settings_codec True (JBool True) example_store st = (d', st', Inr r)"
  by (simp add: put_settings_def example_settings_codec_def example_settings_def GatewaySettings_validate_def
      GatewaySettings_default_def RoutingSettings_default_def MAX_CACHE_TTL_SECS_def Let_def save_gateway_settings_def
      GatewaySettingsRepo_set_def example_store_def split: prod.split)

end
