(* ===== verification/Spec2Isabelle.thy ===== *)
theory Spec2Isabelle
  imports Example_Gateway Example_Router Stream_Events Sse_Bytes Consistency Compression_Types Learned
    Example_Services Json_Compress Smart_Compress Example_Access Create_Response Startup Example_Service Bedrock OpenAI Together Gemini
begin

text \<open>
  Aura is an LLM gateway written in Rust. This development models the path of a request: who may
  send it, which model and which endpoint it goes to, how it is put to a provider and its stream is read back,
  what happens when a call fails, what a call costs and what is stored about it.

  \<^bold>\<open>The parts and how they interact.\<close> A request arrives as one of the wire types. When its model
  is \<open>auto\<close> (or \<open>auto:\<close> and a mode), the gateway builds an eligibility oracle from its provider
  registry, its prices and its model circuit breaker, merges the request's routing options with those
  of the organization, and asks the auto router for a decision: features, score, tier, bounds,
  selection inside the tier. The call loop then calls the provider; a failure feeds the breaker and
  may escalate to the next model. The smart router is a second, independent mechanism that picks an
  endpoint of a pool by a strategy, over a health tracker and fallback chains. Around the decision,
  the request is authenticated, prepared (replayed calls, compression, consistency), answered by an
  adapter or from the cache, and stored with its usage, log, decision and messages.

  \<^bold>\<open>Which theory models which file\<close> (paths under \<open>src/crates\<close>):
  \<^item> \<open>Prelude\<close>, \<open>Rust_Str\<close>, \<open>F64\<close>, \<open>Clock\<close>: what the code uses of the standard library. Panics as
    \<open>option\<close>, saturating and wrapping words, strings as lists of code units with \<open>trim\<close>, \<open>split\<close>,
    \<open>find\<close> and case mapping (the Unicode tables are a parameter), comparison functions and stable
    sorting, and binary64 with NaN, infinities and exact rounding to nearest even.
  \<^item> Wire types, \<open>aura-types/src\<close>: \<open>Routing_Types\<close> and \<open>Glob\<close> (\<open>routing.rs\<close>), \<open>Items\<close> (\<open>item.rs\<close>),
    \<open>Response_Types\<close> (\<open>response.rs\<close>), \<open>Validation_Types\<close> (\<open>validation.rs\<close>), \<open>Consistency\<close>
    (\<open>consistency.rs\<close>), \<open>Compression_Types\<close> (\<open>compression.rs\<close>).
  \<^item> Auto routing, \<open>aura-core/src/router/auto\<close>: \<open>Auto_Config\<close> (\<open>config.rs\<close>), \<open>Features\<close>, \<open>Scorer\<close>,
    \<open>Learned\<close> (\<open>learned.rs\<close>, \<open>cost_model.rs\<close>), \<open>Llm\<close>, \<open>Outcomes\<close>, \<open>Tier_Catalog\<close> (\<open>tiers.rs\<close>),
    \<open>Catalog\<close> (\<open>catalog.rs\<close>, \<open>capabilities.rs\<close>), \<open>Auto_Router\<close> (\<open>mod.rs\<close>).
  \<^item> Gateway, \<open>aura-proxy/src\<close>: \<open>Breaker\<close> (the model circuit breaker of \<open>main.rs\<close>), \<open>Gateway\<close> and
    \<open>Escalation\<close> (\<open>routes/auto_routing.rs\<close> and the call loop of \<open>routes/responses.rs\<close>).
  \<^item> Smart router, \<open>aura-core/src/router\<close>: \<open>Health\<close>, \<open>Endpoint\<close>, \<open>Strategy\<close> and \<open>Selector\<close>
    (\<open>strategy.rs\<close>), \<open>Pool\<close>, \<open>Fallback\<close>, \<open>Router_Config\<close>, \<open>Smart_Router\<close> (\<open>mod.rs\<close>).
  \<^item> \<open>Cost\<close> (\<open>aura-core/src/cost.rs\<close>), \<open>Provider\<close> (\<open>provider/mod.rs\<close>) and \<open>Provider_Error\<close> (\<open>provider/error.rs\<close>).
  \<^item> Limits and streams: \<open>Rate_Limit\<close> (\<open>aura-core/src/rate_limit.rs\<close>), \<open>Rate_Middleware\<close>
    (\<open>aura-proxy/src/routes/rate_limit.rs\<close>), \<open>Sse_Bytes\<close> (\<open>aura-core/src/provider/sse.rs\<close>),
    \<open>Stream_Events\<close> (\<open>aura-types/src/stream.rs\<close>), over \<open>Rust_Parse\<close> (lines and numbers).
  \<^item> Services around the call: \<open>Cache\<close> (\<open>aura-core/src/cache.rs\<close>) over the commands of
    \<open>Commands\<close>, \<open>Fanout\<close> (\<open>aura-core/src/validation/fanout.rs\<close>), \<open>Json_Compress\<close>
    (\<open>aura-core/src/compression/json.rs\<close>) over \<open>Json_Map\<close>, the sorted maps of \<open>serde_json\<close>;
    \<open>Toon\<close>, \<open>Yaml\<close>, \<open>Aisp\<close> (\<open>toon.rs\<close>, \<open>yaml.rs\<close>, \<open>aisp.rs\<close>) the other formats over \<open>Text_Format\<close>,
    and \<open>Smart_Compress\<close> (\<open>selector.rs\<close>, \<open>mod.rs\<close>) the choice among them.
  \<^item> Provider adapters, \<open>aura-core/src/provider\<close>: \<open>Provider_Stream\<close> is the exchange and the loop over a
    byte stream that the adapters repeat, \<open>Tool_Calls\<close> the batching of calls, \<open>Provider_Cache\<close>
    (\<open>cache.rs\<close>); \<open>Anthropic\<close>, \<open>Bedrock\<close>, \<open>OpenAI\<close>, \<open>Gemini\<close> one adapter each, \<open>Chat_Adapters\<close>
    (\<open>mistral.rs\<close>, \<open>ollama.rs\<close>, \<open>huggingface.rs\<close>) and \<open>Together\<close> (\<open>together.rs\<close>, \<open>fireworks.rs\<close>)
    over \<open>Chat_Completions\<close>, the format they share. An adapter is
    its wire types, \<open>transform_request\<close>, \<open>transform_response\<close>, \<open>parse_error_response\<close>, \<open>complete\<close>,
    and \<open>complete_stream\<close>, whose loop is given by what the adapter does with a line and at the end.
  \<^item> Storage: \<open>Db_Models\<close>, \<open>Db\<close>, \<open>Db_Tenants\<close> (\<open>aura-db/src/models.rs\<close>, \<open>repo.rs\<close> over the schema of the migrations)
    model the tables as lists of rows and a query as a function on them that may also fail; \<open>Db_Invariant\<close>
    is their keys and references.
  \<^item> Access: \<open>Crypto\<close> (\<open>aura-core/src/crypto.rs\<close>), \<open>Auth\<close> and \<open>Auth_Facts\<close> (\<open>aura-proxy/src/routes/auth.rs\<close>).
  \<^item> A request from end to end: \<open>Request_Prep\<close> and \<open>Create_Response\<close> (\<open>routes/responses.rs\<close>) over \<open>Persistence\<close>
    (what \<open>main.rs\<close> stores); \<open>Exchange_Facts\<close> has their lemmas, \<open>Service\<close> puts authentication in front and
    lets requests and operations on the tables follow each other in any order.
  \<^item> Operators: \<open>Organizations\<close> (\<open>routes/organizations.rs\<close>, \<open>conversations.rs\<close>), \<open>Settings\<close>
    (\<open>aura-core/src/settings.rs\<close>, \<open>routes/admin_settings.rs\<close>), \<open>Startup\<close> (\<open>AppState::new\<close>).
  \<^item> \<open>Example_Gateway\<close>, \<open>Example_Router\<close>, \<open>Example_Services\<close>,
    \<open>Example_Access\<close>, \<open>Example_Service\<close>: concrete instances the general theorems are applied to.

  Operations keep their Rust names, prefixed by the type where two types share one; fields carry a
  short prefix per record. Shared state behind a lock is passed and returned; a \<open>Result\<close> is a sum, a
  panic is \<open>None\<close> of the type \<open>panics\<close>, an iteration order the code observes is a list.

  \<^bold>\<open>What the groups of lemmas show.\<close> Auto routing: selection stays in the tier bounds, the budget
  and the policy, and finds a model when one exists; the scorer is monotone in the mode; the learned
  models are total on validated weights. The gateway: the call loop ends, never repeats a model and
  never panics; the breaker opens at its limit. Smart router: routing refines the choice of the first
  available candidate, weighted selection is proportional, the health states follow the failures.
  Types: names are read back, globs equal their specification, costs are finite and monotone.
  Limits and streams: the limiter admits exactly the limit, a refused request is not served, chunks of
  a stream are joined whatever their cut, events are read back. The services: a fan-out returns the majority answer,
  the cache answers by the fields of its key, minification keeps the value,
  every format answers for every value, a YAML scalar is read back.
  Providers: a stream is what its lines say however it is cut, a completed response has the streamed
  text, some adapters lose the first texts and the system messages, a conversation is sent whole and
  parallel calls together, Bedrock agrees with Anthropic, the cache key separates its fields.
  Storage and access: no sequence of requests and operations breaks the keys and references of the tables,
  a revoked key is never answered again, an answer needs a scope, a follow-up finds the calls and the
  conversation it continues; the lemmas also show what the code loses (the decision and the messages of a
  priced log, the parts of a compressed message). Operators: an update of an organization
  takes effect at once, settings are the same after a restart.

  \<^bold>\<open>Interfaces.\<close> Locales state what a component promises its clients and are interpreted on the
  model's definitions: comparison functions and sorting keys, eligibility oracles that answer
  without a panic, endpoint selectors, a random generator whose draws are in range, line protocols
  whose answers add up to the text they accumulate, steps that batch calls, and
  properties of the tables that serving a request, and then a whole run, keeps.

  \<^bold>\<open>Bounds and fuel.\<close> Every loop is structural except the call loop of the gateway, whose fuel is
  the number of remaining retries plus one: each round either ends or uses one retry, and
  \<open>attempt_loop_terminates\<close> shows the fuel is never exhausted. Counters and token counts keep their
  width (\<open>u32\<close>, \<open>u64\<close>) and wrap as in a release build; a debug build panics there instead.
  The loops over the Redis \<open>SCAN\<close> end only if the server ends them and are partial functions.

  \<^bold>\<open>Parameters.\<close> The regular expression engine, the JSON readers and writers, the HTTP
  exchange, SHA-256 and AES-GCM, the order of a hash map, the Gamma sampler, the random
  generator, the clocks, the process environment, the Unicode case tables and the transcendental
  functions of \<open>f64\<close> are arguments of the definitions that use them; what a theorem needs of them is
  a hypothesis.

  \<^bold>\<open>Not modelled.\<close> The HTTP client, the AWS SDK and the JSON text of the wire types; the SQL server beyond the
  queries named above, with the repositories of feedback, outcomes, gold pairs, credentials and members;
  Redis connections; the reporting, feedback, health and metrics routes; configuration files,
  migrations, metrics and logging: mostly input and output over services outside the repository.
  Asynchrony is modelled only through the order of the steps: a task the code spawns runs where it is
  started, and a stream is the list of what the provider sends.
\<close>

section \<open>Auto routing in the gateway\<close>

text \<open>C1: Routing respects the policy. When the gateway resolves a request to an \<open>auto\<close>
  model, the model it picks is one the operator listed in the tier of the decision, a provider
  serves it, its circuit breaker is closed, no deny pattern of the organization matches it and, if
  the organization has an allow list, a pattern of that list does.\<close>

theorem resolve_respects_policy:
  assumes "resolve_auto_model sv st now org has_org syn req = Some (st', req', Inr (Some d))"
    and "as_auto_router st = Some router"
  shows "ad_selected d \<in> set (TierModels_get (cat_tiers (ar_catalog router)) (ad_tier d))
    \<and> provider_name_for_catalog_model st (ad_selected d) = ad_selected_provider d
    \<and> ad_selected_provider d \<noteq> None
    \<and> \<not> is_model_breaker_open now (ad_selected d) (as_model_breaker st)
    \<and> (\<forall>p \<in> set (org_deny org).
         pattern_matches p (the (ad_selected_provider d)) (ad_selected d) \<noteq> Some True)
    \<and> (org_allow org = [] \<or> (\<exists>p \<in> set (org_allow org).
         pattern_matches p (the (ad_selected_provider d)) (ad_selected d) = Some True))"
proof -
  from assms obtain req1 ctx ov r' d0 where ctx: "resolve_context sv router org req = (req1, ctx)"
    and dec: "decide_with_override (sv_env sv) router req1 ctx
       (GatewayEligibility_oracle (sv_math sv) st now (for_request (sv_env sv) st req1)) ov = Some (r', Inr d0)"
    and d: "ad_selected d = ad_selected d0" "ad_tier d = ad_tier d0" "ad_selected_provider d = ad_selected_provider d0"
    by (auto elim!: resolve_Some)
  note E = decide_eligible [OF dec]
  have g: "gw_is_eligible st now (for_request (sv_env sv) st req1) (ad_selected d)"
    using E(2) by (simp add: eligible_filtered oracle_eligible d)
  have p: "ad_selected_provider d = provider_name_for_catalog_model st (ad_selected d)"
    using E(3) by (simp add: oracle_eligible d)
  obtain pr where pr: "provider_name_for_catalog_model st (ad_selected d) = Some pr"
    using gw_eligible(1) [OF g] by auto
  have o: "permits (merged_with org (req_routing req) (Option.bind (parse_auto_model (req_model req)) alias_mode))
      pr (ad_selected d) = Some True" if "org \<noteq> OrgAutoRoutingOverride_default"
  proof -
    have "dc_options ctx = Some (merged_with org (req_routing req)
        (Option.bind (parse_auto_model (req_model req)) alias_mode))"
      using resolve_context_options [OF ctx] that by blast
    with E(2) pr show ?thesis by (simp add: eligible_filtered oracle_eligible d)
  qed
  have "(\<forall>q \<in> set (org_deny org). pattern_matches q pr (ad_selected d) \<noteq> Some True)
      \<and> (org_allow org = [] \<or> (\<exists>q \<in> set (org_allow org). pattern_matches q pr (ad_selected d) = Some True))"
    using merged_permits_org [OF o]
    by (cases "org = OrgAutoRoutingOverride_default") (simp_all add: OrgAutoRoutingOverride_default_def)
  with E(1) gw_eligible(2) [OF g] p pr d show ?thesis by simp
qed

theorem resolve_respects_policy_witness:
  "\<exists>st' req' d. resolve_auto_model ex_sv ex_st 0 ex_org True False ex_req = Some (st', req', Inr (Some d))
     \<and> ad_selected d \<noteq> ''a''"
proof -
  obtain st' req' d where r: "resolve_auto_model ex_sv ex_st 0 ex_org True False ex_req = Some (st', req', Inr (Some d))"
    using ex_resolve by blast
  have "''a'' \<in> set (org_deny ex_org)" by (simp add: ex_org_def)
  with resolve_respects_policy [OF r ex_premises(1)] have "pattern_matches ''a'' (the (ad_selected_provider d)) (ad_selected d) \<noteq> Some True"
    by blast
  with r ex_denied show ?thesis by metis
qed

text \<open>C2: Routing finds a model. If auto routing is on for the organization, a model between
  the bounds of the request is listed, permitted by the merged lists and eligible in the gateway's
  state (served, breaker closed, context and capabilities large enough), then resolving the request
  returns a decision, not an error and not a panic. The lists hold patterns with at most one star,
  and the classifier is not the learned one, whose weights may be missing.\<close>

theorem resolve_finds_model:
  assumes "as_auto_router st = Some router" "parse_auto_model (req_model req) \<noteq> None"
    and "resolve_context sv router org req = (req1, ctx)"
    and "org_enabled org = Some True \<or> org_enabled org = None \<and> AutoRouter_is_enabled router"
    and "effective_classifier router ctx \<noteq> Learned"
    and "\<forall>q \<in> set_option (dc_options ctx). simple_options q"
    and "tier_bounds (dc_options ctx) = (lo, hi, hf)" "lo \<le> t" "t \<le> hi"
    and "m \<in> set (TierModels_get (cat_tiers (ar_catalog router)) t)"
    and "permitted_by (dc_options ctx) (GatewayEligibility_oracle (sv_math sv) st now (for_request (sv_env sv) st req1)) m"
    and "gw_is_eligible st now (for_request (sv_env sv) st req1) m"
  shows "\<exists>st' req' d. resolve_auto_model sv st now org has_org syn req = Some (st', req', Inr (Some d))"
  using assms by (rule resolve_finds)

theorem resolve_finds_model_witness:
  "\<exists>st' req' d. resolve_auto_model ex_sv ex_st 0 ex_org True False ex_req = Some (st', req', Inr (Some d))"
  by (rule resolve_finds_model [OF ex_premises(1,2) ex_context ex_premises(3,4,5,6) Simple_le_tier
        tier_le_Reasoning ex_premises(7) ex_permitted ex_premises(8)])

text \<open>C3: The tier of a decision lies within the bounds of the request. The upper bound is
  exceeded in one case only: the request carries tools and the configured tools floor is above it,
  and then the tier is at most that floor.\<close>

theorem decide_within_tier_bounds:
  assumes "decide_with_override e r req ctx orc ov = Some (r', Inr d)"
    and "tier_bounds (dc_options ctx) = (lo, hi, hf)"
  shows "lo \<le> ad_tier d \<and> (ad_tier d \<le> hi \<or> 0 < ft_tool_count (ad_features d)
      \<and> (\<exists>fl. tools_min_tier (ar_config r) = Some fl \<and> hi < fl \<and> ad_tier d \<le> fl))"
  using decide_tier_bounds [OF assms] by blast

theorem decide_within_tier_bounds_witness:
  "\<exists>r' d. decide_with_override ex_env ex_router ex_tool_req ex_ctx ex_orc None = Some (r', Inr d)
     \<and> Simple \<le> ad_tier d \<and> ad_tier d \<le> Reasoning"
  using ex_decide ex_bounds decide_within_tier_bounds [where ctx = ex_ctx and lo = Simple and hi = Reasoning]
  by (fastforce simp: ex_ctx_def)

text \<open>C4: The budget binds whenever it can. If some listed model between the bounds is acceptable
  and its predicted cost is within the request's budget, the model selected is not predicted to cost
  more than the budget (turns inside a tool loop apart, which keep the previous model).\<close>

theorem decide_keeps_budget:
  assumes "decide_with_override e r req ctx orc ov = Some (r', Inr d)"
    and "budget_of (dc_options ctx) = Some l" "\<not> ft_is_tool_loop_turn (ad_features d)"
    and "tier_bounds (dc_options ctx) = (lo, hi, hf)" "lo \<le> t" "t \<le> hi"
    and "m \<in> set (TierModels_get (cat_tiers (ar_catalog r)) t)"
    and "is_eligible (FilteredOracle orc (dc_options ctx)) m = Some True" "within_budget orc l m"
  shows "\<forall>c \<in> set_option (predicted_cost orc (ad_selected d)). \<not> f64_lt l c"
  using decide_budget [OF assms] by (simp add: within_budget_def)

theorem decide_keeps_budget_witness:
  "\<exists>r' d. decide_with_override ex_env ex_router ex_tool_req ex_ctx ex_orc None = Some (r', Inr d)
     \<and> (\<forall>c \<in> set_option (predicted_cost ex_orc (ad_selected d)). \<not> f64_lt (Fin 2) c)"
proof -
  obtain r' d where d: "decide_with_override ex_env ex_router ex_tool_req ex_ctx ex_orc None = Some (r', Inr d)"
    "ad_features d = AutoRouter_features ex_env ex_router ex_tool_req"
    using ex_decide by blast
  have o: "dc_options ex_ctx = Some ex_opts" by (simp add: ex_ctx_def)
  have b: "budget_of (dc_options ex_ctx) = Some (Fin 2)" unfolding o by code_simp
  have "\<forall>c \<in> set_option (predicted_cost ex_orc (ad_selected d)). \<not> f64_lt (Fin 2) c"
    by (rule decide_keeps_budget [OF d(1) b, of Simple Reasoning "[]" Simple "''a''"])
      (simp_all add: o d(2) ex_features ex_bounds ex_tiers ex_eligible ex_within_budget)
  with d(1) show ?thesis by blast
qed

text \<open>C5: The error says the truth. When a decision fails with \<open>NoCandidate\<close>, no
  listed model of the decided tier, or of any tier between the bounds, is acceptable.\<close>

theorem no_candidate_means_none:
  assumes "decide_with_override e r req ctx orc ov = Some (r', Inl (NoCandidate tier n))"
    and "tier_bounds (dc_options ctx) = (lo, hi, hf)" "t = tier \<or> lo \<le> t \<and> t \<le> hi"
    and "m \<in> set (TierModels_get (cat_tiers (ar_catalog r)) t)"
  shows "is_eligible (FilteredOracle orc (dc_options ctx)) m \<noteq> Some True"
  using assms by (rule decide_NoCandidate_none)

theorem no_candidate_means_none_witness:
  "\<exists>r' t n. decide_with_override ex_env ex_router ex_tool_req ex_ctx ex_closed None = Some (r', Inl (NoCandidate t n))
     \<and> is_eligible (FilteredOracle ex_closed (Some ex_opts)) ''b'' \<noteq> Some True"
proof -
  obtain r' t n where x:
    "decide_with_override ex_env ex_router ex_tool_req ex_ctx ex_closed None = Some (r', Inl (NoCandidate t n))"
    using ex_no_candidate by blast
  have o: "dc_options ex_ctx = Some ex_opts" by (simp add: ex_ctx_def)
  have "is_eligible (FilteredOracle ex_closed (dc_options ex_ctx)) ''b'' \<noteq> Some True"
    by (rule no_candidate_means_none [OF x, of Simple Reasoning "[]" Medium]) (simp_all add: o ex_bounds ex_tiers)
  with x show ?thesis unfolding o by blast
qed

text \<open>C6: The retry loop ends. With fuel for one more call than the configured number of
  escalations the loop returns, and the attempts it counts do not exceed that number.\<close>

theorem attempt_loop_terminates:
  assumes "max_retries st - unat n < fuel"
  shows "\<exists>x. attempt_loop fuel sv call clock st p req dec n = Some x
    \<and> (\<forall>st' req' dec' res k. x = Some (st', req', dec', res, k) \<longrightarrow> unat k \<le> max (unat n) (max_retries st))"
  using assms by (rule loop_returns)

theorem attempt_loop_terminates_witness:
  "\<exists>x. attempt_loop 2 ex_sv ex_call (\<lambda>_. 0) ex_st ex_provider ex_req None 0 = Some x"
proof -
  have "max_retries ex_st - unat (0 :: u32) < 2" by (simp add: max_retries_def ex_st_def ex_config ex_cfg_def)
  from attempt_loop_terminates [OF this] show ?thesis by blast
qed

text \<open>C7: No model is called twice for one request: the models recorded in the escalations
  of the final decision, with the current one, are distinct, and they extend the models tried
  before the loop began.\<close>

theorem attempt_loop_tries_distinct:
  assumes "attempt_loop fuel sv call clock st p req dec n = Some (Some (st', req', dec', res, k))"
    and "in_step req dec" "distinct (tried req dec)"
  shows "distinct (tried req' dec') \<and> (\<exists>ms. tried req' dec' = tried req dec @ ms)"
  using loop_tried [OF assms] by blast

theorem attempt_loop_tries_distinct_witness:
  "\<exists>st' req' dec' res k. attempt_loop 2 ex_sv ex_call (\<lambda>_. 0) ex_st ex_provider ex_req None 0 =
     Some (Some (st', req', dec', res, k)) \<and> distinct (tried req' dec')"
proof -
  have "in_step ex_req None" "distinct (tried ex_req None)" by (simp_all add: in_step_def tried_def)
  with ex_loop attempt_loop_tries_distinct show ?thesis by metis
qed

text \<open>C8: Neither the retry loop nor the selections inside it panic, whatever the providers
  answer, when the request's lists hold patterns with at most one star.\<close>

theorem attempt_loop_never_panics:
  assumes "\<forall>q \<in> set_option (req_routing req). simple_options q"
  shows "attempt_loop fuel sv call clock st p req dec n \<noteq> Some None"
  using assms by (rule loop_no_panic)

theorem attempt_loop_never_panics_witness:
  "attempt_loop 2 ex_sv ex_call (\<lambda>_. 0) ex_st ex_provider ex_req1 None 0 \<noteq> Some None"
  by (rule attempt_loop_never_panics) (simp add: ex_req1_def ex_simple1)

section \<open>A request from end to end\<close>

text \<open>C9: Who is answered. When a database is configured, a request to \<open>/v1/responses\<close> that is neither
  refused by authentication nor for its scope carries a bearer token that proves a stored key, active
  and not expired, and that key has the scope \<open>responses:create\<close> or all scopes. This holds of answers and
  of every later error alike, so nothing behind the handler is reachable without such a key.\<close>

theorem answered_requests_hold_a_scope:
  assumes "post_responses AE admin E headers q w = Some (w', Inr r)" "r \<noteq> Inl scope_error" "ae_has_db AE"
  shows "\<exists>k token. k \<in> set (db_api_keys (w_db w)) \<and> ApiKey_is_valid (ae_now AE) k
    \<and> headers ''authorization'' = Some (''Bearer '' @ token) \<and> extract_key_id token = Some (ak_key_id k)
    \<and> ak_key_hash k = hash_api_key (ae_crypto AE) token
    \<and> (ApiKey_has_scope k ''responses:create'' \<or> ApiKey_has_scope k ''*'')"
  using answered_key [OF assms] by (auto simp: proves_key_def)

theorem answered_requests_hold_a_scope_witness:
  "\<exists>k \<in> set (db_api_keys (fst example_created)).
     ApiKey_is_valid 5 k \<and> (ApiKey_has_scope k ''responses:create'' \<or> ApiKey_has_scope k ''*'')"
proof -
  obtain w r where "post_responses example_auth_env \<lparr> aa_key = [], aa_no_auth = False \<rparr> example_handler example_headers
      example_request (example_world (fst example_created)) = Some (w, Inr (Inr (Json_reply r [])))"
    using example_posted by blast
  from answered_requests_hold_a_scope [OF this] show ?thesis by (auto simp: example_auth_env_def)
qed



text \<open>C11: Revocation is final for the whole service. After the owner revoked a key, no request that carries
  a token with that key's identifier gets past authentication, whatever requests were served and
  whatever operations were done on the tables in between, unless one deleted the key.\<close>

theorem revoked_key_never_answered:
  assumes "db_inv (w_db w)" "revoke_api_key AE auth key_id (w_db w) = (s, Inr n)"
    and "(gateway_step (\<lambda>op. \<not> deletes_key op))\<^sup>*\<^sup>* (w\<lparr> w_db := s \<rparr>) w'"
    and "ae_has_db AE'" "bearer_token (headers ''authorization'') = Some token" "extract_key_id token = Some key_id"
  shows "\<exists>w'' e. post_responses AE' admin E headers q w' = Some (w'', Inl e)"
proof -
  have "db_inv (w_db (w\<lparr> w_db := s \<rparr>))"
    using revoke_keeps_inv [OF assms(1), of AE auth key_id] assms(2) by simp
  moreover have "is_revoked key_id (w_db (w\<lparr> w_db := s \<rparr>))" using revoke_revokes(1) [OF assms(2)] by simp
  ultimately show ?thesis using assms(3-6) by (rule revoked_never_answered)
qed

theorem revoked_key_never_answered_witness:
  "\<exists>w e. post_responses example_auth_env \<lparr> aa_key = [], aa_no_auth = False \<rparr> example_handler example_headers
     example_request (example_world (db_apply (Update_last_used 0) example_revoked)) = Some (w, Inl e)"
proof (rule revoked_key_never_answered)
  show "db_inv (w_db (example_world (fst example_created)))" by (simp add: example_created_inv)
  show "revoke_api_key example_auth_env (Some example_caller) (cr_key_id (snd example_created))
      (w_db (example_world (fst example_created))) = (example_revoked, Inr 204)"
    by (simp only: example_world_simps example_revocation)
  show "(gateway_step (\<lambda>op. \<not> deletes_key op))\<^sup>*\<^sup>* (example_world (fst example_created)\<lparr> w_db := example_revoked \<rparr>)
      (example_world (db_apply (Update_last_used 0) example_revoked))"
    using manage [of "\<lambda>op. \<not> deletes_key op" "Update_last_used 0" "example_world example_revoked"] by auto
  show "bearer_token (example_headers ''authorization'') = Some (cr_key (snd example_created))"
    by (simp only: example_headers_def bearer_token_Some fun_upd_same)
qed (simp_all add: example_auth_env_def example_key_id)

text \<open>C12: A follow-up continues where the response left off. Once a response is stored in a conversation,
  a later request that names it and answers its tool calls is sent with all of these calls in front,
  with their identifiers, names and arguments and in their order, and is filed under the same
  conversation, whatever requests and operations came between, unless one deleted a conversation, as
  long as the database answers.\<close>

theorem follow_up_continues_the_exchange:
  assumes "ResponseRepo_create (new_response c q r) s = (s1, Inr row)"
    and "(gateway_step (\<lambda>op. \<not> deletes_conversation op))\<^sup>*\<^sup>* (w\<lparr> w_db := s1 \<rparr>) w'"
    and "req_previous_response_id q' = Some (resp_id r)" "list_ex is_tool_output (req_input q')"
    and "ga_has_db (w_app w')" "ga_replay_tool_context (w_app w')" "\<not> db_fails (w_db w') (db_queries (w_db w'))"
  shows "req_input (snd (replayed w' q')) =
      map (\<lambda>f. InFunctionCall (fc_call_id f) (fc_name f) (fc_arguments f))
        (List.map_filter Item_as_function_call (resp_output r)) @ req_input q'
    \<and> (\<exists>w''. conversation_of q' w' = Some (w'', Some c))"
proof -
  have "stores (resp_id r) (items_value (resp_output r)) c (w_db (w\<lparr> w_db := s1 \<rparr>))"
    using saved_response [OF assms(1)] by simp
  with assms(2) have kept: "stores (resp_id r) (items_value (resp_output r)) c (w_db w')" by (rule stored.run_inv)
  have "List.map_filter replayed_call items =
      map (\<lambda>f. InFunctionCall (fc_call_id f) (fc_name f) (fc_arguments f)) (List.map_filter Item_as_function_call items)"
    for items by (induction items) (simp_all add: map_filter_simps replayed_call_def split: option.split)
  with follow_up [OF kept assms(3,5,7)] assms(4,6) show ?thesis by simp
qed

theorem follow_up_continues_the_exchange_witness:
  "req_input (snd (replayed (example_world (db_apply (Tick 60) example_stored)) example_follow_up)) =
     [InFunctionCall ''call'' ''f'' ''{}'', InFunctionCallOutput ''call'' ''42'']
   \<and> (\<exists>w. conversation_of example_follow_up (example_world (db_apply (Tick 60) example_stored)) = Some (w, Some 0))"
proof -
  obtain row where row: "ResponseRepo_create (new_response 0 example_request example_calling) example_chat
      = (example_stored, Inr row)"
    using example_stores by blast
  have run: "(gateway_step (\<lambda>op. \<not> deletes_conversation op))\<^sup>*\<^sup>* (example_world example_chat\<lparr> w_db := example_stored \<rparr>)
      (example_world (db_apply (Tick 60) example_stored))"
    using manage [of "\<lambda>op. \<not> deletes_conversation op" "Tick 60" "example_world example_stored"] by auto
  have "resp_id example_calling = ''r''" "List.map_filter Item_as_function_call (resp_output example_calling)
      = [FunctionCallItem_new ''i'' ''call'' ''f'' ''{}'']"
    by (simp_all add: example_calling_def ex_answer_def Response_in_progress_def map_filter_simps)
  then show ?thesis
    using follow_up_continues_the_exchange [OF row run, of example_follow_up] example_stored_up
    by (simp add: example_follow_up_def example_app_def Request_new_def FunctionCallItem_new_def)
qed



text \<open>C14: Compression keeps the conversation and flattens its messages. When compression is on, every
  item of the input stays in its place, items that are not messages stay as they are, and every message
  keeps its role and becomes one text, so its images and audio are gone; nothing else of the
  request changes but the instructions.\<close>

theorem compression_flattens_messages:
  assumes "req_compression q = Some config" "cmp_enabled config"
  shows "list_all2 (\<lambda>old new. case old of InMessage role content \<Rightarrow> \<exists>t. new = InMessage role (IText t) | _ \<Rightarrow> new = old)
      (req_input q) (req_input (pp_request (preprocess_request v q)))
    \<and> (\<exists>i s. pp_request (preprocess_request v q) = q\<lparr> req_input := i, req_instructions := s \<rparr>)"
proof
  show "list_all2 (\<lambda>old new. case old of InMessage role content \<Rightarrow> \<exists>t. new = InMessage role (IText t) | _ \<Rightarrow> new = old)
      (req_input q) (req_input (pp_request (preprocess_request v q)))"
    unfolding compressed_input [OF assms] list_all2_map2
    by (rule list.rel_refl, split InputItem.split) (auto simp: compressed_message, simp_all add: compressed_item_def)
  show "\<exists>i s. pp_request (preprocess_request v q) = q\<lparr> req_input := i, req_instructions := s \<rparr>"
    using assms by (cases q) (auto simp: preprocess_request_def compress_input_def augment_instructions_def Let_def
        split: option.split)
qed

theorem compression_flattens_messages_witness:
  "\<exists>t. req_input (pp_request (preprocess_request example_prep example_image)) = [InMessage User (IText t)]"
proof -
  have "req_input example_image = [InMessage User (IParts [CText ''look'', CImage (Some ''u'') None None])]"
    "req_compression example_image = Some (CompressionConfig_default\<lparr> cmp_enabled := True \<rparr>)"
    by (simp_all add: example_image_def Request_new_def)
  with compression_flattens_messages [of example_image _ example_prep] show ?thesis by (auto simp: list_all2_Cons1)
qed


section \<open>Access\<close>

text \<open>C16: Who is served. When a database is configured, a request outside the public and the
  administrators' paths reaches the handler only with a bearer token that proves a stored key: its
  identifier is the key's, its hash is the stored hash, and the key is active and not expired. The
  handler then runs as that key and its user.\<close>

theorem served_requests_are_authenticated:
  assumes "authenticate E admin path header handler s = (s', Inr r)" "protected_path path" "ae_has_db E"
  shows "\<exists>k token a t. k \<in> set (db_api_keys s) \<and> ak_status k = ''active''
    \<and> (case ak_expires_at k of Some e \<Rightarrow> ae_now E < e | None \<Rightarrow> True)
    \<and> header = Some (''Bearer '' @ token) \<and> extract_key_id token = Some (ak_key_id k)
    \<and> ak_key_hash k = hash_api_key (ae_crypto E) token
    \<and> ac_api_key a = k \<and> ac_user_id a = ak_user_id k \<and> handler (Some a) t = (s', r)"
  using authenticate_served [OF assms] by (auto simp: proves_key_def ApiKey_is_valid_def)

theorem served_requests_are_authenticated_witness:
  "\<exists>k. k \<in> set (db_api_keys (fst example_created)) \<and> ak_status k = ''active''"
proof -
  obtain s x where "authenticate example_auth_env \<lparr> aa_key = [], aa_no_auth = False \<rparr> ''/v1/responses''
      (Some (''Bearer '' @ cr_key (snd example_created))) (\<lambda>a s. (s, ())) (fst example_created) = (s, Inr x)"
    using created_key_admitted [OF example_creation, of "''/v1/responses''"] example_hex_ok example_paths
    by (fastforce simp: example_auth_env_def example_key_request_def example_created_db example_db_def db_empty_def
        API_KEY_RANDOM_BYTES_def simp del: append_Cons)
  from served_requests_are_authenticated [OF this example_paths] show ?thesis
    by (auto simp: example_auth_env_def)
qed

text \<open>Revocation is final. After the owner revoked a key, no request with that key's identifier
  passes authentication again, on any instance and at any later time, whatever queries ran in
  between, unless one deleted the key.\<close>

theorem revoked_key_stays_refused:
  assumes "db_inv s" "revoke_api_key E auth key_id s = (s', Inr n)" "list_all (\<lambda>op. \<not> deletes_key op) ops"
    and "protected_path path" "ae_has_db E'" "bearer_token header = Some token" "extract_key_id token = Some key_id"
  shows "\<exists>s'' e. authenticate E' admin path header handler (fold db_apply ops s') = (s'', Inl e)"
proof (rule revoked_is_refused [OF _ _ assms(4-7)])
  show "db_inv (fold db_apply ops s')"
    using db_history_inv revoke_keeps_inv [OF assms(1), of E auth key_id] assms(2) by simp
  show "is_revoked key_id (fold db_apply ops s')"
    using revoked_in_history revoke_revokes(1) [OF assms(2)] assms(3) by blast
qed

theorem revoked_key_stays_refused_witness:
  "\<exists>s e. authenticate example_auth_env \<lparr> aa_key = [], aa_no_auth = False \<rparr> ''/v1/responses''
     (Some (''Bearer '' @ cr_key (snd example_created))) (\<lambda>a s. (s, ()))
     (fold db_apply [Tick 60, Update_last_used 0] example_revoked) = (s, Inl e)"
proof -
  have "bearer_token (Some (''Bearer '' @ cr_key (snd example_created))) = Some (cr_key (snd example_created))"
    by (simp only: bearer_token_Some)
  moreover have "ae_has_db example_auth_env" by (simp add: example_auth_env_def)
  ultimately show ?thesis
    using revoked_key_stays_refused [OF example_created_inv example_revocation, of "[Tick 60, Update_last_used 0]"]
      example_paths example_key_id by simp
qed

text \<open>C17: A new key works at once. If creating a key succeeds, with random bytes of the right length
  and an expiry that is not in the past, then the text returned to the caller authenticates on any
  protected path, as long as the database answers.\<close>

theorem created_key_authenticates:
  assumes "create_api_key E auth req s = Some (s', Inr r)" "hex_ok (ae_crypto E)"
    and "length (ae_random E) = API_KEY_RANDOM_BYTES"
    and "case ck_expires_in_days req of Some n \<Rightarrow> 0 < sint n | None \<Rightarrow> True"
    and "\<not> db_fails s' (db_queries s')" "protected_path path"
  shows "\<exists>s'' x. authenticate E admin path (Some (''Bearer '' @ cr_key r)) handler s' = (s'', Inr x)"
  using assms by (rule created_key_admitted)

theorem created_key_authenticates_witness:
  "\<exists>s x. authenticate example_auth_env \<lparr> aa_key = [], aa_no_auth = False \<rparr> ''/v1/responses''
     (Some (''Bearer '' @ cr_key (snd example_created))) (\<lambda>a s. (s, ())) (fst example_created) = (s, Inr x)"
  by (rule created_key_authenticates [OF example_creation])
    (simp_all add: example_auth_env_def example_hex_ok example_paths example_key_request_def
      example_created_db(1) example_db_def db_empty_def API_KEY_RANDOM_BYTES_def)

text \<open>C18: What a new key may do is what the request asks for, whatever the caller's own key may do: its
  scopes, its organization and its rate limit are those of the request, even for a caller whose key
  has no scope at all. The team or project the request names is not stored: the key is an
  organization key.\<close>

theorem created_key_powers_unchecked:
  assumes "create_api_key E auth req s = Some (s', Inr r)"
  shows "\<exists>k a. find_api_key (cr_key_id r) s' = Some k \<and> auth = Some a \<and> ak_user_id k = ak_user_id (ac_api_key a)
    \<and> ApiKey_get_scopes k = ck_scopes req \<and> ak_organization_id k = ck_organization_id req
    \<and> ak_rate_limit_rpm k = ck_rate_limit_rpm req
    \<and> ak_scope_type k = Some ''organization'' \<and> ak_scope_id k = None"
  using assms by (rule created_key_powers)

theorem created_key_powers_unchecked_witness:
  "\<exists>k. find_api_key (cr_key_id (snd example_created)) (fst example_created) = Some k
     \<and> ApiKey_get_scopes k = [''*''] \<and> \<not> AuthContext_has_scope example_caller ''responses:create''
     \<and> ck_scope_id example_key_request = Some 3 \<and> ak_scope_id k = None"
proof -
  have "\<not> AuthContext_has_scope example_caller ''responses:create''"
    by (simp add: AuthContext_has_scope_def ApiKey_has_scope_def example_caller_def api_key_row_def Let_def)
  with created_key_powers_unchecked [OF example_creation] show ?thesis
    by (auto simp: example_key_request_def)
qed

text \<open>The tables stay consistent. After any history of the queries that write, of failed ones and of
  the passing of time, identifiers are distinct and below the next one, key identifiers, slugs,
  response identifiers and the external names of an organization's users are distinct, and every
  message, response, log, usage, team, project and end user refers to a row that exists.\<close>

theorem database_stays_consistent:
  "db_inv (fold db_apply ops (db_empty fails numeric now))"
  by (rule db_history_inv) (rule db_empty_inv)

text \<open>C19: Provider credentials are read back. Whatever the random bytes of the data key and of the two
  nonces, a credential that was encrypted decrypts to itself under the same master key, with the nonce
  read from the stored parameters.\<close>

theorem credentials_round_trip:
  assumes "aead_ok C" "hex_ok C" "encrypt_credential C dek_bytes wrap_nonce nonce k key = Inr e"
    and "length dek_bytes = AES_KEY_SIZE" "length wrap_nonce = NONCE_SIZE" "length nonce = NONCE_SIZE" "is_utf8 key"
  shows "parse_encryption_params C (encryption_params C e) = Inr (ec_nonce e)
    \<and> decrypt_credential C k (ec_ciphertext e) (ec_wrapped_dek e) (ec_nonce e) = Inr key"
proof
  have "ec_nonce e = nonce"
    using assms(3) by (auto simp: encrypt_credential_def Let_def split: sum.splits)
  with assms(2,6) show "parse_encryption_params C (encryption_params C e) = Inr (ec_nonce e)"
    by (simp add: parse_params)
  show "decrypt_credential C k (ec_ciphertext e) (ec_wrapped_dek e) (ec_nonce e) = Inr key"
    by (rule decrypt_encrypt [OF assms(1,3-7)])
qed

theorem credentials_round_trip_witness:
  "\<exists>e. encrypt_credential example_crypto (replicate 32 CHR ''d'') (replicate 12 CHR ''w'') (replicate 12 CHR ''n'')
       \<lparr> mk_key = replicate 32 CHR ''m'' \<rparr> ''sk-1'' = Inr e
     \<and> decrypt_credential example_crypto \<lparr> mk_key = replicate 32 CHR ''m'' \<rparr> (ec_ciphertext e) (ec_wrapped_dek e)
         (ec_nonce e) = Inr ''sk-1''"
proof -
  obtain e where e: "encrypt_credential example_crypto (replicate 32 CHR ''d'') (replicate 12 CHR ''w'')
      (replicate 12 CHR ''n'') \<lparr> mk_key = replicate 32 CHR ''m'' \<rparr> ''sk-1'' = Inr e"
    by (simp add: encrypt_credential_def wrap_dek_def example_crypto_def Let_def)
  have "is_utf8 ''sk-1''" by code_simp
  with credentials_round_trip [OF example_aead_ok example_hex_ok e] e show ?thesis
    by (simp add: AES_KEY_SIZE_def NONCE_SIZE_def)
qed

section \<open>Tenants and operators\<close>

text \<open>C20: New settings of an organization take effect at once. After a successful update the gateway that
  served it no longer uses what it had cached: the routing policy of the next request is read from the
  stored row, whose settings are the old ones with the new ones merged over them, as long as the
  database answers.\<close>

theorem organization_update_takes_effect:
  assumes "update_organization app i req s = (app', s', Inr (n, g))" "\<not> db_fails s' (db_queries s')"
  shows "snd (snd (org_auto_routing_override f now (Some i) app' s')) =
      (case og_settings g of
         Some v \<Rightarrow> if v = JNull then OrgAutoRoutingOverride_default else f v
       | None \<Rightarrow> OrgAutoRoutingOverride_default)
    \<and> (\<exists>old \<in> set (db_organizations s). og_id old = i \<and> og_settings g = jsonb_patch (og_settings old) (up_settings req))"
proof
  show "snd (snd (org_auto_routing_override f now (Some i) app' s')) =
      (case og_settings g of
         Some v \<Rightarrow> if v = JNull then OrgAutoRoutingOverride_default else f v
       | None \<Rightarrow> OrgAutoRoutingOverride_default)"
    using update_takes_effect [OF assms, of now]
    by (auto simp: org_auto_routing_override_def row_settings_def split: prod.split option.split)
  show "\<exists>old \<in> set (db_organizations s). og_id old = i \<and> og_settings g = jsonb_patch (og_settings old) (up_settings req)"
    using updated_from assms(1) by blast
qed

theorem organization_update_takes_effect_witness:
  "\<exists>app s n g. update_organization example_app 0 example_update example_org_db = (app, s, Inr (n, g))
     \<and> og_settings g = jsonb_patch None (Some (JBool True))"
proof -
  obtain app s n g where up: "update_organization example_app 0 example_update example_org_db = (app, s, Inr (n, g))"
    "\<not> db_fails s (db_queries s)"
    using example_updated by blast
  from organization_update_takes_effect [OF up] up(1) show ?thesis
    by (auto simp: example_org_rows example_update_def)
qed

text \<open>C21: Deleting an organization leaves its keys. The organization, its teams, their projects and its end
  users are gone after a successful deletion, but every API key stays as it was, those of the
  organization included: a lookup of a key finds what it found before.\<close>

theorem deleted_organization_keeps_its_keys:
  assumes "delete_organization app i s = (s', Inr r)"
  shows "(\<forall>g \<in> set (db_organizations s'). og_id g \<noteq> i) \<and> (\<forall>t \<in> set (db_teams s'). tm_organization_id t \<noteq> i)
    \<and> (\<forall>u \<in> set (db_end_users s'). eu_organization_id u \<noteq> i)
    \<and> (\<forall>t \<in> set (db_teams s). tm_organization_id t = i \<longrightarrow> (\<forall>p \<in> set (db_projects s'). pj_team_id p \<noteq> tm_id t))
    \<and> find_api_key key_id s' = find_api_key key_id s"
  using deleted_organization [OF assms] by (simp add: find_api_key_def)

theorem deleted_organization_keeps_its_keys_witness:
  "\<exists>s r. delete_organization example_app 0 example_org_db = (s, Inr r) \<and> (\<forall>g \<in> set (db_organizations s). og_id g \<noteq> 0)"
  using deleted_organization_keeps_its_keys example_deleted by blast



section \<open>Breaker\<close>

text \<open>C23: The circuit breaker of a model opens exactly at the configured number of failures
  inside one window, not before, and closes when the cooldown has passed.\<close>

theorem breaker_opens_at_limit:
  assumes "window_of cfg (ts @ [t])" "length (ts @ [t]) = breaker_limit cfg"
  shows "\<not> is_model_breaker_open now m (breaker_run cfg (map (\<lambda>t. Failed t m) ts) Map.empty)
    \<and> (is_model_breaker_open now m (breaker_run cfg (map (\<lambda>t. Failed t m) (ts @ [t])) Map.empty)
       \<longleftrightarrow> now < t + secs (max (esc_breaker_cooldown_secs cfg) 1))"
proof -
  have "\<not> is_model_breaker_open now m (breaker_run cfg (map (\<lambda>t. Failed t m) ts) Map.empty)"
  proof (cases "ts = []")
    case False
    from run_failures [OF window_of_snoc(1) [OF assms(1) False] False _ _ breaker_ok_empty, of m] assms(2)
    show ?thesis by (simp add: is_model_breaker_open_def)
  qed (simp add: breaker_run_def is_model_breaker_open_def)
  with run_failures_opens [OF assms _ breaker_ok_empty, of m] show ?thesis
    by (simp add: is_model_breaker_open_def)
qed

theorem breaker_opens_at_limit_witness:
  "is_model_breaker_open 31000000000 ''a''
     (breaker_run (escalation ex_cfg) (map (\<lambda>t. Failed t ''a'') [0, 1000000000, 2000000000]) Map.empty)
   \<and> \<not> is_model_breaker_open 32000000000 ''a''
     (breaker_run (escalation ex_cfg) (map (\<lambda>t. Failed t ''a'') [0, 1000000000, 2000000000]) Map.empty)"
proof -
  have w: "window_of (escalation ex_cfg) ([0, 1000000000] @ [2000000000])"
    by (simp add: window_of_def secs_def ex_cfg_def max_def word_le_nat_alt)
  have c: "secs (max (esc_breaker_cooldown_secs (escalation ex_cfg)) 1) = 30000000000"
    by (simp add: secs_def ex_cfg_def max_def word_le_nat_alt)
  show ?thesis
    using breaker_opens_at_limit [OF w, of "31000000000" "''a''"] breaker_opens_at_limit [OF w, of "32000000000" "''a''"]
    by (simp add: ex_limit c)
qed

text \<open>After any sequence of failures and successes of any models the window of a
  model holds fewer failures than open its breaker.\<close>

theorem breaker_invariant:
  "breaker_ok cfg (breaker_run cfg es Map.empty)"
  by (rule breaker_ok_run [OF breaker_ok_empty])

section \<open>The organization's bounds\<close>



text \<open>A request can switch the organization's budget off. A request that names a budget of
  zero or less makes the merged budget the request's, and a budget that is not positive is taken as
  no budget at all.\<close>

theorem zero_budget_removes_org_budget:
  assumes "max_cost_usd r = Some c" "f64_le c (Fin 0)" "org_max_cost_usd org = Some b" "f64_lt (Fin 0) b"
  shows "budget_of (Some (merged_with org None alias)) = Some b
    \<and> budget_of (Some (merged_with org (Some r) alias)) = None"
proof -
  have "f64_le c b" using assms(2,4) f64_le_trans by (auto simp: f64_lt_def)
  with assms show ?thesis
    by (auto simp: budget_of_def merged_with_def Let_def f64_min_def f64_lt_def RoutingOptions_default_def
        dest: f64_le_not_NaN f64_le_antisym split: if_splits)
qed

theorem zero_budget_removes_org_budget_witness:
  "budget_of (Some (merged_with (ex_org\<lparr> org_max_cost_usd := Some (Fin 2) \<rparr>)
     (Some (ex_opts\<lparr> max_cost_usd := Some (Fin 0) \<rparr>)) None)) = None"
  using zero_budget_removes_org_budget
    [of "ex_opts\<lparr> max_cost_usd := Some (Fin 0) \<rparr>" "Fin 0" "ex_org\<lparr> org_max_cost_usd := Some (Fin 2) \<rparr>" "Fin 2" None]
  by (simp add: f64_lt_def)

text \<open>A request can lower the organization's minimal tier. When the request's maximal tier
  is below the organization's minimal tier both bounds become the request's maximum.\<close>

theorem low_max_tier_defeats_org_minimum:
  assumes "max_tier r = Some t" "org_min_tier org = Some lo" "t < lo" "org_max_tier org = None"
  shows "\<exists>hf. tier_bounds (Some (merged_with org (Some r) alias)) = (t, t, hf)"
proof -
  obtain m where m: "min_tier (merged_with org (Some r) alias) = Some m" "lo \<le> m"
    using merged_min_tier [OF assms(2)] by blast
  have "max_tier (merged_with org (Some r) alias) = Some t"
    using assms by (simp add: merged_with_def Let_def)
  with m assms(3) show ?thesis by (auto simp: tier_bounds_def Let_def)
qed

theorem low_max_tier_defeats_org_minimum_witness:
  "\<exists>hf. tier_bounds (Some (merged_with (ex_org\<lparr> org_min_tier := Some Complex \<rparr>)
     (Some (ex_opts\<lparr> max_tier := Some Simple \<rparr>)) None)) = (Simple, Simple, hf)"
  by (rule low_max_tier_defeats_org_minimum [of _ _ _ Complex])
    (simp_all add: ex_org_def OrgAutoRoutingOverride_default_def tier_order)

section \<open>Patterns\<close>

text \<open>C25: The glob matcher is the reference. Whenever the anchors of a pattern (what stands before
  its first and after its last star) fit the text without overlapping, the single pass of the matcher
  answers what the recursive specification of globs says, and does not panic.\<close>

theorem glob_matches_is_spec:
  assumes "star \<in> set p"
    and "length (hd (split_on star p)) + length (last (split_on star p)) \<le> length t"
  shows "glob_matches p t = Some (glob_spec p t)"
  using assms by (rule glob_matches_correct)

theorem glob_matches_is_spec_witness:
  "glob_matches ''gpt-*mini*'' ''gpt-5-mini-high'' = Some (glob_spec ''gpt-*mini*'' ''gpt-5-mini-high'')"
proof -
  have "star \<in> set ''gpt-*mini*''" by simp
  moreover have "length (hd (split_on star ''gpt-*mini*'')) + length (last (split_on star ''gpt-*mini*''))
      \<le> length ''gpt-5-mini-high''"
    by code_simp
  ultimately show ?thesis by (rule glob_matches_is_spec)
qed

text \<open>When the anchors overlap in the text, the text does not match, and with two stars or
  more the matcher is wrong: it panics on a slice that ends before it starts if some middle part is
  not empty, and accepts if all are.\<close>

theorem glob_matches_wrong_on_overlap:
  assumes "star \<in> set p"
    and "length t < length (hd (split_on star p)) + length (last (split_on star p))"
    and "starts_with t (hd (split_on star p))" "ends_with t (last (split_on star p))"
  shows "\<not> glob_spec p t \<and> glob_matches p t =
    (if length (split_on star p) = 2 then Some False
     else if \<forall>s \<in> set (butlast (tl (split_on star p))). s = [] then Some True else None)"
  using assms by (rule glob_matches_overlap)

theorem glob_matches_wrong_on_overlap_witness:
  "glob_matches ''gpt-5*x*5'' ''gpt-5'' = None"
proof -
  have "star \<in> set ''gpt-5*x*5''" by simp
  moreover have "split_on star ''gpt-5*x*5'' = [''gpt-5'', ''x'', ''5'']" by code_simp
  moreover have "starts_with ''gpt-5'' ''gpt-5''" "ends_with ''gpt-5'' ''5''" by code_simp+
  ultimately show ?thesis using glob_matches_wrong_on_overlap [of "''gpt-5*x*5''" "''gpt-5''"] by simp
qed

text \<open>The permission check of a request implements its specification: no deny pattern
  matches, and each of the two allow lists is empty or has a pattern that matches.\<close>

theorem permits_refines_spec:
  assumes "simple_options opts"
  shows "permits opts provider model = Some (permits_spec opts provider model)"
  using assms by (rule permits_eq_spec)

theorem permits_refines_spec_witness:
  "permits ex_opts ''p'' ''a'' = Some (permits_spec ex_opts ''p'' ''a'')"
  by (rule permits_refines_spec [OF ex_simple_options])

section \<open>Classification\<close>

text \<open>C26: A mode with a larger offset never routes a request lower: the heuristic score and the
  tier are monotone in the mode's offset, for every request whose weighted sum is a number.\<close>

theorem score_monotone_in_mode:
  assumes "fst (weighted_sum s f) \<noteq> NaN"
    and "f64_le (for_mode (hs_offsets s) m) (for_mode (hs_offsets s) m')"
  shows "f64_le (sr_score (HeuristicScorer_score s f m)) (sr_score (HeuristicScorer_score s f m'))
    \<and> sr_tier (HeuristicScorer_score s f m) \<le> sr_tier (HeuristicScorer_score s f m')"
  using assms by (rule score_mode_mono)

theorem score_monotone_in_mode_witness:
  "sr_tier (HeuristicScorer_score (HeuristicScorer_new ex_cfg) (AutoRouter_features ex_env ex_router ex_req) Balanced)
   \<le> sr_tier (HeuristicScorer_score (HeuristicScorer_new ex_cfg) (AutoRouter_features ex_env ex_router ex_req) Quality)"
proof -
  let ?s = "HeuristicScorer_new ex_cfg"
  have "fst (weighted_sum ?s (AutoRouter_features ex_env ex_router ex_req)) \<noteq> NaN" by code_simp
  moreover have "f64_le (for_mode (hs_offsets ?s) Balanced) (for_mode (hs_offsets ?s) Quality)" by code_simp
  ultimately show ?thesis using score_monotone_in_mode by blast
qed

text \<open>C27: A validated classifier cannot panic: for every model file that passes validation the
  prediction has one probability per tier and classification returns a result, whatever the
  request's features and the mathematical library.\<close>

theorem validated_classifier_total:
  assumes "LearnedModel_validate m = Inr ()"
  shows "(\<exists>p. LearnedModel_predict M m f = Some p \<and> length (lp_probs p) = 4)
    \<and> (\<exists>t s c. LearnedModel_classify M m f md b offs = Some (t, s, c))"
  using predict_total [OF assms] classify_total [OF assms] by blast

definition ex_learned :: LearnedModel where
  "ex_learned = \<lparr> lm_name = ''m'', lm_version = ''1'', lm_feature_names = FEATURE_NAMES,
     lm_mean = map (\<lambda>_. Fin 0) FEATURE_NAMES, lm_scale = map (\<lambda>_. Fin 1) FEATURE_NAMES,
     lm_classes = Tier_ALL, lm_coef = replicate 4 (map (\<lambda>_. Fin 0) FEATURE_NAMES),
     lm_intercept = replicate 4 (Fin 0), lm_boundaries = None, lm_metrics = JNull \<rparr>"

theorem validated_classifier_total_witness:
  "\<exists>t s c. LearnedModel_classify (sv_math ex_sv) ex_learned (AutoRouter_features ex_env ex_router ex_req) Balanced
     (boundaries ex_cfg) (mode_offsets ex_cfg) = Some (t, s, c)"
proof -
  have "LearnedModel_validate ex_learned = Inr ()" by code_simp
  from validated_classifier_total [OF this] show ?thesis by blast
qed

text \<open>A validated cost model predicts at least one and at most two hundred thousand output
  tokens (or not a number, if the mathematical library returns that), and never panics.\<close>

theorem validated_cost_model_bounded:
  assumes "CostModel_validate m = Inr ()"
  shows "\<exists>toks specific. predict_output_tokens M m f model = Some (toks, specific)
    \<and> (toks = NaN \<or> f64_le (Fin 1) toks \<and> f64_le toks (Fin 200000))"
  using assms by (rule predict_output_tokens_total)

definition ex_cost_model :: CostModel where
  "ex_cost_model = \<lparr> cm_kind = COST_MODEL_KIND, cm_name = ''m'', cm_version = ''1'',
     cm_feature_names = FEATURE_NAMES, cm_mean = map (\<lambda>_. Fin 0) FEATURE_NAMES,
     cm_scale = map (\<lambda>_. Fin 1) FEATURE_NAMES, cm_heads = [],
     cm_global = \<lparr> ch_coef = map (\<lambda>_. Fin 0) FEATURE_NAMES, ch_intercept = Fin 5, ch_rows = 9 \<rparr>,
     cm_prices = [], cm_metrics = JNull \<rparr>"

theorem validated_cost_model_bounded_witness:
  "\<exists>x. predict_output_tokens (sv_math ex_sv) ex_cost_model (AutoRouter_features ex_env ex_router ex_req) ''a'' = Some x"
proof -
  have "CostModel_validate ex_cost_model = Inr ()" by code_simp
  from validated_cost_model_bounded [OF this] show ?thesis by blast
qed

text \<open>The confidence read from a classifier's or a judge's reply lies between zero and one,
  whatever the reply says; the JSON reader is a parameter that returns finite numbers.\<close>

theorem reply_confidence_in_unit:
  assumes "\<forall>s v. from_str s = Some v \<longrightarrow> json_values_finite v"
  shows "(\<forall>a. parse_classifier_output U from_str t = Some a \<longrightarrow>
      f64_le (Fin 0) (ca_confidence a) \<and> f64_le (ca_confidence a) (Fin 1))
    \<and> (\<forall>a. parse_judge_output from_str t = Some a \<longrightarrow>
      f64_le (Fin 0) (ja_confidence a) \<and> f64_le (ja_confidence a) (Fin 1))"
  using parse_classifier_confidence [of U from_str t] parse_judge_confidence [of from_str t] assms by blast

theorem reply_confidence_in_unit_witness:
  "\<exists>a. parse_classifier_output ascii_unicode (\<lambda>_. None) ''complex'' = Some a
     \<and> f64_le (Fin 0) (ca_confidence a) \<and> f64_le (ca_confidence a) (Fin 1)"
proof -
  have "parse_classifier_output ascii_unicode (\<lambda>_. None) ''complex'' =
      Some \<lparr> ca_tier = Complex, ca_confidence = Fin (1 / 2) \<rparr>"
    by code_simp
  then show ?thesis using reply_confidence_in_unit [of "\<lambda>_. None" ascii_unicode "''complex''"] by simp
qed

section \<open>Selection inside a tier\<close>

text \<open>The cheapest strategy picks a minimum: no eligible model with a known price is cheaper
  than the pick, and among equal prices the pick is configured first.\<close>

theorem cheapest_is_minimal:
  assumes "cheapest_of els = Some (i, m, c)" "(j, m', Some c') \<in> set els"
    and "\<forall>e \<in> set els. snd (snd e) \<noteq> Some NaN"
  shows "\<exists>p. c = Some p \<and> f64_le p c' \<and> (p = c' \<longrightarrow> i \<le> j)"
  using assms by (rule cheapest_of_min)

theorem cheapest_is_minimal_witness:
  "\<exists>i m p. cheapest_of [(0, ''a'', Some (Fin 3)), (1, ''b'', Some (Fin 2)), (2, ''c'', None)] = Some (i, m, Some p)
     \<and> f64_le p (Fin 2)"
proof -
  let ?els = "[(0, ''a'', Some (Fin 3)), (1, ''b'', Some (Fin 2)), (2, ''c'', None)]"
  have "cheapest_of ?els \<noteq> None" by (simp add: cheapest_of_None)
  then obtain i m c where e: "cheapest_of ?els = Some (i, m, c)" by auto
  from cheapest_is_minimal [OF this, of 1 "''b''" "Fin 2"] show ?thesis using e by auto
qed

text \<open>Round robin is fair: as many consecutive selections in a tier as it has eligible models
  pick each of them once, in configured order, starting where the counter stands.\<close>

theorem round_robin_rotates:
  assumes "cat_strategy cat = RoundRobin"
    and "\<forall>m \<in> set (TierModels_get (cat_tiers cat) tier). is_eligible orc m \<noteq> None"
    and "eligibles orc (TierModels_get (cat_tiers cat) tier) = els" "els \<noteq> []"
    and "unat (rr_counter cat) + length els \<le> 2 ^ 64"
  shows "rr_picks (length els) cat tier orc samp =
    Some (rotate (unat (rr_counter cat)) (map (fst \<circ> snd) els))"
  using assms by (rule rr_picks_rotate)

definition ex_rr :: TierCatalog where
  "ex_rr = \<lparr> cat_tiers = \<lparr> simple = [''a'', ''b'', ''c''], medium = [], complex = [], reasoning = [] \<rparr>,
     cat_strategy = RoundRobin, rr_counter = 4 \<rparr>"

theorem round_robin_rotates_witness:
  "rr_picks 3 ex_rr Simple (ex_orc\<lparr> is_eligible := (\<lambda>_. Some True) \<rparr>) (\<lambda>_ _ _. Fin 0)
     = Some [''b'', ''c'', ''a'']"
proof -
  let ?o = "ex_orc\<lparr> is_eligible := (\<lambda>_. Some True) \<rparr>"
  have c: "cat_strategy ex_rr = RoundRobin" "unat (rr_counter ex_rr) = 4" by (simp_all add: ex_rr_def)
  have e: "eligibles ?o (TierModels_get (cat_tiers ex_rr) Simple) =
      [(0, ''a'', None), (1, ''b'', None), (2, ''c'', None)]"
    by (simp add: ex_rr_def eligibles_def entry_of_def ex_orc_def)
  let ?els = "[(0, ''a'', None), (1, ''b'', None), (2, ''c'', None)] :: eligible list"
  have l: "length ?els = 3" "map (fst \<circ> snd) ?els = [''a'', ''b'', ''c'']" by simp_all
  have "rr_picks (length ?els) ex_rr Simple ?o (\<lambda>_ _ _. Fin 0) =
      Some (rotate (unat (rr_counter ex_rr)) (map (fst \<circ> snd) ?els))"
    by (rule round_robin_rotates [OF c(1) _ e]) (simp_all add: c(2))
  then have "rr_picks 3 ex_rr Simple ?o (\<lambda>_ _ _. Fin 0) = Some (rotate 4 [''a'', ''b'', ''c''])"
    unfolding l c(2) .
  also have "rotate 4 [''a'', ''b'', ''c''] = [''b'', ''c'', ''a'']" by (simp add: eval_nat_numeral)
  finally show ?thesis .
qed

section \<open>Costs and the catalog\<close>

text \<open>C28: Every cost computed from the shipped price table is a finite number from zero to
  \<open>2^65\<close>, for all token counts of 32 bits, and never falls when the input or the output grows.\<close>

theorem table_cost_finite_monotone:
  assumes "CostCalculator_new model = Some p" "inp \<le> inp'" "out \<le> out'"
  shows "\<exists>x y. CostCalculator_calculate_cost CostCalculator_new model inp out c r = Some x
    \<and> CostCalculator_calculate_cost CostCalculator_new model inp' out' c r = Some y
    \<and> upto_pow 65 x \<and> upto_pow 65 y \<and> f64_le x y"
proof -
  have p: "pricing_ok p" using assms(1) by (rule CostCalculator_new_ok)
  show ?thesis
    using calculate_cost_upto [OF p] calculate_cost_mono [OF p assms(2,3)] assms(1)
    by (auto simp: CostCalculator_calculate_cost_def get_pricing_def)
qed

theorem table_cost_finite_monotone_witness:
  "\<exists>p x. CostCalculator_new ''gpt-4o'' = Some p
     \<and> CostCalculator_calculate_cost CostCalculator_new ''gpt-4o'' 1000 500 None None = Some x \<and> upto_pow 65 x"
proof -
  have "CostCalculator_new ''gpt-4o'' \<noteq> None"
    by (rule CostCalculator_new_known) (simp add: seed_pricing_1_def)
  then obtain p where p: "CostCalculator_new ''gpt-4o'' = Some p" by blast
  from table_cost_finite_monotone [OF p order_refl order_refl] p show ?thesis by blast
qed

text \<open>Refreshing prices from the database changes the price of exactly the models that some
  row's slug is mapped to; the last row for a model decides, and every other price stays.\<close>

theorem price_refresh_exact:
  "get_pricing (fst (apply_db_pricing c rows n)) m =
     (case filter (\<lambda>r. api_slug_for_scraped (sp_provider r) (sp_scraped_model_id r) = Some m) rows of
        [] \<Rightarrow> get_pricing c m
      | x # xs \<Rightarrow> Some (row_pricing (last (x # xs))))
   \<and> snd (apply_db_pricing c rows n) = n + length (filter (\<lambda>r. api_slug_for_scraped (sp_provider r) (sp_scraped_model_id r) \<noteq> None) rows)"
  using apply_db_pricing_get [of c rows n m] apply_db_pricing_count [of c rows n]
  by (simp add: row_slug_def)

text \<open>The model catalog knows exactly the models the gateway can serve, each under its own
  name and with a provider that serves it.\<close>

theorem catalog_knows_servable:
  "(ModelCatalog_get (ModelCatalog_build servable sources slug) m \<noteq> None \<longleftrightarrow> m \<in> fst ` set servable)
   \<and> list_all (\<lambda>e. ce_model e = m \<and> (m, ce_provider e) \<in> set servable)
       (case ModelCatalog_get (ModelCatalog_build servable sources slug) m of None \<Rightarrow> [] | Some e \<Rightarrow> [e])"
proof -
  have "list_all (\<lambda>e. ce_model e = m \<and> (m, ce_provider e) \<in> set servable)
       (case ModelCatalog_get (ModelCatalog_build servable sources slug) m of None \<Rightarrow> [] | Some e \<Rightarrow> [e])"
    using build_get_id [of servable sources slug m]
    by (cases "ModelCatalog_get (ModelCatalog_build servable sources slug) m") simp_all
  with build_get [of servable sources slug m] show ?thesis by blast
qed

text \<open>The tiers derived from a catalog hold at most the given number of models each, only
  models of the catalog, and no reasoning model in another tier.\<close>

theorem derived_tiers_sound:
  assumes "m \<in> set (TierModels_get (TierModels_from_catalog c k) t)"
  shows "length (TierModels_get (TierModels_from_catalog c k) t) \<le> k
    \<and> m \<in> ce_model ` snd ` set c
    \<and> (t = Reasoning \<longleftrightarrow> m \<in> set (TierModels_get (TierModels_from_catalog c k) Reasoning))"
  using from_catalog_lengths [of c k t] from_catalog_known [OF assms] assms
    from_catalog_reasoning_apart [of m c k t]
  by (cases "t = Reasoning") (auto simp: image_iff)

definition ex_entry :: CatalogEntry where
  "ex_entry = \<lparr> ce_model = ''a'', ce_provider = ''p'', ce_capabilities = [], ce_good_at = None,
     ce_context_window = None, ce_max_output_tokens = None, ce_input_per_million = Some (Fin 1),
     ce_output_per_million = Some (Fin 2), ce_from_database = True \<rparr>"

theorem derived_tiers_sound_witness:
  "length (TierModels_get (TierModels_from_catalog [(''a'', ex_entry)] 3) Reasoning) \<le> 3
   \<and> ''a'' \<in> ce_model ` snd ` set [(''a'', ex_entry)]"
proof -
  have "''a'' \<in> set (TierModels_get (TierModels_from_catalog [(''a'', ex_entry)] 3) Reasoning)" by code_simp
  from derived_tiers_sound [OF this] show ?thesis by blast
qed

text \<open>A canonical slug is well formed and canonical: only lower-case letters, digits and single
  inner dashes, and computing the slug of a slug changes nothing.\<close>

theorem canonical_slug_normal_form:
  "slug_ok (canonical_slug raw) \<and> canonical_slug (canonical_slug raw) = canonical_slug raw"
  using canonical_slug_ok canonical_slug_idem by blast

section \<open>Names, rewards, confidence\<close>

text \<open>Names are read back: the tier and the mode parsers invert the printers, and the model
  name \<open>auto:\<close> followed by a mode is the auto alias with that mode.\<close>

theorem names_round_trip:
  "Tier_parse (Tier_as_str t) = Some t \<and> RoutingMode_parse (RoutingMode_as_str m) = Some m
   \<and> parse_auto_model (''auto:'' @ RoutingMode_as_str m) = Some \<lparr> alias_mode = Some m \<rparr>"
proof -
  have "parse_auto_model ''auto:cost'' = Some \<lparr> alias_mode = Some Cost \<rparr>"
    "parse_auto_model ''auto:balanced'' = Some \<lparr> alias_mode = Some Balanced \<rparr>"
    "parse_auto_model ''auto:quality'' = Some \<lparr> alias_mode = Some Quality \<rparr>"
    by code_simp+
  then have "parse_auto_model (''auto:'' @ RoutingMode_as_str m) = Some \<lparr> alias_mode = Some m \<rparr>"
    by (cases m) simp_all
  then show ?thesis by (simp add: Tier_parse_as_str RoutingMode_parse_as_str)
qed

text \<open>Whatever a model's outcomes are, its reward lies between minus one and one, and the arm
  that has observed any list of rewards keeps both parameters at one or more, so its mean divides by
  at least two.\<close>

theorem rewards_and_arms_bounded:
  "f64_le (Fin (- 1)) (reward_for inp nt) \<and> f64_le (reward_for inp nt) (Fin 1)
   \<and> arm_ok (foldl ArmStats_observe ArmStats_default rewards)"
proof -
  have "arm_ok s \<Longrightarrow> arm_ok (foldl ArmStats_observe s rewards)" for s
    by (induction rewards arbitrary: s) (simp_all add: arm_ok_observe)
  then show ?thesis using reward_for_bounds arm_ok_default by blast
qed

text \<open>The estimated confidence of any answer to any prompt is a number between zero and one,
  rounding in single precision included.\<close>

theorem confidence_estimate_in_unit:
  "f64_le (Fin 0) (estimate_confidence U response prompt) \<and> f64_le (estimate_confidence U response prompt) (Fin 1)"
  by (rule estimate_confidence_bounds)

section \<open>The smart router\<close>

text \<open>C29: Smart routing refines its specification. Routing a model goes to the first candidate
  that is available -- its own provider, then the providers of the fallback chain that support the
  model, in order -- and names an enabled and healthy endpoint of it with its depth in the chain;
  when none is available it answers that no endpoint is healthy.\<close>

theorem routing_refines_first_available:
  assumes "draws_in_range v" "get_provider_for_model r model = Some primary"
  shows "case find (\<lambda>(d, p). available v r p) (route_candidates r model primary) of
      None \<Rightarrow> SmartRouter_route v r model = Some (r, Inl (no_healthy_endpoints model primary))
    | Some (depth, p) \<Rightarrow> \<exists>r' d. SmartRouter_route v r model = Some (r', Inr d) \<and> serves v r depth p d"
  by (rule drawing.route_spec [OF drawing.intro [OF assms(1)] assms(2)])

theorem routing_refines_first_available_witness:
  "\<exists>r' d. SmartRouter_route ex_draws ex_failed ''m'' = Some (r', Inr d) \<and> serves ex_draws ex_failed 1 ''q'' d"
  using routing_refines_first_available [OF ex_draws_in_range ex_provider] unfolding ex_first_available by simp

text \<open>Weighted selection is proportional. Of the targets a draw below the sum of the weights
  can give, exactly as many pick an endpoint as that endpoint has weight.\<close>

theorem weighted_selection_proportional:
  assumes "ss_strategy s = RS_Weighted" "weight_sum (filter ep_enabled es) < 2 ^ 32"
  shows "card {t \<in> {0..<weight_sum (filter ep_enabled es)}.
      StrategySelector_select (v\<lparr> se_gen_range := (\<lambda>_. t) \<rparr>) h s es = Some (s, Some e)}
    = weight_in e (filter ep_enabled es)"
proof (cases "filter ep_enabled es = []")
  case True
  then show ?thesis by (simp add: weight_sum_def weight_in_def del: filter_empty_conv)
next
  case False
  then have "StrategySelector_select v' h s es = select_weighted v' s (filter ep_enabled es)" for v'
    using assms(1) by (auto simp: StrategySelector_select_def Let_def simp del: filter_empty_conv)
  then show ?thesis using select_weighted_card [OF assms(2), of v s e] by simp
qed

theorem weighted_selection_proportional_witness:
  "card {t \<in> {0..<4}. StrategySelector_select (ex_draws\<lparr> se_gen_range := (\<lambda>_. t) \<rparr>) HealthTracker_with_defaults
      (StrategySelector_new RS_Weighted) [ex_endpoint ''a'' ''p'' 1, ex_endpoint ''b'' ''p'' 3]
      = Some (StrategySelector_new RS_Weighted, Some (ex_endpoint ''b'' ''p'' 3))} = 3"
proof -
  let ?es = "[ex_endpoint ''a'' ''p'' 1, ex_endpoint ''b'' ''p'' 3]"
  have e: "filter ep_enabled ?es = ?es" "weight_sum ?es = 4" "weight_in (ex_endpoint ''b'' ''p'' 3) ?es = 3"
    by (simp_all add: ex_endpoint_def ProviderEndpoint_with_weight_def ProviderEndpoint_new_def
        weight_sum_def weight_in_def)
  from weighted_selection_proportional [of "StrategySelector_new RS_Weighted" ?es ex_draws HealthTracker_with_defaults "ex_endpoint ''b'' ''p'' 3"]
  show ?thesis unfolding e by (simp add: StrategySelector_new_def)
qed

text \<open>C30: The circuit follows the failures. After a success, a run of counted failures of an
  endpoint leaves it healthy exactly while the run is shorter than the threshold, and again once the
  recovery timeout has passed since the last of them.\<close>

theorem circuit_opens_at_threshold:
  assumes "reachable cfg h" "fs \<noteq> []"
    and "\<forall>(t, err) \<in> set fs. rate_limit_is_failure cfg \<or> \<not> is_rate_limit err"
  shows "is_healthy now (fail_run e fs (record_success t0 e h)) e \<longleftrightarrow>
    length fs < max (unat (failure_threshold cfg)) 1 \<or> recovery_timeout cfg \<le> now - fst (last fs)"
proof -
  have "reachable cfg (record_success t0 e h)" by (rule reachable.step [OF assms(1) succeeded])
  from reachable_ok [OF this] have ok: "tracker_ok (record_success t0 e h)" "ht_config (record_success t0 e h) = cfg"
    by auto
  have "he_state (entry_of_endpoint (record_success t0 e h) e) = Healthy
      \<and> he_consecutive_failures (entry_of_endpoint (record_success t0 e h) e) = 0"
    by (auto simp: record_success_def Let_def put_entry_def entry_of_endpoint_def split: HealthState.splits)
  with fail_run_healthy [OF ok(1), of e fs now] assms ok(2) show ?thesis by simp
qed

theorem circuit_opens_at_threshold_witness:
  "\<not> is_healthy 9 (fail_run ''e'' [(5, Timeout 1), (7, Timeout 1)]
      (record_success 0 ''e'' (HealthTracker_new ex_health_config))) ''e''"
  using circuit_opens_at_threshold [OF reachable.start, of "[(5, Timeout 1), (7, Timeout 1)]" ex_health_config 9 "''e''" 0]
  by (simp add: ex_health_config_def HealthConfig_default_def is_rate_limit_def secs_def)

text \<open>The states of the health tracker. In every reachable tracker an endpoint is never
  half-open, has an opening time exactly when it is unhealthy, and when healthy has fewer consecutive
  failures than the threshold.\<close>

theorem health_states_reachable:
  assumes "reachable cfg h" "ht_entries h e = Some en"
  shows "he_state en \<noteq> HalfOpen \<and> (he_state en = Unhealthy \<longleftrightarrow> he_circuit_opened en \<noteq> None)
    \<and> (he_state en = Healthy \<longrightarrow> unat (he_consecutive_failures en) < max (unat (failure_threshold cfg)) 1)"
  using reachable_ok [OF assms(1)] assms(2) by (auto simp: tracker_ok_def entry_ok_def)

theorem health_states_reachable_witness:
  "he_state (entry_of_endpoint (mark_unhealthy 3 ''e'' (register_endpoint ''e'' (HealthTracker_new ex_health_config))) ''e'') = Unhealthy
   \<and> he_circuit_opened (entry_of_endpoint (mark_unhealthy 3 ''e'' (register_endpoint ''e'' (HealthTracker_new ex_health_config))) ''e'') \<noteq> None"
proof -
  let ?h = "mark_unhealthy 3 ''e'' (register_endpoint ''e'' (HealthTracker_new ex_health_config))"
  have r: "reachable ex_health_config ?h" by (intro reachable.step [OF reachable.step [OF reachable.start registered] marked_down])
  obtain en where en: "ht_entries ?h ''e'' = Some en" "he_state en = Unhealthy"
    by (simp add: mark_unhealthy_def update_entry_def register_endpoint_def put_entry_def)
  with health_states_reachable [OF r en(1)] show ?thesis by (simp add: entry_of_endpoint_def)
qed

section \<open>Provider adapters\<close>

text \<open>C31: Every adapter reads its stream line by line, however the network cuts it. For any chunks
  the events are the two announcements and then what a reader of the whole body, split into trimmed
  lines, answers line after line, with the event that closes the stream: nothing is lost, repeated or
  reordered between chunks, also where a chunk ends inside a line or a character.\<close>

theorem adapters_read_lines:
  "reads_lines (Anthropic_protocol v) AnthropicAcc_new \<and> reads_lines (OpenAI_protocol w) ChatAcc_new
   \<and> reads_lines (Mistral_protocol c1) ChatAcc_new \<and> reads_lines (Ollama_protocol c2) ChatAcc_new
   \<and> reads_lines (HuggingFace_protocol c3) ChatAcc_new \<and> reads_lines (Together_protocol c4) ChatAcc_new
   \<and> reads_lines (Fireworks_protocol c5) ChatAcc_new \<and> reads_lines (Gemini_protocol g) GeminiAcc_new"
  by (simp add: ends_once_reads_lines Anthropic_ends_once Gemini_ends_once returning_ends_once queued_ends_once
      OpenAI_protocol_def Mistral_protocol_def Ollama_protocol_def HuggingFace_protocol_def Together_protocol_def
      Fireworks_protocol_def)

text \<open>C32: A stream says what it completes. Whatever chunks and errors arrive, the text of a
  completed response is the text of the deltas streamed before it, for every adapter (Bedrock
  reads the events of its SDK instead of chunks).\<close>

theorem completed_response_was_streamed:
  "completes_with_streamed (Anthropic_protocol v) AnthropicAcc_new \<and> completes_with_streamed (OpenAI_protocol w) ChatAcc_new
   \<and> completes_with_streamed (Mistral_protocol c1) ChatAcc_new \<and> completes_with_streamed (Ollama_protocol c2) ChatAcc_new
   \<and> completes_with_streamed (HuggingFace_protocol c3) ChatAcc_new
   \<and> completes_with_streamed (Together_protocol c4) ChatAcc_new
   \<and> completes_with_streamed (Fireworks_protocol c5) ChatAcc_new \<and> completes_with_streamed (Gemini_protocol g) GeminiAcc_new
   \<and> sdk_completes_with_streamed b"
  by (simp add: Bedrock_completes anthropic_text.completed_text openai_text.completed_text mistral_text.completed_text
      ollama_text.completed_text huggingface_text.completed_text together_text.completed_text
      fireworks_text.completed_text gemini_text.completed_text AnthropicAcc_new_def ChatAcc_new_def GeminiAcc_new_def)

text \<open>C33: The adapters that return at their first event lose text. Of the texts a provider sends,
  the streams of Anthropic and Bedrock leave out the first, the streams of OpenAI, Mistral, Ollama and
  Hugging Face the first two (in their place stand the announcements of the item and of its part);
  the streams of Together, Fireworks and Gemini, which queue their events, carry every text.\<close>

theorem streams_lose_first_texts:
  "streams (Anthropic_protocol v) AnthropicAcc_new bs (concat (tl (A_wire_texts v (body_lines bs))))
   \<and> sdk_streams b evs (concat (tl (sdk_texts b evs)))
   \<and> streams (OpenAI_protocol w) ChatAcc_new bs (concat (drop 2 (chat_wires (oe_chunk w) (body_lines bs))))
   \<and> streams (Mistral_protocol c1) ChatAcc_new bs (concat (drop 2 (chat_wires (ce_chunk c1) (body_lines bs))))
   \<and> streams (Ollama_protocol c2) ChatAcc_new bs (concat (drop 2 (chat_wires (ce_chunk c2) (body_lines bs))))
   \<and> streams (HuggingFace_protocol c3) ChatAcc_new bs (concat (drop 2 (chat_wires (ce_chunk c3) (body_lines bs))))
   \<and> streams (Together_protocol c4) ChatAcc_new bs (concat (chat_wires (ce_chunk c4) (body_lines bs)))
   \<and> streams (Fireworks_protocol c5) ChatAcc_new bs (concat (chat_wires (ce_chunk c5) (body_lines bs)))
   \<and> streams (Gemini_protocol g) GeminiAcc_new bs (concat (map (gemini_wire g) (body_lines bs)))"
  by (intro conjI Anthropic_streams Bedrock_streams Gemini_streams)
    (simp_all add: returning_streams queued_streams OpenAI_protocol_def Mistral_protocol_def Ollama_protocol_def
      HuggingFace_protocol_def Together_protocol_def Fireworks_protocol_def)


text \<open>Parallel calls travel together. No two neighbouring messages of a request are batches of
  calls: consecutive calls are one assistant message, in the request of OpenAI for every input, in those
  of Anthropic and Gemini for an input without system messages.\<close>

theorem parallel_calls_are_batched:
  "successively (\<lambda>a b. \<not> (C_is_batch a \<and> C_is_batch b)) (OpenAI_messages r)
   \<and> successively (\<lambda>a b. \<not> (A_is_batch a \<and> A_is_batch b))
       (Anthropic_messages v (filter (\<lambda>i. \<not> is_system i) (req_input r)))
   \<and> successively (\<lambda>a b. \<not> (G_is_batch a \<and> G_is_batch b))
       (Gemini_contents g (filter (\<lambda>i. \<not> is_system i) (req_input r)))"
  by (intro conjI OpenAI_separated Anthropic_separated Gemini_separated) (simp_all add: is_system_def)

text \<open>Five adapters drop the system messages of the input. What Mistral, Ollama, Hugging Face,
  Together and Fireworks are told is the instructions and the items that are not system messages:
  nothing a system message says reaches the model.\<close>

theorem adapters_drop_system_messages:
  "says_no_system Chat_content Mistral_messages \<and> says_no_system Chat_content Ollama_messages
   \<and> says_no_system Chat_content HuggingFace_messages \<and> says_no_system Together_content Together_messages
   \<and> says_no_system Together_content Fireworks_messages"
  using skipping_messages_read
  by (simp add: Mistral_messages_def Ollama_messages_def HuggingFace_messages_def Together_messages_def
      Fireworks_messages_def says_no_system_def skipping_reads)


text \<open>Requests share a prompt cache key only for equal content, up to collisions of the hash: the
  bytes that are hashed determine the model, the instructions, the system messages one by one, the tools
  and the user, provided that no field has \<open>2^64\<close> bytes or more.\<close>

theorem prompt_cache_key_separates:
  assumes "key_bytes k r = key_bytes k r'"
    and "\<forall>x \<in> set (key_fields k r) \<union> set (key_fields k r'). length x < 2 ^ 64"
  shows "req_model r = req_model r' \<and> bytes_or_empty (req_instructions r) = bytes_or_empty (req_instructions r')
    \<and> List.map_filter (system_field k) (req_input r) = List.map_filter (system_field k) (req_input r')
    \<and> bytes_or_empty (kc_tools_json k (req_tools r)) = bytes_or_empty (kc_tools_json k (req_tools r'))
    \<and> bytes_or_empty (req_user r) = bytes_or_empty (req_user r')"
  using assms framed_inj [of "key_fields k r" "key_fields k r'"] by (auto simp: key_bytes_def key_fields_def)

theorem prompt_cache_key_separates_witness:
  "key_bytes ex_key_codec ex_key_request = key_bytes ex_key_codec (ex_key_request\<lparr> req_stream := True \<rparr>)
   \<and> List.map_filter (system_field ex_key_codec) (req_input ex_key_request) = [''be brief'']
   \<and> List.map_filter (system_field ex_key_codec) (req_input (ex_key_request\<lparr> req_stream := True \<rparr>)) = [''be brief'']"
proof -
  have b: "key_bytes ex_key_codec ex_key_request = key_bytes ex_key_codec (ex_key_request\<lparr> req_stream := True \<rparr>)"
    by (simp add: key_bytes_def key_fields_def)
  have s: "List.map_filter (system_field ex_key_codec) (req_input ex_key_request) = [''be brief'']"
    by (simp add: List.map_filter_simps)
  show ?thesis using prompt_cache_key_separates [OF b] ex_key_lengths b s by simp
qed

text \<open>The choice among candidates does not panic. For every reply of Gemini, every strategy and
  criterion, a response is built: the comparison of the scores, which the code unwraps, is always
  defined, and with candidates to choose from one of them is chosen.\<close>

theorem gemini_choice_total:
  "(\<exists>resp. transform_response_with_validation v uuid now reply model strategy criteria = Some resp)
   \<and> (\<exists>c m. Gemini_select v (Some (x # xs)) strategy criteria = Some (Some c, m) \<and> c \<in> set (x # xs))"
proof
  from Gemini_select_Some [of v "grs_candidates reply" strategy criteria]
  show "\<exists>resp. transform_response_with_validation v uuid now reply model strategy criteria = Some resp"
    by (auto simp: transform_response_with_validation_def)
  from Gemini_select_Some [of v "Some (x # xs)" strategy criteria]
  show "\<exists>c m. Gemini_select v (Some (x # xs)) strategy criteria = Some (Some c, m) \<and> c \<in> set (x # xs)" by auto
qed

section \<open>Rate limits\<close>

text \<open>C36: The rate limit is exact. In any interleaving of the requests of all keys inside a
  window, the number of requests of a key that are allowed is the number it makes or what is left of
  its limit, whichever is smaller; the requests of other keys do not matter.\<close>

theorem rate_limit_exact_per_key:
  assumes "counter_store (rt_redis l) val" "\<And>k. limit k < 2 ^ 31"
    and "\<And>k. 0 \<le> count_of val s (rate_key l k) \<and> count_of val s (rate_key l k) < 2 ^ 31"
  shows "\<exists>s' rs. check_run l limit calls s = (s', Inr rs) \<and> length rs = length calls
    \<and> (\<forall>k. allowed_for k rs = min (calls_for k calls) (unat (limit k) - nat (count_of val s (rate_key l k))))"
  using assms by (rule check_run_counts)

theorem rate_limit_exact_per_key_witness:
  "\<exists>s' rs. check_run ex_limiter (\<lambda>_. 2) [(0, ''a''), (1, ''b''), (2, ''a''), (3, ''a'')] Map.empty = (s', Inr rs)
     \<and> allowed_for ''a'' rs = 2 \<and> allowed_for ''b'' rs = 1"
proof -
  have c: "count_of (\<lambda>s. s) Map.empty k = 0" for k by (simp add: count_of_def)
  from rate_limit_exact_per_key [OF ex_limiter_store, of "\<lambda>_. 2" Map.empty
      "[(0, ''a''), (1, ''b''), (2, ''a''), (3, ''a'')]"]
  obtain s' rs where "check_run ex_limiter (\<lambda>_. 2) [(0, ''a''), (1, ''b''), (2, ''a''), (3, ''a'')] Map.empty = (s', Inr rs)"
    "\<And>k. allowed_for k rs = min (calls_for k [(0, ''a''), (1, ''b''), (2, ''a''), (3, ''a'')]) 2"
    by (auto simp: c)
  then show ?thesis by (simp add: calls_for_def)
qed

text \<open>C37: Over the limit nothing is served. When a key has used its limit, the middleware answers
  429 with a \<open>Retry-After\<close> header, whatever the handler is, and the counters do not move.\<close>

theorem over_limit_never_served:
  assumes "counter_store (rt_redis rl) val" "li_rate_limiter st = Some rl" "li_enabled st" "rq_auth rq = Some auth"
    and "effective_rpm st auth < 2 ^ 31"
    and "0 \<le> count_of val s (rate_key rl (la_key_id auth))" "count_of val s (rate_key rl (la_key_id auth)) < 2 ^ 31"
    and "uint (effective_rpm st auth) \<le> count_of val s (rate_key rl (la_key_id auth))"
  shows "\<exists>s' resp. (\<forall>handler. rate_limit_middleware st clock rq handler s = (s', resp)) \<and> val s' = val s
    \<and> rp_status resp = 429 \<and> map_of (rp_headers resp) ''retry-after'' \<noteq> None"
  using assms by (rule middleware_blocks)

theorem over_limit_never_served_witness:
  "\<exists>s' resp. (\<forall>handler. rate_limit_middleware ex_limit_state ex_limit_clock ex_limit_request handler
      [''aura:ratelimit:k'' \<mapsto> 2] = (s', resp)) \<and> rp_status resp = 429"
proof -
  have r: "effective_rpm ex_limit_state ex_limit_auth = 2"
    by (simp add: effective_rpm_def ex_limit_state_def ex_limit_auth_def)
  have c: "count_of (\<lambda>s. s) [''aura:ratelimit:k'' \<mapsto> 2] (rate_key ex_limiter (la_key_id ex_limit_auth)) = 2"
    by (simp add: count_of_def rate_key_def ex_limiter_def RateLimiter_new_def ex_limit_auth_def)
  from over_limit_never_served [OF ex_limiter_store, of ex_limit_state ex_limit_request ex_limit_auth
      "[''aura:ratelimit:k'' \<mapsto> 2]" ex_limit_clock, unfolded r c]
  show ?thesis by (auto simp: ex_limit_state_def ex_limit_request_def)
qed

section \<open>Streams\<close>

text \<open>C38: How the network cuts a stream does not matter. Pushing the chunks one by one gives what
  pushing their concatenation gives; the buffer is always valid UTF-8, at most three bytes wait, and
  valid text arrives unchanged.\<close>

theorem chunking_is_irrelevant:
  assumes "is_utf8 buffer"
  shows "foldl push_utf8 (buffer, []) chunks = push_utf8 (buffer, []) (concat chunks)
    \<and> is_utf8 (fst (foldl push_utf8 (buffer, []) chunks))
    \<and> length (snd (foldl push_utf8 (buffer, []) chunks)) \<le> 3
    \<and> (is_utf8 (concat chunks) \<longrightarrow> foldl push_utf8 (buffer, []) chunks = (buffer @ concat chunks, []))"
proof -
  have e: "foldl push_utf8 (buffer, []) chunks = utf8_decode buffer (concat chunks)"
    by (cases "chunks = []") (simp_all add: push_utf8_chunks push_utf8_decode)
  with utf8_decode_is_utf8 [OF assms] utf8_decode_pending utf8_run_None_decode show ?thesis
    by (simp add: push_utf8_decode is_utf8_run)
qed

theorem chunking_is_irrelevant_witness:
  "foldl push_utf8 ([], []) [[CHR ''a'', CHR 0xE2], [CHR 0x80], [CHR 0x94]] =
     ([CHR ''a'', CHR 0xE2, CHR 0x80, CHR 0x94], [])"
proof -
  let ?cs = "[[CHR ''a'', CHR 0xE2], [CHR 0x80], [CHR 0x94]]"
  have e: "is_utf8 []" by (simp add: is_utf8_run utf8_run.simps)
  have "is_utf8 [CHR ''a'', CHR 0xE2, CHR 0x80, CHR 0x94]"
    by (simp add: is_utf8_run utf8_run.simps utf8_char_width_def byte_of_def
      second_byte_ok_def continuation_def eval_nat_numeral)
  with chunking_is_irrelevant [OF e, of ?cs, THEN conjunct2, THEN conjunct2, THEN conjunct2]
  have "foldl push_utf8 ([], []) ?cs = ([] @ concat ?cs, [])" by simp
  then show ?thesis by simp
qed

text \<open>Server-sent events are read back: a message with data whose fields have no line feed and
  nothing to trim is what parsing its printed form returns, retry interval included.\<close>

theorem sse_messages_round_trip:
  assumes "opt_field (sm_event m)" "opt_field (sm_id m)" "line_field (sm_data m)" "sm_data m \<noteq> []"
  shows "SseMessage_parse (SseMessage_to_sse m) = Some m"
  using assms by (rule parse_to_sse)

theorem sse_messages_round_trip_witness:
  "SseMessage_parse (SseMessage_to_sse \<lparr> sm_event = Some ''response.created'', sm_data = ''{}'', sm_id = None, sm_retry = Some 5 \<rparr>)
     = Some \<lparr> sm_event = Some ''response.created'', sm_data = ''{}'', sm_id = None, sm_retry = Some 5 \<rparr>"
  by (rule sse_messages_round_trip)
    (simp_all add: opt_field_def line_field_visible visible_def byte_of_def)

section \<open>Services around the call\<close>

text \<open>C39: Self-consistency returns the majority. When more than half of the calls that completed
  give the same normalized text, a fan-out that selects the most frequent answer returns one of
  those answers, with the metadata of the fan-out attached, whatever order the hash map of groups is
  visited in.\<close>

theorem fanout_majority_wins:
  assumes "visits_all v" "1 < n" "n \<le> MAX_N"
    and "length (completed call r n) < 2 * count_list (texts_of v (completed call r n)) t"
  shows "\<exists>i why. i < length (completed call r n)
    \<and> run_fanout v call r n MostFrequent =
        Some (Inr (attach_fanout_metadata MostFrequent n (of_nat i) (Some why) (req_stream r)
          (map usage_or_default (completed call r n)) (completed call r n ! i)))
    \<and> normalize_text (fe_unicode v) (Response_text (completed call r n ! i)) = t"
proof -
  have "completed call r n \<noteq> []" using assms(4) by (auto simp: texts_of_def)
  from run_fanout_answers [OF assms(1-3) this, of MostFrequent] assms(4)
  show ?thesis by (auto simp: texts_of_def)
qed

theorem fanout_majority_wins_witness:
  "\<exists>w. run_fanout ex_fanout ex_calls (Request_new ''m'' []) 4 MostFrequent = Some (Inr w)
     \<and> normalize_text ascii_unicode (Response_text w) = ''42''"
proof -
  have v: "visits_all ex_fanout" by (simp add: visits_all_def ex_fanout_def)
  have m: "1 < (4 :: u8)" "4 \<le> MAX_N" by (simp_all add: MAX_N_def)
  have "length (map ex_answer [''42'', ''7'', ''42.''])
      < 2 * count_list (texts_of ex_fanout (map ex_answer [''42'', ''7'', ''42.''])) ''42''"
    unfolding ex_texts by simp
  from fanout_majority_wins [OF v m, of ex_calls "Request_new ''m'' []" "''42''", unfolded ex_completed, OF this]
  obtain i why where "run_fanout ex_fanout ex_calls (Request_new ''m'' []) 4 MostFrequent =
      Some (Inr (attach_fanout_metadata MostFrequent 4 (of_nat i) (Some why) (req_stream (Request_new ''m'' []))
        (map usage_or_default (map ex_answer [''42'', ''7'', ''42.''])) (map ex_answer [''42'', ''7'', ''42.''] ! i)))"
    "normalize_text ascii_unicode (Response_text (map ex_answer [''42'', ''7'', ''42.''] ! i)) = ''42''"
    by (auto simp: ex_fanout_def)
  then show ?thesis by (metis attach_text)
qed

text \<open>C40: The response cache looks only at the fields of its key. After a response is stored for a
  request, a request that differs in any other field - the conversation it continues, its user, its
  organization - is answered with that response. The store is any one that reads back what was
  written with a positive time to live.\<close>

theorem cache_ignores_conversation:
  assumes "kv_store (rk_redis k) val" "cx_response_json c resp = Inr json" "cx_parse_response c json = Inr resp"
    and "0 < (case ttl of Some t \<Rightarrow> t | None \<Rightarrow> rk_default_ttl k)" "same_key_fields r r'"
  shows "\<exists>s1 s2 hit. cache_set c k r resp ttl s = (s1, Inr (generate_cache_key c k r))
    \<and> cache_get c k r' s1 = (s2, Inr (Some hit)) \<and> ch_response hit = resp"
  using assms by (rule cache_set_get)

theorem cache_ignores_conversation_witness:
  "\<exists>s1 s2 hit. cache_set ex_codec (ResponseCache_new ex_kv) (Request_new ''m'' [])
       (Response_in_progress 0 ''r'' ''m'') None Map.empty
       = (s1, Inr (generate_cache_key ex_codec (ResponseCache_new ex_kv) (Request_new ''m'' [])))
     \<and> cache_get ex_codec (ResponseCache_new ex_kv) (Request_with_previous_response (Request_new ''m'' []) ''x'') s1
       = (s2, Inr (Some hit)) \<and> ch_response hit = Response_in_progress 0 ''r'' ''m''"
proof (rule cache_ignores_conversation)
  show "kv_store (rk_redis (ResponseCache_new ex_kv)) (\<lambda>s. s)"
    by (simp add: kv_store_def ResponseCache_new_def ex_kv_def cmd_return_def)
qed (simp_all add: ex_codec_def ResponseCache_new_def DEFAULT_CACHE_TTL_def same_key_fields_def Request_with_previous_response_def)

end
